(* ===== verification/Prelude.thy ===== *)
theory Prelude
  imports Complex_Main "HOL-Library.Word" "HOL-Library.Sublist"
begin

text \<open>
  Shared vocabulary of the ModelForge development: the result type of fallible
  operations, unique-key database tables (Prisma's \<^verbatim>\<open>findUnique\<close>, \<^verbatim>\<open>create\<close> and
  \<^verbatim>\<open>updateMany\<close>), sums over the rows of a table, the JavaScript numeric and string
  helpers the gateway uses, and the interface of a transition system
  whose operations keep an invariant.
\<close>

named_theorems model_simps \<open>unfolding rules of the operations of the model\<close>
named_theorems inv_intros \<open>preservation of invariants by the operations\<close>

type_synonym ('e, 'a) result = "'e + 'a"

subsection \<open>Tables with a unique key\<close>

text \<open>A table is the list of its rows in insertion order.\<close>

definition table_find :: "('r \<Rightarrow> 'k) \<Rightarrow> 'k \<Rightarrow> 'r list \<Rightarrow> 'r option" where
  "table_find key k rows = find (\<lambda>r. key r = k) rows"

text \<open>Insertion fails, as the unique index does, when the key is taken.\<close>

definition table_insert :: "('r \<Rightarrow> 'k) \<Rightarrow> 'r \<Rightarrow> 'r list \<Rightarrow> 'r list option" where
  "table_insert key r rows =
     (if table_find key (key r) rows = None then Some (rows @ [r]) else None)"

definition unique_by :: "('r \<Rightarrow> 'k) \<Rightarrow> 'r list \<Rightarrow> bool" where
  "unique_by key rows = distinct (map key rows)"

lemma table_find_none_iff: "table_find key k rows = None \<longleftrightarrow> k \<notin> key ` set rows"
  by (auto simp: table_find_def find_None_iff)

lemma table_find_some_in:
  assumes "table_find key k rows = Some r"
  shows "r \<in> set rows" and "key r = k"
  using assms by (auto simp: table_find_def find_Some_iff)

lemma table_find_append_same [simp]:
  "table_find key k rows = None \<Longrightarrow> key r = k \<Longrightarrow> table_find key k (rows @ [r]) = Some r"
  by (induction rows) (auto simp: table_find_def split: if_splits)

lemma table_find_append_mono [simp]:
  "table_find key k rows = Some r \<Longrightarrow> table_find key k (rows @ more) = Some r"
  by (induction rows) (auto simp: table_find_def split: if_splits)

lemma table_find_append_other [simp]:
  "key r \<noteq> k \<Longrightarrow> table_find key k (rows @ [r]) = table_find key k rows"
  by (induction rows) (auto simp: table_find_def)

lemma table_find_unique:
  assumes "unique_by key rows" and "r \<in> set rows"
  shows "table_find key (key r) rows = Some r"
  using assms
  by (induction rows) (auto simp: table_find_def unique_by_def)

lemma unique_by_append:
  "unique_by key (rows @ [r]) \<longleftrightarrow> unique_by key rows \<and> key r \<notin> key ` set rows"
  by (auto simp: unique_by_def)

lemma unique_by_nil [simp]: "unique_by key []"
  by (simp add: unique_by_def)

lemma table_insert_unique:
  "table_insert key r rows = Some rows' \<Longrightarrow> unique_by key rows \<Longrightarrow> unique_by key rows'"
  by (auto simp: table_insert_def table_find_none_iff unique_by_append split: if_splits)

lemma unique_by_update:
  "(\<And>r. r \<in> set rows \<Longrightarrow> key (f r) = key r) \<Longrightarrow> unique_by key (map f rows) = unique_by key rows"
  by (simp add: unique_by_def cong: map_cong)

lemma table_find_append:
  "table_find key k (xs @ ys) = (case table_find key k xs of None \<Rightarrow> table_find key k ys | Some r \<Rightarrow> Some r)"
  by (induction xs) (auto simp: table_find_def)

subsection \<open>Sums over selected rows\<close>

definition sum_where :: "('r \<Rightarrow> bool) \<Rightarrow> ('r \<Rightarrow> int) \<Rightarrow> 'r list \<Rightarrow> int" where
  "sum_where P f rows = sum_list (map f (filter P rows))"

lemma sum_where_nil [simp]: "sum_where P f [] = 0"
  by (simp add: sum_where_def)

lemma sum_where_append [simp]:
  "sum_where P f (rows @ more) = sum_where P f rows + sum_where P f more"
  by (simp add: sum_where_def)

lemma sum_where_cons [simp]:
  "sum_where P f (r # rows) = (if P r then f r else 0) + sum_where P f rows"
  by (simp add: sum_where_def)

lemma sum_where_none: "\<forall>r \<in> set rows. \<not> P r \<Longrightarrow> sum_where P f rows = 0"
  by (induction rows) auto

lemma sum_where_cong:
  "(\<And>r. r \<in> set rows \<Longrightarrow> P r = Q r) \<Longrightarrow> sum_where P f rows = sum_where Q f rows"
  by (induction rows) auto

subsection \<open>Text of numbers\<close>

fun digits_of :: "nat \<Rightarrow> string" where
  "digits_of n = (if n < 10 then [char_of (48 + n)]
                  else digits_of (n div 10) @ [char_of (48 + n mod 10)])"

declare digits_of.simps [simp del]

definition show_int :: "int \<Rightarrow> string" where
  "show_int i = (if i < 0 then ''-'' @ digits_of (nat (- i)) else digits_of (nat i))"

subsection \<open>JavaScript strings\<close>

text \<open>
  Strings are lists of 8-bit characters, i.e. the Latin-1 part of JavaScript's
  strings; \<^verbatim>\<open>trim\<close>, \<^verbatim>\<open>toLowerCase\<close> and the regular-expression class \<^verbatim>\<open>\s\<close> are exact there.
\<close>

definition chr_code :: "char \<Rightarrow> nat" where
  "chr_code c = of_char c"

definition is_space :: "char \<Rightarrow> bool" where
  "is_space c \<longleftrightarrow> chr_code c \<in> {9, 10, 11, 12, 13, 32, 160}"

definition is_digit :: "char \<Rightarrow> bool" where
  "is_digit c \<longleftrightarrow> 48 \<le> chr_code c \<and> chr_code c \<le> 57"

definition is_lower :: "char \<Rightarrow> bool" where
  "is_lower c \<longleftrightarrow> 97 \<le> chr_code c \<and> chr_code c \<le> 122"

definition is_upper :: "char \<Rightarrow> bool" where
  "is_upper c \<longleftrightarrow> 65 \<le> chr_code c \<and> chr_code c \<le> 90"

definition lower_char :: "char \<Rightarrow> char" where
  "lower_char c =
     (if is_upper c \<or> (192 \<le> chr_code c \<and> chr_code c \<le> 222 \<and> chr_code c \<noteq> 215)
      then char_of (chr_code c + 32) else c)"

definition to_lower :: "string \<Rightarrow> string" where
  "to_lower s = map lower_char s"

definition trim_start :: "string \<Rightarrow> string" where
  "trim_start s = dropWhile is_space s"

definition trim_end :: "string \<Rightarrow> string" where
  "trim_end s = rev (dropWhile is_space (rev s))"

definition js_trim :: "string \<Rightarrow> string" where
  "js_trim s = trim_end (trim_start s)"

definition starts_with :: "string \<Rightarrow> string \<Rightarrow> bool" where
  "starts_with p s \<longleftrightarrow> take (length p) s = p"

definition ends_with :: "string \<Rightarrow> string \<Rightarrow> bool" where
  "ends_with p s \<longleftrightarrow> starts_with (rev p) (rev s)"

fun includes_at :: "string \<Rightarrow> string \<Rightarrow> bool" where
  "includes_at p [] = (p = [])"
| "includes_at p (c # s) = (starts_with p (c # s) \<or> includes_at p s)"

text \<open>The rules that evaluate trimming and lower case on a literal by \<^theory_text>\<open>simp\<close>.\<close>

lemmas js_text_defs = js_trim_def trim_start_def trim_end_def is_space_def to_lower_def lower_char_def is_upper_def
  chr_code_def char_of_def starts_with_def

text \<open>\<^verbatim>\<open>xs.join(sep)\<close> and \<^verbatim>\<open>s.split(sep)\<close> on a one-character separator.\<close>

fun join :: "string \<Rightarrow> string list \<Rightarrow> string" where
  "join sep [] = []"
| "join sep [x] = x"
| "join sep (x # y # zs) = x @ sep @ join sep (y # zs)"

fun split_on :: "char \<Rightarrow> string \<Rightarrow> string list" where
  "split_on c [] = [[]]"
| "split_on c (x # xs) =
     (if x = c then [] # split_on c xs
      else (case split_on c xs of [] \<Rightarrow> [[x]] | y # ys \<Rightarrow> (x # y) # ys))"

lemma split_on_nonempty [simp]: "split_on c s \<noteq> []"
  by (induction s) (auto split: list.split)

lemma join_cons_char: "join sep ((x # y) # ys) = x # join sep (y # ys)"
  by (cases ys) auto

lemma join_split_on: "join [c] (split_on c s) = s"
proof (induction s)
  case (Cons x xs)
  obtain y ys where "split_on c xs = y # ys"
    by (cases "split_on c xs") auto
  with Cons show ?case by (auto simp: join_cons_char)
qed simp

lemma length_to_lower [simp]: "length (to_lower s) = length s"
  by (simp add: to_lower_def)

text \<open>\<^verbatim>\<open>Math.ceil(a / b)\<close> and \<^verbatim>\<open>Math.round(a / b)\<close> of integers, for positive \<^verbatim>\<open>b\<close>.\<close>

definition ceil_div :: "int \<Rightarrow> int \<Rightarrow> int" where
  "ceil_div a b = - ((- a) div b)"

definition round_div :: "int \<Rightarrow> int \<Rightarrow> int" where
  "round_div a b = (2 * a + b) div (2 * b)"

definition js_round :: "rat \<Rightarrow> int" where
  "js_round x = \<lfloor>x + 1 / 2\<rfloor>"

lemma ceil_div_bounds:
  assumes "0 < b"
  shows "a \<le> ceil_div a b * b" and "ceil_div a b * b < a + b"
proof -
  have eq: "- a = b * ((- a) div b) + (- a) mod b" by simp
  have "0 \<le> (- a) mod b" "(- a) mod b < b" using assms by auto
  moreover have "ceil_div a b * b = - (b * ((- a) div b))"
    by (simp add: ceil_div_def mult.commute)
  ultimately show "a \<le> ceil_div a b * b" and "ceil_div a b * b < a + b"
    using eq by linarith+
qed

subsection \<open>\<^verbatim>\<open>Array.prototype.sort\<close> with a comparator\<close>

text \<open>
  A stable insertion sort: with a comparator that is a total preorder every stable
  sort gives this result.
\<close>

fun js_insert :: "('a \<Rightarrow> 'a \<Rightarrow> rat) \<Rightarrow> 'a \<Rightarrow> 'a list \<Rightarrow> 'a list" where
  "js_insert cmp x [] = [x]"
| "js_insert cmp x (y # ys) = (if cmp x y \<le> 0 then x # y # ys else y # js_insert cmp x ys)"

definition js_sort :: "('a \<Rightarrow> 'a \<Rightarrow> rat) \<Rightarrow> 'a list \<Rightarrow> 'a list" where
  "js_sort cmp xs = foldr (js_insert cmp) xs []"

definition preorder_cmp :: "('a \<Rightarrow> 'a \<Rightarrow> rat) \<Rightarrow> bool" where
  "preorder_cmp cmp \<longleftrightarrow>
     (\<forall>x y. cmp x y \<le> 0 \<or> cmp y x \<le> 0) \<and>
     (\<forall>x y z. cmp x y \<le> 0 \<longrightarrow> cmp y z \<le> 0 \<longrightarrow> cmp x z \<le> 0)"

lemma set_js_insert [simp]: "set (js_insert cmp x xs) = insert x (set xs)"
  by (induction xs) auto

lemma set_js_sort [simp]: "set (js_sort cmp xs) = set xs"
  by (induction xs) (auto simp: js_sort_def)

lemma length_js_insert [simp]: "length (js_insert cmp x xs) = Suc (length xs)"
  by (induction xs) auto

lemma length_js_sort [simp]: "length (js_sort cmp xs) = length xs"
  by (induction xs) (auto simp: js_sort_def)

lemma js_sort_nil_iff [simp]: "js_sort cmp xs = [] \<longleftrightarrow> xs = []"
  using length_js_sort [of cmp xs] by (metis length_0_conv)

lemma js_sort_cons_in: "js_sort cmp xs = y # ys \<Longrightarrow> y \<in> set xs"
  using set_js_sort [of cmp xs] by (metis list.set_intros(1))

lemma distinct_js_insert: "distinct (js_insert cmp x xs) \<longleftrightarrow> x \<notin> set xs \<and> distinct xs"
  by (induction xs) auto

lemma distinct_js_sort [simp]: "distinct (js_sort cmp xs) \<longleftrightarrow> distinct xs"
  using set_js_sort [of cmp] unfolding js_sort_def
  by (induction xs) (auto simp: distinct_js_insert)

lemma sorted_js_insert:
  assumes "preorder_cmp cmp" and "sorted_wrt (\<lambda>a b. cmp a b \<le> 0) xs"
  shows "sorted_wrt (\<lambda>a b. cmp a b \<le> 0) (js_insert cmp x xs)"
  using assms(2)
proof (induction xs)
  case (Cons y ys)
  have "cmp y x \<le> 0" if "\<not> cmp x y \<le> 0"
    using assms(1) that unfolding preorder_cmp_def by blast
  moreover have "cmp x z \<le> 0" if "cmp x y \<le> 0" "z \<in> set ys" for z
    using assms(1) Cons.prems that unfolding preorder_cmp_def by (meson sorted_wrt.simps(2))
  ultimately show ?case using Cons by auto
qed simp

lemma sorted_js_sort:
  "preorder_cmp cmp \<Longrightarrow> sorted_wrt (\<lambda>a b. cmp a b \<le> 0) (js_sort cmp xs)"
  by (induction xs) (auto simp: js_sort_def sorted_js_insert)

lemma hd_js_sort_least:
  assumes "preorder_cmp cmp" and "x \<in> set xs"
  shows "cmp (hd (js_sort cmp xs)) x \<le> 0"
proof -
  obtain y ys where eq: "js_sort cmp xs = y # ys"
    using assms(2) by (cases "js_sort cmp xs") auto
  have "x \<in> set (y # ys)" using assms(2) eq set_js_sort [of cmp xs] by simp
  moreover have "cmp y y \<le> 0" using assms(1) unfolding preorder_cmp_def by blast
  ultimately show ?thesis using sorted_js_sort [OF assms(1), of xs] eq by auto
qed

lemma preorder_cmp_key: "preorder_cmp (\<lambda>a b. f a - f b)"
  by (auto simp: preorder_cmp_def)

text \<open>\<^verbatim>\<open>a || b\<close> on comparator results: the second decides ties of the first.\<close>

definition then_cmp :: "('a \<Rightarrow> 'a \<Rightarrow> rat) \<Rightarrow> ('a \<Rightarrow> 'a \<Rightarrow> rat) \<Rightarrow> 'a \<Rightarrow> 'a \<Rightarrow> rat" where
  "then_cmp c d a b = (if c a b \<noteq> 0 then c a b else d a b)"

lemma preorder_then_cmp:
  assumes "preorder_cmp d"
  shows "preorder_cmp (then_cmp (\<lambda>a b. f a - f b) d)"
  using assms unfolding preorder_cmp_def then_cmp_def
  by (auto split: if_splits)

subsection \<open>Operations that keep an invariant\<close>

text \<open>
  The contract every stateful component meets: a set of operations, the initial
  state, and an invariant. Client lemmas speak of any sequence of
  operations, i.e. any interleaving of the requests that run them.
\<close>

locale guarded_system =
  fixes step :: "'op \<Rightarrow> 's \<Rightarrow> 's"
    and ok :: "'op \<Rightarrow> bool"
    and inv :: "'s \<Rightarrow> bool"
    and init :: "'s"
  assumes init_inv: "inv init"
    and step_inv: "inv s \<Longrightarrow> ok op \<Longrightarrow> inv (step op s)"
begin

lemma run_inv: "inv s \<Longrightarrow> \<forall>op \<in> set ops. ok op \<Longrightarrow> inv (fold step ops s)"
  by (induction ops arbitrary: s) (auto simp: step_inv)

lemma reachable_inv: "\<forall>op \<in> set ops. ok op \<Longrightarrow> inv (fold step ops init)"
  by (rule run_inv [OF init_inv])

end

text \<open>The special case in which every operation is admissible.\<close>

locale invariant_system =
  fixes step :: "'op \<Rightarrow> 's \<Rightarrow> 's"
    and inv :: "'s \<Rightarrow> bool"
    and init :: "'s"
  assumes init_inv: "inv init"
    and step_inv: "inv s \<Longrightarrow> inv (step op s)"

sublocale invariant_system \<subseteq> guarded: guarded_system step "\<lambda>_. True" inv init
  by unfold_locales (auto simp: init_inv step_inv)

context invariant_system
begin

lemma run_inv: "inv s \<Longrightarrow> inv (fold step ops s)"
  by (rule guarded.run_inv) simp_all

lemma reachable_inv: "inv (fold step ops init)"
  by (rule run_inv [OF init_inv])

end

text \<open>
  Idempotent operations: each one carries a key; once the state has
  recorded the key, running the operation again changes nothing.
\<close>

locale idempotent_system = invariant_system step inv init
  for step :: "'op \<Rightarrow> 's \<Rightarrow> 's" and inv and init +
  fixes recorded :: "'op \<Rightarrow> 's \<Rightarrow> bool"
  assumes recorded_stays: "recorded op s \<Longrightarrow> recorded op (step op' s)"
    and recorded_noop: "inv s \<Longrightarrow> recorded op s \<Longrightarrow> step op s = s"
begin

lemma recorded_run: "recorded op s \<Longrightarrow> recorded op (fold step ops s)"
  by (induction ops arbitrary: s) (auto simp: recorded_stays)

lemma replay_noop:
  assumes "inv s" and "recorded op s"
  shows "step op (fold step ops s) = fold step ops s"
  by (rule recorded_noop [OF run_inv [OF assms(1)] recorded_run [OF assms(2)]])

lemma replay_run_noop:
  assumes "inv s" and "\<forall>op \<in> set ops. recorded op s"
  shows "fold step ops s = s"
  using assms by (induction ops) (auto simp: recorded_noop)

end

end
