(* ===== verification/QuotaLedger.thy ===== *)
theory QuotaLedger
  imports Prelude
begin

text \<open>
  The quota ledger of the gateway (\<^verbatim>\<open>lib/quotaLedger.ts\<close>) together with the two
  other writers of the same tables: \<^verbatim>\<open>persistUsageEvent\<close> (\<^verbatim>\<open>lib/usage.ts\<close>) and the
  period resets (\<^verbatim>\<open>workers/invoice-worker.ts\<close>, the administrator's quota reset).

  A customer has one \<^verbatim>\<open>QuotaLedger\<close> row (unique by \<^verbatim>\<open>customerId\<close>, which stands for
  its id as well); \<^verbatim>\<open>QuotaLedgerEntry\<close> rows are unique by idempotency key. Token
  counts are JavaScript \<^verbatim>\<open>bigint\<close>s, hence \<^verbatim>\<open>int\<close>; times are milliseconds.
\<close>

type_synonym cid = string

record quota_ledger =
  periodStart :: int
  periodEnd :: int
  tokensUsed :: int
  tokensReserved :: int

datatype entry_reason = RESERVE | COMMIT | RELEASE | USAGE_COMMIT

record quota_entry =
  ledgerId :: cid
  entryKey :: string
  deltaTokens :: int
  reservedDelta :: int
  reason :: entry_reason
  entryRequestId :: string

record usage_event =
  ueCustomer :: cid
  uePromptTokens :: int
  ueCompletionTokens :: int
  ueModelSlug :: string
  ueRequestId :: string
  ueKey :: string
  ueInferenceRequest :: "string option"

record qdb =
  ledgers :: "cid \<rightharpoonup> quota_ledger"
  entries :: "quota_entry list"
  usageEvents :: "usage_event list"

definition qdb_empty :: qdb where
  "qdb_empty = \<lparr>ledgers = Map.empty, entries = [], usageEvents = []\<rparr>"

text \<open>Prisma's error codes: write conflict, unique violation, record not found.\<close>

datatype db_code = P2034 | P2002 | P2025

datatype quota_error = QuotaExceeded | Prisma db_code | OtherError

definition wouldExceedQuota :: "int \<Rightarrow> int \<Rightarrow> int \<Rightarrow> int \<Rightarrow> bool" where
  "wouldExceedQuota used reserved estimate limit \<longleftrightarrow>
     limit > 0 \<and> used + reserved + estimate > limit"

definition isPrismaError :: "quota_error \<Rightarrow> db_code \<Rightarrow> bool" where
  "isPrismaError e code \<longleftrightarrow> e = Prisma code"

text \<open>\<^verbatim>\<open>now + 30 * 86_400_000\<close>.\<close>

definition defaultPeriod :: "int \<Rightarrow> int \<times> int" where
  "defaultPeriod now = (now, now + 30 * 86400000)"

definition new_ledger :: "int \<Rightarrow> int \<Rightarrow> quota_ledger" where
  "new_ledger ps pe = \<lparr>periodStart = ps, periodEnd = pe, tokensUsed = 0, tokensReserved = 0\<rparr>"

text \<open>\<^verbatim>\<open>quotaLedger.upsert\<close> with an empty update: keep the row or create it.\<close>

definition upsert_ledger :: "cid \<Rightarrow> quota_ledger \<Rightarrow> qdb \<Rightarrow> quota_ledger \<times> qdb" where
  "upsert_ledger c fresh db =
     (case ledgers db c of
        Some l \<Rightarrow> (l, db)
      | None \<Rightarrow> (fresh, db\<lparr>ledgers := (ledgers db)(c \<mapsto> fresh)\<rparr>))"

definition find_entry :: "string \<Rightarrow> qdb \<Rightarrow> quota_entry option" where
  "find_entry k db = table_find entryKey k (entries db)"

definition reserved_of :: "cid \<Rightarrow> string \<Rightarrow> quota_entry list \<Rightarrow> int" where
  "reserved_of c r es =
     sum_where (\<lambda>e. ledgerId e = c \<and> entryRequestId e = r) reservedDelta es"

subsection \<open>The transaction bodies\<close>

text \<open>
  Each transaction returns its result and the database after it: on an exception
  the transaction is rolled back, so the database is the one it started from.
\<close>

record reserve_input =
  rvCustomer :: cid
  rvRequest :: string
  rvEstimate :: int
  rvKey :: string
  rvLimit :: int
  rvPeriodStart :: "int option"
  rvPeriodEnd :: "int option"

definition reserve_tx :: "int \<Rightarrow> reserve_input \<Rightarrow> qdb \<Rightarrow> (quota_error, quota_entry) result \<times> qdb" where
  "reserve_tx now i db =
     (case find_entry (rvKey i) db of
        Some existing \<Rightarrow> (Inr existing, db)
      | None \<Rightarrow>
          (let ps = (case rvPeriodStart i of None \<Rightarrow> fst (defaultPeriod now) | Some t \<Rightarrow> t);
               pe = (case rvPeriodEnd i of None \<Rightarrow> snd (defaultPeriod now) | Some t \<Rightarrow> t);
               (ledger, db1) = upsert_ledger (rvCustomer i) (new_ledger ps pe) db
           in if wouldExceedQuota (tokensUsed ledger) (tokensReserved ledger)
                   (rvEstimate i) (rvLimit i)
              then (Inl QuotaExceeded, db)
              else
                (let entry = \<lparr>ledgerId = rvCustomer i, entryKey = rvKey i, deltaTokens = 0,
                              reservedDelta = rvEstimate i, reason = RESERVE,
                              entryRequestId = rvRequest i\<rparr>
                 in case table_insert entryKey entry (entries db1) of
                      None \<Rightarrow> (Inl (Prisma P2002), db)
                    | Some es \<Rightarrow>
                        (Inr entry,
                         db1\<lparr>entries := es,
                             ledgers := (ledgers db1)(rvCustomer i \<mapsto>
                               ledger\<lparr>tokensReserved := tokensReserved ledger + rvEstimate i\<rparr>)\<rparr>))))"

record commit_input =
  cmCustomer :: cid
  cmRequest :: string
  cmActual :: int
  cmKey :: string

definition commit_tx :: "commit_input \<Rightarrow> qdb \<Rightarrow> (quota_error, quota_entry) result \<times> qdb" where
  "commit_tx i db =
     (case find_entry (cmKey i) db of
        Some existing \<Rightarrow> (Inr existing, db)
      | None \<Rightarrow>
          (case ledgers db (cmCustomer i) of
             None \<Rightarrow> (Inl (Prisma P2025), db)
           | Some ledger \<Rightarrow>
               (let reserved = reserved_of (cmCustomer i) (cmRequest i) (entries db);
                    release = (if reserved > 0 then reserved else 0);
                    entry = \<lparr>ledgerId = cmCustomer i, entryKey = cmKey i, deltaTokens = cmActual i,
                             reservedDelta = - release, reason = COMMIT,
                             entryRequestId = cmRequest i\<rparr>
                in case table_insert entryKey entry (entries db) of
                     None \<Rightarrow> (Inl (Prisma P2002), db)
                   | Some es \<Rightarrow>
                       (Inr entry,
                        db\<lparr>entries := es,
                           ledgers := (ledgers db)(cmCustomer i \<mapsto>
                             ledger\<lparr>tokensUsed := tokensUsed ledger + cmActual i,
                                    tokensReserved := tokensReserved ledger - release\<rparr>)\<rparr>))))"

record release_input =
  rlCustomer :: cid
  rlRequest :: string
  rlReserved :: int
  rlKey :: string

definition release_tx :: "release_input \<Rightarrow> qdb \<Rightarrow> (quota_error, quota_entry) result \<times> qdb" where
  "release_tx i db =
     (case find_entry (rlKey i) db of
        Some existing \<Rightarrow> (Inr existing, db)
      | None \<Rightarrow>
          (case ledgers db (rlCustomer i) of
             None \<Rightarrow> (Inl (Prisma P2025), db)
           | Some ledger \<Rightarrow>
               (let amount = (if rlReserved i > tokensReserved ledger then tokensReserved ledger
                              else rlReserved i);
                    entry = \<lparr>ledgerId = rlCustomer i, entryKey = rlKey i, deltaTokens = 0,
                             reservedDelta = - amount, reason = RELEASE,
                             entryRequestId = rlRequest i\<rparr>
                in case table_insert entryKey entry (entries db) of
                     None \<Rightarrow> (Inl (Prisma P2002), db)
                   | Some es \<Rightarrow>
                       (Inr entry,
                        db\<lparr>entries := es,
                           ledgers := (ledgers db)(rlCustomer i \<mapsto>
                             ledger\<lparr>tokensReserved := tokensReserved ledger - amount\<rparr>)\<rparr>))))"

record usage_job =
  ujCustomer :: cid
  ujPromptTokens :: int
  ujCompletionTokens :: int
  ujModelSlug :: string
  ujRequestId :: string
  ujKey :: string
  ujInferenceRequest :: "string option"

definition commit_key :: "string \<Rightarrow> string" where
  "commit_key k = k @ '':commit''"

definition job_event :: "usage_job \<Rightarrow> usage_event" where
  "job_event j =
     \<lparr>ueCustomer = ujCustomer j, uePromptTokens = ujPromptTokens j,
      ueCompletionTokens = ujCompletionTokens j, ueModelSlug = ujModelSlug j,
      ueRequestId = ujRequestId j, ueKey = ujKey j, ueInferenceRequest = ujInferenceRequest j\<rparr>"

text \<open>
  \<^verbatim>\<open>UsageEvent.inferenceRequestId\<close> is unique when present: the create of an event
  whose inference request already has one is a P2002 that rolls everything back.
\<close>

definition inference_taken :: "usage_job \<Rightarrow> qdb \<Rightarrow> bool" where
  "inference_taken j db \<longleftrightarrow> ujInferenceRequest j \<noteq> None
     \<and> (\<exists>e \<in> set (usageEvents db). ueInferenceRequest e = ujInferenceRequest j)"

definition persist_tx :: "int \<Rightarrow> usage_job \<Rightarrow> qdb \<Rightarrow> (quota_error, unit) result \<times> qdb" where
  "persist_tx now j db =
     (let tokens = ujPromptTokens j + ujCompletionTokens j in
      case table_find ueKey (ujKey j) (usageEvents db) of
        Some _ \<Rightarrow> (Inr (), db)
      | None \<Rightarrow>
          (let (ledger, db1) =
                 upsert_ledger (ujCustomer j) (new_ledger now (now + 30 * 86400000)) db;
               entry = \<lparr>ledgerId = ujCustomer j, entryKey = commit_key (ujKey j),
                        deltaTokens = tokens, reservedDelta = 0, reason = USAGE_COMMIT,
                        entryRequestId =
                          (case ujInferenceRequest j of None \<Rightarrow> ujRequestId j | Some r \<Rightarrow> r)\<rparr>;
               (inserted, db2) =
                 (case table_insert entryKey entry (entries db1) of
                    None \<Rightarrow> (False, db1)
                  | Some es \<Rightarrow> (True, db1\<lparr>entries := es\<rparr>))
           in if inference_taken j db2 then (Inl (Prisma P2002), db)
              else
                (let db3 = db2\<lparr>usageEvents := usageEvents db2 @ [job_event j]\<rparr>
                 in (Inr (),
                     if inserted
                     then db3\<lparr>ledgers := (ledgers db3)(ujCustomer j \<mapsto>
                            ledger\<lparr>tokensUsed := tokensUsed ledger + tokens\<rparr>)\<rparr>
                     else db3))))"

text \<open>
  The invoice worker opens the next period: \<^verbatim>\<open>upsert\<close> with the new bounds and zero
  usage. The administrator's reset only zeroes the usage of an existing row.
\<close>

definition roll_period :: "cid \<Rightarrow> int \<Rightarrow> int \<Rightarrow> qdb \<Rightarrow> qdb" where
  "roll_period c ps pe db =
     (case ledgers db c of
        Some l \<Rightarrow> db\<lparr>ledgers := (ledgers db)(c \<mapsto>
                       l\<lparr>periodStart := ps, periodEnd := pe, tokensUsed := 0\<rparr>)\<rparr>
      | None \<Rightarrow> db\<lparr>ledgers := (ledgers db)(c \<mapsto> new_ledger ps pe)\<rparr>)"

definition reset_usage :: "cid \<Rightarrow> int \<Rightarrow> int \<Rightarrow> qdb \<Rightarrow> qdb" where
  "reset_usage c ps pe db =
     (case ledgers db c of
        Some l \<Rightarrow> db\<lparr>ledgers := (ledgers db)(c \<mapsto> l\<lparr>tokensUsed := 0\<rparr>)\<rparr>
      | None \<Rightarrow> db\<lparr>ledgers := (ledgers db)(c \<mapsto> new_ledger ps pe)\<rparr>)"

subsection \<open>Interleavings of committed transactions\<close>

datatype qop =
    Reserve int reserve_input
  | Commit commit_input
  | Release release_input
  | Persist int usage_job
  | RollPeriod cid int int
  | ResetUsage cid int int

fun run_qop :: "qop \<Rightarrow> qdb \<Rightarrow> qdb" where
  "run_qop (Reserve now i) db = snd (reserve_tx now i db)"
| "run_qop (Commit i) db = snd (commit_tx i db)"
| "run_qop (Release i) db = snd (release_tx i db)"
| "run_qop (Persist now j) db = snd (persist_tx now j db)"
| "run_qop (RollPeriod c ps pe) db = roll_period c ps pe db"
| "run_qop (ResetUsage c ps pe) db = reset_usage c ps pe db"

subsection \<open>Retries under serializable isolation\<close>

text \<open>
  What the database decides for one attempt of a transaction: it commits, or it is
  aborted with an error while other transactions commit.
\<close>

datatype fate = Commits | Aborts quota_error "qop list"

definition attempt_tx ::
    "fate \<Rightarrow> (qdb \<Rightarrow> (quota_error, 'a) result \<times> qdb) \<Rightarrow> qdb \<Rightarrow> (quota_error, 'a) result \<times> qdb" where
  "attempt_tx f tx db =
     (case f of Commits \<Rightarrow> tx db | Aborts e others \<Rightarrow> (Inl e, fold run_qop others db))"

function serializable ::
    "nat \<Rightarrow> (nat \<Rightarrow> qdb \<Rightarrow> (quota_error, 'a) result \<times> qdb) \<Rightarrow> qdb \<Rightarrow> (quota_error, 'a) result \<times> qdb" where
  "serializable attempt operation db =
     (case operation attempt db of
        (Inr v, db') \<Rightarrow> (Inr v, db')
      | (Inl e, db') \<Rightarrow>
          if attempt < 2 \<and> isPrismaError e P2034
          then serializable (Suc attempt) operation db'
          else (Inl e, db'))"
  by pat_completeness auto
termination by (relation "measure (\<lambda>(attempt, _, _). 2 - attempt)") auto

declare serializable.simps [simp del]

text \<open>The \<^verbatim>\<open>catch\<close> clause shared by the three operations.\<close>

definition recover_duplicate ::
    "string \<Rightarrow> (quota_error, quota_entry) result \<times> qdb \<Rightarrow> (quota_error, quota_entry) result \<times> qdb" where
  "recover_duplicate k r =
     (case r of
        (Inr e, db) \<Rightarrow> (Inr e, db)
      | (Inl err, db) \<Rightarrow>
          if isPrismaError err P2002
          then (case find_entry k db of Some e \<Rightarrow> (Inr e, db) | None \<Rightarrow> (Inl (Prisma P2025), db))
          else (Inl err, db))"

definition reserveQuota ::
    "(nat \<Rightarrow> fate) \<Rightarrow> int \<Rightarrow> reserve_input \<Rightarrow> qdb \<Rightarrow> (quota_error, quota_entry) result \<times> qdb" where
  "reserveQuota fates now i db =
     recover_duplicate (rvKey i)
       (serializable 0 (\<lambda>n. attempt_tx (fates n) (reserve_tx now i)) db)"

definition commitQuota ::
    "(nat \<Rightarrow> fate) \<Rightarrow> commit_input \<Rightarrow> qdb \<Rightarrow> (quota_error, quota_entry) result \<times> qdb" where
  "commitQuota fates i db =
     recover_duplicate (cmKey i)
       (serializable 0 (\<lambda>n. attempt_tx (fates n) (commit_tx i)) db)"

definition releaseQuota ::
    "(nat \<Rightarrow> fate) \<Rightarrow> release_input \<Rightarrow> qdb \<Rightarrow> (quota_error, quota_entry) result \<times> qdb" where
  "releaseQuota fates i db =
     recover_duplicate (rlKey i)
       (serializable 0 (\<lambda>n. attempt_tx (fates n) (release_tx i)) db)"


subsection \<open>Abstract specification: an append-only log with running totals\<close>

text \<open>
  Posting an entry appends it and adds its two deltas to the ledger row. Every
  operation that touches the log is such a posting.
\<close>

definition post_entry :: "quota_entry \<Rightarrow> quota_ledger \<Rightarrow> qdb \<Rightarrow> qdb" where
  "post_entry e l db =
     db\<lparr>entries := entries db @ [e],
        ledgers := (ledgers db)(ledgerId e \<mapsto>
          l\<lparr>tokensUsed := tokensUsed l + deltaTokens e,
             tokensReserved := tokensReserved l + reservedDelta e\<rparr>)\<rparr>"

definition ledger_or :: "cid \<Rightarrow> quota_ledger \<Rightarrow> qdb \<Rightarrow> quota_ledger" where
  "ledger_or c fresh db = (case ledgers db c of Some l \<Rightarrow> l | None \<Rightarrow> fresh)"

definition reserve_period :: "int \<Rightarrow> reserve_input \<Rightarrow> quota_ledger" where
  "reserve_period now i =
     new_ledger (case rvPeriodStart i of None \<Rightarrow> fst (defaultPeriod now) | Some t \<Rightarrow> t)
                (case rvPeriodEnd i of None \<Rightarrow> snd (defaultPeriod now) | Some t \<Rightarrow> t)"

definition reserve_entry :: "reserve_input \<Rightarrow> quota_entry" where
  "reserve_entry i =
     \<lparr>ledgerId = rvCustomer i, entryKey = rvKey i, deltaTokens = 0,
      reservedDelta = rvEstimate i, reason = RESERVE, entryRequestId = rvRequest i\<rparr>"

definition commit_entry :: "commit_input \<Rightarrow> qdb \<Rightarrow> quota_entry" where
  "commit_entry i db =
     \<lparr>ledgerId = cmCustomer i, entryKey = cmKey i, deltaTokens = cmActual i,
      reservedDelta = - max 0 (reserved_of (cmCustomer i) (cmRequest i) (entries db)),
      reason = COMMIT, entryRequestId = cmRequest i\<rparr>"

definition release_entry :: "release_input \<Rightarrow> quota_ledger \<Rightarrow> quota_entry" where
  "release_entry i l =
     \<lparr>ledgerId = rlCustomer i, entryKey = rlKey i, deltaTokens = 0,
      reservedDelta = - min (rlReserved i) (tokensReserved l),
      reason = RELEASE, entryRequestId = rlRequest i\<rparr>"

definition usage_entry :: "usage_job \<Rightarrow> quota_entry" where
  "usage_entry j =
     \<lparr>ledgerId = ujCustomer j, entryKey = commit_key (ujKey j),
      deltaTokens = ujPromptTokens j + ujCompletionTokens j, reservedDelta = 0,
      reason = USAGE_COMMIT,
      entryRequestId = (case ujInferenceRequest j of None \<Rightarrow> ujRequestId j | Some r \<Rightarrow> r)\<rparr>"

lemma ledger_eqI:
  fixes l :: quota_ledger
  shows "l\<lparr>tokensReserved := r\<rparr> = l\<lparr>tokensUsed := tokensUsed l, tokensReserved := r\<rparr>"
    and "l\<lparr>tokensUsed := u\<rparr> = l\<lparr>tokensUsed := u, tokensReserved := tokensReserved l\<rparr>"
  by simp_all

lemma reserve_tx_post:
  "reserve_tx now i db =
     (case find_entry (rvKey i) db of
        Some e \<Rightarrow> (Inr e, db)
      | None \<Rightarrow>
          (let l = ledger_or (rvCustomer i) (reserve_period now i) db
           in if wouldExceedQuota (tokensUsed l) (tokensReserved l) (rvEstimate i) (rvLimit i)
              then (Inl QuotaExceeded, db)
              else (Inr (reserve_entry i), post_entry (reserve_entry i) l db)))"
  by (auto simp: reserve_tx_def upsert_ledger_def find_entry_def table_insert_def post_entry_def
      ledger_or_def reserve_period_def reserve_entry_def Let_def split: option.splits)

lemma commit_tx_post:
  "commit_tx i db =
     (case find_entry (cmKey i) db of
        Some e \<Rightarrow> (Inr e, db)
      | None \<Rightarrow>
          (case ledgers db (cmCustomer i) of
             None \<Rightarrow> (Inl (Prisma P2025), db)
           | Some l \<Rightarrow> (Inr (commit_entry i db), post_entry (commit_entry i db) l db)))"
  by (auto simp: commit_tx_def find_entry_def table_insert_def post_entry_def commit_entry_def
      Let_def split: option.splits)

lemma release_tx_post:
  "release_tx i db =
     (case find_entry (rlKey i) db of
        Some e \<Rightarrow> (Inr e, db)
      | None \<Rightarrow>
          (case ledgers db (rlCustomer i) of
             None \<Rightarrow> (Inl (Prisma P2025), db)
           | Some l \<Rightarrow> (Inr (release_entry i l), post_entry (release_entry i l) l db)))"
  by (auto simp: release_tx_def find_entry_def table_insert_def post_entry_def release_entry_def
      Let_def min_def split: option.splits)

text \<open>The state of the persisting transaction once its ledger row exists.\<close>

definition ensure_ledger :: "int \<Rightarrow> usage_job \<Rightarrow> qdb \<Rightarrow> qdb" where
  "ensure_ledger now j db =
     snd (upsert_ledger (ujCustomer j) (new_ledger now (now + 30 * 86400000)) db)"

definition add_event :: "usage_job \<Rightarrow> qdb \<Rightarrow> qdb" where
  "add_event j db = db\<lparr>usageEvents := usageEvents db @ [job_event j]\<rparr>"

lemma persist_tx_post:
  "persist_tx now j db =
     (case table_find ueKey (ujKey j) (usageEvents db) of
        Some _ \<Rightarrow> (Inr (), db)
      | None \<Rightarrow>
          if inference_taken j db then (Inl (Prisma P2002), db)
          else if find_entry (commit_key (ujKey j)) db = None
          then (Inr (), add_event j (post_entry (usage_entry j)
                  (ledger_or (ujCustomer j) (new_ledger now (now + 30 * 86400000)) db) db))
          else (Inr (), add_event j (ensure_ledger now j db)))"
  by (auto simp: persist_tx_def upsert_ledger_def find_entry_def table_insert_def post_entry_def
      usage_entry_def ledger_or_def ensure_ledger_def add_event_def inference_taken_def
      Let_def split: option.splits)

end
