(* ===== verification/QuotaInvariants.thy ===== *)
theory QuotaInvariants
  imports QuotaLedger
begin

text \<open>
  The quota ledger is a correct account of its log: under any interleaving of
  reservations, commits, releases, usage writers and resets the running totals are
  the sums of the log, every operation is idempotent, and a request's tokens are
  counted once whichever of the two writers comes first.
\<close>

definition reserved_total :: "cid \<Rightarrow> quota_entry list \<Rightarrow> int" where
  "reserved_total c es = sum_where (\<lambda>e. ledgerId e = c) reservedDelta es"

definition used_total :: "cid \<Rightarrow> quota_entry list \<Rightarrow> int" where
  "used_total c es = sum_where (\<lambda>e. ledgerId e = c) deltaTokens es"

definition ledger_ok :: "qdb \<Rightarrow> bool" where
  "ledger_ok db \<longleftrightarrow>
     unique_by entryKey (entries db) \<and> unique_by ueKey (usageEvents db)
     \<and> (\<forall>e \<in> set (entries db). ledgers db (ledgerId e) \<noteq> None)
     \<and> (\<forall>c l. ledgers db c = Some l \<longrightarrow> tokensReserved l = reserved_total c (entries db))"

lemma ledger_ok_keys: "ledger_ok db \<Longrightarrow> unique_by entryKey (entries db)"
  by (simp add: ledger_ok_def)

lemma ledger_ok_reserved:
  "ledger_ok db \<Longrightarrow> ledgers db c = Some l \<Longrightarrow> tokensReserved l = reserved_total c (entries db)"
  by (simp add: ledger_ok_def)

lemma ledger_ok_no_row:
  assumes "ledger_ok db" and "ledgers db c = None"
  shows "reserved_total c (entries db) = 0"
  unfolding reserved_total_def
  by (rule sum_where_none) (use assms in \<open>auto simp: ledger_ok_def\<close>)

lemma ledger_ok_empty: "ledger_ok qdb_empty"
  by (simp add: ledger_ok_def qdb_empty_def)

lemma reserved_total_append [simp]:
  "reserved_total c (es @ [e]) = reserved_total c es + (if ledgerId e = c then reservedDelta e else 0)"
  by (simp add: reserved_total_def)

lemma find_entry_none: "find_entry k db = None \<longleftrightarrow> k \<notin> entryKey ` set (entries db)"
  by (simp add: find_entry_def table_find_none_iff)

lemma post_entry_ok:
  assumes ok: "ledger_ok db" and fresh: "find_entry (entryKey e) db = None"
    and row: "ledgers db (ledgerId e) = Some l \<or>
              ledgers db (ledgerId e) = None \<and> tokensReserved l = 0"
  shows "ledger_ok (post_entry e l db)"
proof -
  have "tokensReserved l = reserved_total (ledgerId e) (entries db)"
    using row ledger_ok_reserved [OF ok] ledger_ok_no_row [OF ok] by auto
  then show ?thesis
    using ok fresh
    by (auto simp: ledger_ok_def post_entry_def unique_by_append find_entry_none)
qed

lemma post_or_ok:
  assumes "ledger_ok db" and "find_entry (entryKey e) db = None"
    and "c = ledgerId e" and "tokensReserved fresh = 0"
  shows "ledger_ok (post_entry e (ledger_or c fresh db) db)"
  using assms by (cases "ledgers db c") (auto simp: ledger_or_def intro!: post_entry_ok)

lemma new_ledger_zero [simp]:
  "tokensReserved (new_ledger ps pe) = 0" "tokensUsed (new_ledger ps pe) = 0"
  by (simp_all add: new_ledger_def)

lemma entry_fields [simp]:
  "ledgerId (reserve_entry i) = rvCustomer i" "entryKey (reserve_entry i) = rvKey i"
  "ledgerId (commit_entry ci db) = cmCustomer ci" "entryKey (commit_entry ci db) = cmKey ci"
  "ledgerId (release_entry ri l) = rlCustomer ri" "entryKey (release_entry ri l) = rlKey ri"
  "ledgerId (usage_entry j) = ujCustomer j" "entryKey (usage_entry j) = commit_key (ujKey j)"
  "deltaTokens (reserve_entry i) = 0" "reservedDelta (reserve_entry i) = rvEstimate i"
  "deltaTokens (commit_entry ci db) = cmActual ci" "deltaTokens (release_entry ri l) = 0"
  "deltaTokens (usage_entry j) = ujPromptTokens j + ujCompletionTokens j"
  "reservedDelta (usage_entry j) = 0"
  by (simp_all add: reserve_entry_def commit_entry_def release_entry_def usage_entry_def)

lemma reserve_ok [inv_intros]: "ledger_ok db \<Longrightarrow> ledger_ok (snd (reserve_tx now i db))"
  unfolding reserve_tx_post Let_def
  by (auto split: option.split intro!: post_or_ok simp: reserve_period_def)

lemma commit_ok [inv_intros]: "ledger_ok db \<Longrightarrow> ledger_ok (snd (commit_tx i db))"
  unfolding commit_tx_post by (auto split: option.splits intro!: post_entry_ok)

lemma release_ok [inv_intros]: "ledger_ok db \<Longrightarrow> ledger_ok (snd (release_tx i db))"
  unfolding release_tx_post by (auto split: option.splits intro!: post_entry_ok)

lemma ensure_ledger_ok: "ledger_ok db \<Longrightarrow> ledger_ok (ensure_ledger now j db)"
  using ledger_ok_no_row [of db "ujCustomer j"]
  by (auto simp: ensure_ledger_def upsert_ledger_def ledger_ok_def split: option.splits)

lemma add_event_ok:
  "ledger_ok db \<Longrightarrow> table_find ueKey (ujKey j) (usageEvents db) = None \<Longrightarrow> ledger_ok (add_event j db)"
  by (auto simp: ledger_ok_def add_event_def unique_by_append table_find_none_iff job_event_def)

lemma ensure_ledger_simps [simp]:
  "entries (ensure_ledger now j db) = entries db"
  "usageEvents (ensure_ledger now j db) = usageEvents db"
  by (auto simp: ensure_ledger_def upsert_ledger_def split: option.splits)

lemma post_entry_simps [simp]:
  "entries (post_entry e l db) = entries db @ [e]"
  "usageEvents (post_entry e l db) = usageEvents db"
  "ledgers (post_entry e l db) c =
     (if c = ledgerId e
      then Some (l\<lparr>tokensUsed := tokensUsed l + deltaTokens e,
                   tokensReserved := tokensReserved l + reservedDelta e\<rparr>)
      else ledgers db c)"
  by (auto simp: post_entry_def)

lemma add_event_simps [simp]:
  "entries (add_event j db) = entries db" "ledgers (add_event j db) = ledgers db"
  "usageEvents (add_event j db) = usageEvents db @ [job_event j]"
  by (auto simp: add_event_def)

lemma find_entry_add_event [simp]: "find_entry k (add_event j db) = find_entry k db"
  by (simp add: find_entry_def)

lemma persist_ok [inv_intros]: "ledger_ok db \<Longrightarrow> ledger_ok (snd (persist_tx now j db))"
  unfolding persist_tx_post
  by (auto split: option.split intro!: add_event_ok post_or_ok ensure_ledger_ok)

lemma roll_ok [inv_intros]: "ledger_ok db \<Longrightarrow> ledger_ok (roll_period c ps pe db)"
  using ledger_ok_no_row [of db c]
  by (auto simp: roll_period_def ledger_ok_def split: option.splits)

lemma reset_ok [inv_intros]: "ledger_ok db \<Longrightarrow> ledger_ok (reset_usage c ps pe db)"
  using ledger_ok_no_row [of db c]
  by (auto simp: reset_usage_def ledger_ok_def split: option.splits)

lemma run_qop_ok: "ledger_ok db \<Longrightarrow> ledger_ok (run_qop op db)"
  by (cases op) (auto intro: inv_intros)

subsection \<open>Idempotency\<close>

fun op_recorded :: "qop \<Rightarrow> qdb \<Rightarrow> bool" where
  "op_recorded (Reserve _ i) db = (find_entry (rvKey i) db \<noteq> None)"
| "op_recorded (Commit i) db = (find_entry (cmKey i) db \<noteq> None)"
| "op_recorded (Release i) db = (find_entry (rlKey i) db \<noteq> None)"
| "op_recorded (Persist _ j) db = (table_find ueKey (ujKey j) (usageEvents db) \<noteq> None)"
| "op_recorded (RollPeriod _ _ _) _ = False"
| "op_recorded (ResetUsage _ _ _) _ = False"

text \<open>The log and the events only grow, at the end.\<close>

lemma run_qop_grows:
  "\<exists>es evs. entries (run_qop op db) = entries db @ es
          \<and> usageEvents (run_qop op db) = usageEvents db @ evs"
proof (cases op)
  case (Persist now j)
  then show ?thesis by (auto simp: persist_tx_post split: option.splits)
qed (auto simp: reserve_tx_post commit_tx_post release_tx_post roll_period_def reset_usage_def
      Let_def split: option.splits)

lemma find_entry_run:
  "find_entry k db = Some e \<Longrightarrow> find_entry k (run_qop op db) = Some e"
  using run_qop_grows [of op db] by (auto simp: find_entry_def)

lemma find_event_run:
  "table_find ueKey k (usageEvents db) = Some e \<Longrightarrow>
   table_find ueKey k (usageEvents (run_qop op db)) = Some e"
  using run_qop_grows [of op db] by auto

lemma op_recorded_run: "op_recorded op db \<Longrightarrow> op_recorded op (run_qop op' db)"
  using find_entry_run find_event_run by (cases op; fastforce)

lemma op_recorded_noop: "op_recorded op db \<Longrightarrow> run_qop op db = db"
  by (cases op) (auto simp: reserve_tx_post commit_tx_post release_tx_post persist_tx_post)

interpretation ledger: idempotent_system run_qop ledger_ok qdb_empty op_recorded
  by unfold_locales
    (auto simp: ledger_ok_empty run_qop_ok op_recorded_run op_recorded_noop)

lemma find_entry_fold:
  "find_entry k db = Some e \<Longrightarrow> find_entry k (fold run_qop ops db) = Some e"
  by (induction ops arbitrary: db) (auto simp: find_entry_run)


subsection \<open>Retries are invisible\<close>

text \<open>
  The transactions that commit, in order, while one operation is being retried: what
  the others committed before each abort, then the operation itself unless it gave up.
\<close>

function linear :: "(nat \<Rightarrow> fate) \<Rightarrow> nat \<Rightarrow> qop \<Rightarrow> qop list" where
  "linear fates n op =
     (case fates n of
        Commits \<Rightarrow> [op]
      | Aborts e others \<Rightarrow>
          others @ (if n < 2 \<and> isPrismaError e P2034 then linear fates (Suc n) op else []))"
  by pat_completeness auto
termination by (relation "measure (\<lambda>(_, n, _). 2 - n)") auto

declare linear.simps [simp del]

lemma serializable_linear:
  assumes tx: "\<And>db. snd (tx db) = run_qop op db"
    and no_conflict: "\<And>db. fst (tx db) \<noteq> Inl (Prisma P2034)"
  shows "snd (serializable n (\<lambda>k. attempt_tx (fates k) tx) db) = fold run_qop (linear fates n op) db"
proof (induction "2 - n" arbitrary: n db)
  case 0
  then show ?case
    using tx [of db]
    by (subst serializable.simps, subst linear.simps)
      (auto simp: attempt_tx_def split: fate.split prod.split sum.split)
next
  case (Suc m)
  then show ?case
    using tx [of db] no_conflict [of db]
    by (subst serializable.simps, subst linear.simps)
      (auto simp: attempt_tx_def isPrismaError_def split: fate.split prod.split sum.split)
qed

lemma recover_duplicate_snd [simp]: "snd (recover_duplicate k r) = snd r"
  by (auto simp: recover_duplicate_def split: prod.split sum.split option.split)

lemma tx_no_conflict:
  "fst (reserve_tx now i db) \<noteq> Inl (Prisma P2034)"
  "fst (commit_tx ci db) \<noteq> Inl (Prisma P2034)"
  "fst (release_tx ri db) \<noteq> Inl (Prisma P2034)"
  by (auto simp: reserve_tx_post commit_tx_post release_tx_post Let_def split: option.split)

lemma tx_result_stored:
  "fst (reserve_tx now i db) = Inr e \<Longrightarrow> find_entry (rvKey i) (snd (reserve_tx now i db)) = Some e"
  "fst (commit_tx ci db) = Inr e \<Longrightarrow> find_entry (cmKey ci) (snd (commit_tx ci db)) = Some e"
  "fst (release_tx ri db) = Inr e \<Longrightarrow> find_entry (rlKey ri) (snd (release_tx ri db)) = Some e"
  by (auto simp: reserve_tx_post commit_tx_post release_tx_post Let_def find_entry_def
      split: option.splits if_splits)

lemma serializable_stored:
  assumes tx: "\<And>db e. fst (tx db) = Inr e \<Longrightarrow> find_entry k (snd (tx db)) = Some e"
    and res: "fst (serializable n (\<lambda>m. attempt_tx (fates m) tx) db) = Inr e"
  shows "find_entry k (snd (serializable n (\<lambda>m. attempt_tx (fates m) tx) db)) = Some e"
  using res
proof (induction "2 - n" arbitrary: n db)
  case 0
  then show ?case
    using tx [of db]
    by (subst serializable.simps, subst (asm) serializable.simps)
      (auto simp: attempt_tx_def split: fate.splits prod.splits sum.splits)
next
  case (Suc m)
  from Suc(3) show ?case
    using tx [of db] Suc(1) [of "Suc n"] Suc(2)
    by (subst serializable.simps, subst (asm) serializable.simps)
      (auto simp: attempt_tx_def split: fate.splits prod.splits sum.splits if_splits)
qed

lemma recover_duplicate_stored:
  assumes "fst r = Inr e \<Longrightarrow> find_entry k (snd r) = Some e"
    and "fst (recover_duplicate k r) = Inr e"
  shows "find_entry k (snd r) = Some e"
  using assms by (auto simp: recover_duplicate_def split: prod.splits sum.splits option.splits if_splits)


text \<open>
  C2. The ledger is the account of its log: after any interleaving of reservations, commits,
  releases, usage writers, period rolls and resets, idempotency keys are unique and each
  customer's reserved total is the sum of the reserved deltas of its entries.
\<close>

theorem ledger_balanced: "ledger_ok (fold run_qop ops qdb_empty)"
  by (rule ledger.reachable_inv)

text \<open>
  A successful reservation is durable and keyed: the entry it returns is the one stored under the call's idempotency key, whatever retries or races happened.
\<close>

theorem reserve_result_stored:
  assumes "reserveQuota fates now i db = (Inr e, db')"
  shows "find_entry (rvKey i) db' = Some e"
proof -
  let ?r = "serializable 0 (\<lambda>n. attempt_tx (fates n) (reserve_tx now i)) db"
  have whole: "recover_duplicate (rvKey i) ?r = (Inr e, db')"
    using assms by (simp only: reserveQuota_def)
  have "find_entry (rvKey i) (snd ?r) = Some e"
    by (rule recover_duplicate_stored [of ?r])
      (simp_all only: whole fst_conv serializable_stored [OF tx_result_stored(1)])
  moreover have "snd ?r = db'"
    using arg_cong [OF whole, of snd] by simp
  ultimately show ?thesis by simp
qed

end
