(* ===== verification/QuotaUsage.thy ===== *)
theory QuotaUsage
  imports QuotaInvariants
begin

text \<open>
  Usage accounting over the quota ledger: a request is counted once by its two
  writers, a commit returns exactly what its request reserved, and admission keeps a
  customer inside its limit.
\<close>

subsection \<open>The two writers of one request\<close>

definition execution_usage_key :: "string \<Rightarrow> string" where
  "execution_usage_key r = r @ '':usage''"

text \<open>
  The operations \<^verbatim>\<open>finalizeAndMeter\<close> issues for execution \<^verbatim>\<open>r\<close>: the commit and the
  usage event, by whatever worker and however often the queue delivers the job.
\<close>

definition meters :: "cid \<Rightarrow> string \<Rightarrow> int \<Rightarrow> int \<Rightarrow> qdb \<Rightarrow> qop \<Rightarrow> bool" where
  "meters c r p q db op =
     (case op of
        Commit i \<Rightarrow> cmCustomer i = c \<and> cmRequest i = r \<and> cmActual i = p + q
                    \<and> cmKey i = commit_key (execution_usage_key r)
      | Persist now j \<Rightarrow> ujCustomer j = c \<and> ujPromptTokens j = p \<and> ujCompletionTokens j = q
                    \<and> ujKey j = execution_usage_key r \<and> \<not> inference_taken j db
      | _ \<Rightarrow> False)"

definition used_of :: "cid \<Rightarrow> qdb \<Rightarrow> int option" where
  "used_of c db = map_option tokensUsed (ledgers db c)"

lemma meters_cases:
  assumes "meters c r p q db op"
  obtains (commit) i where "op = Commit i" "cmCustomer i = c" "cmRequest i = r"
      "cmActual i = p + q" "cmKey i = commit_key (execution_usage_key r)"
  | (persist) now j where "op = Persist now j" "ujCustomer j = c" "ujPromptTokens j = p"
      "ujCompletionTokens j = q" "ujKey j = execution_usage_key r" "\<not> inference_taken j db"
  using assms by (auto simp: meters_def split: qop.splits)

text \<open>Once the commit key is in the log neither writer moves the usage.\<close>

lemma meters_again:
  assumes "meters c r p q db0 op" and "find_entry (commit_key (execution_usage_key r)) db \<noteq> None"
    and "used_of c db = Some u"
  shows "used_of c (run_qop op db) = Some u"
    and "find_entry (commit_key (execution_usage_key r)) (run_qop op db) \<noteq> None"
proof -
  show "used_of c (run_qop op db) = Some u"
    using assms(1)
  proof (cases rule: meters_cases)
    case (commit i)
    then show ?thesis using assms by (auto simp: commit_tx_post)
  next
    case (persist now j)
    then show ?thesis using assms
      by (auto simp: persist_tx_post used_of_def ensure_ledger_def upsert_ledger_def
          split: option.splits)
  qed
  show "find_entry (commit_key (execution_usage_key r)) (run_qop op db) \<noteq> None"
    using assms(2) find_entry_run by fastforce
qed

lemma meters_run:
  assumes "\<forall>op \<in> set ops. meters c r p q db0 op"
    and "find_entry (commit_key (execution_usage_key r)) db \<noteq> None" and "used_of c db = Some u"
  shows "used_of c (fold run_qop ops db) = Some u"
  using assms meters_again by (induction ops arbitrary: db) fastforce+

lemma meters_first:
  assumes "meters c r p q db op" and "used_of c db = Some u"
    and "find_entry (commit_key (execution_usage_key r)) db = None"
    and "table_find ueKey (execution_usage_key r) (usageEvents db) = None"
  shows "used_of c (run_qop op db) = Some (u + p + q)"
    and "find_entry (commit_key (execution_usage_key r)) (run_qop op db) \<noteq> None"
proof -
  show "used_of c (run_qop op db) = Some (u + p + q)"
    using assms(1)
  proof (cases rule: meters_cases)
    case (commit i)
    then show ?thesis using assms by (auto simp: commit_tx_post used_of_def)
  next
    case (persist now j)
    then show ?thesis using assms by (auto simp: persist_tx_post used_of_def ledger_or_def)
  qed
  show "find_entry (commit_key (execution_usage_key r)) (run_qop op db) \<noteq> None"
    using assms(1)
  proof (cases rule: meters_cases)
    case (commit i)
    then show ?thesis using assms by (auto simp: commit_tx_post used_of_def find_entry_def)
  next
    case (persist now j)
    then show ?thesis using assms by (auto simp: persist_tx_post find_entry_def)
  qed
qed

text \<open>
  C1. A request's tokens are counted exactly once: the handler's commit and the usage event
  that the queue delivers (any number of times, in any order, also alone) raise the
  customer's usage by the prompt and completion tokens once.
\<close>

theorem usage_counted_once:
  assumes "used_of c db = Some u"
    and "find_entry (commit_key (execution_usage_key r)) db = None"
    and "table_find ueKey (execution_usage_key r) (usageEvents db) = None"
    and "ops \<noteq> []" and "\<forall>op \<in> set ops. meters c r p q db op"
  shows "used_of c (fold run_qop ops db) = Some (u + p + q)"
proof -
  obtain op rest where ops: "ops = op # rest" using assms(4) by (cases ops) auto
  have "meters c r p q db op" using assms(5) ops by simp
  note first = meters_first [OF this assms(1-3)]
  show ?thesis
    unfolding ops fold.simps comp_def
    by (rule meters_run [OF _ first(2) first(1)]) (use assms(5) ops in auto)
qed

definition sample_db :: qdb where
  "sample_db = \<lparr>ledgers = [''c'' \<mapsto> new_ledger 0 100], entries = [], usageEvents = []\<rparr>"

definition sample_commit :: commit_input where
  "sample_commit = \<lparr>cmCustomer = ''c'', cmRequest = ''r'', cmActual = 30, cmKey = ''r:usage:commit''\<rparr>"

definition sample_job :: usage_job where
  "sample_job = \<lparr>ujCustomer = ''c'', ujPromptTokens = 10, ujCompletionTokens = 20,
     ujModelSlug = ''m'', ujRequestId = ''q'', ujKey = ''r:usage'', ujInferenceRequest = Some ''r''\<rparr>"

lemma usage_counted_once_witness:
  "used_of ''c'' (fold run_qop [Persist 5 sample_job, Commit sample_commit, Persist 9 sample_job]
     sample_db) = Some (0 + 10 + 20)"
  by (rule usage_counted_once [where r = "''r''"])
    (simp_all add: sample_db_def used_of_def new_ledger_def find_entry_def table_find_def
      meters_def sample_commit_def sample_job_def commit_key_def execution_usage_key_def
      inference_taken_def)

subsection \<open>A commit returns its request's reservation\<close>

lemma reserved_of_append [simp]:
  "reserved_of c r (es @ [e]) =
     reserved_of c r es + (if ledgerId e = c \<and> entryRequestId e = r then reservedDelta e else 0)"
  by (simp add: reserved_of_def)

text \<open>
  C5. A first commit gives back the whole reservation of its own request and of no other:
  the request's share becomes zero, every other request's share is unchanged, the usage
  grows by the actual tokens and the reserved total shrinks by the share.
\<close>

theorem commit_settles_request:
  assumes "ledgers db (cmCustomer i) = Some l" and "find_entry (cmKey i) db = None"
    and "0 \<le> reserved_of (cmCustomer i) (cmRequest i) (entries db)"
    and "commit_tx i db = (res, db')"
  shows "reserved_of (cmCustomer i) (cmRequest i) (entries db') = 0
    \<and> (r \<noteq> cmRequest i \<longrightarrow> reserved_of c r (entries db') = reserved_of c r (entries db))
    \<and> ledgers db' (cmCustomer i) = Some
        (l\<lparr>tokensUsed := tokensUsed l + cmActual i,
           tokensReserved := tokensReserved l - reserved_of (cmCustomer i) (cmRequest i) (entries db)\<rparr>)"
proof -
  have db': "db' = post_entry (commit_entry i db) l db"
    using assms by (simp add: commit_tx_post)
  show ?thesis
    using assms(3) unfolding db' by (auto simp: commit_entry_def)
qed

definition sample_reserve :: "string \<Rightarrow> int \<Rightarrow> reserve_input" where
  "sample_reserve r n = \<lparr>rvCustomer = ''c'', rvRequest = r, rvEstimate = n,
     rvKey = r @ '':reserve'', rvLimit = 1000, rvPeriodStart = None, rvPeriodEnd = None\<rparr>"

lemmas sample_defs = sample_db_def sample_commit_def sample_reserve_def sample_job_def
  new_ledger_def commit_key_def execution_usage_key_def

lemmas tx_defs = reserve_tx_post commit_tx_post release_tx_post persist_tx_post
  find_entry_def table_find_def post_entry_def ledger_or_def reserve_entry_def commit_entry_def
  release_entry_def usage_entry_def reserved_of_def wouldExceedQuota_def

lemma commit_settles_request_witness:
  "reserved_of ''c'' ''r'' (entries (snd (commit_tx sample_commit
     (run_qop (Reserve 0 (sample_reserve ''r'' 50)) sample_db)))) = 0"
proof -
  let ?db = "run_qop (Reserve 0 (sample_reserve ''r'' 50)) sample_db"
  have "ledgers ?db (cmCustomer sample_commit) =
          Some \<lparr>periodStart = 0, periodEnd = 100, tokensUsed = 0, tokensReserved = 50\<rparr>"
    and "find_entry (cmKey sample_commit) ?db = None"
    and "0 \<le> reserved_of (cmCustomer sample_commit) (cmRequest sample_commit) (entries ?db)"
    by (simp_all add: tx_defs sample_defs)
  from commit_settles_request [OF this surjective_pairing, of "''x''" "''c''"]
  show ?thesis by (simp add: sample_commit_def)
qed

subsection \<open>Admission keeps the limit\<close>

definition within_limit :: "cid \<Rightarrow> int \<Rightarrow> qdb \<Rightarrow> bool" where
  "within_limit c limit db =
     (case ledgers db c of None \<Rightarrow> True | Some l \<Rightarrow> tokensUsed l + tokensReserved l \<le> limit)"

text \<open>
  What the other writers must respect: a commit does not exceed what its request has
  reserved, a usage event follows its commit, releases are of non-negative amounts out
  of a non-negative total, and resets find non-negative usage.
\<close>

fun obeys :: "cid \<Rightarrow> int \<Rightarrow> qdb \<Rightarrow> qop \<Rightarrow> bool" where
  "obeys c limit db (Reserve _ i) = (rvCustomer i = c \<longrightarrow> rvLimit i = limit)"
| "obeys c limit db (Commit i) =
     (cmCustomer i = c \<and> find_entry (cmKey i) db = None \<longrightarrow>
      cmActual i \<le> max 0 (reserved_of c (cmRequest i) (entries db)))"
| "obeys c limit db (Release i) =
     (rlCustomer i = c \<longrightarrow> 0 \<le> rlReserved i \<and> 0 \<le> reserved_total c (entries db))"
| "obeys c limit db (Persist _ j) =
     (ujCustomer j = c \<longrightarrow> find_entry (commit_key (ujKey j)) db \<noteq> None)"
| "obeys c limit db (RollPeriod c' _ _) =
     (c' = c \<longrightarrow> (case used_of c db of None \<Rightarrow> True | Some u \<Rightarrow> 0 \<le> u))"
| "obeys c limit db (ResetUsage c' _ _) =
     (c' = c \<longrightarrow> (case used_of c db of None \<Rightarrow> True | Some u \<Rightarrow> 0 \<le> u))"

fun run_obeys :: "cid \<Rightarrow> int \<Rightarrow> qdb \<Rightarrow> qop list \<Rightarrow> bool" where
  "run_obeys c limit db [] = True"
| "run_obeys c limit db (op # ops) =
     (obeys c limit db op \<and> run_obeys c limit (run_qop op db) ops)"

lemma step_within:
  assumes "ledger_ok db" and "0 < limit" and "within_limit c limit db" and "obeys c limit db op"
  shows "within_limit c limit (run_qop op db)"
proof (cases op)
  case (Reserve now i)
  then show ?thesis using assms(2-4)
    by (auto simp: within_limit_def reserve_tx_post Let_def ledger_or_def reserve_period_def
        wouldExceedQuota_def split: option.splits)
next
  case (Commit i)
  then show ?thesis using assms(3,4)
    by (auto simp: within_limit_def commit_tx_post commit_entry_def split: option.splits)
next
  case (Release i)
  then show ?thesis using assms(3,4) ledger_ok_reserved [OF assms(1)]
    by (fastforce simp: within_limit_def release_tx_post release_entry_def split: option.splits)
next
  case (Persist now j)
  then show ?thesis using assms(2-4)
    by (auto simp: within_limit_def persist_tx_post ensure_ledger_def upsert_ledger_def ledger_or_def
        split: option.splits)
next
  case (RollPeriod c' ps pe)
  then show ?thesis using assms(2-4)
    by (auto simp: within_limit_def roll_period_def used_of_def split: option.splits)
next
  case (ResetUsage c' ps pe)
  then show ?thesis using assms(2-4)
    by (auto simp: within_limit_def reset_usage_def used_of_def split: option.splits)
qed

text \<open>
  C4. Concurrent admission never oversubscribes a customer: from a balanced ledger inside its
  limit, every interleaving of reservations with commits that stay within what they reserved,
  releases, usage events and resets leaves used plus reserved tokens within the limit.
\<close>

theorem admission_keeps_limit:
  assumes "ledger_ok db" and "0 < limit" and "within_limit c limit db"
    and "run_obeys c limit db ops"
  shows "within_limit c limit (fold run_qop ops db)"
  using assms
proof (induction ops arbitrary: db)
  case (Cons op ops)
  then show ?case by (auto simp: run_qop_ok step_within)
qed simp

lemma admission_keeps_limit_witness:
  "within_limit ''c'' 1000 (fold run_qop
     [Reserve 0 (sample_reserve ''r'' 600), Reserve 0 (sample_reserve ''s'' 600),
      Commit sample_commit] sample_db)"
proof (rule admission_keeps_limit)
  show "ledger_ok sample_db" by (simp add: ledger_ok_def sample_defs reserved_total_def)
  show "within_limit ''c'' 1000 sample_db" by (simp add: within_limit_def sample_defs)
  show "run_obeys ''c'' 1000 sample_db
     [Reserve 0 (sample_reserve ''r'' 600), Reserve 0 (sample_reserve ''s'' 600),
      Commit sample_commit]"
    by (simp add: tx_defs sample_defs Let_def)
qed simp

text \<open>
  Replaying is harmless: an operation whose idempotency key the database has recorded
  changes nothing, however many other transactions ran in between.
\<close>

theorem replayed_operation_noop:
  assumes "ledger_ok db" and "op_recorded op db"
  shows "run_qop op (fold run_qop ops db) = fold run_qop ops db"
  by (rule ledger.replay_noop [OF assms])

lemma replayed_operation_noop_witness:
  "run_qop (Commit sample_commit) (fold run_qop [Persist 5 sample_job]
      (run_qop (Commit sample_commit) sample_db))
   = fold run_qop [Persist 5 sample_job] (run_qop (Commit sample_commit) sample_db)"
  by (rule replayed_operation_noop)
    (simp_all add: ledger_ok_def unique_by_def tx_defs sample_defs reserved_total_def)

end
