(* ===== verification/Gatekeeping.thy ===== *)
theory Gatekeeping
  imports Prelude
begin

text \<open>
  The middlewares every customer request passes: authentication
  (\<^verbatim>\<open>middleware/auth.ts\<close>), rate and concurrency limits (\<^verbatim>\<open>middleware/quota.ts\<close>) and
  the monthly quota check (\<^verbatim>\<open>middleware/quotaCheck.ts\<close>), in both deployments: with
  Redis, whose commands are parameters, and with the gateway's own memory.
\<close>

text \<open>What a middleware does: pass on, or answer with a status, \<^verbatim>\<open>Retry-After\<close>, type and message.\<close>

datatype outcome = Next | Reject int "string option" string string

subsection \<open>Authentication\<close>

definition effectiveMonthlyQuota :: "int \<Rightarrow> int \<Rightarrow> int" where
  "effectiveMonthlyQuota planQuota bonusTokens =
     (if planQuota \<le> 0 then 0
      else planQuota + (if bonusTokens > 0 then bonusTokens else 0))"

datatype sub_status = ACTIVE | PAST_DUE | CANCELED

record plan =
  planId :: string
  planName :: string
  planMonthlyTokenQuota :: int
  planRequestsPerMinute :: int
  planMaxConcurrent :: int
  planAllowedModelIds :: "string list"
  planBillingMode :: string

record subscription =
  subPlan :: plan
  subStatus :: sub_status
  subPeriodStart :: int
  subPeriodEnd :: int

record api_key_row =
  keyId :: string
  keyHashOf :: string
  keyRevokedAt :: "int option"
  keyCustomerId :: string
  keyCustomerEmail :: string
  keyQuotaBonus :: int
  keySubscription :: "subscription option"

record auth_context =
  authCustomerId :: string
  authApiKeyId :: string
  authEmail :: string
  authPlanId :: string
  authPlanName :: string
  monthlyTokenQuota :: int
  requestsPerMinute :: int
  maxConcurrent :: int
  allowedModelIds :: "string list"
  billingMode :: string
  authPeriodStart :: int
  authPeriodEnd :: int

text \<open>
  The regular expression \<^verbatim>\<open>/^Bearer\s+(.+)$/i\<close>: greedy \<^verbatim>\<open>\s+\<close>, and when only white space
  follows it gives the last character back to \<^verbatim>\<open>(.+)\<close>, which never crosses a line end.
\<close>

definition line_end :: "char \<Rightarrow> bool" where
  "line_end c \<longleftrightarrow> chr_code c = 10 \<or> chr_code c = 13"

definition bearer_match :: "string \<Rightarrow> string option" where
  "bearer_match header =
     (if to_lower (take 6 header) \<noteq> ''bearer'' then None
      else
        (let r = drop 6 header; t = dropWhile is_space r
         in if r = [] \<or> \<not> is_space (hd r) then None
            else if t \<noteq> [] then (if list_ex line_end t then None else Some t)
            else if 2 \<le> length r \<and> \<not> line_end (last r) then Some [last r]
            else None))"

text \<open>
  \<^verbatim>\<open>sha\<close> is SHA-256 in hexadecimal. The database lookup is \<^verbatim>\<open>None\<close> when it fails
  (the \<^verbatim>\<open>catch\<close> branch), otherwise the key rows.
\<close>

definition authMiddleware ::
    "(string \<Rightarrow> string) \<Rightarrow> api_key_row list option \<Rightarrow> string option \<Rightarrow> outcome \<times> auth_context option" where
  "authMiddleware sha rows header =
     (case bearer_match (case header of None \<Rightarrow> [] | Some h \<Rightarrow> h) of
        None \<Rightarrow> (Reject 401 None ''authentication_error'' ''Missing Bearer API key'', None)
      | Some token \<Rightarrow>
          (case rows of
             None \<Rightarrow> (Reject 503 None ''server_error'' ''Auth backend unavailable'', None)
           | Some keys \<Rightarrow>
               (case table_find keyHashOf (sha (js_trim token)) keys of
                  None \<Rightarrow> (Reject 401 None ''authentication_error'' ''Invalid API key'', None)
                | Some apiKey \<Rightarrow>
                    if keyRevokedAt apiKey \<noteq> None
                    then (Reject 401 None ''authentication_error'' ''Invalid API key'', None)
                    else
                      (case keySubscription apiKey of
                         None \<Rightarrow> (Reject 403 None ''permission_error'' ''No active subscription'', None)
                       | Some sub \<Rightarrow>
                           if subStatus sub \<noteq> ACTIVE
                           then (Reject 403 None ''permission_error'' ''No active subscription'', None)
                           else
                             (Next, Some
                                \<lparr>authCustomerId = keyCustomerId apiKey,
                                 authApiKeyId = keyId apiKey,
                                 authEmail = keyCustomerEmail apiKey,
                                 authPlanId = planId (subPlan sub),
                                 authPlanName = planName (subPlan sub),
                                 monthlyTokenQuota =
                                   effectiveMonthlyQuota (planMonthlyTokenQuota (subPlan sub))
                                     (keyQuotaBonus apiKey),
                                 requestsPerMinute = planRequestsPerMinute (subPlan sub),
                                 maxConcurrent = planMaxConcurrent (subPlan sub),
                                 allowedModelIds = planAllowedModelIds (subPlan sub),
                                 billingMode = planBillingMode (subPlan sub),
                                 authPeriodStart = subPeriodStart sub,
                                 authPeriodEnd = subPeriodEnd sub\<rparr>)))))"

definition internalAuth :: "string option \<Rightarrow> string option \<Rightarrow> outcome" where
  "internalAuth env_token header =
     (case header of
        None \<Rightarrow> Reject 401 None ''authentication_error'' ''Unauthorized''
      | Some token \<Rightarrow>
          if token = [] \<or> Some token \<noteq> env_token
          then Reject 401 None ''authentication_error'' ''Unauthorized''
          else Next)"

subsection \<open>In-memory counters\<close>

record counter_bucket =
  bucketCount :: int
  resetAt :: int

record mem =
  memoryRpm :: "string \<rightharpoonup> counter_bucket"
  memoryConc :: "string \<rightharpoonup> int"

definition mem_empty :: mem where
  "mem_empty = \<lparr>memoryRpm = Map.empty, memoryConc = Map.empty\<rparr>"

definition rl_key :: "string \<Rightarrow> string" where
  "rl_key apiKeyId = ''rl:'' @ apiKeyId"

definition conc_key :: "string \<Rightarrow> string" where
  "conc_key apiKeyId = ''conc:'' @ apiKeyId"

definition memoryIncrRpm :: "string \<Rightarrow> int \<Rightarrow> int \<Rightarrow> mem \<Rightarrow> int \<times> mem" where
  "memoryIncrRpm apiKeyId windowMs now s =
     (let fresh = (1, s\<lparr>memoryRpm := (memoryRpm s)(rl_key apiKeyId \<mapsto>
                         \<lparr>bucketCount = 1, resetAt = now + windowMs\<rparr>)\<rparr>)
      in case memoryRpm s (rl_key apiKeyId) of
           None \<Rightarrow> fresh
         | Some b \<Rightarrow>
             if resetAt b \<le> now then fresh
             else (bucketCount b + 1,
                   s\<lparr>memoryRpm := (memoryRpm s)(rl_key apiKeyId \<mapsto>
                       b\<lparr>bucketCount := bucketCount b + 1\<rparr>)\<rparr>))"

definition memoryAcquireConc :: "string \<Rightarrow> int \<Rightarrow> mem \<Rightarrow> bool \<times> mem" where
  "memoryAcquireConc apiKeyId maxConc s =
     (let current = (case memoryConc s (conc_key apiKeyId) of None \<Rightarrow> 0 | Some n \<Rightarrow> n)
      in if current \<ge> maxConc then (False, s)
         else (True, s\<lparr>memoryConc := (memoryConc s)(conc_key apiKeyId \<mapsto> current + 1)\<rparr>))"

definition memoryReleaseConc :: "string \<Rightarrow> mem \<Rightarrow> mem" where
  "memoryReleaseConc apiKeyId s =
     (case memoryConc s (conc_key apiKeyId) of
        None \<Rightarrow> s
      | Some n \<Rightarrow>
          (let n' = max 0 (n - 1)
           in if n' = 0 then s\<lparr>memoryConc := (memoryConc s)(conc_key apiKeyId := None)\<rparr>
              else s\<lparr>memoryConc := (memoryConc s)(conc_key apiKeyId \<mapsto> n')\<rparr>))"

definition isOrchestrationChild :: "string option \<Rightarrow> bool" where
  "isOrchestrationChild header \<longleftrightarrow> header = Some ''voice-analyze''"

definition windowMs :: int where "windowMs = 60000"

definition rpm_limit :: "auth_context \<Rightarrow> int" where
  "rpm_limit auth = max 1 (requestsPerMinute auth)"

definition reject_rpm :: "int \<Rightarrow> outcome" where
  "reject_rpm rpm =
     Reject 429 (Some ''60'') ''rate_limit_exceeded''
       (''Limit '' @ show_int rpm @ '' requests/minute'')"

definition reject_concurrent :: "int \<Rightarrow> outcome" where
  "reject_concurrent n =
     Reject 429 None ''rate_limit_exceeded'' (''Max concurrent '' @ show_int n)"

definition unauthenticated :: outcome where
  "unauthenticated = Reject 401 None ''authentication_error'' ''Unauthenticated''"

definition rateLimitRpm_memory :: "auth_context option \<Rightarrow> int \<Rightarrow> mem \<Rightarrow> outcome \<times> mem" where
  "rateLimitRpm_memory auth now s =
     (case auth of
        None \<Rightarrow> (unauthenticated, s)
      | Some a \<Rightarrow>
          (let (count, s') = memoryIncrRpm (authApiKeyId a) windowMs now s
           in if count > rpm_limit a then (reject_rpm (rpm_limit a), s') else (Next, s')))"

text \<open>
  The full limiter. The boolean says whether the request now holds a slot, i.e. whether
  its \<^verbatim>\<open>release\<close> closure was registered on the response's finish and close events.
\<close>

definition rateLimit_memory ::
    "auth_context option \<Rightarrow> string option \<Rightarrow> int \<Rightarrow> mem \<Rightarrow> (outcome \<times> bool) \<times> mem" where
  "rateLimit_memory auth orchestration now s =
     (case auth of
        None \<Rightarrow> ((unauthenticated, False), s)
      | Some a \<Rightarrow>
          if isOrchestrationChild orchestration then ((Next, False), s)
          else
            (let (count, s1) = memoryIncrRpm (authApiKeyId a) windowMs now s
             in if count > rpm_limit a then ((reject_rpm (rpm_limit a), False), s1)
                else
                  (let (got, s2) = memoryAcquireConc (authApiKeyId a) (maxConcurrent a) s1
                   in if got then ((Next, True), s2)
                      else ((reject_concurrent (maxConcurrent a), False), s2))))"

subsection \<open>The limiter with its in-flight requests\<close>

text \<open>
  Each admitted request \<^verbatim>\<open>rid\<close> has a closure with its own \<^verbatim>\<open>released\<close> flag; Node fires
  \<^verbatim>\<open>finish\<close> and \<^verbatim>\<open>close\<close> in either order, and both run the closure.
\<close>

record limiter =
  counters :: mem
  closures :: "nat \<rightharpoonup> string \<times> bool"

datatype limiter_event =
    Arrive nat "auth_context option" "string option" int
  | ResponseFinish nat
  | ResponseClose nat

definition run_release :: "nat \<Rightarrow> limiter \<Rightarrow> limiter" where
  "run_release rid s =
     (case closures s rid of
        None \<Rightarrow> s
      | Some (apiKeyId, released) \<Rightarrow>
          if released then s
          else s\<lparr>counters := memoryReleaseConc apiKeyId (counters s),
                 closures := (closures s)(rid \<mapsto> (apiKeyId, True))\<rparr>)"

fun limiter_step :: "limiter_event \<Rightarrow> limiter \<Rightarrow> limiter" where
  "limiter_step (Arrive rid auth orchestration now) s =
     (if closures s rid \<noteq> None then s
      else
        (let ((_, holds), c) = rateLimit_memory auth orchestration now (counters s)
         in if holds
            then s\<lparr>counters := c,
                   closures := (closures s)(rid \<mapsto> (case auth of None \<Rightarrow> [] | Some a \<Rightarrow> authApiKeyId a, False))\<rparr>
            else s\<lparr>counters := c\<rparr>))"
| "limiter_step (ResponseFinish rid) s = run_release rid s"
| "limiter_step (ResponseClose rid) s = run_release rid s"

subsection \<open>Redis\<close>

text \<open>The Redis commands the limiter uses; \<^verbatim>\<open>None\<close> is a rejected promise.\<close>

record 'r redis_api =
  rdIncr :: "string \<Rightarrow> 'r \<Rightarrow> (int \<times> 'r) option"
  rdDecr :: "string \<Rightarrow> 'r \<Rightarrow> (int \<times> 'r) option"
  rdExpireMs :: "string \<Rightarrow> int \<Rightarrow> 'r \<Rightarrow> 'r option"
  rdGet :: "string \<Rightarrow> 'r \<Rightarrow> int option option"
  rdSetEx :: "string \<Rightarrow> int \<Rightarrow> int \<Rightarrow> 'r \<Rightarrow> 'r option"
  rdExists :: "string \<Rightarrow> 'r \<Rightarrow> bool option"
  rdIncrBy :: "string \<Rightarrow> int \<Rightarrow> 'r \<Rightarrow> 'r option"

definition rate_unavailable :: outcome where
  "rate_unavailable = Reject 503 None ''server_error'' ''Rate limiter unavailable''"

definition bucket_key :: "string \<Rightarrow> int \<Rightarrow> string" where
  "bucket_key apiKeyId now = rl_key apiKeyId @ '':'' @ show_int (now div windowMs)"

definition incr_with_ttl :: "'r redis_api \<Rightarrow> string \<Rightarrow> int \<Rightarrow> 'r \<Rightarrow> int option \<times> 'r" where
  "incr_with_ttl rd key ttl r =
     (case rdIncr rd key r of
        None \<Rightarrow> (None, r)
      | Some (n, r1) \<Rightarrow>
          if n = 1
          then (case rdExpireMs rd key ttl r1 of None \<Rightarrow> (None, r1) | Some r2 \<Rightarrow> (Some n, r2))
          else (Some n, r1))"

definition rateLimitRpm_redis ::
    "'r redis_api \<Rightarrow> auth_context option \<Rightarrow> int \<Rightarrow> 'r \<Rightarrow> outcome \<times> 'r" where
  "rateLimitRpm_redis rd auth now r =
     (case auth of
        None \<Rightarrow> (unauthenticated, r)
      | Some a \<Rightarrow>
          (case incr_with_ttl rd (bucket_key (authApiKeyId a) now) windowMs r of
             (None, r1) \<Rightarrow> (rate_unavailable, r1)
           | (Some count, r1) \<Rightarrow>
               if count > rpm_limit a then (reject_rpm (rpm_limit a), r1) else (Next, r1)))"

definition rateLimit_redis ::
    "'r redis_api \<Rightarrow> auth_context option \<Rightarrow> string option \<Rightarrow> int \<Rightarrow> 'r \<Rightarrow> (outcome \<times> bool) \<times> 'r" where
  "rateLimit_redis rd auth orchestration now r =
     (case auth of
        None \<Rightarrow> ((unauthenticated, False), r)
      | Some a \<Rightarrow>
          if isOrchestrationChild orchestration then ((Next, False), r)
          else
            (case incr_with_ttl rd (bucket_key (authApiKeyId a) now) windowMs r of
               (None, r1) \<Rightarrow> ((rate_unavailable, False), r1)
             | (Some count, r1) \<Rightarrow>
                 if count > rpm_limit a then ((reject_rpm (rpm_limit a), False), r1)
                 else
                   (case incr_with_ttl rd (conc_key (authApiKeyId a)) (120 * 1000) r1 of
                      (None, r2) \<Rightarrow> ((rate_unavailable, False), r2)
                    | (Some current, r2) \<Rightarrow>
                        if current > maxConcurrent a
                        then (case rdDecr rd (conc_key (authApiKeyId a)) r2 of
                                None \<Rightarrow> ((rate_unavailable, False), r2)
                              | Some (_, r3) \<Rightarrow>
                                  ((reject_concurrent (maxConcurrent a), False), r3))
                        else ((Next, True), r2))))"

definition release_redis :: "'r redis_api \<Rightarrow> string \<Rightarrow> bool \<Rightarrow> 'r \<Rightarrow> bool \<times> 'r" where
  "release_redis rd apiKeyId released r =
     (if released then (True, r)
      else (True, case rdDecr rd (conc_key apiKeyId) r of None \<Rightarrow> r | Some (_, r') \<Rightarrow> r'))"

subsection \<open>The monthly quota check\<close>

definition quota_unavailable :: outcome where
  "quota_unavailable = Reject 503 None ''server_error'' ''Quota service unavailable''"

definition quota_cache_key :: "string \<Rightarrow> string" where
  "quota_cache_key customerId = ''quota:'' @ customerId"

definition quota_verdict :: "auth_context \<Rightarrow> int \<Rightarrow> outcome" where
  "quota_verdict a used =
     (if used \<ge> monthlyTokenQuota a
      then Reject 429 None ''quota_exceeded'' ''Monthly token quota exhausted'' else Next)"

definition quota_exempt :: "auth_context \<Rightarrow> bool" where
  "quota_exempt a \<longleftrightarrow> billingMode a = ''USAGE'' \<or> monthlyTokenQuota a = 0"

text \<open>\<^verbatim>\<open>db\<close>: the ledger lookup, \<^verbatim>\<open>None\<close> when it fails, \<^verbatim>\<open>Some None\<close> without a ledger row.\<close>

definition quotaMiddleware_db :: "auth_context option \<Rightarrow> int option option \<Rightarrow> outcome" where
  "quotaMiddleware_db auth db =
     (case auth of
        None \<Rightarrow> unauthenticated
      | Some a \<Rightarrow>
          if quota_exempt a then Next
          else (case db of
                  None \<Rightarrow> quota_unavailable
                | Some row \<Rightarrow> quota_verdict a (case row of None \<Rightarrow> 0 | Some u \<Rightarrow> u)))"

definition quotaMiddleware_redis ::
    "'r redis_api \<Rightarrow> auth_context option \<Rightarrow> int option option \<Rightarrow> 'r \<Rightarrow> outcome \<times> 'r" where
  "quotaMiddleware_redis rd auth db r =
     (case auth of
        None \<Rightarrow> (unauthenticated, r)
      | Some a \<Rightarrow>
          if quota_exempt a then (Next, r)
          else
            (case rdGet rd (quota_cache_key (authCustomerId a)) r of
               None \<Rightarrow> (quota_unavailable, r)
             | Some (Some used) \<Rightarrow> (quota_verdict a used, r)
             | Some None \<Rightarrow>
                 (case db of
                    None \<Rightarrow> (quota_unavailable, r)
                  | Some row \<Rightarrow>
                      (let used = (case row of None \<Rightarrow> 0 | Some u \<Rightarrow> u)
                       in case rdSetEx rd (quota_cache_key (authCustomerId a)) used 60 r of
                            None \<Rightarrow> (quota_unavailable, r)
                          | Some r' \<Rightarrow> (quota_verdict a used, r')))))"

text \<open>\<^verbatim>\<open>None\<close> is a rejected promise, which the caller sees as an exception.\<close>

definition bumpQuotaCache :: "bool \<Rightarrow> 'r redis_api \<Rightarrow> string \<Rightarrow> int \<Rightarrow> 'r \<Rightarrow> 'r option" where
  "bumpQuotaCache redisEnabled rd customerId tokens r =
     (if \<not> redisEnabled then Some r
      else
        (case rdExists rd (quota_cache_key customerId) r of
           None \<Rightarrow> None
         | Some True \<Rightarrow> rdIncrBy rd (quota_cache_key customerId) tokens r
         | Some False \<Rightarrow> Some r))"

end
