(* ===== verification/Registry.thy ===== *)
theory Registry
  imports Prelude
begin

text \<open>
  The model registry row (\<^verbatim>\<open>HostedModel\<close> in the Prisma schema), shared by the router,
  the runtime pool and the administration. \<^verbatim>\<open>modelId\<close> is unique. Prices are cents per
  million tokens; a JavaScript number that may be fractional is a \<^verbatim>\<open>rat\<close>.
\<close>

datatype model_status = MS_INACTIVE | MS_LOADED | MS_ERROR

datatype provider_kind = LOCAL_GGUF | OPENAI_COMPAT

record hosted_model =
  hmId :: string
  modelId :: string
  displayName :: string
  weightsPath :: string
  quantization :: string
  contextLength :: int
  nThreads :: int
  gpuLayers :: int
  hmStatus :: model_status
  pricePerMTokIn :: rat
  pricePerMTokOut :: rat
  qualityClass :: int
  latencyClass :: int
  supportsTools :: bool
  isPlatformDefault :: bool
  providerKind :: provider_kind
  remoteBaseUrl :: "string option"
  remoteModelId :: "string option"
  credentialId :: "string option"

text \<open>\<^verbatim>\<open>updateMany\<close>: change the rows that satisfy a condition.\<close>

definition update_where :: "('r \<Rightarrow> bool) \<Rightarrow> ('r \<Rightarrow> 'r) \<Rightarrow> 'r list \<Rightarrow> 'r list" where
  "update_where P f rows = map (\<lambda>r. if P r then f r else r) rows"

lemma update_where_keys:
  "(\<And>r. key (f r) = key r) \<Longrightarrow> map key (update_where P f rows) = map key rows"
  by (auto simp: update_where_def)

lemma set_update_where:
  "set (update_where P f rows) = (\<lambda>r. if P r then f r else r) ` set rows"
  by (simp add: update_where_def)

lemma length_update_where [simp]: "length (update_where P f rows) = length rows"
  by (simp add: update_where_def)

definition find_model :: "string \<Rightarrow> hosted_model list \<Rightarrow> hosted_model option" where
  "find_model slug rows = table_find modelId slug rows"

definition sample_model :: hosted_model where
  "sample_model = \<lparr>hmId = ''1'', modelId = ''m'', displayName = ''M'', weightsPath = ''m.gguf'',
     quantization = ''Q4_K_M'', contextLength = 8192, nThreads = 8, gpuLayers = 0,
     hmStatus = MS_INACTIVE, pricePerMTokIn = 20, pricePerMTokOut = 60, qualityClass = 50,
     latencyClass = 50, supportsTools = False, isPlatformDefault = False, providerKind = LOCAL_GGUF,
     remoteBaseUrl = None, remoteModelId = None, credentialId = None\<rparr>"

end
