(* ===== verification/Routing.thy ===== *)
theory Routing
  imports Registry
begin

text \<open>
  Model routing: the policy evaluator of the platform package
  (\<^verbatim>\<open>packages/platform/src/policy.ts\<close>) and the gateway's resolver around it
  (\<^verbatim>\<open>lib/policyRouter.ts\<close>). The canonical SHA-256 of a decision and \<^verbatim>\<open>localeCompare\<close>
  are parameters, and so is the redaction, which has a theory of its own.
\<close>

subsection \<open>Policy documents and candidates\<close>

text \<open>The inputs before parsing, with their optional fields, and after.\<close>

record policy_document =
  pdMaxCostMicros :: "rat option"
  pdMinQuality :: "rat option"
  pdMaxLatencyClass :: "rat option"
  pdPreferredModels :: "string list option"
  pdFallbackModels :: "string list option"

record routing_policy =
  maxCostMicros :: "rat option"
  minQuality :: "rat option"
  maxLatencyClass :: "rat option"
  preferredModels :: "string list"
  fallbackModels :: "string list"

record candidate_input =
  ciModelSlug :: string
  ciCostMicros :: rat
  ciQualityClass :: rat
  ciLatencyClass :: rat
  ciAvailable :: "bool option"

record candidate =
  modelSlug :: string
  costMicros :: rat
  cQualityClass :: rat
  cLatencyClass :: rat
  available :: bool

record context_input =
  cxRequestedModel :: string
  cxCandidates :: "candidate_input list"
  cxPlatformDefaultModel :: "string option"

record routing_context =
  requestedModel :: string
  candidates :: "candidate list"
  platformDefaultModel :: "string option"

datatype routing_error = ZodError | RoutingError string

record decision_data =
  ddResolvedModelSlug :: string
  ddReason :: string
  ddPolicy :: routing_policy
  ddContext :: routing_context

record routing_decision =
  resolvedModelSlug :: string
  decisionReason :: string
  decisionHash :: string

text \<open>\<^verbatim>\<open>z.number().int().nonnegative()\<close>.\<close>

definition nonneg_int :: "rat \<Rightarrow> bool" where
  "nonneg_int x \<longleftrightarrow> of_int \<lfloor>x\<rfloor> = x \<and> 0 \<le> x"

definition or_default :: "'a \<Rightarrow> 'a option \<Rightarrow> 'a" where
  "or_default d x = (case x of None \<Rightarrow> d | Some v \<Rightarrow> v)"

definition parse_policy :: "policy_document \<Rightarrow> routing_policy option" where
  "parse_policy d =
     (let preferred = or_default [] (pdPreferredModels d);
          fallback = or_default [] (pdFallbackModels d)
      in if (case pdMaxCostMicros d of None \<Rightarrow> True | Some x \<Rightarrow> nonneg_int x)
            \<and> list_all (\<lambda>s. s \<noteq> []) preferred \<and> list_all (\<lambda>s. s \<noteq> []) fallback
         then Some \<lparr>maxCostMicros = pdMaxCostMicros d, minQuality = pdMinQuality d,
                    maxLatencyClass = pdMaxLatencyClass d, preferredModels = preferred,
                    fallbackModels = fallback\<rparr>
         else None)"

definition parse_candidate :: "candidate_input \<Rightarrow> candidate option" where
  "parse_candidate c =
     (if ciModelSlug c \<noteq> [] \<and> nonneg_int (ciCostMicros c)
      then Some \<lparr>modelSlug = ciModelSlug c, costMicros = ciCostMicros c,
                 cQualityClass = ciQualityClass c, cLatencyClass = ciLatencyClass c,
                 available = or_default True (ciAvailable c)\<rparr>
      else None)"

definition parse_context :: "context_input \<Rightarrow> routing_context option" where
  "parse_context c =
     (if cxRequestedModel c \<noteq> [] \<and> cxCandidates c \<noteq> []
         \<and> list_all (\<lambda>i. parse_candidate i \<noteq> None) (cxCandidates c)
         \<and> cxPlatformDefaultModel c \<noteq> Some []
      then Some \<lparr>requestedModel = cxRequestedModel c,
                 candidates = map (\<lambda>i. the (parse_candidate i)) (cxCandidates c),
                 platformDefaultModel = cxPlatformDefaultModel c\<rparr>
      else None)"

subsection \<open>Evaluation\<close>

definition satisfies_policy :: "routing_policy \<Rightarrow> candidate \<Rightarrow> bool" where
  "satisfies_policy p c \<longleftrightarrow>
     available c
     \<and> (case maxCostMicros p of None \<Rightarrow> True | Some x \<Rightarrow> costMicros c \<le> x)
     \<and> (case minQuality p of None \<Rightarrow> True | Some x \<Rightarrow> cQualityClass c \<ge> x)
     \<and> (case maxLatencyClass p of None \<Rightarrow> True | Some x \<Rightarrow> cLatencyClass c \<le> x)"

definition find_candidate :: "string \<Rightarrow> candidate list \<Rightarrow> candidate option" where
  "find_candidate slug cs = find (\<lambda>c. modelSlug c = slug) cs"

fun firstListedCandidate :: "string list \<Rightarrow> candidate list \<Rightarrow> candidate option" where
  "firstListedCandidate [] cs = None"
| "firstListedCandidate (slug # slugs) cs =
     (case find_candidate slug cs of
        Some c \<Rightarrow> Some c
      | None \<Rightarrow> firstListedCandidate slugs cs)"

definition candidate_cmp :: "(string \<Rightarrow> string \<Rightarrow> rat) \<Rightarrow> candidate \<Rightarrow> candidate \<Rightarrow> rat" where
  "candidate_cmp localeCompare =
     then_cmp (\<lambda>l r. costMicros l - costMicros r)
       (then_cmp (\<lambda>l r. (- cQualityClass l) - (- cQualityClass r))
         (then_cmp (\<lambda>l r. cLatencyClass l - cLatencyClass r)
           (\<lambda>l r. localeCompare (modelSlug l) (modelSlug r))))"

definition auto_model :: string where "auto_model = ''auto''"

definition with_suffix :: "string \<Rightarrow> string \<Rightarrow> string" where
  "with_suffix reason s = reason @ '':'' @ s"

text \<open>The candidate chosen before the preference lists, and the reason so far.\<close>

definition requested_choice :: "routing_context \<Rightarrow> candidate list \<Rightarrow> candidate option \<times> string" where
  "requested_choice input eligible =
     (if requestedModel input \<noteq> auto_model
      then (case find_candidate (requestedModel input) eligible of
              Some c \<Rightarrow> (Some c, ''requested_model_eligible'')
            | None \<Rightarrow> (None, ''requested_model_ineligible''))
      else (None, ''auto_routing''))"

definition default_choice ::
    "routing_context \<Rightarrow> candidate list \<Rightarrow> candidate option \<times> string
      \<Rightarrow> (routing_error, candidate option \<times> string) result" where
  "default_choice input eligible sel =
     (case platformDefaultModel input of
        None \<Rightarrow> Inr sel
      | Some d \<Rightarrow>
          if requestedModel input \<noteq> auto_model then Inr sel
          else if find_candidate d (candidates input) = None
          then Inl (RoutingError (''Platform default '' @ d @ '' is not entitled on this API key''))
          else
            (case find_candidate d eligible of
               None \<Rightarrow> Inl (RoutingError
                 (''Platform default '' @ d @ '' is blocked by routing policy constraints''))
             | Some c \<Rightarrow> Inr (Some c, with_suffix (snd sel) ''platform_default'')))"

definition list_choice ::
    "string list \<Rightarrow> string \<Rightarrow> candidate list \<Rightarrow> candidate option \<times> string \<Rightarrow> candidate option \<times> string" where
  "list_choice slugs tag eligible sel =
     (case sel of
        (Some c, reason) \<Rightarrow> (Some c, reason)
      | (None, reason) \<Rightarrow>
          (case firstListedCandidate slugs eligible of
             Some c \<Rightarrow> (Some c, with_suffix reason tag)
           | None \<Rightarrow> (None, reason)))"

definition best_choice ::
    "(string \<Rightarrow> string \<Rightarrow> rat) \<Rightarrow> candidate list \<Rightarrow> candidate option \<times> string \<Rightarrow> candidate option \<times> string" where
  "best_choice localeCompare eligible sel =
     (case sel of
        (Some c, reason) \<Rightarrow> (Some c, reason)
      | (None, reason) \<Rightarrow>
          ((case js_sort (candidate_cmp localeCompare) eligible of [] \<Rightarrow> None | c # _ \<Rightarrow> Some c),
           with_suffix reason ''best_eligible''))"

definition evaluateRoutingPolicy ::
    "(string \<Rightarrow> string \<Rightarrow> rat) \<Rightarrow> (decision_data \<Rightarrow> string) \<Rightarrow> policy_document \<Rightarrow> context_input
      \<Rightarrow> (routing_error, routing_decision) result" where
  "evaluateRoutingPolicy localeCompare hash document context =
     (case parse_policy document of
        None \<Rightarrow> Inl ZodError
      | Some policy \<Rightarrow>
          (case parse_context context of
             None \<Rightarrow> Inl ZodError
           | Some input \<Rightarrow>
               (let eligible = filter (satisfies_policy policy) (candidates input)
                in if eligible = []
                   then Inl (RoutingError ''No routing candidate satisfies the policy'')
                   else
                     (case default_choice input eligible (requested_choice input eligible) of
                        Inl e \<Rightarrow> Inl e
                      | Inr sel0 \<Rightarrow>
                          (let sel1 = list_choice (preferredModels policy) ''preferred_model'' eligible sel0;
                               sel2 = list_choice (fallbackModels policy) ''fallback_model'' eligible sel1;
                               sel3 = best_choice localeCompare eligible sel2
                           in case fst sel3 of
                                None \<Rightarrow> Inl (RoutingError ''No routing candidate could be selected'')
                              | Some c \<Rightarrow>
                                  Inr \<lparr>resolvedModelSlug = modelSlug c, decisionReason = snd sel3,
                                       decisionHash = hash \<lparr>ddResolvedModelSlug = modelSlug c,
                                         ddReason = snd sel3, ddPolicy = policy, ddContext = input\<rparr>\<rparr>)))))"

subsection \<open>The gateway's resolver\<close>

datatype policy_kind = ROUTING | BUDGET | DATA | TOOL | SLO

datatype policy_scope = PLATFORM | PLAN | CUSTOMER | API_KEY

record policy_version =
  pvId :: string
  pvVersion :: int
  pvDocument :: "policy_document option"

record policy_row =
  polScope :: policy_scope
  polKind :: policy_kind
  polEnabled :: bool
  polVersions :: "policy_version list"

record policy_binding =
  bdApiKeyId :: "string option"
  bdCustomerId :: "string option"
  bdPlanId :: "string option"
  bdPriority :: int
  bdPolicy :: policy_row

record router_auth =
  raCustomerId :: string
  raApiKeyId :: string
  raAllowedModelIds :: "string list"
  raPlanId :: "string option"

record chat_message =
  msgRole :: string
  msgContent :: string

record resolve_result =
  rrHosted :: hosted_model
  rrRequestedModelSlug :: string
  rrResolvedModelSlug :: string
  rrReason :: string
  rrDecisionHash :: string
  rrPolicyVersionId :: "string option"
  rrRedactedMessages :: "chat_message list option"
  rrPiiFindings :: "(string \<times> int) list option"

text \<open>
  An error of the resolver: its \<^verbatim>\<open>code\<close> property and its message; Zod's own message is
  not represented. Dashes and arrows in messages are written in ASCII.
\<close>

datatype router_error = RouterError string string | RouterZodError string

definition estimateCandidateCost :: "hosted_model \<Rightarrow> int \<Rightarrow> int" where
  "estimateCandidateCost m maxTokens =
     \<lceil>(of_int (512 + maxTokens) * (pricePerMTokIn m + pricePerMTokOut m)) / 100\<rceil>"

definition candidate_of :: "int \<Rightarrow> hosted_model \<Rightarrow> candidate_input" where
  "candidate_of maxTokens m =
     \<lparr>ciModelSlug = modelId m, ciCostMicros = of_int (estimateCandidateCost m maxTokens),
      ciQualityClass = of_int (qualityClass m), ciLatencyClass = of_int (latencyClass m),
      ciAvailable = Some True\<rparr>"

definition binding_applies :: "router_auth \<Rightarrow> policy_binding \<Rightarrow> bool" where
  "binding_applies a b \<longleftrightarrow>
     (bdApiKeyId b = Some (raApiKeyId a) \<or> bdCustomerId b = Some (raCustomerId a)
      \<or> (raPlanId a \<noteq> None \<and> raPlanId a \<noteq> Some [] \<and> bdPlanId b = raPlanId a)
      \<or> (polScope (bdPolicy b) = PLATFORM \<and> polKind (bdPolicy b) = ROUTING))
     \<and> polEnabled (bdPolicy b) \<and> polKind (bdPolicy b) = ROUTING"

definition find_binding :: "router_auth \<Rightarrow> policy_binding list \<Rightarrow> policy_binding option" where
  "find_binding a bs =
     (case js_sort (\<lambda>x y. of_int (bdPriority x) - of_int (bdPriority y)) (filter (binding_applies a) bs) of
        [] \<Rightarrow> None | b # _ \<Rightarrow> Some b)"

definition latest_version :: "policy_row \<Rightarrow> policy_version option" where
  "latest_version p =
     (case js_sort (\<lambda>x y. of_int (pvVersion y) - of_int (pvVersion x)) (polVersions p) of
        [] \<Rightarrow> None | v # _ \<Rightarrow> Some v)"

definition empty_document :: policy_document where
  "empty_document = \<lparr>pdMaxCostMicros = None, pdMinQuality = None, pdMaxLatencyClass = None,
     pdPreferredModels = None, pdFallbackModels = None\<rparr>"

fun add_finding :: "(string \<times> int) list \<Rightarrow> string \<times> int \<Rightarrow> (string \<times> int) list" where
  "add_finding [] (r, n) = [(r, n)]"
| "add_finding ((r', n') # fs) (r, n) =
     (if r' = r then (r', n' + n) # fs else (r', n') # add_finding fs (r, n))"

definition redact_messages ::
    "(string \<Rightarrow> string \<times> (string \<times> int) list) \<Rightarrow> chat_message list \<Rightarrow> chat_message list \<times> (string \<times> int) list" where
  "redact_messages redact msgs =
     (map (\<lambda>m. m\<lparr>msgContent := fst (redact (msgContent m))\<rparr>) msgs,
      foldl add_finding [] (concat (map (\<lambda>m. snd (redact (msgContent m))) msgs)))"

definition platform_default :: "hosted_model list \<Rightarrow> string option" where
  "platform_default rows = map_option modelId (find isPlatformDefault rows)"

definition not_on_plan :: "string \<Rightarrow> router_error" where
  "not_on_plan m = RouterError ''MODEL_NOT_FOUND'' (''Model '' @ m @ '' not available on your plan'')"

definition resolveModelForRequest ::
    "(string \<Rightarrow> string \<Rightarrow> rat) \<Rightarrow> (decision_data \<Rightarrow> string) \<Rightarrow> (string \<Rightarrow> string)
      \<Rightarrow> (string \<Rightarrow> string \<times> (string \<times> int) list)
      \<Rightarrow> hosted_model list \<Rightarrow> policy_binding list
      \<Rightarrow> router_auth \<Rightarrow> string \<Rightarrow> int \<Rightarrow> chat_message list option \<Rightarrow> bool
      \<Rightarrow> (router_error, resolve_result) result" where
  "resolveModelForRequest localeCompare hash sha redact rows bindings auth requested maxTokens messages applyPii =
     (let allowed = raAllowedModelIds auth;
          models = filter (\<lambda>m. modelId m \<in> set allowed
                             \<or> (requested \<noteq> auto_model \<and> modelId m = requested)) rows;
          cands = map (candidate_of maxTokens)
                    (filter (\<lambda>m. modelId m \<in> set allowed \<or> requested = modelId m) models)
      in if cands = [] then Inl (not_on_plan requested)
         else
           (let binding = find_binding auth bindings;
                version = Option.bind binding (\<lambda>b. latest_version (bdPolicy b));
                document = or_default empty_document (Option.bind version pvDocument)
            in case evaluateRoutingPolicy localeCompare hash document
                      \<lparr>cxRequestedModel = requested, cxCandidates = cands,
                       cxPlatformDefaultModel = platform_default rows\<rparr> of
                 Inl e \<Rightarrow>
                   Inl (case e of
                          ZodError \<Rightarrow> RouterZodError ''ROUTING_POLICY_FAILED''
                        | RoutingError msg \<Rightarrow> RouterError ''ROUTING_POLICY_FAILED'' msg)
               | Inr decision \<Rightarrow>
                   if requested \<noteq> auto_model \<and> requested \<notin> set allowed
                   then Inl (not_on_plan requested)
                   else if resolvedModelSlug decision \<notin> set allowed
                   then Inl (RouterError ''MODEL_NOT_FOUND''
                          (''Resolved model '' @ resolvedModelSlug decision @ '' not entitled''))
                   else
                     (case find_model (resolvedModelSlug decision) models of
                        None \<Rightarrow> Inl (RouterError ''MODEL_NOT_FOUND'' ''Resolved model missing'')
                      | Some hosted \<Rightarrow>
                          (let redaction =
                                 (case messages of
                                    None \<Rightarrow> None
                                  | Some ms \<Rightarrow> if applyPii then Some (redact_messages redact ms) else None)
                           in Inr \<lparr>rrHosted = hosted, rrRequestedModelSlug = requested,
                                   rrResolvedModelSlug = resolvedModelSlug decision,
                                   rrReason = decisionReason decision,
                                   rrDecisionHash =
                                     (if decisionHash decision \<noteq> [] then decisionHash decision
                                      else sha (requested @ '':'' @ resolvedModelSlug decision)),
                                   rrPolicyVersionId = map_option pvId version,
                                   rrRedactedMessages =
                                     (case redaction of None \<Rightarrow> messages | Some (ms, _) \<Rightarrow> Some ms),
                                   rrPiiFindings = map_option snd redaction\<rparr>))))"

definition resolveVoiceAnalysisModel ::
    "hosted_model list \<Rightarrow> router_auth \<Rightarrow> string option \<Rightarrow> (router_error, string) result" where
  "resolveVoiceAnalysisModel rows auth wanted =
     (let requested = js_trim (or_default [] wanted)
      in if requested \<noteq> [] \<and> requested \<noteq> auto_model
         then (if requested \<notin> set (raAllowedModelIds auth) then Inl (not_on_plan requested)
               else Inr requested)
         else
           (case platform_default rows of
              None \<Rightarrow> Inl (RouterError ''NO_DEFAULT_MODEL''
                ''No platform default model configured - set one in Admin -> Model Registry'')
            | Some d \<Rightarrow>
                if d \<notin> set (raAllowedModelIds auth)
                then Inl (RouterError ''MODEL_NOT_FOUND''
                  (''Platform default '' @ d @ '' is not entitled on your plan''))
                else Inr d))"

end
