(* ===== verification/Messages.thy ===== *)
theory Messages
  imports Routing
begin

text \<open>
  The OpenAI-compatible surface (\<^verbatim>\<open>packages/engine/src/schema.ts\<close>, \<^verbatim>\<open>openai.ts\<close>,
  \<^verbatim>\<open>errors.ts\<close>): validation of a chat request with its defaults, normalisation of its
  messages, coalescing of consecutive turns, response objects and API errors.

  A raw request has the JSON types of the schema already; what remains of Zod are the
  ranges, the enumerations, the defaults and the \<^verbatim>\<open>stop\<close> transform.
\<close>

record content_part =
  cpType :: string
  cpText :: "string option"

datatype message_content = Text string | Parts "content_part list"

record raw_message =
  rmRole :: string
  rmContent :: message_content

record controls =
  ctBudgetMicros :: "rat option"
  ctMaxLatencyMs :: "rat option"
  ctMinQuality :: "rat option"
  ctKnowledgeBaseIds :: "string list option"
  ctRagTopK :: "rat option"
  ctTraceSessionId :: "string option"

datatype stop_input = StopOne string | StopMany "string list"

record raw_request =
  rqModel :: string
  rqMessages :: "raw_message list"
  rqTemperature :: "rat option"
  rqTopP :: "rat option"
  rqMaxTokens :: "rat option"
  rqStream :: "bool option"
  rqStop :: "stop_input option"
  rqResponseFormat :: "string option"
  rqControls :: "controls option"

record chat_request =
  crModel :: string
  crMessages :: "raw_message list"
  crTemperature :: rat
  crTopP :: rat
  crMaxTokens :: int
  crStream :: bool
  crStop :: "string list"
  crResponseFormat :: "string option"
  crControls :: "controls option"

definition is_int :: "rat \<Rightarrow> bool" where
  "is_int x \<longleftrightarrow> of_int \<lfloor>x\<rfloor> = x"

definition opt_ok :: "('a \<Rightarrow> bool) \<Rightarrow> 'a option \<Rightarrow> bool" where
  "opt_ok P x = (case x of None \<Rightarrow> True | Some v \<Rightarrow> P v)"

definition message_roles :: "string list" where
  "message_roles = [''system'', ''user'', ''assistant'', ''tool'']"

definition controls_ok :: "controls \<Rightarrow> bool" where
  "controls_ok c \<longleftrightarrow>
     opt_ok (\<lambda>x. is_int x \<and> 0 \<le> x) (ctBudgetMicros c)
     \<and> opt_ok (\<lambda>x. is_int x \<and> 0 < x) (ctMaxLatencyMs c)
     \<and> opt_ok (\<lambda>x. is_int x \<and> 0 \<le> x \<and> x \<le> 100) (ctMinQuality c)
     \<and> opt_ok (\<lambda>ids. list_all (\<lambda>i. i \<noteq> []) ids \<and> length ids \<le> 20) (ctKnowledgeBaseIds c)
     \<and> opt_ok (\<lambda>x. is_int x \<and> 1 \<le> x \<and> x \<le> 12) (ctRagTopK c)
     \<and> opt_ok (\<lambda>i. i \<noteq> []) (ctTraceSessionId c)"

text \<open>\<^verbatim>\<open>if (!v) return []\<close>: no stop and the empty string give no sequences.\<close>

definition stop_sequences :: "stop_input option \<Rightarrow> string list" where
  "stop_sequences s =
     (case s of None \<Rightarrow> [] | Some (StopOne v) \<Rightarrow> if v = [] then [] else [v] | Some (StopMany vs) \<Rightarrow> vs)"

definition parse_request :: "raw_request \<Rightarrow> chat_request option" where
  "parse_request r =
     (let temperature = or_default (7 / 10) (rqTemperature r);
          topP = or_default 1 (rqTopP r);
          maxTokens = or_default 4096 (rqMaxTokens r)
      in if rqModel r \<noteq> [] \<and> rqMessages r \<noteq> []
            \<and> list_all (\<lambda>m. rmRole m \<in> set message_roles) (rqMessages r)
            \<and> 0 \<le> temperature \<and> temperature \<le> 2 \<and> 0 \<le> topP \<and> topP \<le> 1
            \<and> is_int maxTokens \<and> 0 < maxTokens \<and> maxTokens \<le> 32768
            \<and> opt_ok (\<lambda>f. f \<in> {''text'', ''json_object''}) (rqResponseFormat r)
            \<and> opt_ok controls_ok (rqControls r)
         then Some \<lparr>crModel = rqModel r, crMessages = rqMessages r, crTemperature = temperature,
                    crTopP = topP, crMaxTokens = \<lfloor>maxTokens\<rfloor>, crStream = or_default False (rqStream r),
                    crStop = stop_sequences (rqStop r), crResponseFormat = rqResponseFormat r,
                    crControls = rqControls r\<rparr>
         else None)"

definition message_text :: "message_content \<Rightarrow> string" where
  "message_text c =
     (case c of
        Text s \<Rightarrow> s
      | Parts ps \<Rightarrow> join [CHR 0x0A] (filter (\<lambda>t. t \<noteq> []) (map (\<lambda>p. or_default [] (cpText p)) ps)))"

definition normalizeMessages :: "raw_message list \<Rightarrow> chat_message list" where
  "normalizeMessages ms =
     map (\<lambda>m. \<lparr>msgRole = rmRole m, msgContent = message_text (rmContent m)\<rparr>) ms"

definition coalescable :: "string \<Rightarrow> bool" where
  "coalescable r \<longleftrightarrow> r = ''user'' \<or> r = ''assistant''"

definition merge_content :: "string \<Rightarrow> string \<Rightarrow> string" where
  "merge_content a b = js_trim (a @ [CHR 0x0A, CHR 0x0A] @ b)"

definition coalesce_step :: "chat_message list \<Rightarrow> chat_message \<Rightarrow> chat_message list" where
  "coalesce_step output m =
     (if js_trim (msgContent m) = [] then output
      else if output \<noteq> [] \<and> msgRole (last output) = msgRole m \<and> coalescable (msgRole m)
      then butlast output @ [(last output)\<lparr>msgContent := merge_content (msgContent (last output)) (msgContent m)\<rparr>]
      else output @ [\<lparr>msgRole = msgRole m, msgContent = msgContent m\<rparr>])"

definition coalesceAlternatingRoles :: "chat_message list \<Rightarrow> chat_message list" where
  "coalesceAlternatingRoles ms = foldl coalesce_step [] ms"

subsection \<open>Responses and errors\<close>

record usage =
  usPromptTokens :: int
  usCompletionTokens :: int
  usTotalTokens :: int

datatype finish = Stop | Length | Error

record completion_response =
  csId :: string
  csCreated :: int
  csModel :: string
  csContent :: string
  csFinishReason :: finish
  csUsage :: usage

definition buildCompletionResponse ::
    "int \<Rightarrow> string \<Rightarrow> string \<Rightarrow> string \<Rightarrow> finish \<Rightarrow> int \<Rightarrow> int \<Rightarrow> completion_response" where
  "buildCompletionResponse nowMs i model content f p q =
     \<lparr>csId = i, csCreated = nowMs div 1000, csModel = model, csContent = content,
      csFinishReason = f,
      csUsage = \<lparr>usPromptTokens = p, usCompletionTokens = q, usTotalTokens = p + q\<rparr>\<rparr>"

record completion_chunk =
  ckId :: string
  ckCreated :: int
  ckModel :: string
  ckRole :: bool
  ckDelta :: "string option"
  ckFinishReason :: "finish option"
  ckUsage :: "usage option"

definition buildChunk ::
    "int \<Rightarrow> string \<Rightarrow> string \<Rightarrow> string option \<Rightarrow> bool \<Rightarrow> finish option \<Rightarrow> usage option \<Rightarrow> completion_chunk" where
  "buildChunk nowMs i model delta role f u =
     \<lparr>ckId = i, ckCreated = nowMs div 1000, ckModel = model, ckRole = role, ckDelta = delta,
      ckFinishReason = f, ckUsage = u\<rparr>"

text \<open>The fields of an \<^verbatim>\<open>ApiError\<close>: type, message, status, retry after.\<close>

datatype api_error = ApiError string string int "int option"

definition or_text :: "string \<Rightarrow> string \<Rightarrow> string" where
  "or_text a b = (if a = [] then b else a)"

definition mapEngineError :: "string \<Rightarrow> string \<Rightarrow> api_error" where
  "mapEngineError code message =
     (if code = ''MODEL_NOT_FOUND''
      then ApiError ''model_not_found'' (or_text message ''Model not found'') 404 None
      else if code \<in> {''MODEL_UNAVAILABLE'', ''OOM'', ''LOAD_FAILED''}
      then ApiError ''model_unavailable'' (or_text message ''Model temporarily unavailable'') 503 (Some 30)
      else if code = ''DEADLINE_EXCEEDED''
      then ApiError ''timeout'' (or_text message ''Inference timed out'') 504 None
      else if code = ''INVALID_ARGUMENT''
      then ApiError ''invalid_request'' (or_text message ''Invalid request'') 400 None
      else ApiError ''server_error'' (or_text message ''Internal server error'') 500 None)"

fun api_status :: "api_error \<Rightarrow> int" where
  "api_status (ApiError _ _ status _) = status"

subsection \<open>Coalescing makes turns alternate\<close>

fun alternating :: "chat_message list \<Rightarrow> bool" where
  "alternating (a # b # ms) =
     (\<not> (msgRole a = msgRole b \<and> coalescable (msgRole b)) \<and> alternating (b # ms))"
| "alternating _ = True"

definition not_blank :: "chat_message \<Rightarrow> bool" where
  "not_blank m \<longleftrightarrow> js_trim (msgContent m) \<noteq> []"

lemma alternating_snoc:
  "alternating (ms @ [m]) \<longleftrightarrow>
     alternating ms \<and> (ms = [] \<or> \<not> (msgRole (last ms) = msgRole m \<and> coalescable (msgRole m)))"
  by (induction ms rule: alternating.induct) auto

lemma alternating_snoc2:
  "alternating (ms @ [x, m]) \<longleftrightarrow>
     alternating (ms @ [x]) \<and> \<not> (msgRole x = msgRole m \<and> coalescable (msgRole m))"
  using alternating_snoc [of "ms @ [x]" m] by simp

lemma alternating_append_left: "alternating (xs @ ys) \<Longrightarrow> alternating xs"
  by (induction xs rule: alternating.induct) auto

lemma dropWhile_space_all: "list_all is_space (dropWhile is_space s) \<longleftrightarrow> list_all is_space s"
  by (induction s) auto

lemma js_trim_empty: "js_trim s = [] \<longleftrightarrow> list_all is_space s"
  using dropWhile_space_all [of s]
  by (simp add: js_trim_def trim_end_def trim_start_def dropWhile_eq_Nil_conv list_all_iff)

lemma trim_blank: "list_all is_space (js_trim s) \<longleftrightarrow> list_all is_space s"
  using dropWhile_space_all [of s] dropWhile_space_all [of "rev (dropWhile is_space s)"]
  by (simp add: js_trim_def trim_end_def trim_start_def list_all_rev)

lemma merge_not_blank: "js_trim a \<noteq> [] \<Longrightarrow> js_trim (merge_content a b) \<noteq> []"
  by (auto simp: js_trim_empty merge_content_def trim_blank)

lemma coalesce_step_ok:
  assumes "alternating out" and "list_all not_blank out"
  shows "alternating (coalesce_step out m) \<and> list_all not_blank (coalesce_step out m)"
proof (cases "out = []")
  case False
  then obtain xs x where out: "out = xs @ [x]" by (metis append_butlast_last_id)
  show ?thesis
    using assms unfolding out coalesce_step_def
    by (auto simp: not_blank_def merge_not_blank alternating_snoc alternating_snoc2)
qed (simp add: coalesce_step_def not_blank_def)

lemma coalesce_fold_ok:
  "alternating out \<Longrightarrow> list_all not_blank out \<Longrightarrow>
   alternating (foldl coalesce_step out ms) \<and> list_all not_blank (foldl coalesce_step out ms)"
  by (induction ms arbitrary: out) (auto simp: coalesce_step_ok)

lemma coalesce_ok:
  "alternating (coalesceAlternatingRoles ms) \<and> list_all not_blank (coalesceAlternatingRoles ms)"
  unfolding coalesceAlternatingRoles_def by (rule coalesce_fold_ok) auto

text \<open>A list that alternates and has no blank message is a fixed point.\<close>

lemma coalesce_fixed:
  "alternating (out @ ms) \<Longrightarrow> list_all not_blank ms \<Longrightarrow> foldl coalesce_step out ms = out @ ms"
proof (induction ms arbitrary: out)
  case (Cons m ms)
  have alt: "alternating (out @ [m])"
    using Cons.prems(1) alternating_append_left [of "out @ [m]" ms] by simp
  have "coalesce_step out m = out @ [m]"
    using alt Cons.prems(2)
    by (auto simp: coalesce_step_def not_blank_def alternating_snoc)
  then show ?case using Cons.IH [of "out @ [m]"] Cons.prems by simp
qed simp

text \<open>
  Coalescing yields a well-formed conversation and nothing else: in the result no two neighbours
  are both user or both assistant turns and no message is blank, and coalescing again
  changes nothing.
\<close>

theorem coalesced_turns_alternate:
  "alternating (coalesceAlternatingRoles ms) \<and> list_all not_blank (coalesceAlternatingRoles ms)
   \<and> coalesceAlternatingRoles (coalesceAlternatingRoles ms) = coalesceAlternatingRoles ms"
proof -
  have "coalesceAlternatingRoles (coalesceAlternatingRoles ms) = [] @ coalesceAlternatingRoles ms"
    unfolding coalesceAlternatingRoles_def [of "coalesceAlternatingRoles ms"]
    by (rule coalesce_fixed) (use coalesce_ok [of ms] in auto)
  then show ?thesis using coalesce_ok by simp
qed

end
