(* ===== verification/ModelPool.thy ===== *)
theory ModelPool
  imports Registry
begin

text \<open>
  The pool of \<^verbatim>\<open>llama-server\<close> processes (\<^verbatim>\<open>engine/llamaServer.ts\<close>): loading under a RAM
  budget with eviction of idle models, unloading, request accounting, unexpected
  exits, and the registry status kept beside it.

  The process, the file system, the port probe and the health endpoint are answers of
  the environment, collected in \<^verbatim>\<open>world\<close>. JavaScript runs one piece of code at a time and
  switches at each \<^verbatim>\<open>await\<close>: the functions below are the pieces between, and the parameter
  \<^verbatim>\<open>meanwhile\<close> of the eviction loop is what the other requests do at its awaits.
\<close>

datatype engine_error = EngineError string string

record llm_instance =
  iUid :: nat
  iModelId :: string
  iPort :: int
  iRamMb :: int
  iLoadedAtUnix :: int
  iLastUsedAt :: int
  iActiveRequests :: int
  iGeneratedTokens :: int
  iGenerationMs :: int

text \<open>\<^verbatim>\<open>pool\<close> is the JavaScript \<^verbatim>\<open>Map\<close> in insertion order, keyed by \<^verbatim>\<open>iModelId\<close>.\<close>

record engine =
  pool :: "llm_instance list"
  registry :: "hosted_model list"
  nextUid :: nat

record engine_env =
  envDatabase :: bool
  envProtectedModels :: string
  envRamBudgetMb :: int
  envPortBase :: int
  envAutoLoad :: bool

record reservation =
  rsModelId :: string
  rsActive :: bool
  rsStartsAt :: int
  rsEndsAt :: int
  rsPreemptible :: bool

record world =
  wBinary :: string
  wBinaryExists :: bool
  wStatSize :: "string \<Rightarrow> int option"
  wProbe :: "int \<Rightarrow> bool"
  wHealth :: "engine_error option"
  wReservations :: "reservation list option"
  wNow :: int

record load_request =
  lrModelId :: string
  lrWeightsPath :: string
  lrContextLength :: int
  lrThreads :: int

record load_reply =
  lpSuccess :: bool
  lpMessage :: string
  lpRamUsedMb :: int

definition setRegistryStatus :: "engine_env \<Rightarrow> string \<Rightarrow> model_status \<Rightarrow> engine \<Rightarrow> engine" where
  "setRegistryStatus env m st s =
     (if envDatabase env
      then s\<lparr>registry := update_where (\<lambda>r. modelId r = m) (\<lambda>r. r\<lparr>hmStatus := st\<rparr>) (registry s)\<rparr>
      else s)"

definition isModelProtectedFromEviction :: "engine_env \<Rightarrow> string \<Rightarrow> bool" where
  "isModelProtectedFromEviction env m \<longleftrightarrow>
     m \<in> set (filter (\<lambda>v. v \<noteq> []) (map js_trim (split_on (CHR '','') (envProtectedModels env))))"

definition get_instance :: "string \<Rightarrow> engine \<Rightarrow> llm_instance option" where
  "get_instance m s = table_find iModelId m (pool s)"

definition delete_instance :: "string \<Rightarrow> engine \<Rightarrow> engine" where
  "delete_instance m s = s\<lparr>pool := filter (\<lambda>i. iModelId i \<noteq> m) (pool s)\<rparr>"

definition ram_sum :: "llm_instance list \<Rightarrow> int" where
  "ram_sum is = sum_list (map iRamMb is)"

definition usedRamMb :: "engine \<Rightarrow> int" where
  "usedRamMb s = ram_sum (pool s)"

text \<open>The first free port of the 200 from the base, or an error.\<close>

fun free_port_from :: "(int \<Rightarrow> bool) \<Rightarrow> llm_instance list \<Rightarrow> int \<Rightarrow> nat \<Rightarrow> (engine_error, int) result" where
  "free_port_from probe is p 0 = Inl (EngineError ''INTERNAL'' ''No free port for llama-server'')"
| "free_port_from probe is p (Suc n) =
     (if list_ex (\<lambda>i. iPort i = p) is then free_port_from probe is (p + 1) n
      else if probe p then Inr p
      else free_port_from probe is (p + 1) n)"

definition freePort :: "engine_env \<Rightarrow> world \<Rightarrow> engine \<Rightarrow> (engine_error, int) result" where
  "freePort env w s = free_port_from (wProbe w) (pool s) (envPortBase env) 200"

definition unloadModel :: "engine_env \<Rightarrow> string \<Rightarrow> engine \<Rightarrow> (bool \<times> string) \<times> engine" where
  "unloadModel env m s =
     (case get_instance m s of
        None \<Rightarrow> ((True, ''not loaded''), setRegistryStatus env m MS_INACTIVE s)
      | Some _ \<Rightarrow> ((True, ''unloaded''), setRegistryStatus env m MS_INACTIVE (delete_instance m s)))"

subsection \<open>Eviction\<close>

definition reservedSlugs :: "world \<Rightarrow> string list" where
  "reservedSlugs w =
     (case wReservations w of
        None \<Rightarrow> []
      | Some rows \<Rightarrow>
          map rsModelId (filter (\<lambda>r. rsActive r \<and> rsStartsAt r \<le> wNow w \<and> rsEndsAt r > wNow w
                                    \<and> \<not> rsPreemptible r) rows))"

definition evictable :: "engine_env \<Rightarrow> string list \<Rightarrow> llm_instance \<Rightarrow> bool" where
  "evictable env reserved i \<longleftrightarrow>
     iActiveRequests i = 0 \<and> \<not> isModelProtectedFromEviction env (iModelId i)
     \<and> iModelId i \<notin> set reserved"

definition evict_candidates :: "engine_env \<Rightarrow> string list \<Rightarrow> engine \<Rightarrow> llm_instance list" where
  "evict_candidates env reserved s =
     js_sort (\<lambda>a b. of_int (iLastUsedAt a) - of_int (iLastUsedAt b))
       (filter (evictable env reserved) (pool s))"

text \<open>No other request runs at the awaits.\<close>

definition alone :: "llm_instance \<Rightarrow> engine \<Rightarrow> engine" where
  "alone c s = s"

fun evict_loop ::
    "engine_env \<Rightarrow> (llm_instance \<Rightarrow> engine \<Rightarrow> engine) \<Rightarrow> int \<Rightarrow> llm_instance list \<Rightarrow> engine \<Rightarrow> engine" where
  "evict_loop env meanwhile need [] s = s"
| "evict_loop env meanwhile need (c # cs) s =
     (if usedRamMb s + need \<le> envRamBudgetMb env then s
      else evict_loop env meanwhile need cs (meanwhile c (snd (unloadModel env (iModelId c) s))))"

definition oom_error :: "engine_env \<Rightarrow> int \<Rightarrow> engine \<Rightarrow> engine_error" where
  "oom_error env need s =
     EngineError ''OOM''
       (''Need '' @ show_int need @ '' MB but only '' @ show_int (envRamBudgetMb env - usedRamMb s)
        @ '' MB of the '' @ show_int (envRamBudgetMb env) @ '' MB budget is free'')"

definition evictForBudget ::
    "engine_env \<Rightarrow> world \<Rightarrow> (llm_instance \<Rightarrow> engine \<Rightarrow> engine) \<Rightarrow> int \<Rightarrow> engine
      \<Rightarrow> (engine_error, unit) result \<times> engine" where
  "evictForBudget env w meanwhile need s =
     (if usedRamMb s + need \<le> envRamBudgetMb env then (Inr (), s)
      else
        (let s' = evict_loop env meanwhile need (evict_candidates env (reservedSlugs w) s) s
         in if usedRamMb s' + need > envRamBudgetMb env then (Inl (oom_error env need s'), s')
            else (Inr (), s')))"

subsection \<open>Loading\<close>

definition model_ram_mb :: "int \<Rightarrow> int \<Rightarrow> int" where
  "model_ram_mb bytes ctx =
     js_round (of_int bytes / 1024 ^ 2 * (11 / 10) + of_int ctx / 8)"

text \<open>Up to the first budget check: what the load needs, or why it fails.\<close>

definition load_prepare ::
    "engine_env \<Rightarrow> world \<Rightarrow> load_request \<Rightarrow> engine \<Rightarrow> (engine_error, int) result \<times> engine" where
  "load_prepare env w req s =
     (if \<not> wBinaryExists w
      then (Inl (EngineError ''MODEL_UNAVAILABLE''
              (''llama-server not found at '' @ wBinary w @ ''. Run: pnpm llama:fetch'')), s)
      else
        (case wStatSize w (lrWeightsPath req) of
           None \<Rightarrow> (Inl (EngineError ''MODEL_NOT_FOUND'' (''Weights not found: '' @ lrWeightsPath req)), s)
         | Some bytes \<Rightarrow>
             (let need = model_ram_mb bytes (lrContextLength req)
              in case evictForBudget env w alone need s of
                   (Inl e, s') \<Rightarrow> (Inl e, s')
                 | (Inr _, s') \<Rightarrow> (Inr need, s'))))"

definition register_instance :: "world \<Rightarrow> load_request \<Rightarrow> int \<Rightarrow> int \<Rightarrow> engine \<Rightarrow> engine" where
  "register_instance w req need port s =
     (let i = \<lparr>iUid = nextUid s, iModelId = lrModelId req, iPort = port, iRamMb = need,
               iLoadedAtUnix = wNow w div 1000, iLastUsedAt = wNow w, iActiveRequests = 0,
               iGeneratedTokens = 0, iGenerationMs = 0\<rparr>
      in s\<lparr>pool := (if get_instance (lrModelId req) s = None then pool s @ [i]
                    else map (\<lambda>j. if iModelId j = lrModelId req then i else j) (pool s)),
           nextUid := Suc (nextUid s)\<rparr>)"

text \<open>From the health check to the end.\<close>

definition load_finish ::
    "engine_env \<Rightarrow> world \<Rightarrow> load_request \<Rightarrow> int \<Rightarrow> int \<Rightarrow> engine
      \<Rightarrow> (engine_error, load_reply) result \<times> engine" where
  "load_finish env w req need port s =
     (case wHealth w of
        Some e \<Rightarrow>
          (Inl e, setRegistryStatus env (lrModelId req) MS_ERROR (delete_instance (lrModelId req) s))
      | None \<Rightarrow>
          (Inr \<lparr>lpSuccess = True, lpMessage = ''listening on 127.0.0.1:'' @ show_int port,
                lpRamUsedMb = need\<rparr>,
           setRegistryStatus env (lrModelId req) MS_LOADED s))"

definition loadModelUnlocked ::
    "engine_env \<Rightarrow> world \<Rightarrow> load_request \<Rightarrow> engine \<Rightarrow> (engine_error, load_reply) result \<times> engine" where
  "loadModelUnlocked env w req s =
     (case get_instance (lrModelId req) s of
        Some i \<Rightarrow>
          (Inr \<lparr>lpSuccess = True, lpMessage = ''already loaded'', lpRamUsedMb = iRamMb i\<rparr>, s)
      | None \<Rightarrow>
          (case load_prepare env w req s of
             (Inl e, s1) \<Rightarrow> (Inl e, s1)
           | (Inr need, s1) \<Rightarrow>
               (case freePort env w s1 of
                  Inl e \<Rightarrow> (Inl e, s1)
                | Inr port \<Rightarrow> load_finish env w req need port (register_instance w req need port s1))))"

definition ensureLoaded ::
    "engine_env \<Rightarrow> world \<Rightarrow> string \<Rightarrow> engine \<Rightarrow> (engine_error, llm_instance) result \<times> engine" where
  "ensureLoaded env w m s =
     (case get_instance m s of
        Some i \<Rightarrow> (Inr i, s)
      | None \<Rightarrow>
          if \<not> envAutoLoad env
          then (Inl (EngineError ''MODEL_UNAVAILABLE'' (''Model '' @ m @ '' is not loaded'')), s)
          else
            (case find_model m (registry s) of
               None \<Rightarrow> (Inl (EngineError ''MODEL_NOT_FOUND'' (''Unknown model '' @ m)), s)
             | Some hosted \<Rightarrow>
                 (case loadModelUnlocked env w
                         \<lparr>lrModelId = modelId hosted, lrWeightsPath = weightsPath hosted,
                          lrContextLength = contextLength hosted, lrThreads = nThreads hosted\<rparr> s of
                    (Inl e, s1) \<Rightarrow> (Inl e, s1)
                  | (Inr _, s1) \<Rightarrow>
                      (case get_instance m s1 of
                         None \<Rightarrow> (Inl (EngineError ''INTERNAL''
                                  (''Model '' @ m @ '' vanished after load'')), s1)
                       | Some i \<Rightarrow> (Inr i, s1)))))"

subsection \<open>Requests and exits\<close>

text \<open>A running request holds the instance object, named here by its uid.\<close>

definition touch_instance :: "nat \<Rightarrow> (llm_instance \<Rightarrow> llm_instance) \<Rightarrow> engine \<Rightarrow> engine" where
  "touch_instance u f s = s\<lparr>pool := map (\<lambda>i. if iUid i = u then f i else i) (pool s)\<rparr>"

definition begin_request :: "int \<Rightarrow> nat \<Rightarrow> engine \<Rightarrow> engine" where
  "begin_request now u =
     touch_instance u (\<lambda>i. i\<lparr>iActiveRequests := iActiveRequests i + 1, iLastUsedAt := now\<rparr>)"

definition record_generation :: "int \<Rightarrow> int \<Rightarrow> nat \<Rightarrow> engine \<Rightarrow> engine" where
  "record_generation tokens ms u =
     touch_instance u (\<lambda>i. i\<lparr>iGeneratedTokens := iGeneratedTokens i + tokens,
                             iGenerationMs := iGenerationMs i + ms\<rparr>)"

definition end_request :: "int \<Rightarrow> nat \<Rightarrow> engine \<Rightarrow> engine" where
  "end_request now u =
     touch_instance u (\<lambda>i. i\<lparr>iActiveRequests := max 0 (iActiveRequests i - 1), iLastUsedAt := now\<rparr>)"

definition child_exit :: "engine_env \<Rightarrow> nat \<Rightarrow> string \<Rightarrow> engine \<Rightarrow> engine" where
  "child_exit env u m s =
     (case get_instance m s of
        Some i \<Rightarrow>
          if iUid i = u then setRegistryStatus env m MS_ERROR (delete_instance m s) else s
      | None \<Rightarrow> s)"

definition shutdownAll :: "engine_env \<Rightarrow> engine \<Rightarrow> engine" where
  "shutdownAll env s = fold (\<lambda>m s. snd (unloadModel env m s)) (map iModelId (pool s)) s"

subsection \<open>Listing\<close>

record loaded_model =
  lmModelId :: string
  lmRamUsedMb :: int
  lmLoadedAtUnix :: int
  lmActiveRequests :: int

definition listLoadedModels :: "engine \<Rightarrow> loaded_model list" where
  "listLoadedModels s =
     map (\<lambda>i. \<lparr>lmModelId = iModelId i, lmRamUsedMb = iRamMb i, lmLoadedAtUnix = iLoadedAtUnix i,
               lmActiveRequests = iActiveRequests i\<rparr>) (pool s)"

end
