(* ===== verification/Streaming.thy ===== *)
theory Streaming
  imports Messages ModelPool
begin

text \<open>
  Token streams: decoding of server-sent events by the local (\<^verbatim>\<open>engine/llamaServer.ts\<close>)
  and the remote backend (\<^verbatim>\<open>engine/remoteOpenAi.ts\<close>), the chunks they yield, how the chat
  handler (\<^verbatim>\<open>routes/v1.ts\<close>) consumes them, and the mapping of failures to API errors.
  The UTF-8 decoder's text pieces and \<^verbatim>\<open>JSON.parse\<close> are parameters.
\<close>

subsection \<open>Server-sent events\<close>

definition newline :: char where "newline = CHR 0x0A"

text \<open>The lines completed by each piece; the unfinished last line stays in the buffer.\<close>

fun sse_feed :: "string \<Rightarrow> string list \<Rightarrow> string list" where
  "sse_feed buffer [] = []"
| "sse_feed buffer (piece # pieces) =
     (let lines = split_on newline (buffer @ piece)
      in butlast lines @ sse_feed (last lines) pieces)"

definition sse_data :: "string \<Rightarrow> string option" where
  "sse_data line =
     (let trimmed = js_trim line
      in if \<not> starts_with ''data:'' trimmed then None
         else (let data = js_trim (drop 5 trimmed) in if data = ''[DONE]'' then None else Some data))"

record upstream_part =
  upContent :: "string option"
  upReasoning :: "string option"

record upstream_event =
  ueDelta :: "upstream_part option"
  ueFinishReason :: "string option"
  ueUsage :: "(int option \<times> int option) option"

text \<open>Lines that do not parse are skipped.\<close>

definition sse_events :: "(string \<Rightarrow> upstream_event option) \<Rightarrow> string list \<Rightarrow> upstream_event list" where
  "sse_events parse pieces = List.map_filter parse (List.map_filter sse_data (sse_feed [] pieces))"

subsection \<open>The local backend\<close>

record gen_chunk =
  gcDelta :: string
  gcFinal :: bool
  gcPromptTokens :: int
  gcCompletionTokens :: int
  gcFinishReason :: string

definition or_empty :: "string option \<Rightarrow> string" where
  "or_empty s = or_default [] s"

definition partText :: "bool \<Rightarrow> upstream_part option \<Rightarrow> string" where
  "partText preferContentOnly part =
     (let content = (case part of None \<Rightarrow> [] | Some p \<Rightarrow> or_empty (upContent p))
      in if preferContentOnly then content
         else if content \<noteq> [] then content
         else (case part of None \<Rightarrow> [] | Some p \<Rightarrow> or_empty (upReasoning p)))"

text \<open>The running token counts and finish reason.\<close>

type_synonym counts = "int \<times> int \<times> string"

definition update_counts :: "upstream_event \<Rightarrow> counts \<Rightarrow> counts" where
  "update_counts ev st =
     (case st of (p, q, f) \<Rightarrow>
        (case ueUsage ev of
           None \<Rightarrow> (p, q, (case ueFinishReason ev of None \<Rightarrow> f | Some r \<Rightarrow> if r = [] then f else r))
         | Some (p', q') \<Rightarrow>
             (or_default p p', or_default q q',
              (case ueFinishReason ev of None \<Rightarrow> f | Some r \<Rightarrow> if r = [] then f else r))))"

fun local_chunks :: "bool \<Rightarrow> counts \<Rightarrow> upstream_event list \<Rightarrow> gen_chunk list" where
  "local_chunks jsonMode (p, q, f) [] =
     [\<lparr>gcDelta = [], gcFinal = True, gcPromptTokens = p, gcCompletionTokens = q, gcFinishReason = f\<rparr>]"
| "local_chunks jsonMode (p, q, f) (ev # evs) =
     (let (p', q', f') = update_counts ev (p, q, f);
          delta = partText jsonMode (ueDelta ev)
      in (if delta \<noteq> []
          then [\<lparr>gcDelta = delta, gcFinal = False, gcPromptTokens = p', gcCompletionTokens = q',
                 gcFinishReason = []\<rparr>]
          else []) @ local_chunks jsonMode (p', q', f') evs)"

definition initial_counts :: counts where
  "initial_counts = (0, 0, ''stop'')"

definition local_stream :: "(string \<Rightarrow> upstream_event option) \<Rightarrow> bool \<Rightarrow> string list \<Rightarrow> gen_chunk list" where
  "local_stream parse jsonMode pieces = local_chunks jsonMode initial_counts (sse_events parse pieces)"

text \<open>Without streaming: the message of the only choice, in one final chunk.\<close>

definition local_single :: "bool \<Rightarrow> upstream_event \<Rightarrow> gen_chunk list" where
  "local_single jsonMode body =
     [\<lparr>gcDelta = partText jsonMode (ueDelta body), gcFinal = True,
       gcPromptTokens = (case ueUsage body of None \<Rightarrow> 0 | Some (p, _) \<Rightarrow> or_default 0 p),
       gcCompletionTokens = (case ueUsage body of None \<Rightarrow> 0 | Some (_, q) \<Rightarrow> or_default 0 q),
       gcFinishReason = or_default ''stop'' (ueFinishReason body)\<rparr>]"

subsection \<open>The remote backend\<close>

definition index_of :: "char \<Rightarrow> string \<Rightarrow> nat option" where
  "index_of c s = (if c \<in> set s then Some (length (takeWhile (\<lambda>x. x \<noteq> c) s)) else None)"

definition last_index_of :: "char \<Rightarrow> string \<Rightarrow> nat option" where
  "last_index_of c s = map_option (\<lambda>i. length s - 1 - i) (index_of c (rev s))"

definition hasJsonObject :: "string \<Rightarrow> bool" where
  "hasJsonObject text =
     (case (index_of (CHR ''{'') text, last_index_of (CHR ''}'') text) of
        (Some i, Some j) \<Rightarrow> j > i
      | _ \<Rightarrow> False)"

definition resolveAssistantText :: "bool \<Rightarrow> upstream_part option \<Rightarrow> string" where
  "resolveAssistantText jsonMode part =
     (let content = (case part of None \<Rightarrow> [] | Some p \<Rightarrow> or_empty (upContent p));
          reasoning = (case part of None \<Rightarrow> [] | Some p \<Rightarrow> or_empty (upReasoning p))
      in if jsonMode
         then (if hasJsonObject content then content
               else if hasJsonObject reasoning then reasoning
               else if content \<noteq> [] then content else reasoning)
         else if js_trim content = [] then reasoning
         else if length (js_trim reasoning) > 80 \<and> length (js_trim content) < 48
                 \<and> length reasoning > length content * 2
         then reasoning
         else content)"

definition delta_content :: "upstream_event \<Rightarrow> string" where
  "delta_content ev = (case ueDelta ev of None \<Rightarrow> [] | Some p \<Rightarrow> or_empty (upContent p))"

definition delta_reasoning :: "upstream_event \<Rightarrow> string" where
  "delta_reasoning ev = (case ueDelta ev of None \<Rightarrow> [] | Some p \<Rightarrow> or_empty (upReasoning p))"

definition remote_stream :: "(string \<Rightarrow> upstream_event option) \<Rightarrow> bool \<Rightarrow> string list \<Rightarrow> gen_chunk list" where
  "remote_stream parse jsonMode pieces =
     (let evs = sse_events parse pieces;
          (p, q, f) = fold update_counts evs initial_counts;
          assembled = resolveAssistantText jsonMode
            (Some \<lparr>upContent = Some (concat (map delta_content evs)),
                   upReasoning = Some (concat (map delta_reasoning evs))\<rparr>)
      in (if assembled \<noteq> []
          then [\<lparr>gcDelta = assembled, gcFinal = False, gcPromptTokens = p, gcCompletionTokens = q,
                 gcFinishReason = []\<rparr>]
          else []) @
         [\<lparr>gcDelta = [], gcFinal = True, gcPromptTokens = p, gcCompletionTokens = q,
           gcFinishReason = f\<rparr>])"

definition remote_single :: "bool \<Rightarrow> upstream_event \<Rightarrow> gen_chunk list" where
  "remote_single jsonMode body =
     [\<lparr>gcDelta = resolveAssistantText jsonMode (ueDelta body), gcFinal = True,
       gcPromptTokens = (case ueUsage body of None \<Rightarrow> 0 | Some (p, _) \<Rightarrow> or_default 0 p),
       gcCompletionTokens = (case ueUsage body of None \<Rightarrow> 0 | Some (_, q) \<Rightarrow> or_default 0 q),
       gcFinishReason = or_default ''stop'' (ueFinishReason body)\<rparr>]"

subsection \<open>The remote endpoint\<close>

record remote_env =
  reGeminiBaseUrl :: "string option"
  reOpenRouterBaseUrl :: "string option"
  reRemoteBaseUrl :: "string option"
  reOpenRouterKey :: "string option"
  reGeminiKey :: "string option"
  reGenericKey :: "string option"

definition trimmed_or_empty :: "string option \<Rightarrow> string" where
  "trimmed_or_empty s = js_trim (or_empty s)"

text \<open>\<^verbatim>\<open>a || b || ...\<close> on strings: the first non-empty one.\<close>

fun first_nonempty :: "string list \<Rightarrow> string" where
  "first_nonempty [] = []"
| "first_nonempty (x # xs) = (if x \<noteq> [] then x else first_nonempty xs)"

definition contains_ci :: "string \<Rightarrow> string \<Rightarrow> bool" where
  "contains_ci p s = includes_at p (to_lower s)"

definition isOpenRouterBase :: "string \<Rightarrow> bool" where
  "isOpenRouterBase url = contains_ci ''openrouter.ai'' url"

definition isGeminiBase :: "string \<Rightarrow> bool" where
  "isGeminiBase url = contains_ci ''generativelanguage.googleapis.com'' url"

definition resolveEnvApiKey :: "remote_env \<Rightarrow> string \<Rightarrow> string" where
  "resolveEnvApiKey env base =
     (let openRouter = trimmed_or_empty (reOpenRouterKey env);
          gemini = trimmed_or_empty (reGeminiKey env);
          generic = trimmed_or_empty (reGenericKey env)
      in if isGeminiBase base then first_nonempty [gemini, generic]
         else if isOpenRouterBase base then first_nonempty [openRouter, generic]
         else first_nonempty [openRouter, gemini, generic])"

definition strip_slashes :: "string \<Rightarrow> string" where
  "strip_slashes s = rev (dropWhile (\<lambda>c. c = CHR ''/'') (rev s))"

definition normalizeBaseUrl :: "string \<Rightarrow> string" where
  "normalizeBaseUrl url =
     (let u = strip_slashes url
      in if ends_with ''/chat/completions'' (to_lower u)
         then take (length u - length ''/chat/completions'') u else u)"

record endpoint =
  epUrl :: string
  epApiKey :: string
  epUpstreamModel :: string
  epOpenRouter :: bool
  epGemini :: bool

datatype remote_error = RemoteError string string

definition remote_failure :: "string \<Rightarrow> remote_error" where
  "remote_failure msg = RemoteError ''REMOTE_PROVIDER_ERROR'' msg"

text \<open>
  \<^verbatim>\<open>secret\<close>: the decrypted credential of a credential id, \<^verbatim>\<open>None\<close> when there is no such row.
\<close>

definition resolveRemoteEndpoint ::
    "remote_env \<Rightarrow> (string \<Rightarrow> string option) \<Rightarrow> hosted_model list \<Rightarrow> string \<Rightarrow> (remote_error, endpoint) result" where
  "resolveRemoteEndpoint env secret rows m =
     (case find_model m rows of
        None \<Rightarrow> Inl (remote_failure (''Model '' @ m @ '' is not an OpenAI-compatible remote provider''))
      | Some hosted \<Rightarrow>
          if providerKind hosted \<noteq> OPENAI_COMPAT
          then Inl (remote_failure (''Model '' @ m @ '' is not an OpenAI-compatible remote provider''))
          else
            (let base = first_nonempty [trimmed_or_empty (remoteBaseUrl hosted),
                          trimmed_or_empty (reGeminiBaseUrl env), trimmed_or_empty (reOpenRouterBaseUrl env),
                          trimmed_or_empty (reRemoteBaseUrl env), ''https://openrouter.ai/api/v1''];
                 upstreamModel = js_trim (first_nonempty [trimmed_or_empty (remoteModelId hosted), modelId hosted])
             in if upstreamModel = []
                then Inl (remote_failure (''Remote model id missing for '' @ m))
                else
                  (let apiKey = (case Option.bind (credentialId hosted) secret of
                                   Some k \<Rightarrow> k | None \<Rightarrow> resolveEnvApiKey env base)
                   in if apiKey = []
                      then Inl (remote_failure (''No API key configured for remote model '' @ m @
                             '' (assign a ProviderCredential or set GEMINI_API_KEY / OPENROUTER_API_KEY)''))
                      else Inr \<lparr>epUrl = normalizeBaseUrl base @ ''/chat/completions'', epApiKey = apiKey,
                                epUpstreamModel = upstreamModel, epOpenRouter = isOpenRouterBase base,
                                epGemini = isGeminiBase base\<rparr>)))"

subsection \<open>Consumption by the chat handler\<close>

record chat_acc =
  caPrompt :: int
  caCompletion :: int
  caFinish :: finish
  caContent :: string

definition chat_acc_init :: chat_acc where
  "chat_acc_init = \<lparr>caPrompt = 0, caCompletion = 0, caFinish = Stop, caContent = []\<rparr>"

definition estimateChatTokens :: "chat_message list \<Rightarrow> string \<Rightarrow> int \<times> int" where
  "estimateChatTokens ms completion =
     (let promptChars = sum_list (map (\<lambda>m. int (length (msgContent m))) ms)
      in (max 1 (ceil_div promptChars 4), max 0 (ceil_div (int (length completion)) 4)))"

text \<open>\<^verbatim>\<open>x || y\<close> on numbers.\<close>

definition or_int :: "int \<Rightarrow> int \<Rightarrow> int" where
  "or_int x y = (if x \<noteq> 0 then x else y)"

definition finish_of :: "string \<Rightarrow> finish" where
  "finish_of s = (if s = ''length'' then Length else if s = ''error'' then Error else Stop)"

definition absorb_chunk :: "gen_chunk \<Rightarrow> chat_acc \<Rightarrow> chat_acc" where
  "absorb_chunk c a =
     a\<lparr>caPrompt := or_int (gcPromptTokens c) (caPrompt a),
       caCompletion := or_int (gcCompletionTokens c) (caCompletion a),
       caContent := caContent a @ gcDelta c,
       caFinish := (if gcFinal c then finish_of (gcFinishReason c) else caFinish a)\<rparr>"

definition fill_estimate :: "chat_message list \<Rightarrow> chat_acc \<Rightarrow> chat_acc" where
  "fill_estimate ms a =
     (if caPrompt a + caCompletion a = 0
      then a\<lparr>caPrompt := fst (estimateChatTokens ms (caContent a)),
             caCompletion := snd (estimateChatTokens ms (caContent a))\<rparr>
      else a)"

text \<open>Streaming: the estimate is made at the final chunk, where the loop stops.\<close>

fun consume_stream :: "chat_message list \<Rightarrow> gen_chunk list \<Rightarrow> chat_acc \<Rightarrow> chat_acc" where
  "consume_stream ms [] a = a"
| "consume_stream ms (c # cs) a =
     (if gcFinal c then fill_estimate ms (absorb_chunk c a)
      else consume_stream ms cs (absorb_chunk c a))"

text \<open>Without streaming all chunks are read, then the estimate is made.\<close>

definition consume_all :: "chat_message list \<Rightarrow> gen_chunk list \<Rightarrow> chat_acc \<Rightarrow> chat_acc" where
  "consume_all ms cs a = fill_estimate ms (fold absorb_chunk cs a)"

subsection \<open>Failures\<close>

text \<open>
  What can be thrown to the handler: engine and remote errors with their codes, the quota
  and retrieval errors, any other \<^verbatim>\<open>Error\<close> with its name, message and \<^verbatim>\<open>code\<close> property,
  or a value that is no \<^verbatim>\<open>Error\<close>.
\<close>

datatype thrown =
    TEngine string string
  | TRemote string string
  | TQuotaExceeded
  | TRetrieval string int string
  | TError string string "string option"
  | TValue

fun local_mapEngineFailure :: "thrown \<Rightarrow> string \<times> string" where
  "local_mapEngineFailure (TEngine code msg) = (code, msg)"
| "local_mapEngineFailure (TRemote _ msg) = (''INTERNAL'', msg)"
| "local_mapEngineFailure TQuotaExceeded = (''INTERNAL'', ''Monthly token quota exceeded'')"
| "local_mapEngineFailure (TRetrieval _ _ msg) = (''INTERNAL'', msg)"
| "local_mapEngineFailure (TError name msg _) =
     (if name = ''TimeoutError'' \<or> name = ''AbortError''
      then (''DEADLINE_EXCEEDED'', ''Inference timed out'') else (''INTERNAL'', msg))"
| "local_mapEngineFailure TValue = (''INTERNAL'', ''unknown engine error'')"

fun mapRemoteError :: "thrown \<Rightarrow> string \<times> string" where
  "mapRemoteError (TRemote code msg) = (code, msg)"
| "mapRemoteError (TEngine _ msg) = (''REMOTE_PROVIDER_ERROR'', msg)"
| "mapRemoteError TQuotaExceeded = (''REMOTE_PROVIDER_ERROR'', ''Monthly token quota exceeded'')"
| "mapRemoteError (TRetrieval _ _ msg) = (''REMOTE_PROVIDER_ERROR'', msg)"
| "mapRemoteError (TError _ msg _) = (''REMOTE_PROVIDER_ERROR'', msg)"
| "mapRemoteError TValue = (''REMOTE_PROVIDER_ERROR'', ''Remote LLM failed'')"

text \<open>The facade's mapping with the \<^verbatim>\<open>llama-server\<close> backend.\<close>

definition mapEngineFailure :: "thrown \<Rightarrow> string \<times> string" where
  "mapEngineFailure e =
     (case e of
        TRemote _ _ \<Rightarrow> mapRemoteError e
      | TError name _ _ \<Rightarrow>
          if name = ''RemoteEngineError'' then mapRemoteError e else local_mapEngineFailure e
      | _ \<Rightarrow> local_mapEngineFailure e)"

end
