(* ===== verification/StreamingProps.thy ===== *)
theory StreamingProps
  imports Streaming
begin

text \<open>
  Streams: how the upstream's bytes are cut into pieces does not matter, the handler
  delivers and meters the same whether the response is streamed or not, and a
  generation is never metered as zero tokens.
\<close>

subsection \<open>Pieces\<close>

lemma split_on_append:
  "split_on c (xs @ ys) =
     butlast (split_on c xs) @ split_on c (last (split_on c xs) @ ys)"
proof (induction xs)
  case (Cons x xs)
  obtain z zs where split: "split_on c xs = z # zs" by (cases "split_on c xs") auto
  show ?case
  proof (cases "x = c")
    case True
    then show ?thesis using Cons split by simp
  next
    case False
    show ?thesis
    proof (cases zs)
      case Nil
      then show ?thesis using False Cons split by (simp split: list.split)
    next
      case (Cons w ws)
      then show ?thesis using False Cons.IH split by (auto split: list.split)
    qed
  qed
qed simp

lemma split_on_no_sep: "c \<notin> set s \<Longrightarrow> split_on c s = [s]"
  by (induction s) auto

lemma split_on_last_no_sep: "c \<notin> set (last (split_on c s))"
  by (induction s) (auto split: list.splits)

lemma sse_feed_lines:
  "newline \<notin> set buffer \<Longrightarrow> sse_feed buffer pieces = butlast (split_on newline (buffer @ concat pieces))"
proof (induction pieces arbitrary: buffer)
  case (Cons p ps)
  have "split_on newline (buffer @ p @ concat ps) =
      butlast (split_on newline (buffer @ p)) @ split_on newline (last (split_on newline (buffer @ p)) @ concat ps)"
    using split_on_append [of newline "buffer @ p" "concat ps"] by simp
  then show ?case
    using Cons.IH [OF split_on_last_no_sep] by (simp add: Let_def butlast_append)
qed (simp add: split_on_no_sep)

text \<open>
  The events decoded from a response depend only on its text: however the network cuts the body
  into pieces, the events are those of the complete lines of the whole text.
\<close>

theorem events_independent_of_pieces:
  "sse_events parse pieces =
     List.map_filter parse (List.map_filter sse_data (butlast (split_on newline (concat pieces))))"
  by (simp add: sse_events_def sse_feed_lines)

subsection \<open>Chunks\<close>

text \<open>A stream of chunks as both backends yield it: non-final chunks, then one final chunk.\<close>

definition well_ended :: "gen_chunk list \<Rightarrow> bool" where
  "well_ended cs \<longleftrightarrow> cs \<noteq> [] \<and> gcFinal (last cs) \<and> list_all (\<lambda>c. \<not> gcFinal c) (butlast cs)"

lemma local_chunks_ended: "well_ended (local_chunks j st evs)"
proof (induction evs arbitrary: st)
  case Nil
  then show ?case by (cases st) (simp add: well_ended_def)
next
  case (Cons ev evs)
  obtain p q f where st: "st = (p, q, f)" by (cases st) auto
  obtain p' q' f' where "update_counts ev (p, q, f) = (p', q', f')" by (metis prod.exhaust)
  then show ?case using Cons [of "(p', q', f')"] st
    by (auto simp: well_ended_def butlast_append Let_def)
qed

lemma local_chunks_text:
  "concat (map gcDelta (local_chunks j st evs)) = concat (map (\<lambda>ev. partText j (ueDelta ev)) evs)"
proof (induction evs arbitrary: st)
  case Nil
  then show ?case by (cases st) simp
next
  case (Cons ev evs)
  obtain p q f where st: "st = (p, q, f)" by (cases st) auto
  obtain p' q' f' where "update_counts ev (p, q, f) = (p', q', f')" by (metis prod.exhaust)
  then show ?case using Cons [of "(p', q', f')"] st by (simp add: Let_def)
qed

lemma remote_stream_ended: "well_ended (remote_stream parse j pieces)"
  by (auto simp: remote_stream_def Let_def well_ended_def split: prod.split)

lemma absorb_content: "caContent (fold absorb_chunk cs a) = caContent a @ concat (map gcDelta cs)"
  by (induction cs arbitrary: a) (auto simp: absorb_chunk_def)

lemma fill_content [simp]: "caContent (fill_estimate ms a) = caContent a"
  by (simp add: fill_estimate_def)

lemma estimate_positive: "fst (estimateChatTokens ms s) + snd (estimateChatTokens ms s) > 0"
  by (simp add: estimateChatTokens_def Let_def)

lemma fill_nonzero: "caPrompt (fill_estimate ms a) + caCompletion (fill_estimate ms a) \<noteq> 0"
  using estimate_positive [of ms "caContent a"] by (auto simp: fill_estimate_def)

lemma consume_stream_all:
  "well_ended cs \<Longrightarrow> consume_stream ms cs a = consume_all ms cs a"
proof (induction cs arbitrary: a)
  case (Cons c cs)
  then show ?case
    by (cases cs) (auto simp: well_ended_def consume_all_def)
qed (simp add: well_ended_def)


end
