(* ===== verification/ChatHandler.thy ===== *)
theory ChatHandler
  imports QuotaUsage Gatekeeping StreamingProps
begin

text \<open>
  The chat completion handler (\<^verbatim>\<open>routes/v1.ts\<close>): its sequence of effects on the quota
  ledger and the request records (\<^verbatim>\<open>lib/execution.ts\<close>), its metering
  (\<^verbatim>\<open>finalizeAndMeter\<close>, \<^verbatim>\<open>lib/pricing.ts\<close>) and its \<^verbatim>\<open>catch\<close> clause.

  Every \<^verbatim>\<open>await\<close> that may reject is a \<^verbatim>\<open>stage\<close>; the environment says which stage throws
  what. The answers of routing, pricing and generation are part of the environment.
\<close>

subsection \<open>Request records\<close>

datatype inference_status = Queued | Running | Succeeded | Failed | Canceled | Rejected

record inference_request =
  irId :: string
  irCustomerId :: string
  irRequestedModelSlug :: string
  irStream :: bool
  irStatus :: inference_status
  irPromptTokens :: "int option"
  irCompletionTokens :: "int option"
  irCostMicros :: "int option"
  irErrorCode :: "string option"
  irResolvedModelSlug :: "string option"

record inference_attempt =
  iaRequestId :: string
  iaAttemptNo :: int
  iaModelSlug :: string
  iaStatus :: inference_status

record chat_state =
  csDb :: qdb
  csRequests :: "inference_request list"
  csAttempts :: "inference_attempt list"
  csQueue :: "usage_job list"
  csAudit :: "string list"

definition createInferenceRequest :: "string \<Rightarrow> string \<Rightarrow> string \<Rightarrow> bool \<Rightarrow> chat_state \<Rightarrow> chat_state" where
  "createInferenceRequest i customerId slug stream s =
     s\<lparr>csRequests := csRequests s @
       [\<lparr>irId = i, irCustomerId = customerId, irRequestedModelSlug = slug, irStream = stream,
         irStatus = Queued, irPromptTokens = None, irCompletionTokens = None, irCostMicros = None,
         irErrorCode = None, irResolvedModelSlug = None\<rparr>]\<rparr>"

text \<open>One transaction: \<^verbatim>\<open>None\<close> when the request is missing or the attempt number is taken.\<close>

definition startAttempt :: "string \<Rightarrow> string \<Rightarrow> int \<Rightarrow> chat_state \<Rightarrow> chat_state option" where
  "startAttempt i slug n s =
     (if table_find irId i (csRequests s) = None
         \<or> list_ex (\<lambda>a. iaRequestId a = i \<and> iaAttemptNo a = n) (csAttempts s)
      then None
      else Some (s\<lparr>csRequests := update_where (\<lambda>r. irId r = i) (\<lambda>r. r\<lparr>irStatus := Running\<rparr>) (csRequests s),
                   csAttempts := csAttempts s @
                     [\<lparr>iaRequestId = i, iaAttemptNo = n, iaModelSlug = slug, iaStatus = Running\<rparr>]\<rparr>))"

record finalize_fields =
  ffStatus :: inference_status
  ffPromptTokens :: "int option"
  ffCompletionTokens :: "int option"
  ffCostMicros :: "int option"
  ffErrorCode :: "string option"
  ffResolvedModelSlug :: "string option"
  ffAttemptNo :: "int option"

text \<open>An absent field leaves the column alone, except the error, which is written as null.\<close>

definition keep_if_none :: "'a option \<Rightarrow> 'a option \<Rightarrow> 'a option" where
  "keep_if_none new old = (case new of None \<Rightarrow> old | Some v \<Rightarrow> Some v)"

definition finalize_request :: "finalize_fields \<Rightarrow> inference_request \<Rightarrow> inference_request" where
  "finalize_request f r =
     r\<lparr>irStatus := ffStatus f,
       irPromptTokens := keep_if_none (ffPromptTokens f) (irPromptTokens r),
       irCompletionTokens := keep_if_none (ffCompletionTokens f) (irCompletionTokens r),
       irCostMicros := keep_if_none (ffCostMicros f) (irCostMicros r),
       irErrorCode := ffErrorCode f,
       irResolvedModelSlug := keep_if_none (ffResolvedModelSlug f) (irResolvedModelSlug r)\<rparr>"

text \<open>
  Two separate updates, each of which fails when its row is missing. The second one's
  failure leaves the first in place.
\<close>

definition finalizeInferenceRequest :: "string \<Rightarrow> finalize_fields \<Rightarrow> chat_state \<Rightarrow> bool \<times> chat_state" where
  "finalizeInferenceRequest i f s =
     (if table_find irId i (csRequests s) = None then (False, s)
      else
        (let s1 = s\<lparr>csRequests := update_where (\<lambda>r. irId r = i) (finalize_request f) (csRequests s)\<rparr>
         in case ffAttemptNo f of
              None \<Rightarrow> (True, s1)
            | Some n \<Rightarrow>
                if list_ex (\<lambda>a. iaRequestId a = i \<and> iaAttemptNo a = n) (csAttempts s1)
                then (True, s1\<lparr>csAttempts := update_where (\<lambda>a. iaRequestId a = i \<and> iaAttemptNo a = n)
                                (\<lambda>a. a\<lparr>iaStatus := ffStatus f\<rparr>) (csAttempts s1)\<rparr>)
                else (False, s1)))"

subsection \<open>Pricing\<close>

definition computeCostMicros :: "int \<Rightarrow> int \<Rightarrow> rat \<Rightarrow> rat \<Rightarrow> int" where
  "computeCostMicros p q priceIn priceOut =
     max 0 (js_round ((of_int p * priceIn + of_int q * priceOut) / 100))"

subsection \<open>The handler\<close>

datatype stage =
    LookupModel | CreateRequest | ClaimTrace | ReserveQuota | TraceQuota | ResolveModel
  | TraceRouting | Pricing | StartAttempt | TraceDispatch | Retrieval | Generation
  | Finalize | CommitQuota | EnqueueUsage | BumpCache | WriteAudit | TraceComplete | Respond
  | ReleaseQuota | FinalizeFailed

text \<open>
  \<^verbatim>\<open>ceChunks\<close> is what the engine yields and \<^verbatim>\<open>ceEngineError\<close> what its stream throws after
  those chunks, if anything.
\<close>

record chat_env =
  ceAuth :: auth_context
  ceExecutionId :: string
  ceRequestId :: string
  ceNow :: int
  ceRedis :: bool
  ceThrows :: "stage \<Rightarrow> thrown option"
  ceFates :: "stage \<Rightarrow> nat \<Rightarrow> fate"
  ceRoute :: "(router_error, resolve_result) result"
  cePriceIn :: rat
  cePriceOut :: rat
  ceChunks :: "gen_chunk list"
  ceEngineError :: "thrown option"

record chat_local =
  clExecutionId :: "string option"
  clReservedTokens :: int
  clHeadersStarted :: bool
  clResolvedSlug :: string

type_synonym 'a chat = "chat_state \<times> chat_local \<Rightarrow> (thrown, 'a) result \<times> (chat_state \<times> chat_local)"

definition return_ok :: "'a \<Rightarrow> 'a chat" where
  "return_ok v = (\<lambda>s. (Inr v, s))"

definition and_then :: "'a chat \<Rightarrow> ('a \<Rightarrow> 'b chat) \<Rightarrow> 'b chat" where
  "and_then m f = (\<lambda>s. case m s of (Inl e, s') \<Rightarrow> (Inl e, s') | (Inr v, s') \<Rightarrow> f v s')"

definition at_stage :: "chat_env \<Rightarrow> stage \<Rightarrow> 'a chat \<Rightarrow> 'a chat" where
  "at_stage env st m =
     (case ceThrows env st of Some e \<Rightarrow> (\<lambda>s. (Inl e, s)) | None \<Rightarrow> m)"

definition on_state :: "(chat_state \<Rightarrow> chat_state) \<Rightarrow> unit chat" where
  "on_state f = (\<lambda>(s, l). (Inr (), (f s, l)))"

definition on_local :: "(chat_local \<Rightarrow> chat_local) \<Rightarrow> unit chat" where
  "on_local f = (\<lambda>(s, l). (Inr (), (s, f l)))"

definition thrown_of_quota :: "quota_error \<Rightarrow> thrown" where
  "thrown_of_quota e =
     (case e of
        QuotaExceeded \<Rightarrow> TQuotaExceeded
      | Prisma c \<Rightarrow> TError ''PrismaClientKnownRequestError'' ''database error''
          (Some (case c of P2034 \<Rightarrow> ''P2034'' | P2002 \<Rightarrow> ''P2002'' | P2025 \<Rightarrow> ''P2025''))
      | OtherError \<Rightarrow> TError ''Error'' ''database error'' None)"

definition on_db :: "(qdb \<Rightarrow> (quota_error, 'a) result \<times> qdb) \<Rightarrow> unit chat" where
  "on_db f = (\<lambda>(s, l).
     case f (csDb s) of
       (Inl e, db) \<Rightarrow> (Inl (thrown_of_quota e), (s\<lparr>csDb := db\<rparr>, l))
     | (Inr _, db) \<Rightarrow> (Inr (), (s\<lparr>csDb := db\<rparr>, l)))"

definition thrown_of_router :: "router_error \<Rightarrow> thrown" where
  "thrown_of_router e =
     (case e of
        RouterError c msg \<Rightarrow> TError ''Error'' msg (Some c)
      | RouterZodError c \<Rightarrow> TError ''Error'' ''invalid policy'' (Some c))"

definition chat_messages :: "chat_request \<Rightarrow> chat_message list" where
  "chat_messages body = coalesceAlternatingRoles (normalizeMessages (crMessages body))"

definition requested_knowledge :: "chat_request \<Rightarrow> string list" where
  "requested_knowledge body = or_default [] (Option.bind (crControls body) ctKnowledgeBaseIds)"

definition estimated_tokens :: "chat_request \<Rightarrow> int" where
  "estimated_tokens body =
     max 64 (ceil_div (sum_list (map (\<lambda>m. int (length (msgContent m))) (chat_messages body))) 4)
     + crMaxTokens body
     + (if requested_knowledge body \<noteq> [] then 1024 else 0)"

definition quota_applies :: "auth_context \<Rightarrow> bool" where
  "quota_applies a \<longleftrightarrow> billingMode a \<noteq> ''USAGE'' \<and> monthlyTokenQuota a > 0"

definition reserve_of :: "chat_env \<Rightarrow> chat_request \<Rightarrow> reserve_input" where
  "reserve_of env body =
     \<lparr>rvCustomer = authCustomerId (ceAuth env), rvRequest = ceExecutionId env,
      rvEstimate = estimated_tokens body, rvKey = ceExecutionId env @ '':reserve'',
      rvLimit = monthlyTokenQuota (ceAuth env),
      rvPeriodStart = Some (authPeriodStart (ceAuth env)),
      rvPeriodEnd = Some (authPeriodEnd (ceAuth env))\<rparr>"

definition commit_of :: "chat_env \<Rightarrow> chat_acc \<Rightarrow> commit_input" where
  "commit_of env a =
     \<lparr>cmCustomer = authCustomerId (ceAuth env), cmRequest = ceExecutionId env,
      cmActual = caPrompt a + caCompletion a, cmKey = ceExecutionId env @ '':usage:commit''\<rparr>"

definition release_of :: "chat_env \<Rightarrow> int \<Rightarrow> release_input" where
  "release_of env reserved =
     \<lparr>rlCustomer = authCustomerId (ceAuth env), rlRequest = ceExecutionId env,
      rlReserved = reserved, rlKey = ceExecutionId env @ '':release''\<rparr>"

definition job_of :: "chat_env \<Rightarrow> string \<Rightarrow> chat_acc \<Rightarrow> usage_job" where
  "job_of env slug a =
     \<lparr>ujCustomer = authCustomerId (ceAuth env), ujPromptTokens = caPrompt a,
      ujCompletionTokens = caCompletion a, ujModelSlug = slug, ujRequestId = ceRequestId env,
      ujKey = ceExecutionId env @ '':usage'', ujInferenceRequest = Some (ceExecutionId env)\<rparr>"

definition enqueueUsage :: "chat_env \<Rightarrow> usage_job \<Rightarrow> unit chat" where
  "enqueueUsage env j =
     (if ceRedis env then on_state (\<lambda>s. s\<lparr>csQueue := csQueue s @ [j]\<rparr>)
      else on_db (persist_tx (ceNow env) j))"

text \<open>A failing update throws a database error.\<close>

definition checked :: "(chat_state \<Rightarrow> bool \<times> chat_state) \<Rightarrow> unit chat" where
  "checked f = (\<lambda>(s, l).
     case f s of (ok, s') \<Rightarrow>
       (if ok then Inr () else Inl (thrown_of_quota (Prisma P2025)), (s', l)))"

definition success_fields :: "chat_env \<Rightarrow> string \<Rightarrow> chat_acc \<Rightarrow> finalize_fields" where
  "success_fields env slug a =
     \<lparr>ffStatus = Succeeded, ffPromptTokens = Some (caPrompt a),
      ffCompletionTokens = Some (caCompletion a),
      ffCostMicros = Some (computeCostMicros (caPrompt a) (caCompletion a) (cePriceIn env) (cePriceOut env)),
      ffErrorCode = None, ffResolvedModelSlug = Some slug, ffAttemptNo = Some 1\<rparr>"

definition commit_step :: "chat_env \<Rightarrow> int \<Rightarrow> chat_acc \<Rightarrow> unit chat" where
  "commit_step env reserved a =
     (if reserved > 0
      then at_stage env CommitQuota (on_db (commitQuota (ceFates env CommitQuota) (commit_of env a)))
      else return_ok ())"

definition after_metering :: "chat_env \<Rightarrow> unit chat" where
  "after_metering env =
     and_then (at_stage env BumpCache (return_ok ())) (\<lambda>_.
       at_stage env WriteAudit (on_state (\<lambda>s. s\<lparr>csAudit := csAudit s @ [''inference.completed'']\<rparr>)))"

definition finalizeAndMeter :: "chat_env \<Rightarrow> string \<Rightarrow> int \<Rightarrow> chat_acc \<Rightarrow> unit chat" where
  "finalizeAndMeter env slug reserved a =
     and_then (at_stage env Finalize
         (checked (finalizeInferenceRequest (ceExecutionId env) (success_fields env slug a)))) (\<lambda>_.
     and_then (commit_step env reserved a) (\<lambda>_.
     and_then (at_stage env EnqueueUsage (enqueueUsage env (job_of env slug a))) (\<lambda>_.
       after_metering env)))"

definition generate :: "chat_env \<Rightarrow> chat_request \<Rightarrow> chat_acc chat" where
  "generate env body =
     and_then (if crStream body then on_local (\<lambda>l. l\<lparr>clHeadersStarted := True\<rparr>) else return_ok ()) (\<lambda>_.
     at_stage env Generation
       (case ceEngineError env of
          Some e \<Rightarrow> (\<lambda>s. (Inl e, s))
        | None \<Rightarrow>
            return_ok (if crStream body
                       then consume_stream (chat_messages body) (ceChunks env) chat_acc_init
                       else consume_all (chat_messages body) (ceChunks env) chat_acc_init)))"

text \<open>The \<^verbatim>\<open>try\<close> block.\<close>

definition reserve_step :: "chat_env \<Rightarrow> chat_request \<Rightarrow> unit chat" where
  "reserve_step env body =
     (if quota_applies (ceAuth env)
      then and_then (at_stage env ReserveQuota
               (on_db (reserveQuota (ceFates env ReserveQuota) (ceNow env) (reserve_of env body)))) (\<lambda>_.
             on_local (\<lambda>l. l\<lparr>clReservedTokens := estimated_tokens body\<rparr>))
      else return_ok ())"

definition admit :: "chat_env \<Rightarrow> chat_request \<Rightarrow> unit chat" where
  "admit env body =
     and_then (at_stage env LookupModel (return_ok ())) (\<lambda>_.
     and_then (at_stage env CreateRequest (on_state (createInferenceRequest (ceExecutionId env)
         (authCustomerId (ceAuth env)) (crModel body) (crStream body)))) (\<lambda>_.
     and_then (on_local (\<lambda>l. l\<lparr>clExecutionId := Some (ceExecutionId env)\<rparr>)) (\<lambda>_.
     and_then (at_stage env ClaimTrace (return_ok ())) (\<lambda>_.
     and_then (reserve_step env body) (\<lambda>_.
       at_stage env TraceQuota (return_ok ()))))))"

definition route :: "chat_env \<Rightarrow> string chat" where
  "route env =
     and_then (at_stage env ResolveModel
        (case ceRoute env of
           Inl e \<Rightarrow> (\<lambda>s. (Inl (thrown_of_router e), s))
         | Inr r \<Rightarrow> return_ok (rrResolvedModelSlug r))) (\<lambda>slug.
     and_then (on_local (\<lambda>l. l\<lparr>clResolvedSlug := slug\<rparr>)) (\<lambda>_.
     and_then (at_stage env TraceRouting (return_ok ())) (\<lambda>_.
     and_then (at_stage env Pricing (return_ok ())) (\<lambda>_.
     and_then (at_stage env StartAttempt (checked (\<lambda>s.
         case startAttempt (ceExecutionId env) slug 1 s of None \<Rightarrow> (False, s) | Some s' \<Rightarrow> (True, s')))) (\<lambda>_.
     and_then (at_stage env TraceDispatch (return_ok ())) (\<lambda>_.
     and_then (at_stage env Retrieval (return_ok ())) (\<lambda>_.
       return_ok slug)))))))"

definition chat_try :: "chat_env \<Rightarrow> chat_request \<Rightarrow> chat_acc chat" where
  "chat_try env body =
     and_then (admit env body) (\<lambda>_.
     and_then (route env) (\<lambda>slug.
     and_then (generate env body) (\<lambda>a.
     and_then (\<lambda>(s, l). finalizeAndMeter env slug (clReservedTokens l) a (s, l)) (\<lambda>_.
     and_then (at_stage env TraceComplete (return_ok ())) (\<lambda>_.
     and_then (at_stage env Respond (return_ok ())) (\<lambda>_.
       return_ok a))))))"

datatype response =
    Completed chat_acc
  | StreamFailed string string
  | JsonError int string string "int option"

text \<open>The \<^verbatim>\<open>catch\<close> block: release, finalize (failures of both are swallowed), respond.\<close>

definition thrown_message :: "thrown \<Rightarrow> string" where
  "thrown_message e =
     (case e of
        TEngine _ msg \<Rightarrow> msg
      | TRemote _ msg \<Rightarrow> msg
      | TQuotaExceeded \<Rightarrow> ''Monthly token quota exceeded''
      | TRetrieval _ _ msg \<Rightarrow> msg
      | TError _ msg _ \<Rightarrow> msg
      | TValue \<Rightarrow> ''Inference failed'')"

definition catch_effects :: "chat_env \<Rightarrow> thrown \<Rightarrow> chat_state \<times> chat_local \<Rightarrow> chat_state" where
  "catch_effects env e sl =
     (case sl of (s, l) \<Rightarrow>
        (let s1 = (if clExecutionId l \<noteq> None \<and> clReservedTokens l > 0
                   then (if ceThrows env ReleaseQuota = None
                         then s\<lparr>csDb := snd (releaseQuota (ceFates env ReleaseQuota)
                                (release_of env (clReservedTokens l)) (csDb s))\<rparr>
                         else s)
                   else s)
         in case clExecutionId l of
              None \<Rightarrow> s1
            | Some i \<Rightarrow>
                if ceThrows env FinalizeFailed \<noteq> None then s1
                else snd (finalizeInferenceRequest i
                  \<lparr>ffStatus = (if e = TQuotaExceeded then Rejected else Failed),
                   ffPromptTokens = None, ffCompletionTokens = None, ffCostMicros = None,
                   ffErrorCode = Some (if e = TQuotaExceeded then ''quota_exceeded'' else ''inference_error''),
                   ffResolvedModelSlug = Some (clResolvedSlug l), ffAttemptNo = Some 1\<rparr> s1)))"

definition chat_error_response :: "bool \<Rightarrow> thrown \<Rightarrow> response" where
  "chat_error_response headersStarted e =
     (case e of
        TRetrieval type status msg \<Rightarrow> JsonError status type msg None
      | TQuotaExceeded \<Rightarrow> JsonError 429 ''quota_exceeded'' (thrown_message e) None
      | _ \<Rightarrow>
          (case mapEngineError (fst (mapEngineFailure e)) (snd (mapEngineFailure e)) of
             ApiError type msg status retry \<Rightarrow>
               if headersStarted then StreamFailed type msg
               else JsonError status type msg retry))"

definition chat_completions :: "chat_env \<Rightarrow> chat_request \<Rightarrow> chat_state \<Rightarrow> response \<times> chat_state" where
  "chat_completions env body s =
     (case chat_try env body
             (s, \<lparr>clExecutionId = None, clReservedTokens = 0, clHeadersStarted = False,
                  clResolvedSlug = crModel body\<rparr>) of
        (Inr a, (s', _)) \<Rightarrow> (Completed a, s')
      | (Inl e, (s', l)) \<Rightarrow>
          (chat_error_response (clHeadersStarted l) e, catch_effects env e (s', l)))"

end
