(* ===== verification/Canonical.thy ===== *)
theory Canonical
  imports Prelude "HOL-Library.List_Lexorder" "HOL-Library.Char_ord"
begin

text \<open>
  Canonical JSON (\<^verbatim>\<open>packages/platform/src/canonical.ts\<close>): the text that is hashed and signed, a
  reference reader of JSON, and the round trip between them. Numbers are integers (the
  payloads hold counts, and fractions travel as text); structures are trees, so the check
  for circular ones has nothing to do.
\<close>

subsection \<open>Values\<close>

text \<open>
  \<^verbatim>\<open>JUndef\<close> stands for \<^verbatim>\<open>undefined\<close>, functions and symbols, \<^verbatim>\<open>JBig\<close> for a bigint, \<^verbatim>\<open>JInfinite\<close> for a
  number that is not finite and \<^verbatim>\<open>JWrap v\<close> for an object whose \<^verbatim>\<open>toJSON\<close> returns \<^verbatim>\<open>v\<close>.
\<close>

datatype json =
    JNull
  | JBool bool
  | JNum int
  | JStr string
  | JUndef
  | JBig
  | JInfinite
  | JWrap json
  | JArr "json list"
  | JObj "(string \<times> json) list"

subsection \<open>Text of strings\<close>

abbreviation c_quote :: char where "c_quote \<equiv> CHR 0x22"
abbreviation c_back :: char where "c_back \<equiv> CHR 0x5C"

definition hex_digit :: "nat \<Rightarrow> char" where
  "hex_digit n = (if n < 10 then char_of (48 + n) else char_of (87 + n))"

definition escape_char :: "char \<Rightarrow> string" where
  "escape_char c =
     (let n = chr_code c in
      if c = c_quote then [c_back, c_quote]
      else if c = c_back then [c_back, c_back]
      else if n = 8 then [c_back, CHR ''b'']
      else if n = 9 then [c_back, CHR ''t'']
      else if n = 10 then [c_back, CHR ''n'']
      else if n = 12 then [c_back, CHR ''f'']
      else if n = 13 then [c_back, CHR ''r'']
      else if n < 32 then [c_back, CHR ''u'', CHR ''0'', CHR ''0'', hex_digit (n div 16), hex_digit (n mod 16)]
      else [c])"

definition json_string :: "string \<Rightarrow> string" where
  "json_string s = [c_quote] @ concat (map escape_char s) @ [c_quote]"

subsection \<open>Serialisation\<close>

text \<open>
  \<^verbatim>\<open>Inl\<close> is the message of the \<^verbatim>\<open>TypeError\<close>, \<^verbatim>\<open>None\<close> is \<^verbatim>\<open>undefined\<close>. Fields are visited in the
  order of their sorted keys, so the first error in that order is the one that is thrown.
\<close>

definition sort_fields :: "(string \<times> 'a) list \<Rightarrow> (string \<times> 'a) list" where
  "sort_fields kvs = sort_key fst kvs"

fun present :: "(string \<times> (string, string option) result) list \<Rightarrow> (string, string list) result" where
  "present [] = Inr []"
| "present ((k, Inl e) # r) = Inl e"
| "present ((k, Inr None) # r) = present r"
| "present ((k, Inr (Some t)) # r) = map_sum (\<lambda>e. e) ((#) (json_string k @ '':'' @ t)) (present r)"

fun items :: "(string, string option) result list \<Rightarrow> (string, string list) result" where
  "items [] = Inr []"
| "items (Inl e # r) = Inl e"
| "items (Inr t # r) = map_sum (\<lambda>e. e) ((#) (case t of None \<Rightarrow> ''null'' | Some x \<Rightarrow> x)) (items r)"

fun serialize :: "json \<Rightarrow> (string, string option) result"
  and serialize_list :: "json list \<Rightarrow> (string, string option) result list"
  and serialize_fields :: "(string \<times> json) list \<Rightarrow> (string \<times> (string, string option) result) list" where
  "serialize JNull = Inr (Some ''null'')"
| "serialize (JBool b) = Inr (Some (if b then ''true'' else ''false''))"
| "serialize (JNum i) = Inr (Some (show_int i))"
| "serialize (JStr s) = Inr (Some (json_string s))"
| "serialize JUndef = Inr None"
| "serialize JBig = Inl ''Canonical JSON cannot represent bigint values''"
| "serialize JInfinite = Inl ''Canonical JSON cannot represent non-finite numbers''"
| "serialize (JWrap v) = serialize v"
| "serialize (JArr xs) =
     map_sum (\<lambda>e. e) (\<lambda>ts. Some (''['' @ join '','' ts @ '']'')) (items (serialize_list xs))"
| "serialize (JObj kvs) =
     map_sum (\<lambda>e. e) (\<lambda>ts. Some (''{'' @ join '','' ts @ ''}''))
       (present (sort_fields (serialize_fields kvs)))"
| "serialize_list [] = []"
| "serialize_list (x # xs) = serialize x # serialize_list xs"
| "serialize_fields [] = []"
| "serialize_fields ((k, v) # r) = (k, serialize v) # serialize_fields r"

definition canonicalStringify :: "json \<Rightarrow> (string, string) result" where
  "canonicalStringify v =
     (case serialize v of
        Inl e \<Rightarrow> Inl e
      | Inr None \<Rightarrow> Inl ''The root value is not JSON serializable''
      | Inr (Some t) \<Rightarrow> Inr t)"

text \<open>\<^verbatim>\<open>sha\<close> is SHA-256 in hexadecimal.\<close>

definition hashCanonicalPayload :: "(string \<Rightarrow> string) \<Rightarrow> json \<Rightarrow> (string, string) result" where
  "hashCanonicalPayload sha v = map_sum (\<lambda>e. e) sha (canonicalStringify v)"

subsection \<open>The canonical form as a value\<close>

text \<open>Undefined fields disappear, undefined items become null, keys are sorted.\<close>

fun canon :: "json \<Rightarrow> json option"
  and canon_list :: "json list \<Rightarrow> json list"
  and canon_fields :: "(string \<times> json) list \<Rightarrow> (string \<times> json option) list" where
  "canon JUndef = None"
| "canon (JWrap v) = canon v"
| "canon (JArr xs) = Some (JArr (canon_list xs))"
| "canon (JObj kvs) =
     Some (JObj (List.map_filter (\<lambda>(k, v). map_option (Pair k) v) (sort_fields (canon_fields kvs))))"
| "canon v = Some v"
| "canon_list [] = []"
| "canon_list (x # xs) = (case canon x of None \<Rightarrow> JNull | Some y \<Rightarrow> y) # canon_list xs"
| "canon_fields [] = []"
| "canon_fields ((k, v) # r) = (k, canon v) # canon_fields r"

text \<open>The text of a value that is already canonical.\<close>

fun json_text :: "json \<Rightarrow> string"
  and text_list :: "json list \<Rightarrow> string list"
  and text_fields :: "(string \<times> json) list \<Rightarrow> string list" where
  "json_text JNull = ''null''"
| "json_text (JBool b) = (if b then ''true'' else ''false'')"
| "json_text (JNum i) = show_int i"
| "json_text (JStr s) = json_string s"
| "json_text (JArr xs) = ''['' @ join '','' (text_list xs) @ '']''"
| "json_text (JObj kvs) = ''{'' @ join '','' (text_fields kvs) @ ''}''"
| "json_text (JWrap v) = json_text v"
| "json_text v = []"
| "text_list [] = []"
| "text_list (x # xs) = json_text x # text_list xs"
| "text_fields [] = []"
| "text_fields ((k, v) # r) = (json_string k @ '':'' @ json_text v) # text_fields r"

subsection \<open>A reader of JSON\<close>

text \<open>
  \<^verbatim>\<open>JSON.parse\<close> on texts without fractions and exponents: white space may stand between tokens,
  a leading zero is an error.
\<close>

definition json_space :: "char \<Rightarrow> bool" where
  "json_space c \<longleftrightarrow> chr_code c \<in> {9, 10, 13, 32}"

definition skip_ws :: "string \<Rightarrow> string" where
  "skip_ws s = dropWhile json_space s"

definition hex_value :: "char \<Rightarrow> nat option" where
  "hex_value c =
     (let n = chr_code c in
      if is_digit c then Some (n - 48)
      else if 97 \<le> n \<and> n \<le> 102 then Some (n - 87)
      else if 65 \<le> n \<and> n \<le> 70 then Some (n - 55) else None)"

text \<open>The code point after \<^verbatim>\<open>\u\<close>; only code points below 256 are strings of this model.\<close>

definition read_hex :: "string \<Rightarrow> (char \<times> string) option" where
  "read_hex s =
     (case s of
        a # b # c # d # r \<Rightarrow>
          (case (hex_value a, hex_value b, hex_value c, hex_value d) of
             (Some x, Some y, Some z, Some w) \<Rightarrow>
               if x = 0 \<and> y = 0 then Some (char_of (16 * z + w), r) else None
           | _ \<Rightarrow> None)
      | _ \<Rightarrow> None)"

definition unescape :: "char \<Rightarrow> char option" where
  "unescape c = map_of [(c_quote, c_quote), (c_back, c_back), (CHR ''/'', CHR ''/''),
     (CHR ''b'', char_of (8 :: nat)), (CHR ''t'', char_of (9 :: nat)), (CHR ''n'', char_of (10 :: nat)),
     (CHR ''f'', char_of (12 :: nat)), (CHR ''r'', char_of (13 :: nat))] c"

text \<open>One character of a string literal: \<^verbatim>\<open>Inl\<close> at the closing quote.\<close>

definition read_char :: "string \<Rightarrow> (string + char \<times> string) option" where
  "read_char s =
     (case s of
        [] \<Rightarrow> None
      | c # r \<Rightarrow>
          if c = c_quote then Some (Inl r)
          else if c \<noteq> c_back then (if chr_code c < 32 then None else Some (Inr (c, r)))
          else
            (case r of
               [] \<Rightarrow> None
             | e # r' \<Rightarrow>
                 if e = CHR ''u'' then map_option Inr (read_hex r')
                 else map_option (\<lambda>x. Inr (x, r')) (unescape e)))"

fun read_string :: "nat \<Rightarrow> string \<Rightarrow> (string \<times> string) option" where
  "read_string 0 s = None"
| "read_string (Suc n) s =
     (case read_char s of
        None \<Rightarrow> None
      | Some (Inl r) \<Rightarrow> Some ([], r)
      | Some (Inr (c, r)) \<Rightarrow> map_option (\<lambda>(t, r'). (c # t, r')) (read_string n r))"

definition digits_value :: "string \<Rightarrow> int" where
  "digits_value ds = foldl (\<lambda>a d. 10 * a + int (chr_code d - 48)) 0 ds"

definition read_int :: "string \<Rightarrow> (int \<times> string) option" where
  "read_int s =
     (let neg = take 1 s = ''-''; t = (if neg then drop 1 s else s);
          ds = takeWhile is_digit t; r = dropWhile is_digit t
      in if ds = [] \<or> (1 < length ds \<and> hd ds = CHR ''0'') then None else Some ((if neg then - digits_value ds else digits_value ds), r))"

definition literal :: "string \<Rightarrow> json \<Rightarrow> string \<Rightarrow> (json \<times> string) option" where
  "literal w v s = (if starts_with w s then Some (v, drop (length w) s) else None)"

fun read_json :: "nat \<Rightarrow> string \<Rightarrow> (json \<times> string) option"
  and read_items :: "nat \<Rightarrow> string \<Rightarrow> (json list \<times> string) option"
  and read_fields :: "nat \<Rightarrow> string \<Rightarrow> ((string \<times> json) list \<times> string) option" where
  "read_json 0 s = None"
| "read_json (Suc n) s =
     (case skip_ws s of
        [] \<Rightarrow> None
      | c # r \<Rightarrow>
          if c = CHR ''n'' then literal ''null'' JNull (c # r)
          else if c = CHR ''t'' then literal ''true'' (JBool True) (c # r)
          else if c = CHR ''f'' then literal ''false'' (JBool False) (c # r)
          else if c = c_quote then map_option (\<lambda>(t, r'). (JStr t, r')) (read_string (length (c # r)) r)
          else if c = CHR ''['' then
            (if starts_with '']'' (skip_ws r) then Some (JArr [], tl (skip_ws r))
             else map_option (\<lambda>(xs, r'). (JArr xs, r')) (read_items n r))
          else if c = CHR ''{'' then
            (if starts_with ''}'' (skip_ws r) then Some (JObj [], tl (skip_ws r))
             else map_option (\<lambda>(kvs, r'). (JObj kvs, r')) (read_fields n r))
          else map_option (\<lambda>(i, r'). (JNum i, r')) (read_int (c # r)))"
| "read_items 0 s = None"
| "read_items (Suc n) s =
     (case read_json n s of
        None \<Rightarrow> None
      | Some (x, r) \<Rightarrow>
          if starts_with '']'' (skip_ws r) then Some ([x], tl (skip_ws r))
          else if starts_with '','' (skip_ws r)
          then map_option (\<lambda>(xs, r'). (x # xs, r')) (read_items n (tl (skip_ws r)))
          else None)"
| "read_fields 0 s = None"
| "read_fields (Suc n) s =
     (if \<not> starts_with [c_quote] (skip_ws s) then None
      else
        (case read_string (length (skip_ws s)) (tl (skip_ws s)) of
           None \<Rightarrow> None
         | Some (k, r) \<Rightarrow>
             if \<not> starts_with '':'' (skip_ws r) then None
             else
               (case read_json n (tl (skip_ws r)) of
                  None \<Rightarrow> None
                | Some (v, r') \<Rightarrow>
                    if starts_with ''}'' (skip_ws r') then Some ([(k, v)], tl (skip_ws r'))
                    else if starts_with '','' (skip_ws r')
                    then map_option (\<lambda>(kvs, r''). ((k, v) # kvs, r'')) (read_fields n (tl (skip_ws r')))
                    else None)))"

definition parse_json :: "string \<Rightarrow> json option" where
  "parse_json s =
     (case read_json (length s + 1) s of
        None \<Rightarrow> None
      | Some (v, r) \<Rightarrow> if skip_ws r = [] then Some v else None)"

end
