(* ===== verification/ChatWire.thy ===== *)
theory ChatWire
  imports ChatHandler Canonical
begin

text \<open>
  The dashboard chat from end to end: the server-sent events the chat handler writes
  (\<^verbatim>\<open>packages/engine/src/openai.ts\<close>, \<^verbatim>\<open>routes/v1.ts\<close>), the proxy that signs the browser's request
  (\<^verbatim>\<open>apps/web/app/api/chat/route.ts\<close>) and the browser's reader
  (\<^verbatim>\<open>apps/web/components/chat/useChatStream.ts\<close>).

  Texts are pieces of decoded UTF-8; JSON numbers are integers, as in \<^verbatim>\<open>Canonical\<close>.
\<close>

subsection \<open>Events\<close>

definition finish_text :: "finish \<Rightarrow> string" where
  "finish_text f = (case f of Stop \<Rightarrow> ''stop'' | Length \<Rightarrow> ''length'' | Error \<Rightarrow> ''error'')"

definition usage_json :: "usage \<Rightarrow> json" where
  "usage_json u = JObj [(''prompt_tokens'', JNum (usPromptTokens u)),
     (''completion_tokens'', JNum (usCompletionTokens u)), (''total_tokens'', JNum (usTotalTokens u))]"

definition chunk_json :: "completion_chunk \<Rightarrow> json" where
  "chunk_json c = JObj ([(''id'', JStr (ckId c)), (''object'', JStr ''chat.completion.chunk''),
     (''created'', JNum (ckCreated c)), (''model'', JStr (ckModel c)),
     (''choices'', JArr [JObj [(''index'', JNum 0),
        (''delta'', JObj ((if ckRole c then [(''role'', JStr ''assistant'')] else []) @
           (case ckDelta c of None \<Rightarrow> [] | Some d \<Rightarrow> [(''content'', JStr d)]))),
        (''finish_reason'', case ckFinishReason c of None \<Rightarrow> JNull | Some f \<Rightarrow> JStr (finish_text f))]])]
     @ (case ckUsage c of None \<Rightarrow> [] | Some u \<Rightarrow> [(''usage'', usage_json u)]))"

definition toSse :: "json \<Rightarrow> string" where
  "toSse v = ''data: '' @ json_text v @ [newline, newline]"

definition done_text :: string where
  "done_text = ''data: [DONE]'' @ [newline, newline]"

text \<open>The clock's value, in milliseconds, at the k-th call of \<^verbatim>\<open>buildChunk\<close>.\<close>

record wire_env =
  weCompletionId :: string
  weModel :: string
  weClock :: "nat \<Rightarrow> int"
  weRetrieval :: "json option"

definition final_chunk :: "wire_env \<Rightarrow> nat \<Rightarrow> chat_acc \<Rightarrow> completion_chunk" where
  "final_chunk w k a =
     buildChunk (weClock w k) (weCompletionId w) (weModel w) None False (Some (caFinish a))
       (Some \<lparr>usPromptTokens = caPrompt a, usCompletionTokens = caCompletion a,
              usTotalTokens = caPrompt a + caCompletion a\<rparr>)"

definition delta_chunk :: "wire_env \<Rightarrow> nat \<Rightarrow> string \<Rightarrow> completion_chunk" where
  "delta_chunk w k d = buildChunk (weClock w k) (weCompletionId w) (weModel w) (Some d) False None None"

text \<open>What the loop over the engine's chunks writes.\<close>

fun delta_events :: "wire_env \<Rightarrow> nat \<Rightarrow> chat_message list \<Rightarrow> gen_chunk list \<Rightarrow> chat_acc \<Rightarrow> json list" where
  "delta_events w k ms [] a = []"
| "delta_events w k ms (c # cs) a =
     (let a' = absorb_chunk c a
      in (if gcDelta c \<noteq> [] then [chunk_json (delta_chunk w k (gcDelta c))] else [])
         @ (if gcFinal c then [chunk_json (final_chunk w (Suc k) (fill_estimate ms a'))]
            else delta_events w (Suc k) ms cs a'))"

definition opening_events :: "wire_env \<Rightarrow> json list" where
  "opening_events w =
     chunk_json (buildChunk (weClock w 0) (weCompletionId w) (weModel w) (Some []) True None None)
     # (case weRetrieval w of None \<Rightarrow> []
        | Some r \<Rightarrow> [JObj [(''modelforge'', JObj [(''retrieval'', r)])]])"

definition failure_event :: "string \<Rightarrow> string \<Rightarrow> json" where
  "failure_event type message =
     JObj [(''error'', JObj [(''type'', JStr type), (''message'', JStr message)])]"

text \<open>
  The whole body: \<^verbatim>\<open>failed\<close> is the type and message of the error that ended the request
  after the headers were sent, \<^verbatim>\<open>cs\<close> are the chunks that arrived before it.
\<close>

definition chat_sse_body ::
    "wire_env \<Rightarrow> chat_message list \<Rightarrow> gen_chunk list \<Rightarrow> (string \<times> string) option \<Rightarrow> string" where
  "chat_sse_body w ms cs failed =
     concat (map toSse (opening_events w @ delta_events w 1 ms cs chat_acc_init
       @ (case failed of None \<Rightarrow> [] | Some (type, message) \<Rightarrow> [failure_event type message])))
     @ done_text"

subsection \<open>The browser's view of JSON\<close>

text \<open>\<^verbatim>\<open>v?.name\<close>, where \<^verbatim>\<open>None\<close> is \<^verbatim>\<open>undefined\<close>; of a repeated key \<^verbatim>\<open>JSON.parse\<close> keeps the last.\<close>

definition js_prop :: "string \<Rightarrow> json option \<Rightarrow> json option" where
  "js_prop k v = (case v of Some (JObj kvs) \<Rightarrow> map_of (rev kvs) k | _ \<Rightarrow> None)"

text \<open>\<^verbatim>\<open>v?.[0]\<close>.\<close>

definition item0 :: "json option \<Rightarrow> json option" where
  "item0 v = (case v of Some (JArr (x # xs)) \<Rightarrow> Some x | Some (JStr (c # s)) \<Rightarrow> Some (JStr [c])
     | Some (JObj kvs) \<Rightarrow> map_of (rev kvs) ''0'' | _ \<Rightarrow> None)"

definition nullish :: "json option \<Rightarrow> bool" where
  "nullish v \<longleftrightarrow> v = None \<or> v = Some JNull"

definition js_truthy :: "json option \<Rightarrow> bool" where
  "js_truthy v = (case v of None \<Rightarrow> False | Some JNull \<Rightarrow> False | Some (JBool b) \<Rightarrow> b
     | Some (JNum i) \<Rightarrow> i \<noteq> 0 | Some (JStr s) \<Rightarrow> s \<noteq> [] | Some _ \<Rightarrow> True)"

text \<open>\<^verbatim>\<open>String(v)\<close> of what \<^verbatim>\<open>JSON.parse\<close> returns; null items of an array are empty.\<close>

fun js_text :: "json \<Rightarrow> string" and js_texts :: "json list \<Rightarrow> string list" where
  "js_text JNull = ''null''"
| "js_text (JBool b) = (if b then ''true'' else ''false'')"
| "js_text (JNum i) = show_int i"
| "js_text (JStr s) = s"
| "js_text (JArr xs) = join '','' (js_texts xs)"
| "js_text v = ''[object Object]''"
| "js_texts [] = []"
| "js_texts (x # xs) = (if x = JNull then [] else js_text x) # js_texts xs"

subsection \<open>The browser's reader\<close>

record ui_message =
  umRole :: string
  umContent :: string
  umFinish :: "json option"
  umError :: bool
  umSources :: "json option"

definition pending_answer :: ui_message where
  "pending_answer = \<lparr>umRole = ''assistant'', umContent = [], umFinish = None, umError = False, umSources = None\<rparr>"

text \<open>What one event does to the assistant's message; \<^verbatim>\<open>Inl\<close> is the message of a thrown error.\<close>

definition browser_chunk :: "json \<Rightarrow> ui_message \<Rightarrow> (string, ui_message) result" where
  "browser_chunk chunk m =
     (if chunk = JNull then Inl ''Cannot read properties of null (reading 'error')''
      else
        (let message = js_prop ''message'' (js_prop ''error'' (Some chunk))
         in if js_truthy message then Inl (js_text (the message))
            else
              (let hits = js_prop ''hits'' (js_prop ''retrieval'' (js_prop ''modelforge'' (Some chunk)));
                   m1 = (if js_truthy hits then m\<lparr>umSources := hits\<rparr> else m);
                   choice = item0 (js_prop ''choices'' (Some chunk));
                   content = js_prop ''content'' (js_prop ''delta'' choice);
                   delta = (if nullish content then Some (JStr []) else content);
                   reason = js_prop ''finish_reason'' choice;
                   finish = (if nullish reason then None else reason)
               in Inr (if js_truthy delta \<or> js_truthy finish
                       then m1\<lparr>umContent := umContent m1 @ js_text (the delta),
                               umFinish := (if finish = None then umFinish m1 else finish)\<rparr>
                       else m1))))"

datatype progress = Reading | Complete | Threw string | Aborted

fun browser_lines :: "string list \<Rightarrow> ui_message \<Rightarrow> progress \<times> ui_message" where
  "browser_lines [] m = (Reading, m)"
| "browser_lines (line # lines) m =
     (let trimmed = js_trim line; data = js_trim (drop 5 trimmed)
      in if \<not> starts_with ''data:'' trimmed then browser_lines lines m
         else if data = ''[DONE]'' then (Complete, m)
         else (case parse_json data of
                 None \<Rightarrow> browser_lines lines m
               | Some chunk \<Rightarrow>
                   (case browser_chunk chunk m of
                      Inl e \<Rightarrow> (Threw e, m)
                    | Inr m' \<Rightarrow> browser_lines lines m')))"

text \<open>How the response body ends: it is closed, the user stops it, or the connection fails.\<close>

datatype body_end = Closes | UserStops | Breaks string

fun browser_read :: "body_end \<Rightarrow> string \<Rightarrow> string list \<Rightarrow> ui_message \<Rightarrow> progress \<times> ui_message" where
  "browser_read fin buffer [] m =
     ((case fin of Closes \<Rightarrow> Complete | UserStops \<Rightarrow> Aborted | Breaks e \<Rightarrow> Threw e), m)"
| "browser_read fin buffer (piece # pieces) m =
     (let lines = split_on newline (buffer @ piece)
      in case browser_lines (butlast lines) m of
           (Reading, m') \<Rightarrow> browser_read fin (last lines) pieces m'
         | r \<Rightarrow> r)"

text \<open>The \<^verbatim>\<open>catch\<close> block.\<close>

definition browser_catch :: "progress \<Rightarrow> ui_message \<Rightarrow> ui_message" where
  "browser_catch p m =
     (case p of
        Threw e \<Rightarrow> m\<lparr>umContent := or_text (umContent m) e, umFinish := Some (JStr ''error''), umError := True\<rparr>
      | Aborted \<Rightarrow> m\<lparr>umContent := or_text (umContent m) ''Generation stopped.'',
                    umFinish := Some (JStr ''stopped''), umError := False\<rparr>
      | _ \<Rightarrow> m)"

text \<open>
  What \<^verbatim>\<open>fetch\<close> answers: nothing (\<^verbatim>\<open>None\<close> when the user stops it, else the error), a refusal with its status and the
  message of its JSON body, or a stream.
\<close>

datatype reply = Unreachable "string option" | Refused int "string option" | Streams "string list" body_end

definition browser_answer :: "reply \<Rightarrow> ui_message" where
  "browser_answer r =
     (case r of
        Unreachable None \<Rightarrow> browser_catch Aborted pending_answer
      | Unreachable (Some e) \<Rightarrow> browser_catch (Threw e) pending_answer
      | Refused status message \<Rightarrow>
          browser_catch (Threw (case message of Some t \<Rightarrow> t
             | None \<Rightarrow> ''Chat request failed ('' @ show_int status @ '')'')) pending_answer
      | Streams pieces e \<Rightarrow>
          (case browser_read e [] pieces pending_answer of (p, m) \<Rightarrow> browser_catch p m))"

definition finishLabel :: "ui_message \<Rightarrow> string" where
  "finishLabel m =
     (if umFinish m = Some (JStr ''length'') then ''Answer cut off''
      else if umFinish m = Some (JStr ''stopped'') then ''Stopped''
      else if umFinish m = Some (JStr ''error'') then ''Error'' else ''ModelForge'')"

subsection \<open>Sending\<close>

record chat_ui =
  uiMessages :: "ui_message list"
  uiInput :: string
  uiModel :: string
  uiKnowledgeBase :: string
  uiBases :: "string list"
  uiMaxTokens :: rat
  uiTemperature :: rat
  uiStreaming :: bool

definition selected_bases :: "chat_ui \<Rightarrow> string list" where
  "selected_bases ui =
     (if uiKnowledgeBase ui = ''off'' then []
      else if uiKnowledgeBase ui = ''all'' then uiBases ui else [uiKnowledgeBase ui])"

text \<open>The two system prompts are parameters of the request: their wording does not matter here.\<close>

definition chat_body :: "string \<Rightarrow> string \<Rightarrow> chat_ui \<Rightarrow> ui_message list \<Rightarrow> raw_request" where
  "chat_body open_prompt grounded_prompt ui history =
     (let rag = selected_bases ui \<noteq> []
      in \<lparr>rqModel = uiModel ui,
          rqMessages = \<lparr>rmRole = ''system'', rmContent = Text (if rag then grounded_prompt else open_prompt)\<rparr>
            # map (\<lambda>m. \<lparr>rmRole = umRole m, rmContent = Text (umContent m)\<rparr>) history,
          rqTemperature = Some (if rag then min (uiTemperature ui) (3 / 10) else uiTemperature ui),
          rqTopP = None, rqMaxTokens = Some (uiMaxTokens ui), rqStream = Some True, rqStop = None,
          rqResponseFormat = None,
          rqControls = Some \<lparr>ctBudgetMicros = None, ctMaxLatencyMs = None, ctMinQuality = None,
            ctKnowledgeBaseIds = Some (selected_bases ui), ctRagTopK = Some 4, ctTraceSessionId = None\<rparr>\<rparr>)"

definition user_message :: "string \<Rightarrow> ui_message" where
  "user_message t = \<lparr>umRole = ''user'', umContent = t, umFinish = None, umError = False, umSources = None\<rparr>"

text \<open>
  A turn from the click to the end of the answer: the request sent, if any, and the state
  after it, where \<^verbatim>\<open>answer\<close> is what the server replies to a request.
\<close>

definition send_turn ::
    "string \<Rightarrow> string \<Rightarrow> (raw_request \<Rightarrow> reply) \<Rightarrow> string option \<Rightarrow> chat_ui \<Rightarrow> raw_request option \<times> chat_ui" where
  "send_turn open_prompt grounded_prompt answer text ui =
     (let prompt = js_trim (case text of None \<Rightarrow> uiInput ui | Some t \<Rightarrow> t)
      in if prompt = [] \<or> uiStreaming ui then (None, ui)
         else
           (let history = uiMessages ui @ [user_message prompt];
                body = chat_body open_prompt grounded_prompt ui history
            in (Some body, ui\<lparr>uiMessages := history @ [browser_answer (answer body)],
                             uiInput := [], uiStreaming := False\<rparr>)))"

definition rerunTranscript ::
    "string \<Rightarrow> string \<Rightarrow> (raw_request \<Rightarrow> reply) \<Rightarrow> string \<Rightarrow> string option \<Rightarrow> chat_ui \<Rightarrow> raw_request option \<times> chat_ui" where
  "rerunTranscript open_prompt grounded_prompt answer transcript prompt ui =
     (let normalized = js_trim transcript; ask = js_trim (or_empty prompt)
      in if normalized = [] \<or> ask = [] \<or> uiStreaming ui then (None, ui)
         else send_turn open_prompt grounded_prompt answer
                (Some (ask @ [newline, newline] @ ''Transcript:'' @ [newline] @ normalized)) ui)"

subsection \<open>Voice notes in the chat\<close>

datatype voice_status = VIdle | VUploading | VTranscribing | VAnalyzing | VDone | VError

record voice_state =
  vsStatus :: voice_status
  vsStep :: voice_status
  vsTranscript :: string
  vsAnalysis :: string
  vsError :: "string option"

definition friendlyVoiceError :: "string \<Rightarrow> string" where
  "friendlyVoiceError message =
     (if includes_at ''max concurrent'' (to_lower message)
      then ''Another chat or voice request is still running. Wait for it to finish, then try again.''
      else if includes_at ''requests/minute'' (to_lower message) \<or> includes_at ''rate_limit'' (to_lower message)
      then ''Too many requests right now. Please wait a minute and retry.'' else message)"

text \<open>
  What the voice route answers: a transcript and an analysis, a refusal, or nothing;
  missing texts of an answer are \<^verbatim>\<open>None\<close>.
\<close>

datatype voice_reply = VoiceOk "string option" "string option" | VoiceRefused int "string option" | VoiceLost string

definition assistant_message :: "string \<Rightarrow> ui_message" where
  "assistant_message t = pending_answer\<lparr>umContent := t\<rparr>"

definition voice_failed :: "string \<Rightarrow> voice_state" where
  "voice_failed raw = \<lparr>vsStatus = VError, vsStep = VTranscribing, vsTranscript = [], vsAnalysis = [],
     vsError = Some (friendlyVoiceError raw)\<rparr>"

definition analyzeVoice :: "voice_reply \<Rightarrow> chat_ui \<times> voice_state \<Rightarrow> chat_ui \<times> voice_state" where
  "analyzeVoice answer = (\<lambda>(ui, voice).
     if uiStreaming ui then (ui, voice)
     else
       (case answer of
          VoiceOk text reply_text \<Rightarrow>
            (let transcript = js_trim (or_empty text); analysis = js_trim (or_empty reply_text);
                 heard = (if transcript \<noteq> [] then ''[Voice transcript]'' @ [newline] @ transcript
                          else ''[Empty transcript]'')
             in (ui\<lparr>uiMessages := uiMessages ui @ [user_message heard] @
                      (if analysis \<noteq> [] then [assistant_message analysis] else [])\<rparr>,
                 \<lparr>vsStatus = VDone, vsStep = VDone, vsTranscript = transcript, vsAnalysis = analysis,
                  vsError = None\<rparr>))
        | VoiceRefused status message \<Rightarrow>
            (ui, voice_failed (case message of Some t \<Rightarrow> t
                   | None \<Rightarrow> ''Voice request failed ('' @ show_int status @ '')''))
        | VoiceLost e \<Rightarrow> (ui, voice_failed e)))"

subsection \<open>Reasoning inside an answer\<close>

definition think_open :: "string list" where
  "think_open = [''<think>'', ''<thinking>'', ''<reasoning>'']"

definition think_close :: "string list" where
  "think_close = [''</think>'', ''</thinking>'', ''</reasoning>'']"

definition tag_at :: "string list \<Rightarrow> string \<Rightarrow> string option" where
  "tag_at tags s = find (\<lambda>t. starts_with t (to_lower s)) tags"

text \<open>The first match: what stands before it and what follows it.\<close>

fun find_tag :: "string list \<Rightarrow> string \<Rightarrow> (string \<times> string) option" where
  "find_tag tags [] = None"
| "find_tag tags (c # r) =
     (case tag_at tags (c # r) of
        Some t \<Rightarrow> Some ([], drop (length t) (c # r))
      | None \<Rightarrow> map_option (\<lambda>(before_tag, after_tag). (c # before_tag, after_tag)) (find_tag tags r))"

lemma find_tag_length:
  "find_tag tags s = Some (b, r) \<Longrightarrow> \<exists>t \<in> set tags. length b + length t + length r = length s"
proof (induction s arbitrary: b)
  case (Cons c s)
  show ?case
  proof (cases "tag_at tags (c # s)")
    case None
    with Cons.prems obtain b' where b: "find_tag tags s = Some (b', r)" "b = c # b'" by auto
    from Cons.IH [OF b(1)] b(2) show ?thesis by auto
  next
    case (Some t)
    then have "t \<in> set tags" and st: "starts_with t (to_lower (c # s))"
      by (auto simp: tag_at_def find_Some_iff)
    moreover have "length t \<le> length (c # s)"
      using st arg_cong [OF st [unfolded starts_with_def], of length] by (simp add: to_lower_def)
    ultimately show ?thesis using Cons.prems Some by (intro bexI [of _ t]) auto
  qed
qed simp

lemma find_open_length: "find_tag think_open s = Some (b, r) \<Longrightarrow> length b + length r + 7 \<le> length s"
  using find_tag_length [of think_open s b r] by (auto simp: think_open_def)

lemma find_close_length: "find_tag think_close s = Some (b, r) \<Longrightarrow> length b + length r + 8 \<le> length s"
  using find_tag_length [of think_close s b r] by (auto simp: think_close_def)

text \<open>The loop: what is left, the answer and the passages so far; the last result is \<^verbatim>\<open>thinking\<close>.\<close>

function split_loop :: "string \<Rightarrow> string \<Rightarrow> string list \<Rightarrow> string \<times> string list \<times> bool" where
  "split_loop rest answer reasoning =
     (if rest = [] then (answer, reasoning, False)
      else
        (case find_tag think_open rest of
           None \<Rightarrow> (answer @ rest, reasoning, False)
         | Some (b, r) \<Rightarrow>
             (case find_tag think_close r of
                None \<Rightarrow> (answer @ b, reasoning @ [r], True)
              | Some (b', r') \<Rightarrow> split_loop r' (answer @ b) (reasoning @ [b']))))"
  by auto
termination
  by (relation "measure (\<lambda>(rest, _, _). length rest)")
    (auto dest!: find_open_length find_close_length)

declare split_loop.simps [simp del]

record split_message =
  smReasoning :: string
  smAnswer :: string
  smThinking :: bool

definition splitReasoning :: "string \<Rightarrow> split_message" where
  "splitReasoning content =
     (case split_loop content [] [] of
        (answer, reasoning, thinking) \<Rightarrow>
          \<lparr>smReasoning = js_trim (join [newline, newline] reasoning), smAnswer = js_trim answer,
           smThinking = thinking\<rparr>)"

end
