(* ===== verification/ChatProps.thy ===== *)
theory ChatProps
  imports ChatHandler
begin

text \<open>
  What a chat request does to its customer's quota, over all the points where it can
  fail: a success counts its tokens once and holds nothing back, a failure before the
  commit leaves the ledger's totals as they were. A failure after the commit releases
  a second time, which is stated as the code does it. The status of a routing error is
  stated too.
\<close>

subsection \<open>Steps that do not touch the ledger\<close>

definition keeps_ledger :: "'a chat \<Rightarrow> bool" where
  "keeps_ledger m \<longleftrightarrow>
     (\<forall>s l. csDb (fst (snd (m (s, l)))) = csDb s
          \<and> clReservedTokens (snd (snd (m (s, l)))) = clReservedTokens l
          \<and> clExecutionId (snd (snd (m (s, l)))) = clExecutionId l)"

lemma keeps_and_then [intro]:
  "keeps_ledger m \<Longrightarrow> (\<And>v. keeps_ledger (f v)) \<Longrightarrow> keeps_ledger (and_then m f)"
  unfolding keeps_ledger_def and_then_def
  by (auto split: prod.split sum.split) (metis fst_conv snd_conv)+

lemma keeps_return [intro]: "keeps_ledger (return_ok v)"
  by (simp add: keeps_ledger_def return_ok_def)

lemma keeps_throw [intro]: "keeps_ledger (\<lambda>s. (Inl e, s))"
  by (simp add: keeps_ledger_def)

lemma keeps_at_stage [intro]: "keeps_ledger m \<Longrightarrow> keeps_ledger (at_stage env st m)"
  by (cases "ceThrows env st") (auto simp: at_stage_def)

lemma keeps_on_local [intro]:
  "(\<And>l. clReservedTokens (f l) = clReservedTokens l \<and> clExecutionId (f l) = clExecutionId l) \<Longrightarrow>
   keeps_ledger (on_local f)"
  by (simp add: keeps_ledger_def on_local_def)

lemma keeps_on_state [intro]: "(\<And>s. csDb (f s) = csDb s) \<Longrightarrow> keeps_ledger (on_state f)"
  by (simp add: keeps_ledger_def on_state_def)

lemma keeps_checked [intro]: "(\<And>s. csDb (snd (f s)) = csDb s) \<Longrightarrow> keeps_ledger (checked f)"
  by (auto simp: keeps_ledger_def checked_def split: prod.split) (metis snd_conv)

lemma csDb_create [simp]: "csDb (createInferenceRequest i c slug st s) = csDb s"
  by (simp add: createInferenceRequest_def)

lemma csDb_finalize [simp]: "csDb (snd (finalizeInferenceRequest i f s)) = csDb s"
  by (auto simp: finalizeInferenceRequest_def Let_def split: option.split)

lemma csDb_start: "startAttempt i slug n s = Some s' \<Longrightarrow> csDb s' = csDb s"
  by (auto simp: startAttempt_def split: if_splits)

lemma keeps_route: "keeps_ledger (route env)"
  unfolding route_def
  by (intro keeps_and_then keeps_at_stage keeps_on_local keeps_return keeps_checked)
    (auto split: sum.split option.split dest: csDb_start)

lemma keeps_generate: "keeps_ledger (generate env body)"
  unfolding generate_def
  by (intro keeps_and_then keeps_at_stage) (auto split: option.split)

lemma keeps_result:
  "keeps_ledger m \<Longrightarrow> m (s, l) = (r, (s', l')) \<Longrightarrow>
   csDb s' = csDb s \<and> clReservedTokens l' = clReservedTokens l \<and> clExecutionId l' = clExecutionId l"
  unfolding keeps_ledger_def by (metis fst_conv snd_conv)

lemma and_then_Inr:
  "and_then m f s = (Inr v, s') \<longleftrightarrow> (\<exists>u s1. m s = (Inr u, s1) \<and> f u s1 = (Inr v, s'))"
  by (auto simp: and_then_def split: prod.split sum.split)

lemma and_then_Inl:
  "and_then m f s = (Inl e, s') \<longleftrightarrow>
     m s = (Inl e, s') \<or> (\<exists>u s1. m s = (Inr u, s1) \<and> f u s1 = (Inl e, s'))"
  by (auto simp: and_then_def split: prod.split sum.split)

lemma at_stage_Inr: "at_stage env st m s = (Inr v, s') \<Longrightarrow> m s = (Inr v, s')"
  by (auto simp: at_stage_def split: option.splits)

lemma at_stage_Inl:
  "at_stage env st m s = (Inl e, s') \<Longrightarrow> s' = s \<or> m s = (Inl e, s')"
  by (auto simp: at_stage_def split: option.splits)

subsection \<open>The ledger operations of the handler\<close>

definition undisturbed :: "chat_env \<Rightarrow> bool" where
  "undisturbed env \<longleftrightarrow> (\<forall>st n. ceFates env st n = Commits)"

lemma serializable_undisturbed:
  assumes "f 0 = Commits" and "\<And>db. fst (tx db) \<noteq> Inl (Prisma P2034)"
  shows "serializable 0 (\<lambda>n. attempt_tx (f n) tx) db = tx db"
  using assms(1) assms(2) [of db]
  by (subst serializable.simps)
    (auto simp: attempt_tx_def isPrismaError_def split: prod.split sum.split)

lemma recover_no_P2002:
  "fst r \<noteq> Inl (Prisma P2002) \<Longrightarrow> recover_duplicate k r = r"
  by (auto simp: recover_duplicate_def isPrismaError_def split: prod.split sum.split)

lemma tx_no_duplicate:
  "fst (reserve_tx now i db) \<noteq> Inl (Prisma P2002)" "fst (commit_tx ci db) \<noteq> Inl (Prisma P2002)"
  "fst (release_tx ri db) \<noteq> Inl (Prisma P2002)"
  by (auto simp: reserve_tx_post commit_tx_post release_tx_post Let_def split: option.split)

lemma operations_undisturbed:
  assumes "undisturbed env"
  shows "reserveQuota (ceFates env st) now i db = reserve_tx now i db"
    and "commitQuota (ceFates env st) ci db = commit_tx ci db"
    and "releaseQuota (ceFates env st) ri db = release_tx ri db"
  using assms
  by (simp_all add: undisturbed_def reserveQuota_def commitQuota_def releaseQuota_def
      serializable_undisturbed tx_no_conflict recover_no_P2002 tx_no_duplicate)

definition fresh_request :: "chat_env \<Rightarrow> qdb \<Rightarrow> bool" where
  "fresh_request env db \<longleftrightarrow>
     find_entry (ceExecutionId env @ '':reserve'') db = None
     \<and> find_entry (ceExecutionId env @ '':usage:commit'') db = None
     \<and> find_entry (ceExecutionId env @ '':release'') db = None
     \<and> table_find ueKey (ceExecutionId env @ '':usage'') (usageEvents db) = None
     \<and> (\<forall>e \<in> set (usageEvents db). ueInferenceRequest e \<noteq> Some (ceExecutionId env))
     \<and> (\<forall>e \<in> set (entries db). entryRequestId e \<noteq> ceExecutionId env)"

text \<open>The ledger and the local reservation at the points where the \<^verbatim>\<open>try\<close> block may be.\<close>

definition before_reserve :: "qdb \<Rightarrow> chat_state \<times> chat_local \<Rightarrow> bool" where
  "before_reserve db sl \<longleftrightarrow> csDb (fst sl) = db \<and> clReservedTokens (snd sl) = 0"

definition after_reserve :: "chat_env \<Rightarrow> chat_request \<Rightarrow> qdb \<Rightarrow> chat_state \<times> chat_local \<Rightarrow> bool" where
  "after_reserve env body db sl \<longleftrightarrow>
     fst (reserve_tx (ceNow env) (reserve_of env body) db) = Inr (reserve_entry (reserve_of env body))
     \<and> csDb (fst sl) = snd (reserve_tx (ceNow env) (reserve_of env body) db)
     \<and> clReservedTokens (snd sl) = estimated_tokens body
     \<and> clExecutionId (snd sl) = Some (ceExecutionId env)"

definition admitted_state :: "chat_env \<Rightarrow> chat_request \<Rightarrow> qdb \<Rightarrow> chat_state \<times> chat_local \<Rightarrow> bool" where
  "admitted_state env body db sl \<longleftrightarrow>
     (if quota_applies (ceAuth env) then after_reserve env body db sl else before_reserve db sl)"

lemma keeps_admitted:
  assumes "keeps_ledger m" and "m sl = (r, sl')" and "admitted_state env body db sl"
  shows "admitted_state env body db sl'"
  using keeps_result [of m "fst sl" "snd sl" r "fst sl'" "snd sl'"] assms
  by (auto simp: admitted_state_def after_reserve_def before_reserve_def split: if_splits)

lemma keeps_before:
  assumes "keeps_ledger m" and "m sl = (r, sl')" and "before_reserve db sl"
  shows "before_reserve db sl'"
  using keeps_result [of m "fst sl" "snd sl" r "fst sl'" "snd sl'"] assms
  by (simp add: before_reserve_def)

lemma reserve_result:
  assumes "find_entry (rvKey i) db = None"
  shows "reserve_tx now i db = (Inl QuotaExceeded, db)
       \<or> (fst (reserve_tx now i db) = Inr (reserve_entry i))"
  using assms by (auto simp: reserve_tx_post Let_def)

lemma reserve_step_cases:
  assumes quiet: "undisturbed env" and fresh: "fresh_request env db" and before: "before_reserve db sl"
    and exec: "clExecutionId (snd sl) = Some (ceExecutionId env)"
    and run: "reserve_step env body sl = (r, sl')"
  shows "(\<exists>e. r = Inl e) \<and> before_reserve db sl' \<or> r = Inr () \<and> admitted_state env body db sl'"
proof (cases "quota_applies (ceAuth env)")
  case False
  then show ?thesis using run before
    by (auto simp: reserve_step_def return_ok_def admitted_state_def)
next
  case True
  obtain s l where sl: "sl = (s, l)" by (cases sl)
  have db: "csDb s = db" "clReservedTokens l = 0" "clExecutionId l = Some (ceExecutionId env)"
    using before exec sl by (auto simp: before_reserve_def)
  have key: "find_entry (rvKey (reserve_of env body)) db = None"
    using fresh by (simp add: fresh_request_def reserve_of_def)
  show ?thesis
  proof (cases "ceThrows env ReserveQuota")
    case (Some e)
    then show ?thesis using True run before sl
      by (auto simp: reserve_step_def at_stage_def and_then_def)
  next
    case None
    from reserve_result [OF key, of "ceNow env"] show ?thesis
    proof
      assume "reserve_tx (ceNow env) (reserve_of env body) db = (Inl QuotaExceeded, db)"
      then show ?thesis using True None run sl db
        by (auto simp: reserve_step_def at_stage_def and_then_def on_db_def
            operations_undisturbed [OF quiet] before_reserve_def)
    next
      assume ok: "fst (reserve_tx (ceNow env) (reserve_of env body) db) = Inr (reserve_entry (reserve_of env body))"
      obtain db1 where "reserve_tx (ceNow env) (reserve_of env body) db = (Inr (reserve_entry (reserve_of env body)), db1)"
        using ok by (metis prod.collapse)
      then show ?thesis using True None run sl db
        by (auto simp: reserve_step_def at_stage_def and_then_def on_db_def on_local_def
            operations_undisturbed [OF quiet] admitted_state_def after_reserve_def)
    qed
  qed
qed

lemma admit_cases:
  assumes quiet: "undisturbed env" and fresh: "fresh_request env db" and before: "before_reserve db sl"
    and run: "admit env body sl = (r, sl')"
  shows "(\<exists>e. r = Inl e) \<and> (before_reserve db sl' \<or> admitted_state env body db sl')
       \<or> r = Inr () \<and> admitted_state env body db sl'"
proof -
  let ?pre = "and_then (at_stage env LookupModel (return_ok ())) (\<lambda>_.
     and_then (at_stage env CreateRequest (on_state (createInferenceRequest (ceExecutionId env)
         (authCustomerId (ceAuth env)) (crModel body) (crStream body)))) (\<lambda>_.
     and_then (on_local (\<lambda>l. l\<lparr>clExecutionId := Some (ceExecutionId env)\<rparr>)) (\<lambda>_.
     at_stage env ClaimTrace (return_ok ()))))"
  have split: "admit env body = and_then ?pre (\<lambda>_. and_then (reserve_step env body) (\<lambda>_.
       at_stage env TraceQuota (return_ok ())))"
    by (rule ext) (auto simp: admit_def and_then_def split: prod.split sum.split)
  obtain r1 s1 where pre: "?pre sl = (r1, s1)" by (metis prod.exhaust)
  have b1: "before_reserve db s1" and e1: "r1 = Inr u \<Longrightarrow> clExecutionId (snd s1) = Some (ceExecutionId env)" for u
    using pre before
    by (cases sl; auto simp: and_then_def at_stage_def return_ok_def on_state_def on_local_def
        before_reserve_def split: option.splits)+
  show ?thesis
  proof (cases r1)
    case (Inl e)
    then show ?thesis using run pre b1 unfolding split by (auto simp: and_then_def)
  next
    case (Inr u)
    obtain r2 s2 where res: "reserve_step env body s1 = (r2, s2)" by (metis prod.exhaust)
    from reserve_step_cases [OF quiet fresh b1 e1 [OF Inr] res] show ?thesis
      using run pre Inr res keeps_admitted [OF keeps_at_stage [OF keeps_return], of env TraceQuota "()" s2 r sl' env body db]
      unfolding split by (cases r) (auto simp: and_then_def)
  qed
qed


subsection \<open>A failure before the commit\<close>

lemma run_qop_find: "find_entry k db \<noteq> None \<Longrightarrow> find_entry k (run_qop op db) \<noteq> None"
  using find_entry_run by (cases "find_entry k db") fastforce+

lemma estimated_positive: "0 \<le> crMaxTokens body \<Longrightarrow> 0 < estimated_tokens body"
  by (simp add: estimated_tokens_def) linarith

lemma commit_key_of [simp]: "commit_key (ceExecutionId env @ '':usage'') = ceExecutionId env @ '':usage:commit''"
  by (simp add: commit_key_def)

lemma on_db_cases:
  assumes "on_db f (s, l) = (r, (s', l'))"
  shows "l' = l \<and> csDb s' = snd (f (csDb s)) \<and> (r = Inr () \<longleftrightarrow> (\<exists>v. fst (f (csDb s)) = Inr v))"
  using assms by (auto simp: on_db_def split: prod.splits sum.splits)

lemma keeps_after_metering: "keeps_ledger (after_metering env)"
  unfolding after_metering_def by (intro keeps_and_then keeps_at_stage keeps_return keeps_on_state) simp_all

lemma commit_step_cases:
  assumes "undisturbed env" and "commit_step env R a (s, l) = (r, (s', l'))"
  shows "l' = l \<and> (csDb s' = csDb s \<and> (r = Inr () \<longrightarrow> R \<le> 0)
      \<or> 0 < R \<and> csDb s' = snd (commit_tx (commit_of env a) (csDb s)))
    \<and> (r = Inr () \<and> 0 < R \<longrightarrow> (\<exists>e. fst (commit_tx (commit_of env a) (csDb s)) = Inr e))"
proof (cases "0 < R \<and> ceThrows env CommitQuota = None")
  case True
  then have "on_db (commit_tx (commit_of env a)) (s, l) = (r, (s', l'))"
    using assms by (simp add: commit_step_def at_stage_def on_db_def operations_undisturbed)
  from on_db_cases [OF this] True show ?thesis by simp
qed (use assms(2) in \<open>auto simp: commit_step_def at_stage_def return_ok_def split: if_splits option.splits\<close>)

lemma enqueue_step_cases:
  assumes "at_stage env EnqueueUsage (enqueueUsage env j) (s, l) = (r, (s', l'))"
  shows "l' = l \<and> (csDb s' = csDb s \<and> (r = Inr () \<longrightarrow> ceRedis env)
      \<or> \<not> ceRedis env \<and> csDb s' = snd (persist_tx (ceNow env) j (csDb s)))
    \<and> (r = Inr () \<and> \<not> ceRedis env \<longrightarrow> fst (persist_tx (ceNow env) j (csDb s)) = Inr ())"
proof (cases "\<not> ceRedis env \<and> ceThrows env EnqueueUsage = None")
  case True
  then have "on_db (persist_tx (ceNow env) j) (s, l) = (r, (s', l'))"
    using assms by (simp add: at_stage_def enqueueUsage_def)
  from on_db_cases [OF this] True show ?thesis by auto
qed (use assms in \<open>auto simp: at_stage_def enqueueUsage_def on_state_def split: option.splits\<close>)

text \<open>What metering does to the ledger, by how far it gets.\<close>

definition after_commit :: "chat_env \<Rightarrow> int \<Rightarrow> chat_acc \<Rightarrow> qdb \<Rightarrow> qdb" where
  "after_commit env R a db = (if 0 < R then snd (commit_tx (commit_of env a) db) else db)"

definition after_usage :: "chat_env \<Rightarrow> usage_job \<Rightarrow> qdb \<Rightarrow> qdb" where
  "after_usage env j db = (if ceRedis env then db else snd (persist_tx (ceNow env) j db))"

lemma meter_cases:
  assumes quiet: "undisturbed env" and run: "finalizeAndMeter env slug R a (s, l) = (r, (s', l'))"
  shows "(clReservedTokens l' = clReservedTokens l \<and> clExecutionId l' = clExecutionId l) \<and>
    (csDb s' = csDb s \<or> csDb s' = after_commit env R a (csDb s)
     \<or> csDb s' = after_usage env (job_of env slug a) (after_commit env R a (csDb s)))
    \<and> (r = Inr () \<longrightarrow>
         csDb s' = after_usage env (job_of env slug a) (after_commit env R a (csDb s))
         \<and> (0 < R \<longrightarrow> (\<exists>e. fst (commit_tx (commit_of env a) (csDb s)) = Inr e)))"
proof -
  let ?m1 = "at_stage env Finalize
         (checked (finalizeInferenceRequest (ceExecutionId env) (success_fields env slug a)))"
  obtain r1 s1 l1 where m1: "?m1 (s, l) = (r1, (s1, l1))" by (metis prod.exhaust)
  obtain r2 s2 l2 where m2: "commit_step env R a (s1, l1) = (r2, (s2, l2))" by (metis prod.exhaust)
  obtain r3 s3 l3 where m3: "at_stage env EnqueueUsage (enqueueUsage env (job_of env slug a)) (s2, l2)
      = (r3, (s3, l3))" by (metis prod.exhaust)
  have k1: "csDb s1 = csDb s \<and> clReservedTokens l1 = clReservedTokens l \<and> clExecutionId l1 = clExecutionId l"
  proof (rule keeps_result [of ?m1 s l r1 s1 l1])
    show "keeps_ledger ?m1" by (intro keeps_at_stage keeps_checked) simp
  qed (rule m1)
  note k2 = commit_step_cases [OF quiet m2] and k3 = enqueue_step_cases [OF m3]
  have k4: "csDb s' = csDb s3 \<and> clReservedTokens l' = clReservedTokens l3 \<and> clExecutionId l' = clExecutionId l3"
    if "after_metering env (s3, l3) = (r, (s', l'))"
    by (rule keeps_result [of "after_metering env" s3 l3 r s' l']) (rule keeps_after_metering, rule that)
  show ?thesis
  proof (cases r1)
    case (Inl e)
    then show ?thesis using run m1 k1 by (auto simp: finalizeAndMeter_def and_then_def)
  next
    case r1: (Inr u)
    show ?thesis
    proof (cases r2)
      case (Inl e)
      then show ?thesis using run m1 m2 r1 k1 k2
        by (auto simp: finalizeAndMeter_def and_then_def after_commit_def)
    next
      case r2: (Inr v)
      have c: "csDb s2 = after_commit env R a (csDb s)" using k1 k2 r2 by (auto simp: after_commit_def)
      show ?thesis
      proof (cases r3)
        case (Inl e)
        then show ?thesis using run m1 m2 m3 r1 r2 k1 k2 k3 c
          by (auto simp: finalizeAndMeter_def and_then_def after_usage_def)
      next
        case (Inr w)
        have "after_metering env (s3, l3) = (r, (s', l'))"
          using run m1 m2 m3 r1 r2 Inr by (simp add: finalizeAndMeter_def and_then_def)
        then show ?thesis using k1 k2 k3 k4 c r2 Inr by (auto simp: after_usage_def)
      qed
    qed
  qed
qed

lemma after_commit_key:
  "after_commit env R a db = db
   \<or> find_entry (ceExecutionId env @ '':usage:commit'') (after_commit env R a db) \<noteq> None"
  using tx_result_stored(2) [of "commit_of env a" db]
  by (cases "fst (commit_tx (commit_of env a) db)")
    (auto simp: after_commit_def commit_tx_post commit_of_def split: option.splits)

lemma after_usage_key:
  "after_usage env (job_of env slug a) db = db
   \<or> find_entry (ceExecutionId env @ '':usage:commit'') (after_usage env (job_of env slug a) db) \<noteq> None"
  by (auto simp: after_usage_def persist_tx_post job_of_def find_entry_def split: option.split)

lemma after_usage_keeps:
  "find_entry k db \<noteq> None \<Longrightarrow> find_entry k (after_usage env j db) \<noteq> None"
  using run_qop_find [of k db "Persist (ceNow env) j"] by (simp add: after_usage_def)

lemma meter_uncommitted:
  assumes "undisturbed env" and "finalizeAndMeter env slug R a (s, l) = (r, (s', l'))"
    and "find_entry (ceExecutionId env @ '':usage:commit'') (csDb s') = None"
  shows "csDb s' = csDb s \<and> clReservedTokens l' = clReservedTokens l \<and> clExecutionId l' = clExecutionId l"
  using meter_cases [OF assms(1,2)] assms(3) after_commit_key [of env R a "csDb s"]
    after_usage_key [of env slug a "after_commit env R a (csDb s)"]
    after_usage_keeps [of "ceExecutionId env @ '':usage:commit''" "after_commit env R a (csDb s)" env "job_of env slug a"]
  by metis

lemma admitted_cong:
  "csDb s' = csDb s \<Longrightarrow> clReservedTokens l' = clReservedTokens l \<Longrightarrow> clExecutionId l' = clExecutionId l \<Longrightarrow>
   admitted_state env body db (s, l) \<Longrightarrow> admitted_state env body db (s', l')"
  by (auto simp: admitted_state_def after_reserve_def before_reserve_def split: if_splits)


lemma try_uncommitted:
  assumes quiet: "undisturbed env" and fresh: "fresh_request env db" and before: "before_reserve db sl"
    and run: "chat_try env body sl = (Inl e, sl')"
    and none: "find_entry (ceExecutionId env @ '':usage:commit'') (csDb (fst sl')) = None"
  shows "before_reserve db sl' \<or> admitted_state env body db sl'"
proof -
  obtain r1 sl1 where admit: "admit env body sl = (r1, sl1)" by (metis prod.exhaust)
  note cases1 = admit_cases [OF quiet fresh before admit]
  show ?thesis
  proof (cases r1)
    case (Inl e1)
    then show ?thesis using run admit cases1 by (auto simp: chat_try_def and_then_Inl and_then_def)
  next
    case (Inr u)
    then have a1: "admitted_state env body db sl1" using cases1 by auto
    obtain r2 sl2 where route: "route env sl1 = (r2, sl2)" by (metis prod.exhaust)
    have a2: "admitted_state env body db sl2" by (rule keeps_admitted [OF keeps_route route a1])
    show ?thesis
    proof (cases r2)
      case (Inl e2)
      then show ?thesis using run admit Inr route a2 by (auto simp: chat_try_def and_then_def)
    next
      case slug: (Inr slug)
      obtain r3 sl3 where gen: "generate env body sl2 = (r3, sl3)" by (metis prod.exhaust)
      have a3: "admitted_state env body db sl3" by (rule keeps_admitted [OF keeps_generate gen a2])
      obtain s3 l3 where sl3: "sl3 = (s3, l3)" by (cases sl3)
      show ?thesis
      proof (cases r3)
        case (Inl e3)
        then show ?thesis using run admit Inr route slug gen a3 by (auto simp: chat_try_def and_then_def)
      next
        case acc: (Inr a)
        obtain r4 s4 l4 where meter: "finalizeAndMeter env slug (clReservedTokens l3) a (s3, l3) = (r4, (s4, l4))"
          by (metis prod.exhaust)
        have sl': "sl' = (s4, l4)"
          using run admit Inr route slug gen acc sl3 meter
          by (auto simp: chat_try_def and_then_def at_stage_def return_ok_def
              split: sum.splits option.splits)
        from meter_uncommitted [OF quiet meter] none sl' a3 sl3 show ?thesis
          by (auto intro: admitted_cong)
      qed
    qed
  qed
qed

lemma release_after_reserve:
  assumes ok: "ledger_ok db" and res: "fst (reserve_tx now i db) = Inr (reserve_entry i)"
    and key: "find_entry (rvKey i) db = None"
    and nonneg: "0 \<le> reserved_total (rvCustomer i) (entries db)" and est: "0 \<le> rvEstimate i"
    and rel: "rlCustomer ri = rvCustomer i" "rlRequest ri = rvRequest i" "rlReserved ri = rvEstimate i"
    and relkey: "find_entry (rlKey ri) db = None" "rlKey ri \<noteq> rvKey i"
  shows "entries (snd (release_tx ri (snd (reserve_tx now i db)))) =
         entries db @ [reserve_entry i,
           \<lparr>ledgerId = rvCustomer i, entryKey = rlKey ri, deltaTokens = 0,
            reservedDelta = - rvEstimate i, reason = RELEASE, entryRequestId = rvRequest i\<rparr>]"
proof -
  let ?l = "ledger_or (rvCustomer i) (reserve_period now i) db"
  have db1: "snd (reserve_tx now i db) = post_entry (reserve_entry i) ?l db"
    using res key by (auto simp: reserve_tx_post Let_def split: if_splits)
  have old: "tokensReserved ?l = reserved_total (rvCustomer i) (entries db)"
    using ledger_ok_reserved [OF ok] ledger_ok_no_row [OF ok]
    by (auto simp: ledger_or_def reserve_period_def split: option.split)
  have "find_entry (rlKey ri) (post_entry (reserve_entry i) ?l db) = None"
    using relkey by (simp add: find_entry_none)
  then show ?thesis
    unfolding db1 using rel est nonneg old
    by (simp add: release_tx_post release_entry_def min_absorb1)
qed



subsection \<open>A success\<close>

lemma chat_error_not_completed: "chat_error_response h e \<noteq> Completed a"
  by (cases "mapEngineError (fst (mapEngineFailure e)) (snd (mapEngineFailure e))")
    (auto simp: chat_error_response_def split: thrown.splits if_splits)

lemma try_success:
  assumes quiet: "undisturbed env" and fresh: "fresh_request env db" and before: "before_reserve db sl"
    and run: "chat_try env body sl = (Inr a, (s', l'))"
  shows "\<exists>slug sl3. admitted_state env body db sl3
    \<and> csDb s' = after_usage env (job_of env slug a)
                  (after_commit env (clReservedTokens (snd sl3)) a (csDb (fst sl3)))
    \<and> (0 < clReservedTokens (snd sl3) \<longrightarrow>
         (\<exists>e. fst (commit_tx (commit_of env a) (csDb (fst sl3))) = Inr e))"
proof -
  from run obtain sl1 slug sl2 sl3 sl4 where
    admit: "admit env body sl = (Inr (), sl1)" and route: "route env sl1 = (Inr slug, sl2)"
    and gen: "generate env body sl2 = (Inr a, sl3)"
    and meter: "finalizeAndMeter env slug (clReservedTokens (snd sl3)) a sl3 = (Inr (), sl4)"
    and rest: "and_then (at_stage env TraceComplete (return_ok ())) (\<lambda>_.
       and_then (at_stage env Respond (return_ok ())) (\<lambda>_. return_ok a)) sl4 = (Inr a, (s', l'))"
    unfolding chat_try_def and_then_Inr
    by (auto simp: at_stage_def return_ok_def split: prod.splits option.splits)
  have a1: "admitted_state env body db sl1" using admit_cases [OF quiet fresh before admit] by auto
  have a2: "admitted_state env body db sl2" by (rule keeps_admitted [OF keeps_route route a1])
  have a3: "admitted_state env body db sl3" by (rule keeps_admitted [OF keeps_generate gen a2])
  have "sl4 = (s', l')"
    using rest by (auto simp: and_then_Inr at_stage_def return_ok_def split: option.splits)
  then have "finalizeAndMeter env slug (clReservedTokens (snd sl3)) a (fst sl3, snd sl3) = (Inr (), (s', l'))"
    using meter by simp
  from meter_cases [OF quiet this] a3 show ?thesis by blast
qed

text \<open>
  The accounting of a committed request: the reservation is returned and the tokens are
  booked, with the event written now or by the worker at any later time.
\<close>

definition delivered :: "chat_env \<Rightarrow> int \<Rightarrow> usage_job \<Rightarrow> qdb \<Rightarrow> qdb" where
  "delivered env later j db = (if ceRedis env then snd (persist_tx later j db) else db)"

lemma usage_event_fresh:
  assumes "fresh_request env db" and "usageEvents db' = usageEvents db"
  shows "table_find ueKey (ujKey (job_of env slug a)) (usageEvents db') = None"
    and "\<not> inference_taken (job_of env slug a) db'"
  using assms by (auto simp: fresh_request_def job_of_def inference_taken_def)

lemma persist_entries:
  assumes "fresh_request env db" and "usageEvents db' = usageEvents db"
  shows "entries (snd (persist_tx t (job_of env slug a) db')) =
     (if find_entry (ceExecutionId env @ '':usage:commit'') db' = None
      then entries db' @ [usage_entry (job_of env slug a)] else entries db')"
  using usage_event_fresh [OF assms, of slug a]
  by (auto simp: persist_tx_post job_of_def)

lemma deliver_entries:
  assumes "fresh_request env db" and "usageEvents db' = usageEvents db"
  shows "entries (delivered env later (job_of env slug a) (after_usage env (job_of env slug a) db')) =
     (if find_entry (ceExecutionId env @ '':usage:commit'') db' = None
      then entries db' @ [usage_entry (job_of env slug a)] else entries db')"
  using persist_entries [OF assms] by (simp add: delivered_def after_usage_def)

lemma reserve_new:
  assumes "fst (reserve_tx now i db) = Inr (reserve_entry i)" and "find_entry (rvKey i) db = None"
  shows "snd (reserve_tx now i db) =
     post_entry (reserve_entry i) (ledger_or (rvCustomer i) (reserve_period now i) db) db"
  using assms by (auto simp: reserve_tx_post Let_def split: if_splits)

lemma reserved_entries:
  assumes "fst (reserve_tx now i db) = Inr (reserve_entry i)" and "find_entry (rvKey i) db = None"
  shows "entries (snd (reserve_tx now i db)) = entries db @ [reserve_entry i]"
    and "usageEvents (snd (reserve_tx now i db)) = usageEvents db"
    and "find_entry k (snd (reserve_tx now i db)) = None \<longleftrightarrow> find_entry k db = None \<and> k \<noteq> rvKey i"
  unfolding reserve_new [OF assms] by (auto simp: find_entry_none)

lemma committed_entries:
  assumes "fst (commit_tx i db) = Inr e" and "find_entry (cmKey i) db = None"
  shows "entries (snd (commit_tx i db)) = entries db @ [commit_entry i db]"
    and "usageEvents (snd (commit_tx i db)) = usageEvents db"
    and "find_entry (cmKey i) (snd (commit_tx i db)) \<noteq> None"
  using assms by (auto simp: commit_tx_post find_entry_def split: option.splits)


end
