(* ===== verification/CanonicalProps.thy ===== *)
theory CanonicalProps
  imports Canonical
begin

text \<open>
  The canonical text is the text of a canonical value, and the reader gives that value back:
  what is signed determines what is meant.
\<close>

subsection \<open>Plain values\<close>

fun plain :: "json \<Rightarrow> bool" and plain_list :: "json list \<Rightarrow> bool"
  and plain_fields :: "(string \<times> json) list \<Rightarrow> bool" where
  "plain JUndef = False"
| "plain JBig = False"
| "plain JInfinite = False"
| "plain (JWrap v) = False"
| "plain (JArr xs) = plain_list xs"
| "plain (JObj kvs) = plain_fields kvs"
| "plain v = True"
| "plain_list [] = True"
| "plain_list (x # xs) = (plain x \<and> plain_list xs)"
| "plain_fields [] = True"
| "plain_fields ((k, v) # r) = (plain v \<and> plain_fields r)"

lemma plain_fields_iff: "plain_fields kvs \<longleftrightarrow> (\<forall>p \<in> set kvs. plain (snd p))"
  by (induction kvs) auto

subsection \<open>The serialised text\<close>

lemma insort_apsnd: "insort_key fst (apsnd f x) (map (apsnd f) xs) = map (apsnd f) (insort_key fst x xs)"
  by (induction xs) auto

lemma sort_fields_apsnd: "sort_fields (map (apsnd f) xs) = map (apsnd f) (sort_fields xs)"
  unfolding sort_fields_def by (induction xs) (auto simp: insort_apsnd)

lemma set_sort_fields [simp]: "set (sort_fields xs) = set xs"
  by (simp add: sort_fields_def)

lemma present_isr: "present rs = Inr ts \<Longrightarrow> \<forall>p \<in> set rs. \<not> isl (snd p)"
  by (induction rs arbitrary: ts rule: present.induct) (auto split: sum.splits simp: map_sum_def)

lemma present_texts:
  "present (map (apsnd (\<lambda>v. Inr (map_option json_text v))) cf)
     = Inr (text_fields (List.map_filter (\<lambda>(k, v). map_option (Pair k) v) cf))"
  by (induction cf) (auto simp: List.map_filter_simps split: option.splits)

lemma map_sum_inr_eq [simp]:
  "map_sum (\<lambda>e. e) f x = Inr y \<longleftrightarrow> (\<exists>z. x = Inr z \<and> y = f z)"
  by (cases x) auto

lemma serialize_text:
  "serialize v = Inr r \<Longrightarrow> r = map_option json_text (canon v)"
  "items (serialize_list vs) = Inr ts \<Longrightarrow> ts = text_list (canon_list vs)"
  "(\<forall>p \<in> set (serialize_fields kvs). \<not> isl (snd p)) \<Longrightarrow>
     serialize_fields kvs = map (apsnd (\<lambda>v. Inr (map_option json_text v))) (canon_fields kvs)"
proof (induction v and vs and kvs arbitrary: r and ts
       rule: serialize_serialize_list_serialize_fields.induct)
  case (10 kvs)
  then obtain ts where p: "present (sort_fields (serialize_fields kvs)) = Inr ts"
    and r: "r = Some (''{'' @ join '','' ts @ ''}'')" by auto
  have "serialize_fields kvs = map (apsnd (\<lambda>v. Inr (map_option json_text v))) (canon_fields kvs)"
    using 10(1) present_isr [OF p] by simp
  with p have "ts = text_fields (List.map_filter (\<lambda>(k, v). map_option (Pair k) v)
      (sort_fields (canon_fields kvs)))"
    by (simp add: sort_fields_apsnd present_texts)
  with r show ?case by simp
next
  case (12 x xs)
  then obtain r' where "serialize x = Inr r'" by (cases "serialize x") auto
  with 12 show ?case by (cases "canon x") auto
next
  case (14 k v kvs)
  then obtain r' where "serialize v = Inr r'" by (cases "serialize v") auto
  with 14 show ?case by auto
qed auto

subsection \<open>Reading strings\<close>

lemma hex_value_digit: "n < 16 \<Longrightarrow> hex_value (hex_digit n) = Some n"
  by (auto simp: hex_value_def hex_digit_def chr_code_def is_digit_def Let_def)

lemma chr_code_eqD: "chr_code c = n \<Longrightarrow> c = char_of n"
  by (auto simp: chr_code_def)

lemma char_eq_code: "c = d \<longleftrightarrow> chr_code c = chr_code d"
  by (auto simp: chr_code_def)

lemma code_marks [simp]: "chr_code c_quote = 34" "chr_code c_back = 92"
  by (simp_all add: chr_code_def)

lemma chr_code_char_of: "n < 256 \<Longrightarrow> chr_code (char_of n) = n"
  by (simp add: chr_code_def)

lemma read_hex_escape:
  assumes "n < 32"
  shows "read_hex (CHR ''0'' # CHR ''0'' # hex_digit (n div 16) # hex_digit (n mod 16) # r) = Some (char_of n, r)"
proof -
  have "hex_value (CHR ''0'') = Some 0" by (simp add: hex_value_def is_digit_def chr_code_def)
  moreover have "n div 16 < 16" "n mod 16 < 16" using assms by auto
  moreover have "16 * (n div 16) + n mod 16 = n" by simp
  ultimately show ?thesis
    unfolding read_hex_def by (simp add: hex_value_digit)
qed

lemma escape_control:
  assumes "n < 32" and "n \<noteq> 8" "n \<noteq> 9" "n \<noteq> 10" "n \<noteq> 12" "n \<noteq> 13"
  shows "escape_char (char_of n) = [c_back, CHR ''u'', CHR ''0'', CHR ''0'', hex_digit (n div 16), hex_digit (n mod 16)]"
proof -
  have "chr_code (char_of n) = n" using assms(1) by (simp add: chr_code_char_of)
  moreover have "char_of n \<noteq> c_quote" "char_of n \<noteq> c_back"
    using calculation assms(1) by (auto simp: char_eq_code)
  ultimately show ?thesis using assms by (simp add: escape_char_def Let_def)
qed

lemma escape_short:
  "escape_char (char_of (8 :: nat)) = [c_back, CHR ''b'']"
  "escape_char (char_of (9 :: nat)) = [c_back, CHR ''t'']"
  "escape_char (char_of (10 :: nat)) = [c_back, CHR ''n'']"
  "escape_char (char_of (12 :: nat)) = [c_back, CHR ''f'']"
  "escape_char (char_of (13 :: nat)) = [c_back, CHR ''r'']"
  by (simp_all add: escape_char_def char_eq_code chr_code_char_of Let_def)

lemma read_char_short:
  "read_char (c_back # CHR ''b'' # r) = Some (Inr (char_of (8 :: nat), r))"
  "read_char (c_back # CHR ''t'' # r) = Some (Inr (char_of (9 :: nat), r))"
  "read_char (c_back # CHR ''n'' # r) = Some (Inr (char_of (10 :: nat), r))"
  "read_char (c_back # CHR ''f'' # r) = Some (Inr (char_of (12 :: nat), r))"
  "read_char (c_back # CHR ''r'' # r) = Some (Inr (char_of (13 :: nat), r))"
  by (simp_all add: read_char_def unescape_def)

lemma read_char_hex:
  "n < 32 \<Longrightarrow> read_char (c_back # CHR ''u'' # CHR ''0'' # CHR ''0'' # hex_digit (n div 16) # hex_digit (n mod 16) # r)
     = Some (Inr (char_of n, r))"
  by (simp add: read_char_def read_hex_escape)

lemma read_char_escape: "read_char (escape_char c @ r) = Some (Inr (c, r))"
proof (cases "chr_code c < 32")
  case True
  define n where "n = chr_code c"
  have c: "c = char_of n" and n: "n < 32" using True by (auto simp: n_def chr_code_def)
  show ?thesis
  proof (cases "n \<in> {8, 9, 10, 12, 13}")
    case True
    then show ?thesis unfolding c by (elim insertE emptyE) (simp_all only: escape_short append.simps read_char_short)
  next
    case False
    with n have e: "escape_char c = [c_back, CHR ''u'', CHR ''0'', CHR ''0'', hex_digit (n div 16), hex_digit (n mod 16)]"
      unfolding c by (intro escape_control) auto
    show ?thesis unfolding e using read_char_hex [OF n] c by simp
  qed
next
  case False
  then show ?thesis
    by (auto simp: escape_char_def read_char_def Let_def unescape_def)
qed

lemma escape_nonempty [simp]: "escape_char c \<noteq> []"
  by (simp add: escape_char_def Let_def)

lemma length_escape: "length s \<le> length (concat (map escape_char s))"
proof (induction s)
  case (Cons c s)
  have "Suc 0 \<le> length (escape_char c)" by (simp add: Suc_le_eq)
  then have "Suc 0 + length s \<le> length (escape_char c) + length (concat (map escape_char s))"
    by (rule add_mono [OF _ Cons.IH])
  then show ?case by simp
qed simp

lemma read_string_escape:
  "length s < n \<Longrightarrow> read_string n (concat (map escape_char s) @ c_quote # r) = Some (s, r)"
proof (induction s arbitrary: n)
  case Nil
  then show ?case by (cases n) (auto simp: read_char_def)
next
  case (Cons c s)
  then obtain m where "n = Suc m" "length s < m" by (cases n) auto
  with Cons.IH show ?case by (simp add: read_char_escape)
qed

subsection \<open>Reading numbers\<close>

lemma is_digit_char: "d < (10 :: nat) \<Longrightarrow> is_digit (char_of (48 + d))"
  by (simp add: is_digit_def chr_code_char_of)

lemma digits_of_digits: "\<forall>c \<in> set (digits_of n). is_digit c" and digits_of_nonempty: "digits_of n \<noteq> []"
  by (induction n rule: digits_of.induct) (subst digits_of.simps, simp add: is_digit_char)+

lemma digits_of_small: "n < 10 \<Longrightarrow> digits_of n = [char_of (48 + n)]"
  by (subst digits_of.simps) simp

lemma digits_of_big: "\<not> n < 10 \<Longrightarrow> digits_of n = digits_of (n div 10) @ [char_of (48 + n mod 10)]"
  by (subst digits_of.simps) simp

lemma digits_of_leading: "n \<noteq> 0 \<Longrightarrow> hd (digits_of n) \<noteq> CHR ''0''"
proof (induction n rule: digits_of.induct)
  case (1 n)
  have z: "chr_code CHR ''0'' = 48" by (simp add: chr_code_def)
  show ?case
  proof (cases "n < 10")
    case True
    then show ?thesis using 1(2) z by (simp add: digits_of_small char_eq_code chr_code_char_of)
  next
    case False
    then have "n div 10 \<noteq> 0" by simp
    with 1(1) False show ?thesis by (simp add: digits_of_big digits_of_nonempty)
  qed
qed

lemma digits_of_no_zero: "\<not> (Suc 0 < length (digits_of n) \<and> hd (digits_of n) = CHR ''0'')"
  using digits_of_leading [of n] by (cases "n = 0") (auto simp: digits_of_small)

lemma digits_value_of: "digits_value (digits_of n) = int n"
proof (induction n rule: digits_of.induct)
  case (1 n)
  show ?case
  proof (cases "n < 10")
    case True
    then show ?thesis by (subst digits_of.simps) (simp add: digits_value_def chr_code_char_of)
  next
    case False
    then have "digits_value (digits_of (n div 10)) = int (n div 10)" using 1 by simp
    then have "digits_value (digits_of n) = 10 * int (n div 10) + int (n mod 10)"
      using False by (subst digits_of.simps) (simp add: digits_value_def chr_code_char_of)
    also have "\<dots> = int (10 * (n div 10) + n mod 10)" by (simp only: of_nat_add of_nat_mult of_nat_numeral)
    finally show ?thesis by simp
  qed
qed

definition ends_number :: "string \<Rightarrow> bool" where
  "ends_number r \<longleftrightarrow> r = [] \<or> \<not> is_digit (hd r)"

lemma ends_number_simps [simp]:
  "ends_number []" "ends_number (c # r) \<longleftrightarrow> \<not> is_digit c"
  by (auto simp: ends_number_def)

lemma span_digits:
  assumes "ends_number r"
  shows "takeWhile is_digit (digits_of n @ r) = digits_of n" "dropWhile is_digit (digits_of n @ r) = r"
proof -
  have "takeWhile is_digit r = [] \<and> dropWhile is_digit r = r"
    using assms by (cases r) auto
  then show "takeWhile is_digit (digits_of n @ r) = digits_of n" "dropWhile is_digit (digits_of n @ r) = r"
    using digits_of_digits [of n] by (simp_all add: takeWhile_append dropWhile_append)
qed

lemma digits_of_head: "\<exists>d ds. digits_of n = d # ds \<and> is_digit d"
  using digits_of_digits [of n] digits_of_nonempty [of n] by (cases "digits_of n") auto

lemma read_int_show:
  assumes "ends_number r"
  shows "read_int (show_int i @ r) = Some (i, r)"
proof (cases "i < 0")
  case True
  then show ?thesis
    by (simp add: read_int_def show_int_def Let_def span_digits [OF assms] digits_of_nonempty digits_value_of digits_of_no_zero)
next
  case False
  obtain d ds where d: "digits_of (nat i) = d # ds" "is_digit d" using digits_of_head by blast
  have "is_digit CHR ''-'' = False" by (simp add: is_digit_def chr_code_def)
  with d have "take 1 (digits_of (nat i) @ r) \<noteq> ''-''" by auto
  with False show ?thesis
    by (simp add: read_int_def show_int_def Let_def span_digits [OF assms] digits_of_nonempty digits_value_of digits_of_no_zero)
qed

lemma show_int_head: "\<exists>d ds. show_int i = d # ds \<and> (is_digit d \<or> d = CHR ''-'')"
  using digits_of_head [of "nat i"] by (auto simp: show_int_def)

lemma show_int_start: "\<exists>c. (\<exists>s. show_int i = c # s) \<and> c \<noteq> CHR '']'' \<and> \<not> json_space c"
  using show_int_head [of i] by (auto simp: is_digit_def chr_code_def json_space_def)

subsection \<open>Reading values\<close>

lemma skip_ws_simps [simp]:
  "skip_ws [] = []" "\<not> json_space c \<Longrightarrow> skip_ws (c # r) = c # r"
  by (auto simp: skip_ws_def)

lemma marks_no_space [simp]:
  "\<not> json_space c_quote" "\<not> json_space CHR '':''" "\<not> json_space CHR '',''" "\<not> json_space CHR ''[''"
  "\<not> json_space CHR '']''" "\<not> json_space CHR ''{''" "\<not> json_space CHR ''}''" "\<not> json_space CHR ''n''"
  "\<not> json_space CHR ''t''" "\<not> json_space CHR ''f''" "\<not> json_space CHR ''-''"
  by (simp_all add: json_space_def chr_code_def)

lemma digit_no_space: "is_digit c \<Longrightarrow> \<not> json_space c"
  by (auto simp: json_space_def is_digit_def)

lemma starts_with_cons [simp]: "starts_with [c] (d # r) \<longleftrightarrow> c = d"
  by (auto simp: starts_with_def)

lemma read_number:
  assumes "ends_number r"
  shows "read_json (Suc n) (show_int i @ r) = Some (JNum i, r)"
proof -
  obtain d ds where d: "show_int i = d # ds" "is_digit d \<or> d = CHR ''-''"
    using show_int_head by blast
  then have "\<not> json_space d" "d \<noteq> CHR ''n''" "d \<noteq> CHR ''t''" "d \<noteq> CHR ''f''" "d \<noteq> c_quote" "d \<noteq> CHR ''[''" "d \<noteq> CHR ''{''"
    by (auto simp: is_digit_def chr_code_def json_space_def)
  with read_int_show [OF assms, of i] d show ?thesis by simp
qed

lemma read_quoted:
  "read_string (length (json_string s @ r)) (tl (json_string s @ r)) = Some (s, r)"
proof -
  have "length s < length (json_string s @ r)" using length_escape [of s] by (simp add: json_string_def)
  from read_string_escape [OF this] show ?thesis by (simp add: json_string_def)
qed

lemma join_cons: "join sep (x # xs) = (if xs = [] then x else x @ sep @ join sep xs)"
  by (cases xs) auto

lemma text_list_nil_iff [simp]: "text_list xs = [] \<longleftrightarrow> xs = []"
  by (cases xs) auto

lemma text_fields_nil_iff [simp]: "text_fields kvs = [] \<longleftrightarrow> kvs = []"
  by (cases kvs) auto

lemma json_text_head:
  "plain v \<Longrightarrow> \<exists>c s. json_text v = c # s \<and> c \<noteq> CHR '']'' \<and> \<not> json_space c"
  using show_int_start by (cases v) (auto simp: json_string_def)

lemma text_items_head:
  "plain_list xs \<Longrightarrow> xs \<noteq> [] \<Longrightarrow> \<exists>c s. join '','' (text_list xs) = c # s \<and> c \<noteq> CHR '']'' \<and> \<not> json_space c"
  using json_text_head by (cases xs) (fastforce simp: join_cons)+

lemma text_fields_head:
  "kvs \<noteq> [] \<Longrightarrow> \<exists>s. join '','' (text_fields kvs) = c_quote # s"
  by (cases kvs) (auto simp: join_cons json_string_def)

lemma read_text:
  "plain v \<Longrightarrow> length (json_text v) < n \<Longrightarrow> ends_number r \<Longrightarrow>
     read_json n (json_text v @ r) = Some (v, r)"
  "plain_list vs \<Longrightarrow> vs \<noteq> [] \<Longrightarrow> length (join '','' (text_list vs)) + 1 < n \<Longrightarrow>
     read_items n (join '','' (text_list vs) @ '']'' @ r) = Some (vs, r)"
  "plain_fields kvs \<Longrightarrow> kvs \<noteq> [] \<Longrightarrow> length (join '','' (text_fields kvs)) + 1 < n \<Longrightarrow>
     read_fields n (join '','' (text_fields kvs) @ ''}'' @ r) = Some (kvs, r)"
proof (induction v and vs and kvs arbitrary: n r and n r and n r
       rule: json_text_text_list_text_fields.induct)
  case 1
  then obtain m where "n = Suc m" by (cases n) auto
  then show ?case by (simp add: literal_def starts_with_def)
next
  case (2 b)
  then obtain m where "n = Suc m" by (cases n) auto
  then show ?case by (simp add: literal_def starts_with_def)
next
  case (3 i)
  then obtain m where "n = Suc m" by (cases n) auto
  with 3 show ?case by (simp only: json_text.simps read_number)
next
  case (4 s)
  then obtain m where m: "n = Suc m" by (cases n) auto
  from read_quoted [of s r] show ?case
    by (simp add: m json_string_def del: read_string.simps)
next
  case (5 xs)
  then obtain m where m: "n = Suc m" by (cases n) auto
  show ?case
  proof (cases "xs = []")
    case True
    then show ?thesis by (simp add: m)
  next
    case False
    with 5 m have ih: "read_items m (join '','' (text_list xs) @ '']'' @ r) = Some (xs, r)" by simp
    obtain c s where "join '','' (text_list xs) = c # s" "c \<noteq> CHR '']''" "\<not> json_space c"
      using text_items_head [of xs] 5 False by auto
    with ih m show ?thesis by auto
  qed
next
  case (6 kvs)
  then obtain m where m: "n = Suc m" by (cases n) auto
  show ?case
  proof (cases "kvs = []")
    case True
    then show ?thesis by (simp add: m)
  next
    case False
    with 6 m have ih: "read_fields m (join '','' (text_fields kvs) @ ''}'' @ r) = Some (kvs, r)" by simp
    obtain s where "join '','' (text_fields kvs) = c_quote # s"
      using text_fields_head [OF False] by auto
    with ih m show ?thesis by auto
  qed
next
  case (10 x xs)
  then obtain m where m: "n = Suc m" by (cases n) auto
  show ?case
  proof (cases "xs = []")
    case True
    with 10 m show ?thesis by (simp add: is_digit_def chr_code_def)
  next
    case False
    with 10 m have "read_json m (json_text x @ '','' @ join '','' (text_list xs) @ '']'' @ r)
        = Some (x, '','' @ join '','' (text_list xs) @ '']'' @ r)"
      by (simp add: join_cons is_digit_def chr_code_def)
    moreover have "read_items m (join '','' (text_list xs) @ '']'' @ r) = Some (xs, r)"
      using 10 m False by (simp add: join_cons)
    ultimately show ?thesis using m False by (simp add: join_cons)
  qed
next
  case (12 k v kvs)
  then obtain m where m: "n = Suc m" by (cases n) auto
  define tail where "tail = (if kvs = [] then [] else '','' @ join '','' (text_fields kvs)) @ ''}'' @ r"
  have t: "join '','' (text_fields ((k, v) # kvs)) @ ''}'' @ r
      = json_string k @ '':'' @ json_text v @ tail"
    by (simp add: join_cons tail_def)
  have "read_json m (json_text v @ tail) = Some (v, tail)"
    using 12 m by (intro 12(1)) (auto simp: join_cons tail_def is_digit_def chr_code_def split: if_splits)
  moreover have "kvs \<noteq> [] \<Longrightarrow> read_fields m (join '','' (text_fields kvs) @ ''}'' @ r) = Some (kvs, r)"
    using 12 m by (intro 12(2)) (auto simp: join_cons split: if_splits)
  moreover have "skip_ws (json_string k @ '':'' @ json_text v @ tail) = json_string k @ '':'' @ json_text v @ tail"
    and "starts_with [c_quote] (json_string k @ '':'' @ json_text v @ tail)"
    by (simp_all add: json_string_def)
  ultimately show ?case
    unfolding t m using read_quoted [of k "'':'' @ json_text v @ tail"]
    by (auto simp: tail_def simp del: read_string.simps)
qed auto

subsection \<open>Canonical values\<close>

fun tidy :: "json \<Rightarrow> bool" and tidy_list :: "json list \<Rightarrow> bool"
  and tidy_fields :: "(string \<times> json) list \<Rightarrow> bool" where
  "tidy (JArr xs) = tidy_list xs"
| "tidy (JObj kvs) = (sorted (map fst kvs) \<and> tidy_fields kvs)"
| "tidy v = plain v"
| "tidy_list [] = True"
| "tidy_list (x # xs) = (tidy x \<and> tidy_list xs)"
| "tidy_fields [] = True"
| "tidy_fields ((k, v) # r) = (tidy v \<and> tidy_fields r)"

lemma tidy_plain:
  "tidy v \<Longrightarrow> plain v" "tidy_list vs \<Longrightarrow> plain_list vs" "tidy_fields kvs \<Longrightarrow> plain_fields kvs"
  by (induction v and vs and kvs rule: tidy_tidy_list_tidy_fields.induct) auto

lemma present_all:
  "present (map (apsnd (\<lambda>v. Inr (Some (json_text v)))) kvs) = Inr (text_fields kvs)"
  by (induction kvs) auto

lemma sort_fields_sorted: "sorted (map fst kvs) \<Longrightarrow> sort_fields kvs = kvs"
  by (simp add: sort_fields_def sort_key_id_if_sorted)

lemma serialize_tidy:
  "tidy v \<Longrightarrow> serialize v = Inr (Some (json_text v))"
  "tidy_list vs \<Longrightarrow> items (serialize_list vs) = Inr (text_list vs)"
  "tidy_fields kvs \<Longrightarrow> serialize_fields kvs = map (apsnd (\<lambda>v. Inr (Some (json_text v)))) kvs"
  by (induction v and vs and kvs rule: tidy_tidy_list_tidy_fields.induct)
     (auto simp: sort_fields_apsnd sort_fields_sorted present_all)

lemma keys_map_filter:
  "fst ` set (List.map_filter (\<lambda>(k, v). map_option (Pair k) v) cf) \<subseteq> fst ` set cf"
  by (induction cf) (auto simp: List.map_filter_simps split: option.splits)

lemma sorted_map_filter:
  "sorted (map fst cf) \<Longrightarrow> sorted (map fst (List.map_filter (\<lambda>(k, v). map_option (Pair k) v) cf))"
proof (induction cf)
  case (Cons p cf)
  obtain k v where p: "p = (k, v)" by (cases p)
  have "\<forall>x \<in> set cf. k \<le> fst x" using Cons.prems by (simp add: p)
  then have "\<forall>x \<in> fst ` set (List.map_filter (\<lambda>(k, v). map_option (Pair k) v) cf). k \<le> x"
    by (intro ballI) (drule subsetD [OF keys_map_filter], auto)
  with Cons show ?case by (cases v) (simp_all add: p List.map_filter_simps)
qed (simp add: List.map_filter_simps)

lemma tidy_map_filter:
  "(\<And>k v. (k, Some v) \<in> set cf \<Longrightarrow> tidy v) \<Longrightarrow>
     tidy_fields (List.map_filter (\<lambda>(k, v). map_option (Pair k) v) cf)"
  by (induction cf) (auto simp: List.map_filter_simps split: option.splits)

lemma canon_tidy:
  "serialize v = Inr r \<Longrightarrow> canon v = Some w \<Longrightarrow> tidy w"
  "items (serialize_list vs) = Inr ts \<Longrightarrow> tidy_list (canon_list vs)"
  "(\<forall>p \<in> set (serialize_fields kvs). \<not> isl (snd p)) \<Longrightarrow> (k, Some u) \<in> set (canon_fields kvs) \<Longrightarrow> tidy u"
proof (induction v and vs and kvs arbitrary: r w and ts and k u
       rule: serialize_serialize_list_serialize_fields.induct)
  case (10 kvs)
  then obtain ts where p: "present (sort_fields (serialize_fields kvs)) = Inr ts" by auto
  have w: "w = JObj (List.map_filter (\<lambda>(k, v). map_option (Pair k) v) (sort_fields (canon_fields kvs)))"
    using 10(3) by simp
  have "sorted (map fst (sort_fields (canon_fields kvs)))"
    by (simp add: sort_fields_def)
  then show ?case unfolding w tidy.simps
    using 10(1) present_isr [OF p] by (intro conjI tidy_map_filter) (auto dest: sorted_map_filter)
next
  case (12 x xs)
  then obtain r' where "serialize x = Inr r'" by (cases "serialize x") auto
  with 12 show ?case by (cases "canon x") auto
next
  case (14 k' v kvs)
  then obtain r' where "serialize v = Inr r'" by (cases "serialize v") auto
  with 14 show ?case by auto
qed auto

subsection \<open>Round trip\<close>

lemma canonical_parts:
  assumes "canonicalStringify v = Inr s"
  shows "\<exists>w. canon v = Some w \<and> tidy w \<and> s = json_text w"
proof -
  from assms obtain r where r: "serialize v = Inr (Some s)"
    by (auto simp: canonicalStringify_def split: sum.splits option.splits)
  then obtain w where "canon v = Some w" "s = json_text w"
    using serialize_text(1) [OF r] by (cases "canon v") auto
  with canon_tidy(1) [OF r] show ?thesis by blast
qed

lemma parse_text: "plain w \<Longrightarrow> parse_json (json_text w) = Some w"
  using read_text(1) [of w "length (json_text w) + 1" "[]"] by (simp add: parse_json_def)

lemma json_text_inj: "plain v \<Longrightarrow> plain w \<Longrightarrow> json_text v = json_text w \<Longrightarrow> v = w"
  using parse_text by (metis option.inject)

lemma stringify_tidy: "tidy w \<Longrightarrow> canonicalStringify w = Inr (json_text w)"
  by (simp add: canonicalStringify_def serialize_tidy)

text \<open>Canonical texts are equal exactly when the canonical values are.\<close>

lemma canonical_text_determines:
  assumes "canonicalStringify v = Inr s" and "canonicalStringify v' = Inr s'"
  shows "s = s' \<longleftrightarrow> canon v = canon v'"
  using canonical_parts [OF assms(1)] canonical_parts [OF assms(2)] json_text_inj tidy_plain(1) by auto

text \<open>
  C6. Round trip of the canonical text. Whatever structure is serialised, reading the text
  back gives its canonical form: the same value with undefined fields dropped, undefined
  items null, \<^verbatim>\<open>toJSON\<close> results in place and the keys of every object in order. That form is
  serialised to the same text again.
\<close>

theorem canonical_roundtrip:
  assumes "canonicalStringify v = Inr s"
  shows "\<exists>w. canon v = Some w \<and> parse_json s = Some w \<and> canonicalStringify w = Inr s"
  using canonical_parts [OF assms] parse_text tidy_plain(1) stringify_tidy by auto

theorem canonical_roundtrip_witness:
  "\<exists>w. canon (JObj [(''b'', JStr ''x''), (''c'', JUndef), (''a'', JArr [JUndef, JWrap (JNum (- 12))])]) = Some w \<and>
     parse_json ''{\"a\":[null,-12],\"b\":\"x\"}'' = Some w \<and>
     canonicalStringify w = Inr ''{\"a\":[null,-12],\"b\":\"x\"}''"
proof -
  let ?v = "JObj [(''b'', JStr ''x''), (''c'', JUndef), (''a'', JArr [JUndef, JWrap (JNum (- 12))])]"
  have "canonicalStringify ?v = Inr ''{\"a\":[null,-12],\"b\":\"x\"}''" by code_simp
  from canonical_roundtrip [OF this] show ?thesis .
qed

end
