(* ===== verification/ChatWireProps.thy ===== *)
theory ChatWireProps
  imports ChatWire ChatProps StreamingProps CanonicalProps
begin

text \<open>
  The browser shows what the model generated: however the network cuts the event stream, the
  reader rebuilds the answer, its finish reason, its sources and its error; and what it
  shows when the stream is cut short.
\<close>

subsection \<open>Lines of the event stream\<close>

lemma newline_code [simp]: "chr_code newline = 10"
  by (simp add: newline_def chr_code_def)

lemma newline_marks [simp]:
  "newline \<noteq> c_quote" "newline \<noteq> CHR '',''" "newline \<noteq> CHR '':''" "newline \<noteq> CHR ''[''" "newline \<noteq> CHR '']''"
  "newline \<noteq> CHR ''{''" "newline \<noteq> CHR ''}''" "newline \<noteq> CHR ''-''"
  "newline \<noteq> CHR ''n''" "newline \<noteq> CHR ''u''" "newline \<noteq> CHR ''l''" "newline \<noteq> CHR ''r''"
  "newline \<noteq> CHR ''t''" "newline \<noteq> CHR ''e''" "newline \<noteq> CHR ''f''"
  "newline \<noteq> CHR ''a''" "newline \<noteq> CHR ''s''"
  by (simp_all add: newline_def)

lemma escape_no_newline: "newline \<notin> set (escape_char c)"
proof -
  have "newline \<noteq> hex_digit n" if "n < 16" for n
  proof -
    have "chr_code (hex_digit n) \<noteq> 10" using that by (simp add: hex_digit_def chr_code_char_of)
    then show ?thesis by auto
  qed
  moreover have "chr_code c < 256" by (simp add: chr_code_def)
  ultimately show ?thesis
    by (auto simp: escape_char_def Let_def newline_def char_eq_code chr_code_def)
qed

lemma string_no_newline: "newline \<notin> set (json_string s)"
  using escape_no_newline by (auto simp: json_string_def)

lemma digits_no_newline: "\<forall>c \<in> set s. is_digit c \<Longrightarrow> newline \<notin> set s"
  by (auto simp: is_digit_def)

lemma number_no_newline: "newline \<notin> set (show_int i)"
  using digits_no_newline [OF digits_of_digits] by (auto simp: show_int_def)

lemma join_no_newline: "\<forall>t \<in> set ts. newline \<notin> set t \<Longrightarrow> newline \<notin> set (join '','' ts)"
  by (induction ts) (auto simp: join_cons)

lemma text_no_newline:
  "newline \<notin> set (json_text v)"
  "\<forall>t \<in> set (text_list xs). newline \<notin> set t"
  "\<forall>t \<in> set (text_fields kvs). newline \<notin> set t"
  by (induction v and xs and kvs rule: json_text_text_list_text_fields.induct)
    (auto simp: string_no_newline number_no_newline join_no_newline)

lemma split_on_sep: "c \<notin> set xs \<Longrightarrow> split_on c (xs @ c # ys) = xs # split_on c ys"
  by (induction xs) auto

lemma split_event: "newline \<notin> set t \<Longrightarrow> split_on newline (t @ newline # newline # ys) = t # [] # split_on newline ys"
  by (simp add: split_on_sep)

definition event_line :: "json \<Rightarrow> string" where
  "event_line v = ''data: '' @ json_text v"

lemma event_line_no_newline: "newline \<notin> set (event_line v)"
  using text_no_newline(1) [of v] by (simp add: event_line_def newline_def)

lemma split_events:
  "split_on newline (concat (map toSse vs) @ t) = concat (map (\<lambda>v. [event_line v, []]) vs) @ split_on newline t"
proof (induction vs)
  case (Cons v vs)
  have "concat (map toSse (v # vs)) @ t = event_line v @ newline # newline # concat (map toSse vs) @ t"
    by (simp add: toSse_def event_line_def)
  then show ?case using Cons split_event [OF event_line_no_newline] by simp
qed simp

lemma split_done: "split_on newline done_text = [''data: [DONE]'', [], []]"
  by (simp add: done_text_def newline_def)

subsection \<open>Reading lines\<close>

lemma browser_lines_append:
  "browser_lines (xs @ ys) m =
     (case browser_lines xs m of (Reading, m') \<Rightarrow> browser_lines ys m' | r \<Rightarrow> r)"
proof (induction xs arbitrary: m)
  case (Cons x xs)
  then show ?case
    by (simp add: Let_def split: option.split sum.split)
qed simp

definition progress_at :: "body_end \<Rightarrow> progress" where
  "progress_at fin = (case fin of Closes \<Rightarrow> Complete | UserStops \<Rightarrow> Aborted | Breaks e \<Rightarrow> Threw e)"

text \<open>The pieces do not matter: the complete lines of the whole text are read.\<close>

lemma browser_read_lines:
  "newline \<notin> set buffer \<Longrightarrow> browser_read fin buffer pieces m =
     (case browser_lines (butlast (split_on newline (buffer @ concat pieces))) m of
        (Reading, m') \<Rightarrow> (progress_at fin, m') | r \<Rightarrow> r)"
proof (induction pieces arbitrary: buffer m)
  case (Cons p ps)
  have split: "split_on newline (buffer @ p @ concat ps) =
      butlast (split_on newline (buffer @ p)) @ split_on newline (last (split_on newline (buffer @ p)) @ concat ps)"
    using split_on_append [of newline "buffer @ p" "concat ps"] by simp
  have "butlast (split_on newline (buffer @ p @ concat ps)) =
      butlast (split_on newline (buffer @ p))
      @ butlast (split_on newline (last (split_on newline (buffer @ p)) @ concat ps))"
    unfolding split by (simp add: butlast_append)
  then show ?case
    using Cons.IH [OF split_on_last_no_sep]
    by (simp add: Let_def browser_lines_append split: prod.split progress.split)
qed (simp add: split_on_no_sep progress_at_def)

subsection \<open>Reading events\<close>

text \<open>What the events do, one after the other.\<close>

fun read_events :: "json list \<Rightarrow> ui_message \<Rightarrow> (string, ui_message) result \<times> ui_message" where
  "read_events [] m = (Inr m, m)"
| "read_events (v # vs) m =
     (case browser_chunk v m of Inl e \<Rightarrow> (Inl e, m) | Inr m' \<Rightarrow> read_events vs m')"

lemma trim_unspaced: "s \<noteq> [] \<Longrightarrow> \<not> is_space (hd s) \<Longrightarrow> \<not> is_space (last s) \<Longrightarrow> js_trim s = s"
  by (simp add: js_trim_def trim_start_def trim_end_def dropWhile_eq_self_iff [THEN iffD2] hd_rev)

text \<open>The line of an event is its data again, whatever the white space inside.\<close>

lemma event_line_trim:
  assumes "plain (JObj kvs)"
  shows "js_trim (event_line (JObj kvs)) = event_line (JObj kvs)"
    and "js_trim (drop 5 (event_line (JObj kvs))) = json_text (JObj kvs)"
    and "starts_with ''data:'' (event_line (JObj kvs))"
proof -
  have obj: "js_trim (json_text (JObj kvs)) = json_text (JObj kvs)"
    by (rule trim_unspaced) (simp_all add: is_space_def chr_code_def)
  show "js_trim (event_line (JObj kvs)) = event_line (JObj kvs)"
    by (rule trim_unspaced) (simp_all add: event_line_def is_space_def chr_code_def)
  have "drop 5 (event_line (JObj kvs)) = CHR '' '' # json_text (JObj kvs)"
    by (simp add: event_line_def)
  then show "js_trim (drop 5 (event_line (JObj kvs))) = json_text (JObj kvs)"
    using obj by (simp add: js_trim_def trim_start_def is_space_def chr_code_def)
  show "starts_with ''data:'' (event_line (JObj kvs))"
    by (simp add: event_line_def starts_with_def)
qed

definition event_object :: "json \<Rightarrow> bool" where
  "event_object v \<longleftrightarrow> plain v \<and> (\<exists>kvs. v = JObj kvs)"

lemma blank_line: "browser_lines ([] # lines) m = browser_lines lines m"
  by (simp add: Let_def starts_with_def js_trim_def trim_start_def trim_end_def)

lemma read_event_line:
  assumes "event_object v"
  shows "browser_lines (event_line v # [] # lines) m =
    (case browser_chunk v m of Inl e \<Rightarrow> (Threw e, m) | Inr m' \<Rightarrow> browser_lines lines m')"
proof -
  obtain kvs where v: "v = JObj kvs" "plain (JObj kvs)" using assms by (auto simp: event_object_def)
  have "json_text (JObj kvs) \<noteq> ''[DONE]''" by simp
  then show ?thesis
    using event_line_trim [OF v(2)] parse_text [OF v(2)] v(1) blank_line
    by (simp add: Let_def del: browser_lines.simps json_text.simps)
       (simp add: Let_def split: sum.split)
qed

lemma browser_lines_events:
  "\<forall>v \<in> set vs. event_object v \<Longrightarrow>
   browser_lines (concat (map (\<lambda>v. [event_line v, []]) vs) @ lines) m =
     (case read_events vs m of
        (Inl e, m') \<Rightarrow> (Threw e, m') | (Inr m', _) \<Rightarrow> browser_lines lines m')"
proof (induction vs arbitrary: m)
  case (Cons v vs)
  then show ?case
    using read_event_line [of v "concat (map (\<lambda>v. [event_line v, []]) vs) @ lines" m]
    by (simp del: browser_lines.simps split: sum.split)
qed simp

lemma read_events_append:
  "read_events (xs @ ys) m =
     (case read_events xs m of (Inr m', _) \<Rightarrow> read_events ys m' | r \<Rightarrow> r)"
  by (induction xs arbitrary: m) (auto split: sum.split)

lemma done_line: "browser_lines (''data: [DONE]'' # lines) m = (Complete, m)"
  by (simp add: Let_def js_trim_def trim_start_def trim_end_def is_space_def chr_code_def starts_with_def)

subsection \<open>The handler's events\<close>

lemma plain_append [simp]: "plain_fields (xs @ ys) \<longleftrightarrow> plain_fields xs \<and> plain_fields ys"
  by (auto simp: plain_fields_iff)

lemma chunk_event: "event_object (chunk_json c)"
  by (auto simp: event_object_def chunk_json_def usage_json_def split: option.split)

lemma delta_events_objects: "\<forall>v \<in> set (delta_events w k ms cs a). event_object v"
  by (induction cs arbitrary: k a) (auto simp: chunk_event Let_def)

lemma opening_objects: "opt_ok plain (weRetrieval w) \<Longrightarrow> \<forall>v \<in> set (opening_events w). event_object v"
  by (cases "weRetrieval w") (simp_all add: opening_events_def chunk_event, simp add: event_object_def opt_ok_def)

lemma failure_object: "event_object (failure_event t e)"
  by (simp add: event_object_def failure_event_def)

lemma read_role_chunk: "browser_chunk (chunk_json (buildChunk t i n (Some []) True None None)) m = Inr m"
  by (simp add: browser_chunk_def chunk_json_def buildChunk_def js_prop_def item0_def js_truthy_def nullish_def Let_def)

lemma read_delta_chunk:
  "d \<noteq> [] \<Longrightarrow> browser_chunk (chunk_json (delta_chunk w k d)) m = Inr (m\<lparr>umContent := umContent m @ d\<rparr>)"
  by (simp add: browser_chunk_def chunk_json_def delta_chunk_def buildChunk_def js_prop_def item0_def js_truthy_def nullish_def Let_def)

lemma finish_text_nonempty [simp]: "finish_text f \<noteq> []"
  by (cases f) (simp_all add: finish_text_def)

lemma read_final_chunk:
  "browser_chunk (chunk_json (final_chunk w k a)) m = Inr (m\<lparr>umFinish := Some (JStr (finish_text (caFinish a)))\<rparr>)"
  by (simp add: browser_chunk_def chunk_json_def final_chunk_def buildChunk_def js_prop_def item0_def js_truthy_def nullish_def Let_def)

lemma read_failure: "e \<noteq> [] \<Longrightarrow> browser_chunk (failure_event t e) m = Inl e"
  by (simp add: browser_chunk_def failure_event_def js_prop_def js_truthy_def Let_def)

definition shown_sources :: "wire_env \<Rightarrow> json option" where
  "shown_sources w =
     (let hits = js_prop ''hits'' (weRetrieval w) in if js_truthy hits then hits else None)"

lemma read_retrieval:
  "browser_chunk (JObj [(''modelforge'', JObj [(''retrieval'', r)])]) m =
     Inr (if js_truthy (js_prop ''hits'' (Some r)) then m\<lparr>umSources := js_prop ''hits'' (Some r)\<rparr> else m)"
  by (simp add: browser_chunk_def js_prop_def [of _ "Some (JObj _)"] js_prop_def [of _ None] item0_def
      js_truthy_def [of None] js_truthy_def [of "Some (JStr _)"] nullish_def Let_def)

lemma shown_sources_cases:
  "shown_sources w = (case weRetrieval w of None \<Rightarrow> None | Some r \<Rightarrow>
     if js_truthy (js_prop ''hits'' (Some r)) then js_prop ''hits'' (Some r) else None)"
  by (cases "weRetrieval w") (simp_all add: shown_sources_def Let_def js_prop_def)

lemma read_opening:
  "umSources m = None \<Longrightarrow> fst (read_events (opening_events w) m) = Inr (m\<lparr>umSources := shown_sources w\<rparr>)"
  by (cases "weRetrieval w")
    (simp_all add: opening_events_def read_role_chunk read_retrieval shown_sources_cases)

lemma fill_finish [simp]: "caFinish (fill_estimate ms a) = caFinish a"
  by (simp add: fill_estimate_def)

lemma absorbed_text: "caContent (absorb_chunk c a) = caContent a @ gcDelta c"
  by (simp add: absorb_chunk_def)

text \<open>The deltas rebuild the content; the final chunk brings the finish reason.\<close>

lemma read_deltas:
  "\<exists>t. caContent (consume_stream ms cs a) = caContent a @ t \<and>
     (\<forall>m. fst (read_events (delta_events w k ms cs a) m) =
        Inr (m\<lparr>umContent := umContent m @ t,
               umFinish := (if list_ex gcFinal cs
                  then Some (JStr (finish_text (caFinish (consume_stream ms cs a)))) else umFinish m)\<rparr>))"
proof (induction cs arbitrary: k a)
  case (Cons c cs)
  show ?case
  proof (cases "gcFinal c")
    case True
    then show ?thesis
      by (intro exI [of _ "gcDelta c"])
        (simp add: read_events_append read_delta_chunk read_final_chunk Let_def absorbed_text)
  next
    case False
    obtain t where t: "caContent (consume_stream ms cs (absorb_chunk c a)) = caContent (absorb_chunk c a) @ t"
      "\<And>m. fst (read_events (delta_events w (Suc k) ms cs (absorb_chunk c a)) m) =
        Inr (m\<lparr>umContent := umContent m @ t,
               umFinish := (if list_ex gcFinal cs
                  then Some (JStr (finish_text (caFinish (consume_stream ms cs (absorb_chunk c a))))) else umFinish m)\<rparr>)"
      using Cons.IH [of "absorb_chunk c a" "Suc k"] by blast
    show ?thesis using False t
      by (intro exI [of _ "gcDelta c @ t"])
        (simp add: read_events_append read_delta_chunk Let_def absorbed_text)
  qed
qed simp

text \<open>The assistant's message after the events of a response that did not fail.\<close>

definition answered :: "wire_env \<Rightarrow> gen_chunk list \<Rightarrow> chat_acc \<Rightarrow> ui_message" where
  "answered w cs a = pending_answer\<lparr>umContent := caContent a, umSources := shown_sources w,
     umFinish := (if list_ex gcFinal cs then Some (JStr (finish_text (caFinish a))) else None)\<rparr>"

lemma read_answer_events:
  "fst (read_events (opening_events w @ delta_events w k ms cs chat_acc_init) pending_answer) =
     Inr (answered w cs (consume_stream ms cs chat_acc_init))"
proof -
  obtain m' where open_ok: "read_events (opening_events w) pending_answer = (Inr (pending_answer\<lparr>umSources := shown_sources w\<rparr>), m')"
    using read_opening [of pending_answer w] by (metis fst_conv pending_answer_def prod.exhaust_sel ui_message.select_convs(5))
  show ?thesis
    using read_deltas [of ms cs chat_acc_init w k] unfolding read_events_append open_ok
    by (auto simp: answered_def pending_answer_def chat_acc_init_def)
qed

lemma answer_events_objects:
  "opt_ok plain (weRetrieval w) \<Longrightarrow>
   \<forall>v \<in> set (opening_events w @ delta_events w k ms cs chat_acc_init). event_object v"
  using opening_objects [of w] delta_events_objects [of w k ms cs chat_acc_init] by auto

subsection \<open>The reader on the whole body\<close>

text \<open>What the browser makes of a body of complete events followed by any text.\<close>

lemma browser_reads_body:
  assumes "concat pieces = concat (map toSse vs) @ t" and "\<forall>v \<in> set vs. event_object v"
  shows "browser_answer (Streams pieces e) =
    (case read_events vs pending_answer of
       (Inl msg, m) \<Rightarrow> browser_catch (Threw msg) m
     | (Inr m, _) \<Rightarrow>
         (case browser_lines (butlast (split_on newline t)) m of
            (Reading, m') \<Rightarrow> browser_catch (progress_at e) m' | (p, m') \<Rightarrow> browser_catch p m'))"
proof -
  have "butlast (split_on newline (concat pieces)) =
      concat (map (\<lambda>v. [event_line v, []]) vs) @ butlast (split_on newline t)"
    unfolding assms(1) split_events by (simp add: butlast_append)
  then show ?thesis
    using browser_lines_events [OF assms(2), of "butlast (split_on newline t)" pending_answer]
      browser_read_lines [of "[]" e pieces pending_answer]
    by (auto simp: browser_answer_def split: sum.split prod.split progress.split)
qed

lemma completed_stream:
  assumes "chat_completions env body s = (Completed a, s')" and "crStream body"
  shows "a = consume_stream (chat_messages body) (ceChunks env) chat_acc_init"
proof -
  obtain l l' where "chat_try env body (s, l) = (Inr a, (s', l'))"
    using assms(1) by (auto simp: chat_completions_def chat_error_not_completed split: prod.splits sum.splits)
  then obtain sl sl' where "generate env body sl = (Inr a, sl')"
    unfolding chat_try_def and_then_Inr
    by (auto simp: at_stage_def return_ok_def split: prod.splits option.splits)
  then show ?thesis using assms(2)
    by (auto simp: generate_def and_then_Inr at_stage_def return_ok_def on_local_def split: option.splits prod.splits)
qed

lemma or_text_nonempty: "b \<noteq> [] \<Longrightarrow> or_text a b \<noteq> []"
  by (simp add: or_text_def)

lemma api_message_nonempty: "mapEngineError c m = ApiError t msg st r \<Longrightarrow> msg \<noteq> []"
  by (auto simp: mapEngineError_def or_text_nonempty split: if_splits)

lemma stream_failure_message: "chat_error_response h e = StreamFailed t msg \<Longrightarrow> msg \<noteq> []"
  using api_message_nonempty [of "fst (mapEngineFailure e)" "snd (mapEngineFailure e)"]
  by (auto simp: chat_error_response_def split: thrown.splits api_error.splits if_splits)

lemma answer_read:
  assumes "opt_ok plain (weRetrieval w)" and "concat pieces = chat_sse_body w ms cs None"
  shows "browser_answer (Streams pieces e) = answered w cs (consume_stream ms cs chat_acc_init)"
proof -
  let ?vs = "opening_events w @ delta_events w 1 ms cs chat_acc_init"
  have "concat pieces = concat (map toSse ?vs) @ done_text"
    using assms(2) by (simp add: chat_sse_body_def)
  from browser_reads_body [OF this answer_events_objects [OF assms(1)]] show ?thesis
    using read_answer_events [of w 1 ms cs] split_done done_line
    by (auto simp: browser_catch_def split: prod.split)
qed

lemma failure_read:
  assumes "opt_ok plain (weRetrieval w)" and "msg \<noteq> []"
    and "concat pieces = chat_sse_body w ms cs (Some (type, msg))"
  shows "browser_answer (Streams pieces e) =
    browser_catch (Threw msg) (answered w cs (consume_stream ms cs chat_acc_init))"
proof -
  let ?vs = "opening_events w @ delta_events w 1 ms cs chat_acc_init"
  have whole: "concat pieces = concat (map toSse (?vs @ [failure_event type msg])) @ done_text"
    using assms(3) by (simp add: chat_sse_body_def)
  have objs: "\<forall>v \<in> set (?vs @ [failure_event type msg]). event_object v"
    using answer_events_objects [OF assms(1), of 1 ms cs] failure_object by auto
  obtain m where "read_events ?vs pending_answer = (Inr (answered w cs (consume_stream ms cs chat_acc_init)), m)"
    using read_answer_events [of w 1 ms cs] by (metis prod.exhaust_sel)
  then have "read_events (?vs @ [failure_event type msg]) pending_answer =
      (Inl msg, answered w cs (consume_stream ms cs chat_acc_init))"
    unfolding read_events_append [of ?vs] by (simp add: read_failure [OF assms(2)])
  then show ?thesis unfolding browser_reads_body [OF whole objs] by simp
qed

text \<open>
  C20. The user sees what was generated and metered: when the gateway completes a streamed chat request
  and its body reaches the browser, cut into pieces anywhere, the assistant's message holds
  exactly the content of the completion the gateway billed, its finish reason when the
  engine sent a final chunk, the retrieval sources, and no error.
\<close>

theorem browser_shows_billed_answer:
  assumes "chat_completions env body s = (Completed a, s')" and "crStream body"
    and "opt_ok plain (weRetrieval w)"
    and "concat pieces = chat_sse_body w (chat_messages body) (ceChunks env) None"
  shows "umContent (browser_answer (Streams pieces e)) = caContent a
    \<and> umFinish (browser_answer (Streams pieces e)) =
        (if list_ex gcFinal (ceChunks env) then Some (JStr (finish_text (caFinish a))) else None)
    \<and> umSources (browser_answer (Streams pieces e)) = shown_sources w
    \<and> \<not> umError (browser_answer (Streams pieces e))"
  unfolding answer_read [OF assms(3,4)] completed_stream [OF assms(1,2)]
  by (simp add: answered_def pending_answer_def)

text \<open>
  C21. A generation that fails after the headers were sent is shown as a failure: the browser keeps the
  text that arrived (or shows the error's message when there is none), marks the message as
  an error and labels it so.
\<close>

theorem browser_shows_stream_failure:
  assumes "chat_completions env body s = (StreamFailed type msg, s')"
    and "opt_ok plain (weRetrieval w)"
    and "concat pieces = chat_sse_body w (chat_messages body) cs (Some (type, msg))"
  shows "let m = browser_answer (Streams pieces e)
     in umError m \<and> finishLabel m = ''Error'' \<and> umContent m \<noteq> []
        \<and> umContent m = or_text (caContent (consume_stream (chat_messages body) cs chat_acc_init)) msg"
proof -
  have "msg \<noteq> []"
    using assms(1) stream_failure_message by (auto simp: chat_completions_def split: prod.splits sum.splits)
  from failure_read [OF assms(2) this assms(3)] show ?thesis
    using \<open>msg \<noteq> []\<close>
    by (simp add: browser_catch_def answered_def pending_answer_def Let_def finishLabel_def or_text_nonempty)
qed

text \<open>
  A response that is cut short, by a gateway that dies for instance, is shown as an answer that
  is complete: no error, and the label of a finished one.
\<close>

lemma cut_stream_looks_complete:
  assumes "opt_ok plain (weRetrieval w)" and "\<not> list_ex gcFinal cs" and "newline \<notin> set rest"
    and "concat pieces = concat (map toSse (opening_events w @ delta_events w 1 ms cs chat_acc_init)) @ rest"
  shows "\<not> umError (browser_answer (Streams pieces Closes))
    \<and> finishLabel (browser_answer (Streams pieces Closes)) = ''ModelForge''
    \<and> umContent (browser_answer (Streams pieces Closes)) = caContent (consume_stream ms cs chat_acc_init)"
proof -
  have "browser_answer (Streams pieces Closes) = answered w cs (consume_stream ms cs chat_acc_init)"
    unfolding browser_reads_body [OF assms(4) answer_events_objects [OF assms(1)]] split_on_no_sep [OF assms(3)]
    using read_answer_events [of w 1 ms cs] by (auto simp: browser_catch_def progress_at_def split: prod.split)
  then show ?thesis using assms(2) by (simp add: answered_def pending_answer_def finishLabel_def)
qed

subsection \<open>Requests\<close>

lemma accepted_iff: "(\<exists>y. (if P then Some x else None) = Some y) \<longleftrightarrow> P"
  by simp

text \<open>
  C38. The gateway's schema refuses a request of the chat page for one reason only: with a named model and
  the page's settings in range, it is accepted exactly when at most twenty knowledge bases
  are selected. So a customer with more than twenty who leaves the selector on "all", its
  initial value, gets 400 for every message.
\<close>

theorem browser_request_accepted:
  assumes "uiModel ui \<noteq> []" and "0 \<le> uiTemperature ui" and "uiTemperature ui \<le> 2"
    and "is_int (uiMaxTokens ui)" and "0 < uiMaxTokens ui" and "uiMaxTokens ui \<le> 32768"
    and "list_all (\<lambda>m. umRole m = ''user'' \<or> umRole m = ''assistant'') history"
    and "list_all (\<lambda>i. i \<noteq> []) (selected_bases ui)"
  shows "parse_request (chat_body open_prompt grounded_prompt ui history) \<noteq> None \<longleftrightarrow>
     length (selected_bases ui) \<le> 20"
proof -
  have roles: "list_all (\<lambda>m. rmRole m \<in> set message_roles)
      (map (\<lambda>m. \<lparr>rmRole = umRole m, rmContent = Text (umContent m)\<rparr>) history)"
    using assms(7) by (auto simp: list_all_iff message_roles_def)
  have temperature: "0 \<le> (if rag then min (uiTemperature ui) (3 / 10) else uiTemperature ui)"
    "(if rag then min (uiTemperature ui) (3 / 10) else uiTemperature ui) \<le> 2" for rag
    using assms(2,3) by auto
  have controls: "controls_ok (the (rqControls (chat_body open_prompt grounded_prompt ui history)))
      \<longleftrightarrow> length (selected_bases ui) \<le> 20"
    using assms(8) by (simp add: controls_ok_def opt_ok_def chat_body_def Let_def is_int_def)
  show ?thesis
    using assms(1,4-6) temperature roles controls
    by (simp add: parse_request_def chat_body_def Let_def opt_ok_def message_roles_def or_default_def
        accepted_iff split del: if_split)
qed

text \<open>The history of the next turn repeats the texts of failed and stopped answers as the assistant's.\<close>

lemma failed_answer_is_replayed:
  assumes "answer body = Refused 429 (Some msg)" and "msg \<noteq> []"
  shows "umContent (browser_answer (answer body)) = msg"
    and "\<lparr>rmRole = ''assistant'', rmContent = Text msg\<rparr>
      \<in> set (rqMessages (chat_body o1 o2 ui (history @ [browser_answer (answer body)] @ later)))"
  using assms
  by (simp_all add: browser_answer_def browser_catch_def pending_answer_def or_text_def chat_body_def Let_def)

subsection \<open>Reasoning\<close>

lemma split_loop_step:
  "rest \<noteq> [] \<Longrightarrow> find_tag think_open rest = Some (b, r) \<Longrightarrow> find_tag think_close r = Some (b', r') \<Longrightarrow>
   split_loop rest answer reasoning = split_loop r' (answer @ b) (reasoning @ [b'])"
  by (subst split_loop.simps) simp

lemma find_tag_upper:
  "find_tag tags s = Some (b, r) \<Longrightarrow> \<forall>t \<in> set tags. length t \<le> n \<Longrightarrow> length s \<le> length b + length r + n"
  by (drule find_tag_length) force

definition text_sizes :: "string list \<Rightarrow> nat" where
  "text_sizes ts = sum_list (map length ts)"

lemma text_sizes_snoc [simp]: "text_sizes (ts @ [t]) = text_sizes ts + length t" and text_sizes_nil [simp]: "text_sizes [] = 0"
  by (simp_all add: text_sizes_def)

lemma split_loop_sizes:
  "split_loop rest answer reasoning = (answer', reasoning', thinking) \<Longrightarrow>
     length answer' + text_sizes reasoning' + 15 * length reasoning'
       \<le> length rest + length answer + text_sizes reasoning + 15 * length reasoning + (if thinking then 8 else 0)
   \<and> length rest + length answer + text_sizes reasoning + 23 * length reasoning
       \<le> length answer' + text_sizes reasoning' + 23 * length reasoning'"
proof (induction rest answer reasoning rule: split_loop.induct)
  case (1 rest answer reasoning)
  show ?case
  proof (cases "find_tag think_open rest")
    case None
    then show ?thesis using 1(2) by (auto simp: split_loop.simps split: if_splits)
  next
    case (Some p)
    obtain b r where p: "find_tag think_open rest = Some (b, r)" using Some by (cases p) auto
    then have rest: "rest \<noteq> []" by (cases rest) auto
    have sizes: "length b + length r + 7 \<le> length rest" "length rest \<le> length b + length r + 11"
      using find_open_length [OF p] find_tag_upper [OF p, of 11] by (simp_all add: think_open_def)
    show ?thesis
    proof (cases "find_tag think_close r")
      case None
      then show ?thesis using 1(2) p rest sizes by (auto simp: split_loop.simps)
    next
      case (Some q)
      obtain b' r' where q: "find_tag think_close r = Some (b', r')" using Some by (cases q) auto
      have "length b' + length r' + 8 \<le> length r" "length r \<le> length b' + length r' + 12"
        using find_close_length [OF q] find_tag_upper [OF q, of 12] by (simp_all add: think_close_def)
      moreover note 1(1) [OF rest p refl q refl 1(2) [unfolded split_loop_step [OF rest p q]]]
      ultimately show ?thesis using sizes by (auto split: if_splits)
    qed
  qed
qed



text \<open>Tags formed by what is left around a passage stay in the answer.\<close>

lemma answer_may_show_tags:
  "smAnswer (splitReasoning ''<thi<think>x</think>nk>secret'') = ''<think>secret''"
  by code_simp

end
