(* ===== verification/GatekeepingProps.thy ===== *)
theory GatekeepingProps
  imports Gatekeeping
begin

text \<open>
  The limiter's guarantees: slots are counted exactly and never leak, a key never has
  more than its limit in flight, a window admits exactly its quota of requests, and
  authentication passes exactly the live keys of active subscriptions.
\<close>

definition limiter_empty :: limiter where
  "limiter_empty = \<lparr>counters = mem_empty, closures = Map.empty\<rparr>"

definition slots_held :: "string \<Rightarrow> limiter \<Rightarrow> nat set" where
  "slots_held k s = {rid. closures s rid = Some (k, False)}"

definition conc_count :: "string \<Rightarrow> mem \<Rightarrow> int" where
  "conc_count k c = (case memoryConc c (conc_key k) of None \<Rightarrow> 0 | Some n \<Rightarrow> n)"

definition limiter_ok :: "limiter \<Rightarrow> bool" where
  "limiter_ok s \<longleftrightarrow>
     finite (dom (closures s))
     \<and> (\<forall>k. conc_count k (counters s) = int (card (slots_held k s))
          \<and> memoryConc (counters s) (conc_key k) \<noteq> Some 0)"

lemma conc_key_inj [simp]: "conc_key k = conc_key k' \<longleftrightarrow> k = k'"
  by (simp add: conc_key_def)

lemma slots_finite [simp]: "finite (dom (closures s)) \<Longrightarrow> finite (slots_held k s)"
  by (erule finite_subset [rotated]) (auto simp: slots_held_def)

lemma limiter_ok_empty: "limiter_ok limiter_empty"
  by (simp add: limiter_ok_def limiter_empty_def mem_empty_def conc_count_def slots_held_def)

lemma memoryIncrRpm_conc [simp]:
  "memoryConc (snd (memoryIncrRpm k w now c)) = memoryConc c"
  by (auto simp: memoryIncrRpm_def Let_def split: option.split)

lemma conc_count_cong: "memoryConc c = memoryConc c' \<Longrightarrow> conc_count k c = conc_count k c'"
  by (simp add: conc_count_def)

lemma memoryAcquireConc_cases:
  "memoryAcquireConc k m c =
     (if conc_count k c \<ge> m then (False, c)
      else (True, c\<lparr>memoryConc := (memoryConc c)(conc_key k \<mapsto> conc_count k c + 1)\<rparr>))"
  by (simp add: memoryAcquireConc_def conc_count_def Let_def)

text \<open>One arrival either leaves the slots as they were or takes one for its key.\<close>

lemma rateLimit_memory_cases:
  assumes "rateLimit_memory auth orch now c = ((out, holds), c')"
  obtains (no_slot) "\<not> holds" "memoryConc c' = memoryConc c"
  | (slot) a where "holds" "auth = Some a" "out = Next" "conc_count (authApiKeyId a) c < maxConcurrent a"
      "memoryConc c' = (memoryConc c)(conc_key (authApiKeyId a) \<mapsto> conc_count (authApiKeyId a) c + 1)"
proof (cases auth)
  case None
  then show ?thesis using assms no_slot by (auto simp: rateLimit_memory_def)
next
  case (Some a)
  obtain n c1 where incr: "memoryIncrRpm (authApiKeyId a) windowMs now c = (n, c1)"
    by (cases "memoryIncrRpm (authApiKeyId a) windowMs now c") auto
  have "memoryConc c1 = memoryConc c"
    using memoryIncrRpm_conc [of "authApiKeyId a" windowMs now c] incr by simp
  note same = this conc_count_cong [OF this]
  show ?thesis
    using assms Some incr same no_slot slot
    by (auto simp: rateLimit_memory_def memoryAcquireConc_cases split: if_splits)
qed

lemma slots_held_take:
  "closures s rid = None \<Longrightarrow>
   slots_held k (s\<lparr>counters := c, closures := (closures s)(rid \<mapsto> (k', False))\<rparr>) =
     (if k = k' then insert rid (slots_held k s) else slots_held k s)"
  by (auto simp: slots_held_def)

lemma slots_held_drop:
  "closures s rid = Some (k', False) \<Longrightarrow>
   slots_held k (s\<lparr>counters := c, closures := (closures s)(rid \<mapsto> (k', True))\<rparr>) =
     (if k = k' then slots_held k s - {rid} else slots_held k s)"
  by (auto simp: slots_held_def)

lemma slots_held_counters [simp]: "slots_held k (s\<lparr>counters := c\<rparr>) = slots_held k s"
  by (simp add: slots_held_def)

lemma memoryReleaseConc_count:
  assumes "memoryConc c (conc_key k) = Some n" and "0 < n"
  shows "conc_count k' (memoryReleaseConc k c) = conc_count k' c - (if k' = k then 1 else 0)"
    and "memoryConc (memoryReleaseConc k c) (conc_key k') = Some 0 \<longleftrightarrow>
         k' \<noteq> k \<and> memoryConc c (conc_key k') = Some 0"
  using assms by (auto simp: memoryReleaseConc_def conc_count_def Let_def)

lemma arrive_ok:
  assumes ok: "limiter_ok s" and new: "closures s rid = None"
    and res: "rateLimit_memory auth orch now (counters s) = ((out, holds), c)"
  shows "limiter_ok (limiter_step (Arrive rid auth orch now) s)"
  using res
proof (cases rule: rateLimit_memory_cases)
  case no_slot
  then show ?thesis
    using ok new res conc_count_cong [of c "counters s"]
    by (simp add: limiter_ok_def)
next
  case (slot a)
  have rid: "rid \<notin> slots_held k s" for k using new by (simp add: slots_held_def)
  have "limiter_step (Arrive rid auth orch now) s =
      s\<lparr>counters := c, closures := (closures s)(rid \<mapsto> (authApiKeyId a, False))\<rparr>"
    using slot new res by simp
  moreover have "conc_count k c = conc_count k (counters s) + (if k = authApiKeyId a then 1 else 0)" for k
    using slot by (simp add: conc_count_def)
  moreover have "0 \<le> conc_count k (counters s)" for k using ok by (simp add: limiter_ok_def)
  moreover have "memoryConc c (conc_key k) \<noteq> Some 0" for k
    using slot ok calculation(3) [of "authApiKeyId a"] by (auto simp: limiter_ok_def)
  ultimately show ?thesis
    using ok rid new by (auto simp: limiter_ok_def slots_held_take card_insert_if)
qed

lemma release_ok':
  assumes ok: "limiter_ok s"
  shows "limiter_ok (run_release rid s)"
proof (cases "closures s rid")
  case (Some p)
  obtain k released where p: "p = (k, released)" by (cases p)
  show ?thesis
  proof (cases released)
    case False
    have mem: "rid \<in> slots_held k s" using Some p False by (simp add: slots_held_def)
    have fin: "finite (slots_held k' s)" for k' using ok by (simp add: limiter_ok_def)
    have pos: "0 < card (slots_held k s)" using mem fin by (auto simp: card_gt_0_iff)
    have cnt: "conc_count k (counters s) = int (card (slots_held k s))"
      using ok by (simp add: limiter_ok_def)
    then obtain n where n: "memoryConc (counters s) (conc_key k) = Some n" "0 < n"
      using pos by (auto simp: conc_count_def split: option.splits)
    have "run_release rid s =
        s\<lparr>counters := memoryReleaseConc k (counters s), closures := (closures s)(rid \<mapsto> (k, True))\<rparr>"
      using Some p False by (simp add: run_release_def)
    moreover have "int (card (slots_held k s - {rid})) = int (card (slots_held k s)) - 1"
      using mem fin pos by (simp add: card_Diff_singleton of_nat_diff)
    ultimately show ?thesis
      using ok Some p False memoryReleaseConc_count [OF n]
      by (auto simp: limiter_ok_def slots_held_drop)
  qed (use Some p ok in \<open>simp add: run_release_def\<close>)
qed (use ok in \<open>simp add: run_release_def\<close>)

lemma limiter_step_ok: "limiter_ok s \<Longrightarrow> limiter_ok (limiter_step e s)"
proof (cases e)
  case (Arrive rid auth orch now)
  assume ok: "limiter_ok s"
  obtain out holds c where "rateLimit_memory auth orch now (counters s) = ((out, holds), c)"
    by (metis prod.exhaust)
  then show ?thesis
    using arrive_ok [OF ok] ok Arrive by (cases "closures s rid") auto
qed (auto simp: release_ok')

interpretation limiter: invariant_system limiter_step limiter_ok limiter_empty
  by unfold_locales (auto simp: limiter_ok_empty limiter_step_ok)

text \<open>
  C9. Concurrency slots are counted exactly: whatever arrivals, finish events and close
  events happen in whatever order, the counter of every key is the number of its admitted
  requests that have not been released, so no slot leaks and none is given back twice.
\<close>

theorem concurrency_slots_exact: "limiter_ok (fold limiter_step evs limiter_empty)"
  by (rule limiter.reachable_inv)

fun arrival_within :: "string \<Rightarrow> int \<Rightarrow> limiter_event \<Rightarrow> bool" where
  "arrival_within k n (Arrive _ (Some a) _ _) = (authApiKeyId a = k \<longrightarrow> maxConcurrent a \<le> n)"
| "arrival_within k n _ = True"

lemma step_slots_bound:
  assumes "limiter_ok s" and "arrival_within k n e" and "int (card (slots_held k s)) \<le> n"
  shows "int (card (slots_held k (limiter_step e s))) \<le> n"
proof (cases e)
  case (Arrive rid auth orch now)
  obtain out holds c where res: "rateLimit_memory auth orch now (counters s) = ((out, holds), c)"
    by (metis prod.exhaust)
  have fin: "finite (slots_held k s)" using assms(1) by (simp add: limiter_ok_def)
  show ?thesis
  proof (cases "closures s rid")
    case None
    from res show ?thesis
    proof (cases rule: rateLimit_memory_cases)
      case (slot a)
      have "conc_count (authApiKeyId a) (counters s) = int (card (slots_held (authApiKeyId a) s))"
        using assms(1) by (simp add: limiter_ok_def)
      then show ?thesis
        using slot None res Arrive assms(2,3) fin
        by (auto simp: slots_held_take card_insert_if)
    qed (use None res Arrive assms(3) in simp)
  qed (use Arrive assms in simp)
next
  case (ResponseFinish rid)
  have "slots_held k (run_release rid s) \<subseteq> slots_held k s"
    by (auto simp: run_release_def slots_held_def split: option.splits if_splits)
  from card_mono [OF _ this] show ?thesis
    using assms ResponseFinish by (fastforce simp: limiter_ok_def)
next
  case (ResponseClose rid)
  have "slots_held k (run_release rid s) \<subseteq> slots_held k s"
    by (auto simp: run_release_def slots_held_def split: option.splits if_splits)
  from card_mono [OF _ this] show ?thesis
    using assms ResponseClose by (fastforce simp: limiter_ok_def)
qed


definition sample_auth :: auth_context where
  "sample_auth = \<lparr>authCustomerId = ''c'', authApiKeyId = ''k'', authEmail = ''e'', authPlanId = ''p'',
     authPlanName = ''free'', monthlyTokenQuota = 1000, requestsPerMinute = 5, maxConcurrent = 1,
     allowedModelIds = [], billingMode = ''SUBSCRIPTION'', authPeriodStart = 0, authPeriodEnd = 1\<rparr>"


subsection \<open>Requests per minute\<close>

fun admitted :: "string \<Rightarrow> int \<Rightarrow> int list \<Rightarrow> mem \<Rightarrow> nat" where
  "admitted k rpm [] c = 0"
| "admitted k rpm (t # ts) c =
     (let (n, c') = memoryIncrRpm k windowMs t c
      in (if n > rpm then 0 else 1) + admitted k rpm ts c')"

lemma admitted_in_bucket:
  assumes "memoryRpm c (rl_key k) = Some b" and "\<forall>t \<in> set ts. t < resetAt b"
    and "0 \<le> bucketCount b"
  shows "int (admitted k rpm ts c) = min (int (length ts)) (max 0 (rpm - bucketCount b))"
  using assms
proof (induction ts arbitrary: c b)
  case (Cons t ts)
  let ?b = "b\<lparr>bucketCount := bucketCount b + 1\<rparr>"
  let ?c = "c\<lparr>memoryRpm := (memoryRpm c)(rl_key k \<mapsto> ?b)\<rparr>"
  have "memoryIncrRpm k windowMs t c = (bucketCount b + 1, ?c)"
    using Cons.prems by (simp add: memoryIncrRpm_def Let_def)
  moreover have "int (admitted k rpm ts ?c) = min (int (length ts)) (max 0 (rpm - (bucketCount b + 1)))"
    using Cons.prems Cons.IH [of ?c ?b] by simp
  ultimately show ?case by auto
qed simp

definition window_over :: "string \<Rightarrow> int \<Rightarrow> mem \<Rightarrow> bool" where
  "window_over k now c = (case memoryRpm c (rl_key k) of None \<Rightarrow> True | Some b \<Rightarrow> resetAt b \<le> now)"

text \<open>
  A window of the in-memory limiter admits exactly its quota: of the requests a key makes
  in the minute that starts with a fresh window, the first \<^verbatim>\<open>rpm\<close> pass and all others
  are refused, so the number admitted is the smaller of the two.
\<close>

theorem rpm_window_exact:
  assumes "window_over k t c" and "\<forall>u \<in> set ts. u < t + windowMs" and "1 \<le> rpm"
  shows "int (admitted k rpm (t # ts) c) = min (int (length (t # ts))) rpm"
proof -
  let ?b = "\<lparr>bucketCount = 1, resetAt = t + windowMs\<rparr>"
  let ?c = "c\<lparr>memoryRpm := (memoryRpm c)(rl_key k \<mapsto> ?b)\<rparr>"
  have "memoryIncrRpm k windowMs t c = (1, ?c)"
    using assms(1) by (auto simp: memoryIncrRpm_def window_over_def Let_def split: option.splits)
  moreover have "int (admitted k rpm ts ?c) = min (int (length ts)) (max 0 (rpm - 1))"
    using assms(2) by (subst admitted_in_bucket [of _ _ ?b]) auto
  ultimately show ?thesis using assms(3) by auto
qed

lemma rpm_window_exact_witness:
  "int (admitted ''k'' 2 [10, 20, 30, 60009] mem_empty) = min 4 2"
  using rpm_window_exact [of "''k''" 10 mem_empty "[20, 30, 60009]" 2]
  by (simp add: window_over_def mem_empty_def windowMs_def)

subsection \<open>Redis slots outlive their key\<close>

text \<open>
  Redis as documented, for integer values: a clock in milliseconds, and per key a value
  with an optional expiry time after which the key does not exist.
\<close>

record rstore =
  rClock :: int
  rKeys :: "string \<rightharpoonup> int \<times> int option"

definition r_live :: "string \<Rightarrow> rstore \<Rightarrow> (int \<times> int option) option" where
  "r_live key r =
     (case rKeys r key of
        None \<Rightarrow> None
      | Some (n, None) \<Rightarrow> Some (n, None)
      | Some (n, Some t) \<Rightarrow> if t \<le> rClock r then None else Some (n, Some t))"

definition r_add :: "int \<Rightarrow> string \<Rightarrow> rstore \<Rightarrow> (int \<times> rstore) option" where
  "r_add d key r =
     (let (n, ttl) = (case r_live key r of None \<Rightarrow> (0, None) | Some p \<Rightarrow> p)
      in Some (n + d, r\<lparr>rKeys := (rKeys r)(key \<mapsto> (n + d, ttl))\<rparr>))"

definition redis_model :: "rstore redis_api" where
  "redis_model =
     \<lparr>rdIncr = r_add 1, rdDecr = r_add (- 1),
      rdExpireMs = (\<lambda>key ms r. Some (case r_live key r of
          None \<Rightarrow> r
        | Some (n, _) \<Rightarrow> r\<lparr>rKeys := (rKeys r)(key \<mapsto> (n, Some (rClock r + ms)))\<rparr>)),
      rdGet = (\<lambda>key r. Some (map_option fst (r_live key r))),
      rdSetEx = (\<lambda>key n s r. Some (r\<lparr>rKeys := (rKeys r)(key \<mapsto> (n, Some (rClock r + s * 1000)))\<rparr>)),
      rdExists = (\<lambda>key r. Some (r_live key r \<noteq> None)),
      rdIncrBy = (\<lambda>key d r. map_option snd (r_add d key r))\<rparr>"

definition redis_at :: "int \<Rightarrow> rstore \<Rightarrow> rstore" where
  "redis_at t r = r\<lparr>rClock := t\<rparr>"

definition redis_empty :: rstore where
  "redis_empty = \<lparr>rClock = 0, rKeys = Map.empty\<rparr>"

text \<open>
  With Redis the concurrency limit does not hold for requests longer than two minutes: the
  slot counter expires 120 seconds after its first increment whatever is still in flight, so
  a key limited to one request has a second one admitted while the first is running.
\<close>

theorem redis_concurrency_expires:
  "let (first, r1) = rateLimit_redis redis_model (Some sample_auth) None 0 redis_empty;
       (early, r2) = rateLimit_redis redis_model (Some sample_auth) None 60000 (redis_at 60000 r1);
       (late, r3) = rateLimit_redis redis_model (Some sample_auth) None 120000 (redis_at 120000 r2)
   in first = (Next, True) \<and> early = (reject_concurrent 1, False) \<and> late = (Next, True)"
  by code_simp

subsection \<open>Who gets in\<close>

text \<open>
  Authentication lets a request through exactly when its bearer token, trimmed and hashed,
  is the hash of a stored key that is not revoked and whose customer has an active
  subscription; the context it attaches is that customer's, with the effective quota.
\<close>

theorem auth_passes_iff:
  "authMiddleware sha (Some keys) (Some header) = (Next, Some a) \<longleftrightarrow>
   (\<exists>token key sub. bearer_match header = Some token
      \<and> table_find keyHashOf (sha (js_trim token)) keys = Some key
      \<and> keyRevokedAt key = None \<and> keySubscription key = Some sub \<and> subStatus sub = ACTIVE
      \<and> a = \<lparr>authCustomerId = keyCustomerId key, authApiKeyId = keyId key,
             authEmail = keyCustomerEmail key, authPlanId = planId (subPlan sub),
             authPlanName = planName (subPlan sub),
             monthlyTokenQuota = effectiveMonthlyQuota (planMonthlyTokenQuota (subPlan sub)) (keyQuotaBonus key),
             requestsPerMinute = planRequestsPerMinute (subPlan sub),
             maxConcurrent = planMaxConcurrent (subPlan sub),
             allowedModelIds = planAllowedModelIds (subPlan sub),
             billingMode = planBillingMode (subPlan sub),
             authPeriodStart = subPeriodStart sub, authPeriodEnd = subPeriodEnd sub\<rparr>)"
  by (auto simp: authMiddleware_def split: option.splits if_splits)

end
