(* ===== verification/ChatExamples.thy ===== *)
theory ChatExamples
  imports ChatProps GatekeepingProps
begin

text \<open>
  Concrete runs of the chat handler: instances of the accounting theorems, and the two
  defects of its \<^verbatim>\<open>catch\<close> clause.
\<close>

definition sample_route :: resolve_result where
  "sample_route = \<lparr>rrHosted = sample_model, rrRequestedModelSlug = ''m'', rrResolvedModelSlug = ''m'',
     rrReason = ''requested_model_eligible'', rrDecisionHash = ''h'', rrPolicyVersionId = None,
     rrRedactedMessages = None, rrPiiFindings = None\<rparr>"

definition sample_chunk :: gen_chunk where
  "sample_chunk = \<lparr>gcDelta = ''hi'', gcFinal = True, gcPromptTokens = 10, gcCompletionTokens = 20,
     gcFinishReason = ''stop''\<rparr>"

definition sample_chat :: "(stage \<Rightarrow> thrown option) \<Rightarrow> chat_env" where
  "sample_chat throws = \<lparr>ceAuth = sample_auth\<lparr>monthlyTokenQuota := 10000\<rparr>, ceExecutionId = ''x'',
     ceRequestId = ''q'', ceNow = 0, ceRedis = False, ceThrows = throws, ceFates = (\<lambda>_ _. Commits),
     ceRoute = Inr sample_route, cePriceIn = 0, cePriceOut = 0, ceChunks = [sample_chunk],
     ceEngineError = None\<rparr>"

definition sample_body :: chat_request where
  "sample_body = \<lparr>crModel = ''m'', crMessages = [\<lparr>rmRole = ''user'', rmContent = Text ''hello''\<rparr>],
     crTemperature = 1, crTopP = 1, crMaxTokens = 100, crStream = False, crStop = [],
     crResponseFormat = None, crControls = None\<rparr>"

definition chat_empty :: "qdb \<Rightarrow> chat_state" where
  "chat_empty db = \<lparr>csDb = db, csRequests = [], csAttempts = [], csQueue = [], csAudit = []\<rparr>"

definition no_throw :: "stage \<Rightarrow> thrown option" where
  "no_throw st = None"

definition throw_at :: "stage \<Rightarrow> stage \<Rightarrow> thrown option" where
  "throw_at st st' = (if st' = st then Some (TError ''Error'' ''lost'' None) else None)"

definition other_db :: qdb where
  "other_db = snd (reserve_tx 0 ((sample_reserve ''o'' 1500)\<lparr>rvLimit := 10000\<rparr>) sample_db)"

lemma sample_ok: "ledger_ok sample_db"
  by (simp add: ledger_ok_def sample_defs reserved_total_def)

lemma sample_fresh: "fresh_request (sample_chat throws) other_db"
  by (simp add: fresh_request_def sample_chat_def other_db_def tx_defs sample_defs Let_def)

lemma sample_undisturbed: "undisturbed (sample_chat throws)"
  by (simp add: undisturbed_def sample_chat_def)

lemma sample_chat_fields:
  "authCustomerId (ceAuth (sample_chat t)) = ''c''" "ceExecutionId (sample_chat t) = ''x''"
  "ceThrows (sample_chat t) = t" "0 \<le> crMaxTokens sample_body" "csDb (chat_empty db) = db"
  by (simp_all add: sample_chat_def sample_auth_def sample_body_def chat_empty_def)



text \<open>
  A failure after the commit gives back other requests' tokens: the \<^verbatim>\<open>catch\<close> clause releases the
  estimate again out of the customer's whole reservation. Here the audit write fails
  after the commit; the client is answered with 500 although its 30 tokens are billed, 164 of
  the 1500 tokens reserved by another request are released, and when that request commits
  the customer's reserved total is negative, i.e. the limit is exceeded by as much.
\<close>

theorem late_failure_releases_others:
  "let (resp, s1) = chat_completions (sample_chat (throw_at WriteAudit)) sample_body (chat_empty other_db);
       other = \<lparr>cmCustomer = ''c'', cmRequest = ''o'', cmActual = 1500, cmKey = ''o:usage:commit''\<rparr>;
       db2 = snd (commit_tx other (csDb s1))
   in resp = JsonError 500 ''server_error'' ''lost'' None
      \<and> map_option tokensUsed (ledgers (csDb s1) ''c'') = Some 30
      \<and> reserved_of ''c'' ''o'' (entries (csDb s1)) = 1500
      \<and> map_option tokensReserved (ledgers (csDb s1) ''c'') = Some 1336
      \<and> map_option tokensReserved (ledgers db2 ''c'') = Some (- 164)"
  by code_simp

text \<open>
  A model the caller is not entitled to is answered with status 500: the routing error's
  \<^verbatim>\<open>code\<close> property is not looked at, so MODEL_NOT_FOUND, like every other code the router
  sets, becomes a server error and the handler's 404 branch is unreachable.
\<close>

theorem routing_errors_become_500:
  "chat_error_response False (thrown_of_router (RouterError code msg)) =
     JsonError 500 ''server_error'' (or_text msg ''Internal server error'') None"
  by (simp add: chat_error_response_def thrown_of_router_def mapEngineFailure_def mapEngineError_def)

end
