(* ===== verification/ChatWireExamples.thy ===== *)
theory ChatWireExamples
  imports ChatWireProps ChatExamples
begin

text \<open>Concrete chats of the dashboard: instances of the theorems about the browser's reader.\<close>

definition sample_wire :: wire_env where
  "sample_wire = \<lparr>weCompletionId = ''chatcmpl-1'', weModel = ''m'', weClock = (\<lambda>_. 5000),
     weRetrieval = Some (JObj [(''hits'', JArr [JObj [(''title'', JStr ''Guide'')]])])\<rparr>"

definition stream_request :: chat_request where
  "stream_request = sample_body\<lparr>crStream := True\<rparr>"

definition sample_chunks :: "gen_chunk list" where
  "sample_chunks = [sample_chunk]"

lemma sample_chat_chunks: "ceChunks (sample_chat t) = sample_chunks"
  by (simp add: sample_chat_def sample_chunks_def)

lemma sample_wire_plain: "opt_ok plain (weRetrieval sample_wire)"
  by (simp add: sample_wire_def opt_ok_def)

definition sample_text :: string where
  "sample_text = chat_sse_body sample_wire (chat_messages stream_request) sample_chunks None"

lemma browser_shows_billed_answer_witness:
  "umContent (browser_answer (Streams [take 100 sample_text, drop 100 sample_text] Closes)) = ''hi''"
proof -
  let ?a = "\<lparr>caPrompt = 10, caCompletion = 20, caFinish = Stop, caContent = ''hi''\<rparr>"
  let ?run = "chat_completions (sample_chat no_throw) stream_request (chat_empty other_db)"
  have "fst ?run = Completed ?a" by code_simp
  then have run: "?run = (Completed ?a, snd ?run)" by (metis prod.collapse)
  have str: "crStream stream_request" by (simp add: stream_request_def)
  have pieces: "concat [take 100 sample_text, drop 100 sample_text] =
      chat_sse_body sample_wire (chat_messages stream_request) (ceChunks (sample_chat no_throw)) None"
    by (simp add: sample_chat_chunks sample_text_def)
  show ?thesis
    using browser_shows_billed_answer [OF run str sample_wire_plain pieces, THEN conjunct1] by simp
qed

definition failed_text :: string where
  "failed_text = chat_sse_body sample_wire (chat_messages stream_request) [sample_chunk\<lparr>gcFinal := False\<rparr>]
     (Some (''server_error'', ''lost''))"

lemma browser_shows_stream_failure_witness:
  "umError (browser_answer (Streams [failed_text] Closes))"
proof -
  let ?run = "chat_completions (sample_chat (throw_at Generation)) stream_request (chat_empty other_db)"
  have "fst ?run = StreamFailed ''server_error'' ''lost''" by code_simp
  then have run: "?run = (StreamFailed ''server_error'' ''lost'', snd ?run)" by (metis prod.collapse)
  have pieces: "concat [failed_text] = chat_sse_body sample_wire (chat_messages stream_request)
      [sample_chunk\<lparr>gcFinal := False\<rparr>] (Some (''server_error'', ''lost''))"
    by (simp add: failed_text_def)
  show ?thesis
    using browser_shows_stream_failure [OF run sample_wire_plain pieces, of Closes] by (simp add: Let_def)
qed

definition sample_ui :: chat_ui where
  "sample_ui = \<lparr>uiMessages = [], uiInput = ''hello'', uiModel = ''auto'', uiKnowledgeBase = ''all'',
     uiBases = replicate 21 ''kb'', uiMaxTokens = 2048, uiTemperature = 7 / 10, uiStreaming = False\<rparr>"

lemma browser_request_accepted_witness:
  "parse_request (chat_body ''o'' ''g'' sample_ui [user_message ''hello'']) = None"
proof -
  have "parse_request (chat_body ''o'' ''g'' sample_ui [user_message ''hello'']) \<noteq> None
      \<longleftrightarrow> length (selected_bases sample_ui) \<le> 20"
    by (rule browser_request_accepted)
      (simp_all add: sample_ui_def user_message_def selected_bases_def is_int_def list_all_length)
  then show ?thesis by (simp add: sample_ui_def selected_bases_def)
qed

end
