(* ===== verification/RoutingProps.thy ===== *)
theory RoutingProps
  imports Routing
begin

text \<open>
  The router's promises: whatever it resolves is on the caller's plan and satisfies the
  policy, an automatic request goes to the platform default when there is one, the last
  resort is the cheapest eligible model, and it fails exactly when it must.
\<close>

text \<open>The candidates a decision may choose from.\<close>

definition eligible_for :: "policy_document \<Rightarrow> context_input \<Rightarrow> candidate list" where
  "eligible_for document context =
     (case (parse_policy document, parse_context context) of
        (Some p, Some i) \<Rightarrow> filter (satisfies_policy p) (candidates i)
      | _ \<Rightarrow> [])"

lemma find_candidate_some:
  "find_candidate slug cs = Some c \<Longrightarrow> c \<in> set cs \<and> modelSlug c = slug"
  by (auto simp: find_candidate_def find_Some_iff)

lemma firstListed_some:
  "firstListedCandidate slugs cs = Some c \<Longrightarrow> c \<in> set cs \<and> modelSlug c \<in> set slugs"
  by (induction slugs) (auto dest: find_candidate_some split: option.splits)

definition sound_choice :: "candidate list \<Rightarrow> candidate option \<times> string \<Rightarrow> bool" where
  "sound_choice eligible sel \<longleftrightarrow> (case fst sel of None \<Rightarrow> True | Some c \<Rightarrow> c \<in> set eligible)"

lemma requested_sound: "sound_choice eligible (requested_choice input eligible)"
  by (auto simp: sound_choice_def requested_choice_def dest: find_candidate_some split: option.splits)

lemma default_sound:
  "default_choice input eligible sel = Inr sel' \<Longrightarrow> sound_choice eligible sel \<Longrightarrow>
   sound_choice eligible sel'"
  by (auto simp: sound_choice_def default_choice_def dest: find_candidate_some
      split: option.splits if_splits)

lemma list_sound: "sound_choice eligible sel \<Longrightarrow> sound_choice eligible (list_choice slugs tag eligible sel)"
  by (auto simp: sound_choice_def list_choice_def dest: firstListed_some
      split: option.splits prod.splits)

lemma best_sound: "sound_choice eligible sel \<Longrightarrow> sound_choice eligible (best_choice loc eligible sel)"
  by (auto simp: sound_choice_def best_choice_def dest: js_sort_cons_in
      split: option.splits prod.splits list.splits)

lemma best_total: "eligible \<noteq> [] \<Longrightarrow> fst (best_choice loc eligible sel) \<noteq> None"
  using js_sort_nil_iff [of "candidate_cmp loc" eligible]
  by (auto simp: best_choice_def split: option.splits prod.splits list.splits)

text \<open>The evaluator in one equation over its stages.\<close>

definition final_choice ::
    "(string \<Rightarrow> string \<Rightarrow> rat) \<Rightarrow> routing_policy \<Rightarrow> candidate list \<Rightarrow> candidate option \<times> string
      \<Rightarrow> candidate option \<times> string" where
  "final_choice loc policy eligible sel =
     best_choice loc eligible
       (list_choice (fallbackModels policy) ''fallback_model'' eligible
         (list_choice (preferredModels policy) ''preferred_model'' eligible sel))"

lemma final_sound:
  assumes "sound_choice eligible sel" and "eligible \<noteq> []"
  obtains c where "fst (final_choice loc policy eligible sel) = Some c" and "c \<in> set eligible"
proof -
  have "sound_choice eligible (final_choice loc policy eligible sel)"
    unfolding final_choice_def by (intro best_sound list_sound assms(1))
  moreover have "fst (final_choice loc policy eligible sel) \<noteq> None"
    unfolding final_choice_def by (rule best_total [OF assms(2)])
  ultimately show ?thesis using that by (auto simp: sound_choice_def)
qed

lemma evaluate_inr:
  assumes "evaluateRoutingPolicy loc hash document context = Inr d"
  obtains policy input sel c where
    "parse_policy document = Some policy" "parse_context context = Some input"
    "eligible_for document context \<noteq> []"
    "default_choice input (eligible_for document context)
       (requested_choice input (eligible_for document context)) = Inr sel"
    "fst (final_choice loc policy (eligible_for document context) sel) = Some c"
    "resolvedModelSlug d = modelSlug c"
    "decisionReason d = snd (final_choice loc policy (eligible_for document context) sel)"
  using assms
  by (auto simp: evaluateRoutingPolicy_def eligible_for_def final_choice_def Let_def
      split: option.splits sum.splits if_splits)

text \<open>
  C14. A routing decision always names an eligible candidate: one of the given ones that is available and meets the
  policy's cost ceiling, quality floor and latency ceiling, whatever the request asked for.
\<close>

theorem decision_is_eligible:
  assumes "evaluateRoutingPolicy loc hash document context = Inr d"
  shows "\<exists>p i c. parse_policy document = Some p \<and> parse_context context = Some i
    \<and> c \<in> set (candidates i) \<and> modelSlug c = resolvedModelSlug d \<and> available c
    \<and> (maxCostMicros p = None \<or> costMicros c \<le> the (maxCostMicros p))
    \<and> (minQuality p = None \<or> the (minQuality p) \<le> cQualityClass c)
    \<and> (maxLatencyClass p = None \<or> cLatencyClass c \<le> the (maxLatencyClass p))"
proof -
  from assms obtain policy input sel c where
    parsed: "parse_policy document = Some policy" "parse_context context = Some input"
    and ne: "eligible_for document context \<noteq> []"
    and dc: "default_choice input (eligible_for document context)
       (requested_choice input (eligible_for document context)) = Inr sel"
    and fc: "fst (final_choice loc policy (eligible_for document context) sel) = Some c"
    and slug: "resolvedModelSlug d = modelSlug c"
    by (rule evaluate_inr)
  obtain c' where "fst (final_choice loc policy (eligible_for document context) sel) = Some c'"
    and "c' \<in> set (eligible_for document context)"
    by (rule final_sound [OF default_sound [OF dc requested_sound] ne])
  then have "c \<in> set (candidates input)" and "satisfies_policy policy c"
    using fc parsed by (simp_all add: eligible_for_def)
  then show ?thesis
    using parsed slug
    by (intro exI [of _ policy] exI [of _ input] exI [of _ c])
      (auto simp: satisfies_policy_def split: option.splits)
qed

definition ascii_cmp :: "string \<Rightarrow> string \<Rightarrow> rat" where
  "ascii_cmp a b = (if map chr_code a = map chr_code b then 0
                    else if (map chr_code a, map chr_code b) \<in> lexord {(x, y). x < y} then - 1 else 1)"

definition sample_candidate :: "string \<Rightarrow> rat \<Rightarrow> candidate_input" where
  "sample_candidate s cost = \<lparr>ciModelSlug = s, ciCostMicros = cost, ciQualityClass = 50,
     ciLatencyClass = 50, ciAvailable = None\<rparr>"

definition sample_context :: "string \<Rightarrow> string option \<Rightarrow> context_input" where
  "sample_context r d = \<lparr>cxRequestedModel = r,
     cxCandidates = [sample_candidate ''a'' 30, sample_candidate ''b'' 10, sample_candidate ''c'' 20],
     cxPlatformDefaultModel = d\<rparr>"

lemmas routing_eval = evaluateRoutingPolicy_def eligible_for_def parse_policy_def parse_context_def
  parse_candidate_def nonneg_int_def or_default_def satisfies_policy_def default_choice_def
  requested_choice_def list_choice_def best_choice_def find_candidate_def auto_model_def
  with_suffix_def sample_context_def sample_candidate_def empty_document_def js_sort_def
  candidate_cmp_def then_cmp_def

lemma sample_decision:
  "\<exists>d. evaluateRoutingPolicy (\<lambda>_ _. 0) (\<lambda>_. ''h'') empty_document (sample_context ''auto'' None) = Inr d
     \<and> resolvedModelSlug d = ''b''"
  by (simp add: routing_eval)

lemma decision_is_eligible_witness:
  "\<exists>d i c. evaluateRoutingPolicy (\<lambda>_ _. 0) (\<lambda>_. ''h'') empty_document (sample_context ''auto'' None) = Inr d
     \<and> parse_context (sample_context ''auto'' None) = Some i \<and> c \<in> set (candidates i)
     \<and> modelSlug c = resolvedModelSlug d"
  using sample_decision decision_is_eligible by blast

subsection \<open>Preference order\<close>

text \<open>
  The last resort is optimal: an automatic request with no platform default and no listed model
  among the eligible ones goes to an eligible candidate that no other precedes in the
  order of cost, then quality (higher first), then latency, then name.
\<close>

theorem best_eligible_is_least:
  assumes "parse_policy document = Some policy"
    and "parse_context context = Some input" and "requestedModel input = auto_model"
    and "platformDefaultModel input = None"
    and "firstListedCandidate (preferredModels policy) (eligible_for document context) = None"
    and "firstListedCandidate (fallbackModels policy) (eligible_for document context) = None"
    and "eligible_for document context \<noteq> []"
    and "preorder_cmp (\<lambda>(l :: candidate) (r :: candidate). loc (modelSlug l) (modelSlug r))"
  shows "\<exists>d c. evaluateRoutingPolicy loc hash document context = Inr d
      \<and> c \<in> set (eligible_for document context) \<and> resolvedModelSlug d = modelSlug c
      \<and> decisionReason d = ''auto_routing:best_eligible''
      \<and> (\<forall>c' \<in> set (eligible_for document context). candidate_cmp loc c c' \<le> 0)"
proof -
  let ?es = "eligible_for document context"
  have es: "?es = filter (satisfies_policy policy) (candidates input)"
    using assms(1,2) by (simp add: eligible_for_def)
  obtain c cs where sorted: "js_sort (candidate_cmp loc) ?es = c # cs"
    using assms(7) by (cases "js_sort (candidate_cmp loc) ?es") auto
  have pre: "preorder_cmp (candidate_cmp loc)"
    unfolding candidate_cmp_def by (intro preorder_then_cmp assms(8))
  have least: "\<forall>c' \<in> set ?es. candidate_cmp loc c c' \<le> 0"
    using hd_js_sort_least [OF pre] sorted by fastforce
  have "c \<in> set ?es" using sorted set_js_sort [of "candidate_cmp loc" ?es] by auto
  then show ?thesis
    using assms sorted least unfolding es
    by (auto simp: evaluateRoutingPolicy_def default_choice_def requested_choice_def list_choice_def
        best_choice_def with_suffix_def Let_def)
qed

lemma best_eligible_is_least_witness:
  "\<exists>d c. evaluateRoutingPolicy (\<lambda>_ _. 0) (\<lambda>_. ''h'') empty_document (sample_context ''auto'' None) = Inr d
     \<and> c \<in> set (eligible_for empty_document (sample_context ''auto'' None))
     \<and> resolvedModelSlug d = modelSlug c \<and> decisionReason d = ''auto_routing:best_eligible''
     \<and> (\<forall>c' \<in> set (eligible_for empty_document (sample_context ''auto'' None)).
          candidate_cmp (\<lambda>_ _. 0) c c' \<le> 0)"
  by (rule best_eligible_is_least
      [where policy = "the (parse_policy empty_document)"
         and input = "the (parse_context (sample_context ''auto'' None))"])
    (simp_all add: routing_eval preorder_cmp_def)

text \<open>
  Explicit requests and the platform default come first: an eligible requested model is
  always the one resolved, and an automatic request resolves to the platform default or
  fails, but never falls back to another model.
\<close>

theorem requested_and_default_first:
  assumes "evaluateRoutingPolicy loc hash document context = Inr d"
    and "parse_context context = Some input"
  shows "(requestedModel input \<noteq> auto_model \<and>
            find_candidate (requestedModel input) (eligible_for document context) \<noteq> None \<longrightarrow>
            resolvedModelSlug d = requestedModel input \<and> decisionReason d = ''requested_model_eligible'')
       \<and> (requestedModel input = auto_model \<and> platformDefaultModel input = Some m \<longrightarrow>
            resolvedModelSlug d = m \<and> decisionReason d = ''auto_routing:platform_default'')"
proof -
  from assms obtain policy sel c where
    "default_choice input (eligible_for document context)
       (requested_choice input (eligible_for document context)) = Inr sel"
    "fst (final_choice loc policy (eligible_for document context) sel) = Some c"
    "resolvedModelSlug d = modelSlug c"
    "decisionReason d = snd (final_choice loc policy (eligible_for document context) sel)"
    by (elim evaluate_inr) auto
  then show ?thesis
    by (auto simp: default_choice_def requested_choice_def final_choice_def list_choice_def
        best_choice_def with_suffix_def dest: find_candidate_some split: option.splits if_splits)
qed

lemma requested_and_default_first_witness:
  "\<exists>d. evaluateRoutingPolicy (\<lambda>_ _. 0) (\<lambda>_. ''h'') empty_document (sample_context ''auto'' (Some ''c'')) = Inr d
     \<and> resolvedModelSlug d = ''c''"
proof -
  obtain d where d: "evaluateRoutingPolicy (\<lambda>_ _. 0) (\<lambda>_. ''h'') empty_document
      (sample_context ''auto'' (Some ''c'')) = Inr d"
    by (simp add: routing_eval)
  moreover have "parse_context (sample_context ''auto'' (Some ''c'')) =
      Some (the (parse_context (sample_context ''auto'' (Some ''c''))))"
    by (simp add: routing_eval)
  ultimately show ?thesis
    using requested_and_default_first [OF d, of _ "''c''"] by (simp add: routing_eval)
qed

subsection \<open>Entitlement\<close>

text \<open>
  C13. The gateway never resolves a model outside the caller's plan: a successful resolution names a
  registered model whose slug is among the key's allowed models, returns that model's row,
  and an explicit request is served only when the requested model is itself allowed.
\<close>

theorem resolved_model_entitled:
  assumes "resolveModelForRequest loc hash sha redact rows bindings auth requested maxTokens messages pii = Inr r"
  shows "rrResolvedModelSlug r \<in> set (raAllowedModelIds auth)
    \<and> rrHosted r \<in> set rows \<and> modelId (rrHosted r) = rrResolvedModelSlug r
    \<and> (requested \<noteq> auto_model \<longrightarrow> requested \<in> set (raAllowedModelIds auth))
    \<and> (requested = auto_model \<and> platform_default rows = Some d \<longrightarrow> rrResolvedModelSlug r = d)"
proof -
  from assms obtain decision hosted cands document where
    ev: "evaluateRoutingPolicy loc hash document
           \<lparr>cxRequestedModel = requested, cxCandidates = cands,
            cxPlatformDefaultModel = platform_default rows\<rparr> = Inr decision"
    and allowed: "resolvedModelSlug decision \<in> set (raAllowedModelIds auth)"
      "requested \<noteq> auto_model \<longrightarrow> requested \<in> set (raAllowedModelIds auth)"
    and row: "find_model (resolvedModelSlug decision)
           (filter (\<lambda>m. modelId m \<in> set (raAllowedModelIds auth)
                \<or> (requested \<noteq> auto_model \<and> modelId m = requested)) rows) = Some hosted"
    and r: "rrResolvedModelSlug r = resolvedModelSlug decision" "rrHosted r = hosted"
    unfolding resolveModelForRequest_def Let_def
    by (auto split: if_splits option.splits sum.splits)
  have "hosted \<in> set rows" "modelId hosted = resolvedModelSlug decision"
    using table_find_some_in [OF row [unfolded find_model_def]] by auto
  moreover have "resolvedModelSlug decision = d"
    if auto: "requested = auto_model" and def: "platform_default rows = Some d"
  proof -
    from ev obtain input where input: "parse_context \<lparr>cxRequestedModel = requested, cxCandidates = cands,
            cxPlatformDefaultModel = platform_default rows\<rparr> = Some input"
      by (rule evaluate_inr)
    then have "requestedModel input = auto_model" "platformDefaultModel input = Some d"
      using auto def by (auto simp: parse_context_def split: if_splits)
    moreover from ev obtain policy sel c where
      "default_choice input (eligible_for document \<lparr>cxRequestedModel = requested, cxCandidates = cands,
            cxPlatformDefaultModel = platform_default rows\<rparr>)
         (requested_choice input (eligible_for document \<lparr>cxRequestedModel = requested, cxCandidates = cands,
            cxPlatformDefaultModel = platform_default rows\<rparr>)) = Inr sel"
      "fst (final_choice loc policy (eligible_for document \<lparr>cxRequestedModel = requested, cxCandidates = cands,
            cxPlatformDefaultModel = platform_default rows\<rparr>) sel) = Some c"
      "resolvedModelSlug decision = modelSlug c"
      using input by (elim evaluate_inr) auto
    ultimately show ?thesis
      by (auto simp: default_choice_def requested_choice_def final_choice_def list_choice_def
          best_choice_def dest: find_candidate_some split: option.splits if_splits)
  qed
  ultimately show ?thesis using allowed r by simp
qed

definition sample_auth_router :: router_auth where
  "sample_auth_router = \<lparr>raCustomerId = ''c'', raApiKeyId = ''k'', raAllowedModelIds = [''m''], raPlanId = None\<rparr>"

lemma resolved_model_entitled_witness:
  "\<exists>r. resolveModelForRequest (\<lambda>_ _. 0) (\<lambda>_. ''h'') id (\<lambda>s. (s, [])) [sample_model] []
         sample_auth_router ''m'' 100 None False = Inr r
     \<and> rrResolvedModelSlug r \<in> set [''m'']"
proof -
  obtain r where r: "resolveModelForRequest (\<lambda>_ _. 0) (\<lambda>_. ''h'') id (\<lambda>s. (s, [])) [sample_model] []
         sample_auth_router ''m'' 100 None False = Inr r"
    by (simp add: resolveModelForRequest_def sample_auth_router_def sample_model_def routing_eval
        candidate_of_def estimateCandidateCost_def platform_default_def find_binding_def
        find_model_def table_find_def Let_def)
  from resolved_model_entitled [OF r] r show ?thesis by (auto simp: sample_auth_router_def)
qed

end
