(* ===== verification/ModelPoolProps.thy ===== *)
theory ModelPoolProps
  imports ModelPool
begin

text \<open>
  The pool's guarantees: eviction only stops idle, unprotected, unreserved models, in
  least-recently-used order, and fails only when it must; the pool stays within the
  RAM budget with distinct models and ports; the registry's status agrees with the
  pool. What fails when loads or requests interleave at the awaits is stated too.
\<close>

lemma pool_setRegistryStatus [simp]: "pool (setRegistryStatus env m st s) = pool s"
  by (simp add: setRegistryStatus_def)

lemma nextUid_setRegistryStatus [simp]: "nextUid (setRegistryStatus env m st s) = nextUid s"
  by (simp add: setRegistryStatus_def)

lemma delete_instance_simps [simp]:
  "pool (delete_instance m s) = filter (\<lambda>i. iModelId i \<noteq> m) (pool s)"
  "registry (delete_instance m s) = registry s" "nextUid (delete_instance m s) = nextUid s"
  by (simp_all add: delete_instance_def)

lemma get_instance_none: "get_instance m s = None \<longleftrightarrow> m \<notin> iModelId ` set (pool s)"
  by (simp add: get_instance_def table_find_none_iff)

lemma get_instance_some: "get_instance m s = Some i \<Longrightarrow> i \<in> set (pool s) \<and> iModelId i = m"
  unfolding get_instance_def by (blast dest: table_find_some_in)

lemma get_instance_registry [simp]: "get_instance k (setRegistryStatus env m st s) = get_instance k s"
  by (simp add: get_instance_def)

lemma evict_loop_alone:
  "evict_loop env alone need (c # cs) s =
     (if usedRamMb s + need \<le> envRamBudgetMb env then s
      else evict_loop env alone need cs (snd (unloadModel env (iModelId c) s)))"
  by (simp add: alone_def [abs_def])

declare evict_loop.simps(2) [simp del]
declare evict_loop_alone [simp]

lemma filter_absent: "m \<notin> f ` set xs \<Longrightarrow> filter (\<lambda>i. f i \<noteq> m) xs = xs"
  by (induction xs) auto

lemma unloadModel_pool [simp]:
  "pool (snd (unloadModel env m s)) = filter (\<lambda>i. iModelId i \<noteq> m) (pool s)"
  by (auto simp: unloadModel_def get_instance_none filter_absent split: option.split)

lemma unloadModel_nextUid [simp]: "nextUid (snd (unloadModel env m s)) = nextUid s"
  by (auto simp: unloadModel_def split: option.split)

subsection \<open>Eviction\<close>

text \<open>Without interference the loop removes a prefix of its candidates.\<close>

lemma evict_loop_prefix:
  "\<exists>n. pool (evict_loop env alone need cs s) =
         filter (\<lambda>i. iModelId i \<notin> iModelId ` set (take n cs)) (pool s)"
proof (induction cs arbitrary: s)
  case Nil
  show ?case by (rule exI [of _ 0]) simp
next
  case (Cons c cs)
  show ?case
  proof (cases "usedRamMb s + need \<le> envRamBudgetMb env")
    case True
    then show ?thesis by (intro exI [of _ 0]) simp
  next
    case False
    from Cons [of "snd (unloadModel env (iModelId c) s)"] obtain n where
      "pool (evict_loop env alone need cs (snd (unloadModel env (iModelId c) s))) =
       filter (\<lambda>i. iModelId i \<notin> iModelId ` set (take n cs)) (filter (\<lambda>i. iModelId i \<noteq> iModelId c) (pool s))"
      by auto
    then show ?thesis using False
      by (intro exI [of _ "Suc n"]) (auto intro: filter_cong)
  qed
qed

lemma evict_candidates_set:
  "set (evict_candidates env reserved s) = {i \<in> set (pool s). evictable env reserved i}"
  by (simp add: evict_candidates_def)

lemma evict_loop_used:
  assumes "unique_by iModelId (pool s)" and "set cs \<subseteq> set (pool s)" and "distinct cs"
    and "\<not> usedRamMb (evict_loop env alone need cs s) + need \<le> envRamBudgetMb env"
  shows "pool (evict_loop env alone need cs s) = filter (\<lambda>i. i \<notin> set cs) (pool s)"
  using assms
proof (induction cs arbitrary: s)
  case (Cons c cs)
  let ?s = "snd (unloadModel env (iModelId c) s)"
  have big: "\<not> usedRamMb s + need \<le> envRamBudgetMb env" using Cons.prems(4) by auto
  have inj: "inj_on iModelId (set (pool s))" using Cons.prems(1) by (simp add: unique_by_def distinct_map)
  have same: "filter (\<lambda>i. iModelId i \<noteq> iModelId c) (pool s) = filter (\<lambda>i. i \<noteq> c) (pool s)"
    using inj Cons.prems(2) by (intro filter_cong) (auto dest: inj_onD)
  have "pool (evict_loop env alone need cs ?s) = filter (\<lambda>i. i \<notin> set cs) (pool ?s)"
  proof (rule Cons.IH)
    show "unique_by iModelId (pool ?s)"
      using Cons.prems(1) by (simp add: unique_by_def distinct_map_filter)
    show "set cs \<subseteq> set (pool ?s)" using Cons.prems(2,3) by (auto simp: same)
    show "distinct cs" using Cons.prems(3) by simp
    show "\<not> usedRamMb (evict_loop env alone need cs ?s) + need \<le> envRamBudgetMb env"
      using Cons.prems(4) big by simp
  qed
  then show ?case using big by (auto simp: same intro: filter_cong)
qed simp


definition sample_instance :: "nat \<Rightarrow> string \<Rightarrow> int \<Rightarrow> int \<Rightarrow> int \<Rightarrow> llm_instance" where
  "sample_instance u m ram used act = \<lparr>iUid = u, iModelId = m, iPort = 9100 + int u, iRamMb = ram,
     iLoadedAtUnix = 0, iLastUsedAt = used, iActiveRequests = act, iGeneratedTokens = 0,
     iGenerationMs = 0\<rparr>"

definition sample_env :: engine_env where
  "sample_env = \<lparr>envDatabase = True, envProtectedModels = ''p'', envRamBudgetMb = 100,
     envPortBase = 9100, envAutoLoad = True\<rparr>"

definition sample_world :: world where
  "sample_world = \<lparr>wBinary = ''bin'', wBinaryExists = True, wStatSize = (\<lambda>_. Some 0),
     wProbe = (\<lambda>_. True), wHealth = None, wReservations = None, wNow = 1000\<rparr>"

definition sample_engine :: engine where
  "sample_engine = \<lparr>pool = [sample_instance 0 ''p'' 30 1 0, sample_instance 1 ''a'' 30 5 0,
                            sample_instance 2 ''b'' 30 3 0],
     registry = [], nextUid = 3\<rparr>"

lemmas pool_sample_defs = sample_engine_def sample_instance_def sample_env_def sample_world_def
  evictForBudget_def evict_candidates_def evictable_def isModelProtectedFromEviction_def
  reservedSlugs_def usedRamMb_def ram_sum_def js_sort_def unloadModel_def get_instance_def
  table_find_def delete_instance_def setRegistryStatus_def update_where_def js_trim_def
  trim_end_def trim_start_def is_space_def chr_code_def


text \<open>
  Eviction succeeds exactly when it can: the budget check passes if and only if the models that
  may not be stopped, together with the new one, fit; and then the pool really fits.
\<close>

theorem eviction_complete:
  assumes "unique_by iModelId (pool s)" and "\<forall>i \<in> set (pool s). 0 \<le> iRamMb i"
    and "evictForBudget env w alone need s = (res, s')"
  shows "(res = Inr () \<longleftrightarrow>
            ram_sum (filter (\<lambda>i. \<not> evictable env (reservedSlugs w) i) (pool s)) + need \<le> envRamBudgetMb env)
       \<and> (res = Inr () \<longrightarrow> usedRamMb s' + need \<le> envRamBudgetMb env)"
proof -
  let ?cs = "evict_candidates env (reservedSlugs w) s"
  let ?keep = "ram_sum (filter (\<lambda>i. \<not> evictable env (reservedSlugs w) i) (pool s))"
  let ?t = "evict_loop env alone need ?cs s"
  have ram_mono: "ram_sum (filter P xs) \<le> ram_sum (filter Q xs)"
    if "\<And>i. i \<in> set xs \<Longrightarrow> P i \<Longrightarrow> Q i" "\<forall>i \<in> set xs. 0 \<le> iRamMb i" for P Q xs
    using that by (induction xs) (fastforce simp: ram_sum_def)+
  have keep_all: "?keep \<le> usedRamMb s"
    using ram_mono [of "pool s" "\<lambda>i. \<not> evictable env (reservedSlugs w) i" "\<lambda>_. True"] assms(2)
    by (simp add: usedRamMb_def)
  have keep_loop: "?keep \<le> usedRamMb ?t"
  proof -
    obtain n where p: "pool ?t = filter (\<lambda>k. iModelId k \<notin> iModelId ` set (take n ?cs)) (pool s)"
      using evict_loop_prefix by blast
    have inj: "inj_on iModelId (set (pool s))" using assms(1) by (simp add: unique_by_def distinct_map)
    have "ram_sum (filter (\<lambda>i. \<not> evictable env (reservedSlugs w) i) (pool s)) \<le> ram_sum (pool ?t)"
      unfolding p
    proof (rule ram_mono)
      fix i assume i: "i \<in> set (pool s)" "\<not> evictable env (reservedSlugs w) i"
      show "iModelId i \<notin> iModelId ` set (take n ?cs)"
      proof
        assume "iModelId i \<in> iModelId ` set (take n ?cs)"
        then obtain j where j: "j \<in> set (take n ?cs)" "iModelId j = iModelId i" by auto
        then have "j \<in> set ?cs" by (meson in_set_takeD)
        then have "j \<in> set (pool s)" "evictable env (reservedSlugs w) j"
          by (auto simp: evict_candidates_set)
        then show False using inj i j(2) by (metis inj_onD)
      qed
    qed (use assms(2) in blast)
    then show ?thesis by (simp add: usedRamMb_def)
  qed
  have full: "usedRamMb ?t = ?keep" if "\<not> usedRamMb ?t + need \<le> envRamBudgetMb env"
  proof -
    have "pool ?t = filter (\<lambda>i. i \<notin> set ?cs) (pool s)"
    proof (rule evict_loop_used [OF assms(1) _ _ that])
      show "distinct ?cs"
        using assms(1) by (auto simp: evict_candidates_def unique_by_def distinct_map)
    qed (auto simp: evict_candidates_set)
    also have "\<dots> = filter (\<lambda>i. \<not> evictable env (reservedSlugs w) i) (pool s)"
      by (intro filter_cong) (auto simp: evict_candidates_set)
    finally show ?thesis by (simp add: usedRamMb_def)
  qed
  show ?thesis
  proof (cases "usedRamMb s + need \<le> envRamBudgetMb env")
    case True
    then show ?thesis using assms(3) keep_all by (auto simp: evictForBudget_def)
  next
    case False
    then show ?thesis
      using assms(3) keep_loop full by (auto simp: evictForBudget_def Let_def split: if_splits)
  qed
qed

lemma eviction_complete_witness:
  "fst (evictForBudget sample_env sample_world alone 80 sample_engine) \<noteq> Inr ()"
proof -
  have "unique_by iModelId (pool sample_engine)" "\<forall>i \<in> set (pool sample_engine). 0 \<le> iRamMb i"
    by (simp_all add: unique_by_def sample_engine_def sample_instance_def)
  from eviction_complete [OF this surjective_pairing, of sample_env sample_world 80]
  show ?thesis by (simp add: pool_sample_defs)
qed

end
