(* ===== verification/ModelPoolInv.thy ===== *)
theory ModelPoolInv
  imports ModelPoolProps
begin

text \<open>
  The pool as a state machine of loads, unloads, requests and process exits: distinct
  models and ports within the RAM budget, and a registry whose status of every local
  model says whether it is resident. The interleavings that break the budget or stop a
  busy model are exhibited at the end.
\<close>

definition pool_ok :: "engine_env \<Rightarrow> engine \<Rightarrow> bool" where
  "pool_ok env s \<longleftrightarrow>
     unique_by iModelId (pool s) \<and> unique_by iPort (pool s) \<and> unique_by iUid (pool s)
     \<and> (\<forall>i \<in> set (pool s). 0 \<le> iRamMb i \<and> 0 \<le> iActiveRequests i \<and> iUid i < nextUid s)
     \<and> (pool s = [] \<or> usedRamMb s \<le> envRamBudgetMb env)"

definition resident :: "string \<Rightarrow> engine \<Rightarrow> bool" where
  "resident m s \<longleftrightarrow> m \<in> iModelId ` set (pool s)"

definition registry_agrees :: "engine \<Rightarrow> bool" where
  "registry_agrees s \<longleftrightarrow>
     (\<forall>r \<in> set (registry s). providerKind r = LOCAL_GGUF \<longrightarrow>
        (hmStatus r = MS_LOADED \<longleftrightarrow> resident (modelId r) s))"

definition contexts_ok :: "engine \<Rightarrow> bool" where
  "contexts_ok s \<longleftrightarrow> (\<forall>r \<in> set (registry s). 0 \<le> contextLength r)"

definition engine_inv :: "engine_env \<Rightarrow> engine \<Rightarrow> bool" where
  "engine_inv env s \<longleftrightarrow> pool_ok env s \<and> (envDatabase env \<longrightarrow> registry_agrees s) \<and> contexts_ok s"

subsection \<open>Deleting and marking\<close>

lemma ram_sum_filter_le:
  "\<forall>i \<in> set is. 0 \<le> iRamMb i \<Longrightarrow> ram_sum (filter P is) \<le> ram_sum is"
  by (induction "is") (auto simp: ram_sum_def)

lemma pool_ok_filter:
  assumes "pool_ok env s" and "pool s' = filter P (pool s)" and "nextUid s' = nextUid s"
  shows "pool_ok env s'"
  using assms ram_sum_filter_le [of "pool s" P]
  by (auto simp: pool_ok_def unique_by_def distinct_map_filter usedRamMb_def)

lemma registry_setRegistryStatus:
  "set (registry (setRegistryStatus env m st s)) =
     (if envDatabase env
      then (\<lambda>r. if modelId r = m then r\<lparr>hmStatus := st\<rparr> else r) ` set (registry s)
      else set (registry s))"
  by (simp add: setRegistryStatus_def set_update_where)

lemma contexts_ok_map: "contexts_ok s \<longleftrightarrow> (\<forall>n \<in> set (map contextLength (registry s)). 0 \<le> n)"
  by (auto simp: contexts_ok_def)

lemma contexts_setRegistryStatus [simp]: "contexts_ok (setRegistryStatus env m st s) = contexts_ok s"
  unfolding contexts_ok_map setRegistryStatus_def by (simp add: update_where_keys del: set_map)

lemma contexts_delete [simp]: "contexts_ok (delete_instance m s) = contexts_ok s"
  by (simp add: contexts_ok_def)

text \<open>Marking a model agrees with the pool when the mark says what the pool says.\<close>

lemma agrees_mark:
  assumes "envDatabase env"
    and "\<forall>r \<in> set (registry s). providerKind r = LOCAL_GGUF \<and> modelId r \<noteq> m \<longrightarrow>
           (hmStatus r = MS_LOADED \<longleftrightarrow> resident (modelId r) s)"
    and "(st = MS_LOADED) = resident m s"
  shows "registry_agrees (setRegistryStatus env m st s)"
  using assms by (auto simp: registry_agrees_def registry_setRegistryStatus resident_def)

lemma delete_not_resident [simp]:
  "resident k (delete_instance m s) \<longleftrightarrow> resident k s \<and> k \<noteq> m"
  by (auto simp: resident_def)

lemma gone_inv:
  assumes "engine_inv env s" and "st \<noteq> MS_LOADED"
  shows "engine_inv env (setRegistryStatus env m st (delete_instance m s))"
proof -
  have "pool_ok env (setRegistryStatus env m st (delete_instance m s))"
    using assms(1) by (auto simp: engine_inv_def intro: pool_ok_filter)
  moreover have "registry_agrees (setRegistryStatus env m st (delete_instance m s))" if "envDatabase env"
    using assms that by (intro agrees_mark) (auto simp: engine_inv_def registry_agrees_def)
  ultimately show ?thesis using assms by (simp add: engine_inv_def)
qed

lemma delete_absent: "get_instance m s = None \<Longrightarrow> delete_instance m s = s"
  by (simp add: delete_instance_def get_instance_none filter_absent)

lemma unload_eq:
  "snd (unloadModel env m s) = setRegistryStatus env m MS_INACTIVE (delete_instance m s)"
  by (auto simp: unloadModel_def delete_absent split: option.split)

lemma unload_inv: "engine_inv env s \<Longrightarrow> engine_inv env (snd (unloadModel env m s))"
  by (simp add: unload_eq gone_inv)

lemma evict_loop_inv:
  "engine_inv env s \<Longrightarrow> engine_inv env (evict_loop env alone need cs s)"
  by (induction cs arbitrary: s) (auto simp: unload_inv)

lemma evict_inv:
  "engine_inv env s \<Longrightarrow> engine_inv env (snd (evictForBudget env w alone need s))"
  by (auto simp: evictForBudget_def Let_def evict_loop_inv)

lemma evict_fits:
  "evictForBudget env w alone need s = (Inr (), s') \<Longrightarrow> usedRamMb s' + need \<le> envRamBudgetMb env"
  by (auto simp: evictForBudget_def Let_def split: if_splits)

lemma evict_loop_absent: "\<not> resident m s \<Longrightarrow> \<not> resident m (evict_loop env alone need cs s)"
  using evict_loop_prefix [of env need cs s] by (auto simp: resident_def)

lemma evict_absent:
  "\<not> resident m s \<Longrightarrow> \<not> resident m (snd (evictForBudget env w alone need s))"
  by (auto simp: evictForBudget_def Let_def evict_loop_absent)

subsection \<open>Loading\<close>

lemma free_port_fresh:
  "free_port_from probe is p n = Inr q \<Longrightarrow> q \<notin> iPort ` set is \<and> probe q \<and> p \<le> q \<and> q < p + int n"
proof (induction n arbitrary: p)
  case (Suc n)
  then show ?case by (fastforce simp: list_ex_iff split: if_splits)
qed simp

definition world_ok :: "world \<Rightarrow> bool" where
  "world_ok w \<longleftrightarrow> (\<forall>p. case wStatSize w p of None \<Rightarrow> True | Some n \<Rightarrow> 0 \<le> n)"

lemma model_ram_nonneg:
  assumes "0 \<le> bytes" and "0 \<le> ctx"
  shows "0 \<le> model_ram_mb bytes ctx"
proof -
  have "(0 :: rat) \<le> of_int bytes / 1024 ^ 2 * (11 / 10) + of_int ctx / 8"
    using assms by (intro add_nonneg_nonneg mult_nonneg_nonneg divide_nonneg_nonneg) auto
  then have "(0 :: rat) \<le> of_int bytes / 1024 ^ 2 * (11 / 10) + of_int ctx / 8 + 1 / 2"
    by linarith
  then show ?thesis unfolding model_ram_mb_def js_round_def by (simp only: zero_le_floor)
qed

lemma prepare_inv:
  assumes "engine_inv env s"
  shows "engine_inv env (snd (load_prepare env w req s))"
  using evict_inv [OF assms]
  by (auto simp: load_prepare_def Let_def assms split: option.split prod.split sum.split)
    (metis snd_conv)+

lemma prepare_result:
  assumes "load_prepare env w req s = (Inr need, s')" and "world_ok w" and "0 \<le> lrContextLength req"
    and "\<not> resident (lrModelId req) s"
  shows "usedRamMb s' + need \<le> envRamBudgetMb env" and "0 \<le> need" and "\<not> resident (lrModelId req) s'"
proof -
  obtain bytes where size: "wStatSize w (lrWeightsPath req) = Some bytes"
    and need: "need = model_ram_mb bytes (lrContextLength req)"
    and ev: "evictForBudget env w alone need s = (Inr (), s')"
    using assms(1) by (auto simp: load_prepare_def Let_def alone_def [abs_def] id_def
        split: if_splits option.splits prod.splits sum.splits)
  show "usedRamMb s' + need \<le> envRamBudgetMb env" by (rule evict_fits [OF ev])
  have "0 \<le> bytes" using assms(2) size by (auto simp: world_ok_def dest: spec [of _ "lrWeightsPath req"])
  then show "0 \<le> need" using assms(3) by (simp add: need model_ram_nonneg)
  show "\<not> resident (lrModelId req) s'" using evict_absent [OF assms(4), of env w need] ev by simp
qed

lemma register_ok:
  assumes "pool_ok env s" and "\<not> resident (lrModelId req) s" and "port \<notin> iPort ` set (pool s)"
    and "0 \<le> need" and "usedRamMb s + need \<le> envRamBudgetMb env"
  shows "pool_ok env (register_instance w req need port s)"
  using assms
  by (auto simp: pool_ok_def register_instance_def Let_def get_instance_none resident_def
      unique_by_append usedRamMb_def ram_sum_def less_Suc_eq)

lemma register_simps [simp]:
  "registry (register_instance w req need port s) = registry s"
  by (simp add: register_instance_def Let_def)

lemma register_resident:
  "\<not> resident (lrModelId req) s \<Longrightarrow>
   resident k (register_instance w req need port s) \<longleftrightarrow> resident k s \<or> k = lrModelId req"
  by (auto simp: register_instance_def Let_def get_instance_none resident_def)

lemma registered_finish_inv:
  assumes inv: "engine_inv env s" and new: "\<not> resident (lrModelId req) s"
    and port: "port \<notin> iPort ` set (pool s)"
    and need: "0 \<le> need" "usedRamMb s + need \<le> envRamBudgetMb env"
  shows "engine_inv env (snd (load_finish env w req need port (register_instance w req need port s)))"
proof -
  let ?m = "lrModelId req"
  let ?s = "register_instance w req need port s"
  have pool: "pool_ok env ?s" using inv by (intro register_ok assms) (simp add: engine_inv_def)
  have ctx: "contexts_ok ?s" using inv by (simp add: engine_inv_def contexts_ok_def)
  show ?thesis
  proof (cases "wHealth w")
    case None
    have "registry_agrees (setRegistryStatus env ?m MS_LOADED ?s)" if "envDatabase env"
      using that inv register_resident [OF new]
      by (intro agrees_mark) (auto simp: engine_inv_def registry_agrees_def)
    moreover have "pool_ok env (setRegistryStatus env ?m MS_LOADED ?s)"
      using pool by (rule pool_ok_filter [where P = "\<lambda>_. True"]) simp_all
    ultimately show ?thesis using None ctx by (simp add: load_finish_def engine_inv_def)
  next
    case (Some e)
    have "registry_agrees (setRegistryStatus env ?m MS_ERROR (delete_instance ?m ?s))" if "envDatabase env"
      using that inv register_resident [OF new]
      by (intro agrees_mark) (auto simp: engine_inv_def registry_agrees_def)
    moreover have "pool_ok env (setRegistryStatus env ?m MS_ERROR (delete_instance ?m ?s))"
      by (rule pool_ok_filter [OF pool]) simp_all
    ultimately show ?thesis using Some ctx by (simp add: load_finish_def engine_inv_def)
  qed
qed

lemma load_inv:
  assumes inv: "engine_inv env s" and w: "world_ok w" and ctx: "0 \<le> lrContextLength req"
  shows "engine_inv env (snd (loadModelUnlocked env w req s))"
proof (cases "get_instance (lrModelId req) s")
  case None
  then have new: "\<not> resident (lrModelId req) s" by (simp add: resident_def get_instance_none)
  obtain r s1 where prep: "load_prepare env w req s = (r, s1)" by (metis prod.exhaust)
  have inv1: "engine_inv env s1" using prepare_inv [OF inv, of w req] prep by simp
  show ?thesis
  proof (cases r)
    case (Inr need)
    note facts = prepare_result [OF prep [unfolded Inr] w ctx new]
    show ?thesis
    proof (cases "freePort env w s1")
      case (Inr port)
      have "port \<notin> iPort ` set (pool s1)"
        using free_port_fresh [OF Inr [unfolded freePort_def]] by simp
      from registered_finish_inv [OF inv1 facts(3) this facts(2,1)]
      show ?thesis using None prep \<open>r = Inr need\<close> Inr by (simp add: loadModelUnlocked_def)
    qed (use None prep Inr inv1 in \<open>simp add: loadModelUnlocked_def\<close>)
  qed (use None prep inv1 in \<open>simp add: loadModelUnlocked_def\<close>)
qed (use inv in \<open>simp add: loadModelUnlocked_def\<close>)

lemma ensure_inv:
  assumes inv: "engine_inv env s" and w: "world_ok w"
  shows "engine_inv env (snd (ensureLoaded env w m s))"
proof (cases "get_instance m s = None \<and> envAutoLoad env")
  case True
  show ?thesis
  proof (cases "find_model m (registry s)")
    case (Some hosted)
    have "hosted \<in> set (registry s)" using table_find_some_in [OF Some [unfolded find_model_def]] by simp
    then have "0 \<le> contextLength hosted" using inv by (simp add: engine_inv_def contexts_ok_def)
    then have "engine_inv env (snd (loadModelUnlocked env w
        \<lparr>lrModelId = modelId hosted, lrWeightsPath = weightsPath hosted,
         lrContextLength = contextLength hosted, lrThreads = nThreads hosted\<rparr> s))"
      by (intro load_inv [OF inv w]) simp
    then show ?thesis using True Some
      by (auto simp: ensureLoaded_def split: prod.split sum.split option.split)
  qed (use True inv in \<open>simp add: ensureLoaded_def\<close>)
qed (use inv in \<open>auto simp: ensureLoaded_def split: option.split\<close>)

subsection \<open>Requests and exits\<close>

lemma touch_inv:
  assumes "engine_inv env s"
    and "\<And>i. iUid (f i) = iUid i \<and> iModelId (f i) = iModelId i \<and> iPort (f i) = iPort i \<and> iRamMb (f i) = iRamMb i"
    and "\<And>i. 0 \<le> iActiveRequests i \<Longrightarrow> 0 \<le> iActiveRequests (f i)"
  shows "engine_inv env (touch_instance u f s)"
proof -
  have maps: "map g (pool (touch_instance u f s)) = map g (pool s)" if "\<And>i. g (f i) = g i" for g :: "llm_instance \<Rightarrow> 'x"
    using that by (auto simp: touch_instance_def)
  have res: "resident m (touch_instance u f s) = resident m s" for m
    using maps [of iModelId] assms(2) by (metis resident_def list.set_map)
  have ids: "map iModelId (pool (touch_instance u f s)) = map iModelId (pool s)"
    "map iPort (pool (touch_instance u f s)) = map iPort (pool s)"
    "map iUid (pool (touch_instance u f s)) = map iUid (pool s)"
    "map iRamMb (pool (touch_instance u f s)) = map iRamMb (pool s)"
    by (rule maps, use assms(2) in simp)+
  have "\<forall>i \<in> set (pool (touch_instance u f s)). 0 \<le> iRamMb i \<and> 0 \<le> iActiveRequests i
      \<and> iUid i < nextUid (touch_instance u f s)"
    using assms by (auto simp: engine_inv_def pool_ok_def touch_instance_def)
  moreover have "pool (touch_instance u f s) = [] \<longleftrightarrow> pool s = []"
    by (simp add: touch_instance_def)
  ultimately have "pool_ok env (touch_instance u f s)"
    using assms(1)
    by (simp add: engine_inv_def pool_ok_def unique_by_def usedRamMb_def ram_sum_def ids)
  moreover have "registry (touch_instance u f s) = registry s" by (simp add: touch_instance_def)
  ultimately show ?thesis
    using assms(1) res by (simp add: engine_inv_def registry_agrees_def contexts_ok_def)
qed

lemma exit_inv: "engine_inv env s \<Longrightarrow> engine_inv env (child_exit env u m s)"
  by (auto simp: child_exit_def gone_inv split: option.split)

datatype engine_op =
    LoadModel world load_request
  | UnloadModel string
  | EnsureLoaded world string
  | BeginRequest int nat
  | RecordGeneration int int nat
  | EndRequest int nat
  | ChildExit nat string

fun engine_step :: "engine_env \<Rightarrow> engine_op \<Rightarrow> engine \<Rightarrow> engine" where
  "engine_step env (LoadModel w req) s = snd (loadModelUnlocked env w req s)"
| "engine_step env (UnloadModel m) s = snd (unloadModel env m s)"
| "engine_step env (EnsureLoaded w m) s = snd (ensureLoaded env w m s)"
| "engine_step env (BeginRequest now u) s = begin_request now u s"
| "engine_step env (RecordGeneration tokens ms u) s = record_generation tokens ms u s"
| "engine_step env (EndRequest now u) s = end_request now u s"
| "engine_step env (ChildExit u m) s = child_exit env u m s"

fun engine_op_ok :: "engine_op \<Rightarrow> bool" where
  "engine_op_ok (LoadModel w req) = (world_ok w \<and> 0 \<le> lrContextLength req)"
| "engine_op_ok (EnsureLoaded w _) = world_ok w"
| "engine_op_ok _ = True"

lemma engine_step_inv:
  "engine_inv env s \<Longrightarrow> engine_op_ok op \<Longrightarrow> engine_inv env (engine_step env op s)"
  by (cases op) (auto simp: load_inv unload_inv ensure_inv exit_inv begin_request_def
      record_generation_def end_request_def intro!: touch_inv)

definition engine_empty :: engine where
  "engine_empty = \<lparr>pool = [], registry = [], nextUid = 0\<rparr>"

lemma engine_empty_inv: "engine_inv env engine_empty"
  by (simp add: engine_inv_def pool_ok_def registry_agrees_def contexts_ok_def engine_empty_def)

interpretation engine: guarded_system "engine_step env" engine_op_ok "engine_inv env" engine_empty
  for env
  by unfold_locales (auto simp: engine_step_inv engine_empty_inv)


definition sample_request :: "string \<Rightarrow> load_request" where
  "sample_request m = \<lparr>lrModelId = m, lrWeightsPath = m, lrContextLength = 480, lrThreads = 8\<rparr>"


subsection \<open>Interleaved loads and evictions\<close>

text \<open>
  The load lock is per model, so loads of two models may both pass the budget check, and
  both pick a port, before either is in the pool.
\<close>

definition two_loads :: "engine_env \<Rightarrow> world \<Rightarrow> load_request \<Rightarrow> load_request \<Rightarrow> engine \<Rightarrow> engine" where
  "two_loads env w a b s =
     (case load_prepare env w a s of
        (Inl _, s1) \<Rightarrow> s1
      | (Inr na, s1) \<Rightarrow>
          (case load_prepare env w b s1 of
             (Inl _, s2) \<Rightarrow> s2
           | (Inr nb, s2) \<Rightarrow>
               (case (freePort env w s2, freePort env w s2) of
                  (Inr pa, Inr pb) \<Rightarrow>
                    snd (load_finish env w b nb pb (register_instance w b nb pb
                      (snd (load_finish env w a na pa (register_instance w a na pa s2)))))
                | _ \<Rightarrow> s2)))"

lemma model_ram_sample: "model_ram_mb 0 480 = 60"
  by (simp add: model_ram_mb_def js_round_def floor_eq_iff)

lemma sample_prepare:
  "usedRamMb s \<le> 40 \<Longrightarrow>
   load_prepare sample_env sample_world (sample_request m) s = (Inr 60, s)"
  by (simp add: load_prepare_def sample_world_def sample_env_def sample_request_def model_ram_sample
      evictForBudget_def Let_def)

lemma free_port_first:
  "\<not> list_ex (\<lambda>i. iPort i = p) is \<Longrightarrow> probe p \<Longrightarrow> 0 < n \<Longrightarrow> free_port_from probe is p n = Inr p"
  by (cases n) auto

text \<open>
  Concurrent loads of two models break the budget and share a port: each of two models of 60
  MB passes the check against a budget of 100 MB before the other is in the pool, both end
  up resident with 120 MB and both are given port 9100.
\<close>

theorem concurrent_loads_exceed_budget:
  "let s = two_loads sample_env sample_world (sample_request ''a'') (sample_request ''b'') engine_empty
   in usedRamMb s > envRamBudgetMb sample_env \<and> map iPort (pool s) = [9100, 9100]
      \<and> map iModelId (pool s) = [''a'', ''b'']"
proof -
  have fits: "usedRamMb engine_empty \<le> 40" by (simp add: usedRamMb_def ram_sum_def engine_empty_def)
  have port: "freePort sample_env sample_world engine_empty = Inr 9100"
    by (simp add: freePort_def sample_env_def sample_world_def engine_empty_def free_port_first)
  have "two_loads sample_env sample_world (sample_request ''a'') (sample_request ''b'') engine_empty =
      snd (load_finish sample_env sample_world (sample_request ''b'') 60 9100
        (register_instance sample_world (sample_request ''b'') 60 9100
          (snd (load_finish sample_env sample_world (sample_request ''a'') 60 9100
            (register_instance sample_world (sample_request ''a'') 60 9100 engine_empty)))))"
    by (simp add: two_loads_def sample_prepare [OF fits] port)
  then show ?thesis
    by (simp add: load_finish_def register_instance_def sample_request_def sample_world_def
        sample_env_def engine_empty_def get_instance_def table_find_def setRegistryStatus_def
        update_where_def usedRamMb_def ram_sum_def)
qed

text \<open>
  Eviction can stop a busy model: the idle candidates are chosen once, before the awaits of the
  loop, so a request that starts on the second candidate while the first is being stopped
  loses its process.
\<close>

theorem eviction_stops_busy_model:
  "let s = sample_engine\<lparr>pool := [sample_instance 1 ''a'' 40 1 0, sample_instance 2 ''b'' 40 2 0]\<rparr>;
       busy = (\<lambda>c s. if iModelId c = ''a'' then begin_request 9 2 s else s);
       (res, s') = evictForBudget sample_env sample_world busy 90 s;
       during = busy (sample_instance 1 ''a'' 40 1 0) (snd (unloadModel sample_env ''a'' s))
   in map iActiveRequests (pool during) = [1] \<and> res = Inr () \<and> pool s' = []"
  by code_simp

end
