(* ===== verification/EngineRegistry.thy ===== *)
theory EngineRegistry
  imports ModelPoolInv
begin

text \<open>
  The engine facade (\<^verbatim>\<open>engine/index.ts\<close>) over the \<^verbatim>\<open>llama-server\<close> pool: remote models are
  only marked in the registry, the registry is reconciled with the pool at start-up,
  and the platform default is warmed. The gRPC backend is not modelled.
\<close>

definition isRemoteProviderKind :: "provider_kind option \<Rightarrow> bool" where
  "isRemoteProviderKind k \<longleftrightarrow> k = Some OPENAI_COMPAT"

definition isRemoteModel :: "string \<Rightarrow> engine \<Rightarrow> bool" where
  "isRemoteModel m s = isRemoteProviderKind (map_option providerKind (find_model m (registry s)))"

definition mark_where :: "(hosted_model \<Rightarrow> bool) \<Rightarrow> model_status \<Rightarrow> engine \<Rightarrow> engine" where
  "mark_where P st s = s\<lparr>registry := update_where P (\<lambda>r. r\<lparr>hmStatus := st\<rparr>) (registry s)\<rparr>"

definition mark_status :: "string \<Rightarrow> model_status \<Rightarrow> engine \<Rightarrow> engine" where
  "mark_status m = mark_where (\<lambda>r. modelId r = m)"

definition mark_id :: "string \<Rightarrow> model_status \<Rightarrow> engine \<Rightarrow> engine" where
  "mark_id i = mark_where (\<lambda>r. hmId r = i)"

definition engine_load ::
    "engine_env \<Rightarrow> world \<Rightarrow> load_request \<Rightarrow> engine \<Rightarrow> (engine_error, load_reply) result \<times> engine" where
  "engine_load env w req s =
     (if isRemoteModel (lrModelId req) s
      then (Inr \<lparr>lpSuccess = True,
                 lpMessage = ''remote OpenAI-compatible model marked available (no local load)'',
                 lpRamUsedMb = 0\<rparr>,
            mark_status (lrModelId req) MS_LOADED s)
      else loadModelUnlocked env w req s)"

definition engine_unload :: "engine_env \<Rightarrow> string \<Rightarrow> engine \<Rightarrow> (bool \<times> string) \<times> engine" where
  "engine_unload env m s =
     (if isRemoteModel m s
      then ((True, ''remote model marked inactive''), mark_status m MS_INACTIVE s)
      else unloadModel env m s)"

definition engine_list :: "int \<Rightarrow> engine \<Rightarrow> loaded_model list" where
  "engine_list now s =
     listLoadedModels s @
     map (\<lambda>r. \<lparr>lmModelId = modelId r, lmRamUsedMb = 0, lmLoadedAtUnix = now div 1000,
               lmActiveRequests = 0\<rparr>)
       (filter (\<lambda>r. providerKind r = OPENAI_COMPAT \<and> hmStatus r = MS_LOADED) (registry s))"

definition reconcileModelRegistry :: "int \<Rightarrow> engine \<Rightarrow> engine" where
  "reconcileModelRegistry now s =
     (let residentIds = map lmModelId (engine_list now s);
          s1 = mark_where (\<lambda>r. providerKind r = LOCAL_GGUF \<and> hmStatus r = MS_LOADED
                               \<and> (residentIds \<noteq> [] \<longrightarrow> modelId r \<notin> set residentIds)) MS_INACTIVE s
      in if residentIds \<noteq> []
         then mark_where (\<lambda>r. modelId r \<in> set residentIds \<and> providerKind r = LOCAL_GGUF) MS_LOADED s1
         else s1)"

fun unload_each :: "engine_env \<Rightarrow> string \<Rightarrow> string list \<Rightarrow> engine \<Rightarrow> string list \<times> engine" where
  "unload_each env keep [] s = ([], s)"
| "unload_each env keep (m # ms) s =
     (if m = keep \<or> isRemoteModel m s then unload_each env keep ms s
      else
        (let ((success, _), s1) = engine_unload env m s
         in if success
            then (let (unloaded, s2) = unload_each env keep ms (mark_status m MS_INACTIVE s1)
                  in (m # unloaded, s2))
            else unload_each env keep ms s1))"

definition unloadAllExcept :: "engine_env \<Rightarrow> int \<Rightarrow> string \<Rightarrow> engine \<Rightarrow> string list \<times> engine" where
  "unloadAllExcept env now keep s = unload_each env keep (map lmModelId (engine_list now s)) s"

record warm_env =
  weWarmDefault :: bool
  weSingleDefault :: bool

definition warmPlatformDefaultModel :: "engine_env \<Rightarrow> warm_env \<Rightarrow> world \<Rightarrow> engine \<Rightarrow> engine" where
  "warmPlatformDefaultModel env we w s =
     (if \<not> weWarmDefault we then s
      else
        (case find isPlatformDefault (registry s) of
           None \<Rightarrow> s
         | Some d \<Rightarrow>
             (let s1 = (if weSingleDefault we then snd (unloadAllExcept env (wNow w) (modelId d) s) else s)
              in if isRemoteProviderKind (Some (providerKind d)) then mark_id (hmId d) MS_LOADED s1
                 else if modelId d \<in> lmModelId ` set (engine_list (wNow w) s1)
                 then (if hmStatus d \<noteq> MS_LOADED then mark_id (hmId d) MS_LOADED s1 else s1)
                 else
                   (case engine_load env w
                           \<lparr>lrModelId = modelId d, lrWeightsPath = weightsPath d,
                            lrContextLength = contextLength d, lrThreads = nThreads d\<rparr> s1 of
                      (Inr r, s2) \<Rightarrow> mark_id (hmId d) (if lpSuccess r then MS_LOADED else MS_ERROR) s2
                    | (Inl _, s2) \<Rightarrow> mark_id (hmId d) MS_ERROR s2))))"

subsection \<open>Reconciliation\<close>

lemma pool_mark_where [simp]: "pool (mark_where P st s) = pool s"
  by (simp add: mark_where_def)

lemma resident_mark [simp]: "resident m (mark_where P st s) = resident m s"
  by (simp add: resident_def)

lemma registry_mark_where:
  "registry (mark_where P st s) = update_where P (\<lambda>r. r\<lparr>hmStatus := st\<rparr>) (registry s)"
  by (simp add: mark_where_def)

lemma engine_list_ids:
  "lmModelId ` set (engine_list now s) =
     iModelId ` set (pool s) \<union>
     modelId ` {r \<in> set (registry s). providerKind r = OPENAI_COMPAT \<and> hmStatus r = MS_LOADED}"
  by (simp add: engine_list_def listLoadedModels_def image_Un image_image)

lemma local_update_remote:
  assumes "\<And>r. P r \<Longrightarrow> providerKind r = LOCAL_GGUF"
  shows "filter (\<lambda>r. providerKind r = OPENAI_COMPAT) (update_where P (hmStatus_update f) rows) =
         filter (\<lambda>r. providerKind r = OPENAI_COMPAT) rows"
  using assms by (induction rows) (auto simp: update_where_def)

text \<open>
  Start-up reconciliation repairs the registry: with unique model ids, whatever statuses were left
  behind, afterwards every local model is LOADED exactly when the pool holds it, and the
  rows of remote models and the pool are untouched.
\<close>

theorem reconcile_repairs_registry:
  assumes "unique_by modelId (registry s)"
  shows "registry_agrees (reconcileModelRegistry now s)
    \<and> pool (reconcileModelRegistry now s) = pool s
    \<and> filter (\<lambda>r. providerKind r = OPENAI_COMPAT) (registry (reconcileModelRegistry now s)) =
        filter (\<lambda>r. providerKind r = OPENAI_COMPAT) (registry s)"
proof -
  let ?ids = "lmModelId ` set (engine_list now s)"
  have local: "modelId r \<in> ?ids \<longleftrightarrow> resident (modelId r) s"
    if r: "r \<in> set (registry s)" "providerKind r = LOCAL_GGUF" for r
  proof -
    have "r' = r" if "r' \<in> set (registry s)" "modelId r' = modelId r" for r'
      using assms r that by (auto simp: unique_by_def distinct_map dest: inj_onD)
    then show ?thesis using r by (auto simp: engine_list_ids resident_def)
  qed
  have empty: "engine_list now s = [] \<Longrightarrow> \<not> resident (modelId r) s" for r :: hosted_model
    using engine_list_ids [of now s] by (auto simp: resident_def)
  have agrees: "registry_agrees (reconcileModelRegistry now s)"
    unfolding registry_agrees_def
  proof (intro ballI impI)
    fix r' assume r': "r' \<in> set (registry (reconcileModelRegistry now s))" "providerKind r' = LOCAL_GGUF"
    then obtain r where r: "r \<in> set (registry s)" "providerKind r = LOCAL_GGUF" "modelId r' = modelId r"
      and st: "hmStatus r' = (if engine_list now s \<noteq> [] \<and> modelId r \<in> ?ids then MS_LOADED
                else if hmStatus r = MS_LOADED \<and> (engine_list now s \<noteq> [] \<longrightarrow> modelId r \<notin> ?ids) then MS_INACTIVE
                else hmStatus r)"
      by (fastforce simp: reconcileModelRegistry_def Let_def registry_mark_where set_update_where
          split: if_splits)
    have "resident (modelId r') (reconcileModelRegistry now s) = resident (modelId r) s"
      by (simp add: reconcileModelRegistry_def Let_def r(3))
    then show "(hmStatus r' = MS_LOADED) = resident (modelId r') (reconcileModelRegistry now s)"
      using st local [OF r(1,2)] empty [of r] by (simp split: if_splits)
  qed
  have "filter (\<lambda>r. providerKind r = OPENAI_COMPAT) (registry (reconcileModelRegistry now s)) =
      filter (\<lambda>r. providerKind r = OPENAI_COMPAT) (registry s)"
    by (auto simp: reconcileModelRegistry_def Let_def registry_mark_where intro: local_update_remote trans)
  then show ?thesis using agrees by (simp add: reconcileModelRegistry_def Let_def)
qed

lemma reconcile_repairs_registry_witness:
  "registry_agrees (reconcileModelRegistry 0
     (sample_engine\<lparr>registry := [sample_model\<lparr>hmStatus := MS_LOADED\<rparr>, sample_model\<lparr>modelId := ''a''\<rparr>]\<rparr>))"
  using reconcile_repairs_registry
    [of "sample_engine\<lparr>registry := [sample_model\<lparr>hmStatus := MS_LOADED\<rparr>, sample_model\<lparr>modelId := ''a''\<rparr>]\<rparr>" 0]
  by (simp add: unique_by_def sample_model_def)

subsection \<open>Unloading everything else\<close>

lemma isRemoteModel_kinds:
  assumes "map (\<lambda>r. (modelId r, providerKind r)) (registry s) = map (\<lambda>r. (modelId r, providerKind r)) (registry s')"
  shows "isRemoteModel m s = isRemoteModel m s'"
proof -
  have "map_option providerKind (table_find modelId m rs) = map_option providerKind (table_find modelId m rs')"
    if "map (\<lambda>r. (modelId r, providerKind r)) rs = map (\<lambda>r. (modelId r, providerKind r)) rs'"
    for rs rs' :: "hosted_model list"
    using that
  proof (induction rs arbitrary: rs')
    case (Cons r rs)
    then show ?case by (cases rs') (auto simp: table_find_def)
  qed (simp add: table_find_def)
  from this [OF assms] show ?thesis by (simp only: isRemoteModel_def find_model_def)
qed

lemma kinds_mark [simp]:
  "map (\<lambda>r. (modelId r, providerKind r)) (registry (mark_where P st s)) =
   map (\<lambda>r. (modelId r, providerKind r)) (registry s)"
  unfolding registry_mark_where by (rule update_where_keys) simp

lemma pool_mark_status [simp]: "pool (mark_status m st s) = pool s"
  by (simp add: mark_status_def)

lemma kinds_unload:
  "map (\<lambda>r. (modelId r, providerKind r)) (registry (snd (unloadModel env m s))) =
   map (\<lambda>r. (modelId r, providerKind r)) (registry s)"
  unfolding unload_eq setRegistryStatus_def by (simp add: update_where_def)

lemma isRemoteModel_unload [simp]:
  "isRemoteModel k (mark_status m st (snd (unloadModel env m s))) = isRemoteModel k s"
  by (rule isRemoteModel_kinds) (simp add: mark_status_def kinds_unload)

lemma unload_each_pool:
  "pool (snd (unload_each env keep ms s)) =
     filter (\<lambda>i. iModelId i = keep \<or> isRemoteModel (iModelId i) s \<or> iModelId i \<notin> set ms) (pool s)"
proof (induction ms arbitrary: s)
  case (Cons m ms)
  show ?case
  proof (cases "m = keep \<or> isRemoteModel m s")
    case True
    then show ?thesis using Cons [of s] by (auto intro: filter_cong)
  next
    case False
    obtain ok msg s1 where un: "unloadModel env m s = ((ok, msg), s1)" by (metis prod.exhaust)
    have ok: "ok" using arg_cong [OF un, of "fst \<circ> fst"] by (auto simp: unloadModel_def split: option.splits)
    have s1: "s1 = snd (unloadModel env m s)" using un by simp
    have "pool (snd (unload_each env keep (m # ms) s)) =
        pool (snd (unload_each env keep ms (mark_status m MS_INACTIVE s1)))"
      using False un ok by (simp add: engine_unload_def split: prod.split)
    also have "\<dots> = filter (\<lambda>i. iModelId i = keep \<or> isRemoteModel (iModelId i) s \<or> iModelId i \<notin> set ms)
        (filter (\<lambda>i. iModelId i \<noteq> m) (pool s))"
      unfolding s1 Cons by simp
    also have "\<dots> = filter (\<lambda>i. iModelId i = keep \<or> isRemoteModel (iModelId i) s \<or> iModelId i \<notin> set (m # ms)) (pool s)"
      using False by (auto intro: filter_cong)
    finally show ?thesis .
  qed
qed simp

text \<open>
  Making a model the single default empties the pool around it: after \<^verbatim>\<open>unloadAllExcept\<close> the only
  resident models are the kept one and those the registry calls remote, and nothing
  new was started.
\<close>

theorem only_default_stays:
  "pool (snd (unloadAllExcept env now keep s)) =
     filter (\<lambda>i. iModelId i = keep \<or> isRemoteModel (iModelId i) s) (pool s)"
  unfolding unloadAllExcept_def unload_each_pool set_map engine_list_ids
  by (intro filter_cong) simp_all

end
