(* ===== verification/Billing.thy ===== *)
theory Billing
  imports Registry QuotaInvariants
begin

text \<open>
  Metering and money: usage classification (\<^verbatim>\<open>packages/platform/src/metering.ts\<close>),
  billable units (\<^verbatim>\<open>lib/metering.ts\<close>), reservation deltas (\<^verbatim>\<open>ledger.ts\<close>), pricing
  versions (\<^verbatim>\<open>lib/pricing.ts\<close>), invoices (\<^verbatim>\<open>packages/billing\<close>) and service levels
  (\<^verbatim>\<open>slo.ts\<close>, \<^verbatim>\<open>lib/modernJobs.ts\<close>). Numbers that may be fractional are exact
  rationals where the code has doubles.
\<close>

subsection \<open>Usage classes\<close>

datatype meter_kind = Llm | Stt | Neo4jRead | Neo4jWrite | Neo4jStorage

definition classifyUsageSlug :: "string \<Rightarrow> meter_kind" where
  "classifyUsageSlug slug =
     (if starts_with ''stt:'' slug then Stt
      else if slug = ''neo4j:read'' then Neo4jRead
      else if slug = ''neo4j:write'' then Neo4jWrite
      else if slug = ''neo4j:storage'' then Neo4jStorage
      else Llm)"

record usage_line =
  ulSlug :: string
  ulPromptTokens :: int
  ulCompletionTokens :: int

record usage_summary =
  sumLlmPrompt :: int
  sumLlmCompletion :: int
  sumSttBillable :: int
  sumNeo4jReads :: int
  sumNeo4jWrites :: int
  sumNeo4jStoreBytes :: int

definition empty_summary :: usage_summary where
  "empty_summary = \<lparr>sumLlmPrompt = 0, sumLlmCompletion = 0, sumSttBillable = 0, sumNeo4jReads = 0,
     sumNeo4jWrites = 0, sumNeo4jStoreBytes = 0\<rparr>"

definition add_usage :: "usage_line \<Rightarrow> usage_summary \<Rightarrow> usage_summary" where
  "add_usage e s =
     (case classifyUsageSlug (ulSlug e) of
        Stt \<Rightarrow> s\<lparr>sumSttBillable := sumSttBillable s + ulPromptTokens e\<rparr>
      | Neo4jRead \<Rightarrow> s\<lparr>sumNeo4jReads := sumNeo4jReads s + max 1 (ulPromptTokens e)\<rparr>
      | Neo4jWrite \<Rightarrow> s\<lparr>sumNeo4jWrites := sumNeo4jWrites s + max 1 (ulPromptTokens e)\<rparr>
      | Neo4jStorage \<Rightarrow> s\<lparr>sumNeo4jStoreBytes := max (sumNeo4jStoreBytes s) (ulPromptTokens e)\<rparr>
      | Llm \<Rightarrow> s\<lparr>sumLlmPrompt := sumLlmPrompt s + ulPromptTokens e,
                 sumLlmCompletion := sumLlmCompletion s + ulCompletionTokens e\<rparr>)"

definition summarizeUsageEvents :: "usage_line list \<Rightarrow> usage_summary" where
  "summarizeUsageEvents es = fold add_usage es empty_summary"

definition llm_total :: "usage_summary \<Rightarrow> int" where
  "llm_total s = sumLlmPrompt s + sumLlmCompletion s"

definition stt_seconds :: "rat \<Rightarrow> usage_summary \<Rightarrow> rat" where
  "stt_seconds unitsPerSec s = of_int (sumSttBillable s) / max 1 unitsPerSec"

subsection \<open>Billable units\<close>

text \<open>\<^verbatim>\<open>Number(process.env.X ?? default)\<close>; the environment's text is already a number.\<close>

definition units_setting :: "rat option \<Rightarrow> rat \<Rightarrow> rat" where
  "units_setting env dflt = max 1 (case env of None \<Rightarrow> dflt | Some x \<Rightarrow> x)"

definition sttBillableUnitsPerSec :: "rat option \<Rightarrow> rat" where
  "sttBillableUnitsPerSec env = units_setting env 25"

definition neo4jReadUnits :: "rat option \<Rightarrow> rat" where
  "neo4jReadUnits env = units_setting env 1"

definition neo4jWriteUnits :: "rat option \<Rightarrow> rat" where
  "neo4jWriteUnits env = units_setting env 5"

definition audioDurationSec :: "rat option list \<Rightarrow> string option \<Rightarrow> int option \<Rightarrow> rat" where
  "audioDurationSec segmentEnds text bytes =
     (let ends = filter (\<lambda>n. n > 0) (map (\<lambda>e. case e of None \<Rightarrow> 0 | Some x \<Rightarrow> x) segmentEnds);
          trimmed = (case text of None \<Rightarrow> [] | Some t \<Rightarrow> js_trim t)
      in if ends \<noteq> [] then foldr max (tl ends) (hd ends)
         else if trimmed \<noteq> [] then max 1 (of_nat (length trimmed) / 12)
         else (case bytes of
                 Some b \<Rightarrow> if b > 0 then max 1 (of_int b / 16000) else 1
               | None \<Rightarrow> 1))"

definition sttBillableUnits :: "rat option \<Rightarrow> rat \<Rightarrow> int" where
  "sttBillableUnits env durationSec = max 1 \<lceil>durationSec * sttBillableUnitsPerSec env\<rceil>"

subsection \<open>Reservation arithmetic of the platform package\<close>

datatype range_error = RangeError string

definition safe_nat :: "rat \<Rightarrow> bool" where
  "safe_nat x \<longleftrightarrow> of_int \<lfloor>x\<rfloor> = x \<and> 0 \<le> x \<and> x \<le> 9007199254740991"

definition estimateCostMicros :: "rat \<Rightarrow> rat \<Rightarrow> rat \<Rightarrow> rat \<Rightarrow> (range_error, int) result" where
  "estimateCostMicros p q priceIn priceOut =
     (if \<not> safe_nat p then Inl (RangeError ''promptTokens must be a non-negative safe integer'')
      else if \<not> safe_nat q then Inl (RangeError ''completionTokens must be a non-negative safe integer'')
      else if \<not> safe_nat priceIn then Inl (RangeError ''priceIn must be a non-negative safe integer'')
      else if \<not> safe_nat priceOut then Inl (RangeError ''priceOut must be a non-negative safe integer'')
      else Inr \<lceil>(p * priceIn + q * priceOut) / 1000000\<rceil>)"

definition finalizeQuotaDelta :: "int \<Rightarrow> int \<Rightarrow> (range_error, int \<times> int) result" where
  "finalizeQuotaDelta reserved actual =
     (if reserved < 0 \<or> actual < 0 then Inl (RangeError ''Token counts must be non-negative'')
      else Inr (actual, - reserved))"

definition releaseQuotaReservation :: "int \<Rightarrow> (range_error, int \<times> int) result" where
  "releaseQuotaReservation reserved = finalizeQuotaDelta reserved 0"

subsection \<open>Pricing versions\<close>

record pricing_version =
  pvsModel :: string
  pvsPriceIn :: rat
  pvsPriceOut :: rat
  pvsFrom :: int
  pvsTo :: "int option"

definition active_pricing :: "string \<Rightarrow> int \<Rightarrow> pricing_version \<Rightarrow> bool" where
  "active_pricing m now v \<longleftrightarrow>
     pvsModel v = m \<and> pvsFrom v \<le> now \<and> (case pvsTo v of None \<Rightarrow> True | Some t \<Rightarrow> t > now)"

text \<open>\<^verbatim>\<open>None\<close> when the model does not exist; \<^verbatim>\<open>m\<close> is the model's database id.\<close>

definition getActivePricingVersion ::
    "hosted_model list \<Rightarrow> string \<Rightarrow> int \<Rightarrow> pricing_version list \<Rightarrow> (pricing_version \<times> pricing_version list) option" where
  "getActivePricingVersion rows m now versions =
     (case js_sort (\<lambda>a b. of_int (pvsFrom b) - of_int (pvsFrom a)) (filter (active_pricing m now) versions) of
        v # _ \<Rightarrow> Some (v, versions)
      | [] \<Rightarrow>
          (case table_find hmId m rows of
             None \<Rightarrow> None
           | Some model \<Rightarrow>
               (let v = \<lparr>pvsModel = m, pvsPriceIn = pricePerMTokIn model,
                         pvsPriceOut = pricePerMTokOut model, pvsFrom = now, pvsTo = None\<rparr>
                in Some (v, versions @ [v]))))"

subsection \<open>Invoices\<close>

record billed_event =
  beCustomer :: string
  beCreatedAt :: int
  bePromptTokens :: int
  beCompletionTokens :: int
  beModelPrices :: "(rat \<times> rat) option"
  beRequest :: "(int option \<times> (rat \<times> rat) option) option"

definition calculateUsageCents :: "(int \<times> int \<times> rat \<times> rat) list \<Rightarrow> int" where
  "calculateUsageCents lines =
     max 0 (js_round (sum_list (map (\<lambda>(p, q, i, o').
        of_int p / 1000000 * i + of_int q / 1000000 * o') lines)))"

definition calculateOverageCents :: "int \<Rightarrow> int \<Rightarrow> rat \<Rightarrow> rat \<Rightarrow> rat option \<Rightarrow> int" where
  "calculateOverageCents used quota priceIn priceOut ratio =
     (let overage = max 0 (used - quota)
      in if overage \<le> 0 then 0
         else
           (let inRatio = (case ratio of None \<Rightarrow> 3 / 10 | Some r \<Rightarrow> r);
                inTok = of_int overage * inRatio;
                outTok = of_int overage * (1 - inRatio)
            in js_round (inTok / 1000000 * priceIn + outTok / 1000000 * priceOut)))"

text \<open>\<^verbatim>\<open>micros / 10_000n\<close> truncates towards zero; a missing or zero cost adds nothing.\<close>

definition trunc_div :: "int \<Rightarrow> int \<Rightarrow> int" where
  "trunc_div a b = (if a < 0 then - ((- a) div b) else a div b)"

definition request_cents :: "billed_event \<Rightarrow> int" where
  "request_cents e =
     (case beRequest e of
        Some (Some micros, _) \<Rightarrow> if micros \<noteq> 0 then trunc_div micros 10000 else 0
      | _ \<Rightarrow> 0)"

definition event_prices :: "billed_event \<Rightarrow> (rat \<times> rat) option" where
  "event_prices e =
     (case beRequest e of
        Some (_, Some prices) \<Rightarrow> Some prices
      | _ \<Rightarrow> beModelPrices e)"

definition rate_line :: "billed_event \<Rightarrow> (int \<times> int \<times> rat \<times> rat) option" where
  "rate_line e =
     map_option (\<lambda>(i, o'). (bePromptTokens e, beCompletionTokens e, i, o')) (event_prices e)"

definition period_events :: "string \<Rightarrow> int \<Rightarrow> int \<Rightarrow> billed_event list \<Rightarrow> billed_event list" where
  "period_events c ps pe es =
     filter (\<lambda>e. beCustomer e = c \<and> ps \<le> beCreatedAt e \<and> beCreatedAt e < pe) es"

definition invoice_amount :: "billed_event list \<Rightarrow> int" where
  "invoice_amount es =
     (let fromRequests = sum_list (map request_cents es);
          fromRates = calculateUsageCents (List.map_filter rate_line es)
      in if fromRequests > 0 then fromRequests else fromRates)"

datatype invoice_status = INV_DRAFT | INV_SENT | INV_PAID | INV_OVERDUE

record invoice =
  invCustomer :: string
  invPeriodStart :: int
  invPeriodEnd :: int
  invAmountCents :: int
  invStatus :: invoice_status

definition invoice_key :: "invoice \<Rightarrow> string \<times> int \<times> int" where
  "invoice_key i = (invCustomer i, invPeriodStart i, invPeriodEnd i)"

definition generateInvoice :: "string \<Rightarrow> int \<Rightarrow> int \<Rightarrow> billed_event list \<Rightarrow> invoice list \<Rightarrow> invoice list" where
  "generateInvoice c ps pe es invs =
     (let amount = invoice_amount (period_events c ps pe es)
      in if table_find invoice_key (c, ps, pe) invs \<noteq> None
         then update_where (\<lambda>i. invoice_key i = (c, ps, pe)) (\<lambda>i. i\<lparr>invAmountCents := amount\<rparr>) invs
         else invs @ [\<lparr>invCustomer = c, invPeriodStart = ps, invPeriodEnd = pe,
                       invAmountCents = amount, invStatus = INV_DRAFT\<rparr>])"

datatype payment_provider = Mock | Stripe | Bkash | Nagad

definition createPaymentAdapter :: "string option \<Rightarrow> string option \<Rightarrow> payment_provider \<Rightarrow> payment_provider" where
  "createPaymentAdapter mode stripeKey preferred =
     (if (case mode of None \<Rightarrow> ''mock'' | Some m \<Rightarrow> m) = ''mock'' \<or> preferred = Mock then Mock
      else if preferred = Stripe \<and> stripeKey \<noteq> None \<and> stripeKey \<noteq> Some [] then Stripe
      else if preferred = Bkash then Bkash
      else if preferred = Nagad then Nagad
      else Mock)"

definition tokensToUsd :: "rat \<Rightarrow> rat \<Rightarrow> rat" where
  "tokensToUsd tokens price =
     (if tokens \<le> 0 \<or> price \<le> 0 then 0 else tokens / 1000000 * (price / 100))"

definition usageEventCostUsd :: "rat \<Rightarrow> rat \<Rightarrow> rat option \<Rightarrow> rat option \<Rightarrow> rat \<times> rat \<times> rat" where
  "usageEventCostUsd p q priceIn priceOut =
     (let i = tokensToUsd p (case priceIn of None \<Rightarrow> 0 | Some x \<Rightarrow> x);
          o' = tokensToUsd q (case priceOut of None \<Rightarrow> 0 | Some x \<Rightarrow> x)
      in (i, o', i + o'))"

subsection \<open>Invoices: exactness\<close>

lemma trunc_div_bounds:
  assumes "0 \<le> a" and "0 < b"
  shows "trunc_div a b * b \<le> a" and "a < trunc_div a b * b + b"
proof -
  have "a = b * (a div b) + a mod b" "0 \<le> a mod b" "a mod b < b" using assms by auto
  moreover have "trunc_div a b * b = b * (a div b)" using assms by (simp add: trunc_div_def mult.commute)
  ultimately show "trunc_div a b * b \<le> a" and "a < trunc_div a b * b + b" by linarith+
qed

definition event_micros :: "billed_event \<Rightarrow> int" where
  "event_micros e = (case beRequest e of Some (Some micros, _) \<Rightarrow> micros | _ \<Rightarrow> 0)"

lemma request_cents_bounds:
  assumes "0 \<le> event_micros e"
  shows "request_cents e * 10000 \<le> event_micros e"
    and "event_micros e < request_cents e * 10000 + 10000"
    and "0 \<le> request_cents e"
  using assms trunc_div_bounds [of "event_micros e" 10000]
  by (auto simp: request_cents_def event_micros_def trunc_div_def split: option.splits prod.splits)


definition sample_event :: "int option \<Rightarrow> int \<Rightarrow> billed_event" where
  "sample_event micros tokens = \<lparr>beCustomer = ''c'', beCreatedAt = 5, bePromptTokens = tokens,
     beCompletionTokens = 0, beModelPrices = Some (100, 100), beRequest = Some (micros, None)\<rparr>"


text \<open>
  One priced request hides every unpriced one: an event without a recorded cost is billed by its
  rates only while all request costs together are below one cent. Here ten million tokens at one
  dollar per million (1000 cents) are billed; beside one request of a single cent, the
  same invoice is one cent.
\<close>

theorem invoice_drops_rated_events:
  "invoice_amount [sample_event None 10000000] = 1000
   \<and> invoice_amount [sample_event None 10000000, sample_event (Some 10000) 1] = 1"
  by (simp add: invoice_amount_def sample_event_def request_cents_def trunc_div_def rate_line_def
      event_prices_def calculateUsageCents_def js_round_def List.map_filter_def floor_eq_iff)

text \<open>
  Invoices are unique per customer and period, and generating one again only updates its
  amount.
\<close>

lemma generateInvoice_unique:
  assumes "unique_by invoice_key invs"
  shows "unique_by invoice_key (generateInvoice c ps pe es invs)"
proof -
  have "map invoice_key (update_where P (\<lambda>i. i\<lparr>invAmountCents := n\<rparr>) invs) = map invoice_key invs" for P n
    by (rule update_where_keys) (simp add: invoice_key_def)
  then show ?thesis
    using assms
    by (auto simp: generateInvoice_def Let_def unique_by_append table_find_none_iff)
      (auto simp: unique_by_def invoice_key_def)
qed

subsection \<open>The invoice worker\<close>

text \<open>
  One scan: every active subscription whose period is over is invoiced for it, moved to
  the next period, and its quota ledger is rolled. \<^verbatim>\<open>addMonth\<close> is the calendar of
  \<^verbatim>\<open>Date.setMonth\<close> in the worker's time zone.
\<close>

record billing_subscription =
  bsId :: string
  bsCustomer :: string
  bsActive :: bool
  bsPeriodStart :: int
  bsPeriodEnd :: int

record billing_state =
  bsSubscriptions :: "billing_subscription list"
  bsEvents :: "billed_event list"
  bsInvoices :: "invoice list"
  bsLedger :: qdb

definition invoice_one :: "(int \<Rightarrow> int) \<Rightarrow> billing_subscription \<Rightarrow> billing_state \<Rightarrow> billing_state" where
  "invoice_one addMonth sub s =
     (let nextStart = bsPeriodEnd sub; nextEnd = addMonth nextStart
      in s\<lparr>bsInvoices := generateInvoice (bsCustomer sub) (bsPeriodStart sub) (bsPeriodEnd sub)
                          (bsEvents s) (bsInvoices s),
           bsSubscriptions := update_where (\<lambda>x. bsId x = bsId sub)
             (\<lambda>x. x\<lparr>bsPeriodStart := nextStart, bsPeriodEnd := nextEnd\<rparr>) (bsSubscriptions s),
           bsLedger := roll_period (bsCustomer sub) nextStart nextEnd (bsLedger s)\<rparr>)"

definition due :: "int \<Rightarrow> billing_subscription \<Rightarrow> bool" where
  "due now sub \<longleftrightarrow> bsActive sub \<and> bsPeriodEnd sub \<le> now"

definition invoice_scan :: "(int \<Rightarrow> int) \<Rightarrow> int \<Rightarrow> billing_state \<Rightarrow> billing_state" where
  "invoice_scan addMonth now s =
     fold (invoice_one addMonth) (filter (due now) (bsSubscriptions s)) s"

lemma invoice_one_unique:
  "unique_by invoice_key (bsInvoices s) \<Longrightarrow> unique_by invoice_key (bsInvoices (invoice_one addMonth sub s))"
  by (simp add: invoice_one_def Let_def generateInvoice_unique)

lemma invoice_scan_unique:
  "unique_by invoice_key (bsInvoices s) \<Longrightarrow> unique_by invoice_key (bsInvoices (invoice_scan addMonth now s))"
proof -
  have "unique_by invoice_key (bsInvoices s) \<Longrightarrow> unique_by invoice_key (bsInvoices (fold (invoice_one addMonth) subs s))"
    for subs by (induction subs arbitrary: s) (auto simp: invoice_one_unique)
  then show "unique_by invoice_key (bsInvoices s) \<Longrightarrow> ?thesis" by (simp add: invoice_scan_def)
qed

end
