(* ===== verification/Accounts.thy ===== *)
theory Accounts
  imports ChatWire
begin

text \<open>
  Accounts of the control plane: registration (\<^verbatim>\<open>app/api/register/route.ts\<close>), sign-in and sessions
  (\<^verbatim>\<open>lib/auth.ts\<close>, \<^verbatim>\<open>lib/session.ts\<close>), API keys (\<^verbatim>\<open>app/api/keys/route.ts\<close>, \<^verbatim>\<open>keys/actions.ts\<close>, the
  \<^verbatim>\<open>/internal/keys\<close> routes of the gateway, \<^verbatim>\<open>lib/keys.ts\<close>), the key behind the dashboard's chat
  (\<^verbatim>\<open>app/api/chat/route.ts\<close>) and the administrator's quota adjustment
  (\<^verbatim>\<open>admin/customers/actions.ts\<close>).

  SHA-256, HMAC, argon2 and fresh ids are parameters; so is the calendar's next month.
\<close>

subsection \<open>State\<close>

record crypto =
  crSha :: "string \<Rightarrow> string"
  crHmac :: "string \<Rightarrow> string \<Rightarrow> string"
  crArgonHash :: "string \<Rightarrow> string"
  crArgonVerify :: "string \<Rightarrow> string \<Rightarrow> bool option"

record account =
  acId :: string
  acEmail :: string
  acName :: "string option"
  acPasswordHash :: string
  acRole :: string
  acBonus :: int
  acSubscription :: "subscription option"

record stored_key =
  skId :: string
  skCustomer :: string
  skHash :: string
  skPrefix :: string
  skLabel :: "string option"
  skScopes :: "string list"
  skRevokedAt :: "int option"

record audit_event =
  aeActor :: string
  aeCustomer :: "string option"
  aeAction :: string
  aeResource :: string

record account_world =
  awPlans :: "plan list"
  awCustomers :: "account list"
  awKeys :: "stored_key list"
  awDb :: qdb
  awAudit :: "audit_event list"

definition find_account :: "string \<Rightarrow> account_world \<Rightarrow> account option" where
  "find_account i w = table_find acId i (awCustomers w)"

text \<open>The key row the authentication middleware reads, with its customer and subscription.\<close>

definition key_view :: "account_world \<Rightarrow> stored_key \<Rightarrow> api_key_row option" where
  "key_view w k =
     map_option (\<lambda>a. \<lparr>keyId = skId k, keyHashOf = skHash k, keyRevokedAt = skRevokedAt k,
         keyCustomerId = skCustomer k, keyCustomerEmail = acEmail a, keyQuotaBonus = acBonus a,
         keySubscription = acSubscription a\<rparr>) (find_account (skCustomer k) w)"

definition key_rows :: "account_world \<Rightarrow> api_key_row list" where
  "key_rows w = List.map_filter (key_view w) (awKeys w)"

subsection \<open>Registration\<close>

text \<open>A JSON answer: its body, or a status with the error's text. An exception is status 500.\<close>

datatype 'a web_answer = WebOk 'a | WebFail int string

definition register_ledger :: "string \<Rightarrow> int \<Rightarrow> int \<Rightarrow> qdb \<Rightarrow> qdb" where
  "register_ledger c ps pe db = db\<lparr>ledgers := (ledgers db)(c \<mapsto> new_ledger ps pe)\<rparr>"

definition registerRoute ::
    "crypto \<Rightarrow> int \<Rightarrow> int \<Rightarrow> string \<Rightarrow> string option \<Rightarrow> string option \<Rightarrow> string option \<Rightarrow> account_world
     \<Rightarrow> (string \<times> string) web_answer \<times> account_world" where
  "registerRoute cr now monthLater newId email password name w =
     (let mail = to_lower (or_empty email); pass = or_empty password
      in if mail = [] \<or> length pass < 8 then (WebFail 400 ''Valid email and password (8+) required'', w)
         else if table_find acEmail mail (awCustomers w) \<noteq> None then (WebFail 409 ''Email already registered'', w)
         else
           (case table_find planName ''free'' (awPlans w) of
              None \<Rightarrow> (WebFail 500 ''Plans not seeded'', w)
            | Some free \<Rightarrow>
                if find_account newId w \<noteq> None \<or> ledgers (awDb w) newId \<noteq> None then (WebFail 500 [], w)
                else (WebOk (newId, mail),
                  w\<lparr>awCustomers := awCustomers w @
                      [\<lparr>acId = newId, acEmail = mail, acName = name, acPasswordHash = crArgonHash cr pass,
                        acRole = ''CUSTOMER'', acBonus = 0,
                        acSubscription = Some \<lparr>subPlan = free, subStatus = ACTIVE,
                          subPeriodStart = now, subPeriodEnd = monthLater\<rparr>\<rparr>],
                    awDb := register_ledger newId now monthLater (awDb w)\<rparr>)))"

subsection \<open>Sign-in and sessions\<close>

definition seed_prefix :: string where
  "seed_prefix = ''seedsha256:''"

definition verifyPassword :: "crypto \<Rightarrow> string \<Rightarrow> string \<Rightarrow> bool" where
  "verifyPassword cr password hash =
     (if starts_with seed_prefix hash
      then drop (length seed_prefix) hash = crSha cr (''modelforge-seed:'' @ password)
      else (case crArgonVerify cr hash password of None \<Rightarrow> False | Some b \<Rightarrow> b))"

record session_user =
  suId :: string
  suEmail :: string
  suName :: string
  suRole :: string

definition authorize :: "crypto \<Rightarrow> string option \<Rightarrow> string option \<Rightarrow> account_world \<Rightarrow> session_user option" where
  "authorize cr email password w =
     (if or_empty email = [] \<or> or_empty password = [] then None
      else
        (case table_find acEmail (to_lower (or_empty email)) (awCustomers w) of
           None \<Rightarrow> None
         | Some a \<Rightarrow>
             if verifyPassword cr (or_empty password) (acPasswordHash a)
             then Some \<lparr>suId = acId a, suEmail = acEmail a, suName = or_default (acEmail a) (acName a),
                        suRole = acRole a\<rparr>
             else None))"

text \<open>Pages and actions without a session, or with the wrong role, redirect.\<close>

definition requireSession :: "session_user option \<Rightarrow> (string, session_user) result" where
  "requireSession s =
     (case s of None \<Rightarrow> Inl ''/login'' | Some u \<Rightarrow> if suId u = [] then Inl ''/login'' else Inr u)"

definition requireAdmin :: "session_user option \<Rightarrow> (string, session_user) result" where
  "requireAdmin s =
     (case requireSession s of
        Inl e \<Rightarrow> Inl e
      | Inr u \<Rightarrow> if suRole u \<noteq> ''ADMIN'' then Inl ''/dashboard'' else Inr u)"

definition assertOwnership :: "string \<Rightarrow> session_user \<Rightarrow> bool" where
  "assertOwnership resourceCustomerId u \<longleftrightarrow> suRole u = ''ADMIN'' \<or> resourceCustomerId = suId u"

subsection \<open>API keys\<close>

record new_key =
  nkId :: string
  nkRaw :: string
  nkPrefix :: string
  nkLabel :: "string option"

text \<open>\<^verbatim>\<open>random\<close> is the hexadecimal text of 24 random bytes.\<close>

definition raw_key :: "string \<Rightarrow> string" where
  "raw_key random = ''mf_'' @ random"

text \<open>The body of a refusal of the gateway; that of an exception is left empty.\<close>

definition key_error :: "string \<Rightarrow> string" where
  "key_error message = json_text (JObj [(''error'',
     JObj [(''type'', JStr ''invalid_request''), (''message'', JStr message)])])"

definition internal_create_key ::
    "crypto \<Rightarrow> string \<Rightarrow> string \<Rightarrow> string \<Rightarrow> string option \<Rightarrow> account_world \<Rightarrow> new_key web_answer \<times> account_world" where
  "internal_create_key cr newId random customerId label w =
     (if customerId = [] then (WebFail 400 (key_error ''customerId required''), w)
      else if find_account customerId w = None then (WebFail 404 (key_error ''customer not found''), w)
      else
        (let raw = raw_key random
         in if table_find skId newId (awKeys w) \<noteq> None \<or> table_find skHash (crSha cr raw) (awKeys w) \<noteq> None
            then (WebFail 500 [], w)
            else (WebOk \<lparr>nkId = newId, nkRaw = raw, nkPrefix = take 10 raw, nkLabel = label\<rparr>,
                  w\<lparr>awKeys := awKeys w @ [\<lparr>skId = newId, skCustomer = customerId, skHash = crSha cr raw,
                       skPrefix = take 10 raw, skLabel = label, skScopes = [], skRevokedAt = None\<rparr>]\<rparr>)))"

definition createKeyRoute ::
    "crypto \<Rightarrow> string \<Rightarrow> string \<Rightarrow> session_user option \<Rightarrow> string option \<Rightarrow> account_world
     \<Rightarrow> new_key web_answer \<times> account_world" where
  "createKeyRoute cr newId random s label w =
     (case s of
        None \<Rightarrow> (WebFail 401 ''Unauthorized'', w)
      | Some u \<Rightarrow>
          (let trimmed = js_trim (or_empty label)
           in case internal_create_key cr newId random (suId u) (if trimmed = [] then None else Some trimmed) w of
                (WebOk k, w') \<Rightarrow> (WebOk k, w')
              | (WebFail st e, w') \<Rightarrow> (WebFail 502 (''Gateway '' @ show_int st @ '': '' @ e), w')))"

definition update_keys :: "(stored_key \<Rightarrow> bool) \<Rightarrow> (stored_key \<Rightarrow> stored_key) \<Rightarrow> account_world \<Rightarrow> account_world" where
  "update_keys P f w = w\<lparr>awKeys := map (\<lambda>k. if P k then f k else k) (awKeys w)\<rparr>"

definition internal_delete_key :: "int \<Rightarrow> string \<Rightarrow> account_world \<Rightarrow> unit web_answer \<times> account_world" where
  "internal_delete_key now i w =
     (if table_find skId i (awKeys w) = None then (WebFail 500 [], w)
      else (WebOk (), update_keys (\<lambda>k. skId k = i) (\<lambda>k. k\<lparr>skRevokedAt := Some now\<rparr>) w))"

definition revokeKeyAction ::
    "int \<Rightarrow> session_user option \<Rightarrow> string \<Rightarrow> account_world \<Rightarrow> (string, unit) result \<times> account_world" where
  "revokeKeyAction now s i w =
     (case s of
        None \<Rightarrow> (Inl ''Unauthorized'', w)
      | Some u \<Rightarrow>
          if find (\<lambda>k. skId k = i \<and> skCustomer k = suId u) (awKeys w) = None then (Inl ''API key not found'', w)
          else (case internal_delete_key now i w of
                  (WebOk (), w') \<Rightarrow> (Inr (), w')
                | (WebFail st e, w') \<Rightarrow> (Inl (''Gateway '' @ show_int st @ '': '' @ e), w')))"

subsection \<open>The dashboard's key\<close>

definition dashboard_label :: string where
  "dashboard_label = ''dashboard-chat''"

definition dashboard_raw :: "crypto \<Rightarrow> string \<Rightarrow> string \<Rightarrow> string" where
  "dashboard_raw cr secret customerId = ''mf_dash_'' @ crHmac cr secret customerId"

definition dashboardApiKey ::
    "crypto \<Rightarrow> string option \<Rightarrow> string \<Rightarrow> string \<Rightarrow> account_world \<Rightarrow> (string, string) result \<times> account_world" where
  "dashboardApiKey cr token newId customerId w =
     (if or_empty token = [] then (Inl ''INTERNAL_SERVICE_TOKEN is not configured'', w)
      else
        (let raw = dashboard_raw cr (or_empty token) customerId; hash = crSha cr raw
         in case find (\<lambda>k. skCustomer k = customerId \<and> skLabel k = Some dashboard_label) (awKeys w) of
              Some existing \<Rightarrow>
                if list_ex (\<lambda>k. skHash k = hash \<and> skId k \<noteq> skId existing) (awKeys w)
                then (Inl ''Unique constraint failed'', w)
                else (Inr raw, update_keys (\<lambda>k. skId k = skId existing)
                       (\<lambda>k. k\<lparr>skHash := hash, skPrefix := take 12 raw, skScopes := [''chat''],
                              skRevokedAt := None\<rparr>) w)
            | None \<Rightarrow>
                if find_account customerId w = None then (Inl ''Foreign key constraint failed'', w)
                else if table_find skId newId (awKeys w) \<noteq> None \<or> table_find skHash hash (awKeys w) \<noteq> None
                then (Inl ''Unique constraint failed'', w)
                else (Inr raw, w\<lparr>awKeys := awKeys w @ [\<lparr>skId = newId, skCustomer = customerId, skHash = hash,
                       skPrefix = take 12 raw, skLabel = Some dashboard_label, skScopes = [''chat''],
                       skRevokedAt = None\<rparr>]\<rparr>)))"

text \<open>
  The chat proxy: \<^verbatim>\<open>gateway\<close> answers a request with an authorization header; a body that is no
  JSON is \<^verbatim>\<open>None\<close>. The answer is the one the browser gets.
\<close>

definition chat_route ::
    "crypto \<Rightarrow> string option \<Rightarrow> string \<Rightarrow> session_user option \<Rightarrow> raw_request option
     \<Rightarrow> (string \<Rightarrow> raw_request \<Rightarrow> reply) \<Rightarrow> account_world \<Rightarrow> reply \<times> account_world" where
  "chat_route cr token newId s body gateway w =
     (case s of
        None \<Rightarrow> (Refused 401 (Some ''Subscriber session required''), w)
      | Some u \<Rightarrow>
          if suId u = [] \<or> suRole u = ''ADMIN'' then (Refused 401 (Some ''Subscriber session required''), w)
          else
            (case body of
               None \<Rightarrow> (Refused 400 (Some ''Invalid JSON body''), w)
             | Some b \<Rightarrow>
                 (case dashboardApiKey cr token newId (suId u) w of
                    (Inl e, w') \<Rightarrow> (Refused 503 (Some e), w')
                  | (Inr raw, w') \<Rightarrow>
                      ((case gateway (''Bearer '' @ raw) (b\<lparr>rqStream := Some True\<rparr>) of
                          Unreachable e \<Rightarrow> Refused 503 (Some (or_default ''This operation was aborted'' e))
                        | r \<Rightarrow> r), w'))))"

subsection \<open>The administrator's quota adjustment\<close>

record quota_adjustment =
  qaMessage :: string
  qaBonus :: int
  qaUsed :: int

definition set_bonus :: "string \<Rightarrow> int \<Rightarrow> account_world \<Rightarrow> account_world" where
  "set_bonus c n w = w\<lparr>awCustomers :=
     map (\<lambda>a. if acId a = c then a\<lparr>acBonus := acBonus a + n\<rparr> else a) (awCustomers w)\<rparr>"

text \<open>
  \<^verbatim>\<open>add\<close> is \<^verbatim>\<open>Number(input.addTokens)\<close>, \<^verbatim>\<open>None\<close> when that is not a number; \<^verbatim>\<open>locale\<close> formats a number.
\<close>

definition adjustCustomerQuotaAction ::
    "(int \<Rightarrow> string) \<Rightarrow> int \<Rightarrow> session_user option \<Rightarrow> string option \<Rightarrow> rat option \<Rightarrow> bool \<Rightarrow> account_world
     \<Rightarrow> (string, quota_adjustment) result \<times> account_world" where
  "adjustCustomerQuotaAction locale_text now s customer add reset w =
     (case requireAdmin s of
        Inl e \<Rightarrow> (Inl e, w)
      | Inr admin \<Rightarrow>
          (let c = js_trim (or_empty customer); n = \<lfloor>or_default 0 add\<rfloor>
           in if c = [] then (Inl ''Customer id is required'', w)
              else if n < 0 then (Inl ''addTokens must be >= 0'', w)
              else if n = 0 \<and> \<not> reset then (Inl ''Add tokens and/or reset usage'', w)
              else if n > 1000000000000 then (Inl ''addTokens is unreasonably large'', w)
              else
                (case find_account c w of
                   None \<Rightarrow> (Inl ''Customer not found'', w)
                 | Some a \<Rightarrow>
                     (let w1 = (if n > 0 then set_bonus c n w else w);
                          ps = (case acSubscription a of None \<Rightarrow> now | Some sub \<Rightarrow> subPeriodStart sub);
                          pe = (case acSubscription a of None \<Rightarrow> now | Some sub \<Rightarrow> subPeriodEnd sub);
                          w2 = (if reset then w1\<lparr>awDb := reset_usage c ps pe (awDb w1)\<rparr> else w1);
                          parts = (if n > 0 then [''added '' @ locale_text n @ '' bonus units''] else []) @
                                  (if reset then [''reset period usage to 0''] else [])
                      in (Inr \<lparr>qaMessage = ''Quota updated for '' @ acEmail a @ '': '' @ join ''; '' parts @ ''.'',
                               qaBonus = acBonus a + (if n > 0 then n else 0),
                               qaUsed = (if reset then 0
                                  else (case ledgers (awDb w) c of None \<Rightarrow> 0 | Some l \<Rightarrow> tokensUsed l))\<rparr>,
                          w2\<lparr>awAudit := awAudit w2 @ [\<lparr>aeActor = suId admin, aeCustomer = Some c,
                               aeAction = ''customer.quota.adjust'', aeResource = c\<rparr>]\<rparr>)))))"

end
