(* ===== verification/Payments.thy ===== *)
theory Payments
  imports Billing Accounts ChatWire
begin

text \<open>
  Paying an invoice: the payment adapters (\<^verbatim>\<open>packages/billing/src/adapters.ts\<close>,
  \<^verbatim>\<open>bd-payments.ts\<close>, \<^verbatim>\<open>stripe.ts\<close>), the gateway's invoice routes
  (\<^verbatim>\<open>routes/internal.ts\<close>), the customer's checkout action
  (\<^verbatim>\<open>app/(customer)/billing/actions.ts\<close>) and the payment webhook
  (\<^verbatim>\<open>app/api/webhooks/stripe/route.ts\<close>). The Stripe package is a parameter.
\<close>

subsection \<open>Rows and environment\<close>

text \<open>A row of the invoice table: what \<^verbatim>\<open>generateInvoice\<close> writes, its id and its payment columns.\<close>

record payment_row =
  pyId :: string
  pyInvoice :: invoice
  pyProvider :: "string option"
  pyRef :: "string option"

record payment_env =
  peMode :: "string option"
  peStripeKey :: "string option"
  peWebhookSecret :: "string option"
  peAppUrl :: "string option"

text \<open>
  The Stripe package: \<^verbatim>\<open>siCreate\<close> is \<^verbatim>\<open>checkout.sessions.create\<close> (the session's id and URL or
  the error's message) and \<^verbatim>\<open>siConstruct payload signature secret\<close> is
  \<^verbatim>\<open>webhooks.constructEvent\<close>, of whose event the code reads the type and the
  metadata of its object.
\<close>

record stripe_session_args =
  ssAmount :: int
  ssCurrency :: string
  ssName :: string
  ssSuccessUrl :: string
  ssCancelUrl :: string
  ssMetadata :: "(string \<times> string) list"

record stripe_event =
  seType :: string
  seMetadata :: "(string \<times> string) list option"

record stripe_api =
  siCreate :: "stripe_session_args \<Rightarrow> (string, string \<times> string option) result"
  siConstruct :: "string \<Rightarrow> string \<Rightarrow> string \<Rightarrow> (string, stripe_event) result"

subsection \<open>Checkout links\<close>

record checkout_input =
  ciCustomer :: string
  ciInvoice :: string
  ciAmountCents :: int
  ciDescription :: string

record checkout_result =
  crProvider :: string
  crUrl :: string
  crExternalId :: string

text \<open>\<^verbatim>\<open>(cents / 100).toFixed(2)\<close> of a whole number of cents.\<close>

definition cents_fixed :: "int \<Rightarrow> string" where
  "cents_fixed cents =
     (let n = \<bar>cents\<bar>; d = n mod 100
      in (if cents < 0 then ''-'' else []) @ show_int (n div 100) @ ''.''
         @ (if d < 10 then ''0'' else []) @ show_int d)"

definition mock_checkout :: "checkout_input \<Rightarrow> checkout_result" where
  "mock_checkout i = \<lparr>crProvider = ''mock'',
     crUrl = ''https://pay.modelforge.local/mock/'' @ ciInvoice i @ ''?amount='' @ show_int (ciAmountCents i),
     crExternalId = ''mock_'' @ ciInvoice i\<rparr>"

definition bkash_checkout :: "checkout_input \<Rightarrow> checkout_result" where
  "bkash_checkout i = \<lparr>crProvider = ''bkash'',
     crUrl = ''https://pay.modelforge.local/bkash/'' @ ciInvoice i @ ''?amount='' @ cents_fixed (ciAmountCents i),
     crExternalId = ''bkash_'' @ ciInvoice i\<rparr>"

definition nagad_checkout :: "checkout_input \<Rightarrow> checkout_result" where
  "nagad_checkout i = \<lparr>crProvider = ''nagad'',
     crUrl = ''https://pay.modelforge.local/nagad/'' @ ciInvoice i @ ''?amount='' @ cents_fixed (ciAmountCents i),
     crExternalId = ''nagad_'' @ ciInvoice i\<rparr>"

text \<open>An unset variable is the text \<^verbatim>\<open>undefined\<close> in a template.\<close>

definition app_url :: "payment_env \<Rightarrow> string" where
  "app_url e = (case peAppUrl e of None \<Rightarrow> ''undefined'' | Some u \<Rightarrow> u)"

definition stripe_args :: "payment_env \<Rightarrow> checkout_input \<Rightarrow> stripe_session_args" where
  "stripe_args e i = \<lparr>ssAmount = ciAmountCents i, ssCurrency = ''usd'', ssName = ciDescription i,
     ssSuccessUrl = app_url e @ ''/billing?paid=1'', ssCancelUrl = app_url e @ ''/billing?canceled=1'',
     ssMetadata = [(''customerId'', ciCustomer i), (''invoiceId'', ciInvoice i)]\<rparr>"

definition stripe_checkout :: "payment_env \<Rightarrow> stripe_api \<Rightarrow> checkout_input \<Rightarrow> (string, checkout_result) result" where
  "stripe_checkout e api i =
     (case siCreate api (stripe_args e i) of
        Inl err \<Rightarrow> Inl err
      | Inr (i', url) \<Rightarrow> Inr \<lparr>crProvider = ''stripe'', crUrl = or_empty url, crExternalId = i'\<rparr>)"

definition createCheckout ::
    "payment_env \<Rightarrow> stripe_api \<Rightarrow> payment_provider \<Rightarrow> checkout_input \<Rightarrow> (string, checkout_result) result" where
  "createCheckout e api adapter i =
     (case adapter of
        Mock \<Rightarrow> Inr (mock_checkout i)
      | Bkash \<Rightarrow> Inr (bkash_checkout i)
      | Nagad \<Rightarrow> Inr (nagad_checkout i)
      | Stripe \<Rightarrow> stripe_checkout e api i)"

subsection \<open>Webhook verification\<close>

text \<open>
  \<^verbatim>\<open>JSON.parse\<close> and nothing else; the engine's text of a syntax error is not modelled.
\<close>

definition mock_verify :: "string \<Rightarrow> string \<Rightarrow> (string, json) result" where
  "mock_verify payload signature =
     (case parse_json payload of None \<Rightarrow> Inl ''SyntaxError'' | Some v \<Rightarrow> Inr v)"

definition stripe_invoice_id :: "stripe_event \<Rightarrow> string option" where
  "stripe_invoice_id ev =
     (if seType ev = ''checkout.session.completed''
      then (case seMetadata ev of None \<Rightarrow> None | Some md \<Rightarrow> map_of md ''invoiceId'')
      else None)"

definition stripe_verify :: "payment_env \<Rightarrow> stripe_api \<Rightarrow> string \<Rightarrow> string \<Rightarrow> (string, json) result" where
  "stripe_verify e api payload signature =
     (if or_empty (peWebhookSecret e) = [] then Inl ''STRIPE_WEBHOOK_SECRET not configured''
      else
        (case siConstruct api payload signature (or_empty (peWebhookSecret e)) of
           Inl err \<Rightarrow> Inl err
         | Inr ev \<Rightarrow> Inr (JObj ((''event'', JStr (seType ev))
             # (case stripe_invoice_id ev of None \<Rightarrow> [] | Some i \<Rightarrow> [(''invoiceId'', JStr i)])))))"

text \<open>The adapters of bKash and Nagad have no \<^verbatim>\<open>verifyWebhook\<close>.\<close>

definition verifyWebhook ::
    "payment_env \<Rightarrow> stripe_api \<Rightarrow> payment_provider \<Rightarrow> (string \<Rightarrow> string \<Rightarrow> (string, json) result) option" where
  "verifyWebhook e api adapter =
     (case adapter of
        Mock \<Rightarrow> Some mock_verify
      | Stripe \<Rightarrow> Some (stripe_verify e api)
      | _ \<Rightarrow> None)"

datatype webhook_reply = WhReceived | WhSkipped | WhFailed string

definition set_status :: "invoice_status \<Rightarrow> payment_row \<Rightarrow> payment_row" where
  "set_status st r = r\<lparr>pyInvoice := (pyInvoice r)\<lparr>invStatus := st\<rparr>\<rparr>"

definition webhook_adapter :: "payment_env \<Rightarrow> payment_provider" where
  "webhook_adapter e = createPaymentAdapter (peMode e) (peStripeKey e)
     (if or_empty (peStripeKey e) \<noteq> [] then Stripe else Mock)"

text \<open>
  What the route does with a verified event: the update of a missing row, or with an id that
  is not text, throws inside the \<^verbatim>\<open>try\<close>.
\<close>

definition pay_event :: "json \<Rightarrow> payment_row list \<Rightarrow> webhook_reply \<times> payment_row list" where
  "pay_event event rows =
     (if event = JNull then (WhFailed ''Cannot read properties of null (reading 'invoiceId')'', rows)
      else
        (let invoiceId = js_prop ''invoiceId'' (Some event); kind = js_prop ''event'' (Some event)
         in if js_truthy invoiceId
               \<and> (kind = Some (JStr ''checkout.session.completed'') \<or> kind = Some (JStr ''invoice.paid''))
            then (case invoiceId of
                    Some (JStr i) \<Rightarrow>
                      if table_find pyId i rows = None then (WhFailed ''No record was found for an update.'', rows)
                      else (WhReceived, update_where (\<lambda>r. pyId r = i) (set_status INV_PAID) rows)
                  | _ \<Rightarrow> (WhFailed ''Invalid value provided.'', rows))
            else (WhReceived, rows)))"

definition paymentWebhook ::
    "payment_env \<Rightarrow> stripe_api \<Rightarrow> string option \<Rightarrow> string \<Rightarrow> payment_row list \<Rightarrow> webhook_reply \<times> payment_row list" where
  "paymentWebhook e api signature payload rows =
     (case verifyWebhook e api (webhook_adapter e) of
        None \<Rightarrow> (WhSkipped, rows)
      | Some verify \<Rightarrow>
          (case verify payload (or_empty signature) of
             Inl err \<Rightarrow> (WhFailed err, rows)
           | Inr event \<Rightarrow> pay_event event rows))"

subsection \<open>The gateway's invoice routes\<close>

definition message_error :: "string \<Rightarrow> string" where
  "message_error message = json_text (JObj [(''error'', JObj [(''message'', JStr message)])])"

definition internal_failure :: string where
  "internal_failure = json_text (JObj [(''error'',
     JObj [(''type'', JStr ''server_error''), (''message'', JStr ''Internal error'')])])"

text \<open>
  \<^verbatim>\<open>generateInvoice\<close> on rows with ids: \<^verbatim>\<open>newId\<close> is the id of a created row.
\<close>

definition generate_row ::
    "string \<Rightarrow> string \<Rightarrow> int \<Rightarrow> int \<Rightarrow> billed_event list \<Rightarrow> payment_row list \<Rightarrow> payment_row list" where
  "generate_row newId c ps pe es rows =
     (let amount = invoice_amount (period_events c ps pe es)
      in if table_find (invoice_key \<circ> pyInvoice) (c, ps, pe) rows \<noteq> None
         then update_where (\<lambda>r. invoice_key (pyInvoice r) = (c, ps, pe))
                (\<lambda>r. r\<lparr>pyInvoice := (pyInvoice r)\<lparr>invAmountCents := amount\<rparr>\<rparr>) rows
         else rows @ [\<lparr>pyId = newId,
                pyInvoice = \<lparr>invCustomer = c, invPeriodStart = ps, invPeriodEnd = pe,
                             invAmountCents = amount, invStatus = INV_DRAFT\<rparr>,
                pyProvider = None, pyRef = None\<rparr>])"

text \<open>
  \<^verbatim>\<open>POST /internal/invoices/generate\<close>: \<^verbatim>\<open>date\<close> is the time value of \<^verbatim>\<open>new Date(text)\<close>, which the
  database refuses when it is invalid, as it does an unknown customer.
\<close>

definition invoicesGenerate ::
    "(string \<Rightarrow> int option) \<Rightarrow> string list \<Rightarrow> billed_event list \<Rightarrow> string \<Rightarrow> string option \<Rightarrow> string option \<Rightarrow> string option
     \<Rightarrow> payment_row list \<Rightarrow> invoice web_answer \<times> payment_row list" where
  "invoicesGenerate date customers es newId customerId startText endText rows =
     (let c = or_empty customerId; ps = or_empty startText; pe = or_empty endText
      in if c = [] \<or> ps = [] \<or> pe = []
         then (WebFail 400 (message_error ''customerId, periodStart, periodEnd required''), rows)
         else
           (case (date ps, date pe) of
              (Some s, Some t) \<Rightarrow>
                (let rows' = generate_row newId c s t es rows
                 in case table_find (invoice_key \<circ> pyInvoice) (c, s, t) rows' of
                      Some r \<Rightarrow>
                        if c \<in> set customers then (WebOk (pyInvoice r), rows')
                        else (WebFail 500 internal_failure, rows)
                    | None \<Rightarrow> (WebFail 500 internal_failure, rows))
            | _ \<Rightarrow> (WebFail 500 internal_failure, rows)))"

text \<open>The body's provider, cast and not checked: any other text selects the mock adapter.\<close>

definition body_provider :: "string option \<Rightarrow> payment_provider" where
  "body_provider p =
     (case p of
        None \<Rightarrow> Mock
      | Some t \<Rightarrow> if t = ''stripe'' then Stripe else if t = ''bkash'' then Bkash
                  else if t = ''nagad'' then Nagad else Mock)"

definition invoiceCheckout ::
    "payment_env \<Rightarrow> stripe_api \<Rightarrow> string \<Rightarrow> string option \<Rightarrow> string option \<Rightarrow> payment_row list
     \<Rightarrow> checkout_result web_answer \<times> payment_row list" where
  "invoiceCheckout e api i provider customerId rows =
     (case table_find pyId i rows of
        None \<Rightarrow> (WebFail 404 (message_error ''invoice not found''), rows)
      | Some r \<Rightarrow>
          if or_empty customerId \<noteq> [] \<and> invCustomer (pyInvoice r) \<noteq> or_empty customerId
          then (WebFail 403 (message_error ''invoice ownership mismatch''), rows)
          else
            (case createCheckout e api
                    (createPaymentAdapter (peMode e) (peStripeKey e) (body_provider provider))
                    \<lparr>ciCustomer = invCustomer (pyInvoice r), ciInvoice = pyId r,
                     ciAmountCents = invAmountCents (pyInvoice r),
                     ciDescription = ''ModelForge invoice '' @ pyId r\<rparr> of
               Inl err \<Rightarrow> (WebFail 500 internal_failure, rows)
             | Inr c \<Rightarrow> (WebOk c,
                 update_where (\<lambda>x. pyId x = i)
                   (\<lambda>x. (set_status INV_SENT x)\<lparr>pyProvider := Some (crProvider c), pyRef := Some (crExternalId c)\<rparr>)
                   rows)))"

subsection \<open>The customer's action\<close>

text \<open>
  The action's redirect or its error, the rows and the audit trail. \<^verbatim>\<open>String(null)\<close> is the id of a form
  without one.
\<close>

definition checkoutInvoiceAction ::
    "payment_env \<Rightarrow> stripe_api \<Rightarrow> session_user option \<Rightarrow> string option \<Rightarrow> payment_row list \<times> audit_event list
     \<Rightarrow> (string, string) result \<times> payment_row list \<times> audit_event list" where
  "checkoutInvoiceAction e api s field w =
     (case requireSession s of
        Inl login \<Rightarrow> (Inr login, w)
      | Inr user \<Rightarrow>
          (let i = (case field of None \<Rightarrow> ''null'' | Some t \<Rightarrow> t)
           in case table_find pyId i (fst w) of
                None \<Rightarrow> (Inl ''Invoice not found'', w)
              | Some r \<Rightarrow>
                  if \<not> assertOwnership (invCustomer (pyInvoice r)) user then (Inl ''FORBIDDEN'', w)
                  else
                    (case invoiceCheckout e api i (Some ''mock'') (Some (suId user)) (fst w) of
                       (WebFail st text', rows) \<Rightarrow> (Inl (''Gateway '' @ show_int st @ '': '' @ text'), rows, snd w)
                     | (WebOk c, rows) \<Rightarrow> (Inr (crUrl c), rows,
                         snd w @ [\<lparr>aeActor = suId user, aeCustomer = Some (suId user),
                                   aeAction = ''invoice.checkout'', aeResource = i\<rparr>]))))"

end
