(* ===== verification/PaymentsProps.thy ===== *)
theory PaymentsProps
  imports Payments CanonicalProps
begin

text \<open>
  Who can mark an invoice as paid, and what a checkout does to one: with a live Stripe
  configuration only an event that the Stripe package accepts for the webhook's secret
  pays an invoice, whatever else is called; in mock mode any text does.
\<close>

subsection \<open>Operations\<close>

datatype payment_op =
    Webhook "string option" string
  | CustomerCheckout "session_user option" "string option"
  | GatewayCheckout string "string option" "string option"
  | GenerateInvoice "string list" "billed_event list" string "string option" "string option" "string option"

record payment_deps =
  pdEnv :: payment_env
  pdApi :: stripe_api
  pdDate :: "string \<Rightarrow> int option"

fun payment_step ::
    "payment_deps \<Rightarrow> payment_op \<Rightarrow> payment_row list \<times> audit_event list \<Rightarrow> payment_row list \<times> audit_event list" where
  "payment_step d (Webhook sig payload) w = (snd (paymentWebhook (pdEnv d) (pdApi d) sig payload (fst w)), snd w)"
| "payment_step d (CustomerCheckout s i) w = snd (checkoutInvoiceAction (pdEnv d) (pdApi d) s i w)"
| "payment_step d (GatewayCheckout i p c) w = (snd (invoiceCheckout (pdEnv d) (pdApi d) i p c (fst w)), snd w)"
| "payment_step d (GenerateInvoice cs es i c ps pe) w =
     (snd (invoicesGenerate (pdDate d) cs es i c ps pe (fst w)), snd w)"

subsection \<open>Paid rows\<close>

definition is_paid :: "payment_row \<Rightarrow> bool" where
  "is_paid r \<longleftrightarrow> invStatus (pyInvoice r) = INV_PAID"

definition paid_ids :: "payment_row list \<Rightarrow> string set" where
  "paid_ids rows = pyId ` {r \<in> set rows. is_paid r}"

lemma paid_ids_update_keep:
  assumes "\<And>r. pyId (f r) = pyId r" and "\<And>r. is_paid (f r) \<Longrightarrow> is_paid r"
  shows "paid_ids (update_where P f rows) \<subseteq> paid_ids rows"
  using assms by (fastforce simp: paid_ids_def update_where_def)

lemma paid_ids_set_paid:
  "paid_ids (update_where (\<lambda>r. pyId r = i) (set_status INV_PAID) rows) \<subseteq> insert i (paid_ids rows)"
  by (auto simp: paid_ids_def update_where_def set_status_def)

lemma paid_ids_append: "\<not> is_paid r \<Longrightarrow> paid_ids (rows @ [r]) = paid_ids rows"
  by (auto simp: paid_ids_def)

lemma generate_row_paid: "paid_ids (generate_row i c ps pe es rows) \<subseteq> paid_ids rows"
  using paid_ids_update_keep [of "\<lambda>r. r\<lparr>pyInvoice := (pyInvoice r)\<lparr>invAmountCents := n\<rparr>\<rparr>"
      "\<lambda>r. invoice_key (pyInvoice r) = (c, ps, pe)" rows for n]
  by (auto simp: generate_row_def Let_def paid_ids_append is_paid_def)

lemma generate_paid: "paid_ids (snd (invoicesGenerate date cs es i c ps pe rows)) \<subseteq> paid_ids rows"
  using generate_row_paid
  by (auto simp: invoicesGenerate_def Let_def split: option.splits)

lemma gateway_checkout_paid: "paid_ids (snd (invoiceCheckout e api i p c rows)) \<subseteq> paid_ids rows"
  using paid_ids_update_keep [of "\<lambda>x. (set_status INV_SENT x)\<lparr>pyProvider := Some p, pyRef := Some q\<rparr>"
      "\<lambda>x. pyId x = i" rows for p q]
  by (auto simp: invoiceCheckout_def set_status_def is_paid_def split: option.splits sum.splits)

lemma customer_checkout_rows:
  "fst (snd (checkoutInvoiceAction e api s f w)) = fst w
   \<or> (\<exists>i p c. fst (snd (checkoutInvoiceAction e api s f w)) = snd (invoiceCheckout e api i p c (fst w)))"
proof -
  have "fst (snd (case x of (WebFail st t, rows) \<Rightarrow> (Inl (g st t), rows, a) | (WebOk c, rows) \<Rightarrow> (Inr (h c), rows, b c)))
      = snd x" for x :: "checkout_result web_answer \<times> payment_row list" and g h a b
    by (cases x; cases "fst x") auto
  note rows = this
  show ?thesis
    unfolding checkoutInvoiceAction_def Let_def
    by (cases "requireSession s"; cases "table_find pyId (case f of None \<Rightarrow> ''null'' | Some t \<Rightarrow> t) (fst w)")
      (auto simp: rows)
qed

lemma customer_checkout_paid: "paid_ids (fst (snd (checkoutInvoiceAction e api s f w))) \<subseteq> paid_ids (fst w)"
  using customer_checkout_rows [of e api s f w] gateway_checkout_paid by fastforce

subsection \<open>Live Stripe payments\<close>

definition live_stripe :: "payment_env \<Rightarrow> bool" where
  "live_stripe e \<longleftrightarrow> peMode e \<noteq> None \<and> peMode e \<noteq> Some ''mock'' \<and> or_empty (peStripeKey e) \<noteq> []"

text \<open>The Stripe package accepts this delivery, for the configured secret, as the payment of invoice \<^verbatim>\<open>i\<close>.\<close>

definition stripe_pays :: "payment_deps \<Rightarrow> string option \<Rightarrow> string \<Rightarrow> string \<Rightarrow> bool" where
  "stripe_pays d sig payload i \<longleftrightarrow>
     or_empty (peWebhookSecret (pdEnv d)) \<noteq> []
     \<and> (\<exists>ev. siConstruct (pdApi d) payload (or_empty sig) (or_empty (peWebhookSecret (pdEnv d))) = Inr ev
           \<and> seType ev = ''checkout.session.completed''
           \<and> (\<exists>md. seMetadata ev = Some md \<and> map_of md ''invoiceId'' = Some i))"

lemma live_adapter: "live_stripe e \<Longrightarrow> webhook_adapter e = Stripe"
  by (auto simp: live_stripe_def webhook_adapter_def createPaymentAdapter_def or_empty_def or_default_def split: option.splits)

lemma stripe_verify_cases:
  assumes "stripe_verify e api payload sig = Inr v"
  obtains ev where "or_empty (peWebhookSecret e) \<noteq> []"
    and "siConstruct api payload sig (or_empty (peWebhookSecret e)) = Inr ev"
    and "v = JObj ((''event'', JStr (seType ev))
          # (case stripe_invoice_id ev of None \<Rightarrow> [] | Some i \<Rightarrow> [(''invoiceId'', JStr i)]))"
  using assms by (auto simp: stripe_verify_def split: if_splits sum.splits)

lemma stripe_invoice_id_some:
  "stripe_invoice_id ev = Some i \<longleftrightarrow> seType ev = ''checkout.session.completed''
     \<and> (\<exists>md. seMetadata ev = Some md \<and> map_of md ''invoiceId'' = Some i)"
  by (auto simp: stripe_invoice_id_def split: option.splits)

text \<open>The only rows an event can change are those of its invoice id, which it marks as paid.\<close>

lemma pay_event_cases:
  "snd (pay_event v rows) = rows
   \<or> (\<exists>i. js_prop ''invoiceId'' (Some v) = Some (JStr i)
        \<and> snd (pay_event v rows) = update_where (\<lambda>r. pyId r = i) (set_status INV_PAID) rows)"
  by (auto simp: pay_event_def Let_def split: option.splits json.splits)

lemma webhook_paid:
  assumes "live_stripe (pdEnv d)"
    and "\<And>i. stripe_pays d sig payload i \<Longrightarrow> i \<in> E" and "paid_ids rows \<subseteq> E"
  shows "paid_ids (snd (paymentWebhook (pdEnv d) (pdApi d) sig payload rows)) \<subseteq> E"
proof (cases "stripe_verify (pdEnv d) (pdApi d) payload (or_empty sig)")
  case (Inl err)
  then show ?thesis using assms(3) by (simp add: paymentWebhook_def verifyWebhook_def live_adapter [OF assms(1)])
next
  case (Inr v)
  then obtain ev where ev: "or_empty (peWebhookSecret (pdEnv d)) \<noteq> []"
    "siConstruct (pdApi d) payload (or_empty sig) (or_empty (peWebhookSecret (pdEnv d))) = Inr ev"
    "v = JObj ((''event'', JStr (seType ev))
          # (case stripe_invoice_id ev of None \<Rightarrow> [] | Some i \<Rightarrow> [(''invoiceId'', JStr i)]))"
    by (rule stripe_verify_cases)
  have step: "snd (paymentWebhook (pdEnv d) (pdApi d) sig payload rows) = snd (pay_event v rows)"
    using Inr by (simp add: paymentWebhook_def verifyWebhook_def live_adapter [OF assms(1)])
  consider "snd (pay_event v rows) = rows"
    | i where "js_prop ''invoiceId'' (Some v) = Some (JStr i)"
        "snd (pay_event v rows) = update_where (\<lambda>r. pyId r = i) (set_status INV_PAID) rows"
    using pay_event_cases [of v rows] by blast
  then show ?thesis
  proof cases
    case (2 i)
    then have "stripe_invoice_id ev = Some i" using ev(3) by (auto simp: js_prop_def split: option.splits)
    then have "stripe_pays d sig payload i" using ev(1,2) stripe_invoice_id_some by (auto simp: stripe_pays_def)
    then show ?thesis using assms(2,3) paid_ids_set_paid [of i rows] 2(2) step by auto
  qed (simp add: step assms(3))
qed

text \<open>
  The contract of the payment operations: for a set \<^verbatim>\<open>E\<close> of ids that contains every accepted
  payment, the paid ids stay inside \<^verbatim>\<open>E\<close>.
\<close>

definition payments_within :: "payment_deps \<Rightarrow> string set \<Rightarrow> payment_op \<Rightarrow> bool" where
  "payments_within d E op \<longleftrightarrow>
     live_stripe (pdEnv d) \<and>
     (case op of Webhook sig payload \<Rightarrow> (\<forall>i. stripe_pays d sig payload i \<longrightarrow> i \<in> E) | _ \<Rightarrow> True)"

interpretation payments: guarded_system "payment_step d" "payments_within d E"
  "\<lambda>w. paid_ids (fst w) \<subseteq> E" "([], [])" for d E
proof unfold_locales
  show "paid_ids (fst ([] :: payment_row list, [] :: audit_event list)) \<subseteq> E" by (simp add: paid_ids_def)
next
  fix w :: "payment_row list \<times> audit_event list" and op
  assume w: "paid_ids (fst w) \<subseteq> E" and ok: "payments_within d E op"
  show "paid_ids (fst (payment_step d op w)) \<subseteq> E"
  proof (cases op)
    case (Webhook sig payload)
    then show ?thesis using ok w webhook_paid [of d sig payload E "fst w"] by (simp add: payments_within_def)
  next
    case (CustomerCheckout s i)
    then show ?thesis using w customer_checkout_paid [of "pdEnv d" "pdApi d" s i w] by auto
  next
    case (GatewayCheckout i p c)
    then show ?thesis using w gateway_checkout_paid [of "pdEnv d" "pdApi d" i p c "fst w"] by auto
  next
    case (GenerateInvoice cs es i c ps pe)
    then show ?thesis using w generate_paid [of "pdDate d" cs es i c ps pe "fst w"] by auto
  qed
qed

text \<open>
  C32. In a live Stripe configuration an invoice is only ever paid by Stripe: whatever webhooks (signed or forged),
  checkouts and invoice generations have run, in any order, an invoice that is marked as paid was
  named by a completed checkout session that the Stripe package accepted
  for the configured webhook secret.
\<close>

theorem paid_only_by_stripe:
  assumes "live_stripe (pdEnv d)"
    and "r \<in> set (fst (fold (payment_step d) ops ([], [])))" and "invStatus (pyInvoice r) = INV_PAID"
  shows "\<exists>sig payload. Webhook sig payload \<in> set ops \<and> stripe_pays d sig payload (pyId r)"
proof -
  define E where "E = {i. \<exists>sig payload. Webhook sig payload \<in> set ops \<and> stripe_pays d sig payload i}"
  have "\<forall>op \<in> set ops. payments_within d E op"
    using assms(1) by (auto simp: payments_within_def E_def split: payment_op.split)
  then have "paid_ids (fst (fold (payment_step d) ops ([], []))) \<subseteq> E" by (rule payments.reachable_inv)
  moreover have "pyId r \<in> paid_ids (fst (fold (payment_step d) ops ([], [])))"
    using assms(2,3) by (auto simp: paid_ids_def is_paid_def)
  ultimately show ?thesis by (auto simp: E_def)
qed

subsection \<open>A run with a payment\<close>

definition sample_api :: stripe_api where
  "sample_api = \<lparr>siCreate = (\<lambda>a. Inr (''cs_1'', Some ''https://stripe/cs_1'')),
     siConstruct = (\<lambda>payload sig secret.
       if sig = secret then Inr \<lparr>seType = ''checkout.session.completed'', seMetadata = Some [(''invoiceId'', payload)]\<rparr>
       else Inl ''bad signature'')\<rparr>"

definition sample_deps :: "string option \<Rightarrow> payment_deps" where
  "sample_deps mode = \<lparr>pdEnv = \<lparr>peMode = mode, peStripeKey = Some ''sk'', peWebhookSecret = Some ''wh'', peAppUrl = None\<rparr>,
     pdApi = sample_api, pdDate = (\<lambda>t. if t = ''a'' then Some 0 else Some 10)\<rparr>"

definition sample_ops :: "string option \<Rightarrow> payment_op list" where
  "sample_ops sig = [GenerateInvoice [''c''] [] ''i1'' (Some ''c'') (Some ''a'') (Some ''b''),
     GatewayCheckout ''i1'' (Some ''stripe'') (Some ''c''), Webhook sig ''i1'']"

definition sample_row :: "invoice_status \<Rightarrow> payment_row" where
  "sample_row st = \<lparr>pyId = ''i1'',
     pyInvoice = \<lparr>invCustomer = ''c'', invPeriodStart = 0, invPeriodEnd = 10, invAmountCents = 0, invStatus = st\<rparr>,
     pyProvider = Some ''stripe'', pyRef = Some ''cs_1''\<rparr>"

lemmas sample_payment_defs = sample_api_def sample_deps_def sample_ops_def sample_row_def

lemma sample_payment_run:
  "fst (fold (payment_step (sample_deps (Some ''live''))) (sample_ops (Some ''wh'')) ([], [])) = [sample_row INV_PAID]"
  "fst (fold (payment_step (sample_deps (Some ''live''))) (sample_ops (Some ''no'')) ([], [])) = [sample_row INV_SENT]"
  by code_simp+

lemma sample_row_sel: "pyId (sample_row st) = ''i1''" "invStatus (pyInvoice (sample_row st)) = st"
  by (simp_all add: sample_row_def)

lemma paid_only_by_stripe_witness:
  "\<exists>sig payload. Webhook sig payload \<in> set (sample_ops (Some ''wh'')) \<and> stripe_pays (sample_deps (Some ''live'')) sig payload ''i1''"
proof -
  have "live_stripe (pdEnv (sample_deps (Some ''live'')))"
    by (simp add: live_stripe_def sample_deps_def or_empty_def or_default_def)
  then show ?thesis
    using paid_only_by_stripe [of "sample_deps (Some ''live'')" "sample_row INV_PAID" "sample_ops (Some ''wh'')"] sample_payment_run(1)
    by (simp add: sample_row_sel)
qed

subsection \<open>Mock mode\<close>

text \<open>
  Without \<^verbatim>\<open>BILLING_MODE\<close>, or with \<^verbatim>\<open>mock\<close>, a request without any signature marks any invoice as paid, even
  when a Stripe key and a webhook secret are configured.
\<close>

definition forged_payload :: "string \<Rightarrow> json" where
  "forged_payload i = JObj [(''event'', JStr ''invoice.paid''), (''invoiceId'', JStr i)]"

lemma forged_webhook_pays:
  assumes "peMode e = None \<or> peMode e = Some ''mock''" and "r \<in> set rows" and "pyId r \<noteq> []"
  shows "paymentWebhook e api None (json_text (forged_payload (pyId r))) rows
    = (WhReceived, update_where (\<lambda>x. pyId x = pyId r) (set_status INV_PAID) rows)"
proof -
  have "webhook_adapter e = Mock"
    using assms(1) by (auto simp: webhook_adapter_def createPaymentAdapter_def)
  moreover have "parse_json (json_text (forged_payload (pyId r))) = Some (forged_payload (pyId r))"
    by (rule parse_text) (simp add: forged_payload_def)
  moreover have "table_find pyId (pyId r) rows \<noteq> None"
    using assms(2) by (auto simp: table_find_none_iff)
  ultimately show ?thesis
    using assms(3)
    by (simp add: paymentWebhook_def verifyWebhook_def mock_verify_def pay_event_def forged_payload_def js_prop_def js_truthy_def)
qed

text \<open>The webhook never skips: its adapter is the mock or Stripe, which both verify.\<close>

lemma webhook_never_skips: "fst (paymentWebhook e api sig payload rows) \<noteq> WhSkipped"
proof -
  have "webhook_adapter e = Mock \<or> webhook_adapter e = Stripe"
    by (auto simp: webhook_adapter_def createPaymentAdapter_def)
  then show ?thesis
    by (auto simp: paymentWebhook_def verifyWebhook_def pay_event_def Let_def split: sum.splits option.splits json.splits)
qed

subsection \<open>Checkouts and generation\<close>

text \<open>A second checkout makes a paid invoice unpaid again.\<close>

lemma checkout_reopens_paid:
  "fst (snd (checkoutInvoiceAction (pdEnv (sample_deps None)) sample_api
     (Some \<lparr>suId = ''c'', suEmail = [], suName = [], suRole = ''CUSTOMER''\<rparr>) (Some ''i1'') ([sample_row INV_PAID], [])))
   = [(sample_row INV_SENT)\<lparr>pyProvider := Some ''mock'', pyRef := Some ''mock_i1''\<rparr>]"
  by code_simp

text \<open>The amount of an invoice that is already paid follows every later generation.\<close>

lemma paid_amount_changes:
  "generate_row ''i2'' ''c'' 0 10 [sample_event (Some 20000) 1] [sample_row INV_PAID]
   = [(sample_row INV_PAID)\<lparr>pyInvoice := (pyInvoice (sample_row INV_PAID))\<lparr>invAmountCents := 2\<rparr>\<rparr>]"
  by code_simp

text \<open>
  An administrator passes the action's ownership check and fails the gateway's, which compares with
  the administrator's own id.
\<close>

lemma admin_checkout_refused:
  assumes "table_find pyId i rows = Some r" and "suId u \<noteq> []" and "invCustomer (pyInvoice r) \<noteq> suId u"
  shows "checkoutInvoiceAction e api (Some (u\<lparr>suRole := ''ADMIN''\<rparr>)) (Some i) (rows, audit)
    = (Inl (''Gateway 403: '' @ message_error ''invoice ownership mismatch''), rows, audit)"
proof -
  have "show_int 403 = ''403''"
    by (simp add: show_int_def digits_of.simps char_of_def bit_Suc_0_iff)
  then show ?thesis
    using assms by (simp add: checkoutInvoiceAction_def requireSession_def assertOwnership_def invoiceCheckout_def
      or_empty_def or_default_def)
qed

text \<open>A customer's action changes the rows of that customer only, whatever id the form holds.\<close>

lemma checkout_own_rows:
  assumes "suId u \<noteq> []" and "unique_by pyId rows" and "r \<in> set rows" and "invCustomer (pyInvoice r) \<noteq> suId u"
  shows "r \<in> set (fst (snd (checkoutInvoiceAction e api (Some u) f (rows, audit))))"
proof -
  have found: "r \<in> set (snd (invoiceCheckout e api i p (Some (suId u)) rows))" for i p
  proof (cases "table_find pyId i rows")
    case (Some x)
    have "pyId r \<noteq> i" if "invCustomer (pyInvoice x) = suId u"
      using table_find_unique [OF assms(2,3)] Some that assms(4) by auto
    then show ?thesis
      using Some assms(1,3)
      by (auto simp: invoiceCheckout_def or_empty_def or_default_def update_where_def image_iff split: sum.splits)
  qed (simp add: invoiceCheckout_def assms(3))
  have "requireSession (Some u) = Inr u" using assms(1) by (simp add: requireSession_def)
  then show ?thesis
    using found [of "case f of None \<Rightarrow> ''null'' | Some t \<Rightarrow> t" "Some ''mock''"] assms(3)
    by (auto simp: checkoutInvoiceAction_def Let_def split: option.splits sum.splits prod.splits web_answer.splits)
qed

text \<open>The rows with ids refine the invoices of the generation: forgetting ids and payment columns commutes.\<close>

lemma generate_row_refines:
  "map pyInvoice (generate_row i c ps pe es rows) = generateInvoice c ps pe es (map pyInvoice rows)"
proof -
  have "(table_find invoice_key k (map pyInvoice rows) = None) = (table_find (invoice_key \<circ> pyInvoice) k rows = None)" for k
    by (simp add: table_find_none_iff image_comp)
  then show ?thesis
    by (simp add: generate_row_def generateInvoice_def Let_def update_where_def)
qed

end
