(* ===== verification/ServiceLevels.thy ===== *)
theory ServiceLevels
  imports ChatHandler
begin

text \<open>
  Service levels: the status of a window and its credit (\<^verbatim>\<open>packages/platform/src/slo.ts\<close>),
  the roll-up of a window over all definitions and customers, and evaluation runs
  (\<^verbatim>\<open>lib/modernJobs.ts\<close>). Percentages are exact rationals.
\<close>

datatype slo_status = HEALTHY | AT_RISK | BREACHED

record slo_targets =
  tgAvailabilityPct :: rat
  tgLatencyP95Ms :: rat
  tgAtRiskAvailabilityPct :: "rat option"
  tgAtRiskLatencyP95Ms :: "rat option"

datatype slo_error = SloRangeError string | SloTypeError string

definition computeWindowStatus :: "rat \<Rightarrow> rat \<Rightarrow> slo_targets \<Rightarrow> (slo_error, slo_status) result" where
  "computeWindowStatus availabilityPct p95 t =
     (if availabilityPct < 0 \<or> availabilityPct > 100 \<or> p95 < 0
      then Inl (SloRangeError ''SLO measurements must be finite and non-negative'')
      else if tgAvailabilityPct t < 0 \<or> tgAvailabilityPct t > 100 \<or> tgLatencyP95Ms t < 0
      then Inl (SloRangeError ''SLO targets are outside their valid range'')
      else if availabilityPct < tgAvailabilityPct t \<or> p95 > tgLatencyP95Ms t then Inr BREACHED
      else
        (let atRiskAvailability = or_default
               (tgAvailabilityPct t + (100 - tgAvailabilityPct t) / 2) (tgAtRiskAvailabilityPct t);
             atRiskLatency = or_default (tgLatencyP95Ms t * (9 / 10)) (tgAtRiskLatencyP95Ms t)
         in if availabilityPct < atRiskAvailability \<or> p95 > atRiskLatency then Inr AT_RISK
            else Inr HEALTHY))"

text \<open>The two call forms: a status with a configured credit, or an input record.\<close>

datatype credit_input = ByStatus slo_status "int option" | ByInput bool int "rat option"

definition trunc :: "rat \<Rightarrow> int" where
  "trunc x = (if x < 0 then - \<lfloor>- x\<rfloor> else \<lfloor>x\<rfloor>)"

definition computeCreditMicros :: "credit_input \<Rightarrow> (slo_error, int) result" where
  "computeCreditMicros inp =
     (let breached = (case inp of ByStatus st _ \<Rightarrow> st = BREACHED | ByInput b _ _ \<Rightarrow> b);
          creditValue = (case inp of ByStatus _ c \<Rightarrow> c | ByInput _ c _ \<Rightarrow> Some c)
      in case creditValue of
           None \<Rightarrow> Inl (SloTypeError ''configuredCreditMicros is required'')
         | Some credit \<Rightarrow>
             if credit < 0 then Inl (SloRangeError ''configuredCreditMicros must be non-negative'')
             else if \<not> breached then Inr 0
             else
               (let severity = (case inp of
                      ByStatus _ _ \<Rightarrow> 1
                    | ByInput _ _ sev \<Rightarrow> max 1 (min 3 (trunc (or_default 1 sev))))
                in Inr (credit * severity)))"

definition percentile :: "int list \<Rightarrow> int \<Rightarrow> int" where
  "percentile values p =
     (if values = [] then 0
      else sort values ! nat (min (int (length values) - 1) ((p * int (length values)) div 100)))"

subsection \<open>The roll-up\<close>

record slo_definition =
  sdId :: string
  sdName :: string
  sdWindowMinutes :: int
  sdAvailabilityPct :: rat
  sdLatencyP95Ms :: rat
  sdCreditMicros :: int

record timed_request =
  trCustomerId :: string
  trStatus :: inference_status
  trLatencyMs :: int
  trCreatedAt :: int

record slo_window =
  swDefinition :: string
  swCustomer :: "string option"
  swWindowStart :: int
  swWindowEnd :: int
  swRequestCount :: int
  swSuccessCount :: int
  swBreachCount :: int
  swP95LatencyMs :: int
  swAvailabilityPct :: rat
  swStatus :: slo_status

record service_credit =
  scCustomer :: string
  scAmountMicros :: int
  scDefinitionName :: string
  scWindowStart :: int

record slo_state =
  ssWindows :: "slo_window list"
  ssCredits :: "service_credit list"

definition slo_window_start :: "slo_definition \<Rightarrow> int \<Rightarrow> int" where
  "slo_window_start d now = (now div (sdWindowMinutes d * 60000)) * (sdWindowMinutes d * 60000)"

definition window_requests :: "slo_definition \<Rightarrow> int \<Rightarrow> timed_request list \<Rightarrow> timed_request list" where
  "window_requests d now rs =
     filter (\<lambda>r. slo_window_start d now \<le> trCreatedAt r
               \<and> trCreatedAt r < slo_window_start d now + sdWindowMinutes d * 60000) rs"

definition succeeded :: "timed_request list \<Rightarrow> timed_request list" where
  "succeeded rows = filter (\<lambda>r. trStatus r = Succeeded) rows"

definition availability :: "timed_request list \<Rightarrow> rat" where
  "availability rows =
     (if rows = [] then 100 else of_nat (length (succeeded rows)) / of_nat (length rows) * 100)"

definition window_key :: "slo_window \<Rightarrow> string \<times> string option \<times> int" where
  "window_key w = (swDefinition w, swCustomer w, swWindowStart w)"

definition window_of ::
    "slo_definition \<Rightarrow> int \<Rightarrow> string option \<Rightarrow> timed_request list \<Rightarrow> (slo_error, slo_window) result" where
  "window_of d now customer rows =
     (let p95 = percentile (map trLatencyMs (succeeded rows)) 95
      in case computeWindowStatus (availability rows) (of_int p95)
                \<lparr>tgAvailabilityPct = sdAvailabilityPct d, tgLatencyP95Ms = sdLatencyP95Ms d,
                 tgAtRiskAvailabilityPct = None, tgAtRiskLatencyP95Ms = None\<rparr> of
           Inl e \<Rightarrow> Inl e
         | Inr status \<Rightarrow>
             Inr \<lparr>swDefinition = sdId d, swCustomer = customer,
                  swWindowStart = slo_window_start d now,
                  swWindowEnd = slo_window_start d now + sdWindowMinutes d * 60000,
                  swRequestCount = int (length rows), swSuccessCount = int (length (succeeded rows)),
                  swBreachCount = (if status = BREACHED then 1 else 0), swP95LatencyMs = p95,
                  swAvailabilityPct = availability rows, swStatus = status\<rparr>)"

definition put_window :: "slo_window \<Rightarrow> slo_window list \<Rightarrow> slo_window list" where
  "put_window w ws =
     (if table_find window_key (window_key w) ws \<noteq> None
      then map (\<lambda>x. if window_key x = window_key w then w else x) ws
      else ws @ [w])"

text \<open>A credit is recognised by its customer and reason (definition name and window start).\<close>

definition credit_window :: "slo_definition \<Rightarrow> slo_window \<Rightarrow> slo_state \<Rightarrow> (slo_error, slo_state) result" where
  "credit_window d w s =
     (case swCustomer w of
        None \<Rightarrow> Inr s
      | Some c \<Rightarrow>
          if swStatus w \<noteq> BREACHED then Inr s
          else
            (case computeCreditMicros (ByInput True (sdCreditMicros d) None) of
               Inl e \<Rightarrow> Inl e
             | Inr amount \<Rightarrow>
                 if list_ex (\<lambda>x. scCustomer x = c \<and> scDefinitionName x = sdName d
                               \<and> scWindowStart x = swWindowStart w) (ssCredits s) \<or> amount \<le> 0
                 then Inr s
                 else Inr (s\<lparr>ssCredits := ssCredits s @
                        [\<lparr>scCustomer = c, scAmountMicros = amount, scDefinitionName = sdName d,
                          scWindowStart = swWindowStart w\<rparr>]\<rparr>)))"

definition roll_bucket ::
    "slo_definition \<Rightarrow> int \<Rightarrow> string option \<Rightarrow> timed_request list \<Rightarrow> slo_state \<Rightarrow> (slo_error, slo_state) result" where
  "roll_bucket d now customer rows s =
     (case window_of d now customer rows of
        Inl e \<Rightarrow> Inl e
      | Inr w \<Rightarrow> credit_window d w (s\<lparr>ssWindows := put_window w (ssWindows s)\<rparr>))"

text \<open>The \<^verbatim>\<open>Map\<close> by customer: all requests first, then the customers as they appear.\<close>

definition customer_buckets :: "timed_request list \<Rightarrow> (string option \<times> timed_request list) list" where
  "customer_buckets rs =
     (None, rs) # map (\<lambda>c. (Some c, filter (\<lambda>r. trCustomerId r = c) rs)) (rev (remdups (rev (map trCustomerId rs))))"

fun fold_result :: "('a \<Rightarrow> 's \<Rightarrow> ('e, 's) result) \<Rightarrow> 'a list \<Rightarrow> 's \<Rightarrow> ('e, 's) result" where
  "fold_result f [] s = Inr s"
| "fold_result f (x # xs) s = (case f x s of Inl e \<Rightarrow> Inl e | Inr s' \<Rightarrow> fold_result f xs s')"

definition rollupSloWindows ::
    "slo_definition list \<Rightarrow> timed_request list \<Rightarrow> int \<Rightarrow> slo_state \<Rightarrow> (slo_error, slo_state) result" where
  "rollupSloWindows defs rs now s =
     fold_result (\<lambda>d. fold_result (\<lambda>(c, rows). roll_bucket d now c rows)
                       (customer_buckets (window_requests d now rs))) defs s"

subsection \<open>Evaluation runs\<close>

record eval_case =
  ecName :: string
  ecPrompt :: string
  ecExpected :: "string option"

record eval_result =
  erCaseName :: string
  erPassed :: bool
  erScore :: int
  erOutput :: string

definition run_case :: "eval_case \<Rightarrow> eval_result" where
  "run_case c =
     (let output = ''echo:'' @ take 64 (ecPrompt c);
          ok = (case ecExpected c of
                  None \<Rightarrow> True
                | Some e \<Rightarrow> e = [] \<or> includes_at (to_lower e) (to_lower output))
      in \<lparr>erCaseName = ecName c, erPassed = ok, erScore = (if ok then 1 else 0), erOutput = output\<rparr>)"

definition runEvalSuite :: "eval_case list \<Rightarrow> eval_result list \<times> rat" where
  "runEvalSuite cases =
     (let results = map run_case cases;
          passed = length (filter erPassed results)
      in (results, if cases = [] then 0 else of_nat passed / of_nat (length cases)))"

subsection \<open>Windows and credits\<close>

lemma computeWindowStatus_breached:
  assumes "computeWindowStatus a p t = Inr st"
  shows "st = BREACHED \<longleftrightarrow> a < tgAvailabilityPct t \<or> p > tgLatencyP95Ms t"
  using assms by (auto simp: computeWindowStatus_def Let_def split: if_splits)

definition credit_key :: "service_credit \<Rightarrow> string \<times> string \<times> int" where
  "credit_key x = (scCustomer x, scDefinitionName x, scWindowStart x)"

definition slo_ok :: "slo_state \<Rightarrow> bool" where
  "slo_ok s \<longleftrightarrow> unique_by window_key (ssWindows s) \<and> unique_by credit_key (ssCredits s)
     \<and> (\<forall>x \<in> set (ssCredits s). 0 < scAmountMicros x)"

lemma put_window_unique:
  assumes "unique_by window_key ws"
  shows "unique_by window_key (put_window w ws)"
proof (cases "table_find window_key (window_key w) ws = None")
  case True
  then show ?thesis
    using assms by (auto simp: put_window_def unique_by_append table_find_none_iff)
next
  case False
  have keys: "map window_key (map (\<lambda>x. if window_key x = window_key w then w else x) ws) = map window_key ws"
    by simp
  from False assms show ?thesis by (simp only: put_window_def unique_by_def if_True keys not_False_eq_True)
qed

lemma credit_window_ok:
  assumes "slo_ok s" and "credit_window d w s = Inr s'"
  shows "slo_ok s'"
proof (cases "s' = s")
  case False
  with assms(2) obtain c where c: "swCustomer w = Some c"
    by (auto simp: credit_window_def split: option.splits)
  with assms(2) False obtain amount where
    amount: "computeCreditMicros (ByInput True (sdCreditMicros d) None) = Inr amount"
    by (cases "computeCreditMicros (ByInput True (sdCreditMicros d) None)")
      (simp_all add: credit_window_def split: if_splits)
  have s': "s' = s\<lparr>ssCredits := ssCredits s @ [\<lparr>scCustomer = c, scAmountMicros = amount,
             scDefinitionName = sdName d, scWindowStart = swWindowStart w\<rparr>]\<rparr>" and "\<not> amount \<le> 0"
    and fresh: "\<not> list_ex (\<lambda>x. scCustomer x = c \<and> scDefinitionName x = sdName d
             \<and> scWindowStart x = swWindowStart w) (ssCredits s)"
    using assms(2) False c amount by (simp_all add: credit_window_def split: if_splits)
  have "(c, sdName d, swWindowStart w) \<notin> credit_key ` set (ssCredits s)"
    using fresh by (fastforce simp: credit_key_def list_ex_iff)
  with assms(1) s' \<open>\<not> amount \<le> 0\<close> show ?thesis
    by (simp add: slo_ok_def unique_by_append) (simp add: credit_key_def)
qed (use assms in simp)

lemma roll_bucket_ok:
  assumes "slo_ok s" and "roll_bucket d now c rows s = Inr s'"
  shows "slo_ok s'"
proof -
  from assms(2) obtain w where
    step: "credit_window d w (s\<lparr>ssWindows := put_window w (ssWindows s)\<rparr>) = Inr s'"
    by (auto simp: roll_bucket_def split: sum.splits)
  have "slo_ok (s\<lparr>ssWindows := put_window w (ssWindows s)\<rparr>)"
    using assms(1) by (simp add: slo_ok_def put_window_unique)
  then show ?thesis using step by (rule credit_window_ok)
qed

lemma fold_result_inv:
  assumes "\<And>x s s'. P s \<Longrightarrow> f x s = Inr s' \<Longrightarrow> P s'" and "P s" and "fold_result f xs s = Inr s'"
  shows "P s'"
  using assms(2,3) by (induction xs arbitrary: s) (auto intro: assms(1) split: sum.splits)

lemma rollup_ok: "slo_ok s \<Longrightarrow> rollupSloWindows defs rs now s = Inr s' \<Longrightarrow> slo_ok s'"
  unfolding rollupSloWindows_def
  by (rule fold_result_inv [where P = slo_ok, rotated 1], assumption, assumption)
    (rule fold_result_inv [where P = slo_ok], auto intro: roll_bucket_ok)

text \<open>Repeated roll-ups of whatever windows.\<close>

fun rollup_step :: "slo_definition list \<times> timed_request list \<times> int \<Rightarrow> slo_state \<Rightarrow> slo_state" where
  "rollup_step (defs, rs, now) s = (case rollupSloWindows defs rs now s of Inl _ \<Rightarrow> s | Inr s' \<Rightarrow> s')"

definition slo_empty :: slo_state where
  "slo_empty = \<lparr>ssWindows = [], ssCredits = []\<rparr>"

interpretation slo: invariant_system rollup_step slo_ok slo_empty
proof
  show "slo_ok slo_empty" by (simp add: slo_ok_def slo_empty_def)
  show "slo_ok s \<Longrightarrow> slo_ok (rollup_step op s)" for s op
    by (cases op) (auto split: sum.split dest: rollup_ok)
qed


text \<open>
  A request that is still running counts against the service level: the roll-up works on the
  current window and measures every request that has not succeeded yet as a failure, so
  a customer whose only request is being answered is breached and credited.
\<close>

theorem running_request_breaches:
  "let d = \<lparr>sdId = ''d'', sdName = ''gold'', sdWindowMinutes = 60, sdAvailabilityPct = 99,
            sdLatencyP95Ms = 5000, sdCreditMicros = 700\<rparr>;
       r = \<lparr>trCustomerId = ''c'', trStatus = Running, trLatencyMs = 0, trCreatedAt = 1000\<rparr>
   in map_sum id ssCredits (rollupSloWindows [d] [r] 2000 slo_empty) =
        Inr [\<lparr>scCustomer = ''c'', scAmountMicros = 700, scDefinitionName = ''gold'', scWindowStart = 0\<rparr>]"
  by code_simp

end
