(* ===== verification/VoiceSetup.thy ===== *)
theory VoiceSetup
  imports ChatWire
begin

text \<open>
  Speech-to-text models of the gateway: the catalogs and the one install at a time
  (\<^verbatim>\<open>lib/voice/modelJobs.ts\<close>), the selection kept in a file (\<^verbatim>\<open>lib/voice/runtimeConfig.ts\<close>), the routes
  over both (\<^verbatim>\<open>routes/internal.ts\<close>) and the environment the transcription uses (\<^verbatim>\<open>lib/voice/index.ts\<close>).
  An install is a closure with two awaits, the preload and the write of the selection; each return of
  one is a step. What follows the write (the import of a loaded module) is taken with it.
\<close>

subsection \<open>Providers and catalogs\<close>

datatype stt_provider = FasterWhisper | Nemo | HfSpace

definition provider_name :: "stt_provider \<Rightarrow> string" where
  "provider_name p = (case p of FasterWhisper \<Rightarrow> ''faster-whisper'' | Nemo \<Rightarrow> ''nemo'' | HfSpace \<Rightarrow> ''hf-space'')"

definition asProvider :: "string \<Rightarrow> stt_provider option" where
  "asProvider v = (if v = ''faster-whisper'' then Some FasterWhisper else if v = ''nemo'' then Some Nemo
     else if v = ''hf-space'' then Some HfSpace else None)"

text \<open>What is not a provider's name is taken for faster-whisper.\<close>

definition parseProvider :: "string \<Rightarrow> stt_provider" where
  "parseProvider v = or_default FasterWhisper (asProvider v)"

definition whisper_catalog :: "string list" where
  "whisper_catalog = [''tiny'', ''base'', ''small'', ''medium'', ''large-v2'', ''large-v3'', ''distil-large-v3'',
     ''bengaliAI/tugstugi_bengaliai-regional-asr_whisper-medium'']"

definition nemo_catalog :: "string list" where
  "nemo_catalog = [''kazalbrur/bangla-stt-conformer-120m-dialects'']"

definition default_hf_space :: string where
  "default_hf_space = ''bengaliAI/regional_bengali-asr_tugstugi_whisper-medium''"

definition hf_space_catalog :: "string list" where
  "hf_space_catalog = [default_hf_space]"

definition catalogForProvider :: "stt_provider \<Rightarrow> string list" where
  "catalogForProvider p = (case p of Nemo \<Rightarrow> nemo_catalog | HfSpace \<Rightarrow> hf_space_catalog | FasterWhisper \<Rightarrow> whisper_catalog)"

definition isAllowedModel :: "stt_provider \<Rightarrow> string \<Rightarrow> bool" where
  "isAllowedModel p m \<longleftrightarrow> m \<in> set (catalogForProvider p)"

subsection \<open>The selection file\<close>

record runtime_config =
  rtProvider :: stt_provider
  rtModel :: string
  rtUpdatedAt :: string

text \<open>\<^verbatim>\<open>JSON.stringify(next, null, 2)\<close> of the three texts, and a line end.\<close>

definition runtime_field :: "string \<Rightarrow> string \<Rightarrow> string" where
  "runtime_field k v = [newline] @ ''  '' @ json_string k @ '': '' @ json_string v"

definition runtime_text :: "runtime_config \<Rightarrow> string" where
  "runtime_text c = ''{'' @ runtime_field ''provider'' (provider_name (rtProvider c)) @ '',''
     @ runtime_field ''model'' (rtModel c) @ '','' @ runtime_field ''updatedAt'' (rtUpdatedAt c)
     @ [newline] @ ''}'' @ [newline]"

definition runtime_next :: "string \<Rightarrow> stt_provider \<Rightarrow> string \<Rightarrow> runtime_config" where
  "runtime_next now p m = \<lparr>rtProvider = p, rtModel = js_trim m, rtUpdatedAt = now\<rparr>"

definition epoch_text :: string where
  "epoch_text = ''1970-01-01T00:00:00.000Z''"

text \<open>\<^verbatim>\<open>None\<close> is a file that cannot be read.\<close>

definition readVoiceRuntimeConfig :: "string option \<Rightarrow> runtime_config option" where
  "readVoiceRuntimeConfig file =
     (case Option.bind file parse_json of
        None \<Rightarrow> None
      | Some v \<Rightarrow>
          (case js_prop ''model'' (Some v) of
             Some (JStr m) \<Rightarrow>
               if m = [] then None
               else Some \<lparr>rtProvider = (case js_prop ''provider'' (Some v) of
                              Some (JStr p) \<Rightarrow> or_default FasterWhisper (asProvider p) | _ \<Rightarrow> FasterWhisper),
                          rtModel = js_trim m,
                          rtUpdatedAt = (case js_prop ''updatedAt'' (Some v) of Some (JStr t) \<Rightarrow> t | _ \<Rightarrow> epoch_text)\<rparr>
           | _ \<Rightarrow> None))"

record stt_defaults =
  sdProvider :: stt_provider
  sdWhisperModel :: string
  sdNemoModel :: string
  sdHfSpace :: string

definition resolveActiveSttSelection :: "string option \<Rightarrow> stt_defaults \<Rightarrow> stt_provider \<times> string" where
  "resolveActiveSttSelection file d =
     (case readVoiceRuntimeConfig file of
        Some c \<Rightarrow> if rtModel c \<noteq> [] then (rtProvider c, rtModel c)
                  else (sdProvider d, case sdProvider d of
                     Nemo \<Rightarrow> or_text (js_trim (sdNemoModel d)) (sdWhisperModel d)
                   | HfSpace \<Rightarrow> or_text (js_trim (sdHfSpace d)) default_hf_space
                   | FasterWhisper \<Rightarrow> or_text (js_trim (sdWhisperModel d)) ''small'')
      | None \<Rightarrow> (sdProvider d, case sdProvider d of
                     Nemo \<Rightarrow> or_text (js_trim (sdNemoModel d)) (sdWhisperModel d)
                   | HfSpace \<Rightarrow> or_text (js_trim (sdHfSpace d)) default_hf_space
                   | FasterWhisper \<Rightarrow> or_text (js_trim (sdWhisperModel d)) ''small''))"

definition resolveVoiceEnv :: "string option \<Rightarrow> stt_defaults \<Rightarrow> stt_defaults" where
  "resolveVoiceEnv file env =
     (case resolveActiveSttSelection file env of
        (Nemo, m) \<Rightarrow> env\<lparr>sdProvider := Nemo, sdNemoModel := m\<rparr>
      | (HfSpace, m) \<Rightarrow> env\<lparr>sdProvider := HfSpace, sdHfSpace := m\<rparr>
      | (FasterWhisper, m) \<Rightarrow> env\<lparr>sdProvider := FasterWhisper, sdWhisperModel := m\<rparr>)"

text \<open>The model the transcription runs, as the upload route picks it from the environment.\<close>

definition active_stt_model :: "stt_defaults \<Rightarrow> string" where
  "active_stt_model env = (case sdProvider env of Nemo \<Rightarrow> sdNemoModel env | HfSpace \<Rightarrow> sdHfSpace env
     | FasterWhisper \<Rightarrow> sdWhisperModel env)"

definition isBengaliTunedSttModel :: "string \<Rightarrow> bool" where
  "isBengaliTunedSttModel m \<longleftrightarrow> list_ex (\<lambda>p. includes_at p (to_lower m))
     [''bengali'', ''bangla'', ''bengaliai'', ''tugstugi'', ''bhatiyali'', ''kazalbrur/bangla'']"

definition resolveSttLanguageHint :: "string option \<Rightarrow> string \<Rightarrow> string option" where
  "resolveSttLanguageHint configured m =
     (let v = to_lower (trimmed_or_empty configured)
      in if v = [] \<or> v = ''auto'' \<or> v = ''detect''
         then (if m \<noteq> [] \<and> isBengaliTunedSttModel m then Some ''bn'' else None) else Some v)"

subsection \<open>Installs\<close>

datatype job_status = Queued | Downloading | JobSucceeded | JobFailed

text \<open>\<^verbatim>\<open>vjWriting\<close> is the point of the closure: before or after the preload.\<close>

record voice_job =
  vjId :: string
  vjProvider :: stt_provider
  vjModel :: string
  vjStatus :: job_status
  vjActivate :: bool
  vjWriting :: bool
  vjError :: "string option"

record voice_world =
  vwJobs :: "voice_job list"
  vwActive :: "string option"
  vwFile :: "string option"

definition job_open :: "voice_job \<Rightarrow> bool" where
  "job_open j \<longleftrightarrow> vjStatus j = Queued \<or> vjStatus j = Downloading"

definition update_job :: "string \<Rightarrow> (voice_job \<Rightarrow> voice_job) \<Rightarrow> voice_world \<Rightarrow> voice_world" where
  "update_job i f w = w\<lparr>vwJobs := map (\<lambda>j. if vjId j = i then f j else j) (vwJobs w)\<rparr>"

text \<open>The \<^verbatim>\<open>finally\<close> clause.\<close>

definition clear_active :: "string \<Rightarrow> voice_world \<Rightarrow> voice_world" where
  "clear_active i w = (if vwActive w = Some i then w\<lparr>vwActive := None\<rparr> else w)"

definition finish_job :: "string \<Rightarrow> job_status \<Rightarrow> string option \<Rightarrow> voice_world \<Rightarrow> voice_world" where
  "finish_job i st e w = clear_active i (update_job i (\<lambda>j. j\<lparr>vjStatus := st, vjError := e\<rparr>) w)"

definition install_in_progress :: "voice_world \<Rightarrow> voice_job option" where
  "install_in_progress w =
     (case Option.bind (vwActive w) (\<lambda>i. table_find vjId i (vwJobs w)) of
        Some current \<Rightarrow> if job_open current then Some current else None
      | None \<Rightarrow> None)"

text \<open>
  The start: the guards, the job, and the closure up to its first \<^verbatim>\<open>await\<close>. A remote space has
  nothing to preload, and without activation nothing to wait for.
\<close>

definition new_job :: "string \<Rightarrow> stt_provider \<Rightarrow> string \<Rightarrow> bool \<Rightarrow> voice_job" where
  "new_job i p m activate = \<lparr>vjId = i, vjProvider = p, vjModel = m, vjStatus = Downloading,
     vjActivate = activate, vjWriting = (p = HfSpace), vjError = None\<rparr>"

definition startSttModelInstall ::
    "string \<Rightarrow> stt_provider \<Rightarrow> string \<Rightarrow> bool \<Rightarrow> voice_world \<Rightarrow> (string, string) result \<times> voice_world" where
  "startSttModelInstall newId p rawModel activate w =
     (let m = js_trim rawModel
      in if \<not> isAllowedModel p m then (Inl (''Unsupported '' @ provider_name p @ '' model: '' @ m), w)
         else
           (case install_in_progress w of
              Some current \<Rightarrow>
                (Inl (''Install already in progress for '' @ provider_name (vjProvider current) @ '':'' @ vjModel current), w)
            | None \<Rightarrow>
                (let w1 = w\<lparr>vwJobs := vwJobs w @ [new_job newId p m activate], vwActive := Some newId\<rparr>
                 in (Inr newId, if p = HfSpace \<and> \<not> activate then finish_job newId JobSucceeded None w1 else w1))))"

text \<open>The preload ends: with an error, or going on to the activation.\<close>

definition preload_ended :: "string \<Rightarrow> string option \<Rightarrow> voice_world \<Rightarrow> voice_world" where
  "preload_ended i e w =
     (case table_find vjId i (vwJobs w) of
        None \<Rightarrow> w
      | Some j \<Rightarrow>
          if \<not> job_open j \<or> vjWriting j then w
          else (case e of
                  Some msg \<Rightarrow> finish_job i JobFailed (Some msg) w
                | None \<Rightarrow> if vjActivate j then update_job i (\<lambda>j. j\<lparr>vjWriting := True\<rparr>) w
                          else finish_job i JobSucceeded None w))"

text \<open>The write of the selection ends.\<close>

definition write_ended :: "string \<Rightarrow> string \<Rightarrow> string option \<Rightarrow> voice_world \<Rightarrow> voice_world" where
  "write_ended now i e w =
     (case table_find vjId i (vwJobs w) of
        None \<Rightarrow> w
      | Some j \<Rightarrow>
          if \<not> job_open j \<or> \<not> vjWriting j then w
          else (case e of
                  Some msg \<Rightarrow> finish_job i JobFailed (Some msg) w
                | None \<Rightarrow> finish_job i JobSucceeded None
                            (w\<lparr>vwFile := Some (runtime_text (runtime_next now (vjProvider j) (vjModel j)))\<rparr>)))"

subsection \<open>Routes\<close>

text \<open>Provider and model of a request body; a provider that is not given is the environment's.\<close>

definition install_route ::
    "stt_defaults \<Rightarrow> string \<Rightarrow> string option \<Rightarrow> string option \<Rightarrow> bool \<Rightarrow> voice_world
     \<Rightarrow> (int \<times> string, string) result \<times> voice_world" where
  "install_route env newId provider model activate w =
     (let p = parseProvider (or_default (provider_name (sdProvider env)) provider); m = js_trim (or_empty model)
      in if m = [] then (Inl (400, ''model is required''), w)
         else (case startSttModelInstall newId p m activate w of
                 (Inl e, w') \<Rightarrow> (Inl (400, e), w') | (Inr i, w') \<Rightarrow> (Inr i, w')))"

definition activate_route ::
    "stt_defaults \<Rightarrow> string \<Rightarrow> bool \<Rightarrow> string option \<Rightarrow> string option \<Rightarrow> voice_world
     \<Rightarrow> (int \<times> string, stt_provider \<times> string) result \<times> voice_world" where
  "activate_route env now disk_ok provider model w =
     (let p = parseProvider (or_default (provider_name (sdProvider env)) provider); m = js_trim (or_empty model)
      in if m = [] then (Inl (400, ''model is required''), w)
         else if \<not> isAllowedModel p m then (Inl (400, ''Unsupported '' @ provider_name p @ '' model: '' @ m), w)
         else if \<not> disk_ok then (Inl (500, ''Activate failed''), w)
         else
           (let w' = w\<lparr>vwFile := Some (runtime_text (runtime_next now p m))\<rparr>
            in (Inr (resolveActiveSttSelection (vwFile w') env), w')))"

end
