(* ===== verification/Rag.thy ===== *)
theory Rag
  imports Prelude
begin

text \<open>
  Knowledge passages (\<^verbatim>\<open>packages/platform/src/rag.ts\<close>): chunking, the hashed bag-of-words
  embedding, lexical overlap, scoring and the choice of distinct passages. Text is a list
  of UTF-16 code units, as in the code; the Unicode tables of the runtime are a parameter.
\<close>

type_synonym utext = "nat list"

text \<open>
  \<^verbatim>\<open>normalize("NFC")\<close>, \<^verbatim>\<open>toLocaleLowerCase()\<close> and the matches of \<^verbatim>\<open>[\p{L}\p{M}\p{N}]+\<close>.
\<close>

record unicode =
  nfc :: "utext \<Rightarrow> utext"
  lower :: "utext \<Rightarrow> utext"
  words_of :: "utext \<Rightarrow> utext list"

definition lit :: "string \<Rightarrow> utext" where
  "lit s = map of_char s"

subsection \<open>White space, trimming and slices\<close>

definition u_space :: "nat \<Rightarrow> bool" where
  "u_space c \<longleftrightarrow> 9 \<le> c \<and> c \<le> 13 \<or> c = 32 \<or> c = 160 \<or> c = 0x1680 \<or> 0x2000 \<le> c \<and> c \<le> 0x200A
     \<or> c = 0x2028 \<or> c = 0x2029 \<or> c = 0x202F \<or> c = 0x205F \<or> c = 0x3000 \<or> c = 0xFEFF"

definition line_terminator :: "nat \<Rightarrow> bool" where
  "line_terminator c \<longleftrightarrow> c = 10 \<or> c = 13 \<or> c = 0x2028 \<or> c = 0x2029"

definition u_trimStart :: "utext \<Rightarrow> utext" where
  "u_trimStart s = dropWhile u_space s"

definition u_trim :: "utext \<Rightarrow> utext" where
  "u_trim s = rev (dropWhile u_space (rev (dropWhile u_space s)))"

definition u_slice :: "nat \<Rightarrow> nat \<Rightarrow> utext \<Rightarrow> utext" where
  "u_slice a b s = take (b - a) (drop a s)"

text \<open>\<^verbatim>\<open>search(/\s+\S*$/)\<close>: where the last run of white space begins.\<close>

definition last_gap :: "utext \<Rightarrow> nat option" where
  "last_gap w =
     (let r = dropWhile (\<lambda>c. \<not> u_space c) (rev w)
      in if r = [] then None else Some (length (dropWhile u_space r)))"

subsection \<open>Chunking\<close>

definition chunk_end :: "utext \<Rightarrow> nat \<Rightarrow> nat \<Rightarrow> nat" where
  "chunk_end source maxChars start =
     (let end0 = min (start + maxChars) (length source)
      in if end0 < length source
         then (case last_gap (u_slice start (end0 + 1) source) of
                 None \<Rightarrow> end0
               | Some b \<Rightarrow> if b > 0 then start + b else end0)
         else end0)"

lemma last_gap_le: "last_gap w = Some b \<Longrightarrow> b < length w"
proof -
  assume eq: "last_gap w = Some b"
  let ?r = "dropWhile (\<lambda>c. \<not> u_space c) (rev w)"
  have ne: "?r \<noteq> []" and b: "b = length (dropWhile u_space ?r)"
    using eq by (auto simp: last_gap_def Let_def split: if_splits)
  obtain c cs where r: "?r = c # cs" using ne by (cases ?r) auto
  have "u_space c" using r by (metis dropWhile_eq_Cons_conv)
  then have "b = length (dropWhile u_space cs)" using b r by simp
  also have "\<dots> < length ?r" using r length_dropWhile_le [of u_space cs] by simp
  also have "\<dots> \<le> length w" using length_dropWhile_le [of _ "rev w"] by simp
  finally show "b < length w" .
qed

lemma chunk_end_bounds:
  assumes "0 < maxChars" and "start < length source"
  shows "start < chunk_end source maxChars start"
    and "chunk_end source maxChars start \<le> start + maxChars"
    and "chunk_end source maxChars start \<le> length source"
proof -
  define e where "e = min (start + maxChars) (length source)"
  have e: "start < e" "e \<le> start + maxChars" "e \<le> length source"
    using assms by (auto simp: e_def)
  have "start + b \<le> e" if "last_gap (u_slice start (e + 1) source) = Some b" for b
    using last_gap_le [OF that] e(1) by (simp add: u_slice_def) arith
  then have "start < chunk_end source maxChars start \<and> chunk_end source maxChars start \<le> e"
    using e by (fastforce simp: chunk_end_def Let_def e_def [symmetric] split: option.split)
  then show "start < chunk_end source maxChars start"
    and "chunk_end source maxChars start \<le> start + maxChars"
    and "chunk_end source maxChars start \<le> length source"
    using e by auto
qed

definition chunk_at :: "utext \<Rightarrow> nat \<Rightarrow> nat \<Rightarrow> utext list" where
  "chunk_at source maxChars start =
     (let chunk = u_trim (u_slice start (chunk_end source maxChars start) source)
      in if chunk \<noteq> [] then [chunk] else [])"

definition next_start :: "utext \<Rightarrow> nat \<Rightarrow> nat \<Rightarrow> nat \<Rightarrow> nat" where
  "next_start source maxChars overlap start =
     (let e = chunk_end source maxChars start
      in if e - overlap \<le> start then e else e - overlap)"

text \<open>
  The loop. The first test repeats the caller's check that \<^verbatim>\<open>maxChars\<close> is positive; with it
  every step moves \<^verbatim>\<open>start\<close> forward.
\<close>

function chunk_loop :: "utext \<Rightarrow> nat \<Rightarrow> nat \<Rightarrow> nat \<Rightarrow> utext list" where
  "chunk_loop source maxChars overlap start =
     (if maxChars = 0 \<or> \<not> start < length source then []
      else if chunk_end source maxChars start \<ge> length source then chunk_at source maxChars start
      else chunk_at source maxChars start
             @ chunk_loop source maxChars overlap (next_start source maxChars overlap start))"
  by pat_completeness auto
termination
  by (relation "measure (\<lambda>(source, _, _, start). length source - start)")
    (use chunk_end_bounds(1) in \<open>auto simp: next_start_def Let_def intro: diff_less_mono2\<close>)

declare chunk_loop.simps [simp del]

datatype rag_error = RagRangeError string

definition chunkText :: "utext \<Rightarrow> int \<Rightarrow> int \<Rightarrow> (rag_error, utext list) result" where
  "chunkText src maxChars overlapChars =
     (if maxChars > 9007199254740991 \<or> maxChars \<le> 0
      then Inl (RagRangeError ''maxChars must be a positive integer'')
      else Inr (chunk_loop (u_trim src) (nat maxChars) (nat (max 0 (min overlapChars (maxChars - 1)))) 0))"

subsection \<open>Words, overlap and embeddings\<close>

fun replace_pair :: "nat \<Rightarrow> nat \<Rightarrow> nat \<Rightarrow> utext \<Rightarrow> utext" where
  "replace_pair a b c (x # y # s) =
     (if x = a \<and> y = b then c # replace_pair a b c s else x # replace_pair a b c (y # s))"
| "replace_pair a b c s = s"

definition normalizeSearchText :: "unicode \<Rightarrow> utext \<Rightarrow> utext" where
  "normalizeSearchText u t =
     lower u (replace_pair 0x9AF 0x9BC 0x9AF (map (\<lambda>c. if c = 0x9DF then 0x9AF else c) (nfc u t)))"

definition tokenize :: "unicode \<Rightarrow> utext \<Rightarrow> utext list" where
  "tokenize u t = words_of u (normalizeSearchText u t)"

definition lexicalOverlap :: "unicode \<Rightarrow> utext \<Rightarrow> utext \<Rightarrow> rat" where
  "lexicalOverlap u query document =
     (let queryTokens = remdups (tokenize u query); documentTokens = tokenize u document
      in if queryTokens = [] then 0
         else of_nat (length (filter (\<lambda>t. t \<in> set documentTokens) queryTokens))
                / of_nat (length queryTokens))"

definition cosineSimilarity :: "(rat \<Rightarrow> rat) \<Rightarrow> rat list \<Rightarrow> rat list \<Rightarrow> (rag_error, rat) result" where
  "cosineSimilarity sq left right =
     (if length left \<noteq> length right then Inl (RagRangeError ''Vectors must have equal dimensions'')
      else
        (let dot = sum_list (map2 (*) left right);
             leftMagnitude = sum_list (map (\<lambda>x. x * x) left);
             rightMagnitude = sum_list (map (\<lambda>x. x * x) right)
         in if leftMagnitude = 0 \<or> rightMagnitude = 0 then Inr 0
            else Inr (dot / sq (leftMagnitude * rightMagnitude))))"

text \<open>FNV-1a on 32 bits: \<^verbatim>\<open>Math.imul\<close> and the final \<^verbatim>\<open>>>> 0\<close> are the wrap-around of the word.\<close>

definition hashToken :: "utext \<Rightarrow> 32 word" where
  "hashToken t = fold (\<lambda>c h. xor h (of_nat c) * 0x01000193) t 0x811c9dc5"

definition bump :: "nat \<Rightarrow> nat list \<Rightarrow> nat list" where
  "bump d v = v[d := v ! d + 1]"

definition simpleEmbed :: "unicode \<Rightarrow> utext \<Rightarrow> nat list" where
  "simpleEmbed u t =
     fold (\<lambda>tok. bump (unat (hashToken tok) mod 64)) (tokenize u t) (replicate 64 0)"

subsection \<open>Headings\<close>

text \<open>
  The capture of \<^verbatim>\<open>^#{1,3}\s+(.+)$\<close> with flag \<^verbatim>\<open>m\<close>, trimmed, at the first line it
  matches. When only white space follows the hashes, \<^verbatim>\<open>\s+\<close> gives one character back to
  \<^verbatim>\<open>(.+)\<close> if it is not a line end, and the trimmed capture is empty.
\<close>

definition heading_at :: "utext \<Rightarrow> utext option" where
  "heading_at s =
     (let hashes = length (takeWhile (\<lambda>c. c = 35) s);
          r = drop hashes s; gap = takeWhile u_space r; rest = dropWhile u_space r
      in if hashes = 0 \<or> hashes > 3 \<or> gap = [] then None
         else if rest \<noteq> [] then Some (u_trim (takeWhile (\<lambda>c. \<not> line_terminator c) rest))
         else if list_ex (\<lambda>c. \<not> line_terminator c) (tl gap) then Some [] else None)"

fun first_heading :: "bool \<Rightarrow> utext \<Rightarrow> utext option" where
  "first_heading at_start [] = None"
| "first_heading at_start (c # s) =
     (case (if at_start then heading_at (c # s) else None) of
        Some h \<Rightarrow> Some h
      | None \<Rightarrow> first_heading (line_terminator c) s)"

text \<open>The lazy \<^verbatim>\<open>(.+?)\r?$\<close> captures the same text, and an empty heading is none.\<close>

definition faqHeading :: "utext \<Rightarrow> utext option" where
  "faqHeading content =
     (let trimmed = u_trimStart content
      in if take 1 trimmed \<noteq> [35] then None
         else (case first_heading True trimmed of
                 None \<Rightarrow> None | Some h \<Rightarrow> if h = [] then None else Some h))"

definition rank_heading :: "utext \<Rightarrow> utext" where
  "rank_heading content =
     u_trim (filter (\<lambda>c. c \<noteq> 13)
       (case first_heading True content of Some h \<Rightarrow> h | None \<Rightarrow> take 160 content))"

subsection \<open>FAQ documents\<close>

fun count_line_starts :: "utext \<Rightarrow> bool \<Rightarrow> utext \<Rightarrow> nat" where
  "count_line_starts p at_start [] = 0"
| "count_line_starts p at_start (c # s) =
     (if at_start \<and> take (length p) (c # s) = p then 1 else 0) + count_line_starts p (line_terminator c) s"

definition looksLikeFaqMarkdown :: "utext \<Rightarrow> bool" where
  "looksLikeFaqMarkdown t \<longleftrightarrow> count_line_starts (lit ''### '') True t \<ge> 3"

text \<open>\<^verbatim>\<open>split(/(?=^### )/m)\<close>: a new block before every heading, never before the first character.\<close>

fun split_blocks :: "utext \<Rightarrow> bool \<Rightarrow> utext \<Rightarrow> utext list" where
  "split_blocks p brk [] = [[]]"
| "split_blocks p brk (c # s) =
     (let blocks = split_blocks p (line_terminator c) s; here = (c # hd blocks) # tl blocks
      in if brk \<and> take (length p) (c # s) = p then [] # here else here)"

definition title_block :: "utext \<Rightarrow> bool" where
  "title_block b \<longleftrightarrow> take 2 b = lit ''# '' \<or> (take 3 b = lit ''## '' \<and> take 4 b \<noteq> lit ''### '')"

definition chunkFaqMarkdown :: "utext \<Rightarrow> int \<Rightarrow> (rag_error, utext list) result" where
  "chunkFaqMarkdown t maxChars =
     foldr (\<lambda>block acc.
       (if title_block block then acc
        else if int (length block) \<le> maxChars then map_sum (\<lambda>e. e) ((#) block) acc
        else (case chunkText block maxChars 80 of
                Inl e \<Rightarrow> Inl e
              | Inr cs \<Rightarrow> map_sum (\<lambda>e. e) ((@) cs) acc)))
       (filter (\<lambda>b. b \<noteq> []) (map u_trim (split_blocks (lit ''### '') False t))) (Inr [])"

record knowledge_chunk =
  kcOrdinal :: nat
  kcContent :: utext
  kcTokenCount :: int
  kcEmbedding :: "nat list"

definition prepareKnowledgeChunks :: "unicode \<Rightarrow> utext \<Rightarrow> int \<Rightarrow> (rag_error, knowledge_chunk list) result" where
  "prepareKnowledgeChunks u content maxChars =
     map_sum (\<lambda>e. e)
       (\<lambda>parts. map (\<lambda>(i, c). \<lparr>kcOrdinal = i, kcContent = c, kcTokenCount = ceil_div (int (length c)) 4,
                                kcEmbedding = simpleEmbed u c\<rparr>) (enumerate 0 parts))
       (if looksLikeFaqMarkdown content then chunkFaqMarkdown content (max maxChars 4000)
        else chunkText content maxChars (min 120 (maxChars div 6)))"

subsection \<open>Scores\<close>

text \<open>The Bangla words of the scoring rules, as code units; the names are their translations.\<close>

definition how_bn :: utext where
  "how_bn = [0x995, 0x9BF, 0x9AD, 0x9BE, 0x9AC, 0x9C7]"

definition how_bn2 :: utext where
  "how_bn2 = [0x995, 0x9C0, 0x9AD, 0x9BE, 0x9AC, 0x9C7]"

definition process_bn :: utext where
  "process_bn = [0x9AA, 0x9CD, 0x9B0, 0x995, 0x9CD, 0x9B0, 0x9BF, 0x9DF, 0x9BE]"

definition method_bn :: utext where
  "method_bn = [0x9AA, 0x9A6, 0x9CD, 0x9A7, 0x9A4, 0x9BF]"

definition submit_i_bn :: utext where
  "submit_i_bn = [0x99C, 0x9AE, 0x9BE, 0x20, 0x9A6, 0x9BF]"

definition file_do_bn :: utext where
  "file_do_bn = [0x9A6, 0x9BE, 0x996, 0x9BF, 0x9B2, 0x20, 0x995, 0x9B0]"

definition tax_bn :: utext where
  "tax_bn = [0x986, 0x9DF, 0x995, 0x9B0]"

definition return_bn :: utext where
  "return_bn = [0x9B0, 0x9BF, 0x99F, 0x9BE, 0x9B0, 0x9CD, 0x9A8]"

definition submit_bn :: utext where
  "submit_bn = [0x99C, 0x9AE, 0x9BE]"

definition file_bn :: utext where
  "file_bn = [0x9A6, 0x9BE, 0x996, 0x9BF, 0x9B2]"

definition start_bn :: utext where
  "start_bn = [0x9B6, 0x9C1, 0x9B0, 0x9C1, 0x20, 0x995, 0x9B0]"

definition where_file_bn :: utext where
  "where_file_bn = [0x995, 0x9CB, 0x9A5, 0x9BE, 0x9DF, 0x20, 0x9A6, 0x9BE, 0x996, 0x9BF, 0x9B2]"

definition submit_for_bn :: utext where
  "submit_for_bn = [0x99C, 0x9AE, 0x9BE, 0x20, 0x9A6, 0x9C7, 0x9AC, 0x9BE, 0x9B0]"

definition submit_giving_bn :: utext where
  "submit_giving_bn = [0x99C, 0x9AE, 0x9BE, 0x20, 0x9A6, 0x9C7, 0x993]"

definition supporting_bn :: utext where
  "supporting_bn = [0x9B8, 0x9BE, 0x9AA, 0x9CB, 0x9B0, 0x9CD, 0x99F, 0x9BF, 0x982]"

definition cancel_bn :: utext where
  "cancel_bn = [0x9AC, 0x9BE, 0x9A4, 0x9BF, 0x9B2]"

definition jurisdiction_bn :: utext where
  "jurisdiction_bn = [0x985, 0x9A7, 0x9C0, 0x995, 0x9CD, 0x9B7, 0x9C7, 0x9A4, 0x9CD, 0x9B0]"

definition credit_bn :: utext where
  "credit_bn = [0x995, 0x9CD, 0x9B0, 0x9C7, 0x9A1, 0x9BF, 0x99F]"

definition what_bn :: utext where
  "what_bn = [0x995, 0x9BF]"

definition what_bn2 :: utext where
  "what_bn2 = [0x995, 0x9C0]"

fun u_includes :: "utext \<Rightarrow> utext \<Rightarrow> bool" where
  "u_includes p [] = (p = [])"
| "u_includes p (c # s) = (take (length p) (c # s) = p \<or> u_includes p s)"

text \<open>\<^verbatim>\<open>includesNormalized(h, w)\<close> for one of several words: \<^verbatim>\<open>a || b || ...\<close>.\<close>

definition has_any :: "unicode \<Rightarrow> utext \<Rightarrow> utext list \<Rightarrow> bool" where
  "has_any u h ws = list_ex (\<lambda>w. u_includes (normalizeSearchText u w) h) ws"

text \<open>A white space, the word, optional white space and a question mark, anywhere in the text.\<close>

fun asks :: "utext \<Rightarrow> utext \<Rightarrow> bool" where
  "asks w [] = False"
| "asks w (c # s) =
     (u_space c \<and> take (length w) s = w \<and> take 1 (dropWhile u_space (drop (length w) s)) = [63]
      \<or> asks w s)"

definition processHeadingBoost :: "unicode \<Rightarrow> utext \<Rightarrow> utext \<Rightarrow> rat" where
  "processHeadingBoost u query heading =
     (let q = normalizeSearchText u query; h = normalizeSearchText u heading;
          wantsProcess = has_any u q [how_bn, how_bn2, lit ''how to'', process_bn, method_bn,
                                      submit_i_bn, file_do_bn];
          filingReturn = has_any u q [tax_bn, return_bn, lit ''income tax'']
            \<and> has_any u q [submit_bn, file_bn, lit ''submit'', lit ''file''];
          boost1 = (if filingReturn \<and> has_any u h [return_bn]
                       \<and> has_any u h [process_bn, method_bn, start_bn, where_file_bn] then 55 / 100
                    else if has_any u h [process_bn, method_bn] then 45 / 100
                    else if has_any u h [how_bn, how_bn2, start_bn] then 12 / 100 else 0);
          boost2 = (if has_any u q [submit_i_bn, file_do_bn]
                       \<and> has_any u h [submit_for_bn, submit_giving_bn, process_bn] then 20 / 100 else 0);
          boost3 = (if filingReturn
                       \<and> has_any u h [supporting_bn, lit ''attach'', cancel_bn, jurisdiction_bn, credit_bn]
                       \<and> \<not> has_any u q [supporting_bn, lit ''attach'', cancel_bn, credit_bn]
                    then - (40 / 100) else 0);
          boost4 = (if (asks what_bn h \<or> asks what_bn2 h \<or> u_includes (lit ''what is'') h
                          \<or> has_any u h [lit '' '' @ what_bn @ lit ''?''])
                       \<and> \<not> has_any u h [submit_bn, file_bn, process_bn, method_bn]
                    then - (22 / 100) else 0)
      in if \<not> wantsProcess then 0 else boost1 + boost2 + boost3 + boost4)"

text \<open>\<^verbatim>\<open>paScore\<close> is what ranking adds to a chunk; \<^verbatim>\<open>paEmbedding\<close> is the stored vector when it parses.\<close>

record passage =
  paId :: string
  paBase :: string
  paBaseName :: utext
  paDocument :: string
  paTitle :: utext
  paOrdinal :: nat
  paContent :: utext
  paEmbedding :: "rat list option"
  paScore :: rat

definition passage_score :: "unicode \<Rightarrow> (rat \<Rightarrow> rat) \<Rightarrow> utext \<Rightarrow> passage \<Rightarrow> rat" where
  "passage_score u sq query p =
     (let queryEmbedding = map of_nat (simpleEmbed u query);
          stored = (case paEmbedding p of
                      Some v \<Rightarrow> v | None \<Rightarrow> map of_nat (simpleEmbed u (paContent p)));
          cosine = (if length stored = length queryEmbedding
                    then (case cosineSimilarity sq queryEmbedding stored of Inl _ \<Rightarrow> 0 | Inr c \<Rightarrow> c)
                    else 0);
          lexical = lexicalOverlap u query (paContent p);
          heading = rank_heading (paContent p);
          headingMatch = lexicalOverlap u query heading;
          needle = lower u (u_trim query);
          contained = (if length needle \<ge> 4
              \<and> u_includes (normalizeSearchText u needle) (normalizeSearchText u (paContent p))
            then 2 / 10 else 0)
      in 2 / 10 * cosine + 35 / 100 * lexical + 3 / 10 * headingMatch + contained
         + processHeadingBoost u query heading)"

subsection \<open>Distinct passages\<close>

definition near_duplicate :: "unicode \<Rightarrow> utext \<Rightarrow> utext \<Rightarrow> bool" where
  "near_duplicate u existing chunk =
     (case (faqHeading existing, faqHeading chunk) of
        (Some e, Some c) \<Rightarrow> lexicalOverlap u e c \<ge> 86 / 100
      | _ \<Rightarrow> lexicalOverlap u (take 280 existing) (take 280 chunk) \<ge> 72 / 100)"

fun diversify :: "unicode \<Rightarrow> nat \<Rightarrow> passage list \<Rightarrow> passage list \<Rightarrow> passage list" where
  "diversify u topK picked [] = picked"
| "diversify u topK picked (c # cs) =
     (if list_ex (\<lambda>e. near_duplicate u (paContent e) (paContent c)) picked
      then diversify u topK picked cs
      else if length (picked @ [c]) \<ge> topK then picked @ [c]
      else diversify u topK (picked @ [c]) cs)"

definition diversifyChunks :: "unicode \<Rightarrow> passage list \<Rightarrow> nat \<Rightarrow> passage list" where
  "diversifyChunks u ranked topK = diversify u topK [] ranked"

definition rankChunks ::
    "unicode \<Rightarrow> (rat \<Rightarrow> rat) \<Rightarrow> utext \<Rightarrow> passage list \<Rightarrow> int option \<Rightarrow> rat option \<Rightarrow> passage list" where
  "rankChunks u sq query chunks topK minScore =
     (let k = nat (max 1 (min (case topK of None \<Rightarrow> 5 | Some n \<Rightarrow> n) 12));
          least = (case minScore of None \<Rightarrow> 12 / 100 | Some x \<Rightarrow> x);
          scored = js_sort (\<lambda>l r. paScore r - paScore l)
            (filter (\<lambda>p. paScore p \<ge> least)
              (map (\<lambda>p. p\<lparr>paScore := passage_score u sq query p\<rparr>) chunks))
      in diversifyChunks u scored k)"

end
