(* ===== verification/Retrieval.thy ===== *)
theory Retrieval
  imports Rag
begin

text \<open>
  Retrieval for a customer's chat (\<^verbatim>\<open>apps/gateway/src/lib/retrieval.ts\<close>): token limits, the
  context budget, the catalog question, the lookup of passages and the grounded
  conversation. The database returns rows in table order.
\<close>

definition lit_quote :: "utext \<Rightarrow> utext" where
  "lit_quote s = [34] @ s @ [34]"

subsection \<open>Token limits and the context budget\<close>

record chat_turn =
  ctRole :: string
  ctContent :: utext

definition estimatePromptTokens :: "utext \<Rightarrow> int" where
  "estimatePromptTokens t = max 1 (ceil_div (int (length t)) 2)"

definition prompt_estimate :: "chat_turn list \<Rightarrow> int" where
  "prompt_estimate messages = sum_list (map (\<lambda>m. estimatePromptTokens (ctContent m)) messages) + 96"

definition clampMaxTokens :: "int \<Rightarrow> chat_turn list \<Rightarrow> int \<Rightarrow> int" where
  "clampMaxTokens contextLength messages requested =
     (let room = contextLength - prompt_estimate messages
      in max 48 (min requested (max 48 room)))"

definition passageCharBudget :: "int \<Rightarrow> int" where
  "passageCharBudget contextLength = max 800 \<lfloor>(of_int contextLength * (9 / 10) :: rat)\<rfloor>"

record retrieval_hit =
  rhChunkId :: string
  rhBase :: string
  rhBaseName :: utext
  rhDocument :: string
  rhTitle :: utext
  rhOrdinal :: nat
  rhContent :: utext
  rhScore :: rat

fun fit_loop :: "int \<Rightarrow> retrieval_hit list \<Rightarrow> int \<Rightarrow> retrieval_hit list \<Rightarrow> retrieval_hit list" where
  "fit_loop budget fitted used [] = fitted"
| "fit_loop budget fitted used (h # hs) =
     (if fitted \<noteq> [] \<and> used + int (length (rhContent h)) > budget then fitted
      else fit_loop budget (fitted @ [h]) (used + int (length (rhContent h))) hs)"

definition fitHitsToBudget :: "retrieval_hit list \<Rightarrow> int \<Rightarrow> retrieval_hit list" where
  "fitHitsToBudget hits contextLength =
     (let fitted = fit_loop (passageCharBudget contextLength) [] 0 hits
      in if fitted \<noteq> [] then fitted else take 1 hits)"

definition lastUserQuery :: "chat_turn list \<Rightarrow> utext" where
  "lastUserQuery messages =
     (case find (\<lambda>m. ctRole m = ''user'' \<and> u_trim (ctContent m) \<noteq> []) (rev messages) of
        Some m \<Rightarrow> ctContent m | None \<Rightarrow> [])"

subsection \<open>The catalog question\<close>

text \<open>The parts of the regular expressions the two tests use; alternatives are lists of patterns.\<close>

datatype rx = Lit utext | Spaces | OneOf "nat list" | Boundary

definition ascii_word :: "nat \<Rightarrow> bool" where
  "ascii_word c \<longleftrightarrow> 48 \<le> c \<and> c \<le> 57 \<or> 65 \<le> c \<and> c \<le> 90 \<or> 97 \<le> c \<and> c \<le> 122 \<or> c = 95"

definition word_edge :: "nat option \<Rightarrow> utext \<Rightarrow> bool" where
  "word_edge prev s =
     ((case prev of None \<Rightarrow> False | Some c \<Rightarrow> ascii_word c)
        \<noteq> (case s of [] \<Rightarrow> False | c # _ \<Rightarrow> ascii_word c))"

fun rx_at :: "rx list \<Rightarrow> nat option \<Rightarrow> utext \<Rightarrow> bool" where
  "rx_at [] prev s = True"
| "rx_at (Lit w # r) prev s =
     (take (length w) s = w \<and> rx_at r (if w = [] then prev else Some (last w)) (drop (length w) s))"
| "rx_at (Spaces # r) prev [] = rx_at r prev []"
| "rx_at (Spaces # r) prev (c # s) =
     (rx_at r prev (c # s) \<or> (u_space c \<and> rx_at (Spaces # r) (Some c) s))"
| "rx_at (OneOf cs # r) prev [] = False"
| "rx_at (OneOf cs # r) prev (c # s) = (c \<in> set cs \<and> rx_at r (Some c) s)"
| "rx_at (Boundary # r) prev s = (word_edge prev s \<and> rx_at r prev s)"

fun rx_search :: "rx list \<Rightarrow> nat option \<Rightarrow> utext \<Rightarrow> bool" where
  "rx_search r prev [] = rx_at r prev []"
| "rx_search r prev (c # s) = (rx_at r prev (c # s) \<or> rx_search r (Some c) s)"

definition rx_test :: "rx list list \<Rightarrow> utext \<Rightarrow> bool" where
  "rx_test alternatives s = list_ex (\<lambda>r. rx_search r None s) alternatives"

definition library_patterns :: "rx list list" where
  "library_patterns =
     [[Lit (lit ''knowledge''), Spaces, Lit (lit ''base'')], [Lit (lit ''knowledgebase'')],
      [Lit [0x9A8, 0x9B2, 0x9C7, 0x99C], Spaces, Lit [0x9AC, 0x9C7, 0x9B8]],
      [Lit [0x9A8, 0x9B2, 0x9C7, 0x99C, 0x9AC, 0x9C7, 0x9B8]],
      [Boundary, Lit (lit ''kb''), Boundary], [Lit (lit ''ingested documents'')],
      [Lit [0x986, 0x9AE, 0x9BE, 0x9B0, 0x20, 0x9A8, 0x9A5, 0x9BF]]]"

definition listing_patterns :: "rx list list" where
  "listing_patterns =
     [[Lit [0x995], OneOf [0x9C0, 0x9BF], Spaces, Lit [0x986, 0x99B, 0x9C7]],
      [Lit [0x995, 0x9BF], Spaces, Lit [0x995, 0x9BF]],
      [Lit (lit ''what'' @ [39] @ lit ''s in'')], [Lit (lit ''what is in'')],
      [Lit (lit ''what do i have'')], [Lit (lit ''what do you have'')],
      [Lit (lit ''list docs'')], [Lit (lit ''list documents'')],
      [Lit (lit ''list the docs'')], [Lit (lit ''list the documents'')],
      [Lit (lit ''contents'')], [Lit (lit ''catalog'')], [Lit (lit ''index'')],
      [Lit [0x995, 0x9CB, 0x9A8, 0x20, 0x9A8, 0x9A5, 0x9BF]],
      [Lit [0x995, 0x9C0, 0x20, 0x9A8, 0x9A5, 0x9BF]]]"

definition isKnowledgeCatalogQuery :: "unicode \<Rightarrow> utext \<Rightarrow> bool" where
  "isKnowledgeCatalogQuery u query =
     (let q = lower u (u_trim (nfc u query))
      in q \<noteq> [] \<and> rx_test library_patterns q \<and> rx_test listing_patterns q)"

text \<open>The script property \<^verbatim>\<open>Bengali\<close>.\<close>

definition bengali :: "nat \<Rightarrow> bool" where
  "bengali c \<longleftrightarrow> 0x980 \<le> c \<and> c \<le> 0x983 \<or> 0x985 \<le> c \<and> c \<le> 0x98C \<or> c = 0x98F \<or> c = 0x990
     \<or> 0x993 \<le> c \<and> c \<le> 0x9A8 \<or> 0x9AA \<le> c \<and> c \<le> 0x9B0 \<or> c = 0x9B2 \<or> 0x9B6 \<le> c \<and> c \<le> 0x9B9
     \<or> 0x9BC \<le> c \<and> c \<le> 0x9C4 \<or> c = 0x9C7 \<or> c = 0x9C8 \<or> 0x9CB \<le> c \<and> c \<le> 0x9CE \<or> c = 0x9D7
     \<or> c = 0x9DC \<or> c = 0x9DD \<or> 0x9DF \<le> c \<and> c \<le> 0x9E3 \<or> 0x9E6 \<le> c \<and> c \<le> 0x9FE"

definition prefersBanglaReply :: "utext \<Rightarrow> bool" where
  "prefersBanglaReply query =
     (let bangla = length (filter bengali query);
          latin = length (filter (\<lambda>c. 65 \<le> c \<and> c \<le> 90 \<or> 97 \<le> c \<and> c \<le> 122) query)
      in bangla \<ge> 4 \<and> bangla \<ge> latin)"

subsection \<open>The grounded conversation\<close>

text \<open>The fixed wording of the prompts.\<close>

record wording =
  groundedPrompt :: utext
  catalogPrompt :: utext
  nothingFound :: utext
  banglaDirective :: utext
  otherDirective :: utext

datatype retrieval_mode = Passages | Catalog

definition replyLanguageDirective :: "wording \<Rightarrow> utext \<Rightarrow> utext" where
  "replyLanguageDirective w query =
     (if prefersBanglaReply query then banglaDirective w else otherDirective w)"

fun u_join :: "utext \<Rightarrow> utext list \<Rightarrow> utext" where
  "u_join sep [] = []"
| "u_join sep [x] = x"
| "u_join sep (x # y # zs) = x @ sep @ u_join sep (y # zs)"

definition passage_text :: "nat \<times> retrieval_hit \<Rightarrow> utext" where
  "passage_text = (\<lambda>(index, h).
     lit ''['' @ lit (show_int (int index + 1)) @ lit ''] '' @ rhTitle h @ [10] @ rhContent h)"

definition applyRetrievalContext ::
    "wording \<Rightarrow> chat_turn list \<Rightarrow> retrieval_hit list \<Rightarrow> retrieval_mode \<Rightarrow> chat_turn list" where
  "applyRetrievalContext w messages hits mode =
     (let passages = (if hits = [] then nothingFound w
                      else u_join [10, 10] (map passage_text (enumerate 0 hits)));
          instructions = (if mode = Catalog then catalogPrompt w else groundedPrompt w);
          grounded = \<lparr>ctRole = ''system'',
            ctContent = instructions @ [10, 10] @ lit ''Knowledge ''
              @ lit (if mode = Catalog then ''catalog'' else ''passages'') @ lit '':'' @ [10]
              @ passages @ [10, 10] @ replyLanguageDirective w (lastUserQuery messages)\<rparr>
      in grounded # filter (\<lambda>m. ctRole m \<noteq> ''system'') messages)"

text \<open>\<^verbatim>\<open>replace(/\s+/g, " ")\<close> and \<^verbatim>\<open>Number(x.toFixed(3))\<close>.\<close>

fun collapse :: "bool \<Rightarrow> utext \<Rightarrow> utext" where
  "collapse in_gap [] = []"
| "collapse in_gap (c # s) =
     (if u_space c then (if in_gap then collapse True s else 32 # collapse True s)
      else c # collapse False s)"

definition to_fixed3 :: "rat \<Rightarrow> rat" where
  "to_fixed3 x = (if x < 0 then - (of_int \<lfloor>(- x) * 1000 + 1 / 2\<rfloor> / 1000)
                  else of_int \<lfloor>x * 1000 + 1 / 2\<rfloor> / 1000)"

record public_hit =
  phTitle :: utext
  phKnowledgeBase :: utext
  phScore :: rat
  phExcerpt :: utext

definition hit_key :: "retrieval_hit \<Rightarrow> utext" where
  "hit_key h = (if rhDocument h = [] then rhTitle h else lit (rhDocument h))"

fun first_by :: "('a \<Rightarrow> 'k) \<Rightarrow> 'k list \<Rightarrow> 'a list \<Rightarrow> 'a list" where
  "first_by key seen [] = []"
| "first_by key seen (x # xs) =
     (if key x \<in> set seen then first_by key seen xs else x # first_by key (key x # seen) xs)"

definition publicRetrievalHits :: "retrieval_hit list \<Rightarrow> public_hit list" where
  "publicRetrievalHits hits =
     map (\<lambda>h. \<lparr>phTitle = rhTitle h, phKnowledgeBase = rhBaseName h, phScore = to_fixed3 (rhScore h),
               phExcerpt = u_trim (take 120 (collapse False (rhContent h)))\<rparr>)
       (first_by hit_key [] hits)"

subsection \<open>The lookup\<close>

datatype ingestion_status = ING_PENDING | ING_RUNNING | ING_SUCCEEDED | ING_FAILED

record knowledge_base =
  kbId :: string
  kbCustomer :: string
  kbName :: utext

record knowledge_document =
  kdId :: string
  kdBase :: string
  kdTitle :: utext
  kdStatus :: ingestion_status
  kdCreatedAt :: int

record document_version =
  dvId :: string
  dvDocument :: string
  dvVersion :: int

record chunk_row =
  crId :: string
  crVersion :: string
  crOrdinal :: nat
  crContent :: utext
  crEmbedding :: "rat list option"

record knowledge_db =
  bases :: "knowledge_base list"
  documents :: "knowledge_document list"
  versions :: "document_version list"
  chunks :: "chunk_row list"

record retrieval_result =
  rrBases :: "string list"
  rrTopK :: int
  rrQuery :: utext
  rrHits :: "retrieval_hit list"
  rrMode :: retrieval_mode

datatype retrieval_error = RetrievalError string

definition own_bases :: "knowledge_db \<Rightarrow> string \<Rightarrow> string list \<Rightarrow> knowledge_base list" where
  "own_bases db customer ids = filter (\<lambda>b. kbCustomer b = customer \<and> kbId b \<in> set ids) (bases db)"

text \<open>The join of a chunk with its version, document and knowledge base.\<close>

definition passage_of :: "knowledge_db \<Rightarrow> chunk_row \<Rightarrow> passage option" where
  "passage_of db c =
     Option.bind (table_find dvId (crVersion c) (versions db)) (\<lambda>v.
     Option.bind (table_find kdId (dvDocument v) (documents db)) (\<lambda>d.
     map_option (\<lambda>b. \<lparr>paId = crId c, paBase = kbId b, paBaseName = kbName b, paDocument = kdId d,
        paTitle = kdTitle d, paOrdinal = crOrdinal c, paContent = crContent c,
        paEmbedding = crEmbedding c, paScore = 0\<rparr>) (table_find kbId (kdBase d) (bases db))))"

definition searchable :: "knowledge_db \<Rightarrow> string list \<Rightarrow> chunk_row \<Rightarrow> bool" where
  "searchable db ids c =
     (case table_find dvId (crVersion c) (versions db) of
        None \<Rightarrow> False
      | Some v \<Rightarrow>
          (case table_find kdId (dvDocument v) (documents db) of
             None \<Rightarrow> False | Some d \<Rightarrow> kdStatus d = ING_SUCCEEDED \<and> kdBase d \<in> set ids))"

definition hit_of :: "passage \<Rightarrow> retrieval_hit" where
  "hit_of p = \<lparr>rhChunkId = paId p, rhBase = paBase p, rhBaseName = paBaseName p,
     rhDocument = paDocument p, rhTitle = paTitle p, rhOrdinal = paOrdinal p,
     rhContent = paContent p, rhScore = paScore p\<rparr>"

definition opening_chunk :: "knowledge_db \<Rightarrow> knowledge_document \<Rightarrow> chunk_row option" where
  "opening_chunk db d =
     (case js_sort (\<lambda>a b. of_int (dvVersion b) - of_int (dvVersion a))
             (filter (\<lambda>v. dvDocument v = kdId d) (versions db)) of
        [] \<Rightarrow> None
      | v # _ \<Rightarrow>
          (case js_sort (\<lambda>a b. of_nat (crOrdinal a) - of_nat (crOrdinal b))
                  (filter (\<lambda>c. crVersion c = dvId v) (chunks db)) of
             [] \<Rightarrow> None | c # _ \<Rightarrow> Some c))"

definition catalog_hit :: "knowledge_db \<Rightarrow> knowledge_base \<Rightarrow> nat \<times> knowledge_document \<Rightarrow> retrieval_hit" where
  "catalog_hit db b = (\<lambda>(index, d).
     (let chunk = opening_chunk db d;
          opening = (case chunk of
                       None \<Rightarrow> [] | Some c \<Rightarrow> u_trim (take 280 (collapse False (crContent c))))
      in \<lparr>rhChunkId = (case chunk of None \<Rightarrow> ''catalog:'' @ kdId d | Some c \<Rightarrow> crId c),
          rhBase = kbId b, rhBaseName = kbName b, rhDocument = kdId d, rhTitle = kdTitle d,
          rhOrdinal = index,
          rhContent = lit ''This document is in knowledge base '' @ lit_quote (kbName b) @ lit ''.'' @ [10]
            @ lit ''Title: '' @ kdTitle d @ [10]
            @ (if opening \<noteq> [] then lit ''Opening excerpt: '' @ opening
               else lit ''No preview is available.''),
          rhScore = 1\<rparr>))"

definition base_hits :: "knowledge_db \<Rightarrow> knowledge_base \<Rightarrow> retrieval_hit list" where
  "base_hits db b =
     (let docs = js_sort (\<lambda>x y. of_int (kdCreatedAt x) - of_int (kdCreatedAt y))
                   (filter (\<lambda>d. kdBase d = kbId b \<and> kdStatus d = ING_SUCCEEDED) (documents db))
      in if docs = []
         then [\<lparr>rhChunkId = ''catalog:'' @ kbId b, rhBase = kbId b, rhBaseName = kbName b,
                rhDocument = kbId b, rhTitle = kbName b, rhOrdinal = 0,
                rhContent = lit ''Knowledge base '' @ lit_quote (kbName b)
                  @ lit '' has no ingested documents yet.'', rhScore = 1\<rparr>]
         else map (catalog_hit db b) (enumerate 0 docs))"

definition not_found :: retrieval_error where
  "not_found = RetrievalError ''One or more knowledge bases were not found on this account''"

definition catalogCustomerKnowledge ::
    "knowledge_db \<Rightarrow> string \<Rightarrow> string list \<Rightarrow> utext \<Rightarrow> (retrieval_error, retrieval_result) result" where
  "catalogCustomerKnowledge db customer ids query =
     (let own = own_bases db customer ids
      in if length own \<noteq> length ids then Inl not_found
         else
           (let hits = concat (map (base_hits db) own)
            in Inr \<lparr>rrBases = ids, rrTopK = max (int (length hits)) 1, rrQuery = query,
                    rrHits = hits, rrMode = Catalog\<rparr>))"

definition requested_ids :: "string list \<Rightarrow> string list" where
  "requested_ids ids = first_by (\<lambda>x. x) [] (filter (\<lambda>i. i \<noteq> []) (map js_trim ids))"

definition retrieveCustomerKnowledge ::
    "unicode \<Rightarrow> (rat \<Rightarrow> rat) \<Rightarrow> knowledge_db \<Rightarrow> string \<Rightarrow> utext \<Rightarrow> string list \<Rightarrow> int option \<Rightarrow> int option
      \<Rightarrow> (retrieval_error, retrieval_result) result" where
  "retrieveCustomerKnowledge u sq db customer query knowledgeBaseIds topK contextLength =
     (let requested = requested_ids knowledgeBaseIds; k0 = (case topK of None \<Rightarrow> 4 | Some k \<Rightarrow> k)
      in if requested = []
         then Inr \<lparr>rrBases = [], rrTopK = k0, rrQuery = query, rrHits = [], rrMode = Passages\<rparr>
         else if isKnowledgeCatalogQuery u query
         then catalogCustomerKnowledge db customer requested query
         else if length (own_bases db customer requested) \<noteq> length requested then Inl not_found
         else
           (let k = max 1 (min k0 8);
                rows = take 4000 (filter (searchable db requested) (chunks db));
                hits = map hit_of (rankChunks u sq query (List.map_filter (passage_of db) rows)
                                     (Some k) (Some (12 / 100)))
            in Inr \<lparr>rrBases = requested, rrTopK = k, rrQuery = query,
                    rrHits = (case contextLength of
                                Some n \<Rightarrow> if n \<noteq> 0 then fitHitsToBudget hits n else hits
                              | None \<Rightarrow> hits),
                    rrMode = Passages\<rparr>))"

record retrieval_run =
  runRequest :: string
  runQueryHash :: string
  runTopK :: int
  runHits :: "public_hit list"

definition persistRetrievalRun ::
    "(utext \<Rightarrow> string) \<Rightarrow> string \<Rightarrow> retrieval_result \<Rightarrow> retrieval_run list \<Rightarrow> retrieval_run list" where
  "persistRetrievalRun sha requestId r runs =
     runs @ [\<lparr>runRequest = requestId, runQueryHash = sha (rrQuery r), runTopK = rrTopK r,
              runHits = publicRetrievalHits (rrHits r)\<rparr>]"

end
