(* ===== verification/Voice.thy ===== *)
theory Voice
  imports Retrieval
begin

text \<open>
  Voice transcripts (\<^verbatim>\<open>apps/gateway/src/lib/voice/types.ts\<close> and \<^verbatim>\<open>diarize.ts\<close>): the filter of
  hallucinated text, the repair of time stamps, and the join of speech recognition with the
  speaker turns of the diarization. Times are rational numbers; recognition, diarization and
  the cutting of clips are parameters.
\<close>

subsection \<open>Records\<close>

record segment =
  startSec :: rat
  endSec :: rat
  sgText :: utext
  sgTextEn :: "utext option"
  sgConfidence :: "rat option"
  sgSpeaker :: "string option"
  sgSpeakerId :: "string option"

record artifact =
  arLanguage :: string
  arText :: utext
  arTextEn :: "utext option"
  arDialectHint :: "string option"
  arDialectLabel :: "string option"
  arSpeakerNames :: "(string \<times> string) list"
  arNames :: "string list"
  arConfidence :: "rat option"
  arSegments :: "segment list"
  arProvider :: string
  arModel :: string

record turn =
  tnStart :: rat
  tnEnd :: rat
  tnSpeaker :: string

definition plain_segment :: "rat \<Rightarrow> rat \<Rightarrow> utext \<Rightarrow> string option \<Rightarrow> rat option \<Rightarrow> segment" where
  "plain_segment a b t sp conf = \<lparr>startSec = a, endSec = b, sgText = t, sgTextEn = None,
     sgConfidence = conf, sgSpeaker = sp, sgSpeakerId = None\<rparr>"

subsection \<open>White space\<close>

text \<open>\<^verbatim>\<open>replace(/\s+/g, " ")\<close>, \<^verbatim>\<open>replace(/\s+/g, "")\<close> and \<^verbatim>\<open>trim().split(/\s+/).filter(Boolean)\<close>.\<close>

function squeeze :: "utext \<Rightarrow> utext" where
  "squeeze [] = []"
| "squeeze (c # s) = (if u_space c then 32 # squeeze (dropWhile u_space s) else c # squeeze s)"
  by pat_completeness auto
termination
  by (relation "measure length") (auto simp: le_imp_less_Suc length_dropWhile_le)

definition u_collapse :: "utext \<Rightarrow> utext" where
  "u_collapse s = u_trim (squeeze s)"

definition u_compact :: "utext \<Rightarrow> utext" where
  "u_compact s = filter (\<lambda>c. \<not> u_space c) s"

function u_words :: "utext \<Rightarrow> utext list" where
  "u_words s =
     (let t = dropWhile u_space s in
      if t = [] then []
      else takeWhile (\<lambda>c. \<not> u_space c) t # u_words (dropWhile (\<lambda>c. \<not> u_space c) t))"
  by pat_completeness auto
termination
proof (relation "measure length")
  fix s t :: utext
  assume t: "t = dropWhile u_space s" "t \<noteq> []"
  then obtain c r where c: "t = c # r" "\<not> u_space c"
    by (metis hd_dropWhile list.exhaust_sel)
  have "length (dropWhile (\<lambda>c. \<not> u_space c) r) < length t"
    using length_dropWhile_le [of "\<lambda>c. \<not> u_space c" r] c(1) by simp
  also have "\<dots> \<le> length s" using t(1) length_dropWhile_le by simp
  finally show "(dropWhile (\<lambda>c. \<not> u_space c) t, s) \<in> measure length" using c by simp
qed simp

declare u_words.simps [simp del]

definition stripReplacementChars :: "utext \<Rightarrow> utext" where
  "stripReplacementChars t = u_trim (filter (\<lambda>c. c \<noteq> 0xFFFD) t)"

subsection \<open>Hallucinated text\<close>

text \<open>A set of a string holds its code points: a surrogate pair is one member.\<close>

fun code_points :: "utext \<Rightarrow> nat list" where
  "code_points (h # l # s) =
     (if 0xD800 \<le> h \<and> h \<le> 0xDBFF \<and> 0xDC00 \<le> l \<and> l \<le> 0xDFFF
      then (0x10000 + (h - 0xD800) * 0x400 + (l - 0xDC00)) # code_points s
      else h # code_points (l # s))"
| "code_points s = s"

definition distinct_chars :: "utext \<Rightarrow> nat" where
  "distinct_chars s = length (remdups (code_points s))"

definition usesLenientHallucinationFilter :: "rat \<Rightarrow> rat \<Rightarrow> nat \<Rightarrow> bool" where
  "usesLenientHallucinationFilter a b n \<longleftrightarrow> a \<le> 35 \<or> a < 5 \<and> b - a < 3 \<and> 80 < n"

definition grams :: "nat \<Rightarrow> utext \<Rightarrow> utext list" where
  "grams n s = map (\<lambda>i. u_slice i (i + n) s) [0..<length s + 1 - n]"

definition top_gram :: "nat \<Rightarrow> utext \<Rightarrow> nat" where
  "top_gram n s = fold max (map (count_list (grams n s)) (grams n s)) 0"

definition repetitive :: "utext \<Rightarrow> nat \<Rightarrow> bool" where
  "repetitive s n \<longleftrightarrow> n * 6 \<le> length s \<and> max 10 (length s div (2 * n)) \<le> top_gram n s"

definition isHallucinatedTranscriptText :: "utext \<Rightarrow> rat \<Rightarrow> rat option \<Rightarrow> bool" where
  "isHallucinatedTranscriptText t a b =
     (let clean = stripReplacementChars (u_collapse t); compact = u_compact clean in
      if clean = [] then True
      else if usesLenientHallucinationFilter a (case b of None \<Rightarrow> a | Some e \<Rightarrow> e) (length compact)
      then 200 < length compact \<and> distinct_chars compact \<le> 4
      else if 80 < length compact \<and> distinct_chars compact \<le> 6 then True
      else 12 \<le> length compact \<and> list_ex (repetitive compact) [2, 3, 4])"

subsection \<open>Time stamps\<close>

definition repaired_end :: "segment \<Rightarrow> segment option \<Rightarrow> rat \<Rightarrow> rat" where
  "repaired_end seg nxt duration =
     (let a = startSec seg; n = length (u_compact (sgText seg));
          nextStart = (case nxt of Some s \<Rightarrow> startSec s | None \<Rightarrow> duration);
          e1 = (if endSec seg - a < 3 \<and> 60 < n
                then (if nextStart > a then nextStart else min duration (a + max 3 (of_nat n / 12)))
                else endSec seg);
          e2 = (case nxt of Some s \<Rightarrow> if startSec s - e1 > 2 then startSec s else e1 | None \<Rightarrow> e1);
          e3 = (if e2 \<le> a \<and> duration > a then duration else e2);
          e4 = (if duration > 0 then min e3 duration else e3)
      in max e4 a)"

fun repair_from :: "rat \<Rightarrow> segment list \<Rightarrow> segment list" where
  "repair_from d [] = []"
| "repair_from d [s] = [s\<lparr>endSec := repaired_end s None d\<rparr>]"
| "repair_from d (s # t # r) = s\<lparr>endSec := repaired_end s (Some t) d\<rparr> # repair_from d (t # r)"

definition repairSegmentTimestamps :: "segment list \<Rightarrow> rat option \<Rightarrow> segment list" where
  "repairSegmentTimestamps segs durationSec =
     (if segs = [] then segs
      else repair_from (case durationSec of Some d \<Rightarrow> d | None \<Rightarrow> endSec (last segs)) segs)"

subsection \<open>Normalisation\<close>

definition clean_text :: "utext \<Rightarrow> utext" where
  "clean_text t = stripReplacementChars (u_collapse t)"

definition kept_segments :: "segment list \<Rightarrow> segment list" where
  "kept_segments segs =
     filter (\<lambda>s. sgText s \<noteq> [] \<and> \<not> isHallucinatedTranscriptText (sgText s) (startSec s) (Some (endSec s)))
       (map (\<lambda>s. s\<lparr>sgText := clean_text (sgText s)\<rparr>) segs)"

definition longer :: "segment \<Rightarrow> segment \<Rightarrow> segment" where
  "longer best s =
     (if length (stripReplacementChars (sgText s)) \<ge> length (stripReplacementChars (sgText best)) then s else best)"

definition normalizeTranscript :: "artifact \<Rightarrow> artifact" where
  "normalizeTranscript input =
     (let segs = kept_segments (arSegments input);
          best = (case arSegments input of [] \<Rightarrow> None | s # r \<Rightarrow> Some (foldl longer s r));
          bestText = (case best of None \<Rightarrow> [] | Some s \<Rightarrow> clean_text (sgText s))
      in if segs = [] \<and> best \<noteq> None \<and> 8 \<le> length bestText
         then input\<lparr>arText := bestText, arSegments := [(the best)\<lparr>sgText := bestText\<rparr>]\<rparr>
         else
           (let repaired = repairSegmentTimestamps segs (if segs = [] then None else Some (endSec (last segs)))
            in input\<lparr>arText := u_collapse (u_join [32] (map sgText repaired)), arSegments := repaired\<rparr>))"

subsection \<open>Speaker turns\<close>

text \<open>What the script answers: a number that cannot be read is \<^verbatim>\<open>None\<close>, and fails the comparison.\<close>

definition runDiarization :: "(rat option \<times> rat option \<times> string) list \<Rightarrow> turn list" where
  "runDiarization raw =
     List.map_filter (\<lambda>(a, b, sp). case (a, b) of
        (Some x, Some y) \<Rightarrow> if y > x then Some \<lparr>tnStart = x, tnEnd = y, tnSpeaker = sp\<rparr> else None
      | _ \<Rightarrow> None) raw"

definition segmentTurnOverlap :: "rat \<Rightarrow> rat \<Rightarrow> rat \<Rightarrow> rat \<Rightarrow> rat" where
  "segmentTurnOverlap a b c d = max 0 (min b d - max a c)"

definition sort_turns :: "turn list \<Rightarrow> turn list" where
  "sort_turns ts = js_sort (\<lambda>a b. tnStart a - tnStart b) ts"

definition sort_segments :: "segment list \<Rightarrow> segment list" where
  "sort_segments ss = js_sort (\<lambda>a b. startSec a - startSec b) ss"

fun best_overlap :: "segment \<Rightarrow> rat \<Rightarrow> string option \<Rightarrow> turn list \<Rightarrow> rat \<times> string option" where
  "best_overlap s b sp [] = (b, sp)"
| "best_overlap s b sp (t # ts) =
     (let d = segmentTurnOverlap (startSec s) (endSec s) (tnStart t) (tnEnd t)
      in if d > b then best_overlap s d (Some (tnSpeaker t)) ts else best_overlap s b sp ts)"

definition turn_distance :: "rat \<Rightarrow> turn \<Rightarrow> rat" where
  "turn_distance mid t =
     (if mid < tnStart t then tnStart t - mid else if mid > tnEnd t then mid - tnEnd t else 0)"

fun nearest_turn :: "rat \<Rightarrow> (rat \<times> string) option \<Rightarrow> turn list \<Rightarrow> string option" where
  "nearest_turn mid best [] = map_option snd best"
| "nearest_turn mid best (t # ts) =
     (if (case best of None \<Rightarrow> True | Some (d, _) \<Rightarrow> turn_distance mid t < d)
      then nearest_turn mid (Some (turn_distance mid t, tnSpeaker t)) ts
      else nearest_turn mid best ts)"

text \<open>An empty label counts as no label in the tests.\<close>

definition no_label :: "string option \<Rightarrow> bool" where
  "no_label sp \<longleftrightarrow> sp = None \<or> sp = Some []"

definition assign_speaker :: "turn list \<Rightarrow> segment \<Rightarrow> string option" where
  "assign_speaker ts s =
     (case best_overlap s 0 None ts of
        (b, sp) \<Rightarrow>
          if no_label sp \<or> b \<le> 0
          then
            (let mid = (startSec s + endSec s) / 2;
                 sp1 = (case find (\<lambda>t. tnStart t \<le> mid \<and> mid \<le> tnEnd t) ts of
                          Some t \<Rightarrow> Some (tnSpeaker t) | None \<Rightarrow> sp)
             in if no_label sp1 then nearest_turn mid None ts else sp1)
          else sp)"

definition assignSpeakersToSegments :: "segment list \<Rightarrow> turn list \<Rightarrow> segment list" where
  "assignSpeakersToSegments segs turns =
     (if turns = [] then segs
      else map (\<lambda>s. s\<lparr>sgSpeaker := assign_speaker (sort_turns turns) s\<rparr>) segs)"

text \<open>The words of a span that fall into a slice of it.\<close>

definition slice_bounds :: "nat \<Rightarrow> rat \<Rightarrow> rat \<Rightarrow> rat \<Rightarrow> rat \<Rightarrow> nat \<times> nat" where
  "slice_bounds n a b c d =
     (let dur = max (1 / 100) (b - a);
          i0 = max 0 (min (int n - 1) \<lfloor>(max a c - a) / dur * of_nat n\<rfloor>);
          i1 = max (i0 + 1) (min (int n) \<lceil>(min b d - a) / dur * of_nat n\<rceil>)
      in (nat i0, nat i1))"

definition slice_words :: "utext list \<Rightarrow> rat \<Rightarrow> rat \<Rightarrow> rat \<Rightarrow> rat \<Rightarrow> utext list" where
  "slice_words ws a b c d =
     (if ws = [] \<or> min b d \<le> max a c then []
      else if (min b d - max a c) / max (1 / 100) (b - a) \<ge> 85 / 100 then ws
      else (case slice_bounds (length ws) a b c d of (i0, i1) \<Rightarrow> take (i1 - i0) (drop i0 ws)))"

definition sliceTextByTimeOverlap :: "utext \<Rightarrow> rat \<Rightarrow> rat \<Rightarrow> rat \<Rightarrow> rat \<Rightarrow> utext" where
  "sliceTextByTimeOverlap t a b c d = u_trim (u_join [32] (slice_words (u_words t) a b c d))"

definition turn_parts :: "segment list \<Rightarrow> turn \<Rightarrow> utext list" where
  "turn_parts segs t =
     filter (\<lambda>p. p \<noteq> [])
       (map (\<lambda>s. sliceTextByTimeOverlap (sgText s) (startSec s) (endSec s) (tnStart t) (tnEnd t))
         (sort_segments
           (filter (\<lambda>s. segmentTurnOverlap (startSec s) (endSec s) (tnStart t) (tnEnd t) > 1 / 20) segs)))"

definition merge_turn :: "segment list \<Rightarrow> turn \<Rightarrow> segment list" where
  "merge_turn segs t =
     (case turn_parts segs t of
        [] \<Rightarrow> []
      | ps \<Rightarrow> [plain_segment (tnStart t) (tnEnd t) (u_collapse (u_join [32] ps)) (Some (tnSpeaker t)) None])"

definition mergeAsrSegmentsIntoTurns :: "segment list \<Rightarrow> turn list \<Rightarrow> segment list" where
  "mergeAsrSegmentsIntoTurns segs turns =
     (if turns = [] then segs
      else filter (\<lambda>s. sgText s \<noteq> []) (concat (map (merge_turn segs) (sort_turns turns))))"

definition hasDuplicatedTurnText :: "segment list \<Rightarrow> nat \<Rightarrow> bool" where
  "hasDuplicatedTurnText segs minDupes =
     (if length segs < minDupes then False
      else
        (let keys = filter (\<lambda>k. 20 \<le> length k) (map (\<lambda>s. u_collapse (sgText s)) segs)
         in list_ex (\<lambda>k. minDupes \<le> count_list keys k) keys))"

text \<open>Adjacent turns of one speaker with a small gap become one.\<close>

fun coalesce_from :: "rat \<Rightarrow> turn \<Rightarrow> turn list \<Rightarrow> turn list" where
  "coalesce_from gap prev [] = [prev]"
| "coalesce_from gap prev (cur # ts) =
     (if tnSpeaker cur = tnSpeaker prev \<and> tnStart cur - tnEnd prev \<le> gap
      then coalesce_from gap (prev\<lparr>tnEnd := max (tnEnd prev) (tnEnd cur)\<rparr>) ts
      else prev # coalesce_from gap cur ts)"

definition coalesceTurns :: "turn list \<Rightarrow> rat \<Rightarrow> turn list" where
  "coalesceTurns turns gap = (case sort_turns turns of [] \<Rightarrow> [] | t # ts \<Rightarrow> coalesce_from gap t ts)"

text \<open>Adjacent segments with the same long text become one.\<close>

fun collapse_from :: "segment \<Rightarrow> segment list \<Rightarrow> segment list" where
  "collapse_from prev [] = [prev]"
| "collapse_from prev (s # ss) =
     (let cur = u_collapse (sgText s)
      in if 40 \<le> length cur \<and> cur = u_collapse (sgText prev)
         then collapse_from (prev\<lparr>endSec := max (endSec prev) (endSec s)\<rparr>) ss
         else prev # collapse_from s ss)"

definition collapseDuplicateAdjacentText :: "segment list \<Rightarrow> segment list" where
  "collapseDuplicateAdjacentText segs = (case segs of [] \<Rightarrow> [] | s # ss \<Rightarrow> collapse_from s ss)"

subsection \<open>Recognition turn by turn\<close>

text \<open>
  Workers take the slots in order and finish them in any order; \<^verbatim>\<open>asr\<close> is what cutting and
  recognising the clip of a turn answers, \<^verbatim>\<open>None\<close> when either throws.
\<close>

record per_turn =
  ptResults :: "segment option list"
  ptModel :: string
  ptLanguage :: string

definition nonempty_or :: "string \<Rightarrow> string \<Rightarrow> string" where
  "nonempty_or a b = (if a = [] then b else a)"

definition finish_slot :: "(turn \<Rightarrow> artifact option) \<Rightarrow> turn list \<Rightarrow> nat \<Rightarrow> per_turn \<Rightarrow> per_turn" where
  "finish_slot asr eligible slot st =
     (case asr (eligible ! slot) of
        None \<Rightarrow> st
      | Some p \<Rightarrow>
          (let t = eligible ! slot; txt' = u_trim (arText p);
               st1 = st\<lparr>ptModel := nonempty_or (arModel p) (ptModel st),
                        ptLanguage := nonempty_or (arLanguage p) (ptLanguage st)\<rparr>
           in if txt' = [] then st1
              else st1\<lparr>ptResults := (ptResults st1)[slot :=
                     Some (plain_segment (tnStart t) (tnEnd t) txt' (Some (tnSpeaker t)) (arConfidence p))]\<rparr>))"

definition eligible_turns :: "turn list \<Rightarrow> turn list" where
  "eligible_turns turns = filter (\<lambda>t. tnEnd t - tnStart t \<ge> 35 / 100) turns"

definition transcribePerTurn ::
    "(turn \<Rightarrow> artifact option) \<Rightarrow> nat list \<Rightarrow> turn list \<Rightarrow> string option \<Rightarrow> segment list \<times> string \<times> string" where
  "transcribePerTurn asr order turns language =
     (let el = eligible_turns turns;
          st = fold (finish_slot asr el) order
                 \<lparr>ptResults = replicate (length el) None, ptModel = ''unknown'',
                  ptLanguage = (case language of None \<Rightarrow> ''unknown'' | Some l \<Rightarrow> l)\<rparr>
      in (sort_segments (List.map_filter (\<lambda>x. x) (ptResults st)), ptModel st, ptLanguage st))"

subsection \<open>The pipeline\<close>

datatype backend = LocalBackend | CloudBackend
datatype diarize_mode = PerTurn | MergeMode

record diarization_config =
  dzEnabled :: bool
  dzBackend :: backend
  dzMode :: diarize_mode
  dzModel :: string

definition diarizeProviderTag :: "diarization_config \<Rightarrow> string" where
  "diarizeProviderTag cfg =
     (if dzBackend cfg = CloudBackend
      then (if includes_at ''community'' (to_lower (dzModel cfg)) then ''pyannoteAI-community-1''
            else ''pyannoteAI-precision-2'')
      else ''pyannote-local'')"

text \<open>
  \<^verbatim>\<open>whole\<close> is the recognition of the whole file, \<^verbatim>\<open>diarized\<close> what the diarization answers,
  \<^verbatim>\<open>asr\<close> and \<^verbatim>\<open>order\<close> the recognition of the turns and the order in which it ends.
\<close>

record voice_run =
  vrStt :: string
  vrWhole :: "(string, artifact) result"
  vrDiarized :: "(string, (rat option \<times> rat option \<times> string) list) result"
  vrAsr :: "turn \<Rightarrow> artifact option"
  vrOrder :: "nat list"

definition label_whole :: "artifact \<Rightarrow> turn list \<Rightarrow> segment list" where
  "label_whole plain turns =
     (let merged = mergeAsrSegmentsIntoTurns (arSegments plain) turns
      in collapseDuplicateAdjacentText
           (if merged \<noteq> [] then merged else assignSpeakersToSegments (arSegments plain) turns))"

definition labelled_artifact ::
    "voice_run \<Rightarrow> diarization_config \<Rightarrow> string \<Rightarrow> rat option \<Rightarrow> string \<Rightarrow> segment list \<Rightarrow> artifact" where
  "labelled_artifact run cfg lang conf model segs =
     normalizeTranscript
       \<lparr>arLanguage = lang, arText = u_join [32] (map sgText segs), arTextEn = None,
        arDialectHint = None, arDialectLabel = None, arSpeakerNames = [], arNames = [],
        arConfidence = conf, arSegments = segs,
        arProvider = vrStt run @ ''+'' @ diarizeProviderTag cfg, arModel = model\<rparr>"

definition transcribeWithDiarization ::
    "voice_run \<Rightarrow> diarization_config \<Rightarrow> string option \<Rightarrow> (string, artifact) result" where
  "transcribeWithDiarization run cfg language =
     (if \<not> dzEnabled cfg then vrWhole run
      else
        (case vrDiarized run of
           Inl e \<Rightarrow> map_sum (\<lambda>e. e) (\<lambda>p. p\<lparr>arProvider := arProvider p @ ''+diarize-failed''\<rparr>) (vrWhole run)
         | Inr raw \<Rightarrow>
             (let turns = coalesceTurns (runDiarization raw) (35 / 100)
              in if turns = []
                 then map_sum (\<lambda>e. e) (\<lambda>p. p\<lparr>arProvider := arProvider p @ ''+diarize-empty''\<rparr>) (vrWhole run)
                 else
                   (case (if dzMode cfg = PerTurn then transcribePerTurn (vrAsr run) (vrOrder run) turns language
                          else ([], ''unknown'', ''unknown'')) of
                      (segs, model, lang) \<Rightarrow>
                        if segs \<noteq> []
                        then Inr (labelled_artifact run cfg lang None model (collapseDuplicateAdjacentText segs))
                        else
                          map_sum (\<lambda>e. e)
                            (\<lambda>p. labelled_artifact run cfg (arLanguage p) (arConfidence p) (arModel p)
                                   (label_whole p turns)) (vrWhole run)))))"

subsection \<open>The public shape\<close>

record public_segment =
  psStart :: rat
  psEnd :: rat
  psText :: utext
  psTextEn :: "utext option"
  psSpeaker :: "string option"
  psSpeakerId :: "string option"
  psConfidence :: "rat option"

definition truthy :: "string option \<Rightarrow> string option" where
  "truthy x = (if no_label x then None else x)"

definition or_else :: "string option \<Rightarrow> string option \<Rightarrow> string option" where
  "or_else a b = (case truthy a of Some x \<Rightarrow> Some x | None \<Rightarrow> b)"

definition public_segment_of :: "(string \<times> string) list \<Rightarrow> segment \<Rightarrow> public_segment" where
  "public_segment_of names s =
     (let sid = (case sgSpeakerId s of Some i \<Rightarrow> Some i | None \<Rightarrow> sgSpeaker s);
          named = or_else (case truthy sid of Some i \<Rightarrow> map_of names i | None \<Rightarrow> None) (truthy (sgSpeaker s))
      in \<lparr>psStart = startSec s, psEnd = endSec s, psText = sgText s, psTextEn = sgTextEn s,
          psSpeaker = named, psSpeakerId = sid, psConfidence = sgConfidence s\<rparr>)"

definition publicSpeakers :: "artifact \<Rightarrow> string list" where
  "publicSpeakers a =
     rev (remdups (rev (List.map_filter
       (\<lambda>s. case truthy (sgSpeaker s) of
              None \<Rightarrow> None
            | Some i \<Rightarrow> truthy (or_else (map_of (arSpeakerNames a) i) (Some i))) (arSegments a))))"

definition toPublicTranscript :: "artifact \<Rightarrow> string list \<times> public_segment list" where
  "toPublicTranscript a = (publicSpeakers a, map (public_segment_of (arSpeakerNames a)) (arSegments a))"

end
