(* ===== verification/Credentials.thy ===== *)
theory Credentials
  imports Streaming
begin

text \<open>
  API keys of remote providers at rest: the control plane seals them
  (\<^verbatim>\<open>apps/web/lib/providerCredentials.ts\<close>), the gateway opens them
  (\<^verbatim>\<open>apps/gateway/src/lib/providerCredentials.ts\<close>). AES-256-GCM, SHA-256 and the random
  initialisation vector are parameters; the base64 transport of the three parts belongs to them.
\<close>

record key_env =
  keMasterKey :: "string option"
  keJwtSecret :: "string option"
  keAuthSecret :: "string option"

datatype master_key = RawKey string | HashedKey string

definition hex_char :: "char \<Rightarrow> bool" where
  "hex_char c \<longleftrightarrow> is_digit c \<or> (97 \<le> chr_code c \<and> chr_code c \<le> 102) \<or> (65 \<le> chr_code c \<and> chr_code c \<le> 70)"

text \<open>64 hexadecimal digits are the key (read without regard to case); any other text is hashed.\<close>

definition key_of_text :: "string \<Rightarrow> master_key" where
  "key_of_text raw =
     (if length raw = 64 \<and> list_all hex_char raw then RawKey (to_lower raw) else HashedKey raw)"

definition webMasterKey :: "key_env \<Rightarrow> (string, master_key) result" where
  "webMasterKey env =
     (let raw = first_nonempty [trimmed_or_empty (keMasterKey env), trimmed_or_empty (keJwtSecret env),
                  trimmed_or_empty (keAuthSecret env)]
      in if raw = []
         then Inl ''PROVIDER_CREDENTIALS_MASTER_KEY (or JWT_SECRET / AUTH_SECRET) is required to store remote LLM API keys''
         else Inr (key_of_text raw))"

definition gatewayMasterKey :: "key_env \<Rightarrow> (string, master_key) result" where
  "gatewayMasterKey env =
     (let raw = first_nonempty [trimmed_or_empty (keMasterKey env), trimmed_or_empty (keJwtSecret env)]
      in if raw = []
         then Inl ''PROVIDER_CREDENTIALS_MASTER_KEY (or JWT_SECRET) is required to store remote LLM API keys''
         else Inr (key_of_text raw))"

record aead =
  aeSeal :: "master_key \<Rightarrow> string \<Rightarrow> string \<Rightarrow> string \<times> string"
  aeOpen :: "master_key \<Rightarrow> string \<Rightarrow> string \<Rightarrow> string \<Rightarrow> string option"

text \<open>Documented behaviour of an authenticated cipher: what was sealed opens under the same key.\<close>

definition aead_opens :: "aead \<Rightarrow> bool" where
  "aead_opens ae \<longleftrightarrow>
     (\<forall>k iv t. aeOpen ae k iv (fst (aeSeal ae k iv t)) (snd (aeSeal ae k iv t)) = Some t)"

record sealed_secret =
  ssCiphertext :: string
  ssIv :: string
  ssAuthTag :: string
  ssKeyPrefix :: string

definition last_chars :: "nat \<Rightarrow> string \<Rightarrow> string" where
  "last_chars n s = drop (length s - n) s"

definition key_prefix :: "string \<Rightarrow> string" where
  "key_prefix plaintext =
     (let t = js_trim plaintext in if length t \<le> 8 then take 4 t else last_chars 4 t)"

text \<open>\<^verbatim>\<open>iv\<close> is what \<^verbatim>\<open>randomBytes\<close> answers.\<close>

definition encryptProviderSecret ::
    "aead \<Rightarrow> key_env \<Rightarrow> string \<Rightarrow> string \<Rightarrow> (string, sealed_secret) result" where
  "encryptProviderSecret ae env iv plaintext =
     map_sum id (\<lambda>k. let (c, tag) = aeSeal ae k iv plaintext
        in \<lparr>ssCiphertext = c, ssIv = iv, ssAuthTag = tag, ssKeyPrefix = key_prefix plaintext\<rparr>)
       (webMasterKey env)"

definition decryptProviderSecret :: "aead \<Rightarrow> key_env \<Rightarrow> sealed_secret \<Rightarrow> (string, string) result" where
  "decryptProviderSecret ae env s =
     (case gatewayMasterKey env of
        Inl e \<Rightarrow> Inl e
      | Inr k \<Rightarrow>
          (case aeOpen ae k (ssIv s) (ssCiphertext s) (ssAuthTag s) of
             Some t \<Rightarrow> Inr t
           | None \<Rightarrow> Inl ''Unsupported state or unable to authenticate data''))"

subsection \<open>Sealed by one process, opened by the other\<close>

lemma master_keys_agree:
  assumes "trimmed_or_empty (keMasterKey env) \<noteq> [] \<or> trimmed_or_empty (keJwtSecret env) \<noteq> []"
  shows "webMasterKey env = gatewayMasterKey env" and "\<not> isl (gatewayMasterKey env)"
  using assms by (auto simp: webMasterKey_def gatewayMasterKey_def)

lemma sealed_opens:
  assumes "aead_opens ae" and "encryptProviderSecret ae env iv t = Inr s"
    and "gatewayMasterKey env' = webMasterKey env"
  shows "decryptProviderSecret ae env' s = Inr t"
proof (cases "webMasterKey env")
  case (Inr k)
  then have "s = \<lparr>ssCiphertext = fst (aeSeal ae k iv t), ssIv = iv, ssAuthTag = snd (aeSeal ae k iv t),
      ssKeyPrefix = key_prefix t\<rparr>"
    using assms(2) by (auto simp: encryptProviderSecret_def split: prod.splits)
  then show ?thesis using assms(1,3) Inr by (simp add: decryptProviderSecret_def aead_opens_def)
qed (use assms(2) in \<open>simp add: encryptProviderSecret_def\<close>)

text \<open>With \<^verbatim>\<open>AUTH_SECRET\<close> alone the control plane seals keys that the gateway can never open.\<close>

lemma auth_secret_seals_only:
  assumes "trimmed_or_empty (keMasterKey env) = []" and "trimmed_or_empty (keJwtSecret env) = []"
    and "trimmed_or_empty (keAuthSecret env) \<noteq> []"
  shows "\<not> isl (encryptProviderSecret ae env iv t) \<and> isl (decryptProviderSecret ae env s)"
  using assms
  by (auto simp: encryptProviderSecret_def decryptProviderSecret_def webMasterKey_def gatewayMasterKey_def
      Let_def isl_def split: sum.splits)

text \<open>The part of a key that is shown never has more than four characters, but may be half of it.\<close>

lemma key_prefix_length: "length (key_prefix t) \<le> 4"
  by (auto simp: key_prefix_def last_chars_def Let_def)

end
