(* ===== verification/Downloads.thy ===== *)
theory Downloads
  imports Prelude
begin

text \<open>
  The model download manager (\<^verbatim>\<open>apps/gateway/src/lib/huggingFace.ts\<close>) and the scan of the
  weights directory it registers from (\<^verbatim>\<open>weights.ts\<close>). Files are named by their path
  relative to the weights directory and described by size and SHA-256. What the hub, the
  disk and the network answer is a parameter of each step; runs of \<^verbatim>\<open>runDownload\<close>
  interleave at their awaits.
\<close>

subsection \<open>Names\<close>

definition alnum :: "char \<Rightarrow> bool" where
  "alnum c \<longleftrightarrow> is_digit c \<or> is_lower c \<or> is_upper c"

definition repo_char :: "char \<Rightarrow> bool" where
  "repo_char c \<longleftrightarrow> alnum c \<or> c \<in> set ''._-''"

definition repo_part :: "nat \<Rightarrow> string \<Rightarrow> bool" where
  "repo_part n s \<longleftrightarrow> s \<noteq> [] \<and> alnum (hd s) \<and> list_all repo_char s \<and> length s \<le> n + 1"

text \<open>\<^verbatim>\<open>REPO_PATTERN\<close>: owner and repository name.\<close>

definition repo_ok :: "string \<Rightarrow> bool" where
  "repo_ok s \<longleftrightarrow> (case split_on (CHR ''/'') s of
      [owner, repo] \<Rightarrow> repo_part 95 owner \<and> repo_part 191 repo | _ \<Rightarrow> False)"

definition validateRepoId :: "string \<Rightarrow> (string, string) result" where
  "validateRepoId repoId =
     (if repo_ok repoId then Inr repoId else Inl ''Invalid Hugging Face repository id'')"

definition backslash :: char where "backslash = char_of (92 :: nat)"

definition validateFilePath :: "string \<Rightarrow> (string, string) result" where
  "validateFilePath filePath =
     (let normalized = map (\<lambda>c. if c = backslash then CHR ''/'' else c) filePath
      in if \<not> ends_with ''.gguf'' (to_lower normalized) \<or> starts_with ''/'' normalized
            \<or> list_ex (\<lambda>part. part = ''..'' \<or> part = [] \<or> part = ''.'') (split_on (CHR ''/'') normalized)
         then Inl ''Only safe relative GGUF paths can be downloaded''
         else Inr normalized)"

definition basename :: "string \<Rightarrow> string" where
  "basename p = last (split_on (CHR ''/'') p)"

definition safe_relative :: "string \<Rightarrow> string \<Rightarrow> string" where
  "safe_relative repoId filePath =
     join ''/'' ([''huggingface''] @ split_on (CHR ''/'') repoId @ split_on (CHR ''/'') filePath)"

text \<open>
  \<^verbatim>\<open>-\d{5}-of-\d{5}\<close> at the end of a name without extension: the prefix and both numbers.
\<close>

definition shard_suffix :: "string \<Rightarrow> (string \<times> string \<times> string) option" where
  "shard_suffix stem =
     (let n = length stem - 15; t = drop n stem; a = take 5 (drop 1 t); b = drop 10 t
      in if length stem \<ge> 15 \<and> take 1 t = ''-'' \<and> list_all is_digit a
            \<and> take 4 (drop 6 t) = ''-of-'' \<and> list_all is_digit b
         then Some (take n stem, a, b) else None)"

definition strip_gguf :: "string \<Rightarrow> string" where
  "strip_gguf name =
     (if ends_with ''.gguf'' (to_lower name) then take (length name - 5) name else name)"

text \<open>With flag \<^verbatim>\<open>i\<close> the word \<^verbatim>\<open>of\<close> matches in any case; \<^verbatim>\<open>to_lower\<close> keeps the length.\<close>

definition bundleIdentity :: "string \<Rightarrow> string" where
  "bundleIdentity filePath =
     (let stem = take (length filePath - 5) filePath; ext = drop (length filePath - 5) filePath
      in if to_lower ext = ''.gguf''
         then (case shard_suffix (to_lower stem) of
                 Some (p, _) \<Rightarrow> take (length p) stem @ ext | None \<Rightarrow> filePath)
         else filePath)"

subsection \<open>The scan of the weights directory\<close>

definition skip_dir :: "string \<Rightarrow> bool" where
  "skip_dir d \<longleftrightarrow> d \<in> set [''.git'', ''node_modules'', ''.cache'', ''target'', ''.tmp'']
     \<or> starts_with ''.'' d"

text \<open>A file is reported unless it lies too deep, in a skipped directory, or is a later shard.\<close>

definition reported :: "string \<Rightarrow> bool" where
  "reported p \<longleftrightarrow>
     (let parts = split_on (CHR ''/'') p; name = last parts; dirs = butlast parts
      in length dirs \<le> 4 \<and> \<not> list_ex skip_dir dirs \<and> ends_with ''.gguf'' (to_lower name)
         \<and> (case shard_suffix (strip_gguf name) of
              Some (_, a, _) \<Rightarrow> a = ''00001'' | None \<Rightarrow> True))"

definition scanWeights :: "(string \<Rightarrow> string \<Rightarrow> rat) \<Rightarrow> string list \<Rightarrow> string list" where
  "scanWeights localeCompare paths = js_sort localeCompare (filter reported paths)"

text \<open>The scan result a completed download registers.\<close>

definition discovered :: "(string \<Rightarrow> string \<Rightarrow> rat) \<Rightarrow> string list \<Rightarrow> string \<Rightarrow> string option" where
  "discovered localeCompare paths relativePath =
     find (\<lambda>f. f = relativePath \<or> bundleIdentity f = bundleIdentity relativePath)
       (scanWeights localeCompare paths)"

subsection \<open>State\<close>

datatype dl_status = DL_QUEUED | DL_DOWNLOADING | DL_VERIFYING | DL_COMPLETED | DL_CANCELLED | DL_FAILED

definition dl_active :: "dl_status \<Rightarrow> bool" where
  "dl_active s \<longleftrightarrow> s = DL_QUEUED \<or> s = DL_DOWNLOADING \<or> s = DL_VERIFYING"

record dl_job =
  dlId :: string
  dlRepo :: string
  dlFilePath :: string
  dlRelativePath :: string
  dlStatus :: dl_status
  dlDownloaded :: int
  dlTotal :: int
  dlError :: "string option"
  dlRegister :: bool
  dlRegistered :: "string option"
  dlAttempt :: nat

record file_info =
  fiSize :: int
  fiHash :: string

record hub_file =
  hfPath :: string
  hfSize :: int
  hfSha :: "string option"

datatype run_phase = Transferring "string option" | Waiting

record dl_run =
  rnJob :: string
  rnController :: nat
  rnAttempt :: nat
  rnPhase :: run_phase

text \<open>
  \<^verbatim>\<open>objects\<close> holds the \<^verbatim>\<open>DownloadState\<close> objects by id, also those a run still refers to after
  they were removed from \<^verbatim>\<open>activeDownloads\<close>, whose keys are \<^verbatim>\<open>activeIds\<close>. The paths of the
  weights directory are listed so that they can be scanned.
\<close>

record dl_state =
  objects :: "string \<rightharpoonup> dl_job"
  activeIds :: "string list"
  controllers :: "(string \<times> nat) list"
  aborted :: "nat list"
  expectedHashes :: "(string \<times> string option) list"
  queuedDownloadIds :: "string list"
  runs :: "dl_run list"
  filesAt :: "string \<rightharpoonup> file_info"
  paths :: "string list"
  registered :: "string list"
  nextController :: nat

record dl_env =
  hub :: "string \<Rightarrow> hub_file list option"
  maxConcurrent :: "rat option"
  maxGb :: "rat option"
  compareNames :: "string \<Rightarrow> string \<Rightarrow> rat"

definition dl_empty :: dl_state where
  "dl_empty = \<lparr>objects = Map.empty, activeIds = [], controllers = [], aborted = [], expectedHashes = [],
     queuedDownloadIds = [], runs = [], filesAt = Map.empty, paths = [], registered = [], nextController = 0\<rparr>"

text \<open>\<^verbatim>\<open>Map.set\<close>, \<^verbatim>\<open>Map.delete\<close> and \<^verbatim>\<open>Map.get\<close> of a JavaScript map.\<close>

definition js_set :: "'k \<Rightarrow> 'v \<Rightarrow> ('k \<times> 'v) list \<Rightarrow> ('k \<times> 'v) list" where
  "js_set k v m = (if k \<in> fst ` set m then map (\<lambda>(k', v'). (k', if k' = k then v else v')) m else m @ [(k, v)])"

definition js_delete :: "'k \<Rightarrow> ('k \<times> 'v) list \<Rightarrow> ('k \<times> 'v) list" where
  "js_delete k m = filter (\<lambda>p. fst p \<noteq> k) m"

definition active_job :: "string \<Rightarrow> dl_state \<Rightarrow> dl_job option" where
  "active_job i s = (if i \<in> set (activeIds s) then objects s i else None)"

definition active_jobs :: "dl_state \<Rightarrow> dl_job list" where
  "active_jobs s = List.map_filter (objects s) (activeIds s)"

definition set_job :: "dl_job \<Rightarrow> dl_state \<Rightarrow> dl_state" where
  "set_job j s = s\<lparr>objects := (objects s)(dlId j \<mapsto> j)\<rparr>"

definition put_file :: "string \<Rightarrow> file_info \<Rightarrow> dl_state \<Rightarrow> dl_state" where
  "put_file p f s = s\<lparr>filesAt := (filesAt s)(p \<mapsto> f),
     paths := (if p \<in> set (paths s) then paths s else paths s @ [p])\<rparr>"

definition remove_file :: "string \<Rightarrow> dl_state \<Rightarrow> dl_state" where
  "remove_file p s = s\<lparr>filesAt := (filesAt s)(p := None), paths := filter (\<lambda>q. q \<noteq> p) (paths s)\<rparr>"

definition part_of :: "dl_job \<Rightarrow> string" where
  "part_of j = dlRelativePath j @ ''.part''"

subsection \<open>The queue\<close>

definition expectedHashFor :: "dl_env \<Rightarrow> dl_job \<Rightarrow> dl_state \<Rightarrow> string option \<times> dl_state" where
  "expectedHashFor env j s =
     (case map_of (expectedHashes s) (dlId j) of
        Some h \<Rightarrow> (h, s)
      | None \<Rightarrow>
          (case hub env (dlRepo j) of
             None \<Rightarrow> (None, s)
           | Some files \<Rightarrow>
               (let h = Option.bind (find (\<lambda>f. hfPath f = dlFilePath j) files) hfSha
                in (h, s\<lparr>expectedHashes := js_set (dlId j) h (expectedHashes s)\<rparr>))))"

text \<open>The synchronous beginning of \<^verbatim>\<open>runDownload\<close>, up to its first await.\<close>

definition start_run :: "dl_env \<Rightarrow> dl_job \<Rightarrow> dl_state \<Rightarrow> dl_state" where
  "start_run env j s =
     (let uid = nextController s; j1 = j\<lparr>dlAttempt := 1\<rparr>;
          s1 = set_job j1 (s\<lparr>controllers := js_set (dlId j) uid (controllers s), nextController := uid + 1\<rparr>);
          (h, s2) = expectedHashFor env j1 s1
      in s2\<lparr>runs := runs s2 @ [\<lparr>rnJob = dlId j, rnController = uid, rnAttempt = 1,
                          rnPhase = Transferring h\<rparr>]\<rparr>)"

definition slots :: "dl_env \<Rightarrow> rat" where
  "slots env = max 1 (case maxConcurrent env of None \<Rightarrow> 2 | Some n \<Rightarrow> n)"

fun pump_loop :: "dl_env \<Rightarrow> string list \<Rightarrow> dl_state \<Rightarrow> dl_state" where
  "pump_loop env [] s = s\<lparr>queuedDownloadIds := []\<rparr>"
| "pump_loop env (i # q) s =
     (if \<not> of_nat (length (controllers s)) < slots env then s\<lparr>queuedDownloadIds := i # q\<rparr>
      else
        (case active_job i s of
           None \<Rightarrow> pump_loop env q s
         | Some j \<Rightarrow>
             if dlStatus j \<noteq> DL_QUEUED then pump_loop env q s
             else pump_loop env q (start_run env j s)))"

definition pumpDownloadQueue :: "dl_env \<Rightarrow> dl_state \<Rightarrow> dl_state" where
  "pumpDownloadQueue env s = pump_loop env (queuedDownloadIds s) s"

definition enqueue_id :: "string \<Rightarrow> dl_state \<Rightarrow> dl_state" where
  "enqueue_id i s = s\<lparr>queuedDownloadIds := queuedDownloadIds s @ [i]\<rparr>"

subsection \<open>Operations of the manager\<close>

definition retryHuggingFaceDownload :: "dl_env \<Rightarrow> string \<Rightarrow> dl_state \<Rightarrow> (string, dl_job) result \<times> dl_state" where
  "retryHuggingFaceDownload env i s =
     (case active_job i s of
        None \<Rightarrow> (Inl ''Download not found'', s)
      | Some j \<Rightarrow>
          if dl_active (dlStatus j) then (Inr j, s)
          else
            (let j1 = j\<lparr>dlStatus := DL_QUEUED, dlError := None\<rparr>
             in (Inr j1, pumpDownloadQueue env (enqueue_id i (set_job j1 s)))))"

definition startHuggingFaceDownload ::
    "dl_env \<Rightarrow> string \<Rightarrow> string \<Rightarrow> string \<Rightarrow> bool \<Rightarrow> dl_state \<Rightarrow> (string, dl_job) result \<times> dl_state" where
  "startHuggingFaceDownload env newId repo file register s =
     (case validateRepoId repo of
        Inl e \<Rightarrow> (Inl e, s)
      | Inr repoId \<Rightarrow>
     (case validateFilePath file of
        Inl e \<Rightarrow> (Inl e, s)
      | Inr filePath \<Rightarrow>
     (case hub env repoId of
        None \<Rightarrow> (Inl ''Hugging Face request failed'', s)
      | Some files \<Rightarrow>
     (case find (\<lambda>f. hfPath f = filePath) files of
        None \<Rightarrow> (Inl ''GGUF file is not present in the repository manifest'', s)
      | Some trusted \<Rightarrow>
     (case find (\<lambda>j. dlRepo j = repoId \<and> dlFilePath j = filePath \<and> dl_active (dlStatus j)) (active_jobs s) of
        Some existing \<Rightarrow> (Inr existing, s)
      | None \<Rightarrow>
     (case find (\<lambda>j. dlRepo j = repoId \<and> dlFilePath j = filePath
                   \<and> (dlStatus j = DL_FAILED \<or> dlStatus j = DL_CANCELLED)) (active_jobs s) of
        Some failed \<Rightarrow> retryHuggingFaceDownload env (dlId failed) s
      | None \<Rightarrow>
          (let totalBytes = max 0 (hfSize trusted);
               maxBytes = max 1 (case maxGb env of None \<Rightarrow> 100 | Some g \<Rightarrow> g) * 1073741824
           in if of_int totalBytes > maxBytes then (Inl ''Selected file exceeds HF_MAX_DOWNLOAD_GB'', s)
              else
                (let j = \<lparr>dlId = newId, dlRepo = repoId, dlFilePath = filePath,
                          dlRelativePath = safe_relative repoId filePath, dlStatus = DL_QUEUED,
                          dlDownloaded = 0, dlTotal = totalBytes, dlError = None,
                          dlRegister = register, dlRegistered = None, dlAttempt = 0\<rparr>;
                     s1 = set_job j (s\<lparr>activeIds := activeIds s @ [newId],
                            expectedHashes := js_set newId (hfSha trusted) (expectedHashes s)\<rparr>)
                 in (Inr j, pumpDownloadQueue env (enqueue_id newId s1))))))))))"

definition remove_first :: "string \<Rightarrow> string list \<Rightarrow> string list" where
  "remove_first i xs = remove1 i xs"

definition cancelHuggingFaceDownload :: "string \<Rightarrow> dl_state \<Rightarrow> bool \<times> dl_state" where
  "cancelHuggingFaceDownload i s =
     (case active_job i s of
        None \<Rightarrow> (False, s)
      | Some j \<Rightarrow>
          if \<not> dl_active (dlStatus j) then (False, s)
          else
            (let s1 = set_job (j\<lparr>dlStatus := DL_CANCELLED\<rparr>) s
             in (True, case map_of (controllers s) i of
                   Some uid \<Rightarrow> s1\<lparr>aborted := uid # aborted s1\<rparr>
                 | None \<Rightarrow> s1\<lparr>queuedDownloadIds := remove_first i (queuedDownloadIds s1)\<rparr>)))"

definition removeHuggingFaceDownload :: "string \<Rightarrow> dl_state \<Rightarrow> bool \<times> dl_state" where
  "removeHuggingFaceDownload i s =
     (case active_job i s of
        None \<Rightarrow> (False, s)
      | Some j \<Rightarrow>
          if dl_active (dlStatus j) then (False, s)
          else (True, s\<lparr>activeIds := filter (\<lambda>k. k \<noteq> i) (activeIds s)\<rparr>))"

text \<open>The rows of the persisted file that name an id, a repository and a path.\<close>

definition restored :: "dl_job \<Rightarrow> dl_job" where
  "restored j =
     (if dl_active (dlStatus j)
      then j\<lparr>dlStatus := DL_QUEUED, dlError := Some ''Resuming after gateway restart''\<rparr> else j)"

definition restore_one :: "dl_job \<Rightarrow> dl_state \<Rightarrow> dl_state" where
  "restore_one j s =
     (let s1 = (if dl_active (dlStatus j) then enqueue_id (dlId j) s else s)
      in set_job (restored j)
           (s1\<lparr>activeIds := (if dlId j \<in> set (activeIds s1) then activeIds s1 else activeIds s1 @ [dlId j])\<rparr>))"

definition restoreHuggingFaceDownloads :: "dl_env \<Rightarrow> dl_job list \<Rightarrow> dl_state \<Rightarrow> nat \<times> dl_state" where
  "restoreHuggingFaceDownloads env jobs s =
     (let valid = filter (\<lambda>j. dlId j \<noteq> [] \<and> dlRepo j \<noteq> [] \<and> dlFilePath j \<noteq> []) jobs;
          resumed = length (filter (\<lambda>j. dl_active (dlStatus j)) valid);
          s1 = fold restore_one valid s
      in (resumed, if resumed > 0 then pumpDownloadQueue env s1 else s1))"

subsection \<open>One transfer\<close>

record hub_reply =
  hrStatus :: int
  hrBody :: bool
  hrLength :: int
  hrRangeTotal :: int

text \<open>
  The answers one transfer meets: free disk space (\<^verbatim>\<open>None\<close> when \<^verbatim>\<open>statfs\<close> fails), the replies to
  the first request and to the repeated one, the bytes streamed, whether the stream then
  failed, and the hash of the partial file afterwards.
\<close>

record dl_world =
  twFree :: "int option"
  twFirst :: "(string, hub_reply) result"
  twSecond :: "(string, hub_reply) result"
  twBytes :: int
  twFails :: "string option"
  twHash :: string

definition sha_failed :: string where
  "sha_failed = ''SHA-256 verification failed; the partial file was retained for retry''"

definition completeDownload :: "dl_env \<Rightarrow> dl_job \<Rightarrow> dl_state \<Rightarrow> dl_state" where
  "completeDownload env j s =
     (let j1 = j\<lparr>dlStatus := DL_COMPLETED, dlError := None\<rparr>; s1 = set_job j1 s
      in if \<not> dlRegister j then s1
         else if list_ex (\<lambda>k. dlId k \<noteq> dlId j \<and> dlRepo k = dlRepo j
                  \<and> bundleIdentity (dlFilePath k) = bundleIdentity (dlFilePath j)
                  \<and> dl_active (dlStatus k)) (active_jobs s1)
         then s1
         else
           (case discovered (compareNames env) (paths s1) (dlRelativePath j) of
              None \<Rightarrow> s1
            | Some f \<Rightarrow> set_job (j1\<lparr>dlRegistered := Some f\<rparr>)
                          (s1\<lparr>registered := (if f \<in> set (registered s1) then registered s1
                                             else registered s1 @ [f])\<rparr>)))"

text \<open>Rename the verified partial file and complete.\<close>

definition publish :: "dl_env \<Rightarrow> dl_job \<Rightarrow> file_info \<Rightarrow> dl_state \<Rightarrow> dl_state" where
  "publish env j f s =
     completeDownload env j (put_file (dlRelativePath j) f (remove_file (part_of j) s))"

definition verify_and_publish ::
    "dl_env \<Rightarrow> string option \<Rightarrow> dl_job \<Rightarrow> file_info \<Rightarrow> dl_state \<Rightarrow> (string, unit) result \<times> dl_state" where
  "verify_and_publish env expected j f s =
     (case expected of
        None \<Rightarrow> (Inr (), publish env j f s)
      | Some h \<Rightarrow>
          if h = [] then (Inr (), publish env j f s)
          else if to_lower (fiHash f) \<noteq> to_lower h
          then (Inl sha_failed, set_job (j\<lparr>dlStatus := DL_VERIFYING\<rparr>) s)
          else (Inr (), publish env (j\<lparr>dlStatus := DL_VERIFYING\<rparr>) f s))"

definition stream_body ::
    "dl_env \<Rightarrow> dl_world \<Rightarrow> string option \<Rightarrow> dl_job \<Rightarrow> int \<Rightarrow> hub_reply \<Rightarrow> dl_state \<Rightarrow> (string, unit) result \<times> dl_state" where
  "stream_body env w expected j offset reply s =
     (if \<not> hrBody reply then (Inl ''Hugging Face returned an empty download body'', set_job j s)
      else
        (let total = (if dlTotal j \<noteq> 0 then dlTotal j
                      else if hrRangeTotal reply \<noteq> 0 then hrRangeTotal reply
                      else offset + hrLength reply);
             j1 = j\<lparr>dlTotal := total, dlDownloaded := offset, dlStatus := DL_DOWNLOADING, dlError := None\<rparr>;
             partial = \<lparr>fiSize = offset + twBytes w, fiHash = twHash w\<rparr>;
             s1 = put_file (part_of j) partial s
         in case twFails w of
              Some e \<Rightarrow> (Inl e, set_job j1 s1)
            | None \<Rightarrow>
                (let j2 = j1\<lparr>dlDownloaded := offset + twBytes w\<rparr>
                 in if total \<noteq> 0 \<and> dlDownloaded j2 \<noteq> total
                    then (Inl ''Download incomplete'', set_job j2 s1)
                    else verify_and_publish env expected j2 partial s1)))"

definition fetch_and_stream ::
    "dl_env \<Rightarrow> dl_world \<Rightarrow> string option \<Rightarrow> dl_job \<Rightarrow> int \<Rightarrow> dl_state \<Rightarrow> (string, unit) result \<times> dl_state" where
  "fetch_and_stream env w expected j offset s =
     (case twFirst w of
        Inl e \<Rightarrow> (Inl e, set_job j s)
      | Inr reply \<Rightarrow>
          if offset > 0 \<and> hrStatus reply \<noteq> 206
          then (case twSecond w of
                  Inl e \<Rightarrow> (Inl e, set_job j (remove_file (part_of j) s))
                | Inr again \<Rightarrow> stream_body env w expected j 0 again (remove_file (part_of j) s))
          else stream_body env w expected j offset reply s)"

definition transferOnce ::
    "dl_env \<Rightarrow> dl_world \<Rightarrow> string option \<Rightarrow> dl_job \<Rightarrow> dl_state \<Rightarrow> (string, unit) result \<times> dl_state" where
  "transferOnce env w expected j s =
     (let existingFinal = filesAt s (dlRelativePath j); partialInfo = filesAt s (part_of j) in
      if existingFinal \<noteq> None \<and> (dlTotal j = 0 \<or> fiSize (the existingFinal) = dlTotal j)
      then (Inr (), completeDownload env (j\<lparr>dlDownloaded := fiSize (the existingFinal)\<rparr>) s)
      else if partialInfo \<noteq> None \<and> dlTotal j \<noteq> 0 \<and> fiSize (the partialInfo) = dlTotal j
      then verify_and_publish env expected (j\<lparr>dlDownloaded := fiSize (the partialInfo)\<rparr>) (the partialInfo) s
      else
        (let s1 = (if partialInfo \<noteq> None \<and> dlTotal j \<noteq> 0 \<and> fiSize (the partialInfo) > dlTotal j
                   then remove_file (part_of j) s else s);
             offset = (if partialInfo \<noteq> None \<and> (dlTotal j = 0 \<or> fiSize (the partialInfo) < dlTotal j)
                       then fiSize (the partialInfo) else 0);
             remaining = max 0 (dlTotal j - offset)
         in if remaining \<noteq> 0 \<and> (case twFree w of None \<Rightarrow> False | Some f \<Rightarrow> f < remaining + 536870912)
            then (Inl ''Not enough disk space'', set_job j s1)
            else fetch_and_stream env w expected j offset s1))"

subsection \<open>A run\<close>

definition retryable_words :: "string list" where
  "retryable_words = [''terminated'', ''fetch failed'', ''network'', ''econnreset'', ''econnrefused'',
     ''etimedout'', ''eai_again'', ''epipe'', ''socket'', ''und_err'', ''body timeout'',
     ''headers timeout'', ''incomplete'', ''aborted'', ''other side closed'', ''reset'']"

definition isRetryableDownloadError :: "string \<Rightarrow> bool" where
  "isRetryableDownloadError message = list_ex (\<lambda>w. includes_at w (to_lower message)) retryable_words"

definition downloadWasCancelled :: "nat \<Rightarrow> dl_job \<Rightarrow> dl_state \<Rightarrow> bool" where
  "downloadWasCancelled uid j s \<longleftrightarrow> uid \<in> set (aborted s) \<or> dlStatus j = DL_CANCELLED"

text \<open>The \<^verbatim>\<open>finally\<close> clause, after the run has left its loop.\<close>

definition finish_run :: "dl_env \<Rightarrow> nat \<Rightarrow> string \<Rightarrow> dl_state \<Rightarrow> dl_state" where
  "finish_run env uid i s =
     pumpDownloadQueue env
       (s\<lparr>controllers := js_delete i (controllers s), expectedHashes := js_delete i (expectedHashes s),
          runs := filter (\<lambda>r. rnController r \<noteq> uid) (runs s)\<rparr>)"

definition stop_cancelled :: "dl_env \<Rightarrow> nat \<Rightarrow> dl_job \<Rightarrow> dl_state \<Rightarrow> dl_state" where
  "stop_cancelled env uid j s =
     finish_run env uid (dlId j) (set_job (j\<lparr>dlStatus := DL_CANCELLED, dlError := None\<rparr>) s)"

definition set_phase :: "nat \<Rightarrow> nat \<Rightarrow> run_phase \<Rightarrow> dl_state \<Rightarrow> dl_state" where
  "set_phase uid attempt p s =
     s\<lparr>runs := map (\<lambda>r. if rnController r = uid then r\<lparr>rnAttempt := attempt, rnPhase := p\<rparr> else r) (runs s)\<rparr>"

text \<open>
  The transfer of the current attempt settles. A cancellation that came meanwhile is seen in
  the controller or in the status the transfer started from.
\<close>

definition settle_run :: "dl_env \<Rightarrow> nat \<Rightarrow> dl_world \<Rightarrow> dl_state \<Rightarrow> dl_state" where
  "settle_run env uid w s =
     (case table_find rnController uid (runs s) of
        None \<Rightarrow> s
      | Some r \<Rightarrow>
     (case rnPhase r of
        Waiting \<Rightarrow> s
      | Transferring expected \<Rightarrow>
     (case objects s (rnJob r) of
        None \<Rightarrow> s
      | Some j \<Rightarrow>
          (case transferOnce env w expected j s of
             (Inr _, s1) \<Rightarrow> finish_run env uid (rnJob r) s1
           | (Inl message, s1) \<Rightarrow>
               (case objects s1 (rnJob r) of
                  None \<Rightarrow> s1
                | Some j1 \<Rightarrow>
                    if uid \<in> set (aborted s1) \<or> dlStatus j = DL_CANCELLED
                    then stop_cancelled env uid j1 s1
                    else if rnAttempt r < 8 \<and> isRetryableDownloadError message
                    then set_phase uid (rnAttempt r) Waiting
                           (set_job (j1\<lparr>dlStatus := DL_QUEUED, dlError := Some message\<rparr>) s1)
                    else finish_run env uid (rnJob r)
                           (set_job (j1\<lparr>dlStatus := DL_FAILED, dlError := Some message\<rparr>) s1))))))"

text \<open>The waiting time is over: the next turn of the loop.\<close>

definition wake_run :: "dl_env \<Rightarrow> nat \<Rightarrow> dl_state \<Rightarrow> dl_state" where
  "wake_run env uid s =
     (case table_find rnController uid (runs s) of
        None \<Rightarrow> s
      | Some r \<Rightarrow>
     (case rnPhase r of
        Transferring _ \<Rightarrow> s
      | Waiting \<Rightarrow>
     (case objects s (rnJob r) of
        None \<Rightarrow> s
      | Some j \<Rightarrow>
          if downloadWasCancelled uid j s then stop_cancelled env uid j s
          else
            (let j1 = j\<lparr>dlAttempt := rnAttempt r + 1\<rparr>; (h, s1) = expectedHashFor env j1 (set_job j1 s)
             in set_phase uid (rnAttempt r + 1) (Transferring h) s1))))"

datatype dl_op =
    DlStart string string string bool
  | DlRetry string
  | DlCancel string
  | DlRemove string
  | DlRestore "dl_job list"
  | DlSettle nat dl_world
  | DlWake nat

fun dl_step :: "dl_env \<Rightarrow> dl_op \<Rightarrow> dl_state \<Rightarrow> dl_state" where
  "dl_step env (DlStart i repo file reg) s = snd (startHuggingFaceDownload env i repo file reg s)"
| "dl_step env (DlRetry i) s = snd (retryHuggingFaceDownload env i s)"
| "dl_step env (DlCancel i) s = snd (cancelHuggingFaceDownload i s)"
| "dl_step env (DlRemove i) s = snd (removeHuggingFaceDownload i s)"
| "dl_step env (DlRestore jobs) s = snd (restoreHuggingFaceDownloads env jobs s)"
| "dl_step env (DlSettle uid w) s = settle_run env uid w s"
| "dl_step env (DlWake uid) s = wake_run env uid s"

end
