(* ===== verification/Weights.thy ===== *)
theory Weights
  imports Downloads
begin

text \<open>
  The names and the deletion of weight files (\<^verbatim>\<open>apps/gateway/src/lib/weights.ts\<close>): what a
  discovered file is called, and which files are removed with a registered model. An absolute
  path is the list of its names; the POSIX form of \<^verbatim>\<open>node:path\<close> is modelled.
\<close>

subsection \<open>Names of a discovered file\<close>

text \<open>\<^verbatim>\<open>replace(/[...]+/g, d)\<close>: every maximal run of characters of a class becomes one \<^verbatim>\<open>d\<close>.\<close>

fun squeeze_runs :: "(char \<Rightarrow> bool) \<Rightarrow> char \<Rightarrow> bool \<Rightarrow> string \<Rightarrow> string" where
  "squeeze_runs P d run [] = []"
| "squeeze_runs P d run (c # s) =
     (if \<not> P c then c # squeeze_runs P d False s
      else if run then squeeze_runs P d True s else d # squeeze_runs P d True s)"

definition strip_ends :: "(char \<Rightarrow> bool) \<Rightarrow> string \<Rightarrow> string" where
  "strip_ends P s = rev (dropWhile P (rev (dropWhile P s)))"

definition slug_char :: "char \<Rightarrow> bool" where
  "slug_char c \<longleftrightarrow> is_lower c \<or> is_digit c"

definition text_or :: "string \<Rightarrow> string \<Rightarrow> string" where
  "text_or s d = (if s = [] then d else s)"

definition toSlug :: "string \<Rightarrow> string" where
  "toSlug v =
     text_or (take 60 (strip_ends (\<lambda>c. c = CHR ''-'')
       (squeeze_runs (\<lambda>c. \<not> slug_char c) (CHR ''-'') False (to_lower v)))) ''model''"

text \<open>
  \<^verbatim>\<open>QUANT_PATTERN\<close>, case-insensitive. After \<^verbatim>\<open>Q\<close> or \<^verbatim>\<open>IQ\<close> and a digit a run of word characters
  follows that ends at \<^verbatim>\<open>.\<close>, \<^verbatim>\<open>-\<close>, \<^verbatim>\<open>_\<close> or the end; backtracking finds the longest such run, which
  the optional group of the pattern cannot extend.
\<close>

definition word_char :: "char \<Rightarrow> bool" where
  "word_char c \<longleftrightarrow> alnum c \<or> c = CHR ''_''"

definition word_ends :: "string \<Rightarrow> bool" where
  "word_ends s \<longleftrightarrow> (case s of [] \<Rightarrow> True | c # _ \<Rightarrow> c \<in> set ''.-_'')"

definition quant_run :: "string \<Rightarrow> nat option" where
  "quant_run s = find (\<lambda>n. word_ends (drop n s)) (rev [0..<Suc (length (takeWhile word_char s))])"

text \<open>The length of the match that starts here.\<close>

definition quant_here :: "string \<Rightarrow> nat option" where
  "quant_here s =
     (let u = to_lower s
      in if starts_with ''iq'' u then
           (case drop 2 s of
              c # r \<Rightarrow> if is_digit c then map_option (\<lambda>n. n + 3) (quant_run r) else None
            | [] \<Rightarrow> None)
         else if starts_with ''q'' u then
           (case drop 1 s of
              c # r \<Rightarrow> if is_digit c then map_option (\<lambda>n. n + 2) (quant_run r) else None
            | [] \<Rightarrow> None)
         else if starts_with ''bf16'' u \<and> word_ends (drop 4 s) then Some 4
         else if (starts_with ''f16'' u \<or> starts_with ''f32'' u) \<and> word_ends (drop 3 s) then Some 3
         else None)"

text \<open>The text before the first match, and the match.\<close>

fun quant_match :: "string \<Rightarrow> (string \<times> string) option" where
  "quant_match [] = None"
| "quant_match (c # s) =
     (case quant_here (c # s) of
        Some n \<Rightarrow> Some ([], take n (c # s))
      | None \<Rightarrow> map_option (\<lambda>(pre, q). (c # pre, q)) (quant_match s))"

definition upper_char :: "char \<Rightarrow> char" where
  "upper_char c = (if is_lower c then char_of (chr_code c - 32) else c)"

definition digits_number :: "string \<Rightarrow> nat" where
  "digits_number s = foldl (\<lambda>n c. 10 * n + (chr_code c - 48)) 0 s"

record discovered_weight =
  dwPath :: string
  dwFile :: string
  dwSize :: int
  dwQuantization :: string
  dwModelId :: string
  dwDisplayName :: string
  dwShards :: nat

definition drop_tail :: "(char \<Rightarrow> bool) \<Rightarrow> string \<Rightarrow> string" where
  "drop_tail P s = rev (dropWhile P (rev s))"

definition describe :: "string \<Rightarrow> int \<Rightarrow> discovered_weight" where
  "describe relativePath sizeBytes =
     (let fileName = basename relativePath;
          base0 = strip_gguf fileName;
          (base1, shards) = (case shard_suffix base0 of
             Some (p, _, n) \<Rightarrow> (p, digits_number n) | None \<Rightarrow> (base0, 1));
          (base, quant) = (case quant_match base1 of
             Some (pre, q) \<Rightarrow>
               (text_or (drop_tail (\<lambda>c. c \<in> set ''.-_'') pre) base1, map upper_char q)
           | None \<Rightarrow> (base1, ''unknown''))
      in \<lparr>dwPath = relativePath, dwFile = fileName, dwSize = sizeBytes, dwQuantization = quant,
          dwModelId = toSlug base,
          dwDisplayName = text_or (js_trim (squeeze_runs (\<lambda>c. c \<in> set ''-_'') (CHR '' '') False base)) fileName,
          dwShards = shards\<rparr>)"

subsection \<open>Paths\<close>

type_synonym path = "string list"

text \<open>\<^verbatim>\<open>path.resolve\<close>: the accumulator holds the names reached so far, last first.\<close>

fun resolve_names :: "path \<Rightarrow> string list \<Rightarrow> path" where
  "resolve_names acc [] = rev acc"
| "resolve_names acc (p # ps) =
     (if p = [] \<or> p = ''.'' then resolve_names acc ps
      else if p = ''..'' then resolve_names (tl acc) ps
      else resolve_names (p # acc) ps)"

definition path_resolve :: "path \<Rightarrow> string \<Rightarrow> path" where
  "path_resolve wdir p =
     resolve_names (if starts_with ''/'' p then [] else rev wdir) (split_on (CHR ''/'') p)"

text \<open>\<^verbatim>\<open>path.relative\<close>: up to the common ancestor and down again.\<close>

fun path_relative :: "path \<Rightarrow> path \<Rightarrow> path" where
  "path_relative (a # as) (b # bs) =
     (if a = b then path_relative as bs else map (\<lambda>_. ''..'') (a # as) @ (b # bs))"
| "path_relative from to = map (\<lambda>_. ''..'') from @ to"

definition outside_root :: "string \<Rightarrow> bool" where
  "outside_root inside \<longleftrightarrow> inside = [] \<or> starts_with ''..'' inside \<or> starts_with ''/'' inside"

definition inside_of :: "path \<Rightarrow> path \<Rightarrow> string" where
  "inside_of wdir p = join ''/'' (path_relative wdir p)"

definition resolveInsideWeightsDir :: "path \<Rightarrow> string \<Rightarrow> (string, path) result" where
  "resolveInsideWeightsDir wdir relativePath =
     (let target = path_resolve wdir relativePath
      in if outside_root (inside_of wdir target)
         then Inl ''Refusing to delete weights outside MODEL_WEIGHTS_DIR'' else Inr target)"

definition normalizedWeightPath :: "path \<Rightarrow> string \<Rightarrow> string" where
  "normalizedWeightPath wdir v =
     (let r = (if starts_with ''/'' v then inside_of wdir (path_resolve [] v) else v);
          n = map (\<lambda>c. if c = backslash then CHR ''/'' else c) r
      in if starts_with ''./'' n then dropWhile (\<lambda>c. c = CHR ''/'') (drop 1 n) else n)"

subsection \<open>Deleting the files of a model\<close>

definition padStart5 :: "string \<Rightarrow> string" where
  "padStart5 s = replicate (5 - length s) (CHR ''0'') @ s"

definition shard_names :: "string \<Rightarrow> string list" where
  "shard_names fileName =
     (case shard_suffix (strip_gguf fileName) of
        None \<Rightarrow> [fileName]
      | Some (p, _, count) \<Rightarrow>
          map (\<lambda>i. p @ ''-'' @ padStart5 (digits_of (Suc i)) @ ''-of-'' @ count @ ''.gguf'')
            [0..<digits_number count])"

text \<open>
  \<^verbatim>\<open>unlinkError\<close>: the message of a failure other than a missing file. What was removed before a
  failure stays removed.
\<close>

fun delete_each :: "(path \<Rightarrow> string option) \<Rightarrow> path \<Rightarrow> path \<Rightarrow> string list \<Rightarrow> path list
    \<Rightarrow> (string, string list) result \<times> path list" where
  "delete_each unlinkError wdir dir [] files = (Inr [], files)"
| "delete_each unlinkError wdir dir (name # names) files =
     (let file = dir @ [name]; inside = inside_of wdir file
      in if outside_root inside then delete_each unlinkError wdir dir names files
         else (case unlinkError file of
                 Some e \<Rightarrow> (Inl e, files)
               | None \<Rightarrow>
                   (if file \<in> set files
                    then apfst (map_sum id (\<lambda>deleted. inside # deleted))
                           (delete_each unlinkError wdir dir names (removeAll file files))
                    else delete_each unlinkError wdir dir names files)))"

definition deleteRegisteredWeights ::
    "(path \<Rightarrow> string option) \<Rightarrow> path \<Rightarrow> string \<Rightarrow> path list \<Rightarrow> (string, string list) result \<times> path list" where
  "deleteRegisteredWeights unlinkError wdir relativePath files =
     (case resolveInsideWeightsDir wdir relativePath of
        Inl e \<Rightarrow> (Inl e, files)
      | Inr target \<Rightarrow>
          delete_each unlinkError wdir (butlast target) (shard_names (last target)) files)"

end
