(* ===== verification/ModelAdmin.thy ===== *)
theory ModelAdmin
  imports EngineRegistry Billing Weights Credentials Canonical
begin

text \<open>
  Administration of the models: the server actions of
  \<^verbatim>\<open>apps/web/app/(admin)/admin/models/actions.ts\<close> and the model routes of
  \<^verbatim>\<open>apps/gateway/src/routes/internal.ts\<close> they call. The state joins the registry and the
  pool of the engine with the plans, the entitlements, the price versions, the sealed keys and
  the weight files. The session check, the audit log and the cache revalidation are not modelled.
\<close>

subsection \<open>Forms and numbers\<close>

text \<open>\<^verbatim>\<open>FormData\<close>: the value of a field, \<^verbatim>\<open>None\<close> is \<^verbatim>\<open>null\<close>.\<close>

type_synonym form = "string \<Rightarrow> string option"

text \<open>\<^verbatim>\<open>String(form.get(k))\<close>, \<^verbatim>\<open>String(form.get(k) ?? "")\<close> and \<^verbatim>\<open>String(form.get(k) || d)\<close>.\<close>

definition form_string :: "form \<Rightarrow> string \<Rightarrow> string" where
  "form_string f k = (case f k of None \<Rightarrow> ''null'' | Some v \<Rightarrow> v)"

definition form_text :: "form \<Rightarrow> string \<Rightarrow> string" where
  "form_text f k = (case f k of None \<Rightarrow> [] | Some v \<Rightarrow> v)"

definition form_or :: "form \<Rightarrow> string \<Rightarrow> string \<Rightarrow> string" where
  "form_or f k d = text_or (form_text f k) d"

text \<open>A JavaScript number; the rounding to a double is not modelled.\<close>

datatype js_num = Fin rat | Infinite bool | NaN

fun span_chars :: "(char \<Rightarrow> bool) \<Rightarrow> string \<Rightarrow> string \<times> string" where
  "span_chars P s = (takeWhile P s, dropWhile P s)"

definition digit_value :: "char \<Rightarrow> nat" where
  "digit_value c =
     (let n = chr_code c in if n \<le> 57 then n - 48 else if n \<le> 70 then n - 55 else n - 87)"

definition radix_number :: "nat \<Rightarrow> string \<Rightarrow> js_num" where
  "radix_number b s =
     (if s = [] \<or> \<not> list_all (\<lambda>c. hex_char c \<and> digit_value c < b) s then NaN
      else Fin (of_nat (foldl (\<lambda>n c. b * n + digit_value c) 0 s)))"

text \<open>The exponent part: \<^verbatim>\<open>None\<close> when it is malformed.\<close>

definition exponent_value :: "string \<Rightarrow> rat option" where
  "exponent_value s =
     (case s of
        [] \<Rightarrow> Some 1
      | e # r \<Rightarrow>
          (let ds = (case r of c # ds \<Rightarrow> if c \<in> set ''+-'' then ds else r | [] \<Rightarrow> []);
               n = digits_number ds
           in if e \<notin> set ''eE'' \<or> ds = [] \<or> \<not> list_all is_digit ds then None
              else Some (if starts_with ''-'' r then 1 / 10 ^ n else 10 ^ n)))"

definition decimal_number :: "string \<Rightarrow> js_num" where
  "decimal_number s =
     (let (whole, r) = span_chars is_digit s;
          (frac, rest) = (if starts_with ''.'' r then span_chars is_digit (drop 1 r) else ([], r))
      in if s = ''Infinity'' then Infinite True
         else if whole = [] \<and> frac = [] then NaN
         else (case exponent_value rest of
                 None \<Rightarrow> NaN
               | Some e \<Rightarrow> Fin ((of_nat (digits_number (whole @ frac)) / 10 ^ length frac) * e)))"

definition js_negate :: "js_num \<Rightarrow> js_num" where
  "js_negate n = (case n of Fin q \<Rightarrow> Fin (- q) | Infinite b \<Rightarrow> Infinite (\<not> b) | NaN \<Rightarrow> NaN)"

text \<open>\<^verbatim>\<open>Number(text)\<close>.\<close>

definition js_number :: "string \<Rightarrow> js_num" where
  "js_number text =
     (let s = js_trim text; p = to_lower (take 2 s)
      in if s = [] then Fin 0
         else if p = ''0x'' then radix_number 16 (drop 2 s)
         else if p = ''0o'' then radix_number 8 (drop 2 s)
         else if p = ''0b'' then radix_number 2 (drop 2 s)
         else if starts_with ''-'' s then js_negate (decimal_number (drop 1 s))
         else if starts_with ''+'' s then decimal_number (drop 1 s)
         else decimal_number s)"

text \<open>\<^verbatim>\<open>Number(form.get(k) || d)\<close>.\<close>

definition form_number :: "form \<Rightarrow> string \<Rightarrow> rat \<Rightarrow> js_num" where
  "form_number f k d = (if form_text f k = [] then Fin d else js_number (form_text f k))"

text \<open>What an \<^verbatim>\<open>Int\<close> and a \<^verbatim>\<open>Float\<close> column accept; the write of any other value is rejected.\<close>

definition db_int :: "js_num \<Rightarrow> int option" where
  "db_int n =
     (case n of
        Fin q \<Rightarrow> if of_int \<lfloor>q\<rfloor> = q \<and> \<bar>\<lfloor>q\<rfloor>\<bar> < 2 ^ 31 then Some \<lfloor>q\<rfloor> else None
      | _ \<Rightarrow> None)"

definition db_float :: "js_num \<Rightarrow> rat option" where
  "db_float n = (case n of Fin q \<Rightarrow> Some q | _ \<Rightarrow> None)"

definition bad_value :: string where
  "bad_value = ''Invalid value for a column''"

subsection \<open>State\<close>

record plan_access =
  paId :: string
  paAllowed :: "string list"

record credential =
  crId :: string
  crLabel :: string
  crSecret :: sealed_secret

record admin_state =
  asEngine :: engine
  asPlans :: "plan_access list"
  asEntitlements :: "(string \<times> string) list"
  asPricing :: "pricing_version list"
  asCredentials :: "credential list"
  asFiles :: "path list"
  asNextId :: nat

abbreviation models :: "admin_state \<Rightarrow> hosted_model list" where
  "models s \<equiv> registry (asEngine s)"

definition set_models :: "(hosted_model list \<Rightarrow> hosted_model list) \<Rightarrow> admin_state \<Rightarrow> admin_state" where
  "set_models f s = s\<lparr>asEngine := (asEngine s)\<lparr>registry := f (models s)\<rparr>\<rparr>"

text \<open>A generated identifier is fresh.\<close>

definition row_id :: "admin_state \<Rightarrow> string" where
  "row_id s = ''id'' @ digits_of (asNextId s)"

definition next_id :: "admin_state \<Rightarrow> admin_state" where
  "next_id s = s\<lparr>asNextId := Suc (asNextId s)\<rparr>"

text \<open>The column defaults of \<^verbatim>\<open>HostedModel\<close>.\<close>

definition blank_model :: "string \<Rightarrow> string \<Rightarrow> hosted_model" where
  "blank_model i slug =
     \<lparr>hmId = i, modelId = slug, displayName = [], weightsPath = [], quantization = ''remote'',
      contextLength = 8192, nThreads = 8, gpuLayers = 0, hmStatus = MS_INACTIVE, pricePerMTokIn = 0,
      pricePerMTokOut = 0, qualityClass = 50, latencyClass = 50, supportsTools = False,
      isPlatformDefault = False, providerKind = LOCAL_GGUF, remoteBaseUrl = None,
      remoteModelId = None, credentialId = None\<rparr>"

text \<open>\<^verbatim>\<open>hostedModel.upsert\<close> by \<^verbatim>\<open>modelId\<close>: the row's id and the new state.\<close>

definition upsert_model ::
    "string \<Rightarrow> (hosted_model \<Rightarrow> hosted_model) \<Rightarrow> admin_state \<Rightarrow> string \<times> admin_state" where
  "upsert_model slug data s =
     (case find_model slug (models s) of
        Some r \<Rightarrow> (hmId r, set_models (update_where (\<lambda>r. modelId r = slug) data) s)
      | None \<Rightarrow> (row_id s, next_id (set_models (\<lambda>rows. rows @ [data (blank_model (row_id s) slug)]) s)))"

definition add_price :: "string \<Rightarrow> rat \<Rightarrow> rat \<Rightarrow> int \<Rightarrow> admin_state \<Rightarrow> admin_state" where
  "add_price i priceIn priceOut now s =
     s\<lparr>asPricing := asPricing s @
        [\<lparr>pvsModel = i, pvsPriceIn = priceIn, pvsPriceOut = priceOut, pvsFrom = now, pvsTo = None\<rparr>]\<rparr>"

definition close_prices :: "string \<Rightarrow> int \<Rightarrow> admin_state \<Rightarrow> admin_state" where
  "close_prices i now s =
     s\<lparr>asPricing := update_where (\<lambda>v. pvsModel v = i \<and> pvsTo v = None) (\<lambda>v. v\<lparr>pvsTo := Some now\<rparr>) (asPricing s)\<rparr>"

text \<open>
  The plans that lack the model get it, with an entitlement row beside it. The list of the plan
  is written back from what was read.
\<close>

definition grant_plan :: "string \<Rightarrow> plan_access \<Rightarrow> admin_state \<Rightarrow> admin_state" where
  "grant_plan slug p s =
     s\<lparr>asPlans := update_where (\<lambda>q. paId q = paId p) (\<lambda>q. q\<lparr>paAllowed := paAllowed p @ [slug]\<rparr>) (asPlans s),
       asEntitlements :=
         (if (paId p, slug) \<in> set (asEntitlements s) then asEntitlements s
          else asEntitlements s @ [(paId p, slug)])\<rparr>"

definition grant_all :: "string \<Rightarrow> admin_state \<Rightarrow> admin_state" where
  "grant_all slug s = fold (grant_plan slug) (filter (\<lambda>p. slug \<notin> set (paAllowed p)) (asPlans s)) s"

definition make_default :: "(hosted_model \<Rightarrow> bool) \<Rightarrow> admin_state \<Rightarrow> admin_state" where
  "make_default P s =
     set_models (\<lambda>rows. update_where P (\<lambda>r. r\<lparr>isPlatformDefault := True\<rparr>)
       (update_where isPlatformDefault (\<lambda>r. r\<lparr>isPlatformDefault := False\<rparr>) rows)) s"

subsection \<open>Local models\<close>

definition local_row :: "form \<Rightarrow> int \<Rightarrow> int \<Rightarrow> rat \<Rightarrow> rat \<Rightarrow> hosted_model \<Rightarrow> hosted_model" where
  "local_row f ctx threads priceIn priceOut r =
     r\<lparr>displayName := form_string f ''displayName'', weightsPath := form_string f ''weightsPath'',
       quantization := form_or f ''quantization'' ''Q4_K_M'', contextLength := ctx, nThreads := threads,
       pricePerMTokIn := priceIn, pricePerMTokOut := priceOut, gpuLayers := 0, providerKind := LOCAL_GGUF\<rparr>"

definition upsertModelAction :: "int \<Rightarrow> form \<Rightarrow> admin_state \<Rightarrow> (string, unit) result \<times> admin_state" where
  "upsertModelAction now f s =
     (let slug = form_string f ''modelId''
      in case (db_int (form_number f ''contextLength'' 8192), db_int (form_number f ''nThreads'' 8),
               db_float (form_number f ''pricePerMTokIn'' 20), db_float (form_number f ''pricePerMTokOut'' 60)) of
           (Some ctx, Some threads, Some priceIn, Some priceOut) \<Rightarrow>
             (let (i, s1) = upsert_model slug (local_row f ctx threads priceIn priceOut) s
              in (Inr (), add_price i priceIn priceOut now s1))
         | _ \<Rightarrow> (Inl bad_value, s))"

text \<open>A field of the JSON body of the registration; \<^verbatim>\<open>Number(x) || d\<close> replaces 0 and NaN by \<^verbatim>\<open>d\<close>.\<close>

definition number_or :: "js_num option \<Rightarrow> rat \<Rightarrow> js_num" where
  "number_or n d =
     (case n of None \<Rightarrow> Fin d | Some NaN \<Rightarrow> Fin d | Some (Fin q) \<Rightarrow> Fin (if q = 0 then d else q)
      | Some (Infinite b) \<Rightarrow> Infinite b)"

record register_body =
  rbWeightsPath :: "string option"
  rbModelId :: "string option"
  rbDisplayName :: "string option"
  rbQuantization :: "string option"
  rbContextLength :: "js_num option"
  rbThreads :: "js_num option"
  rbPriceIn :: "js_num option"
  rbPriceOut :: "js_num option"

datatype route_reply = Reply int string

text \<open>The body of an error reply.\<close>

definition error_body :: "string \<Rightarrow> string \<Rightarrow> string" where
  "error_body kind msg =
     ''{\"error\":{\"type\":'' @ json_string kind @ '',\"message\":'' @ json_string msg @ ''}}''"

definition failure_body :: "string \<Rightarrow> string" where
  "failure_body msg = ''{\"success\":false,\"error\":'' @ json_string msg @ ''}''"

text \<open>The files of the weights directory by their relative path, as the scan sees them.\<close>

definition relative_files :: "path \<Rightarrow> path list \<Rightarrow> string list" where
  "relative_files wdir files =
     map (\<lambda>f. join ''/'' (drop (length wdir) f))
       (filter (\<lambda>f. length wdir < length f \<and> take (length wdir) f = wdir) files)"

definition registered_row ::
    "register_body \<Rightarrow> discovered_weight \<Rightarrow> int \<Rightarrow> int \<Rightarrow> rat \<Rightarrow> rat \<Rightarrow> hosted_model \<Rightarrow> hosted_model" where
  "registered_row body d ctx threads priceIn priceOut r =
     r\<lparr>displayName := text_or (trimmed_or_empty (rbDisplayName body)) (dwDisplayName d),
       weightsPath := dwPath d,
       quantization := text_or (trimmed_or_empty (rbQuantization body)) (dwQuantization d),
       contextLength := ctx, nThreads := threads, pricePerMTokIn := priceIn,
       pricePerMTokOut := priceOut, gpuLayers := 0\<rparr>"

definition register_route ::
    "(string \<Rightarrow> string \<Rightarrow> rat) \<Rightarrow> path \<Rightarrow> register_body \<Rightarrow> admin_state \<Rightarrow> (string, route_reply) result \<times> admin_state" where
  "register_route loc wdir body s =
     (let wp = or_empty (rbWeightsPath body); slug = or_empty (rbModelId body)
      in if wp = [] \<or> slug = [] then (Inr (Reply 400 (error_body ''invalid_request'' ''weightsPath and modelId required'')), s)
         else if wp \<notin> set (scanWeights loc (relative_files wdir (asFiles s)))
         then (Inr (Reply 400 (error_body ''invalid_request''
                ''weightsPath is not a GGUF file inside MODEL_WEIGHTS_DIR'')), s)
         else
           (let d = describe wp 0
            in case (db_int (number_or (rbContextLength body) 8192), db_int (number_or (rbThreads body) 8),
                     db_float (number_or (rbPriceIn body) 20), db_float (number_or (rbPriceOut body) 60)) of
                 (Some ctx, Some threads, Some priceIn, Some priceOut) \<Rightarrow>
                   (Inr (Reply 201 slug),
                    snd (upsert_model slug (registered_row body d ctx threads priceIn priceOut) s))
               | _ \<Rightarrow> (Inl bad_value, s)))"

text \<open>What the web action sends: no prices, and numbers that are NaN become \<^verbatim>\<open>null\<close> in JSON.\<close>

definition json_number :: "js_num \<Rightarrow> js_num option" where
  "json_number n = (case n of Fin q \<Rightarrow> Some (Fin q) | _ \<Rightarrow> Some (Fin 0))"

definition registerDiscoveredAction ::
    "(string \<Rightarrow> string \<Rightarrow> rat) \<Rightarrow> path \<Rightarrow> form \<Rightarrow> admin_state \<Rightarrow> (string, unit) result \<times> admin_state" where
  "registerDiscoveredAction loc wdir f s =
     (case register_route loc wdir
             \<lparr>rbWeightsPath = Some (form_string f ''weightsPath''), rbModelId = Some (form_string f ''modelId''),
              rbDisplayName = Some (form_text f ''displayName''), rbQuantization = Some (form_text f ''quantization''),
              rbContextLength = json_number (form_number f ''contextLength'' 8192),
              rbThreads = json_number (form_number f ''nThreads'' 8), rbPriceIn = None, rbPriceOut = None\<rparr> s of
        (Inl e, s') \<Rightarrow> (Inl e, s')
      | (Inr (Reply code text), s') \<Rightarrow>
          (if code = 201 then Inr () else Inl (''Gateway '' @ show_int code @ '': '' @ text), s'))"

subsection \<open>Remote models\<close>

text \<open>The process environment of the control plane and what it calls.\<close>

record web_env =
  weKeys :: key_env
  weAead :: aead
  weIv :: string
  weProviderKeys :: "string option list"

definition save_credential ::
    "string option \<Rightarrow> string \<Rightarrow> sealed_secret \<Rightarrow> admin_state \<Rightarrow> string \<times> admin_state" where
  "save_credential existing label secret s =
     (case existing of
        Some i \<Rightarrow>
          (i, s\<lparr>asCredentials := update_where (\<lambda>c. crId c = i)
                  (\<lambda>c. c\<lparr>crLabel := label, crSecret := secret\<rparr>) (asCredentials s)\<rparr>)
      | None \<Rightarrow>
          (row_id s, next_id (s\<lparr>asCredentials := asCredentials s @
             [\<lparr>crId = row_id s, crLabel = label, crSecret = secret\<rparr>]\<rparr>)))"

definition remote_label :: "string \<Rightarrow> string" where
  "remote_label url =
     (if includes_at ''generativelanguage.googleapis.com'' url then ''Gemini''
      else if includes_at ''openrouter.ai'' url then ''OpenRouter'' else ''Remote'')"

text \<open>The stored key id, if any, after the key of the form has been sealed.\<close>

definition remote_credential ::
    "web_env \<Rightarrow> string \<Rightarrow> string \<Rightarrow> string option \<Rightarrow> admin_state \<Rightarrow> (string, string option) result \<times> admin_state" where
  "remote_credential env apiKey label existing s =
     (if apiKey \<noteq> [] then
        (case encryptProviderSecret (weAead env) (weKeys env) (weIv env) apiKey of
           Inl e \<Rightarrow> (Inl e, s)
         | Inr secret \<Rightarrow> (let (i, s1) = save_credential existing label secret s in (Inr (Some i), s1)))
      else if existing \<noteq> None then (Inr existing, s)
      else if list_all (\<lambda>k. or_empty k = []) (weProviderKeys env)
      then (Inl ''Paste an API key, or set GEMINI_API_KEY / OPENROUTER_API_KEY / REMOTE_LLM_API_KEY in the gateway env'', s)
      else (Inr None, s))"

definition remote_row ::
    "string \<Rightarrow> string \<Rightarrow> string \<Rightarrow> int \<Rightarrow> rat \<Rightarrow> rat \<Rightarrow> string option \<Rightarrow> hosted_model \<Rightarrow> hosted_model" where
  "remote_row name url upstream ctx priceIn priceOut cred r =
     r\<lparr>displayName := name, weightsPath := [], quantization := ''remote'', contextLength := ctx,
       nThreads := 0, gpuLayers := 0, pricePerMTokIn := priceIn, pricePerMTokOut := priceOut,
       providerKind := OPENAI_COMPAT, remoteBaseUrl := Some url, remoteModelId := Some upstream,
       hmStatus := MS_LOADED, credentialId := (if cred = None then credentialId r else cred)\<rparr>"

text \<open>The writes of the registration, from the row to the platform default.\<close>

definition store_remote ::
    "string \<Rightarrow> (hosted_model \<Rightarrow> hosted_model) \<Rightarrow> rat \<Rightarrow> rat \<Rightarrow> bool \<Rightarrow> int \<Rightarrow> admin_state \<Rightarrow> admin_state" where
  "store_remote slug data priceIn priceOut makeDefault now s =
     (let (i, s1) = upsert_model slug data s;
          s2 = grant_all slug (add_price i priceIn priceOut now s1)
      in if makeDefault then make_default (\<lambda>r. hmId r = i) s2 else s2)"

definition upsertRemoteModelAction ::
    "web_env \<Rightarrow> int \<Rightarrow> form \<Rightarrow> admin_state \<Rightarrow> (bool \<times> string) \<times> admin_state" where
  "upsertRemoteModelAction env now f s =
     (let slug = js_trim (form_text f ''modelId'');
          name = js_trim (form_text f ''displayName'');
          url = strip_slashes (js_trim (form_text f ''remoteBaseUrl''));
          upstream = js_trim (form_text f ''remoteModelId'');
          apiKey = js_trim (form_text f ''apiKey'');
          label = text_or (js_trim (form_text f ''credentialLabel'')) (remote_label url);
          makeDefault = (form_text f ''makeDefault'' = ''on'')
      in if slug = [] \<or> name = [] \<or> url = [] \<or> upstream = []
         then ((False, ''modelId, displayName, remoteBaseUrl, and remoteModelId are required''), s)
         else
           (case remote_credential env apiKey label (Option.bind (find_model slug (models s)) credentialId) s of
              (Inl e, s1) \<Rightarrow> ((False, e), s1)
            | (Inr cred, s1) \<Rightarrow>
                (case (db_int (form_number f ''contextLength'' 128000),
                       db_float (form_number f ''pricePerMTokIn'' 20),
                       db_float (form_number f ''pricePerMTokOut'' 60)) of
                   (Some ctx, Some priceIn, Some priceOut) \<Rightarrow>
                     ((True, name @ (if makeDefault then '' registered as remote provider and set as platform default''
                                     else '' registered as remote OpenAI-compatible provider'')),
                      store_remote slug (remote_row name url upstream ctx priceIn priceOut cred)
                        priceIn priceOut makeDefault now s1)
                 | _ \<Rightarrow> ((False, bad_value), s1))))"

subsection \<open>Editing a model\<close>

definition edited_label :: "string \<Rightarrow> string" where
  "edited_label url =
     (if contains_ci ''generativelanguage.googleapis.com'' url then ''Gemini''
      else if contains_ci ''openrouter.ai'' url then ''OpenRouter''
      else if contains_ci ''api.openai.com'' url then ''OpenAI'' else ''Remote'')"

text \<open>The comparisons with NaN and the infinities that reject a number.\<close>

definition at_least :: "rat \<Rightarrow> js_num \<Rightarrow> bool" where
  "at_least b n = (case n of Fin q \<Rightarrow> b \<le> q | _ \<Rightarrow> False)"

definition edited_remote_row ::
    "string \<Rightarrow> int \<Rightarrow> rat \<Rightarrow> rat \<Rightarrow> string \<Rightarrow> string \<Rightarrow> string \<Rightarrow> string option \<Rightarrow> hosted_model \<Rightarrow> hosted_model" where
  "edited_remote_row name ctx priceIn priceOut quant url upstream cred r =
     r\<lparr>displayName := name, contextLength := ctx, pricePerMTokIn := priceIn, pricePerMTokOut := priceOut,
       quantization := text_or quant ''remote'', remoteBaseUrl := Some url, remoteModelId := Some upstream,
       credentialId := (if cred = None then credentialId r else cred)\<rparr>"

definition edited_local_row ::
    "string \<Rightarrow> int \<Rightarrow> rat \<Rightarrow> rat \<Rightarrow> string \<Rightarrow> string \<Rightarrow> int \<Rightarrow> hosted_model \<Rightarrow> hosted_model" where
  "edited_local_row name ctx priceIn priceOut wp quant threads r =
     r\<lparr>displayName := name, contextLength := ctx, pricePerMTokIn := priceIn, pricePerMTokOut := priceOut,
       weightsPath := wp, quantization := text_or quant ''Q4_K_M'', nThreads := threads\<rparr>"

text \<open>
  The change of the row: \<^verbatim>\<open>Inl\<close> is the message of a refusal. \<^verbatim>\<open>ctx\<close>, \<^verbatim>\<open>priceIn\<close> and \<^verbatim>\<open>priceOut\<close>
  have passed the checks; a context length that is not an \<^verbatim>\<open>Int\<close> is rejected by the write.
\<close>

definition edit_credential ::
    "web_env \<Rightarrow> string \<Rightarrow> string \<Rightarrow> hosted_model \<Rightarrow> admin_state \<Rightarrow> (string, string option) result \<times> admin_state" where
  "edit_credential env url apiKey existing s =
     (if apiKey = [] then (Inr (credentialId existing), s)
      else remote_credential env apiKey (edited_label url) (credentialId existing) s)"

definition edit_remote ::
    "web_env \<Rightarrow> form \<Rightarrow> hosted_model \<Rightarrow> string \<Rightarrow> js_num \<Rightarrow> rat \<Rightarrow> rat \<Rightarrow> admin_state \<Rightarrow> (string, unit) result \<times> admin_state" where
  "edit_remote env f existing name ctx priceIn priceOut s =
     (let url = strip_slashes (js_trim (form_text f ''remoteBaseUrl''));
          upstream = js_trim (form_text f ''remoteModelId'');
          quant = js_trim (case f ''quantization'' of Some q \<Rightarrow> q | None \<Rightarrow> quantization existing);
          apiKey = js_trim (form_text f ''apiKey'')
      in if url = [] \<or> upstream = [] then (Inl ''Base URL and upstream model id are required'', s)
         else
           (case edit_credential env url apiKey existing s of
              (Inl e, s1) \<Rightarrow> (Inl e, s1)
            | (Inr cred, s1) \<Rightarrow>
                (case db_int ctx of
                   None \<Rightarrow> (Inl bad_value, s1)
                 | Some c \<Rightarrow>
                     (Inr (), set_models (update_where (\<lambda>r. hmId r = hmId existing)
                        (edited_remote_row name c priceIn priceOut quant url upstream cred)) s1))))"

definition edit_local ::
    "form \<Rightarrow> hosted_model \<Rightarrow> string \<Rightarrow> js_num \<Rightarrow> rat \<Rightarrow> rat \<Rightarrow> admin_state \<Rightarrow> (string, unit) result \<times> admin_state" where
  "edit_local f existing name ctx priceIn priceOut s =
     (let wp = js_trim (form_text f ''weightsPath'');
          quant = js_trim (case f ''quantization'' of Some q \<Rightarrow> q | None \<Rightarrow> quantization existing);
          threads = form_number f ''nThreads'' (of_int (nThreads existing))
      in if wp = [] then (Inl ''GGUF path is required'', s)
         else if \<not> at_least 1 threads then (Inl ''Threads must be at least 1'', s)
         else
           (case (db_int ctx, db_int threads) of
              (Some c, Some t) \<Rightarrow>
                (Inr (), set_models (update_where (\<lambda>r. hmId r = hmId existing)
                   (edited_local_row name c priceIn priceOut wp quant t)) s)
            | _ \<Rightarrow> (Inl bad_value, s)))"

definition reprice :: "hosted_model \<Rightarrow> rat \<Rightarrow> rat \<Rightarrow> int \<Rightarrow> admin_state \<Rightarrow> admin_state" where
  "reprice existing priceIn priceOut now s =
     (if priceIn \<noteq> pricePerMTokIn existing \<or> priceOut \<noteq> pricePerMTokOut existing
      then add_price (hmId existing) priceIn priceOut now (close_prices (hmId existing) now s) else s)"

definition updateModelPropertiesAction ::
    "web_env \<Rightarrow> int \<Rightarrow> form \<Rightarrow> admin_state \<Rightarrow> (bool \<times> string) \<times> admin_state" where
  "updateModelPropertiesAction env now f s =
     (let slug = js_trim (form_text f ''modelId'')
      in if slug = [] then ((False, ''Model id required''), s)
         else
           (case find_model slug (models s) of
              None \<Rightarrow> ((False, ''Model not found''), s)
            | Some existing \<Rightarrow>
                (let name = js_trim (form_text f ''displayName'');
                     ctx = form_number f ''contextLength'' (of_int (contextLength existing));
                     priceIn = form_number f ''pricePerMTokIn'' (pricePerMTokIn existing);
                     priceOut = form_number f ''pricePerMTokOut'' (pricePerMTokOut existing)
                 in if name = [] then ((False, ''Display name is required''), s)
                    else if \<not> at_least 512 ctx then ((False, ''Context length must be at least 512''), s)
                    else if \<not> at_least 0 priceIn then ((False, ''Input price must be a non-negative number''), s)
                    else if \<not> at_least 0 priceOut then ((False, ''Output price must be a non-negative number''), s)
                    else
                      (let pIn = the (db_float priceIn); pOut = the (db_float priceOut)
                       in case (if providerKind existing = OPENAI_COMPAT
                                then edit_remote env f existing name ctx pIn pOut s
                                else edit_local f existing name ctx pIn pOut s) of
                            (Inl e, s1) \<Rightarrow> ((False, e), s1)
                          | (Inr _, s1) \<Rightarrow>
                              ((True, name @ '' properties saved''), reprice existing pIn pOut now s1)))))"

definition grantModelToAllPlansAction :: "form \<Rightarrow> admin_state \<Rightarrow> admin_state" where
  "grantModelToAllPlansAction f s = grant_all (form_string f ''modelId'') s"

subsection \<open>Loading, unloading and removing\<close>

definition with_engine :: "(engine \<Rightarrow> 'a \<times> engine) \<Rightarrow> admin_state \<Rightarrow> 'a \<times> admin_state" where
  "with_engine op s = (let (a, e) = op (asEngine s) in (a, s\<lparr>asEngine := e\<rparr>))"

text \<open>\<^verbatim>\<open>errorText\<close>: the message of an engine error.\<close>

definition errorText :: "engine_error \<Rightarrow> string" where
  "errorText e = (case e of EngineError _ msg \<Rightarrow> msg)"

text \<open>
  \<^verbatim>\<open>Inl\<close> is the body of a failure reply with its status, \<^verbatim>\<open>Inr\<close> the reply of the engine. The
  engine writes the registry as well as the route.
\<close>

definition load_route ::
    "engine_env \<Rightarrow> world \<Rightarrow> string \<Rightarrow> admin_state \<Rightarrow> (int \<times> string, load_reply) result \<times> admin_state" where
  "load_route env w slug s =
     (case find_model slug (models s) of
        None \<Rightarrow> (Inl (404, error_body ''model_not_found'' ''Unknown model''), s)
      | Some hosted \<Rightarrow>
          with_engine (\<lambda>e.
            (case engine_load env w
                    \<lparr>lrModelId = modelId hosted, lrWeightsPath = weightsPath hosted,
                     lrContextLength = contextLength hosted, lrThreads = nThreads hosted\<rparr> e of
               (Inr r, e1) \<Rightarrow> (Inr r, mark_id (hmId hosted) (if lpSuccess r then MS_LOADED else MS_ERROR) e1)
             | (Inl err, e1) \<Rightarrow> (Inl (503, failure_body (errorText err)), mark_id (hmId hosted) MS_ERROR e1))) s)"

definition unload_route :: "engine_env \<Rightarrow> string \<Rightarrow> admin_state \<Rightarrow> (bool \<times> string) \<times> admin_state" where
  "unload_route env slug s =
     with_engine (\<lambda>e.
       (let ((ok, msg), e1) = engine_unload env slug e
        in ((ok, msg), if ok then mark_status slug MS_INACTIVE e1 else e1))) s"

definition revoke_all :: "string \<Rightarrow> admin_state \<Rightarrow> admin_state" where
  "revoke_all slug s =
     s\<lparr>asPlans := update_where (\<lambda>p. slug \<in> set (paAllowed p))
         (\<lambda>p. p\<lparr>paAllowed := filter (\<lambda>m. m \<noteq> slug) (paAllowed p)\<rparr>) (asPlans s),
       asEntitlements := filter (\<lambda>(_, m). m \<noteq> slug) (asEntitlements s)\<rparr>"

text \<open>Deleting the row deletes its price versions (\<^verbatim>\<open>onDelete: Cascade\<close>).\<close>

definition delete_row :: "hosted_model \<Rightarrow> admin_state \<Rightarrow> admin_state" where
  "delete_row hosted s =
     set_models (filter (\<lambda>r. hmId r \<noteq> hmId hosted))
       (s\<lparr>asPricing := filter (\<lambda>v. pvsModel v \<noteq> hmId hosted) (asPricing s)\<rparr>)"

definition removed_message :: "(string, string list) result \<Rightarrow> string" where
  "removed_message r =
     (case r of
        Inl e \<Rightarrow> ''Model removed from the registry, but weights were not deleted: '' @ e
      | Inr ds \<Rightarrow> (if ds \<noteq> [] then ''Model removed from the registry and weights deleted''
                  else ''Model removed from the registry''))"

definition delete_route ::
    "engine_env \<Rightarrow> (path \<Rightarrow> string option) \<Rightarrow> path \<Rightarrow> string \<Rightarrow> admin_state
      \<Rightarrow> (int \<times> string, string list \<times> string) result \<times> admin_state" where
  "delete_route env unlinkError wdir slug s =
     (case find_model slug (models s) of
        None \<Rightarrow> (Inl (404, error_body ''model_not_found'' ''Unknown model''), s)
      | Some hosted \<Rightarrow>
          (let s1 = revoke_all slug (snd (with_engine (engine_unload env slug) s));
               others = filter (\<lambda>r. hmId r \<noteq> hmId hosted \<and> weightsPath r = weightsPath hosted) (models s1);
               s2 = delete_row hosted s1;
               (r, files) = (if others = []
                             then deleteRegisteredWeights unlinkError wdir (weightsPath hosted) (asFiles s2)
                             else (Inr [], asFiles s2))
           in (Inr (case r of Inr ds \<Rightarrow> ds | Inl _ \<Rightarrow> [], removed_message r), s2\<lparr>asFiles := files\<rparr>)))"

text \<open>\<^verbatim>\<open>Gateway 404: ...\<close>, the error \<^verbatim>\<open>gatewayFetch\<close> throws.\<close>

definition gateway_error :: "int \<times> string \<Rightarrow> string" where
  "gateway_error r = ''Gateway '' @ show_int (fst r) @ '': '' @ snd r"

text \<open>\<^verbatim>\<open>down\<close>: the error of every call while the gateway cannot be reached.\<close>

definition removeModelAction ::
    "engine_env \<Rightarrow> (path \<Rightarrow> string option) \<Rightarrow> path \<Rightarrow> string option \<Rightarrow> string \<Rightarrow> admin_state
      \<Rightarrow> (bool \<times> string) \<times> admin_state" where
  "removeModelAction env unlinkError wdir down m s =
     (let slug = js_trim m
      in if slug = [] then ((False, ''Model id required''), s)
         else (case down of
                 Some e \<Rightarrow> ((False, e), s)
               | None \<Rightarrow>
                   (case delete_route env unlinkError wdir slug s of
                      (Inl r, s') \<Rightarrow> ((False, gateway_error r), s')
                    | (Inr (_, msg), s') \<Rightarrow> ((True, msg), s'))))"

fun unload_others :: "engine_env \<Rightarrow> string \<Rightarrow> string list \<Rightarrow> admin_state \<Rightarrow> admin_state" where
  "unload_others env keep [] s = s"
| "unload_others env keep (m # ms) s =
     unload_others env keep ms (if m = keep then s else snd (unload_route env m s))"

text \<open>What happens to the pool, and the message about it.\<close>

definition warm_default ::
    "engine_env \<Rightarrow> world \<Rightarrow> string option \<Rightarrow> hosted_model \<Rightarrow> admin_state \<Rightarrow> string \<times> admin_state" where
  "warm_default env w down model s =
     (let resident = (\<lambda>s. map lmModelId (engine_list (wNow w) (asEngine s)))
      in if providerKind model = OPENAI_COMPAT
         then (let s1 = s\<lparr>asEngine := mark_id (hmId model) MS_LOADED (asEngine s)\<rparr>
               in case down of
                    Some e \<Rightarrow> (e, s1)
                  | None \<Rightarrow> (''Remote provider marked available (no local GGUF load)'',
                             unload_others env (modelId model) (resident s1) s1))
         else
           (case down of
              Some e \<Rightarrow> (e, s)
            | None \<Rightarrow>
                (case load_route env w (modelId model) (unload_others env (modelId model) (resident s) s) of
                   (Inl r, s1) \<Rightarrow> (gateway_error r, s1)
                 | (Inr r, s1) \<Rightarrow> (lpMessage r, s1))))"

definition setPlatformDefaultModelAction ::
    "engine_env \<Rightarrow> world \<Rightarrow> string option \<Rightarrow> form \<Rightarrow> admin_state \<Rightarrow> (bool \<times> string) \<times> admin_state" where
  "setPlatformDefaultModelAction env w down f s =
     (let slug = js_trim (form_string f ''modelId'')
      in if slug = [] then ((False, ''Model id required''), s)
         else
           (case find_model slug (models s) of
              None \<Rightarrow> ((False, ''Model not found''), s)
            | Some model \<Rightarrow>
                (let (msg, s') = warm_default env w down model
                       (grant_all slug (make_default (\<lambda>r. modelId r = slug) s))
                 in ((True,
                      if msg \<noteq> [] \<and> msg \<noteq> ''Loaded into model pool''
                      then slug @ '' is now the platform default, but warm load failed: '' @ msg
                      else if providerKind model = OPENAI_COMPAT
                      then displayName model @ '' is the platform default (remote OpenAI-compatible provider)''
                      else displayName model @ '' is the platform default and is warming in the model pool''), s'))))"

end
