(* ===== verification/GeminiVoice.thy ===== *)
theory GeminiVoice
  imports Voice Credentials ModelAdmin "HOL-Library.AList"
begin

text \<open>
  The Gemini voice pipeline (\<^verbatim>\<open>apps/gateway/src/lib/voice/geminiAudio.ts\<close>): its credentials, the
  upload of large files with the wait for their processing, the request, the reading of
  the answer and the token counts. The network, \<^verbatim>\<open>JSON.parse\<close> and the Unicode tables
  are parameters; an answer has the fields the code's interfaces declare, of the types they declare.
\<close>

subsection \<open>Configuration\<close>

definition isGeminiVoicePipeline :: "string option \<Rightarrow> bool" where
  "isGeminiVoicePipeline v = (to_lower (trimmed_or_empty v) \<in> {''gemini'', ''gemini-audio'', ''bypass''})"

definition inline_max_bytes :: int where
  "inline_max_bytes = 15 * 1024 * 1024"

text \<open>\<^verbatim>\<open>path.extname\<close> on POSIX paths without a trailing slash.\<close>

definition extname :: "string \<Rightarrow> string" where
  "extname p =
     (let base = last (split_on CHR ''/'' p)
      in case last_index_of CHR ''.'' base of
           None \<Rightarrow> []
         | Some i \<Rightarrow> if i = 0 \<or> base = ''..'' then [] else drop i base)"

definition guessMime :: "string \<Rightarrow> string option \<Rightarrow> string" where
  "guessMime fileName headerMime =
     (let fromHeader = to_lower (js_trim (hd (split_on CHR '';'' (or_empty headerMime))));
          ext = to_lower (extname fileName)
      in if fromHeader \<noteq> [] \<and> fromHeader \<noteq> ''application/octet-stream'' then fromHeader
         else if ext = ''.wav'' then ''audio/wav''
         else if ext = ''.mp3'' then ''audio/mpeg''
         else if ext = ''.m4a'' \<or> ext = ''.aac'' then ''audio/mp4''
         else if ext = ''.webm'' then ''audio/webm''
         else if ext = ''.ogg'' then ''audio/ogg''
         else if ext = ''.flac'' then ''audio/flac''
         else ''audio/wav'')"

subsection \<open>Credentials and prices\<close>

record voice_key_env =
  vkGeminiKey :: "string option"
  vkVoiceModel :: "string option"
  vkGeminiModel :: "string option"
  vkSecrets :: key_env

record voice_registry =
  vrModels :: "hosted_model list"
  vrCredentials :: "credential list"
  vrPricing :: "pricing_version list"

record gemini_auth =
  gaKey :: string
  gaUpstream :: string
  gaSlug :: string
  gaHostedId :: "string option"
  gaPriceIn :: "rat option"
  gaPriceOut :: "rat option"

text \<open>
  The hosted model behind the pipeline: the remote platform default when its address is Gemini's
  (in any case of letters), else the remote model with such an address that was changed last;
  \<^verbatim>\<open>vrModels\<close> is ordered by \<^verbatim>\<open>updatedAt\<close>, newest first.
\<close>

definition gemini_hosted :: "hosted_model list \<Rightarrow> hosted_model option" where
  "gemini_hosted rows =
     (let default_row = find (\<lambda>m. isPlatformDefault m \<and> providerKind m = OPENAI_COMPAT) rows;
          newest = find (\<lambda>m. providerKind m = OPENAI_COMPAT
            \<and> includes_at ''generativelanguage.googleapis.com'' (or_empty (remoteBaseUrl m))
            \<and> remoteBaseUrl m \<noteq> None) rows
      in case default_row of
           Some d \<Rightarrow> if contains_ci ''generativelanguage.googleapis.com'' (or_empty (remoteBaseUrl d)) then Some d else newest
         | None \<Rightarrow> newest)"

definition voice_key_of :: "aead \<Rightarrow> voice_key_env \<Rightarrow> credential list \<Rightarrow> hosted_model option \<Rightarrow> string" where
  "voice_key_of ae env creds hosted =
     (let envKey = trimmed_or_empty (vkGeminiKey env)
      in case Option.bind (Option.bind hosted credentialId) (\<lambda>c. table_find crId c creds) of
           None \<Rightarrow> envKey
         | Some c \<Rightarrow>
             (case decryptProviderSecret ae (vkSecrets env) (crSecret c) of
                Inl _ \<Rightarrow> envKey
              | Inr t \<Rightarrow> if js_trim t \<noteq> [] then js_trim t else envKey))"

definition voice_upstream :: "voice_key_env \<Rightarrow> hosted_model option \<Rightarrow> string" where
  "voice_upstream env hosted =
     first_nonempty [trimmed_or_empty (vkVoiceModel env),
       (case hosted of None \<Rightarrow> [] | Some m \<Rightarrow> trimmed_or_empty (remoteModelId m)),
       trimmed_or_empty (vkVoiceModel env), trimmed_or_empty (vkGeminiModel env), ''gemini-2.5-flash'']"

definition missing_voice_key :: string where
  "missing_voice_key =
     ''GEMINI_API_KEY missing - set it in .env or assign a Gemini ProviderCredential on a remote model''"

text \<open>The message's long dash is a hyphen here; reading the prices may add a version to the table.\<close>

definition resolveGeminiVoiceAuth ::
    "aead \<Rightarrow> voice_key_env \<Rightarrow> int \<Rightarrow> voice_registry \<Rightarrow> (string, gemini_auth) result \<times> voice_registry" where
  "resolveGeminiVoiceAuth ae env now reg =
     (let hosted = gemini_hosted (vrModels reg);
          key = voice_key_of ae env (vrCredentials reg) hosted;
          upstream = voice_upstream env hosted
      in if key = [] then (Inl missing_voice_key, reg)
         else
           (case hosted of
              None \<Rightarrow> (Inr \<lparr>gaKey = key, gaUpstream = upstream, gaSlug = ''gemini:'' @ upstream, gaHostedId = None,
                        gaPriceIn = None, gaPriceOut = None\<rparr>, reg)
            | Some m \<Rightarrow>
                (case getActivePricingVersion (vrModels reg) (hmId m) now (vrPricing reg) of
                   None \<Rightarrow> (Inl ''model not found'', reg)
                 | Some (v, rows') \<Rightarrow>
                     (Inr \<lparr>gaKey = key, gaUpstream = upstream, gaSlug = modelId m, gaHostedId = Some (hmId m),
                        gaPriceIn = Some (pvsPriceIn v), gaPriceOut = Some (pvsPriceOut v)\<rparr>,
                      reg\<lparr>vrPricing := rows'\<rparr>))))"

subsection \<open>Requests to the service\<close>

datatype audio_part = InlineAudio string string | FileAudio string string

datatype gemini_request =
    StartUpload string int string
  | PutUpload string int
  | PollFile string
  | Generate string utext string audio_part
  | DeleteFile string

record gemini_answer =
  gaStatus :: int
  gaBody :: string
  gaUploadUrl :: "string option"

record gemini_file =
  gfUri :: "string option"
  gfMime :: "string option"
  gfName :: "string option"
  gfState :: "string option"

record raw_segment =
  rsSpeaker :: "string option"
  rsStartSec :: "rat option"
  rsStart :: "rat option"
  rsEndSec :: "rat option"
  rsEnd :: "rat option"
  rsText :: "utext option"
  rsTextEn :: "utext option"
  rsText_en :: "utext option"

record raw_voice =
  rvLanguage :: "string option"
  rvText :: "utext option"
  rvTextEn :: "utext option"
  rvText_en :: "utext option"
  rvDialectHint :: "string option"
  rvDialect_hint :: "string option"
  rvDialectLabel :: "string option"
  rvDialect_label :: "string option"
  rvAnalysis :: "utext option"
  rvSpeakerNames :: "(string \<times> string option) list option"
  rvSpeaker_names :: "(string \<times> string option) list option"
  rvNamesMentioned :: "string option list option"
  rvNames_mentioned :: "string option list option"
  rvSegments :: "raw_segment list option"

record gemini_reply =
  gyParts :: "utext option list"
  gyPromptTokens :: "int option"
  gyCandidatesTokens :: "int option"
  gyTotalTokens :: "int option"

text \<open>
  \<^verbatim>\<open>gsSend past request\<close> answers a request after the requests \<^verbatim>\<open>past\<close>; \<^verbatim>\<open>Inl\<close> is a rejected
  \<^verbatim>\<open>fetch\<close> (no connection, or the time limit). The other fields read a body as JSON: the file of
  an upload (\<^verbatim>\<open>None\<close> when there is none) with the text of the whole payload, the state of a file, the parts of the first candidate with the
  usage, and the transcript inside the answer's text.
\<close>

record gemini_service =
  gsSend :: "gemini_request list \<Rightarrow> gemini_request \<Rightarrow> (string, gemini_answer) result"
  gsReadUpload :: "string \<Rightarrow> (string, gemini_file option \<times> string) result"
  gsReadFile :: "string \<Rightarrow> (string, gemini_file) result"
  gsReadReply :: "string \<Rightarrow> (string, gemini_reply) result"
  gsReadVoice :: "utext \<Rightarrow> (string, raw_voice) result"

text \<open>A computation with requests: what it returns or throws, and the requests made so far.\<close>

type_synonym 'a net = "gemini_request list \<Rightarrow> (string, 'a) result \<times> gemini_request list"

definition net_return :: "(string, 'a) result \<Rightarrow> 'a net" where
  "net_return r = (\<lambda>h. (r, h))"

definition net_bind :: "'a net \<Rightarrow> ('a \<Rightarrow> 'b net) \<Rightarrow> 'b net" where
  "net_bind m f = (\<lambda>h. case m h of (Inl e, h') \<Rightarrow> (Inl e, h') | (Inr x, h') \<Rightarrow> f x h')"

definition net_send :: "gemini_service \<Rightarrow> gemini_request \<Rightarrow> gemini_answer net" where
  "net_send gs r = (\<lambda>h. (gsSend gs h r, h @ [r]))"

text \<open>\<^verbatim>\<open>finally\<close>: the second part runs whatever the first did, and its own failure is caught.\<close>

definition net_finally :: "'a net \<Rightarrow> (gemini_request list \<Rightarrow> gemini_request list) \<Rightarrow> 'a net" where
  "net_finally m f = (\<lambda>h. case m h of (r, h') \<Rightarrow> (r, f h'))"

definition http_ok :: "gemini_answer \<Rightarrow> bool" where
  "http_ok a \<longleftrightarrow> 200 \<le> gaStatus a \<and> gaStatus a < 300"

subsection \<open>Files\<close>

record file_ref =
  frUri :: string
  frMime :: string
  frName :: "string option"

text \<open>A name that is missing or empty is falsy.\<close>

definition named :: "string option \<Rightarrow> string option" where
  "named n = (if or_empty n = [] then None else n)"

definition poll_ref :: "string \<Rightarrow> gemini_file \<Rightarrow> gemini_file \<Rightarrow> file_ref" where
  "poll_ref mime file meta = \<lparr>frUri = or_text (or_empty (gfUri meta)) (or_empty (gfUri file)),
     frMime = or_text (or_empty (gfMime meta)) mime, frName = gfName file\<rparr>"

definition put_ref :: "string \<Rightarrow> gemini_file \<Rightarrow> file_ref" where
  "put_ref mime file = \<lparr>frUri = or_empty (gfUri file), frMime = or_text (or_empty (gfMime file)) mime,
     frName = gfName file\<rparr>"

text \<open>The loop that waits for a file, one request a second, at most \<^verbatim>\<open>n\<close> times.\<close>

primrec poll_file :: "nat \<Rightarrow> gemini_service \<Rightarrow> string \<Rightarrow> gemini_file \<Rightarrow> string \<Rightarrow> file_ref net" where
  "poll_file 0 gs mime file name = net_return (Inr (put_ref mime file))"
| "poll_file (Suc n) gs mime file name =
     net_bind (net_send gs (PollFile name)) (\<lambda>a.
       if \<not> http_ok a then poll_file n gs mime file name
       else net_bind (net_return (gsReadFile gs (gaBody a))) (\<lambda>meta.
         if gfState meta = Some ''ACTIVE'' then net_return (Inr (poll_ref mime file meta))
         else if gfState meta = Some ''FAILED'' then net_return (Inl ''Gemini file processing failed'')
         else poll_file n gs mime file name))"

definition finish_upload :: "gemini_service \<Rightarrow> string \<Rightarrow> gemini_file option \<times> string \<Rightarrow> file_ref net" where
  "finish_upload gs mime payload =
     (case fst payload of
        None \<Rightarrow> net_return (Inl (''Gemini file upload returned no uri: '' @ take 300 (snd payload)))
      | Some f \<Rightarrow>
          if or_empty (gfUri f) = [] then net_return (Inl (''Gemini file upload returned no uri: '' @ take 300 (snd payload)))
          else
            (case (named (gfName f), named (gfState f)) of
               (Some name, Some st) \<Rightarrow>
                 if st \<noteq> ''ACTIVE'' then poll_file 60 gs mime f name else net_return (Inr (put_ref mime f))
             | _ \<Rightarrow> net_return (Inr (put_ref mime f))))"

definition http_failed :: "string \<Rightarrow> nat \<Rightarrow> gemini_answer \<Rightarrow> string" where
  "http_failed what n a = what @ '' ('' @ show_int (gaStatus a) @ ''): '' @ take n (gaBody a)"

definition uploadGeminiFile :: "gemini_service \<Rightarrow> int \<Rightarrow> string \<Rightarrow> string \<Rightarrow> file_ref net" where
  "uploadGeminiFile gs bytes mime fileName =
     net_bind (net_send gs (StartUpload mime bytes (take 120 fileName))) (\<lambda>a.
       if \<not> http_ok a then net_return (Inl (http_failed ''Gemini file upload start failed'' 400 a))
       else
         (case named (gaUploadUrl a) of
            None \<Rightarrow> net_return (Inl ''Gemini file upload did not return x-goog-upload-url'')
          | Some url \<Rightarrow>
              net_bind (net_send gs (PutUpload url bytes)) (\<lambda>p.
                if \<not> http_ok p then net_return (Inl (http_failed ''Gemini file upload failed'' 400 p))
                else net_bind (net_return (gsReadUpload gs (gaBody p))) (finish_upload gs mime))))"

definition deleteGeminiFile :: "string option \<Rightarrow> gemini_request list \<Rightarrow> gemini_request list" where
  "deleteGeminiFile name h = (case named name of None \<Rightarrow> h | Some n \<Rightarrow> h @ [DeleteFile n])"

subsection \<open>The prompts\<close>

definition analysis_rule :: "bool \<Rightarrow> utext" where
  "analysis_rule analyze =
     (if analyze then lit ''Also set \"analysis\" to a concise investigator-facing summary (speakers, topics, phone numbers/names mentioned, actionable items). Prefer English for analysis when the call is Bangla.''
      else lit ''Set \"analysis\" to an empty string.'')"

text \<open>The lines of the system prompt: the shape of the answer, and the rules.\<close>

definition prompt_shape :: "string \<Rightarrow> utext list" where
  "prompt_shape lang =
     [lit ''You are an investigative call ASR + diarization + dialect/translation engine for Bangladesh phone calls.'',
      lit ''Listen to the audio and return ONLY valid JSON (no markdown) with this shape:'',
      lit ''{'',
      lit ''  \"language\": \"'' @ lit lang @ lit ''\",'',
      lit ''  \"dialectHint\": \"sylhet|chittagong|noakhali|barisal|rangpur|standard_bangla|mixed|unknown\",'',
      lit ''  \"dialectLabel\": \"Sylhet\",'',
      lit ''  \"segments\": ['',
      lit ''    {'',
      lit ''      \"speaker\": \"SPEAKER_00\",'',
      lit ''      \"startSec\": 0.0,'',
      lit ''      \"endSec\": 1.2,'',
      lit ''      \"text\": \"original language transcript for this turn\",'',
      lit ''      \"textEn\": \"English translation of this turn\"'',
      lit ''    }'',
      lit ''  ],'',
      lit ''  \"text\": \"full transcript concatenating segment text in order\",'',
      lit ''  \"textEn\": \"full English translation of the call in order\",'',
      lit ''  \"speakerNames\": { \"SPEAKER_00\": \"Rahim\" },'',
      lit ''  \"namesMentioned\": [\"Rahim\", \"Kamal\"],'',
      lit ''  \"analysis\": \"...\"'',
      lit ''}'',
      []]"

definition prompt_rules :: "utext \<Rightarrow> utext list" where
  "prompt_rules rule_text =
     [lit ''Rules:'',
      lit ''- Transcribe faithfully (Bangla / Bangla'' @ [0x2013] @ lit ''English code-switch OK). Do not invent words.'',
      lit ''- Diarize speakers as SPEAKER_00, SPEAKER_01, '' @ [0x2026] @ lit '' (two-party calls are common).'',
      lit ''- startSec/endSec are approximate seconds from the start of the file.'',
      lit ''- Keep street register in \"text\"; do not over-normalize dialect in the original transcript.'',
      lit ''- dialectHint: best-effort regiolect from pronunciation/lexicon (Chittagong/Chittagonian, Sylhet/Sylheti, Noakhali, Barisal, Rangpur, standard Dhaka/news Bangla, mixed, or unknown). This is an analyst HINT only '' @ [0x2014] @ lit '' never claim certainty.'',
      lit ''- dialectLabel: short human label matching dialectHint (e.g. \"Chittagong\", \"Sylhet\", \"Standard Bangla\").'',
      lit ''- textEn / segment textEn: clear English translation. Keep names, places, and phone numbers accurate. Do not invent content that is not in the audio.'',
      lit ''- speakerNames: ONLY map SPEAKER_xx '' @ [0x2192] @ lit '' a real name when that speaker clearly self-identifies or is unambiguously addressed by that name in the audio. Otherwise use {}.'',
      lit ''- namesMentioned: proper names spoken in the call (people/places/orgs), even if speaker mapping is unclear. Do not invent names.'',
      lit ''- Never invent person names for speakerNames.'',
      lit ''- '' @ rule_text,
      lit ''- If audio is silent/unusable, return empty segments/text/textEn and dialectHint \"unknown\".'']"

definition buildSystemPrompt :: "bool \<Rightarrow> string option \<Rightarrow> utext" where
  "buildSystemPrompt analyze languageHint =
     u_join [10] (prompt_shape (or_text (trimmed_or_empty languageHint) ''bn'') @ prompt_rules (analysis_rule analyze))"

definition user_bits :: "bool \<Rightarrow> string option \<Rightarrow> string option \<Rightarrow> string" where
  "user_bits analyze languageHint analysisHint =
     join [newline] (filter (\<lambda>t. t \<noteq> [])
       [''Transcribe, diarize, detect Bangla dialect (Chittagong/Sylhet/etc. as a hint), translate each turn to English, and only map speaker names when clearly spoken.'',
        (if or_empty languageHint \<noteq> [] then ''Language hint: '' @ or_empty languageHint else []),
        (if analyze \<and> or_empty analysisHint \<noteq> [] then ''Analysis focus: '' @ or_empty analysisHint else [])])"

subsection \<open>Dialects\<close>

definition dialect_labels :: "(string \<times> string) list" where
  "dialect_labels =
     [(''sylhet'', ''Sylhet''), (''sylheti'', ''Sylhet''), (''chittagong'', ''Chittagong''),
      (''chittagonian'', ''Chittagong''), (''ctg'', ''Chittagong''), (''noakhali'', ''Noakhali''),
      (''barisal'', ''Barisal''), (''rangpur'', ''Rangpur''), (''standard_bangla'', ''Standard Bangla''),
      (''standard'', ''Standard Bangla''), (''dhaka'', ''Standard Bangla''), (''mixed'', ''Mixed''),
      (''unknown'', ''Unknown'')]"

text \<open>\<^verbatim>\<open>replace(/\s+/g, "_")\<close>; the flag says that the character before was a space.\<close>

fun underscored :: "bool \<Rightarrow> string \<Rightarrow> string" where
  "underscored before_space [] = []"
| "underscored before_space (c # s) =
     (if is_space c then (if before_space then underscored True s else CHR ''_'' # underscored True s)
      else c # underscored False s)"

definition dialect_key :: "string option \<Rightarrow> string" where
  "dialect_key raw = underscored False (to_lower (trimmed_or_empty raw))"

definition canonical_dialect :: "string \<Rightarrow> string" where
  "canonical_dialect key =
     (if key = ''sylheti'' then ''sylhet''
      else if key = ''chittagonian'' \<or> key = ''ctg'' then ''chittagong''
      else if key = ''standard'' \<or> key = ''dhaka'' then ''standard_bangla''
      else key)"

definition normalizeDialectHint :: "string option \<Rightarrow> string option \<times> string option" where
  "normalizeDialectHint raw =
     (let key = dialect_key raw
      in if key = [] then (None, None)
         else if key = ''unknown'' then (Some ''unknown'', Some ''Unknown'')
         else
           (case map_of dialect_labels key of
              Some label \<Rightarrow> (Some (canonical_dialect key), Some label)
            | None \<Rightarrow> (Some key, named (Some (trimmed_or_empty raw)))))"

subsection \<open>Reading the answer\<close>

definition or_text_u :: "utext \<Rightarrow> utext \<Rightarrow> utext" where
  "or_text_u a b = (if a = [] then b else a)"

definition u_null :: "utext \<Rightarrow> utext option" where
  "u_null t = (if t = [] then None else Some t)"

text \<open>\<^verbatim>\<open>a ?? b ?? d\<close>.\<close>

definition first_of :: "'a option \<Rightarrow> 'a option \<Rightarrow> 'a \<Rightarrow> 'a" where
  "first_of a b d = (case a of Some x \<Rightarrow> x | None \<Rightarrow> or_default d b)"

definition voice_segment :: "raw_segment \<Rightarrow> segment" where
  "voice_segment s =
     (let a = first_of (rsStartSec s) (rsStart s) 0;
          b = first_of (rsEndSec s) (rsEnd s) a;
          speaker = or_text (js_trim (or_default ''SPEAKER_00'' (rsSpeaker s))) ''SPEAKER_00''
      in \<lparr>startSec = a, endSec = max b a, sgText = u_collapse (or_default [] (rsText s)),
          sgTextEn = u_null (u_collapse (first_of (rsTextEn s) (rsText_en s) [])),
          sgConfidence = None, sgSpeaker = Some speaker, sgSpeakerId = Some speaker\<rparr>)"

text \<open>The expression \<^verbatim>\<open>/^SPEAKER[_-]?\d+$/i\<close>.\<close>

definition generic_speaker :: "string \<Rightarrow> bool" where
  "generic_speaker name \<longleftrightarrow>
     starts_with ''speaker'' (to_lower name)
     \<and> (let rest = drop 7 name; ds = (if starts_with ''_'' rest \<or> starts_with ''-'' rest then tl rest else rest)
        in ds \<noteq> [] \<and> list_all is_digit ds)"

definition add_speaker :: "string \<times> string option \<Rightarrow> (string \<times> string) list \<Rightarrow> (string \<times> string) list" where
  "add_speaker kv names =
     (let i = js_trim (fst kv); name = js_trim (or_default [] (snd kv))
      in if i \<noteq> [] \<and> name \<noteq> [] \<and> \<not> generic_speaker name then AList.update i name names else names)"

definition spoken_names :: "(string \<times> string option) list \<Rightarrow> (string \<times> string) list" where
  "spoken_names raw = fold add_speaker raw []"

definition mentioned_names :: "string option list \<Rightarrow> string list" where
  "mentioned_names raw =
     rev (remdups (rev (filter (\<lambda>n. n \<noteq> []) (map (\<lambda>n. js_trim (or_default [] n)) raw))))"

text \<open>
  The text between the first pair of code fences, if there is one: a fence is three
  backticks, the first may be followed by \<^verbatim>\<open>json\<close> in any case and white space.
\<close>

definition fence_mark :: utext where
  "fence_mark = [0x60, 0x60, 0x60]"

fun cut_at :: "utext \<Rightarrow> utext \<Rightarrow> (utext \<times> utext) option" where
  "cut_at p [] = (if p = [] then Some ([], []) else None)"
| "cut_at p (c # s) =
     (if take (length p) (c # s) = p then Some ([], drop (length p) (c # s))
      else map_option (\<lambda>(a, b). (c # a, b)) (cut_at p s))"

definition drop_json_word :: "utext \<Rightarrow> utext" where
  "drop_json_word s =
     (if length s \<ge> 4 \<and> s ! 0 \<in> {0x6A, 0x4A} \<and> s ! 1 \<in> {0x73, 0x53} \<and> s ! 2 \<in> {0x6F, 0x4F} \<and> s ! 3 \<in> {0x6E, 0x4E}
      then drop 4 s else s)"

definition unfenced :: "utext \<Rightarrow> utext" where
  "unfenced s =
     (case Option.bind (cut_at fence_mark s) (\<lambda>(_, r). cut_at fence_mark (u_trimStart (drop_json_word r))) of
        Some (inside, _) \<Rightarrow> u_trim inside
      | None \<Rightarrow> s)"

text \<open>The text from the first opening to the last closing brace.\<close>

definition braced :: "utext \<Rightarrow> utext option" where
  "braced s =
     (let before_open = takeWhile (\<lambda>c. c \<noteq> 0x7B) s;
          after_close = takeWhile (\<lambda>c. c \<noteq> 0x7D) (rev s);
          i = length before_open; j = length s - 1 - length after_close
      in if 0x7B \<notin> set s \<or> 0x7D \<notin> set s \<or> j \<le> i then None else Some (u_slice i (j + 1) s))"

record parsed_voice =
  gpLanguage :: string
  gpText :: utext
  gpTextEn :: utext
  gpDialectHint :: "string option"
  gpDialectLabel :: "string option"
  gpSegments :: "segment list"
  gpSpeakerNames :: "(string \<times> string) list"
  gpNames :: "string list"
  gpAnalysis :: utext

definition read_voice :: "raw_voice \<Rightarrow> parsed_voice" where
  "read_voice p =
     (let segs = filter (\<lambda>s. sgText s \<noteq> []) (map voice_segment (or_default [] (rvSegments p)));
          text' = or_text_u (u_collapse (or_default [] (rvText p))) (u_trim (u_join [32] (map sgText segs)));
          textEn = or_text_u (u_collapse (first_of (rvTextEn p) (rvText_en p) []))
            (u_trim (u_join [32] (List.map_filter sgTextEn segs)));
          hint = normalizeDialectHint (case rvDialectHint p of Some h \<Rightarrow> Some h | None \<Rightarrow> rvDialect_hint p);
          label = js_trim (first_of (rvDialectLabel p) (rvDialect_label p) [])
      in \<lparr>gpLanguage = or_text (js_trim (or_default ''bn'' (rvLanguage p))) ''bn'',
          gpText = text', gpTextEn = textEn, gpDialectHint = fst hint,
          gpDialectLabel = (if label \<noteq> [] then Some label else snd hint),
          gpSegments = segs,
          gpSpeakerNames = spoken_names (first_of (rvSpeakerNames p) (rvSpeaker_names p) []),
          gpNames = mentioned_names (first_of (rvNamesMentioned p) (rvNames_mentioned p) []),
          gpAnalysis = u_trim (or_default [] (rvAnalysis p))\<rparr>)"

definition parseGeminiVoiceJson :: "gemini_service \<Rightarrow> utext \<Rightarrow> (string, parsed_voice) result" where
  "parseGeminiVoiceJson gs raw =
     (case braced (unfenced (u_trim raw)) of
        None \<Rightarrow> Inl ''Gemini voice response did not contain a JSON object''
      | Some body \<Rightarrow> map_sum id read_voice (gsReadVoice gs body))"

subsection \<open>The pipeline\<close>

record voice_input =
  viBytes :: int
  viBase64 :: string
  viFileName :: string
  viMime :: "string option"
  viAnalyze :: bool
  viLanguageHint :: "string option"
  viAnalysisHint :: "string option"

record gemini_voice =
  gvTranscript :: artifact
  gvPublic :: "string list \<times> public_segment list"
  gvAnalysis :: utext
  gvPromptTokens :: int
  gvCompletionTokens :: int
  gvTotalTokens :: int
  gvUpstream :: string
  gvSlug :: string
  gvHostedId :: "string option"
  gvPriceIn :: "rat option"
  gvPriceOut :: "rat option"

definition middle_dot :: string where
  "middle_dot = [CHR '' '', CHR 0xB7, CHR '' '']"

definition voice_artifact :: "string \<Rightarrow> parsed_voice \<Rightarrow> artifact" where
  "voice_artifact upstream p =
     normalizeTranscript
      \<lparr>arLanguage = (if or_empty (gpDialectLabel p) \<noteq> [] \<and> gpLanguage p \<noteq> []
           then gpLanguage p @ middle_dot @ or_empty (gpDialectLabel p) else gpLanguage p),
       arText = gpText p, arTextEn = u_null (gpTextEn p), arDialectHint = gpDialectHint p,
       arDialectLabel = gpDialectLabel p, arSpeakerNames = gpSpeakerNames p, arNames = gpNames p,
       arConfidence = None,
       arSegments = (if gpSegments p \<noteq> [] then gpSegments p
          else if gpText p \<noteq> []
          then [\<lparr>startSec = 0, endSec = 0, sgText = gpText p, sgTextEn = u_null (gpTextEn p), sgConfidence = None,
                 sgSpeaker = Some ''SPEAKER_00'', sgSpeakerId = Some ''SPEAKER_00''\<rparr>]
          else []),
       arProvider = ''gemini'', arModel = upstream\<rparr>"

text \<open>The counts of the answer; an estimate from the sizes when both are zero.\<close>

definition voice_tokens :: "int \<Rightarrow> nat \<Rightarrow> gemini_reply \<Rightarrow> int \<times> int" where
  "voice_tokens bytes rawLength y =
     (let p = max 0 (or_default 0 (gyPromptTokens y)); q = max 0 (or_default 0 (gyCandidatesTokens y))
      in if p + q = 0 then (max 1 (ceil_div bytes 1024), max 1 (ceil_div (int rawLength) 4)) else (p, q))"

definition reply_text :: "gemini_reply \<Rightarrow> utext" where
  "reply_text y = u_trim (u_join [10] (map (or_default []) (gyParts y)))"

definition voice_result :: "gemini_auth \<Rightarrow> voice_input \<Rightarrow> gemini_reply \<Rightarrow> utext \<Rightarrow> parsed_voice \<Rightarrow> gemini_voice" where
  "voice_result auth i y raw p =
     (let t = voice_artifact (gaUpstream auth) p; (pt, ct) = voice_tokens (viBytes i) (length raw) y
      in \<lparr>gvTranscript = t, gvPublic = toPublicTranscript t,
          gvAnalysis = (if viAnalyze i then gpAnalysis p else []),
          gvPromptTokens = pt, gvCompletionTokens = ct,
          gvTotalTokens = max (pt + ct) (or_default 0 (gyTotalTokens y)),
          gvUpstream = gaUpstream auth, gvSlug = gaSlug auth, gvHostedId = gaHostedId auth,
          gvPriceIn = gaPriceIn auth, gvPriceOut = gaPriceOut auth\<rparr>)"

definition generate_voice :: "gemini_service \<Rightarrow> gemini_auth \<Rightarrow> voice_input \<Rightarrow> audio_part \<Rightarrow> gemini_voice net" where
  "generate_voice gs auth i part =
     net_bind (net_send gs (Generate (gaUpstream auth) (buildSystemPrompt (viAnalyze i) (viLanguageHint i))
         (user_bits (viAnalyze i) (viLanguageHint i) (viAnalysisHint i)) part)) (\<lambda>a.
       if \<not> http_ok a then net_return (Inl (http_failed ''Gemini generateContent failed'' 600 a))
       else net_bind (net_return (gsReadReply gs (gaBody a))) (\<lambda>y.
         if reply_text y = [] then net_return (Inl ''Gemini returned an empty voice response'')
         else net_bind (net_return (parseGeminiVoiceJson gs (reply_text y))) (\<lambda>p.
           net_return (Inr (voice_result auth i y (reply_text y) p)))))"

text \<open>
  Small audio travels in the request; a larger file is uploaded first, and the \<^verbatim>\<open>finally\<close> clause deletes the
  file the upload has returned.
\<close>

definition gemini_run :: "gemini_service \<Rightarrow> gemini_auth \<Rightarrow> voice_input \<Rightarrow> gemini_voice net" where
  "gemini_run gs auth i =
     (let mime = guessMime (viFileName i) (viMime i)
      in if viBytes i \<le> inline_max_bytes then generate_voice gs auth i (InlineAudio mime (viBase64 i))
         else net_bind (uploadGeminiFile gs (viBytes i) mime (viFileName i)) (\<lambda>f.
           net_finally (generate_voice gs auth i (FileAudio (frUri f) (frMime f))) (deleteGeminiFile (frName f))))"

definition runGeminiVoicePipeline ::
    "gemini_service \<Rightarrow> aead \<Rightarrow> voice_key_env \<Rightarrow> int \<Rightarrow> voice_input \<Rightarrow> voice_registry
     \<Rightarrow> ((string, gemini_voice) result \<times> gemini_request list) \<times> voice_registry" where
  "runGeminiVoicePipeline gs ae env now i reg =
     (case resolveGeminiVoiceAuth ae env now reg of
        (Inl e, reg') \<Rightarrow> ((Inl e, []), reg')
      | (Inr auth, reg') \<Rightarrow> (gemini_run gs auth i [], reg'))"

end
