(* ===== verification/SpeechClients.thy ===== *)
theory SpeechClients
  imports VoiceSetup GeminiVoice
begin

text \<open>
  The speech recognition clients of the gateway (\<^verbatim>\<open>apps/gateway/src/lib/voice/\<close>): the remote space
  (\<^verbatim>\<open>hfSpaceAsr.ts\<close>), NeMo (\<^verbatim>\<open>nemoAsr.ts\<close>), faster-whisper (\<^verbatim>\<open>fasterWhisper.ts\<close>), the choice between them with its
  cache (\<^verbatim>\<open>index.ts\<close>), and the test whether a model is on disk (\<^verbatim>\<open>cache.ts\<close>). The network, the Python
  processes, the file system and \<^verbatim>\<open>JSON.parse\<close> are parameters; time limits are part of their answers.
\<close>

subsection \<open>The remote space\<close>

record space_config =
  scId :: string
  scUrl :: string
  scFn :: rat
  scToken :: string

definition default_space_host :: string where
  "default_space_host = ''https://bengaliai-regional-bengali-asr-tugstugi-whisper-medium.hf.space''"

text \<open>\<^verbatim>\<open>replace(/[/_]+/g, "-")\<close>; the flag says that the previous character was one of the run.\<close>

fun hyphenate :: "bool \<Rightarrow> string \<Rightarrow> string" where
  "hyphenate run [] = []"
| "hyphenate run (c # s) =
     (if c = CHR ''/'' \<or> c = CHR ''_'' then (if run then [] else ''-'') @ hyphenate True s else c # hyphenate False s)"

definition spaceHostFromId :: "string \<Rightarrow> string" where
  "spaceHostFromId spaceId = ''https://'' @ hyphenate False (to_lower (js_trim spaceId)) @ ''.hf.space''"

record space_env =
  seSpaceId :: "string option"
  seSpaceUrl :: "string option"
  seFnIndex :: "rat option"
  seToken :: "string option"
  seProcessToken :: "string option"
  seHubToken :: "string option"

fun first_given :: "string option list \<Rightarrow> string" where
  "first_given [] = []"
| "first_given (x # xs) = (case x of Some s \<Rightarrow> s | None \<Rightarrow> first_given xs)"

definition resolveHfSpaceAsrConfig :: "space_env \<Rightarrow> space_config" where
  "resolveHfSpaceAsrConfig env =
     (let spaceId = or_text (js_trim (or_default default_hf_space (seSpaceId env))) default_hf_space
      in \<lparr>scId = spaceId,
          scUrl = first_nonempty [strip_slashes (trimmed_or_empty (seSpaceUrl env)), spaceHostFromId spaceId, default_space_host],
          scFn = or_default 0 (seFnIndex env),
          scToken = js_trim (first_given [seToken env, seProcessToken env, seHubToken env])\<rparr>)"

definition space_mime :: "string \<Rightarrow> string" where
  "space_mime filePath =
     (let ext = to_lower (extname filePath)
      in if ext = ''.wav'' then ''audio/wav''
         else if ext = ''.mp3'' then ''audio/mpeg''
         else if ext = ''.m4a'' \<or> ext = ''.aac'' then ''audio/mp4''
         else if ext = ''.webm'' then ''audio/webm''
         else if ext = ''.ogg'' then ''audio/ogg''
         else if ext = ''.flac'' then ''audio/flac''
         else ''application/octet-stream'')"

text \<open>
  Requests carry the token; \<^verbatim>\<open>Inl\<close> is a rejected \<^verbatim>\<open>fetch\<close>. The body of the event stream is
  the decoded pieces, \<^verbatim>\<open>Inl\<close> a failed read; \<^verbatim>\<open>None\<close> is an answer without body.
\<close>

record space_file =
  sfPath :: string
  sfName :: string
  sfMime :: string
  sfSize :: nat

datatype space_request =
    SpaceUpload string string string
  | SpaceJoin string rat string space_file
  | SpaceData string string
  | SpaceInfo string

record space_answer =
  saStatus :: int
  saText :: string
  saBody :: "(string, string) result list option"

type_synonym space_send = "string \<Rightarrow> space_request \<Rightarrow> (string, space_answer) result"

definition space_ok :: "space_answer \<Rightarrow> bool" where
  "space_ok a \<longleftrightarrow> 200 \<le> saStatus a \<and> saStatus a < 300"

definition space_failed :: "string \<Rightarrow> space_answer \<Rightarrow> string" where
  "space_failed what a = ''HF Space '' @ what @ '' failed ('' @ show_int (saStatus a) @ ''): '' @ take 400 (saText a)"

text \<open>What \<^verbatim>\<open>JSON.parse\<close> reads of the upload's answer: the first text of an array, or the \<^verbatim>\<open>path\<close> of an object.\<close>

datatype upload_payload = FirstText "string option" | PathField string | OtherPayload

definition uploaded_path :: "upload_payload \<Rightarrow> string" where
  "uploaded_path p = (case p of FirstText t \<Rightarrow> or_empty t | PathField s \<Rightarrow> s | OtherPayload \<Rightarrow> [])"

text \<open>A line of the event stream; the first item of the data is its text, \<^verbatim>\<open>None\<close> when absent or null.\<close>

datatype space_event = NullEvent | SpaceEvent "string option" "utext option"

record space_reader =
  srUpload :: "string \<Rightarrow> (string, upload_payload) result"
  srShow :: "upload_payload \<Rightarrow> string"
  srEvent :: "string \<Rightarrow> space_event option"

definition uploadAudio ::
    "space_send \<Rightarrow> space_reader \<Rightarrow> space_config \<Rightarrow> string \<Rightarrow> (string, nat) result \<Rightarrow> (string, space_file) result" where
  "uploadAudio send rd cfg filePath bytes =
     (case bytes of
        Inl e \<Rightarrow> Inl e
      | Inr size_ \<Rightarrow>
          (case send (scToken cfg) (SpaceUpload (scUrl cfg) (basename filePath) (space_mime filePath)) of
             Inl e \<Rightarrow> Inl e
           | Inr a \<Rightarrow>
               if \<not> space_ok a then Inl (space_failed ''upload'' a)
               else (case srUpload rd (saText a) of
                       Inl e \<Rightarrow> Inl e
                     | Inr p \<Rightarrow>
                         if uploaded_path p = [] then Inl (''HF Space upload returned unexpected payload: '' @ take 200 (srShow rd p))
                         else Inr \<lparr>sfPath = uploaded_path p, sfName = basename filePath,
                                   sfMime = space_mime filePath, sfSize = size_\<rparr>)))"

definition joinQueue :: "space_send \<Rightarrow> space_config \<Rightarrow> string \<Rightarrow> space_file \<Rightarrow> (string, unit) result" where
  "joinQueue send cfg session file =
     (case send (scToken cfg) (SpaceJoin (scUrl cfg) (scFn cfg) session file) of
        Inl e \<Rightarrow> Inl e
      | Inr a \<Rightarrow> if space_ok a then Inr () else Inl (space_failed ''queue join'' a))"

text \<open>
  The reading of the event stream. \<^verbatim>\<open>close_stream\<close> breaks only the loop over the lines of the
  piece; the reading goes on with the next piece.
\<close>

datatype line_outcome = GoOn | BreakPiece | Give utext | Fail string

definition null_message :: string where
  "null_message = ''Cannot read properties of null (reading 'msg')''"

definition space_line :: "space_reader \<Rightarrow> string \<Rightarrow> line_outcome" where
  "space_line rd raw =
     (let line = js_trim raw; payload = js_trim (drop 5 line)
      in if \<not> starts_with ''data:'' line \<or> payload = [] then GoOn
         else (case srEvent rd payload of
                 None \<Rightarrow> GoOn
               | Some NullEvent \<Rightarrow> Fail null_message
               | Some (SpaceEvent msg t) \<Rightarrow>
                   if msg = Some ''process_completed'' then Give (or_default [] t)
                   else if msg = Some ''close_stream'' then BreakPiece else GoOn))"

fun space_lines :: "space_reader \<Rightarrow> string list \<Rightarrow> (string, utext) result option" where
  "space_lines rd [] = None"
| "space_lines rd (l # ls) =
     (case space_line rd l of
        GoOn \<Rightarrow> space_lines rd ls | BreakPiece \<Rightarrow> None | Give t \<Rightarrow> Some (Inr t) | Fail e \<Rightarrow> Some (Inl e))"

fun read_space :: "space_reader \<Rightarrow> string \<Rightarrow> (string, string) result list \<Rightarrow> (string, utext) result" where
  "read_space rd buffer [] = Inl ''HF Space stream ended without a transcript''"
| "read_space rd buffer (Inl e # pieces) = Inl e"
| "read_space rd buffer (Inr piece # pieces) =
     (let chunks = split_on newline (buffer @ piece)
      in case space_lines rd (butlast chunks) of
           Some r \<Rightarrow> r
         | None \<Rightarrow> read_space rd (last chunks) pieces)"

definition waitForResult :: "space_send \<Rightarrow> space_reader \<Rightarrow> space_config \<Rightarrow> string \<Rightarrow> (string, utext) result" where
  "waitForResult send rd cfg session =
     (case send (scToken cfg) (SpaceData (scUrl cfg) session) of
        Inl e \<Rightarrow> Inl e
      | Inr a \<Rightarrow>
          (case saBody a of
             None \<Rightarrow> Inl (space_failed ''queue stream'' a)
           | Some pieces \<Rightarrow> if space_ok a then read_space rd [] pieces else Inl (space_failed ''queue stream'' a)))"

definition space_artifact :: "space_config \<Rightarrow> string option \<Rightarrow> utext \<Rightarrow> artifact" where
  "space_artifact cfg language t =
     normalizeTranscript
       \<lparr>arLanguage = or_default ''bn'' language, arText = t, arTextEn = None, arDialectHint = None,
        arDialectLabel = None, arSpeakerNames = [], arNames = [], arConfidence = None,
        arSegments = [plain_segment 0 0 t None None], arProvider = ''hf-space'', arModel = scId cfg\<rparr>"

definition hf_space_transcribe ::
    "space_send \<Rightarrow> space_reader \<Rightarrow> space_config \<Rightarrow> string \<Rightarrow> string \<Rightarrow> (string, nat) result \<Rightarrow> string option
     \<Rightarrow> (string, artifact) result" where
  "hf_space_transcribe send rd cfg session filePath bytes language =
     (case uploadAudio send rd cfg filePath bytes of
        Inl e \<Rightarrow> Inl e
      | Inr file \<Rightarrow>
          (case joinQueue send cfg session file of
             Inl e \<Rightarrow> Inl e
           | Inr _ \<Rightarrow>
               (case waitForResult send rd cfg session of
                  Inl e \<Rightarrow> Inl e
                | Inr raw \<Rightarrow>
                    (let t = u_trim raw
                     in if t = [] then Inl ''HF Space returned an empty transcript''
                        else Inr (space_artifact cfg language t)))))"

definition probeHfSpaceAvailable :: "space_send \<Rightarrow> space_config \<Rightarrow> (string, unit) result" where
  "probeHfSpaceAvailable send cfg =
     (case send (scToken cfg) (SpaceInfo (scUrl cfg)) of
        Inl e \<Rightarrow> Inl e
      | Inr a \<Rightarrow>
          if space_ok a then Inr ()
          else if saStatus a = 401 \<or> saStatus a = 403
          then (if scToken cfg = []
                then Inl (''HF Space requires auth ('' @ show_int (saStatus a) @ ''). Set HF_TOKEN in the root .env and restart the gateway.'')
                else Inl (''HF Space rejected HF_TOKEN ('' @ show_int (saStatus a) @ ''). Check the token at huggingface.co/settings/tokens.''))
          else Inl (''HF Space unreachable ('' @ show_int (saStatus a) @ '') at '' @ scUrl cfg))"

subsection \<open>Python recognisers\<close>

record speech_segment =
  ssStart :: "rat option"
  ssEnd :: "rat option"
  ssText :: "utext option"
  ssLogprob :: "rat option"

record speech_output =
  soLanguage :: "string option"
  soText :: "utext option"
  soConfidence :: "rat option"
  soSegments :: "speech_segment list option"
  soError :: "string option"

text \<open>\<^verbatim>\<open>split(/\r?\n/)\<close>: a carriage return right before a line end belongs to the separator.\<close>

definition drop_cr :: "string \<Rightarrow> string" where
  "drop_cr l = (if l \<noteq> [] \<and> last l = CHR 0x0D then butlast l else l)"

definition crlf_lines :: "string \<Rightarrow> string list" where
  "crlf_lines s = (let ls = split_on newline s in map drop_cr (butlast ls) @ [last ls])"

definition last_text :: "string list \<Rightarrow> string" where
  "last_text ls = (let xs = filter (\<lambda>l. l \<noteq> []) ls in if xs = [] then [] else last xs)"

definition spoken_segment :: "speech_segment \<Rightarrow> segment" where
  "spoken_segment s = plain_segment (or_default 0 (ssStart s)) (or_default 0 (ssEnd s)) (or_default [] (ssText s)) None (ssLogprob s)"

definition speech_artifact :: "string \<Rightarrow> string \<Rightarrow> string \<Rightarrow> speech_output \<Rightarrow> artifact" where
  "speech_artifact provider model language o1 =
     normalizeTranscript
       \<lparr>arLanguage = or_default language (soLanguage o1), arText = or_default [] (soText o1), arTextEn = None,
        arDialectHint = None, arDialectLabel = None, arSpeakerNames = [], arNames = [],
        arConfidence = soConfidence o1, arSegments = map spoken_segment (or_default [] (soSegments o1)),
        arProvider = provider, arModel = model\<rparr>"

text \<open>\<^verbatim>\<open>run\<close> is the standard output of the process or its failure.\<close>

definition nemo_transcribe ::
    "(string \<Rightarrow> (string, speech_output) result) \<Rightarrow> string \<Rightarrow> (string, string) result \<Rightarrow> (string, artifact) result" where
  "nemo_transcribe rd model run =
     (case run of
        Inl e \<Rightarrow> Inl e
      | Inr out \<Rightarrow>
          (case rd (last_text (crlf_lines (js_trim out))) of
             Inl e \<Rightarrow> Inl (''Invalid NeMo ASR JSON output: '' @ e)
           | Inr p \<Rightarrow> if or_empty (soError p) \<noteq> [] then Inl (or_empty (soError p))
                      else Inr (speech_artifact ''nemo'' model ''bn'' p)))"

definition whisper_transcribe ::
    "(string \<Rightarrow> (string, speech_output) result) \<Rightarrow> string \<Rightarrow> string option \<Rightarrow> (string, string) result \<Rightarrow> (string, artifact) result" where
  "whisper_transcribe rd model language run =
     (case run of
        Inl e \<Rightarrow> Inl e
      | Inr out \<Rightarrow>
          (case rd (last_text (map js_trim (crlf_lines out))) of
             Inl e \<Rightarrow> Inl (''Invalid Faster-Whisper JSON output: '' @ e)
           | Inr p \<Rightarrow> Inr (speech_artifact ''faster-whisper'' model (or_default ''unknown'' language) p)))"

subsection \<open>The cached client\<close>

text \<open>What the process environment fixes; the selection fills in the provider and its model.\<close>

record stt_process =
  spWhisperDevice :: string
  spCompute :: string
  spBeam :: rat
  spBestOf :: rat
  spTemperature :: rat
  spNoSpeech :: rat
  spNemoDevice :: string
  spSpaceUrl :: string
  spFnIndex :: string
  spFnNumber :: rat
  spPython :: string
  spWhisperScript :: string
  spNemoScript :: string
  spToken :: "string option"
  spProcessToken :: "string option"
  spHubToken :: "string option"

datatype stt_client =
    NemoClient string string string string
  | SpaceClient space_config
  | WhisperClient string string string string string "rat list"

definition providerKey :: "stt_process \<Rightarrow> stt_defaults \<Rightarrow> string" where
  "providerKey p env = join ''|''
     [provider_name (sdProvider env), sdWhisperModel env, spWhisperDevice p, spCompute p, sdNemoModel env,
      spNemoDevice p, sdHfSpace env, spSpaceUrl p, spFnIndex p, spPython p, spWhisperScript p, spNemoScript p]"

definition new_stt_client :: "stt_process \<Rightarrow> stt_defaults \<Rightarrow> stt_client" where
  "new_stt_client p env =
     (case sdProvider env of
        Nemo \<Rightarrow> NemoClient (spPython p) (spNemoScript p) (sdNemoModel env) (spNemoDevice p)
      | HfSpace \<Rightarrow> SpaceClient (resolveHfSpaceAsrConfig
          \<lparr>seSpaceId = Some (sdHfSpace env), seSpaceUrl = Some (spSpaceUrl p), seFnIndex = Some (spFnNumber p),
           seToken = spToken p, seProcessToken = spProcessToken p, seHubToken = spHubToken p\<rparr>)
      | FasterWhisper \<Rightarrow> WhisperClient (spPython p) (spWhisperScript p) (sdWhisperModel env) (spWhisperDevice p)
          (spCompute p) [spBeam p, spBestOf p, spTemperature p, spNoSpeech p])"

type_synonym client_cache = "(string \<times> stt_client) option"

definition createSttProvider :: "stt_process \<Rightarrow> stt_defaults \<Rightarrow> client_cache \<Rightarrow> stt_client \<times> client_cache" where
  "createSttProvider p env cache =
     (let key = providerKey p env; fresh = new_stt_client p env
      in case cache of
           Some (k, c) \<Rightarrow> if k = key then (c, cache) else (fresh, Some (key, fresh))
         | None \<Rightarrow> (fresh, Some (key, fresh)))"

definition resetSttProviderCache :: "client_cache \<Rightarrow> client_cache" where
  "resetSttProviderCache cache = None"

subsection \<open>Models on disk\<close>

text \<open>\<^verbatim>\<open>None\<close> is a directory, file or size that cannot be read; \<^verbatim>\<open>dkConfig\<close> the architectures of a \<^verbatim>\<open>config.json\<close>.\<close>

record disk =
  dkExists :: "string \<Rightarrow> bool"
  dkDir :: "string \<Rightarrow> string list option"
  dkFileSize :: "string \<Rightarrow> nat option"
  dkConfig :: "string \<Rightarrow> string list option"

definition pjoin :: "string \<Rightarrow> string \<Rightarrow> string" where
  "pjoin a b = a @ ''/'' @ b"

definition dashed :: "string \<Rightarrow> string" where
  "dashed s = concat (map (\<lambda>c. if c = CHR ''/'' then ''--'' else [c]) s)"

definition transformers_models :: "string list" where
  "transformers_models = [''bengaliAI/tugstugi_bengaliai-regional-asr_whisper-medium'']"

definition whisperHubRepoId :: "string \<Rightarrow> string" where
  "whisperHubRepoId model = (if CHR ''/'' \<in> set model then model else ''Systran/faster-whisper-'' @ model)"

definition ct2LocalDir :: "string \<Rightarrow> string \<Rightarrow> string" where
  "ct2LocalDir repo model = pjoin repo (''data/voice/ct2/'' @ dashed model)"

definition hubSnapshotsDir :: "string option \<Rightarrow> string \<Rightarrow> string \<Rightarrow> string" where
  "hubSnapshotsDir hfHome home repoId =
     pjoin (or_text (trimmed_or_empty hfHome) (pjoin home ''.cache/huggingface''))
       (''hub/models--'' @ dashed repoId @ ''/snapshots'')"

definition isCt2WeightsDir :: "disk \<Rightarrow> string \<Rightarrow> bool" where
  "isCt2WeightsDir d dir =
     (if dkExists d (pjoin dir ''model.bin'') then True
      else if \<not> dkExists d (pjoin dir ''model.safetensors'') then False
      else if \<not> dkExists d (pjoin dir ''config.json'') then True
      else (case dkConfig d (pjoin dir ''config.json'') of
              None \<Rightarrow> True
            | Some archs \<Rightarrow> archs = [] \<or> \<not> list_ex (includes_at ''Whisper'') archs))"

definition snapshot_dirs :: "disk \<Rightarrow> string \<Rightarrow> string list" where
  "snapshot_dirs d dir = (if dkExists d dir then map (pjoin dir) (or_default [] (dkDir d dir)) else [])"

definition isWhisperModelCachedOnDisk :: "disk \<Rightarrow> string \<Rightarrow> string option \<Rightarrow> string \<Rightarrow> string \<Rightarrow> bool" where
  "isWhisperModelCachedOnDisk d repo hfHome home model =
     (if isCt2WeightsDir d (ct2LocalDir repo model) then True
      else if model \<in> set transformers_models then False
      else list_ex (isCt2WeightsDir d) (snapshot_dirs d (hubSnapshotsDir hfHome home (whisperHubRepoId model))))"

definition weight_suffixes :: "string list" where
  "weight_suffixes = [''.ckpt'', ''.pt'', ''.bin'', ''.safetensors'', ''.nemo'']"

definition nemo_snapshot :: "disk \<Rightarrow> string \<Rightarrow> bool" where
  "nemo_snapshot d dir =
     (case dkDir d dir of
        None \<Rightarrow> False
      | Some names \<Rightarrow>
          list_ex (\<lambda>n. ends_with ''.nemo'' (to_lower n)) names
          \<or> list_ex (\<lambda>n. n = ''model_config.yaml'' \<or> n = ''config.json'') names
              \<and> list_ex (\<lambda>n. list_ex (\<lambda>e. ends_with e (to_lower n)) weight_suffixes) names
          \<or> list_ex (\<lambda>n. case dkFileSize d (pjoin dir n) of None \<Rightarrow> False | Some k \<Rightarrow> 1000000 < k) names)"

definition isHfRepoCachedOnDisk :: "disk \<Rightarrow> string option \<Rightarrow> string \<Rightarrow> string \<Rightarrow> bool" where
  "isHfRepoCachedOnDisk d hfHome home repoId = list_ex (nemo_snapshot d) (snapshot_dirs d (hubSnapshotsDir hfHome home repoId))"

end
