(* ===== verification/SpeechClientsProps.thy ===== *)
theory SpeechClientsProps
  imports SpeechClients StreamingProps
begin

text \<open>
  The speech clients: the event stream of the space is read the same however it is cut, as long as
  it is not closed early; a transcript of the space is never blank before it is cleaned; the cached client is the one of the
  selection.
\<close>

subsection \<open>The event stream\<close>

lemma space_lines_append:
  assumes "\<forall>l \<in> set ls. space_line rd l \<noteq> BreakPiece"
  shows "space_lines rd (ls @ ms) = (case space_lines rd ls of Some r \<Rightarrow> Some r | None \<Rightarrow> space_lines rd ms)"
  using assms by (induction ls) (auto split: line_outcome.splits)

definition all_lines :: "string \<Rightarrow> string list" where
  "all_lines s = butlast (split_on newline s)"

lemma all_lines_append:
  "all_lines (xs @ ys) = all_lines xs @ all_lines (last (split_on newline xs) @ ys)"
  using split_on_append [of newline xs ys] by (simp add: all_lines_def butlast_append)

text \<open>
  Without an early close, what is read depends only on the text of the stream: its complete lines, in order.
\<close>

theorem space_stream_pieces:
  assumes "\<forall>l \<in> set (all_lines (buffer @ concat pieces)). space_line rd l \<noteq> BreakPiece"
    and "newline \<notin> set buffer"
  shows "read_space rd buffer (map Inr pieces) =
    or_default (Inl ''HF Space stream ended without a transcript'') (space_lines rd (all_lines (buffer @ concat pieces)))"
  using assms
proof (induction pieces arbitrary: buffer)
  case Nil
  then show ?case by (simp add: all_lines_def split_on_no_sep or_default_def)
next
  case (Cons p ps)
  let ?rest = "last (split_on newline (buffer @ p))"
  have lines: "all_lines (buffer @ concat (p # ps)) = all_lines (buffer @ p) @ all_lines (?rest @ concat ps)"
    using all_lines_append [of "buffer @ p" "concat ps"] by simp
  have no_break: "\<forall>l \<in> set (all_lines (buffer @ p)). space_line rd l \<noteq> BreakPiece"
    "\<forall>l \<in> set (all_lines (?rest @ concat ps)). space_line rd l \<noteq> BreakPiece"
    using Cons.prems(1) unfolding lines by auto
  have ih: "read_space rd ?rest (map Inr ps) =
      or_default (Inl ''HF Space stream ended without a transcript'') (space_lines rd (all_lines (?rest @ concat ps)))"
    by (rule Cons.IH [OF no_break(2) split_on_last_no_sep])
  show ?case
    unfolding lines space_lines_append [OF no_break(1)]
    using ih by (simp add: Let_def all_lines_def or_default_def split: option.splits)
qed

text \<open>
  An early close stops only the piece it is in: the same text gives the transcript or an error as the network cuts it.
\<close>

definition tiny_reader :: space_reader where
  "tiny_reader = \<lparr>srUpload = (\<lambda>_. Inl ''''), srShow = (\<lambda>_. ''''),
     srEvent = (\<lambda>s. if s = ''c'' then Some (SpaceEvent (Some ''close_stream'') None)
       else if s = ''p'' then Some (SpaceEvent (Some ''process_completed'') (Some [97])) else None)\<rparr>"

lemma close_ends_only_its_piece:
  "read_space tiny_reader [] [Inr (''data:c'' @ [newline]), Inr (''data:p'' @ [newline])] = Inr [97]
   \<and> read_space tiny_reader [] [Inr (''data:c'' @ [newline] @ ''data:p'' @ [newline])]
       = Inl ''HF Space stream ended without a transcript''"
  by code_simp

text \<open>A last event without a line end is never read.\<close>

lemma unterminated_event_lost:
  "read_space tiny_reader [] [Inr ''data:p''] = Inl ''HF Space stream ended without a transcript''"
  by code_simp

lemma read_space_no_transcript:
  assumes "\<forall>l. space_line rd l \<noteq> Give t"
  shows "read_space rd buffer pieces \<noteq> Inr t"
proof -
  have lines: "space_lines rd ls \<noteq> Some (Inr t)" for ls
    using assms by (induction ls) (auto split: line_outcome.split)
  show ?thesis
    using lines by (induction rd buffer pieces rule: read_space.induct) (auto simp: Let_def split: option.split)
qed

subsection \<open>Transcripts of the space\<close>

lemma normalized_provider [simp]: "arProvider (normalizeTranscript a) = arProvider a"
  by (simp add: normalizeTranscript_def Let_def)

lemma normalized_model [simp]: "arModel (normalizeTranscript a) = arModel a"
  by (simp add: normalizeTranscript_def Let_def)

lemma normalized_language [simp]: "arLanguage (normalizeTranscript a) = arLanguage a"
  by (simp add: normalizeTranscript_def Let_def)

text \<open>
  A transcript names the space and its model, and comes from an upload, a join and a stream that all succeeded; its text was
  not blank before the clean-up.
\<close>

theorem space_transcript_sound:
  assumes "hf_space_transcribe send rd cfg session filePath bytes language = Inr a"
  obtains up raw where "uploadAudio send rd cfg filePath bytes = Inr up" "joinQueue send cfg session up = Inr ()"
    "waitForResult send rd cfg session = Inr raw" "u_trim raw \<noteq> []" "sfPath up \<noteq> []"
    "arProvider a = ''hf-space''" "arModel a = scId cfg" "arLanguage a = or_default ''bn'' language"
proof -
  obtain up where up: "uploadAudio send rd cfg filePath bytes = Inr up"
    using assms by (auto simp: hf_space_transcribe_def split: sum.splits)
  then have "sfPath up \<noteq> []"
    by (auto simp: uploadAudio_def split: sum.splits if_splits)
  then show ?thesis
    using assms up that by (auto simp: hf_space_transcribe_def Let_def space_artifact_def split: sum.splits if_splits)
qed

subsection \<open>The cached client\<close>

lemma split_on_app_sep: "c \<notin> set x \<Longrightarrow> split_on c (x @ c # s) = x # split_on c s"
  by (induction x) auto

lemma split_on_join:
  "\<forall>x \<in> set xs. c \<notin> set x \<Longrightarrow> xs \<noteq> [] \<Longrightarrow> split_on c (join [c] xs) = xs"
proof (induction xs rule: induct_list012)
  case (3 x y zs)
  then show ?case using split_on_app_sep [of c x "join [c] (y # zs)"] by simp
qed (simp_all add: split_on_no_sep)

lemma join_inj:
  assumes "\<forall>x \<in> set xs \<union> set ys. c \<notin> set x" "xs \<noteq> []" "ys \<noteq> []" "join [c] xs = join [c] ys"
  shows "xs = ys"
proof -
  have "split_on c (join [c] xs) = xs" "split_on c (join [c] ys) = ys"
    using assms(1-3) by (blast intro: split_on_join)+
  then show ?thesis using assms(4) by metis
qed

definition no_bars :: "stt_process \<Rightarrow> stt_defaults \<Rightarrow> bool" where
  "no_bars p env \<longleftrightarrow> list_all (\<lambda>s. CHR ''|'' \<notin> set s)
     [sdWhisperModel env, spWhisperDevice p, spCompute p, sdNemoModel env, spNemoDevice p, sdHfSpace env,
      spSpaceUrl p, spFnIndex p, spPython p, spWhisperScript p, spNemoScript p]"

lemma provider_name_bar: "CHR ''|'' \<notin> set (provider_name x)"
  by (cases x) (simp_all add: provider_name_def)

lemma provider_name_inj: "provider_name x = provider_name y \<Longrightarrow> x = y"
  by (cases x; cases y) (simp_all add: provider_name_def)

lemma key_determines_client:
  assumes "no_bars p env" "no_bars p env'" "providerKey p env = providerKey p env'"
  shows "new_stt_client p env = new_stt_client p env'"
proof -
  have "[provider_name (sdProvider env), sdWhisperModel env, spWhisperDevice p, spCompute p, sdNemoModel env,
      spNemoDevice p, sdHfSpace env, spSpaceUrl p, spFnIndex p, spPython p, spWhisperScript p, spNemoScript p]
    = [provider_name (sdProvider env'), sdWhisperModel env', spWhisperDevice p, spCompute p, sdNemoModel env',
      spNemoDevice p, sdHfSpace env', spSpaceUrl p, spFnIndex p, spPython p, spWhisperScript p, spNemoScript p]"
    using assms by (intro join_inj [where c = "CHR ''|''"]) (auto simp: no_bars_def provider_name_bar providerKey_def)
  then have "sdProvider env = sdProvider env'" "sdWhisperModel env = sdWhisperModel env'"
    "sdNemoModel env = sdNemoModel env'" "sdHfSpace env = sdHfSpace env'"
    by (simp_all add: provider_name_inj)
  then show ?thesis
    by (cases "sdProvider env'") (simp_all add: new_stt_client_def)
qed

text \<open>After any sequence of requests and resets, a request gets the client of its own selection.\<close>

definition cache_of :: "stt_process \<Rightarrow> client_cache \<Rightarrow> bool" where
  "cache_of p cache \<longleftrightarrow>
     (case cache of None \<Rightarrow> True
      | Some (k, c) \<Rightarrow> \<exists>env. no_bars p env \<and> k = providerKey p env \<and> c = new_stt_client p env)"

lemma create_client:
  assumes "cache_of p cache" "no_bars p env"
  shows "fst (createSttProvider p env cache) = new_stt_client p env \<and> cache_of p (snd (createSttProvider p env cache))"
proof (cases "\<exists>c. cache = Some (providerKey p env, c)")
  case True
  then obtain c where c: "cache = Some (providerKey p env, c)" by blast
  then obtain env' where "no_bars p env'" "providerKey p env = providerKey p env'" "c = new_stt_client p env'"
    using assms(1) by (auto simp: cache_of_def)
  then show ?thesis
    using c assms key_determines_client [of p env env'] by (simp add: createSttProvider_def Let_def)
next
  case False
  then have "createSttProvider p env cache = (new_stt_client p env, Some (providerKey p env, new_stt_client p env))"
    by (auto simp: createSttProvider_def Let_def split: option.split)
  then show ?thesis using assms(2) by (auto simp: cache_of_def)
qed

definition client_step :: "stt_process \<Rightarrow> stt_defaults option \<Rightarrow> client_cache \<Rightarrow> client_cache" where
  "client_step p req cache =
     (case req of None \<Rightarrow> resetSttProviderCache cache | Some env \<Rightarrow> snd (createSttProvider p env cache))"

interpretation stt_clients: guarded_system "client_step p" "\<lambda>req. \<forall>env. req = Some env \<longrightarrow> no_bars p env" "cache_of p" None
  for p
proof
  show "cache_of p None" by (simp add: cache_of_def)
next
  fix cache req
  assume "cache_of p cache" and "\<forall>env. req = Some env \<longrightarrow> no_bars p env"
  then show "cache_of p (client_step p req cache)"
    using create_client [of p cache] by (cases req) (simp_all add: client_step_def resetSttProviderCache_def cache_of_def [of p None])
qed

theorem client_of_selection:
  assumes "\<forall>req \<in> set reqs. \<forall>env. req = Some env \<longrightarrow> no_bars p env" and "no_bars p env"
  shows "fst (createSttProvider p env (fold (client_step p) reqs None)) = new_stt_client p env"
  using create_client [OF stt_clients.reachable_inv [OF assms(1)] assms(2)] by simp

subsection \<open>Models on disk\<close>

text \<open>One large file of an unfinished snapshot counts as the model.\<close>

lemma any_large_file_counts:
  assumes "dkDir d dir = Some names" "n \<in> set names" "dkFileSize d (pjoin dir n) = Some k" "1000000 < k"
  shows "nemo_snapshot d dir"
proof -
  have "list_ex (\<lambda>n. case dkFileSize d (pjoin dir n) of None \<Rightarrow> False | Some k \<Rightarrow> 1000000 < k) names"
    using assms(2-4) by (auto simp: list_ex_iff intro!: bexI [of _ n])
  then show ?thesis using assms(1) by (simp add: nemo_snapshot_def)
qed

text \<open>The converted regional model counts only when its converted weights are there.\<close>

lemma regional_needs_conversion:
  "m \<in> set transformers_models \<Longrightarrow>
   isWhisperModelCachedOnDisk d repo hfHome home m \<longleftrightarrow> isCt2WeightsDir d (ct2LocalDir repo m)"
  by (simp add: isWhisperModelCachedOnDisk_def)

end
