(* ===== verification/Diarization.thy ===== *)
theory Diarization
  imports SpeechClients
begin

text \<open>
  Speaker diarization as the gateway runs it (\<^verbatim>\<open>apps/gateway/src/lib/voice/\<close>): its configuration
  from the environment (\<^verbatim>\<open>diarizationConfig.ts\<close>), the local script (\<^verbatim>\<open>diarize.ts\<close>) and the cloud service
  (\<^verbatim>\<open>pyannoteCloud.ts\<close>) with its job that is polled until a time limit. The service, the script and
  \<^verbatim>\<open>JSON.parse\<close> are parameters.
\<close>

subsection \<open>Configuration\<close>

record diarize_env =
  deEnabled :: "string option"
  deBackend :: "string option"
  deMode :: "string option"
  deModel :: "string option"
  deCloudModel :: "string option"
  deDevice :: "string option"
  dePython :: "string option"
  deScript :: "string option"
  deMinSpeakers :: "string option"
  deMaxSpeakers :: "string option"
  deTurnPad :: "string option"
  deConcurrency :: "string option"
  deApiKey :: "string option"

record full_diarization = diarization_config +
  dzPython :: string
  dzScript :: string
  dzDevice :: string
  dzMinSpeakers :: "js_num option"
  dzMaxSpeakers :: "js_num option"
  dzApiKey :: "string option"
  dzTurnPad :: js_num
  dzConcurrency :: js_num

definition given_or :: "string option \<Rightarrow> string option \<Rightarrow> string" where
  "given_or raw env = (case raw of Some s \<Rightarrow> s | None \<Rightarrow> or_empty env)"

definition resolveDiarizationBackend :: "diarize_env \<Rightarrow> string option \<Rightarrow> backend" where
  "resolveDiarizationBackend env raw =
     (let v = to_lower (js_trim (given_or raw (deBackend env)))
      in if v = ''cloud'' \<or> v = ''pyannoteai'' \<or> v = ''api'' then CloudBackend
         else if v = ''local'' then LocalBackend
         else if trimmed_or_empty (deApiKey env) \<noteq> [] then CloudBackend else LocalBackend)"

definition resolveDiarizationMode :: "diarize_env \<Rightarrow> string option \<Rightarrow> diarize_mode" where
  "resolveDiarizationMode env raw =
     (if to_lower (js_trim (or_default ''per-turn'' (case raw of Some s \<Rightarrow> Some s | None \<Rightarrow> deMode env))) = ''merge''
      then MergeMode else PerTurn)"

text \<open>\<^verbatim>\<open>x ? Number(x) : undefined\<close>.\<close>

definition env_number :: "string option \<Rightarrow> js_num option" where
  "env_number s = (if or_empty s = [] then None else Some (js_number (or_empty s)))"

definition diarizationConfigFromEnv :: "diarize_env \<Rightarrow> full_diarization" where
  "diarizationConfigFromEnv env =
     (let b = resolveDiarizationBackend env None
      in \<lparr>dzEnabled = (deEnabled env = Some ''true''), dzBackend = b, dzMode = resolveDiarizationMode env None,
          dzModel = (if b = CloudBackend then or_text (trimmed_or_empty (deCloudModel env)) ''precision-2''
                     else or_text (trimmed_or_empty (deModel env)) ''pyannote/speaker-diarization-community-1''),
          dzPython = or_default ''python3'' (dePython env),
          dzScript = or_default ''scripts/pyannote-diarize.py'' (deScript env),
          dzDevice = (if deDevice env = Some ''cuda'' then ''cuda'' else ''cpu''),
          dzMinSpeakers = env_number (deMinSpeakers env), dzMaxSpeakers = env_number (deMaxSpeakers env),
          dzApiKey = (let k = trimmed_or_empty (deApiKey env) in if k = [] then None else Some k),
          dzTurnPad = or_default (Fin 200) (env_number (deTurnPad env)),
          dzConcurrency = or_default (Fin 2) (env_number (deConcurrency env))\<rparr>)"

subsection \<open>The cloud service\<close>

datatype cloud_model = Precision2 | Community1

definition cloud_model_name :: "cloud_model \<Rightarrow> string" where
  "cloud_model_name m = (case m of Precision2 \<Rightarrow> ''precision-2'' | Community1 \<Rightarrow> ''community-1'')"

definition resolvePyannoteCloudModel :: "string option \<Rightarrow> cloud_model" where
  "resolvePyannoteCloudModel raw =
     (if includes_at ''community'' (to_lower (js_trim (or_default ''precision-2'' raw))) then Community1 else Precision2)"

text \<open>The speaker counts of a job: one number, or a lower and an upper limit.\<close>

datatype speaker_count = ExactSpeakers js_num | SpeakerLimits "js_num option" "js_num option"

definition positive_num :: "js_num \<Rightarrow> bool" where
  "positive_num n = (case n of Fin q \<Rightarrow> 0 < q | Infinite b \<Rightarrow> b | NaN \<Rightarrow> False)"

definition speaker_count_of :: "js_num option \<Rightarrow> js_num option \<Rightarrow> speaker_count" where
  "speaker_count_of lo hi =
     (case (lo, hi) of
        (Some a, Some b) \<Rightarrow> if a = b \<and> positive_num a then ExactSpeakers a else SpeakerLimits lo hi
      | _ \<Rightarrow> SpeakerLimits lo hi)"

datatype cloud_request = TestKey | MediaInput string | PutMedia string | SubmitJob string cloud_model speaker_count | JobState string

record cloud_answer =
  caStatus :: int
  caText :: string

type_synonym cloud_send = "string \<Rightarrow> cloud_request \<Rightarrow> (string, cloud_answer) result"

definition cloud_ok :: "cloud_answer \<Rightarrow> bool" where
  "cloud_ok a \<longleftrightarrow> 200 \<le> caStatus a \<and> caStatus a < 300"

definition cloud_failed :: "string \<Rightarrow> nat \<Rightarrow> cloud_answer \<Rightarrow> string" where
  "cloud_failed what n a = ''pyannoteAI '' @ what @ '' '' @ show_int (caStatus a) @ '': '' @ take n (caText a)"

type_synonym turn_row = "rat option \<times> rat option \<times> string option"

text \<open>A job's report; the rows of an output that is no object are \<^verbatim>\<open>None\<close>. \<^verbatim>\<open>Some None\<close> is an error that is null.\<close>

record job_report =
  jrStatus :: "string option"
  jrExclusive :: "turn_row list option"
  jrPlain :: "turn_row list option"
  jrError :: "string option option"

record cloud_reader =
  crUrl :: "string \<Rightarrow> (string, string option) result"
  crJob :: "string \<Rightarrow> (string, string option) result"
  crReport :: "string \<Rightarrow> (string, job_report) result"

definition checkPyannoteCloudAvailable :: "cloud_send \<Rightarrow> string \<Rightarrow> (string, unit) result" where
  "checkPyannoteCloudAvailable send apiKey =
     (let key = js_trim apiKey
      in if key = [] then Inl ''PYANNOTE_API_KEY missing''
         else (case send key TestKey of
                 Inl e \<Rightarrow> Inl e
               | Inr a \<Rightarrow> if cloud_ok a then Inr () else Inl (cloud_failed ''test'' 200 a)))"

definition createMediaInput :: "cloud_send \<Rightarrow> cloud_reader \<Rightarrow> string \<Rightarrow> string \<Rightarrow> (string, string) result" where
  "createMediaInput send rd key objectKey =
     (case send key (MediaInput (''media://'' @ objectKey)) of
        Inl e \<Rightarrow> Inl e
      | Inr a \<Rightarrow>
          if \<not> cloud_ok a then Inl (cloud_failed ''media/input'' 400 a)
          else (case crUrl rd (caText a) of
                  Inl e \<Rightarrow> Inl e
                | Inr u \<Rightarrow> if or_empty u = [] then Inl ''pyannoteAI media/input returned no upload URL'' else Inr (or_empty u)))"

text \<open>The upload goes to the address the service gave, without the key; \<^verbatim>\<open>recording\<close> is the read of the recording.\<close>

definition putMedia :: "cloud_send \<Rightarrow> (string, unit) result \<Rightarrow> string \<Rightarrow> (string, unit) result" where
  "putMedia send recording url =
     (case recording of
        Inl e \<Rightarrow> Inl e
      | Inr _ \<Rightarrow>
          (case send [] (PutMedia url) of
             Inl e \<Rightarrow> Inl e
           | Inr a \<Rightarrow> if cloud_ok a then Inr () else Inl (cloud_failed ''media upload'' 400 a)))"

definition submitDiarizeJob ::
    "cloud_send \<Rightarrow> cloud_reader \<Rightarrow> string \<Rightarrow> string \<Rightarrow> cloud_model \<Rightarrow> js_num option \<Rightarrow> js_num option \<Rightarrow> (string, string) result" where
  "submitDiarizeJob send rd key mediaUrl model lo hi =
     (case send key (SubmitJob mediaUrl model (speaker_count_of lo hi)) of
        Inl e \<Rightarrow> Inl e
      | Inr a \<Rightarrow>
          if \<not> cloud_ok a then Inl (cloud_failed ''diarize'' 400 a)
          else (case crJob rd (caText a) of
                  Inl e \<Rightarrow> Inl e
                | Inr j \<Rightarrow> if or_empty j = [] then Inl ''pyannoteAI diarize returned no jobId'' else Inr (or_empty j)))"

definition parseTurns :: "job_report \<Rightarrow> turn list" where
  "parseTurns r =
     (let rows = (case jrExclusive r of Some x \<Rightarrow> x | None \<Rightarrow> or_default [] (jrPlain r))
      in runDiarization (map (\<lambda>(a, b, s). (a, b, or_default ''SPEAKER_00'' s)) rows))"

definition job_failure :: "job_report \<Rightarrow> string \<Rightarrow> string" where
  "job_failure r status = ''pyannoteAI job '' @ (case jrError r of None \<Rightarrow> status | Some e \<Rightarrow> or_default status e)"

text \<open>One look at the job: \<^verbatim>\<open>None\<close> when it is still running.\<close>

definition look_at_job :: "cloud_reader \<Rightarrow> (string, cloud_answer) result \<Rightarrow> (string, turn list) result option" where
  "look_at_job rd answer =
     (case answer of
        Inl e \<Rightarrow> Some (Inl e)
      | Inr a \<Rightarrow>
          if \<not> cloud_ok a then Some (Inl (cloud_failed ''job'' 400 a))
          else (case crReport rd (caText a) of
                  Inl e \<Rightarrow> Some (Inl e)
                | Inr r \<Rightarrow>
                    (let status = or_empty (jrStatus r)
                     in if status = ''succeeded''
                        then Some (if parseTurns r = []
                                   then Inl ''pyannoteAI job succeeded but returned no diarization segments'' else Inr (parseTurns r))
                        else if status = ''failed'' \<or> status = ''canceled'' then Some (Inl (job_failure r status))
                        else None)))"

definition next_delay :: "int \<Rightarrow> int" where
  "next_delay d = min 10000 (js_round (of_int d * (135 / 100)))"

definition poll_timeout :: int where
  "poll_timeout = 30 * 60000"

definition timed_out :: string where
  "timed_out = ''pyannoteAI job timed out after 1800s''"

text \<open>
  The loop over the looks: the time since the start at each test of the limit, with the answer it would get. \<^verbatim>\<open>None\<close> is a loop still
  running when the looks end.
\<close>

fun pollJob :: "cloud_reader \<Rightarrow> (int \<times> (string, cloud_answer) result) list \<Rightarrow> (string, turn list) result option" where
  "pollJob rd [] = None"
| "pollJob rd ((elapsed, answer) # looks) =
     (if elapsed < poll_timeout
      then (case look_at_job rd answer of Some r \<Rightarrow> Some r | None \<Rightarrow> pollJob rd looks)
      else Some (Inl timed_out))"

text \<open>A timer waits at least as long as it was set for.\<close>

fun waits_between :: "int \<Rightarrow> int \<Rightarrow> (int \<times> 'a) list \<Rightarrow> bool" where
  "waits_between earliest delay [] = True"
| "waits_between earliest delay ((t, _) # looks) = (earliest \<le> t \<and> waits_between (t + delay) (next_delay delay) looks)"

definition safe_char :: "char \<Rightarrow> bool" where
  "safe_char c \<longleftrightarrow> is_lower c \<or> is_upper c \<or> is_digit c \<or> c \<in> set ''._-''"

definition object_key :: "int \<Rightarrow> string \<Rightarrow> string \<Rightarrow> string" where
  "object_key now uuid audioPath = ''modelforge/'' @ show_int now @ ''-'' @ take 8 uuid @ ''-''
     @ take 80 (map (\<lambda>c. if safe_char c then c else CHR ''_'') (basename audioPath))"

record cloud_run =
  clSend :: cloud_send
  clReader :: cloud_reader
  clRecording :: "(string, unit) result"
  clLooks :: "(int \<times> (string, cloud_answer) result) list"

definition runPyannoteCloudDiarization ::
    "cloud_run \<Rightarrow> string \<Rightarrow> string \<Rightarrow> string option \<Rightarrow> js_num option \<Rightarrow> js_num option \<Rightarrow> (string, turn list) result option" where
  "runPyannoteCloudDiarization c apiKey objectKey model lo hi =
     (let key = js_trim apiKey
      in if key = [] then Some (Inl ''PYANNOTE_API_KEY is required for cloud diarization'')
         else
           (case createMediaInput (clSend c) (clReader c) key objectKey of
              Inl e \<Rightarrow> Some (Inl e)
            | Inr url \<Rightarrow>
                (case putMedia (clSend c) (clRecording c) url of
                   Inl e \<Rightarrow> Some (Inl e)
                 | Inr _ \<Rightarrow>
                     (case submitDiarizeJob (clSend c) (clReader c) key (''media://'' @ objectKey)
                             (resolvePyannoteCloudModel model) lo hi of
                        Inl e \<Rightarrow> Some (Inl e)
                      | Inr _ \<Rightarrow> pollJob (clReader c) (clLooks c)))))"

subsection \<open>The local script\<close>

definition parseJsonLine :: "(string \<Rightarrow> (string, 'a) result) \<Rightarrow> string \<Rightarrow> string \<Rightarrow> (string, 'a) result" where
  "parseJsonLine rd out err =
     (let ls = filter (starts_with ''{'') (map js_trim (crlf_lines out @ crlf_lines err))
      in if ls = [] then Inl ''Empty diarization output'' else rd (last ls))"

text \<open>The report of the script; \<^verbatim>\<open>dsOk\<close> is false only for \<^verbatim>\<open>ok: false\<close>.\<close>

record script_report =
  dsOk :: bool
  dsError :: "string option"
  dsTurns :: "(rat option \<times> rat option \<times> string) list option"

definition script_turns :: "(string \<Rightarrow> (string, script_report) result) \<Rightarrow> (string, string \<times> string) result \<Rightarrow> (string, turn list) result" where
  "script_turns rd run =
     (case run of
        Inl e \<Rightarrow> Inl e
      | Inr (out, err) \<Rightarrow>
          (case parseJsonLine rd out err of
             Inl e \<Rightarrow> Inl e
           | Inr p \<Rightarrow> if \<not> dsOk p then Inl (or_default ''Diarization failed'' (dsError p))
                      else Inr (runDiarization (or_default [] (dsTurns p)))))"

definition script_args :: "full_diarization \<Rightarrow> (js_num \<Rightarrow> string) \<Rightarrow> string \<Rightarrow> string list" where
  "script_args cfg show_num audioPath =
     [dzScript cfg, ''--audio'', audioPath, ''--model'', dzModel cfg, ''--device'', dzDevice cfg]
     @ (case dzMinSpeakers cfg of None \<Rightarrow> [] | Some n \<Rightarrow> [''--min-speakers'', show_num n])
     @ (case dzMaxSpeakers cfg of None \<Rightarrow> [] | Some n \<Rightarrow> [''--max-speakers'', show_num n])"

definition diarize_recording ::
    "full_diarization \<Rightarrow> cloud_run \<Rightarrow> (string \<Rightarrow> (string, script_report) result) \<Rightarrow> (string list \<Rightarrow> (string, string \<times> string) result)
     \<Rightarrow> (js_num \<Rightarrow> string) \<Rightarrow> string \<Rightarrow> string \<Rightarrow> (string, turn list) result option" where
  "diarize_recording cfg c rd python show_num objectKey audioPath =
     (if dzBackend cfg = CloudBackend
      then runPyannoteCloudDiarization c (or_empty (dzApiKey cfg)) objectKey (Some (dzModel cfg))
             (dzMinSpeakers cfg) (dzMaxSpeakers cfg)
      else Some (script_turns rd (python (script_args cfg show_num audioPath))))"

end
