(* ===== verification/DiarizationProps.thy ===== *)
theory DiarizationProps
  imports Diarization
begin

text \<open>
  Diarization: the job is looked at for thirty minutes and at most nine hundred times, what it answers are turns of
  positive length, the object's name is safe, and a failure leaves the plain transcript.
\<close>

subsection \<open>Polling ends\<close>

lemma next_delay_least: "2000 \<le> d \<Longrightarrow> 2000 \<le> next_delay d"
proof -
  assume d: "2000 \<le> d"
  have "rat_of_int 2000 \<le> of_int d" using d by (simp only: of_int_le_iff)
  then have "rat_of_int 2000 \<le> of_int d * (135 / 100) + 1 / 2" by simp
  then have "2000 \<le> js_round (of_int d * (135 / 100))" unfolding js_round_def le_floor_iff by simp
  then show ?thesis by (simp add: next_delay_def)
qed

lemma waits_apart:
  assumes "waits_between earliest delay looks" "2000 \<le> delay" "i < length looks"
  shows "earliest + 2000 * int i \<le> fst (looks ! i)"
  using assms
proof (induction looks arbitrary: earliest delay i)
  case (Cons look looks)
  obtain t a where look: "look = (t, a)" by (cases look)
  show ?case
  proof (cases i)
    case 0
    then show ?thesis using Cons.prems look by simp
  next
    case (Suc j)
    have "t + delay + 2000 * int j \<le> fst (looks ! j)"
      using Cons.prems look Suc next_delay_least by (intro Cons.IH [of _ "next_delay delay"]) auto
    then show ?thesis using Suc Cons.prems look by simp
  qed
qed simp

lemma poll_ends:
  "elapsed \<ge> poll_timeout \<Longrightarrow> (elapsed, a) \<in> set looks \<Longrightarrow> pollJob rd looks \<noteq> None"
  by (induction looks) (auto split: option.split)

text \<open>The ninth hundred and first look, if it comes, is after the limit: the loop has an answer by then.\<close>

theorem polling_ends:
  assumes "waits_between 0 2000 looks" "900 < length looks"
  shows "pollJob rd looks \<noteq> None"
proof -
  have "poll_timeout \<le> fst (looks ! 900)"
    using waits_apart [OF assms(1), of 900] assms(2) by (simp add: poll_timeout_def)
  moreover have "looks ! 900 \<in> set looks" using assms(2) by simp
  ultimately show ?thesis using poll_ends [of "fst (looks ! 900)" "snd (looks ! 900)"] by simp
qed

subsection \<open>Turns\<close>

lemma script_turns_positive: "t \<in> set (runDiarization raw) \<Longrightarrow> tnStart t < tnEnd t"
  by (auto simp: runDiarization_def map_filter_def split: option.splits if_splits)

lemma poll_turns:
  "pollJob rd looks = Some (Inr turns) \<Longrightarrow> turns \<noteq> [] \<and> (\<forall>t \<in> set turns. tnStart t < tnEnd t)"
proof (induction looks)
  case (Cons look looks)
  obtain el a where look: "look = (el, a)" by (cases look)
  have "turns \<noteq> [] \<and> (\<forall>t \<in> set turns. tnStart t < tnEnd t)" if "look_at_job rd a = Some (Inr turns)"
    using that script_turns_positive
    by (auto simp: look_at_job_def parseTurns_def Let_def split: sum.splits if_splits)
  then show ?case using Cons look by (auto split: if_splits option.splits)
qed simp

theorem cloud_turns_sound:
  assumes "runPyannoteCloudDiarization c apiKey objectKey model lo hi = Some (Inr turns)"
  shows "turns \<noteq> [] \<and> (\<forall>t \<in> set turns. tnStart t < tnEnd t)"
  using assms poll_turns
  by (auto simp: runPyannoteCloudDiarization_def Let_def split: if_splits sum.splits)

subsection \<open>Requests\<close>

text \<open>The last part of the object's name has letters, digits and three marks only.\<close>

lemma object_name_safe:
  assumes "c \<in> set (drop (length (''modelforge/'' @ show_int now @ ''-'' @ take 8 uuid @ ''-'')) (object_key now uuid p))"
  shows "safe_char c"
proof -
  have "drop (length (''modelforge/'' @ show_int now @ ''-'' @ take 8 uuid @ ''-'')) (object_key now uuid p)
      = take 80 (map (\<lambda>c. if safe_char c then c else CHR ''_'') (basename p))"
    by (simp add: object_key_def)
  moreover have "safe_char (CHR ''_'')" by (simp add: safe_char_def)
  ultimately show ?thesis using assms by (auto dest: in_set_takeD split: if_splits)
qed

text \<open>Both limits equal and positive ask for exactly that many; a limit that is no number is sent on as it is.\<close>

lemma exact_speakers: "0 < q \<Longrightarrow> speaker_count_of (Some (Fin q)) (Some (Fin q)) = ExactSpeakers (Fin q)"
  by (simp add: speaker_count_of_def positive_num_def)

lemma unreadable_limit_sent:
  assumes "deMinSpeakers env = Some ''two''"
  shows "speaker_count_of (dzMinSpeakers (diarizationConfigFromEnv env)) None = SpeakerLimits (Some NaN) None"
proof -
  have "env_number (Some ''two'') = Some NaN"
    by (simp add: env_number_def ModelAdmin.js_number_def or_empty_def or_default_def decimal_number_def is_digit_def js_text_defs)
  then show ?thesis using assms by (simp add: diarizationConfigFromEnv_def Let_def speaker_count_of_def)
qed

text \<open>A backend that is misspelt is the cloud as soon as a key is there.\<close>

lemma misspelt_backend_uploads:
  assumes "deBackend env = Some ''on-host''" "deApiKey env = Some ''k''"
  shows "dzBackend (diarizationConfigFromEnv env) = CloudBackend"
proof -
  have "to_lower (js_trim ''on-host'') = ''on-host''" "js_trim ''k'' = ''k''"
    by (simp_all add: js_text_defs)
  then show ?thesis
    using assms by (simp add: diarizationConfigFromEnv_def resolveDiarizationBackend_def given_or_def
      trimmed_or_empty_def or_empty_def or_default_def Let_def)
qed

text \<open>A line of the error output that looks like an object is read instead of the result.\<close>

lemma stderr_line_wins:
  "parseJsonLine (\<lambda>l. Inr l) (''{ok}'' @ [newline]) (''{warning}'' @ [newline]) = Inr ''{warning}''"
  by code_simp

subsection \<open>With the transcription\<close>

definition raw_turns :: "turn list \<Rightarrow> (rat option \<times> rat option \<times> string) list" where
  "raw_turns ts = map (\<lambda>t. (Some (tnStart t), Some (tnEnd t), tnSpeaker t)) ts"

lemma raw_turns_read: "\<forall>t \<in> set ts. tnStart t < tnEnd t \<Longrightarrow> runDiarization (raw_turns ts) = ts"
  by (induction ts) (auto simp: raw_turns_def runDiarization_def map_filter_def)

text \<open>The transcription with the diarization of its configuration; \<^verbatim>\<open>None\<close> while the job is polled.\<close>

definition transcribe_recording ::
    "full_diarization \<Rightarrow> cloud_run \<Rightarrow> (string \<Rightarrow> (string, script_report) result) \<Rightarrow> (string list \<Rightarrow> (string, string \<times> string) result)
     \<Rightarrow> (js_num \<Rightarrow> string) \<Rightarrow> string \<Rightarrow> string \<Rightarrow> voice_run \<Rightarrow> string option \<Rightarrow> (string, artifact) result option" where
  "transcribe_recording cfg c rd python show_num obj audio run language =
     map_option (\<lambda>r. transcribeWithDiarization (run\<lparr>vrDiarized := map_sum id raw_turns r\<rparr>)
                       (diarization_config.truncate cfg) language)
       (diarize_recording cfg c rd python show_num obj audio)"

lemma whole_transcript_suffices:
  "vrWhole run = Inr p \<Longrightarrow> \<exists>a. transcribeWithDiarization run cfg language = Inr a"
  by (auto simp: transcribeWithDiarization_def Let_def split: sum.split prod.split if_splits)

lemma diarization_answers:
  assumes "waits_between 0 2000 (clLooks c)" and "900 < length (clLooks c)"
  shows "diarize_recording cfg c rd python show_num obj audio \<noteq> None"
  using polling_ends [OF assms, of "clReader c"]
  by (auto simp: diarize_recording_def runPyannoteCloudDiarization_def Let_def split: sum.split)


text \<open>A job that stays in the queue, looked at every ten seconds.\<close>

fun slow_looks :: "int \<Rightarrow> nat \<Rightarrow> (int \<times> (string, cloud_answer) result) list" where
  "slow_looks t 0 = []"
| "slow_looks t (Suc n) = (t, Inr \<lparr>caStatus = 200, caText = ''queued''\<rparr>) # slow_looks (t + 10000) n"

lemma slow_looks_length: "length (slow_looks t n) = n"
  by (induction n arbitrary: t) auto

lemma slow_looks_wait: "earliest \<le> t \<Longrightarrow> d \<le> 10000 \<Longrightarrow> waits_between earliest d (slow_looks t n)"
  by (induction n arbitrary: earliest t d) (auto simp: next_delay_def)

definition sample_voice :: voice_run where
  "sample_voice = \<lparr>vrStt = ''hf-space'',
     vrWhole = Inr \<lparr>arLanguage = ''bn'', arText = [97], arTextEn = None, arDialectHint = None, arDialectLabel = None,
       arSpeakerNames = [], arNames = [], arConfidence = None, arSegments = [], arProvider = ''hf-space'', arModel = ''m''\<rparr>,
     vrDiarized = Inl '''', vrAsr = (\<lambda>_. None), vrOrder = []\<rparr>"

definition sample_cloud :: cloud_run where
  "sample_cloud = \<lparr>clSend = (\<lambda>key r. Inr \<lparr>caStatus = 200, caText = ''j''\<rparr>),
     clReader = \<lparr>crUrl = (\<lambda>t. Inr (Some ''u'')), crJob = (\<lambda>t. Inr (Some ''j'')),
       crReport = (\<lambda>t. Inr \<lparr>jrStatus = Some t, jrExclusive = None, jrPlain = None, jrError = None\<rparr>)\<rparr>,
     clRecording = Inr (), clLooks = slow_looks 0 901\<rparr>"

definition sample_diarize_env :: diarize_env where
  "sample_diarize_env = \<lparr>deEnabled = Some ''true'', deBackend = Some ''cloud'', deMode = None, deModel = None, deCloudModel = None,
     deDevice = None, dePython = None, deScript = None, deMinSpeakers = None, deMaxSpeakers = None, deTurnPad = None,
     deConcurrency = None, deApiKey = Some ''k''\<rparr>"


text \<open>A failure leaves its mark on the transcript of the whole.\<close>

lemma cloud_failure_marked:
  assumes "dzEnabled cfg" and "diarize_recording cfg c rd python show_num obj audio = Some (Inl e)" and "vrWhole run = Inr p"
  shows "transcribe_recording cfg c rd python show_num obj audio run language
    = Some (Inr (p\<lparr>arProvider := arProvider p @ ''+diarize-failed''\<rparr>))"
  using assms by (simp add: transcribe_recording_def transcribeWithDiarization_def diarization_config.truncate_def)

end
