(* ===== verification/VoiceStatus.thy ===== *)
theory VoiceStatus
  imports Diarization
begin

text \<open>
  The voice status page and the sweep of old uploads (\<^verbatim>\<open>apps/gateway/src/lib/voice/index.ts\<close>): the probes of
  Python, of the recognisers and of the diarization with their caches, the readiness of the service, and
  the files the retention time removes. The processes and the file system are parameters.
\<close>

subsection \<open>Retention of uploads\<close>

text \<open>A directory entry; \<^verbatim>\<open>upTime\<close> is \<^verbatim>\<open>None\<close> when it cannot be read, \<^verbatim>\<open>upStuck\<close> says that removal fails.\<close>

record upload_entry =
  upName :: string
  upIsFile :: bool
  upTime :: "rat option"
  upStuck :: bool

text \<open>The hours are \<^verbatim>\<open>None\<close> when the environment's text is no number.\<close>

definition retention_ms :: "rat option \<Rightarrow> rat option" where
  "retention_ms hours = map_option (\<lambda>h. max 1 h * 60 * 60 * 1000) hours"

definition too_old :: "rat \<Rightarrow> rat option \<Rightarrow> upload_entry \<Rightarrow> bool" where
  "too_old now hours e \<longleftrightarrow> upIsFile e \<and> (case (upTime e, retention_ms hours) of
     (Some t, Some r) \<Rightarrow> t < now - r | _ \<Rightarrow> False)"

fun sweep :: "rat \<Rightarrow> rat option \<Rightarrow> upload_entry list \<Rightarrow> nat \<times> upload_entry list" where
  "sweep now hours [] = (0, [])"
| "sweep now hours (e # es) =
     (let (n, kept) = sweep now hours es
      in if too_old now hours e \<and> \<not> upStuck e then (Suc n, kept) else (n, e # kept))"

definition cleanupOldVoiceUploads :: "rat \<Rightarrow> rat option \<Rightarrow> upload_entry list option \<Rightarrow> nat \<times> upload_entry list option" where
  "cleanupOldVoiceUploads now hours dir =
     (case dir of None \<Rightarrow> (0, None) | Some es \<Rightarrow> map_prod id Some (sweep now hours es))"

subsection \<open>Cached probes\<close>

text \<open>
  A probe is kept per key for a minute; a request while a probe runs gets that probe's result. The start of a probe and its end
  are steps; \<^verbatim>\<open>Joined\<close> is the running probe.
\<close>

record 'p probe_cache =
  pcKept :: "string \<Rightarrow> ('p \<times> int) option"
  pcRunning :: "string option"

datatype 'p probe_answer = Kept 'p | Joined string | Started

definition probe_ttl :: int where
  "probe_ttl = 60000"

definition start_probe :: "string \<Rightarrow> int \<Rightarrow> 'p probe_cache \<Rightarrow> 'p probe_answer \<times> 'p probe_cache" where
  "start_probe key now c =
     (case pcKept c key of
        Some (p, t) \<Rightarrow>
          if now - t < probe_ttl then (Kept p, c)
          else (case pcRunning c of Some k \<Rightarrow> (Joined k, c) | None \<Rightarrow> (Started, c\<lparr>pcRunning := Some key\<rparr>))
      | None \<Rightarrow> (case pcRunning c of Some k \<Rightarrow> (Joined k, c) | None \<Rightarrow> (Started, c\<lparr>pcRunning := Some key\<rparr>)))"

text \<open>The end: the result is kept under the key of the probe; the time is the one the probe notes.\<close>

definition end_probe :: "'p \<Rightarrow> int \<Rightarrow> 'p probe_cache \<Rightarrow> 'p probe_cache" where
  "end_probe p checkedAt c =
     (case pcRunning c of
        None \<Rightarrow> c
      | Some key \<Rightarrow> c\<lparr>pcKept := (pcKept c)(key \<mapsto> (p, checkedAt)), pcRunning := None\<rparr>)"

record package_probe =
  ppWhisper :: bool
  ppNemo :: bool
  ppExecutable :: "string option"
  ppVersion :: "string option"
  ppNemoError :: "string option"

text \<open>What the NeMo script reports.\<close>

record nemo_report =
  nrAvailable :: bool
  nrError :: "string option"
  nrExecutable :: "string option"
  nrVersion :: "string option"

definition nemo_line :: "string \<Rightarrow> string \<Rightarrow> string option" where
  "nemo_line out err =
     (let ls = filter (\<lambda>l. starts_with ''{'' l \<and> includes_at ''nemoAvailable'' l) (map js_trim (crlf_lines out @ crlf_lines err))
      in if ls = [] then None else Some (last ls))"

text \<open>
  \<^verbatim>\<open>whisper_ok\<close> is the import of faster-whisper, \<^verbatim>\<open>script\<close> says that the NeMo script exists and \<^verbatim>\<open>run\<close> is its
  output or failure.
\<close>

definition probe_packages ::
    "(string \<Rightarrow> (string, nemo_report) result) \<Rightarrow> bool \<Rightarrow> bool \<Rightarrow> (string, string \<times> string) result \<Rightarrow> package_probe" where
  "probe_packages rd whisper_ok script run =
     (let base = \<lparr>ppWhisper = whisper_ok, ppNemo = False, ppExecutable = None, ppVersion = None, ppNemoError = None\<rparr>
      in if \<not> script then base
         else (case run of
                 Inl e \<Rightarrow> base\<lparr>ppNemoError := Some e\<rparr>
               | Inr (out, err) \<Rightarrow>
                   (case nemo_line out err of
                      None \<Rightarrow> base
                    | Some l \<Rightarrow>
                        (case rd l of
                           Inl e \<Rightarrow> base\<lparr>ppNemoError := Some e\<rparr>
                         | Inr r \<Rightarrow> base\<lparr>ppNemo := nrAvailable r, ppExecutable := nrExecutable r, ppVersion := nrVersion r,
                             ppNemoError := (if nrAvailable r \<or> or_empty (nrError r) = [] then None else nrError r)\<rparr>))))"

subsection \<open>The status\<close>

text \<open>What the page asks of its surroundings, after the caches.\<close>

record voice_probes =
  vpSpace :: "(string, unit) result"
  vpPython :: "(string, string) result"
  vpPackages :: package_probe
  vpCloud :: "(string, unit) result"
  vpLocal :: "bool \<times> string option"
  vpScript :: bool
  vpDiarizeScript :: bool
  vpHubToken :: bool
  vpCached :: "stt_provider \<Rightarrow> string \<Rightarrow> bool"

record catalog_entry =
  ceId :: string
  ceCached :: bool
  ceActive :: bool

record diarize_status =
  dsAvailable :: bool
  dsErr :: "string option"

record voice_page =
  vsProvider :: stt_provider
  vsModel :: string
  vsLanguage :: string
  vsCached :: bool
  vsModels :: "catalog_entry list"
  vsProviders :: "(stt_provider \<times> bool) list"
  vsInstall :: "voice_job option"
  vsPythonBin :: string
  vsPythonOk :: bool
  vsPythonVersion :: "string option"
  vsDiarize :: diarize_status
  vsReady :: bool
  vsError :: "string option"

definition diarize_status_of :: "full_diarization \<Rightarrow> voice_probes \<Rightarrow> diarize_status" where
  "diarize_status_of cfg v =
     (if \<not> dzEnabled cfg then \<lparr>dsAvailable = False, dsErr = None\<rparr>
      else if dzBackend cfg = CloudBackend
      then (case vpCloud v of
              Inr _ \<Rightarrow> \<lparr>dsAvailable = True, dsErr = None\<rparr>
            | Inl e \<Rightarrow> \<lparr>dsAvailable = False, dsErr = Some e\<rparr>)
      else if vpDiarizeScript v
      then (if \<not> fst (vpLocal v)
            then \<lparr>dsAvailable = False, dsErr = Some (or_default
              ''pyannote.audio not installed - pip install pyannote.audio (accept HF model terms + set HF_TOKEN)'' (snd (vpLocal v)))\<rparr>
            else \<lparr>dsAvailable = True, dsErr = (if vpHubToken v then None
              else Some ''HF_TOKEN missing - create a Hugging Face token and accept pyannote/speaker-diarization-community-1 terms'')\<rparr>)
      else \<lparr>dsAvailable = False, dsErr = Some (''Diarization script missing: '' @ dzScript cfg)\<rparr>)"

definition space_up :: "voice_probes \<Rightarrow> bool" where
  "space_up v = (case vpSpace v of Inl _ \<Rightarrow> False | Inr _ \<Rightarrow> True)"

definition provider_list :: "bool \<Rightarrow> bool \<Rightarrow> bool \<Rightarrow> (stt_provider \<times> bool) list" where
  "provider_list whisper nemo space = [(FasterWhisper, whisper), (Nemo, nemo), (HfSpace, space)]"

definition model_cached :: "voice_probes \<Rightarrow> stt_provider \<Rightarrow> string \<Rightarrow> bool" where
  "model_cached v p m = (if p = HfSpace then space_up v else vpCached v p m)"

definition catalog_status :: "voice_probes \<Rightarrow> stt_provider \<Rightarrow> string \<Rightarrow> catalog_entry list" where
  "catalog_status v p active =
     map (\<lambda>i. \<lparr>ceId = i, ceCached = model_cached v p i, ceActive = (i = active)\<rparr>) (catalogForProvider p)"

definition status_language :: "stt_defaults \<Rightarrow> string option \<Rightarrow> string" where
  "status_language env configured =
     (if sdProvider env = Nemo \<or> sdProvider env = HfSpace then ''bn''
      else or_default ''auto'' (resolveSttLanguageHint configured (active_stt_model env)))"

text \<open>
  The page, from the resolved environment. The error of a missing Python is returned before the models are
  listed; the long dashes of the messages are hyphens here.
\<close>

definition blank_status :: "stt_defaults \<Rightarrow> string option \<Rightarrow> string \<Rightarrow> voice_job option \<Rightarrow> voice_page" where
  "blank_status env lang bin install =
     \<lparr>vsProvider = sdProvider env, vsModel = active_stt_model env, vsLanguage = status_language env lang,
      vsCached = False, vsModels = [], vsProviders = [], vsInstall = install, vsPythonBin = bin, vsPythonOk = False,
      vsPythonVersion = None, vsDiarize = \<lparr>dsAvailable = False, dsErr = None\<rparr>, vsReady = False, vsError = None\<rparr>"

definition space_status :: "bool \<Rightarrow> full_diarization \<Rightarrow> voice_probes \<Rightarrow> voice_page \<Rightarrow> voice_page" where
  "space_status enabled cfg v s =
     s\<lparr>vsPythonOk := True, vsPythonVersion := Some ''n/a (remote Space)'',
       vsProviders := provider_list False False (space_up v), vsDiarize := diarize_status_of cfg v,
       vsModels := catalog_status v HfSpace (vsModel s), vsCached := space_up v,
       vsReady := (enabled \<and> space_up v \<and> space_up v),
       vsError := (if enabled then (case vpSpace v of Inl e \<Rightarrow> Some e | Inr _ \<Rightarrow> vsError s) else vsError s)\<rparr>"

definition probe_error :: "voice_probes \<Rightarrow> stt_provider \<Rightarrow> string \<Rightarrow> string option" where
  "probe_error v p bin =
     (let pk = vpPackages v
      in if \<not> ppNemo pk \<and> or_empty (ppNemoError pk) \<noteq> [] \<and> p = Nemo
         then Some (''NeMo check failed ('' @ or_default bin (ppExecutable pk) @ ''): '' @ or_empty (ppNemoError pk)) else None)"

definition python_name :: "voice_probes \<Rightarrow> string \<Rightarrow> string" where
  "python_name v bin = (if or_empty (ppExecutable (vpPackages v)) \<noteq> [] then or_empty (ppExecutable (vpPackages v)) else bin)"

definition python_version :: "voice_probes \<Rightarrow> string \<Rightarrow> string" where
  "python_version v ver = (if or_empty (ppVersion (vpPackages v)) \<noteq> []
     then ''Python '' @ or_empty (ppVersion (vpPackages v)) else or_text (js_trim ver) ''Python available'')"

definition package_ok :: "voice_probes \<Rightarrow> stt_provider \<Rightarrow> bool" where
  "package_ok v p = (if p = Nemo then ppNemo (vpPackages v) else ppWhisper (vpPackages v))"

definition local_error :: "bool \<Rightarrow> voice_probes \<Rightarrow> voice_page \<Rightarrow> string option \<Rightarrow> string option" where
  "local_error enabled v s e =
     (if \<not> enabled then e
      else if \<not> vpScript v \<or> \<not> package_ok v (vsProvider s)
      then Some (or_default (if vsProvider s = Nemo
             then ''NeMo ASR not ready - install with: pip install 'nemo_toolkit[asr]' (and ffmpeg)''
             else ''faster-whisper unavailable'') e)
      else if \<not> vpCached v (vsProvider s) (vsModel s)
      then Some (''STT model \"'' @ vsModel s @ ''\" is not downloaded yet - use Install below'')
      else e)"

definition local_status :: "bool \<Rightarrow> full_diarization \<Rightarrow> voice_probes \<Rightarrow> voice_page \<Rightarrow> string \<Rightarrow> voice_page" where
  "local_status enabled cfg v s ver =
     s\<lparr>vsPythonOk := True, vsPythonBin := python_name v (vsPythonBin s), vsPythonVersion := Some (python_version v ver),
       vsProviders := provider_list (ppWhisper (vpPackages v)) (ppNemo (vpPackages v)) (space_up v),
       vsDiarize := diarize_status_of cfg v,
       vsModels := catalog_status v (vsProvider s) (vsModel s), vsCached := vpCached v (vsProvider s) (vsModel s),
       vsReady := (enabled \<and> vpScript v \<and> package_ok v (vsProvider s) \<and> vpCached v (vsProvider s) (vsModel s)),
       vsError := local_error enabled v s (probe_error v (vsProvider s) (vsPythonBin s))\<rparr>"

definition probeVoiceStatus ::
    "bool \<Rightarrow> full_diarization \<Rightarrow> voice_probes \<Rightarrow> string option \<Rightarrow> stt_defaults \<Rightarrow> string option \<Rightarrow> string \<Rightarrow> voice_job option \<Rightarrow> voice_page" where
  "probeVoiceStatus enabled cfg v selection env lang bin install =
     (let env' = resolveVoiceEnv selection env; s = blank_status env' lang bin install
      in if sdProvider env' = HfSpace then space_status enabled cfg v s
         else (case vpPython v of
                 Inl e \<Rightarrow> s\<lparr>vsError := Some e, vsProviders := provider_list False False (space_up v)\<rparr>
               | Inr ver \<Rightarrow> local_status enabled cfg v s ver))"

definition getActiveVoiceModelInstall :: "voice_world \<Rightarrow> voice_job option" where
  "getActiveVoiceModelInstall w = Option.bind (vwActive w) (\<lambda>i. table_find vjId i (vwJobs w))"

subsection \<open>What it shows\<close>

text \<open>The sweep removes exactly the old files it can, and says how many.\<close>

theorem sweep_removes_old:
  "snd (sweep now hours es) = filter (\<lambda>e. \<not> (too_old now hours e \<and> \<not> upStuck e)) es
   \<and> fst (sweep now hours es) + length (snd (sweep now hours es)) = length es"
  by (induction es) (auto simp: case_prod_beta)

text \<open>Nothing younger than an hour is removed, and a time that is no number keeps every recording for ever.\<close>

lemma young_upload_kept:
  assumes "e \<in> set es" "upTime e = Some t" "now - 3600000 \<le> t"
  shows "e \<in> set (snd (sweep now hours es))"
proof -
  have "\<not> too_old now hours e"
  proof (cases hours)
    case (Some h)
    have "1 \<le> max 1 h" by simp
    then have "now - 3600000 * max 1 h \<le> t" using assms(3) by linarith
    then show ?thesis using assms(2) Some by (simp add: too_old_def retention_ms_def not_less)
  qed (simp add: too_old_def retention_ms_def split: option.split)
  then show ?thesis using assms(1) sweep_removes_old [of now hours es] by auto
qed

lemma unreadable_retention_keeps_all: "sweep now None es = (0, es)"
  by (induction es) (auto simp: too_old_def retention_ms_def split: option.splits)

text \<open>A probe that is kept is younger than a minute; a probe that runs answers for every key.\<close>

lemma kept_probe_fresh:
  "start_probe key now c = (Kept p, c') \<Longrightarrow> \<exists>t. pcKept c key = Some (p, t) \<and> now - t < 60000 \<and> c' = c"
  by (auto simp: start_probe_def probe_ttl_def split: option.splits if_splits)

lemma running_probe_answers_other_key:
  "pcKept c k2 = None \<Longrightarrow> pcRunning c = Some k1 \<Longrightarrow> start_probe k2 now c = (Joined k1, c)"
  by (simp add: start_probe_def)

lemma probe_round:
  assumes "start_probe key now c = (Started, c')"
  shows "start_probe key later (end_probe p at1 c') = (if later - at1 < 60000 then (Kept p, end_probe p at1 c')
    else (Started, (end_probe p at1 c')\<lparr>pcRunning := Some key\<rparr>))"
  using assms by (auto simp: start_probe_def end_probe_def probe_ttl_def split: option.splits if_splits)

text \<open>
  When the service is switched on, the page shows an error exactly when it is not ready; ready means that the
  recogniser of the selection is there with its model.
\<close>

theorem ready_without_error:
  assumes "s = probeVoiceStatus True cfg v selection env lang bin install"
  shows "vsReady s \<longleftrightarrow> vsError s = None"
  using assms
  by (auto simp: probeVoiceStatus_def Let_def space_status_def local_status_def local_error_def probe_error_def
      blank_status_def space_up_def package_ok_def split: sum.splits if_splits)

theorem ready_has_recogniser:
  assumes "vsReady (probeVoiceStatus enabled cfg v selection env lang bin install)"
  shows "enabled \<and> (let e = resolveVoiceEnv selection env in
      if sdProvider e = HfSpace then space_up v
      else package_ok v (sdProvider e) \<and> vpScript v \<and> vpCached v (sdProvider e) (active_stt_model e))"
  using assms
  by (auto simp: probeVoiceStatus_def Let_def space_status_def local_status_def blank_status_def split: sum.splits if_splits)

text \<open>Switched off, the page still shows the error of a probe.\<close>

lemma off_shows_python_error:
  "sdProvider (resolveVoiceEnv selection env) \<noteq> HfSpace \<Longrightarrow> vpPython v = Inl e \<Longrightarrow>
   vsError (probeVoiceStatus False cfg v selection env lang bin install) = Some e"
  by (simp add: probeVoiceStatus_def Let_def)

text \<open>The active model is marked in the catalogue, and marked cached there exactly when the page says it is.\<close>

lemma catalog_agrees:
  assumes "s = probeVoiceStatus enabled cfg v selection env lang bin install" "x \<in> set (vsModels s)" "ceActive x"
  shows "ceId x = vsModel s \<and> ceCached x = vsCached s"
  using assms
  by (auto simp: probeVoiceStatus_def Let_def space_status_def local_status_def blank_status_def catalog_status_def
      model_cached_def split: sum.splits if_splits)

end
