(* ===== verification/HubCatalog.thy ===== *)
theory HubCatalog
  imports Weights Streaming "HOL-Library.AList"
begin

text \<open>
  The catalogue of the model hub (\<^verbatim>\<open>apps/gateway/src/lib/huggingFace.ts\<close>): the guarded request to
  the hub with its errors, the search, and the list of a repository's weight files with its five-minute
  cache. The hub is a parameter; its rows have the fields the code declares.
\<close>

subsection \<open>Requests\<close>

text \<open>A URL is its origin and its target.\<close>

datatype hub_target = DirectModel string | SearchModels string string | RepoFiles string

record hub_answer =
  haStatus :: int
  haText :: string

text \<open>\<^verbatim>\<open>Inl\<close> is a rejected \<^verbatim>\<open>fetch\<close>.\<close>

type_synonym hub_send = "hub_target \<Rightarrow> (string, hub_answer) result"

definition gatedAccessError :: "string option \<Rightarrow> int \<Rightarrow> string" where
  "gatedAccessError token status =
     (if trimmed_or_empty token = []
      then ''Repository is private or gated. Set HF_TOKEN in .env (read token) and restart the gateway.''
      else if status = 401
      then ''Repository is private or gated. HF_TOKEN was rejected (401). Create a read token at huggingface.co/settings/tokens and restart the gateway.''
      else ''Repository is private or gated. HF_TOKEN is set, but this account is not allowed (403). Open the model card, accept the license while logged in as the token owner, then retry. Fine-grained tokens need gated-repo read access.'')"

definition hf_origin :: string where
  "hf_origin = ''https://huggingface.co''"

definition hubFetch :: "hub_send \<Rightarrow> string option \<Rightarrow> string \<Rightarrow> hub_target \<Rightarrow> (string, string) result" where
  "hubFetch send token origin target =
     (if origin \<noteq> hf_origin then Inl ''Unsupported Hugging Face endpoint''
      else
        (case send target of
           Inl e \<Rightarrow> Inl e
         | Inr a \<Rightarrow>
             if 200 \<le> haStatus a \<and> haStatus a < 300 then Inr (haText a)
             else if haStatus a = 401 \<or> haStatus a = 403 then Inl (gatedAccessError token (haStatus a))
             else Inl (''Hugging Face returned '' @ show_int (haStatus a) @ '': '' @ take 300 (haText a))))"

subsection \<open>Models\<close>

record hub_row =
  hwId :: "string option"
  hwModelId :: "string option"
  hwAuthor :: "string option"
  hwDownloads :: "int option"
  hwLikes :: "int option"
  hwTags :: "string list option"
  hwGated :: "string option"
  hwPrivate :: "bool option"

record hub_model =
  hxId :: string
  hxAuthor :: string
  hxName :: string
  hxDownloads :: int
  hxLikes :: int
  hxLicense :: "string option"
  hxGated :: "string option"
  hxPrivate :: bool
  hxTags :: "string list"

text \<open>\<^verbatim>\<open>hwGated\<close> is the text of the flag, \<^verbatim>\<open>None\<close> for \<^verbatim>\<open>false\<close>.\<close>

definition mapHubModel :: "hub_row \<Rightarrow> hub_model option" where
  "mapHubModel row =
     (let i = (case hwId row of Some x \<Rightarrow> x | None \<Rightarrow> or_empty (hwModelId row));
          parts = split_on CHR ''/'' i; name = join ''/'' (tl parts); tags = (case hwTags row of None \<Rightarrow> [] | Some ts \<Rightarrow> ts)
      in if i = [] then None
         else Some \<lparr>hxId = i,
           hxAuthor = (case hwAuthor row of Some a \<Rightarrow> a | None \<Rightarrow> hd parts),
           hxName = (if name = [] then i else name),
           hxDownloads = (case hwDownloads row of None \<Rightarrow> 0 | Some n \<Rightarrow> n),
           hxLikes = (case hwLikes row of None \<Rightarrow> 0 | Some n \<Rightarrow> n),
           hxLicense = map_option (drop 8) (find (starts_with ''license:'') tags),
           hxGated = hwGated row, hxPrivate = (hwPrivate row = Some True), hxTags = take 20 tags\<rparr>)"

text \<open>The results by id: a later row replaces the value and keeps the place.\<close>

definition add_hub_model :: "hub_row \<Rightarrow> (string \<times> hub_model) list \<Rightarrow> (string \<times> hub_model) list" where
  "add_hub_model row byId = (case mapHubModel row of None \<Rightarrow> byId | Some m \<Rightarrow> AList.update (hxId m) m byId)"

text \<open>
  The limit is the number of the query, \<^verbatim>\<open>None\<close> for not a number, which the URL carries as text and which
  makes the final slice empty. \<^verbatim>\<open>read\<close> is \<^verbatim>\<open>JSON.parse\<close> of one model and of a list of them.
\<close>

definition search_cap :: "rat option \<Rightarrow> rat option" where
  "search_cap limit = map_option (\<lambda>l. min 50 (max 1 l)) limit"

definition cap_count :: "rat option \<Rightarrow> nat" where
  "cap_count cap = (case cap of None \<Rightarrow> 0 | Some l \<Rightarrow> nat \<lfloor>l\<rfloor>)"

record hub_reader =
  hqModel :: "string \<Rightarrow> (string, hub_row) result"
  hqModels :: "string \<Rightarrow> (string, hub_row list) result"
  hqNumber :: "rat option \<Rightarrow> string"

definition direct_hit :: "hub_send \<Rightarrow> hub_reader \<Rightarrow> string option \<Rightarrow> string \<Rightarrow> (string \<times> hub_model) list" where
  "direct_hit send rd token clean =
     (if \<not> repo_ok clean then []
      else
        (case hubFetch send token hf_origin (DirectModel clean) of
           Inl _ \<Rightarrow> []
         | Inr body \<Rightarrow> (case hqModel rd body of Inl _ \<Rightarrow> [] | Inr row \<Rightarrow> add_hub_model row [])))"

definition searchHuggingFaceModels ::
    "hub_send \<Rightarrow> hub_reader \<Rightarrow> string option \<Rightarrow> string \<Rightarrow> rat option \<Rightarrow> (string, hub_model list) result" where
  "searchHuggingFaceModels send rd token query limit =
     (let clean = take 200 (js_trim query); cap = search_cap limit
      in if length clean < 2 then Inr []
         else
           (case hubFetch send token hf_origin (SearchModels clean (hqNumber rd cap)) of
              Inl e \<Rightarrow> Inl e
            | Inr body \<Rightarrow>
                (case hqModels rd body of
                   Inl e \<Rightarrow> Inl e
                 | Inr rows \<Rightarrow>
                     Inr (take (cap_count cap) (map snd (fold add_hub_model rows (direct_hit send rd token clean)))))))"

subsection \<open>Files\<close>

record hub_sibling =
  hsName :: "string option"
  hsSize :: "int option"
  hsLfsSize :: "int option"
  hsLfsSha :: "string option"

record hub_repo =
  hoSha :: "string option"
  hoSiblings :: "hub_sibling list option"

record weight_file =
  wfPath :: string
  wfName :: string
  wfSize :: int
  wfSha :: "string option"
  wfQuant :: string
  wfShard :: "nat option"
  wfShards :: nat

definition shardInfo :: "string \<Rightarrow> nat option \<times> nat" where
  "shardInfo fileName =
     (case shard_suffix (strip_gguf fileName) of
        Some (_, a, b) \<Rightarrow> (Some (digits_number a), digits_number b)
      | None \<Rightarrow> (None, 1))"

text \<open>
  \<^verbatim>\<open>/(?:^|[._-])(IQ\d[A-Z0-9_]*|Q\d[A-Z0-9_]*|BF16|F16|F32)(?=[._-]|$)/i\<close>, searched from the left; \<^verbatim>\<open>fresh\<close> says that
  the position is the beginning of the name or follows a separator.
\<close>

definition quant_sep :: "char \<Rightarrow> bool" where
  "quant_sep c \<longleftrightarrow> c \<in> set ''._-''"

fun quant_scan :: "bool \<Rightarrow> string \<Rightarrow> string option" where
  "quant_scan fresh [] = None"
| "quant_scan fresh (c # s) =
     (case (if fresh then quant_here (c # s) else None) of
        Some n \<Rightarrow> Some (map upper_char (take n (c # s)))
      | None \<Rightarrow> quant_scan (quant_sep c) s)"

definition quantizationFromName :: "string \<Rightarrow> string" where
  "quantizationFromName fileName = (case quant_scan True fileName of None \<Rightarrow> ''unknown'' | Some q \<Rightarrow> q)"

definition weight_file_of :: "hub_sibling \<Rightarrow> (string, weight_file) result" where
  "weight_file_of f =
     map_sum id (\<lambda>p. let name = basename p; (i, n) = shardInfo name
         in \<lparr>wfPath = p, wfName = name,
             wfSize = (case hsLfsSize f of Some x \<Rightarrow> x | None \<Rightarrow> (case hsSize f of Some x \<Rightarrow> x | None \<Rightarrow> 0)),
             wfSha = hsLfsSha f, wfQuant = quantizationFromName name, wfShard = i, wfShards = n\<rparr>)
       (validateFilePath (or_empty (hsName f)))"

text \<open>\<^verbatim>\<open>map\<close> with a function that may throw: the first error ends it.\<close>

fun map_throwing :: "('a \<Rightarrow> ('e, 'b) result) \<Rightarrow> 'a list \<Rightarrow> ('e, 'b list) result" where
  "map_throwing f [] = Inr []"
| "map_throwing f (x # xs) =
     (case f x of
        Inl e \<Rightarrow> Inl e
      | Inr y \<Rightarrow> (case map_throwing f xs of Inl e \<Rightarrow> Inl e | Inr ys \<Rightarrow> Inr (y # ys)))"

definition file_order :: "(string \<Rightarrow> string \<Rightarrow> rat) \<Rightarrow> weight_file \<Rightarrow> weight_file \<Rightarrow> rat" where
  "file_order loc = then_cmp (\<lambda>a b. of_int (wfSize a) - of_int (wfSize b)) (\<lambda>a b. loc (wfName a) (wfName b))"

definition repo_weights :: "(string \<Rightarrow> string \<Rightarrow> rat) \<Rightarrow> hub_repo \<Rightarrow> (string, weight_file list) result" where
  "repo_weights loc repo =
     map_sum id (js_sort (file_order loc))
       (map_throwing weight_file_of
         (filter (\<lambda>f. ends_with ''.gguf'' (to_lower (or_empty (hsName f)))) (case hoSiblings repo of None \<Rightarrow> [] | Some xs \<Rightarrow> xs)))"

type_synonym manifest_cache = "string \<Rightarrow> (int \<times> string \<times> weight_file list) option"

definition fetch_manifest ::
    "hub_send \<Rightarrow> (string \<Rightarrow> (string, hub_repo) result) \<Rightarrow> (string \<Rightarrow> string \<Rightarrow> rat) \<Rightarrow> string option \<Rightarrow> int \<Rightarrow> string
     \<Rightarrow> manifest_cache \<Rightarrow> (string, string \<times> weight_file list) result \<times> manifest_cache" where
  "fetch_manifest send rd loc token now repoId cache =
     (case hubFetch send token hf_origin (RepoFiles repoId) of
        Inl e \<Rightarrow> (Inl e, cache)
      | Inr body \<Rightarrow>
          (case rd body of
             Inl e \<Rightarrow> (Inl e, cache)
           | Inr repo \<Rightarrow>
               (case repo_weights loc repo of
                  Inl e \<Rightarrow> (Inl e, cache)
                | Inr files \<Rightarrow>
                    (let v = (case hoSha repo of None \<Rightarrow> ''main'' | Some x \<Rightarrow> x, files)
                     in (Inr v, cache(repoId \<mapsto> (now + 5 * 60000, v)))))))"

definition listHuggingFaceGgufFiles ::
    "hub_send \<Rightarrow> (string \<Rightarrow> (string, hub_repo) result) \<Rightarrow> (string \<Rightarrow> string \<Rightarrow> rat) \<Rightarrow> string option \<Rightarrow> int \<Rightarrow> string
     \<Rightarrow> manifest_cache \<Rightarrow> (string, string \<times> weight_file list) result \<times> manifest_cache" where
  "listHuggingFaceGgufFiles send rd loc token now repoId cache =
     (case validateRepoId repoId of
        Inl e \<Rightarrow> (Inl e, cache)
      | Inr _ \<Rightarrow>
          (case cache repoId of
             Some (expires, v) \<Rightarrow> if expires > now then (Inr v, cache) else fetch_manifest send rd loc token now repoId cache
           | None \<Rightarrow> fetch_manifest send rd loc token now repoId cache))"

subsection \<open>What the catalogue shows\<close>

lemma map_throwing_in:
  "map_throwing f xs = Inr ys \<Longrightarrow> y \<in> set ys \<Longrightarrow> \<exists>x \<in> set xs. f x = Inr y"
  by (induction xs arbitrary: ys) (auto split: sum.splits)

definition safe_file :: "weight_file \<Rightarrow> bool" where
  "safe_file f \<longleftrightarrow> ends_with ''.gguf'' (to_lower (wfPath f)) \<and> \<not> starts_with ''/'' (wfPath f)
     \<and> ''..'' \<notin> set (split_on CHR ''/'' (wfPath f)) \<and> wfName f = basename (wfPath f)"

lemma validated_path:
  assumes "validateFilePath p = Inr q"
  shows "ends_with ''.gguf'' (to_lower q) \<and> \<not> starts_with ''/'' q \<and> ''..'' \<notin> set (split_on CHR ''/'' q)"
proof -
  obtain n where "n = map (\<lambda>c. if c = backslash then CHR ''/'' else c) p" by blast
  then have "(if \<not> ends_with ''.gguf'' (to_lower n) \<or> starts_with ''/'' n
      \<or> list_ex (\<lambda>part. part = ''..'' \<or> part = [] \<or> part = ''.'') (split_on (CHR ''/'') n)
    then Inl ''Only safe relative GGUF paths can be downloaded'' else Inr n) = Inr q"
    using assms unfolding validateFilePath_def Let_def by blast
  then have "n = q \<and> ends_with ''.gguf'' (to_lower n) \<and> \<not> starts_with ''/'' n
      \<and> \<not> list_ex (\<lambda>part. part = ''..'' \<or> part = [] \<or> part = ''.'') (split_on (CHR ''/'') n)"
    by (meson Inl_Inr_False Inr_inject)
  then show ?thesis unfolding list_ex_iff by blast
qed

lemma only_error: "(if c then Inl a else Inr b) = Inl e \<Longrightarrow> e = a"
  by (simp split: if_splits)

lemma validate_error: "validateFilePath p = Inl e \<Longrightarrow> e = ''Only safe relative GGUF paths can be downloaded''"
  unfolding validateFilePath_def Let_def by (rule only_error)

lemma weight_file_safe: "weight_file_of s = Inr f \<Longrightarrow> safe_file f"
  using validated_path
  by (cases "validateFilePath (or_empty (hsName s))") (auto simp: weight_file_of_def safe_file_def Let_def case_prod_beta)

text \<open>
  Every file of the list, fresh or cached, is a relative weight file without a step upwards, and a fresh list is ordered
  by size and name.
\<close>

definition cache_safe :: "manifest_cache \<Rightarrow> bool" where
  "cache_safe cache \<longleftrightarrow> (\<forall>repo t rev files. cache repo = Some (t, rev, files) \<longrightarrow> list_all safe_file files)"

lemma repo_weights_safe: "repo_weights loc repo = Inr files \<Longrightarrow> list_all safe_file files"
  by (auto simp: repo_weights_def map_sum_def list_all_iff split: sum.splits dest!: map_throwing_in dest: weight_file_safe)

lemma repo_weights_sorted:
  assumes "preorder_cmp loc" and "repo_weights loc repo = Inr files"
  shows "sorted_wrt (\<lambda>a b. file_order loc a b \<le> 0) files"
proof -
  have "preorder_cmp (\<lambda>a b. loc (wfName a) (wfName b))" using assms(1) unfolding preorder_cmp_def by blast
  then have "preorder_cmp (file_order loc)" unfolding file_order_def by (rule preorder_then_cmp)
  then show ?thesis using assms(2) by (auto simp: repo_weights_def map_sum_def sorted_js_sort split: sum.splits)
qed

lemma fetch_manifest_safe:
  assumes "cache_safe cache"
  shows "cache_safe (snd (fetch_manifest send rd loc token now repo cache))
    \<and> (\<forall>rev files. fst (fetch_manifest send rd loc token now repo cache) = Inr (rev, files) \<longrightarrow> list_all safe_file files)"
  using assms
  by (auto simp: fetch_manifest_def Let_def cache_safe_def repo_weights_safe split: sum.splits)

lemma listed_files_safe:
  assumes "cache_safe cache"
  shows "cache_safe (snd (listHuggingFaceGgufFiles send rd loc token now repo cache))
    \<and> (\<forall>rev files. fst (listHuggingFaceGgufFiles send rd loc token now repo cache) = Inr (rev, files) \<longrightarrow> list_all safe_file files)"
  using assms fetch_manifest_safe [OF assms, of send rd loc token now repo]
  by (auto simp: listHuggingFaceGgufFiles_def cache_safe_def split: sum.splits option.splits)

text \<open>Search results have distinct ids and are at most fifty; a limit that is no number shows none.\<close>

lemma byId_inv:
  assumes "distinct (map fst xs) \<and> (\<forall>(i, m) \<in> set xs. hxId m = i)"
  shows "distinct (map fst (add_hub_model row xs)) \<and> (\<forall>(i, m) \<in> set (add_hub_model row xs). hxId m = i)"
proof -
  have upd: "(a, b) \<in> set (AList.update k v ns) \<Longrightarrow> (a, b) = (k, v) \<or> (a, b) \<in> set ns" for a b k v and ns :: "(string \<times> hub_model) list"
    by (induction ns) (auto split: if_splits)
  show ?thesis
    using assms by (auto simp: add_hub_model_def distinct_update dest!: upd split: option.splits)
qed

lemma search_results_distinct:
  assumes "searchHuggingFaceModels send rd token query limit = Inr ms"
  shows "distinct (map hxId ms) \<and> length ms \<le> 50 \<and> (limit = None \<longrightarrow> ms = [])"
proof (cases "length (take 200 (js_trim query)) < 2")
  case True
  then show ?thesis using assms unfolding searchHuggingFaceModels_def Let_def if_P [OF True] by simp
next
  case False
  define ok where "ok = (\<lambda>xs :: (string \<times> hub_model) list. distinct (map fst xs) \<and> (\<forall>(i, m) \<in> set xs. hxId m = i))"
  have step: "ok xs \<Longrightarrow> ok (add_hub_model row xs)" for row xs unfolding ok_def by (rule byId_inv)
  have fold_ok: "ok xs \<Longrightarrow> ok (fold add_hub_model rows xs)" for rows xs
    by (induction rows arbitrary: xs) (simp_all add: step)
  have "ok (direct_hit send rd token q)" for q
    using step [of "[]"] by (auto simp: direct_hit_def ok_def split: sum.split)
  then obtain rows q where xs: "ok (fold add_hub_model rows (direct_hit send rd token q))"
    and ms: "ms = take (cap_count (search_cap limit)) (map snd (fold add_hub_model rows (direct_hit send rd token q)))"
    using assms fold_ok unfolding searchHuggingFaceModels_def Let_def if_not_P [OF False]
    by (auto simp del: take_map split: sum.splits)
  have ids: "map hxId (map snd xs) = map fst xs" if "ok xs" for xs
    using that by (auto simp: ok_def)
  have "map hxId ms = take (cap_count (search_cap limit)) (map fst (fold add_hub_model rows (direct_hit send rd token q)))"
    unfolding ms take_map [symmetric] ids [OF xs] ..
  then have "distinct (map hxId ms)" using xs by (simp add: ok_def)
  moreover have "cap_count (search_cap limit) \<le> 50"
  proof (cases limit)
    case (Some l)
    have "\<lfloor>min 50 (max 1 l)\<rfloor> \<le> \<lfloor>50 :: rat\<rfloor>" by (rule floor_mono) simp
    then have "nat \<lfloor>min 50 (max 1 l)\<rfloor> \<le> 50" unfolding floor_numeral by linarith
    then show ?thesis using Some by (simp add: cap_count_def search_cap_def)
  qed (simp add: cap_count_def search_cap_def)
  then have "length ms \<le> 50" unfolding ms by simp
  moreover have "limit = None \<longrightarrow> ms = []" by (simp add: ms cap_count_def search_cap_def)
  ultimately show ?thesis by blast
qed

text \<open>One file with an unsafe name makes the whole repository unlistable.\<close>

lemma unsafe_name_hides_repository:
  "repo_weights loc \<lparr>hoSha = None, hoSiblings = Some [\<lparr>hsName = Some ''a.gguf'', hsSize = None, hsLfsSize = None, hsLfsSha = None\<rparr>,
     \<lparr>hsName = Some ''x//b.gguf'', hsSize = None, hsLfsSize = None, hsLfsSha = None\<rparr>]\<rparr>
   = Inl ''Only safe relative GGUF paths can be downloaded''"
proof -
  have "weight_file_of \<lparr>hsName = Some ''x//b.gguf'', hsSize = None, hsLfsSize = None, hsLfsSha = None\<rparr>
      = Inl ''Only safe relative GGUF paths can be downloaded''"
    "ends_with ''.gguf'' (to_lower ''x//b.gguf'')" "ends_with ''.gguf'' (to_lower ''a.gguf'')"
    by code_simp+
  note b = this
  let ?a = "\<lparr>hsName = Some ''a.gguf'', hsSize = None, hsLfsSize = None, hsLfsSha = None\<rparr>"
  have "e = ''Only safe relative GGUF paths can be downloaded''" if "weight_file_of ?a = Inl e" for e
    using that validate_error by (cases "validateFilePath (or_empty (hsName ?a))") (simp_all add: weight_file_of_def)
  then show ?thesis
    using b by (cases "weight_file_of ?a") (simp_all add: repo_weights_def or_empty_def or_default_def)
qed

end
