(* ===== verification/PoolActions.thy ===== *)
theory PoolActions
  imports ModelAdmin VoiceSetup Accounts ChatWire
begin

text \<open>
  The administrator's infrastructure actions (\<^verbatim>\<open>app/(admin)/admin/infra/actions.ts\<close>): loading and unloading models,
  installing and activating speech models, the audit events they write and the text of
  the toast, which unwraps the error body of the gateway. Cache revalidation and elapsed
  times are left out.
\<close>

subsection \<open>The error shown\<close>

text \<open>The expression \<^verbatim>\<open>/^Gateway \d+: (.*)$/s\<close>.\<close>

definition gateway_body :: "string \<Rightarrow> string option" where
  "gateway_body msg =
     (let rest = drop 8 msg; after = dropWhile is_digit rest
      in if starts_with ''Gateway '' msg \<and> takeWhile is_digit rest \<noteq> [] \<and> starts_with '': '' after
         then Some (drop 2 after) else None)"

text \<open>
  \<^verbatim>\<open>describeError\<close> of an \<^verbatim>\<open>Error\<close>. Reading a property of \<^verbatim>\<open>null\<close> throws inside the \<^verbatim>\<open>try\<close>, whose handler
  shows the body as it is.
\<close>

definition describeError :: "string \<Rightarrow> string" where
  "describeError msg =
     (case gateway_body msg of
        None \<Rightarrow> msg
      | Some body \<Rightarrow>
          (case parse_json body of
             None \<Rightarrow> body
           | Some JNull \<Rightarrow> body
           | Some v \<Rightarrow>
               (case js_prop ''error'' (Some v) of
                  Some (JStr e) \<Rightarrow> e
                | e \<Rightarrow> (case js_prop ''message'' e of
                          None \<Rightarrow> body | Some JNull \<Rightarrow> body | Some (JStr m) \<Rightarrow> m | Some x \<Rightarrow> js_text x))))"

subsection \<open>Models of the pool\<close>

record pool_result =
  plOk :: bool
  plMessage :: string

definition admin_event :: "session_user \<Rightarrow> string \<Rightarrow> string \<Rightarrow> audit_event" where
  "admin_event admin action resource =
     \<lparr>aeActor = suId admin, aeCustomer = None, aeAction = action, aeResource = resource\<rparr>"

text \<open>\<^verbatim>\<open>Inl\<close> is the target of the redirect of \<^verbatim>\<open>requireAdmin\<close>; \<^verbatim>\<open>down\<close> is the error while the gateway cannot be reached.\<close>

definition loadModelAction ::
    "engine_env \<Rightarrow> world \<Rightarrow> string option \<Rightarrow> session_user option \<Rightarrow> string \<Rightarrow> admin_state \<times> audit_event list
     \<Rightarrow> (string, pool_result) result \<times> admin_state \<times> audit_event list" where
  "loadModelAction env w down session slug s =
     (case requireAdmin session of
        Inl target \<Rightarrow> (Inl target, s)
      | Inr admin \<Rightarrow>
          (let failed = (\<lambda>msg s'. (Inr \<lparr>plOk = False, plMessage = describeError msg\<rparr>, s',
                                 snd s @ [admin_event admin ''model.load.failed'' slug]))
           in case down of
                Some e \<Rightarrow> failed e (fst s)
              | None \<Rightarrow>
                  (case load_route env w slug (fst s) of
                     (Inl r, s') \<Rightarrow> failed (gateway_error r) s'
                   | (Inr r, s') \<Rightarrow>
                       (Inr \<lparr>plOk = lpSuccess r, plMessage = lpMessage r\<rparr>, s',
                        snd s @ [admin_event admin (if lpSuccess r then ''model.load'' else ''model.load.failed'') slug]))))"

definition unloadModelAction ::
    "engine_env \<Rightarrow> string option \<Rightarrow> session_user option \<Rightarrow> string \<Rightarrow> admin_state \<times> audit_event list
     \<Rightarrow> (string, pool_result) result \<times> admin_state \<times> audit_event list" where
  "unloadModelAction env down session slug s =
     (case requireAdmin session of
        Inl target \<Rightarrow> (Inl target, s)
      | Inr admin \<Rightarrow>
          (case down of
             Some e \<Rightarrow> (Inr \<lparr>plOk = False, plMessage = describeError e\<rparr>, fst s,
                        snd s @ [admin_event admin ''model.unload.failed'' slug])
           | None \<Rightarrow>
               (case unload_route env slug (fst s) of
                  ((ok, msg), s') \<Rightarrow>
                    (Inr \<lparr>plOk = ok, plMessage = msg\<rparr>, s',
                     snd s @ [admin_event admin (if ok then ''model.unload'' else ''model.unload.failed'') slug]))))"

subsection \<open>Speech models\<close>

record stt_result =
  srOk :: bool
  srMessage :: string
  srJob :: "string option"

text \<open>The failure body of the speech routes: \<^verbatim>\<open>{ "error": message }\<close>.\<close>

definition plain_error :: "string \<Rightarrow> string" where
  "plain_error msg = json_text (JObj [(''error'', JStr msg)])"

definition installWhisperModelAction ::
    "stt_defaults \<Rightarrow> string option \<Rightarrow> session_user option \<Rightarrow> string \<Rightarrow> string \<Rightarrow> stt_provider option \<Rightarrow> bool option
     \<Rightarrow> voice_world \<times> audit_event list \<Rightarrow> (string, stt_result) result \<times> voice_world \<times> audit_event list" where
  "installWhisperModelAction env down session newId model provider activate s =
     (case requireAdmin session of
        Inl target \<Rightarrow> (Inl target, s)
      | Inr admin \<Rightarrow>
          (let p = or_default FasterWhisper provider;
               failed = (\<lambda>msg s'. (Inr \<lparr>srOk = False, srMessage = describeError msg, srJob = None\<rparr>, s', snd s))
           in case down of
                Some e \<Rightarrow> failed e (fst s)
              | None \<Rightarrow>
                  (case install_route env newId (Some (provider_name p)) (Some model) (activate \<noteq> Some False) (fst s) of
                     (Inl (st, msg), s') \<Rightarrow> failed (gateway_error (st, plain_error msg)) s'
                   | (Inr i, s') \<Rightarrow>
                       (Inr \<lparr>srOk = True, srMessage = ''Started install for '' @ provider_name p @ '':'' @ model, srJob = Some i\<rparr>,
                        s', snd s @ [admin_event admin ''voice.model.install'' model]))))"

definition activateWhisperModelAction ::
    "stt_defaults \<Rightarrow> string option \<Rightarrow> session_user option \<Rightarrow> string \<Rightarrow> bool \<Rightarrow> string \<Rightarrow> stt_provider option
     \<Rightarrow> voice_world \<times> audit_event list \<Rightarrow> (string, stt_result) result \<times> voice_world \<times> audit_event list" where
  "activateWhisperModelAction env down session now disk_ok model provider s =
     (case requireAdmin session of
        Inl target \<Rightarrow> (Inl target, s)
      | Inr admin \<Rightarrow>
          (let p = or_default FasterWhisper provider;
               failed = (\<lambda>msg s'. (Inr \<lparr>srOk = False, srMessage = describeError msg, srJob = None\<rparr>, s', snd s))
           in case down of
                Some e \<Rightarrow> failed e (fst s)
              | None \<Rightarrow>
                  (case activate_route env now disk_ok (Some (provider_name p)) (Some model) (fst s) of
                     (Inl (st, msg), s') \<Rightarrow> failed (gateway_error (st, plain_error msg)) s'
                   | (Inr _, s') \<Rightarrow>
                       (Inr \<lparr>srOk = True, srMessage = ''Active STT set to '' @ provider_name p @ '':'' @ model, srJob = None\<rparr>,
                        s', snd s @ [admin_event admin ''voice.model.activate'' model]))))"

end
