(* ===== verification/HubRoutes.thy ===== *)
theory HubRoutes
  imports HubCatalog PoolActions
begin

text \<open>
  The administration of hub downloads through both services: the routes of the gateway
  (\<^verbatim>\<open>routes/internal.ts\<close>) over the download manager, \<^verbatim>\<open>gatewayFetch\<close> (\<^verbatim>\<open>apps/web/lib/gateway.ts\<close>), and the
  route of the web application (\<^verbatim>\<open>app/api/admin/huggingface/route.ts\<close>) with its session check and audit.
\<close>

subsection \<open>The gateway\<close>

text \<open>A reply is its status with the value or the text of its body.\<close>

datatype 'a gw_reply = HubReply int 'a | HubProblem int string

definition hub_error_body :: "string \<Rightarrow> string" where
  "hub_error_body e = ''{'' @ json_string ''error'' @ '':'' @ json_string e @ ''}''"

record download_body =
  dbRepo :: "string option"
  dbFile :: "string option"
  dbRegister :: bool
  dbRetry :: "string option"

definition hub_start_route :: "dl_env \<Rightarrow> string \<Rightarrow> download_body \<Rightarrow> dl_state \<Rightarrow> dl_job gw_reply \<times> dl_state" where
  "hub_start_route env newId b s =
     (if or_empty (dbRepo b) = [] \<or> or_empty (dbFile b) = []
      then (HubProblem 400 (hub_error_body ''repoId and filePath are required''), s)
      else (case startHuggingFaceDownload env newId (or_empty (dbRepo b)) (or_empty (dbFile b)) (dbRegister b) s of
              (Inl e, s') \<Rightarrow> (HubProblem 400 (hub_error_body e), s')
            | (Inr j, s') \<Rightarrow> (HubReply 202 j, s')))"

definition hub_retry_route :: "dl_env \<Rightarrow> string \<Rightarrow> dl_state \<Rightarrow> dl_job gw_reply \<times> dl_state" where
  "hub_retry_route env i s =
     (case retryHuggingFaceDownload env i s of
        (Inl e, s') \<Rightarrow> (HubProblem 400 (hub_error_body e), s')
      | (Inr j, s') \<Rightarrow> (HubReply 202 j, s'))"

definition hub_get_route :: "string \<Rightarrow> dl_state \<Rightarrow> dl_job gw_reply" where
  "hub_get_route i s =
     (case active_job i s of None \<Rightarrow> HubProblem 404 (hub_error_body ''Download not found'') | Some j \<Rightarrow> HubReply 200 j)"

definition outcome_body :: "bool \<Rightarrow> bool \<Rightarrow> string" where
  "outcome_body cancelled removed =
     (let b = (\<lambda>x. if x then ''true'' else ''false'')
      in ''{'' @ json_string ''cancelled'' @ '':'' @ b cancelled @ '','' @ json_string ''removed'' @ '':'' @ b removed @ ''}'')"

definition hub_delete_route :: "string \<Rightarrow> dl_state \<Rightarrow> (bool \<times> bool) gw_reply \<times> dl_state" where
  "hub_delete_route i s =
     (let (cancelled, s1) = cancelHuggingFaceDownload i s;
          (removed, s2) = (if cancelled then (False, s1) else removeHuggingFaceDownload i s1)
      in (if cancelled \<or> removed then HubReply 200 (cancelled, removed) else HubProblem 409 (outcome_body cancelled removed), s2))"

subsection \<open>The web application\<close>

text \<open>\<^verbatim>\<open>down\<close> is the error of a gateway that cannot be reached.\<close>

definition gatewayFetch :: "string option \<Rightarrow> 'a gw_reply \<times> 's \<Rightarrow> 's \<Rightarrow> (string, 'a) result \<times> 's" where
  "gatewayFetch down answer s =
     (case down of
        Some e \<Rightarrow> (Inl e, s)
      | None \<Rightarrow> (case fst answer of
                   HubReply st a \<Rightarrow> Inr a
                 | HubProblem st body \<Rightarrow> Inl (''Gateway '' @ show_int st @ '': '' @ body), snd answer))"

definition adminUser :: "session_user option \<Rightarrow> session_user option" where
  "adminUser s = (case s of None \<Rightarrow> None | Some u \<Rightarrow> if suRole u = ''ADMIN'' \<and> suId u \<noteq> [] then Some u else None)"

definition no_admin :: "'a gw_reply" where
  "no_admin = HubProblem 401 (hub_error_body ''Admin session required'')"

text \<open>\<^verbatim>\<open>Inl\<close> is a body that \<^verbatim>\<open>request.json\<close> rejects.\<close>

definition hub_post ::
    "dl_env \<Rightarrow> string option \<Rightarrow> string \<Rightarrow> session_user option \<Rightarrow> (string, download_body) result
     \<Rightarrow> dl_state \<times> audit_event list \<Rightarrow> dl_job gw_reply \<times> dl_state \<times> audit_event list" where
  "hub_post env down newId session body st =
     (case adminUser session of
        None \<Rightarrow> (no_admin, st)
      | Some admin \<Rightarrow>
          (case body of
             Inl e \<Rightarrow> (HubProblem 502 (hub_error_body e), st)
           | Inr b \<Rightarrow>
               (let retry = (or_empty (dbRetry b) \<noteq> []); s = fst st;
                    answer = (if retry then hub_retry_route env (or_empty (dbRetry b)) s else hub_start_route env newId b s)
                in case gatewayFetch down answer s of
                     (Inl e, s') \<Rightarrow> (HubProblem 502 (hub_error_body e), s', snd st)
                   | (Inr j, s') \<Rightarrow>
                       (HubReply 202 j, s', snd st @ [admin_event admin
                          (if retry then ''model.huggingface_download_retried'' else ''model.huggingface_download_started'') (dlId j)]))))"

definition hub_delete ::
    "string option \<Rightarrow> session_user option \<Rightarrow> string option \<Rightarrow> dl_state \<times> audit_event list
     \<Rightarrow> (bool \<times> bool) gw_reply \<times> dl_state \<times> audit_event list" where
  "hub_delete down session i st =
     (case adminUser session of
        None \<Rightarrow> (no_admin, st)
      | Some admin \<Rightarrow>
          if or_empty i = [] then (HubProblem 400 (hub_error_body ''id required''), st)
          else (case gatewayFetch down (hub_delete_route (or_empty i) (fst st)) (fst st) of
                  (Inl e, s') \<Rightarrow> (HubProblem 502 (hub_error_body e), s', snd st)
                | (Inr (cancelled, removed), s') \<Rightarrow>
                    (HubReply 200 (cancelled, removed), s', snd st @ [admin_event admin
                       (if removed then ''model.huggingface_download_history_removed'' else ''model.huggingface_download_cancelled'')
                       (or_empty i)])))"

subsection \<open>What the chain shows\<close>

lemma retry_error_keeps: "retryHuggingFaceDownload env i s = (Inl e, s') \<Longrightarrow> s' = s"
  by (auto simp: retryHuggingFaceDownload_def Let_def split: option.splits if_splits)

lemma start_error_keeps: "startHuggingFaceDownload env n repo f r s = (Inl e, s') \<Longrightarrow> s' = s"
  by (auto simp: startHuggingFaceDownload_def Let_def dest: retry_error_keeps split: sum.splits option.splits if_splits)

lemma delete_problem_keeps: "hub_delete_route i s = (HubProblem st b, s') \<Longrightarrow> s' = s"
  by (auto simp: hub_delete_route_def cancelHuggingFaceDownload_def removeHuggingFaceDownload_def Let_def
      split: option.splits if_splits)

lemma start_route_problem: "hub_start_route env n b s = (HubProblem st x, s') \<Longrightarrow> s' = s"
  by (auto simp: hub_start_route_def dest: start_error_keeps split: if_splits prod.splits sum.splits)

lemma retry_route_problem: "hub_retry_route env i s = (HubProblem st x, s') \<Longrightarrow> s' = s"
  by (auto simp: hub_retry_route_def dest: retry_error_keeps split: prod.splits sum.splits)

lemma fetched:
  assumes "gatewayFetch down (answer, s1) s = (r, s')" and "\<And>st b. answer = HubProblem st b \<Longrightarrow> s1 = s"
  shows "s' = s \<or> (\<exists>st a. answer = HubReply st a \<and> r = Inr a \<and> s' = s1)"
  using assms by (cases answer) (auto simp: gatewayFetch_def split: option.splits)

text \<open>
  The downloads change only for an administrator's request, and every change leaves one audit event that names the
  administrator.
\<close>

lemma admin_event_actor: "aeActor (admin_event u a r) = suId u"
  by (simp add: admin_event_def)

theorem hub_post_audited:
  assumes "hub_post env down newId session body (s, trail) = (r, s', trail')"
  shows "s' = s \<and> trail' = trail \<or> (\<exists>u e. session = Some u \<and> suRole u = ''ADMIN'' \<and> trail' = trail @ [e] \<and> aeActor e = suId u)"
proof (cases "adminUser session")
  case None
  then show ?thesis using assms by (simp add: hub_post_def)
next
  case (Some u)
  then have u: "session = Some u" "suRole u = ''ADMIN''" by (auto simp: adminUser_def split: option.splits if_splits)
  show ?thesis
  proof (cases body)
    case (Inl e)
    then show ?thesis using assms Some by (simp add: hub_post_def)
  next
    case (Inr b)
    define route where "route = (if or_empty (dbRetry b) \<noteq> [] then hub_retry_route env (or_empty (dbRetry b)) s else hub_start_route env newId b s)"
    obtain answer s1 where a: "route = (answer, s1)" by (cases route)
    have keep: "s1 = s" if "answer = HubProblem st x" for st x
      using that a start_route_problem retry_route_problem unfolding route_def by (auto split: if_splits)
    obtain q s2 where q: "gatewayFetch down (answer, s1) s = (q, s2)" by (cases "gatewayFetch down (answer, s1) s")
    note f = fetched [OF q keep]
    have "hub_post env down newId session body (s, trail) =
        (case (q, s2) of
           (Inl e, s') \<Rightarrow> (HubProblem 502 (hub_error_body e), s', trail)
         | (Inr j, s') \<Rightarrow> (HubReply 202 j, s', trail @ [admin_event u (if or_empty (dbRetry b) \<noteq> []
             then ''model.huggingface_download_retried'' else ''model.huggingface_download_started'') (dlId j)]))"
      using Some Inr q a unfolding route_def hub_post_def by (cases q) (simp_all add: Let_def)
    then show ?thesis using assms u f by (cases q) (auto simp: admin_event_actor)
  qed
qed

theorem hub_delete_audited:
  assumes "hub_delete down session i (s, trail) = (r, s', trail')"
  shows "s' = s \<and> trail' = trail \<or> (\<exists>u e. session = Some u \<and> suRole u = ''ADMIN'' \<and> trail' = trail @ [e] \<and> aeActor e = suId u)"
proof (cases "adminUser session")
  case None
  then show ?thesis using assms by (simp add: hub_delete_def)
next
  case (Some u)
  then have u: "session = Some u" "suRole u = ''ADMIN''" by (auto simp: adminUser_def split: option.splits if_splits)
  obtain answer s1 where a: "hub_delete_route (or_empty i) s = (answer, s1)" by (cases "hub_delete_route (or_empty i) s")
  have keep: "s1 = s" if "answer = HubProblem st x" for st x using that a delete_problem_keeps by blast
  obtain q s2 where q: "gatewayFetch down (answer, s1) s = (q, s2)" by (cases "gatewayFetch down (answer, s1) s")
  note f = fetched [OF q keep]
  show ?thesis
    using assms u f Some q a by (cases q) (auto simp: hub_delete_def admin_event_actor split: if_splits prod.splits)
qed

text \<open>A download that is neither active nor listed is a conflict at the gateway and a bad gateway at the web route.\<close>

lemma conflict_becomes_bad_gateway:
  assumes "adminUser session = Some u" "i \<noteq> []" "active_job i s = None"
  shows "\<exists>text. hub_delete None session (Some i) (s, trail) = (HubProblem 502 text, s, trail)"
  using assms
  by (simp add: hub_delete_def or_empty_def or_default_def hub_delete_route_def cancelHuggingFaceDownload_def
      removeHuggingFaceDownload_def gatewayFetch_def)

end
