(* ===== verification/RagProps.thy ===== *)
theory RagProps
  imports Rag "HOL-Library.Sublist"
begin

text \<open>
  Knowledge passages are complete, bounded and distinct: chunking loses no text, embeddings
  count every word, and ranking returns a short list of good passages without near-copies.
\<close>

abbreviation inked :: "utext \<Rightarrow> utext" where
  "inked s \<equiv> filter (\<lambda>c. \<not> u_space c) s"

lemma inked_dropWhile [simp]: "inked (dropWhile u_space s) = inked s"
  by (induction s) auto

lemma inked_trim [simp]: "inked (u_trim s) = inked s"
proof -
  have "inked (rev (dropWhile u_space (rev x))) = inked x" for x
    by (metis inked_dropWhile rev_filter rev_rev_ident)
  then show ?thesis by (simp add: u_trim_def)
qed

lemma sublist_trim: "sublist (u_trim s) s"
proof -
  have "suffix (dropWhile u_space s) s" by (rule suffix_dropWhile)
  moreover have "prefix (u_trim s) (dropWhile u_space s)"
    unfolding u_trim_def
    by (metis suffix_dropWhile suffix_to_prefix rev_rev_ident)
  ultimately show ?thesis
    by (meson prefix_imp_sublist sublist_order.order.trans suffix_imp_sublist)
qed

lemma length_trim: "length (u_trim s) \<le> length s"
  by (rule sublist_length_le [OF sublist_trim])

lemma sublist_slice: "sublist (u_slice a b s) s"
  unfolding u_slice_def by (meson sublist_drop sublist_order.order.trans sublist_take)

subsection \<open>Chunking\<close>

lemma chunk_at_sound:
  assumes "c \<in> set (chunk_at source m start)" and "0 < m" and "start < length source"
  shows "c \<noteq> [] \<and> length c \<le> m \<and> sublist c source"
proof -
  let ?e = "chunk_end source m start"
  have c: "c = u_trim (u_slice start ?e source)" "c \<noteq> []"
    using assms(1) by (auto simp: chunk_at_def Let_def split: if_splits)
  have "length (u_slice start ?e source) \<le> m"
    using chunk_end_bounds(2) [OF assms(2,3)] by (auto simp: u_slice_def)
  then have "length c \<le> m" using length_trim [of "u_slice start ?e source"] c(1) by simp
  moreover have "sublist c source"
    unfolding c(1) by (meson sublist_trim sublist_slice sublist_order.order.trans)
  ultimately show ?thesis using c(2) by simp
qed

lemma inked_chunk_at:
  "inked (concat (chunk_at source m start)) = inked (u_slice start (chunk_end source m start) source)"
proof -
  have "u_trim s = [] \<Longrightarrow> inked s = []" for s
    by (metis filter.simps(1) inked_trim)
  then show ?thesis by (simp add: chunk_at_def Let_def)
qed

lemma chunk_loop_sound:
  assumes "0 < m" and "c \<in> set (chunk_loop source m ov start)"
  shows "c \<noteq> [] \<and> length c \<le> m \<and> sublist c source"
  using assms
proof (induction source m ov start rule: chunk_loop.induct)
  case (1 source m ov start)
  show ?case
  proof (cases "start < length source")
    case True
    then show ?thesis
      using 1 chunk_at_sound [of c source m start]
      by (subst (asm) (2) chunk_loop.simps) (auto split: if_splits)
  qed (use "1.prems" in \<open>simp add: chunk_loop.simps\<close>)
qed

lemma inked_split:
  assumes "start \<le> e"
  shows "inked (drop start s) = inked (u_slice start e s) @ inked (drop e s)"
proof -
  have "drop start s = u_slice start e s @ drop e s"
    using assms by (metis append_take_drop_id drop_drop le_add_diff_inverse2 u_slice_def)
  then show ?thesis by (metis filter_append)
qed

lemma inked_step:
  assumes "0 < m" and "start < length source"
  shows "inked (drop start source)
    = inked (concat (chunk_at source m start)) @ inked (drop (chunk_end source m start) source)"
  unfolding inked_chunk_at
  using chunk_end_bounds(1) [OF assms] by (intro inked_split) simp

lemma next_start_le: "0 < m \<Longrightarrow> start < length source \<Longrightarrow>
    next_start source m ov start \<le> chunk_end source m start"
  by (simp add: next_start_def Let_def)

lemma chunk_loop_covers:
  assumes "0 < m"
  shows "subseq (inked (drop start source)) (inked (concat (chunk_loop source m ov start)))"
  using assms
proof (induction source m ov start rule: chunk_loop.induct)
  case (1 source m ov start)
  let ?e = "chunk_end source m start"
  let ?next = "next_start source m ov start"
  consider "\<not> start < length source" | "start < length source" "length source \<le> ?e"
    | "start < length source" "\<not> length source \<le> ?e"
    by blast
  then show ?case
  proof cases
    case 2
    then show ?thesis
      using inked_step [OF "1.prems" 2(1)] "1.prems" by (subst chunk_loop.simps) simp
  next
    case 3
    have IH: "subseq (inked (drop ?next source)) (inked (concat (chunk_loop source m ov ?next)))"
      using "1.IH" 3 "1.prems" by simp
    have "suffix (drop ?e source) (drop ?next source)"
      using next_start_le [OF "1.prems" 3(1), of ov]
      by (metis drop_drop le_add_diff_inverse2 suffix_drop)
    then have "subseq (inked (drop ?e source)) (inked (concat (chunk_loop source m ov ?next)))"
      using IH by (meson subseq_filter suffix_imp_subseq subseq_order.order_trans)
    moreover have "chunk_loop source m ov start = chunk_at source m start @ chunk_loop source m ov ?next"
      using 3 "1.prems" by (subst chunk_loop.simps) simp
    ultimately show ?thesis
      unfolding inked_step [OF "1.prems" 3(1)] by (simp add: list_emb_append_mono)
  qed simp
qed

lemma chunk_loop_exact:
  assumes "0 < m"
  shows "inked (concat (chunk_loop source m 0 start)) = inked (drop start source)"
  using assms
proof (induction source m "0 :: nat" start rule: chunk_loop.induct)
  case (1 source m start)
  show ?case
  proof (cases "start < length source")
    case True
    have "next_start source m 0 start = chunk_end source m start"
      by (simp add: next_start_def Let_def)
    then show ?thesis
      using "1.hyps" "1.prems" True inked_step [OF "1.prems" True]
      by (subst chunk_loop.simps) simp
  qed (use "1.prems" in \<open>simp add: chunk_loop.simps\<close>)
qed



subsection \<open>Embeddings\<close>

lemma sum_bump:
  "d < length v \<Longrightarrow> sum_list (bump d v) = Suc (sum_list v) \<and> length (bump d v) = length v"
  using elem_le_sum_list [of d v] by (simp add: bump_def sum_list_update)

lemma embed_counts:
  "length (simpleEmbed u t) = 64 \<and> sum_list (simpleEmbed u t) = length (tokenize u t)"
proof -
  have "length (fold (\<lambda>tok. bump (unat (hashToken tok) mod 64)) toks v) = length v
      \<and> sum_list (fold (\<lambda>tok. bump (unat (hashToken tok) mod 64)) toks v) = sum_list v + length toks"
    if "length v = 64" for toks v
    using that
  proof (induction toks arbitrary: v)
    case (Cons tok toks)
    have "unat (hashToken tok) mod 64 < length v" using Cons.prems by simp
    from sum_bump [OF this] show ?case using Cons by simp
  qed simp
  from this [of "replicate 64 0" "tokenize u t"] show ?thesis
    by (simp add: simpleEmbed_def sum_list_replicate)
qed

subsection \<open>Ranking\<close>

lemma diversify_sound:
  assumes "length picked < topK" and "sorted_wrt R (picked @ cs)"
    and "sorted_wrt (\<lambda>a b. \<not> near_duplicate u (paContent a) (paContent b)) picked"
  shows "sorted_wrt R (diversify u topK picked cs) \<and> length (diversify u topK picked cs) \<le> topK
    \<and> set (diversify u topK picked cs) \<subseteq> set picked \<union> set cs
    \<and> sorted_wrt (\<lambda>a b. \<not> near_duplicate u (paContent a) (paContent b)) (diversify u topK picked cs)"
  using assms
proof (induction u topK picked cs rule: diversify.induct)
  case (2 u topK picked c cs)
  have dropped: "sorted_wrt R (picked @ cs)" using "2.prems"(2) by (auto simp: sorted_wrt_append)
  show ?case
  proof (cases "list_ex (\<lambda>e. near_duplicate u (paContent e) (paContent c)) picked")
    case True
    then show ?thesis using "2.IH"(1) [OF True "2.prems"(1) dropped "2.prems"(3)] by auto
  next
    case False
    then have distinct: "sorted_wrt (\<lambda>a b. \<not> near_duplicate u (paContent a) (paContent b)) (picked @ [c])"
      using "2.prems"(3) by (auto simp: sorted_wrt_append list_ex_iff)
    show ?thesis
    proof (cases "length (picked @ [c]) \<ge> topK")
      case True
      then show ?thesis
        using False "2.prems" distinct by (auto simp: sorted_wrt_append)
    next
      case less: False
      have "sorted_wrt R ((picked @ [c]) @ cs)" using "2.prems"(2) by simp
      then show ?thesis
        using "2.IH"(2) [OF False less _ _ distinct] False less by auto
    qed
  qed
qed auto

text \<open>
  Ranking returns at most the asked number of passages (never more than 12), by descending
  score, each scored at least the threshold, each a stored chunk with its own score, and
  none a near-copy of an earlier one.
\<close>

theorem ranked_passages_sound:
  assumes "ps = rankChunks u sq query chunks (Some k) (Some least)"
  shows "length ps \<le> nat (max 1 (min k 12))
    \<and> sorted_wrt (\<lambda>a b. paScore b \<le> paScore a) ps
    \<and> (\<forall>p \<in> set ps. least \<le> paScore p \<and> paScore p = passage_score u sq query p
         \<and> (\<exists>c \<in> set chunks. p = c\<lparr>paScore := passage_score u sq query c\<rparr>))
    \<and> sorted_wrt (\<lambda>a b. \<not> near_duplicate u (paContent a) (paContent b)) ps"
proof -
  let ?s = "js_sort (\<lambda>l r. paScore r - paScore l) (filter (\<lambda>p. paScore p \<ge> least)
              (map (\<lambda>p. p\<lparr>paScore := passage_score u sq query p\<rparr>) chunks))"
  let ?k = "nat (max 1 (min k 12))"
  have "preorder_cmp (\<lambda>l r. paScore r - paScore l)" by (auto simp: preorder_cmp_def)
  then have "sorted_wrt (\<lambda>a b. paScore b - paScore a \<le> 0) ?s" by (rule sorted_js_sort)
  then have sorted: "sorted_wrt (\<lambda>a b. paScore b \<le> paScore a) ([] @ ?s)" by simp
  have eq: "ps = diversify u ?k [] ?s"
    by (simp add: assms rankChunks_def diversifyChunks_def Let_def)
  have score: "passage_score u sq query (c\<lparr>paScore := x\<rparr>) = passage_score u sq query c" for c x
    by (cases "paEmbedding c") (simp_all add: passage_score_def)
  have res: "sorted_wrt (\<lambda>a b. paScore b \<le> paScore a) ps \<and> length ps \<le> ?k
    \<and> set ps \<subseteq> set [] \<union> set ?s
    \<and> sorted_wrt (\<lambda>a b. \<not> near_duplicate u (paContent a) (paContent b)) ps"
    unfolding eq by (rule diversify_sound) (use sorted in simp_all)
  then have "\<forall>p \<in> set ps. least \<le> paScore p \<and> paScore p = passage_score u sq query p
         \<and> (\<exists>c \<in> set chunks. p = c\<lparr>paScore := passage_score u sq query c\<rparr>)"
    by (fastforce simp: score)
  with res show ?thesis by blast
qed

text \<open>A table for plain English text.\<close>

fun ascii_words :: "utext \<Rightarrow> utext list" where
  "ascii_words [] = [[]]"
| "ascii_words (c # s) =
     (if c < 48 then [] # ascii_words s
      else (case ascii_words s of [] \<Rightarrow> [[c]] | w # ws \<Rightarrow> (c # w) # ws))"

definition ascii_unicode :: unicode where
  "ascii_unicode = \<lparr>nfc = (\<lambda>s. s), lower = (\<lambda>s. s), words_of = (\<lambda>s. filter (\<lambda>w. w \<noteq> []) (ascii_words s))\<rparr>"

definition sample_passage :: "string \<Rightarrow> string \<Rightarrow> passage" where
  "sample_passage i c = \<lparr>paId = i, paBase = ''kb'', paBaseName = [], paDocument = ''d'', paTitle = [],
     paOrdinal = 0, paContent = lit c, paEmbedding = Some [], paScore = 0\<rparr>"

lemma ranked_passages_sound_witness:
  "length (rankChunks ascii_unicode (\<lambda>_. 1) (lit ''blue ink'')
      [sample_passage ''a'' ''blue'', sample_passage ''b'' ''blue ink'', sample_passage ''c'' ''blue ink''] (Some 4) (Some 0)) \<le> 4"
  using ranked_passages_sound [OF refl, of ascii_unicode "\<lambda>_. 1" "lit ''blue ink''"
      "[sample_passage ''a'' ''blue'', sample_passage ''b'' ''blue ink'', sample_passage ''c'' ''blue ink'']" 4 0]
  by simp

end
