(* ===== verification/RetrievalProps.thy ===== *)
theory RetrievalProps
  imports Retrieval RagProps
begin

text \<open>
  Retrieval keeps tenants apart, stays within the model's context and leaves one system
  message; a completion limit below 48 tokens is raised to 48.
\<close>

subsection \<open>Tenants\<close>

lemma first_by_set: "key ` set (first_by key seen xs) \<inter> set seen = {}
    \<and> set (first_by key seen xs) \<subseteq> set xs \<and> distinct (map key (first_by key seen xs))"
  by (induction key seen xs rule: first_by.induct) (auto simp: image_iff)

lemma requested_distinct: "distinct (requested_ids ids)"
  using first_by_set [of "\<lambda>x. x" "[]" "filter (\<lambda>i. i \<noteq> []) (map js_trim ids)"]
  by (simp add: requested_ids_def)

lemma own_bases_all:
  assumes "unique_by kbId (bases db)" and "distinct ids"
    and "length (own_bases db customer ids) = length ids" and "i \<in> set ids"
  shows "\<exists>b \<in> set (bases db). kbId b = i \<and> kbCustomer b = customer"
proof -
  let ?own = "own_bases db customer ids"
  have "distinct (map kbId ?own)"
    using assms(1) by (simp add: own_bases_def unique_by_def distinct_map_filter)
  moreover have sub: "kbId ` set ?own \<subseteq> set ids" by (auto simp: own_bases_def)
  ultimately have "kbId ` set ?own = set ids"
    using assms(2,3) by (metis card_subset_eq distinct_card finite_set length_map set_map)
  then obtain b where "b \<in> set ?own" "kbId b = i" using assms(4) by (metis imageE)
  then show ?thesis by (auto simp: own_bases_def)
qed

lemma passage_of_some:
  assumes "passage_of db c = Some p" and "searchable db ids c"
  shows "paBase p \<in> set ids"
  using assms
  by (auto simp: passage_of_def searchable_def bind_eq_Some_conv split: option.splits
      dest: table_find_some_in)

lemma fit_loop_prefix: "\<exists>n. fit_loop budget fitted used hs = fitted @ take n hs"
proof (induction budget fitted used hs rule: fit_loop.induct)
  case (2 budget fitted used h hs)
  show ?case
  proof (cases "fitted \<noteq> [] \<and> used + int (length (rhContent h)) > budget")
    case True
    then show ?thesis by (intro exI [of _ 0]) simp
  next
    case False
    with 2 obtain n where "fit_loop budget (fitted @ [h]) (used + int (length (rhContent h))) hs
        = (fitted @ [h]) @ take n hs" by blast
    then show ?thesis using False by (intro exI [of _ "Suc n"]) auto
  qed
qed simp

lemma fit_hits_prefix: "\<exists>n. fitHitsToBudget hs n' = take n hs"
  using fit_loop_prefix [of "passageCharBudget n'" "[]" 0 hs]
  by (auto simp: fitHitsToBudget_def Let_def)

lemma diversify_set: "set (diversify u k picked cs) \<subseteq> set picked \<union> set cs"
  by (induction u k picked cs rule: diversify.induct) auto

lemma rank_bases:
  assumes "p \<in> set (rankChunks u sq query cs (Some k) (Some least))"
  shows "\<exists>c \<in> set cs. paBase p = paBase c"
proof -
  have "p \<in> set [] \<union> set (js_sort (\<lambda>l r. paScore r - paScore l) (filter (\<lambda>p. paScore p \<ge> least)
              (map (\<lambda>p. p\<lparr>paScore := passage_score u sq query p\<rparr>) cs)))"
    using assms diversify_set by (fastforce simp only: rankChunks_def diversifyChunks_def Let_def option.case)
  then show ?thesis by auto
qed

lemma base_hits_base: "h \<in> set (base_hits db b) \<Longrightarrow> rhBase h = kbId b"
  by (auto simp: base_hits_def Let_def catalog_hit_def split: if_splits)

text \<open>
  C25. Retrieval never leaves the customer's account: when it succeeds, every knowledge base it names
  and the knowledge base of every hit it returns, in both modes, is a requested one and
  belongs to the calling customer.
\<close>

theorem retrieval_stays_with_customer:
  assumes "unique_by kbId (bases db)"
    and "retrieveCustomerKnowledge u sq db customer query ids topK contextLength = Inr r"
    and "i \<in> set (rrBases r) \<union> rhBase ` set (rrHits r)"
  shows "i \<in> set (requested_ids ids)
    \<and> (\<exists>b \<in> set (bases db). kbId b = i \<and> kbCustomer b = customer)"
proof -
  let ?ids = "requested_ids ids"
  have full: "length (own_bases db customer ?ids) = length ?ids" if "?ids \<noteq> []"
    using assms(2) that
    by (auto simp: retrieveCustomerKnowledge_def catalogCustomerKnowledge_def Let_def split: if_splits)
  have own: "\<exists>b \<in> set (bases db). kbId b = j \<and> kbCustomer b = customer" if "j \<in> set ?ids" for j
    using own_bases_all [OF assms(1) requested_distinct full] that by fastforce
  have "i \<in> set ?ids"
  proof (cases "isKnowledgeCatalogQuery u query \<or> ?ids = []")
    case True
    then have "set (rrBases r) \<subseteq> set ?ids"
      and "set (rrHits r) \<subseteq> set (concat (map (base_hits db) (own_bases db customer ?ids)))"
      using assms(2)
      by (auto simp: retrieveCustomerKnowledge_def catalogCustomerKnowledge_def Let_def split: if_splits)
    then show ?thesis
      using assms(3) by (fastforce simp: own_bases_def dest: base_hits_base)
  next
    case False
    let ?ps = "List.map_filter (passage_of db) (take 4000 (filter (searchable db ?ids) (chunks db)))"
    let ?k = "max 1 (min (case topK of None \<Rightarrow> 4 | Some k \<Rightarrow> k) 8)"
    let ?hits = "map hit_of (rankChunks u sq query ?ps (Some ?k) (Some (12 / 100)))"
    have "paBase p \<in> set ?ids" if "p \<in> set ?ps" for p
      using that passage_of_some [of db _ p ?ids]
      by (auto simp: List.map_filter_def dest!: in_set_takeD)
    then have all: "rhBase h \<in> set ?ids" if "h \<in> set ?hits" for h
      using that rank_bases by (fastforce simp: hit_of_def)
    have "set (fitHitsToBudget ?hits n) \<subseteq> set ?hits" for n
      using fit_hits_prefix [of ?hits n] set_take_subset by metis
    moreover have shape: "rrHits r = ?hits \<or> (\<exists>n. rrHits r = fitHitsToBudget ?hits n)" "rrBases r = ?ids"
      using assms(2) False full
      by (auto simp: retrieveCustomerKnowledge_def Let_def split: if_splits option.split_asm)
    ultimately have "set (rrHits r) \<subseteq> set ?hits" by (metis order_refl)
    then have "rhBase h \<in> set ?ids" if "h \<in> set (rrHits r)" for h
      by (rule all [OF subsetD]) (rule that)
    then show ?thesis using assms(3) shape(2) by auto
  qed
  with own show ?thesis by blast
qed

definition sample_kdb :: knowledge_db where
  "sample_kdb = \<lparr>bases = [\<lparr>kbId = ''k1'', kbCustomer = ''c'', kbName = []\<rparr>,
                           \<lparr>kbId = ''k2'', kbCustomer = ''d'', kbName = []\<rparr>],
     documents = [], versions = [], chunks = []\<rparr>"

lemma retrieval_stays_with_customer_witness:
  "(\<exists>r. retrieveCustomerKnowledge ascii_unicode (\<lambda>_. 1) sample_kdb ''c'' [] [''k1''] None None = Inr r
      \<and> ''k1'' \<in> set (rrBases r))
   \<and> ''k1'' \<in> set (requested_ids [''k1''])"
proof -
  have t: "js_trim ''k1'' = ''k1''" by code_simp
  have r: "requested_ids [''k1''] = [''k1'']" by (simp add: requested_ids_def t)
  have q: "\<not> isKnowledgeCatalogQuery ascii_unicode []"
    by (simp add: isKnowledgeCatalogQuery_def ascii_unicode_def u_trim_def)
  have run: "retrieveCustomerKnowledge ascii_unicode (\<lambda>_. 1) sample_kdb ''c'' [] [''k1''] None None
      = Inr \<lparr>rrBases = [''k1''], rrTopK = 4, rrQuery = [], rrHits = [], rrMode = Passages\<rparr>"
    by (simp add: retrieveCustomerKnowledge_def r q own_bases_def sample_kdb_def rankChunks_def
        js_sort_def List.map_filter_def diversifyChunks_def)
  have u: "unique_by kbId (bases sample_kdb)" by (simp add: unique_by_def sample_kdb_def)
  show ?thesis
    using retrieval_stays_with_customer [OF u run, of "''k1''"] run by auto
qed

subsection \<open>The context budget\<close>

text \<open>
  A limit on the answer below 48 tokens is not honoured: whatever the caller asks, the model may
  generate at least 48 tokens, and when the prompt fills the context it may generate
  beyond it; otherwise prompt and answer fit the context and the asked limit holds.
\<close>

theorem completion_limit:
  "48 \<le> clampMaxTokens n messages requested
   \<and> (requested < 48 \<longrightarrow> clampMaxTokens n messages requested = 48)
   \<and> (48 \<le> requested \<longrightarrow> clampMaxTokens n messages requested \<le> requested)
   \<and> (prompt_estimate messages + 48 \<le> n \<longrightarrow>
        clampMaxTokens n messages requested + prompt_estimate messages \<le> n)"
  by (auto simp: clampMaxTokens_def Let_def)

lemma completion_limit_witness: "clampMaxTokens 4096 [] 1 = 48"
  using completion_limit [of 4096 "[]" 1] by simp

lemma fit_loop_budget:
  assumes "fitted = [] \<or> length fitted = 1 \<or> used \<le> budget"
    and "used = sum_list (map (\<lambda>h. int (length (rhContent h))) fitted)"
  shows "length (fit_loop budget fitted used hs) \<le> 1
    \<or> sum_list (map (\<lambda>h. int (length (rhContent h))) (fit_loop budget fitted used hs)) \<le> budget"
  using assms by (induction budget fitted used hs rule: fit_loop.induct) (auto simp: not_less)

text \<open>
  The hits kept for the context are a non-empty initial part of the ranking, and together
  they stay within the budget unless it is the first hit alone that exceeds it.
\<close>

lemma fit_hits_sound:
  assumes "hits \<noteq> []"
  shows "\<exists>n > 0. fitHitsToBudget hits c = take n hits"
    and "length (fitHitsToBudget hits c) = 1
      \<or> sum_list (map (\<lambda>h. int (length (rhContent h))) (fitHitsToBudget hits c)) \<le> passageCharBudget c"
proof -
  obtain h hs where hits: "hits = h # hs" using assms by (cases hits) auto
  obtain n where n: "fitHitsToBudget hits c = take n hits" using fit_hits_prefix by blast
  have "fitHitsToBudget hits c \<noteq> []" by (simp add: fitHitsToBudget_def Let_def hits)
  then show "\<exists>n > 0. fitHitsToBudget hits c = take n hits" using n by (metis gr0I take_0)
  show "length (fitHitsToBudget hits c) = 1
      \<or> sum_list (map (\<lambda>h. int (length (rhContent h))) (fitHitsToBudget hits c)) \<le> passageCharBudget c"
    using fit_loop_budget [of "[]" 0 "passageCharBudget c" hits] \<open>fitHitsToBudget hits c \<noteq> []\<close>
    unfolding hits by (auto simp: fitHitsToBudget_def Let_def le_Suc_eq split: if_splits)
qed

subsection \<open>One system message\<close>

lemma grounded_shape:
  "\<exists>t. applyRetrievalContext w messages hits mode
     = \<lparr>ctRole = ''system'', ctContent = t\<rparr> # filter (\<lambda>m. ctRole m \<noteq> ''system'') messages"
  by (auto simp: applyRetrievalContext_def Let_def)

end
