(* ===== verification/Knowledge.thy ===== *)
theory Knowledge
  imports Accounts RetrievalProps
begin

text \<open>
  The customer's knowledge bases (\<^verbatim>\<open>app/(customer)/knowledge/actions.ts\<close>): creating a base, ingesting a
  document step by step, deleting documents and bases with the cascades of the schema.
  The tables are those retrieval reads; fresh ids are parameters.
\<close>

subsection \<open>State\<close>

record knowledge_world =
  kwDb :: knowledge_db
  kwAudit :: "audit_event list"

text \<open>The length of the UTF-8 encoding of UTF-16 code units; a lone surrogate takes three bytes.\<close>

fun utf8_length :: "utext \<Rightarrow> nat" where
  "utf8_length [] = 0"
| "utf8_length [c] = (if c < 0x80 then 1 else if c < 0x800 then 2 else 3)"
| "utf8_length (c # d # s) =
     (if 0xD800 \<le> c \<and> c \<le> 0xDBFF \<and> 0xDC00 \<le> d \<and> d \<le> 0xDFFF then 4 + utf8_length s
      else (if c < 0x80 then 1 else if c < 0x800 then 2 else 3) + utf8_length (d # s))"

definition max_document_bytes :: nat where
  "max_document_bytes = 512000"

definition write_knowledge_audit :: "string \<Rightarrow> string \<Rightarrow> string \<Rightarrow> knowledge_world \<Rightarrow> knowledge_world" where
  "write_knowledge_audit actor action resource w =
     w\<lparr>kwAudit := kwAudit w @ [\<lparr>aeActor = actor, aeCustomer = Some actor, aeAction = action, aeResource = resource\<rparr>]\<rparr>"

definition on_kdb :: "(knowledge_db \<Rightarrow> knowledge_db) \<Rightarrow> knowledge_world \<Rightarrow> knowledge_world" where
  "on_kdb f w = w\<lparr>kwDb := f (kwDb w)\<rparr>"

subsection \<open>Ingestion\<close>

text \<open>
  The writes of one ingestion, each of which may fail: \<^verbatim>\<open>None\<close> from \<^verbatim>\<open>fails\<close> lets the step pass. The
  rows of the earlier steps stay, as there is no transaction.
\<close>

datatype ingest_step = CreateDocument | CreateVersion | CreateChunks | MarkSucceeded | AuditIngest

record ingest_ids =
  iiDocument :: string
  iiVersion :: string
  iiChunk :: "nat \<Rightarrow> string"

definition untitled :: "utext \<Rightarrow> utext" where
  "untitled t = (if u_trim t = [] then lit ''Untitled'' else u_trim t)"

definition chunk_row_of :: "ingest_ids \<Rightarrow> knowledge_chunk \<Rightarrow> chunk_row" where
  "chunk_row_of ids c = \<lparr>crId = iiChunk ids (kcOrdinal c), crVersion = iiVersion ids,
     crOrdinal = kcOrdinal c, crContent = kcContent c,
     crEmbedding = Some (map of_nat (kcEmbedding c))\<rparr>"

definition add_document :: "ingest_ids \<Rightarrow> string \<Rightarrow> utext \<Rightarrow> int \<Rightarrow> knowledge_db \<Rightarrow> knowledge_db" where
  "add_document ids base title now db = db\<lparr>documents := documents db @
     [\<lparr>kdId = iiDocument ids, kdBase = base, kdTitle = untitled title, kdStatus = ING_RUNNING,
       kdCreatedAt = now\<rparr>]\<rparr>"

definition add_version :: "ingest_ids \<Rightarrow> knowledge_db \<Rightarrow> knowledge_db" where
  "add_version ids db = db\<lparr>versions := versions db @
     [\<lparr>dvId = iiVersion ids, dvDocument = iiDocument ids, dvVersion = 1\<rparr>]\<rparr>"

definition add_chunks :: "ingest_ids \<Rightarrow> knowledge_chunk list \<Rightarrow> knowledge_db \<Rightarrow> knowledge_db" where
  "add_chunks ids cs db = db\<lparr>chunks := chunks db @ map (chunk_row_of ids) cs\<rparr>"

definition mark_succeeded :: "string \<Rightarrow> knowledge_db \<Rightarrow> knowledge_db" where
  "mark_succeeded d db = db\<lparr>documents :=
     map (\<lambda>x. if kdId x = d then x\<lparr>kdStatus := ING_SUCCEEDED\<rparr> else x) (documents db)\<rparr>"

text \<open>A unique id that is taken fails the insertion as well.\<close>

definition ids_taken :: "ingest_ids \<Rightarrow> ingest_step \<Rightarrow> nat \<Rightarrow> knowledge_db \<Rightarrow> bool" where
  "ids_taken ids st n db =
     (case st of
        CreateDocument \<Rightarrow> table_find kdId (iiDocument ids) (documents db) \<noteq> None
      | CreateVersion \<Rightarrow> table_find dvId (iiVersion ids) (versions db) \<noteq> None
      | CreateChunks \<Rightarrow> list_ex (\<lambda>i. table_find crId (iiChunk ids i) (chunks db) \<noteq> None) [0..<n]
                        \<or> \<not> distinct (map (iiChunk ids) [0..<n])
      | _ \<Rightarrow> False)"

definition ingest_chunks :: "unicode \<Rightarrow> utext \<Rightarrow> (string, knowledge_chunk list) result" where
  "ingest_chunks u content = map_sum (\<lambda>e. case e of RagRangeError m \<Rightarrow> m) id (prepareKnowledgeChunks u content 800)"

definition ingestPlainText ::
    "unicode \<Rightarrow> (ingest_step \<Rightarrow> string option) \<Rightarrow> ingest_ids \<Rightarrow> int \<Rightarrow> string \<Rightarrow> string \<Rightarrow> utext \<Rightarrow> utext
     \<Rightarrow> knowledge_world \<Rightarrow> (string, string \<times> nat) result \<times> knowledge_world" where
  "ingestPlainText u fails ids now customer base title raw w =
     (let content = u_trim raw;
          refused = (\<lambda>st n w. fails st \<noteq> None \<or> ids_taken ids st n (kwDb w));
          reason = (\<lambda>st. or_default ''Unique constraint failed'' (fails st))
      in if content = [] then (Inl ''Content required'', w)
         else if utf8_length content > max_document_bytes then (Inl ''Document is larger than 512 KB'', w)
         else if refused CreateDocument 0 w then (Inl (reason CreateDocument), w)
         else
           (let w1 = on_kdb (add_document ids base title now) w
            in if refused CreateVersion 0 w1 then (Inl (reason CreateVersion), w1)
               else
                 (let w2 = on_kdb (add_version ids) w1
                  in case ingest_chunks u content of
                       Inl e \<Rightarrow> (Inl e, w2)
                     | Inr cs \<Rightarrow>
                         if cs \<noteq> [] \<and> refused CreateChunks (length cs) w2 then (Inl (reason CreateChunks), w2)
                         else
                           (let w3 = on_kdb (add_chunks ids cs) w2
                            in if fails MarkSucceeded \<noteq> None then (Inl (reason MarkSucceeded), w3)
                               else
                                 (let w4 = on_kdb (mark_succeeded (iiDocument ids)) w3
                                  in if fails AuditIngest \<noteq> None then (Inl (reason AuditIngest), w4)
                                     else (Inr (iiDocument ids, length cs),
                                           write_knowledge_audit customer ''knowledge.ingest'' (iiDocument ids) w4))))))"

subsection \<open>The actions\<close>

definition createKnowledgeBaseAction ::
    "string \<Rightarrow> session_user option \<Rightarrow> utext \<Rightarrow> knowledge_world \<Rightarrow> (string, unit) result \<times> knowledge_world" where
  "createKnowledgeBaseAction newId s rawName w =
     (case requireSession s of
        Inl e \<Rightarrow> (Inl e, w)
      | Inr user \<Rightarrow>
          (let name = u_trim rawName
           in if name = [] then (Inl ''Name required'', w)
              else if table_find kbId newId (bases (kwDb w)) \<noteq> None
                \<or> list_ex (\<lambda>b. kbCustomer b = suId user \<and> kbName b = name) (bases (kwDb w))
              then (Inl ''Unique constraint failed'', w)
              else (Inr (), write_knowledge_audit (suId user) ''knowledge.create'' newId
                     (on_kdb (\<lambda>db. db\<lparr>bases := bases db @ [\<lparr>kbId = newId, kbCustomer = suId user, kbName = name\<rparr>]\<rparr>) w))))"

text \<open>An uploaded file: its name, its size in bytes and its decoded text.\<close>

record upload =
  ufName :: string
  ufSize :: nat
  ufText :: utext

definition text_extensions :: "string list" where
  "text_extensions = [''.txt'', ''.md'', ''.csv'']"

definition base_title :: "string \<Rightarrow> string" where
  "base_title name =
     (case find (\<lambda>x. ends_with x (to_lower name)) text_extensions of
        None \<Rightarrow> name | Some x \<Rightarrow> take (length name - length x) name)"

text \<open>Title and content of the form: an upload that is not empty replaces the content.\<close>

definition form_document :: "utext \<Rightarrow> utext \<Rightarrow> upload option \<Rightarrow> (string, utext \<times> utext) result" where
  "form_document title content file =
     (let t = u_trim title
      in case file of
           None \<Rightarrow> Inr (t, content)
         | Some f \<Rightarrow>
             if ufSize f = 0 then Inr (t, content)
             else if \<not> list_ex (\<lambda>x. ends_with x (to_lower (ufName f))) text_extensions
             then Inl ''Upload a .txt, .md, or .csv file''
             else if ufSize f > max_document_bytes then Inl ''File is larger than 512 KB''
             else Inr (if t = [] then lit (base_title (ufName f)) else t, ufText f))"

definition ingestKnowledgeDocumentAction ::
    "unicode \<Rightarrow> (ingest_step \<Rightarrow> string option) \<Rightarrow> ingest_ids \<Rightarrow> int \<Rightarrow> session_user option \<Rightarrow> string
     \<Rightarrow> utext \<Rightarrow> utext \<Rightarrow> upload option \<Rightarrow> knowledge_world \<Rightarrow> (string, unit) result \<times> knowledge_world" where
  "ingestKnowledgeDocumentAction u fails ids now s baseId title content file w =
     (case requireSession s of
        Inl e \<Rightarrow> (Inl e, w)
      | Inr user \<Rightarrow>
          (case table_find kbId baseId (bases (kwDb w)) of
             None \<Rightarrow> (Inl ''Knowledge base not found'', w)
           | Some b \<Rightarrow>
               if \<not> assertOwnership (kbCustomer b) user then (Inl ''FORBIDDEN'', w)
               else
                 (case form_document title content file of
                    Inl e \<Rightarrow> (Inl e, w)
                  | Inr (t, c) \<Rightarrow>
                      (case ingestPlainText u fails ids now (suId user) baseId t c w of
                         (r, w') \<Rightarrow> (map_sum id (\<lambda>_. ()) r, w')))))"

subsection \<open>Deletion\<close>

text \<open>\<^verbatim>\<open>onDelete: Cascade\<close> from document to versions to chunks.\<close>

definition drop_documents :: "(knowledge_document \<Rightarrow> bool) \<Rightarrow> knowledge_db \<Rightarrow> knowledge_db" where
  "drop_documents P db =
     (let gone = kdId ` set (filter P (documents db));
          versions_gone = dvId ` set (filter (\<lambda>v. dvDocument v \<in> gone) (versions db))
      in db\<lparr>documents := filter (\<lambda>d. \<not> P d) (documents db),
            versions := filter (\<lambda>v. dvDocument v \<notin> gone) (versions db),
            chunks := filter (\<lambda>c. crVersion c \<notin> versions_gone) (chunks db)\<rparr>)"

definition deleteKnowledgeDocumentAction ::
    "session_user option \<Rightarrow> string \<Rightarrow> knowledge_world \<Rightarrow> (string, unit) result \<times> knowledge_world" where
  "deleteKnowledgeDocumentAction s documentId w =
     (case requireSession s of
        Inl e \<Rightarrow> (Inl e, w)
      | Inr user \<Rightarrow>
          (case table_find kdId documentId (documents (kwDb w)) of
             None \<Rightarrow> (Inl ''Document not found'', w)
           | Some d \<Rightarrow>
               (case table_find kbId (kdBase d) (bases (kwDb w)) of
                  None \<Rightarrow> (Inl ''Document not found'', w)
                | Some b \<Rightarrow>
                    if \<not> assertOwnership (kbCustomer b) user then (Inl ''FORBIDDEN'', w)
                    else (Inr (), write_knowledge_audit (suId user) ''knowledge.document.delete'' documentId
                           (on_kdb (drop_documents (\<lambda>d. kdId d = documentId)) w)))))"

definition drop_base :: "string \<Rightarrow> knowledge_db \<Rightarrow> knowledge_db" where
  "drop_base i db =
     (let db1 = drop_documents (\<lambda>d. kdBase d = i) db
      in db1\<lparr>bases := filter (\<lambda>b. kbId b \<noteq> i) (bases db1)\<rparr>)"

definition deleteKnowledgeBaseAction ::
    "session_user option \<Rightarrow> string \<Rightarrow> knowledge_world \<Rightarrow> (string, unit) result \<times> knowledge_world" where
  "deleteKnowledgeBaseAction s baseId w =
     (case requireSession s of
        Inl e \<Rightarrow> (Inl e, w)
      | Inr user \<Rightarrow>
          (case table_find kbId baseId (bases (kwDb w)) of
             None \<Rightarrow> (Inl ''Knowledge base not found'', w)
           | Some b \<Rightarrow>
               if \<not> assertOwnership (kbCustomer b) user then (Inl ''FORBIDDEN'', w)
               else (Inr (), write_knowledge_audit (suId user) ''knowledge.delete'' baseId
                      (on_kdb (drop_base baseId) w))))"

end
