(* ===== verification/KnowledgeProps.thy ===== *)
theory KnowledgeProps
  imports Knowledge
begin

text \<open>
  Knowledge bases: the tables stay consistent under any operations, an ingestion that fails is
  invisible to every retrieval, a deleted document is never retrieved again, an ingested one
  can be, and other customers' sessions change nothing.
\<close>

subsection \<open>Rows that retrieval cannot see\<close>

text \<open>
  \<^verbatim>\<open>db'\<close> extends \<^verbatim>\<open>db\<close> by documents that are not finished and by versions and chunks of theirs.
\<close>

definition unseen :: "knowledge_db \<Rightarrow> knowledge_db \<Rightarrow> bool" where
  "unseen db db' \<longleftrightarrow> bases db' = bases db \<and>
     (\<exists>ds vs cs. documents db' = documents db @ ds \<and> versions db' = versions db @ vs \<and> chunks db' = chunks db @ cs
        \<and> (\<forall>d \<in> set ds. kdStatus d \<noteq> ING_SUCCEEDED)
        \<and> (\<forall>v \<in> set vs. dvDocument v \<notin> kdId ` set (documents db) \<and> dvId v \<notin> dvId ` set (versions db))
        \<and> (\<forall>c \<in> set cs. crVersion c \<in> dvId ` set vs))"

definition linked :: "knowledge_db \<Rightarrow> bool" where
  "linked db \<longleftrightarrow>
     (\<forall>d \<in> set (documents db). kdBase d \<in> kbId ` set (bases db))
     \<and> (\<forall>v \<in> set (versions db). dvDocument v \<in> kdId ` set (documents db))
     \<and> (\<forall>c \<in> set (chunks db). crVersion c \<in> dvId ` set (versions db))"

lemma old_version:
  assumes "unseen db db'" and "k \<in> dvId ` set (versions db)"
  shows "table_find dvId k (versions db') = table_find dvId k (versions db)"
  using assms by (fastforce simp: unseen_def table_find_append table_find_none_iff split: option.split)

lemma old_document:
  assumes "unseen db db'" and "k \<in> kdId ` set (documents db)"
  shows "table_find kdId k (documents db') = table_find kdId k (documents db)"
  using assms by (fastforce simp: unseen_def table_find_append table_find_none_iff split: option.split)

lemma version_document:
  "linked db \<Longrightarrow> table_find dvId k (versions db) = Some v \<Longrightarrow> dvDocument v \<in> kdId ` set (documents db)"
  using table_find_some_in(1) [of dvId k "versions db" v] by (auto simp: linked_def)

lemma old_chunk:
  assumes "unseen db db'" and "linked db" and "c \<in> set (chunks db)"
  shows "searchable db' ids c = searchable db ids c" and "passage_of db' c = passage_of db c"
proof -
  have cv: "crVersion c \<in> dvId ` set (versions db)" using assms(2,3) by (auto simp: linked_def)
  have ba: "bases db' = bases db" using assms(1) by (simp add: unseen_def)
  obtain v where v: "table_find dvId (crVersion c) (versions db) = Some v"
    using cv table_find_none_iff [of dvId "crVersion c" "versions db"] by auto
  note doc = old_document [OF assms(1) version_document [OF assms(2) v]]
  show "searchable db' ids c = searchable db ids c"
    by (simp add: searchable_def old_version [OF assms(1) cv] v doc)
  show "passage_of db' c = passage_of db c"
    by (simp add: passage_of_def old_version [OF assms(1) cv] v doc ba)
qed

lemma new_chunk:
  assumes "unseen db db'" and "chunks db' = chunks db @ cs" and "c \<in> set cs"
  shows "\<not> searchable db' ids c"
proof -
  obtain ds vs where db': "documents db' = documents db @ ds" "versions db' = versions db @ vs"
    and run: "\<forall>d \<in> set ds. kdStatus d \<noteq> ING_SUCCEEDED"
    and vs: "\<forall>v \<in> set vs. dvDocument v \<notin> kdId ` set (documents db) \<and> dvId v \<notin> dvId ` set (versions db)"
    and cs: "crVersion c \<in> dvId ` set vs"
    using assms by (auto simp: unseen_def)
  obtain v0 where v0: "v0 \<in> set vs" "crVersion c = dvId v0" using cs by auto
  have "crVersion c \<notin> dvId ` set (versions db)" using bspec [OF vs v0(1)] by (simp add: v0(2))
  then have "table_find dvId (crVersion c) (versions db') = table_find dvId (crVersion c) vs"
    by (simp add: db' table_find_append table_find_none_iff [THEN iffD2])
  then obtain v where v: "table_find dvId (crVersion c) (versions db') = Some v" "v \<in> set vs"
    using cs table_find_none_iff [of dvId "crVersion c" vs] by (metis not_Some_eq table_find_some_in(1))
  have "table_find kdId (dvDocument v) (documents db') = table_find kdId (dvDocument v) ds"
    using vs v(2) by (simp add: db' table_find_append table_find_none_iff [THEN iffD2])
  then show ?thesis using v(1) run
    by (auto simp: searchable_def dest: table_find_some_in split: option.splits)
qed

lemma unseen_rows:
  assumes "unseen db db'" and "linked db"
  shows "filter (searchable db' ids) (chunks db') = filter (searchable db ids) (chunks db)"
proof -
  obtain cs where cs: "chunks db' = chunks db @ cs" using assms(1) by (auto simp: unseen_def)
  have "filter (searchable db' ids) cs = []" using new_chunk [OF assms(1) cs] by (simp add: filter_empty_conv)
  moreover have "filter (searchable db' ids) (chunks db) = filter (searchable db ids) (chunks db)"
    using old_chunk(1) [OF assms] by (auto intro: filter_cong)
  ultimately show ?thesis by (simp add: cs)
qed

lemma unseen_opening:
  assumes "unseen db db'" and "linked db" and "d \<in> set (documents db)"
  shows "opening_chunk db' d = opening_chunk db d"
proof -
  obtain vs cs where db': "versions db' = versions db @ vs" "chunks db' = chunks db @ cs"
    and vs: "\<forall>v \<in> set vs. dvDocument v \<notin> kdId ` set (documents db) \<and> dvId v \<notin> dvId ` set (versions db)"
    and cs: "\<forall>c \<in> set cs. crVersion c \<in> dvId ` set vs"
    using assms(1) by (auto simp: unseen_def)
  have versions: "filter (\<lambda>v. dvDocument v = kdId d) (versions db') = filter (\<lambda>v. dvDocument v = kdId d) (versions db)"
    using vs assms(3) by (auto simp: db' filter_empty_conv)
  have chunks: "filter (\<lambda>c. crVersion c = dvId v) (chunks db') = filter (\<lambda>c. crVersion c = dvId v) (chunks db)"
    if "v \<in> set (versions db)" for v
    using vs cs that by (force simp: db' filter_empty_conv)
  show ?thesis
  proof (cases "js_sort (\<lambda>a b. of_int (dvVersion b) - of_int (dvVersion a)) (filter (\<lambda>v. dvDocument v = kdId d) (versions db))")
    case Nil
    show ?thesis unfolding opening_chunk_def versions Nil by simp
  next
    case (Cons v r)
    have "v \<in> set (versions db)" using js_sort_cons_in [OF Cons] by simp
    then show ?thesis unfolding opening_chunk_def versions Cons by (simp add: chunks)
  qed
qed

lemma map_filter_eq: "\<forall>x \<in> set xs. f x = g x \<Longrightarrow> List.map_filter f xs = List.map_filter g xs"
  by (induction xs) (simp_all split: option.split)

lemma unseen_base_hits:
  assumes "unseen db db'" and "linked db"
  shows "base_hits db' b = base_hits db b"
proof -
  obtain ds where ds: "documents db' = documents db @ ds" "\<forall>d \<in> set ds. kdStatus d \<noteq> ING_SUCCEEDED"
    using assms(1) by (auto simp: unseen_def)
  let ?P = "\<lambda>d. kdBase d = kbId b \<and> kdStatus d = ING_SUCCEEDED"
  have docs: "filter ?P (documents db') = filter ?P (documents db)"
    using ds by (auto simp: filter_empty_conv)
  let ?docs = "js_sort (\<lambda>x y. of_int (kdCreatedAt x) - of_int (kdCreatedAt y)) (filter ?P (documents db))"
  have "catalog_hit db' b p = catalog_hit db b p" if "p \<in> set (enumerate 0 ?docs)" for p
  proof -
    have "snd p \<in> set ?docs" using that nth_mem [of "fst p" ?docs] by (simp add: in_set_enumerate_eq del: set_js_sort)
    then have "snd p \<in> set (documents db)" by simp
    then show ?thesis using unseen_opening [OF assms] by (cases p) (simp add: catalog_hit_def)
  qed
  then show ?thesis by (simp add: base_hits_def Let_def docs cong: map_cong)
qed

lemma unseen_retrieval:
  assumes "unseen db db'" and "linked db"
  shows "retrieveCustomerKnowledge u sq db' customer query ids topK ctx =
    retrieveCustomerKnowledge u sq db customer query ids topK ctx"
proof -
  have own: "own_bases db' customer req = own_bases db customer req" for req
    using assms(1) by (simp add: own_bases_def unseen_def)
  have hits: "map (base_hits db') bs = map (base_hits db) bs" for bs
    using unseen_base_hits [OF assms] by simp
  have passages: "List.map_filter (passage_of db') (take n (filter (searchable db req) (chunks db)))
      = List.map_filter (passage_of db) (take n (filter (searchable db req) (chunks db)))" for n req
  proof -
    have "passage_of db' c = passage_of db c" if "c \<in> set (take n (filter (searchable db req) (chunks db)))" for c
      using old_chunk(2) [OF assms] that by (meson filter_is_subset in_set_takeD subsetD)
    then show ?thesis by (intro map_filter_eq) blast
  qed
  show ?thesis
    unfolding retrieveCustomerKnowledge_def catalogCustomerKnowledge_def Let_def own hits unseen_rows [OF assms] passages
    by (rule refl)
qed

subsection \<open>Ingestion\<close>

lemma ingest_steps_unseen:
  assumes "table_find kdId (iiDocument ids) (documents db) = None" and "linked db"
  shows "unseen db (add_document ids base title now db)"
    and "table_find dvId (iiVersion ids) (versions db) = None \<Longrightarrow>
      unseen db (add_version ids (add_document ids base title now db))"
    and "table_find dvId (iiVersion ids) (versions db) = None \<Longrightarrow>
      unseen db (add_chunks ids cs (add_version ids (add_document ids base title now db)))"
  using assms(1) unfolding unseen_def
  by (auto simp: add_document_def add_version_def add_chunks_def chunk_row_of_def table_find_none_iff)

definition before_success :: "ingest_step list" where
  "before_success = [CreateDocument, CreateVersion, CreateChunks, MarkSucceeded]"

text \<open>What is left behind when an ingestion ends with an error before its last write.\<close>

lemma failed_ingest_unseen:
  assumes "ingestPlainText u fails ids now customer base title raw w = (Inl e, w')"
    and "linked (kwDb w)" and "fails AuditIngest = None"
  shows "kwDb w' = kwDb w \<or> unseen (kwDb w) (kwDb w')"
proof -
  let ?db = "kwDb w"
  let ?w1 = "on_kdb (add_document ids base title now) w"
  let ?w2 = "on_kdb (add_version ids) ?w1"
  have free: "table_find dvId (iiVersion ids) (versions ?db) = None" if "\<not> ids_taken ids CreateVersion 0 (kwDb ?w1)"
    using that by (simp add: ids_taken_def on_kdb_def add_document_def)
  show ?thesis
  proof (cases "ids_taken ids CreateDocument 0 ?db")
    case True
    then show ?thesis using assms(1) by (simp add: ingestPlainText_def Let_def split: if_splits)
  next
    case False
    then have doc: "table_find kdId (iiDocument ids) (documents ?db) = None" by (simp add: ids_taken_def)
    note un = ingest_steps_unseen [OF doc assms(2), where base = base and title = title and now = now]
    show ?thesis
    proof (cases "ids_taken ids CreateVersion 0 (kwDb ?w1)")
      case True
      then show ?thesis using assms(1) un(1) by (auto simp: ingestPlainText_def Let_def on_kdb_def split: if_splits)
    next
      case False
      note un2 = un(2,3) [OF free [OF False]]
      show ?thesis using assms(1,3) un(1) un2
        by (auto simp: ingestPlainText_def Let_def on_kdb_def split: if_splits sum.splits)
    qed
  qed
qed

text \<open>
  C27. An ingestion that fails leaves nothing a chat can see: whichever of its writes fails before the
  document is marked, every later retrieval, for every customer, query and selection of
  bases, answers exactly as it did before, although the rows written so far stay.
\<close>

theorem failed_ingestion_invisible:
  assumes "ingestKnowledgeDocumentAction u fails ids now s baseId title content file w = (Inl e, w')"
    and "linked (kwDb w)" and "fails AuditIngest = None"
  shows "retrieveCustomerKnowledge u' sq (kwDb w') customer query bs topK ctx =
    retrieveCustomerKnowledge u' sq (kwDb w) customer query bs topK ctx"
proof -
  have "kwDb w' = kwDb w \<or> unseen (kwDb w) (kwDb w')"
  proof -
    have same: "w' = w \<or> (\<exists>c t x. ingestPlainText u fails ids now c baseId t x w = (Inl e, w'))"
      using assms(1)
      by (auto simp: ingestKnowledgeDocumentAction_def map_sum_def split: sum.splits option.splits if_splits prod.splits)
    then show ?thesis using failed_ingest_unseen [where fails = fails and w = w, OF _ assms(2,3)] by blast
  qed
  then show ?thesis using unseen_retrieval [OF _ assms(2)] by auto
qed

subsection \<open>Consistency\<close>

definition knowledge_inv :: "knowledge_world \<Rightarrow> bool" where
  "knowledge_inv w \<longleftrightarrow>
     unique_by kbId (bases (kwDb w)) \<and> unique_by kdId (documents (kwDb w))
     \<and> unique_by dvId (versions (kwDb w)) \<and> unique_by crId (chunks (kwDb w)) \<and> linked (kwDb w)"

datatype knowledge_op =
    NewBase string "session_user option" utext
  | Ingest unicode "ingest_step \<Rightarrow> string option" ingest_ids int "session_user option" string utext utext "upload option"
  | DropDocument "session_user option" string
  | DropBase "session_user option" string

fun knowledge_step :: "knowledge_op \<Rightarrow> knowledge_world \<Rightarrow> knowledge_world" where
  "knowledge_step (NewBase i s name) w = snd (createKnowledgeBaseAction i s name w)"
| "knowledge_step (Ingest u fails ids now s b title content file) w =
     snd (ingestKnowledgeDocumentAction u fails ids now s b title content file w)"
| "knowledge_step (DropDocument s d) w = snd (deleteKnowledgeDocumentAction s d w)"
| "knowledge_step (DropBase s b) w = snd (deleteKnowledgeBaseAction s b w)"

definition knowledge_init :: knowledge_world where
  "knowledge_init = \<lparr>kwDb = \<lparr>bases = [], documents = [], versions = [], chunks = []\<rparr>, kwAudit = []\<rparr>"

definition sound_db :: "knowledge_db \<Rightarrow> bool" where
  "sound_db db \<longleftrightarrow> unique_by kbId (bases db) \<and> unique_by kdId (documents db)
     \<and> unique_by dvId (versions db) \<and> unique_by crId (chunks db) \<and> linked db"

lemma knowledge_inv_db: "knowledge_inv w \<longleftrightarrow> sound_db (kwDb w)"
  by (simp add: knowledge_inv_def sound_db_def)

lemma audit_db [simp]: "kwDb (write_knowledge_audit a b c w) = kwDb w"
  by (simp add: write_knowledge_audit_def)

lemma new_base_inv: "knowledge_inv w \<Longrightarrow> knowledge_inv (snd (createKnowledgeBaseAction i s name w))"
  by (auto simp: createKnowledgeBaseAction_def knowledge_inv_db sound_db_def on_kdb_def Let_def linked_def
      unique_by_append table_find_none_iff split: sum.splits)

lemma add_document_sound:
  "sound_db db \<Longrightarrow> b \<in> kbId ` set (bases db) \<Longrightarrow> \<not> ids_taken ids CreateDocument n db \<Longrightarrow>
   sound_db (add_document ids b title now db)"
  by (auto simp: sound_db_def linked_def add_document_def ids_taken_def unique_by_append table_find_none_iff)

lemma add_version_sound:
  "sound_db db \<Longrightarrow> iiDocument ids \<in> kdId ` set (documents db) \<Longrightarrow> \<not> ids_taken ids CreateVersion n db \<Longrightarrow>
   sound_db (add_version ids db)"
  by (auto simp: sound_db_def linked_def add_version_def ids_taken_def unique_by_append table_find_none_iff)

lemma prepared_ordinals:
  "ingest_chunks u content = Inr cs \<Longrightarrow> map kcOrdinal cs = [0..<length cs]"
  by (auto simp: ingest_chunks_def prepareKnowledgeChunks_def map_sum_def enumerate_eq_zip
      split: sum.splits if_splits intro!: nth_equalityI)

lemma add_chunks_sound:
  assumes "sound_db db" and "iiVersion ids \<in> dvId ` set (versions db)" and "map kcOrdinal cs = [0..<length cs]"
    and "cs = [] \<or> \<not> ids_taken ids CreateChunks (length cs) db"
  shows "sound_db (add_chunks ids cs db)"
proof -
  have ids: "map crId (map (chunk_row_of ids) cs) = map (iiChunk ids) [0..<length cs]"
    using arg_cong [OF assms(3), of "map (iiChunk ids)"] by (simp add: chunk_row_of_def comp_def)
  have "unique_by crId (chunks db @ map (chunk_row_of ids) cs)"
  proof -
    have fresh: "iiChunk ids i \<notin> crId ` set (chunks db)" if "i < length cs" for i
      using assms(4) that by (auto simp: ids_taken_def list_ex_iff table_find_none_iff)
    have dist: "distinct (map (iiChunk ids) [0..<length cs])"
      using assms(4) by (auto simp: ids_taken_def)
    have "set (map crId (map (chunk_row_of ids) cs)) \<inter> crId ` set (chunks db) = {}"
      unfolding ids
    proof (rule equals0I)
      fix x assume x: "x \<in> set (map (iiChunk ids) [0..<length cs]) \<inter> crId ` set (chunks db)"
      then obtain i where "i < length cs" "x = iiChunk ids i" by auto
      with fresh [of i] x show False by simp
    qed
    then show ?thesis using dist assms(1) unfolding ids [symmetric]
      by (auto simp: unique_by_def sound_db_def)
  qed
  then show ?thesis using assms(1,2) by (auto simp: sound_db_def linked_def add_chunks_def chunk_row_of_def)
qed

lemma linked_sets:
  "linked db \<longleftrightarrow> set (map kdBase (documents db)) \<subseteq> kbId ` set (bases db)
     \<and> set (map dvDocument (versions db)) \<subseteq> set (map kdId (documents db))
     \<and> set (map crVersion (chunks db)) \<subseteq> dvId ` set (versions db)"
  by (auto simp: linked_def)

lemma mark_sound: "sound_db db \<Longrightarrow> sound_db (mark_succeeded d db)"
proof -
  have same: "map kdId (documents (mark_succeeded d db)) = map kdId (documents db)"
    "map kdBase (documents (mark_succeeded d db)) = map kdBase (documents db)"
    by (simp_all add: mark_succeeded_def)
  have rest: "bases (mark_succeeded d db) = bases db" "versions (mark_succeeded d db) = versions db"
    "chunks (mark_succeeded d db) = chunks db"
    by (simp_all add: mark_succeeded_def)
  show "sound_db db \<Longrightarrow> sound_db (mark_succeeded d db)"
    unfolding sound_db_def linked_sets unique_by_def same rest by simp
qed

lemma ingest_sound:
  assumes "sound_db (kwDb w)" and "b \<in> kbId ` set (bases (kwDb w))"
  shows "sound_db (kwDb (snd (ingestPlainText u fails ids now customer b title raw w)))"
proof -
  let ?db1 = "add_document ids b title now (kwDb w)"
  let ?db2 = "add_version ids ?db1"
  have s1: "sound_db ?db1" if "\<not> ids_taken ids CreateDocument 0 (kwDb w)"
    by (rule add_document_sound [OF assms that])
  have s2: "sound_db ?db2" if "\<not> ids_taken ids CreateDocument 0 (kwDb w)" "\<not> ids_taken ids CreateVersion 0 ?db1"
    by (rule add_version_sound [OF s1 [OF that(1)] _ that(2)]) (simp add: add_document_def)
  have s3: "sound_db (add_chunks ids cs ?db2)"
    if "\<not> ids_taken ids CreateDocument 0 (kwDb w)" "\<not> ids_taken ids CreateVersion 0 ?db1"
      "ingest_chunks u c = Inr cs" "cs = [] \<or> \<not> ids_taken ids CreateChunks (length cs) ?db2" for c cs
    by (rule add_chunks_sound [OF s2 [OF that(1,2)] _ prepared_ordinals [OF that(3)] that(4)]) (simp add: add_version_def)
  show ?thesis
    using assms(1) s1 s2 s3 mark_sound
    by (simp add: ingestPlainText_def Let_def on_kdb_def split: sum.split)
qed

lemma ingest_action_inv:
  assumes "knowledge_inv w"
  shows "knowledge_inv (snd (ingestKnowledgeDocumentAction u fails ids now s b title content file w))"
proof -
  have sound: "sound_db (kwDb (snd (ingestPlainText u fails ids now c b t x w)))"
    if "table_find kbId b (bases (kwDb w)) = Some r" for c t x r
    by (rule ingest_sound) (use assms table_find_some_in [OF that] in \<open>auto simp: knowledge_inv_db\<close>)
  then show ?thesis using assms
    by (auto simp: ingestKnowledgeDocumentAction_def knowledge_inv_db case_prod_beta split: sum.split option.split)
qed

lemma unique_by_filter: "unique_by key rows \<Longrightarrow> unique_by key (filter P rows)"
  by (simp add: unique_by_def distinct_map_filter)

lemma drop_documents_sound:
  assumes "sound_db db"
  shows "sound_db (drop_documents P db)"
proof -
  let ?gone = "kdId ` set (filter P (documents db))"
  have linked: "linked db" using assms by (simp add: sound_db_def)
  have docs: "d \<in> set (filter (\<lambda>d. \<not> P d) (documents db))" if "d \<in> set (documents db)" "kdId d \<notin> ?gone" for d
    using that by auto
  have "\<exists>d \<in> set (filter (\<lambda>d. \<not> P d) (documents db)). kdId d = dvDocument v"
    if "v \<in> set (versions db)" "dvDocument v \<notin> ?gone" for v
  proof -
    have "dvDocument v \<in> kdId ` set (documents db)" using linked that(1) by (simp add: linked_def)
    then obtain d where "d \<in> set (documents db)" "kdId d = dvDocument v" by auto
    with docs [of d] that(2) show ?thesis by auto
  qed
  moreover have "\<exists>v \<in> set (filter (\<lambda>v. dvDocument v \<notin> ?gone) (versions db)). dvId v = crVersion c"
    if "c \<in> set (chunks db)" "crVersion c \<notin> dvId ` set (filter (\<lambda>v. dvDocument v \<in> ?gone) (versions db))" for c
  proof -
    have "crVersion c \<in> dvId ` set (versions db)" using linked that(1) by (simp add: linked_def)
    then obtain v where v: "v \<in> set (versions db)" "dvId v = crVersion c" by auto
    have "dvDocument v \<notin> ?gone"
    proof
      assume "dvDocument v \<in> ?gone"
      then have "v \<in> set (filter (\<lambda>v. dvDocument v \<in> ?gone) (versions db))" using v(1) by simp
      then have "dvId v \<in> dvId ` set (filter (\<lambda>v. dvDocument v \<in> ?gone) (versions db))" by (rule imageI)
      then show False using that(2) v(2) by simp
    qed
    with v show ?thesis by (intro bexI [of _ v]) simp_all
  qed
  ultimately have "linked (drop_documents P db)"
    using linked unfolding linked_def drop_documents_def Let_def by (fastforce simp: image_iff)
  then show ?thesis using assms by (simp add: sound_db_def drop_documents_def Let_def unique_by_filter)
qed

lemma drop_base_sound:
  assumes "sound_db db"
  shows "sound_db (drop_base i db)"
proof -
  let ?db1 = "drop_documents (\<lambda>d. kdBase d = i) db"
  have "sound_db ?db1" by (rule drop_documents_sound [OF assms])
  moreover have "\<forall>d \<in> set (documents ?db1). kdBase d \<noteq> i" by (simp add: drop_documents_def Let_def)
  ultimately have "linked (?db1\<lparr>bases := filter (\<lambda>b. kbId b \<noteq> i) (bases ?db1)\<rparr>)"
    unfolding sound_db_def linked_def by (simp add: image_iff) blast
  with \<open>sound_db ?db1\<close> show ?thesis
    by (simp add: sound_db_def drop_base_def Let_def unique_by_filter)
qed

lemma delete_document_inv: "knowledge_inv w \<Longrightarrow> knowledge_inv (snd (deleteKnowledgeDocumentAction s d w))"
  by (auto simp: deleteKnowledgeDocumentAction_def knowledge_inv_db on_kdb_def drop_documents_sound
      split: sum.split option.split)

lemma delete_base_inv: "knowledge_inv w \<Longrightarrow> knowledge_inv (snd (deleteKnowledgeBaseAction s b w))"
  by (auto simp: deleteKnowledgeBaseAction_def knowledge_inv_db on_kdb_def drop_base_sound
      split: sum.split option.split)

lemma knowledge_step_inv: "knowledge_inv w \<Longrightarrow> knowledge_inv (knowledge_step op w)"
  by (cases op) (simp_all add: new_base_inv ingest_action_inv delete_document_inv delete_base_inv)

interpretation knowledge: invariant_system knowledge_step knowledge_inv knowledge_init
  by unfold_locales
    (simp_all add: knowledge_step_inv, simp add: knowledge_inv_def knowledge_init_def linked_def)

text \<open>Only the owner of a base, or an administrator, changes it.\<close>

lemma foreign_session_changes_nothing:
  assumes "s = Some u" and "suRole u \<noteq> ''ADMIN''" and "table_find kbId b (bases (kwDb w)) = Some k"
    and "kbCustomer k \<noteq> suId u"
  shows "snd (ingestKnowledgeDocumentAction v fails ids now s b title content file w) = w"
    and "snd (deleteKnowledgeBaseAction s b w) = w"
    and "table_find kdId d (documents (kwDb w)) = Some x \<Longrightarrow> kdBase x = b \<Longrightarrow>
      snd (deleteKnowledgeDocumentAction s d w) = w"
  using assms
  by (simp_all add: ingestKnowledgeDocumentAction_def deleteKnowledgeBaseAction_def
      deleteKnowledgeDocumentAction_def assertOwnership_def requireSession_def split: sum.split)

subsection \<open>Deletion\<close>

lemma rank_members:
  assumes "p \<in> set (rankChunks u sq query cs (Some k) (Some least))"
  shows "\<exists>c \<in> set cs. paDocument p = paDocument c"
proof -
  have "p \<in> set [] \<union> set (js_sort (\<lambda>l r. paScore r - paScore l) (filter (\<lambda>p. paScore p \<ge> least)
              (map (\<lambda>p. p\<lparr>paScore := passage_score u sq query p\<rparr>) cs)))"
    using assms diversify_set by (fastforce simp only: rankChunks_def diversifyChunks_def Let_def option.case)
  then show ?thesis by auto
qed

lemma passage_document: "passage_of db c = Some p \<Longrightarrow> paDocument p \<in> kdId ` set (documents db)"
  by (auto simp: passage_of_def bind_eq_Some_conv dest: table_find_some_in)

lemma catalog_documents: "h \<in> set (base_hits db b) \<Longrightarrow> rhDocument h \<in> kdId ` set (documents db) \<union> {kbId b}"
proof -
  assume h: "h \<in> set (base_hits db b)"
  let ?docs = "js_sort (\<lambda>x y. of_int (kdCreatedAt x) - of_int (kdCreatedAt y))
                   (filter (\<lambda>d. kdBase d = kbId b \<and> kdStatus d = ING_SUCCEEDED) (documents db))"
  consider (none) "rhDocument h = kbId b" | (some) p where "p \<in> set (enumerate 0 ?docs)" "h = catalog_hit db b p"
    using h by (auto simp: base_hits_def Let_def split: if_splits)
  then show ?thesis
  proof cases
    case (some p)
    have "snd p \<in> set ?docs" using some(1) nth_mem [of "fst p" ?docs] by (simp add: in_set_enumerate_eq del: set_js_sort)
    then have "snd p \<in> set (documents db)" by simp
    then show ?thesis using some(2) by (cases p) (simp add: catalog_hit_def Let_def)
  qed simp
qed

text \<open>Every hit of a retrieval is a stored document, or stands for an empty base.\<close>

lemma retrieved_documents:
  assumes "retrieveCustomerKnowledge u sq db customer query ids topK ctx = Inr r" and "h \<in> set (rrHits r)"
  shows "rhDocument h \<in> kdId ` set (documents db) \<union> kbId ` set (bases db)"
proof (cases "isKnowledgeCatalogQuery u query \<or> requested_ids ids = []")
  case True
  then have "set (rrHits r) \<subseteq> set (concat (map (base_hits db) (own_bases db customer (requested_ids ids))))"
    using assms(1)
    by (auto simp: retrieveCustomerKnowledge_def catalogCustomerKnowledge_def Let_def split: if_splits)
  then obtain b where "b \<in> set (own_bases db customer (requested_ids ids))" "h \<in> set (base_hits db b)"
    using assms(2) by auto
  then show ?thesis using catalog_documents [of h db b] by (auto simp: own_bases_def)
next
  case False
  let ?ps = "List.map_filter (passage_of db) (take 4000 (filter (searchable db (requested_ids ids)) (chunks db)))"
  let ?k = "max 1 (min (case topK of None \<Rightarrow> 4 | Some k \<Rightarrow> k) 8)"
  let ?hits = "map hit_of (rankChunks u sq query ?ps (Some ?k) (Some (12 / 100)))"
  have "rrHits r = ?hits \<or> (\<exists>n. rrHits r = fitHitsToBudget ?hits n)"
    using assms(1) False
    by (auto simp: retrieveCustomerKnowledge_def Let_def split: if_splits option.split_asm)
  moreover have "set (fitHitsToBudget ?hits n) \<subseteq> set ?hits" for n
    using fit_hits_prefix [of ?hits n] set_take_subset by metis
  ultimately have "set (rrHits r) \<subseteq> set ?hits" by (metis order_refl)
  then have "h \<in> set ?hits" by (rule subsetD) (rule assms(2))
  then obtain p where p: "p \<in> set (rankChunks u sq query ?ps (Some ?k) (Some (12 / 100)))" "h = hit_of p" by auto
  obtain c where c: "c \<in> set ?ps" "paDocument p = paDocument c" using rank_members [OF p(1)] by blast
  obtain row where "passage_of db row = Some c" using c(1) by (auto simp: List.map_filter_def)
  from passage_document [OF this] show ?thesis using c(2) p(2) by (simp add: hit_of_def)
qed

text \<open>
  C28. A deleted document is forgotten: after its deletion succeeded no retrieval, by any customer with any
  query and selection, in either mode, returns a hit of the document.
\<close>

theorem deleted_document_is_forgotten:
  assumes "deleteKnowledgeDocumentAction s d w = (Inr (), w')" and "d \<notin> kbId ` set (bases (kwDb w))"
    and "retrieveCustomerKnowledge u sq (kwDb w') customer query ids topK ctx = Inr r"
  shows "d \<notin> rhDocument ` set (rrHits r)"
proof -
  have "kwDb w' = drop_documents (\<lambda>x. kdId x = d) (kwDb w)"
    using assms(1) by (auto simp: deleteKnowledgeDocumentAction_def on_kdb_def split: sum.splits option.splits if_splits)
  then have "bases (kwDb w') = bases (kwDb w)" "d \<notin> kdId ` set (documents (kwDb w'))"
    by (auto simp: drop_documents_def Let_def)
  then show ?thesis using retrieved_documents [OF assms(3)] assms(2) by fastforce
qed

subsection \<open>Examples\<close>

definition sample_ids :: ingest_ids where
  "sample_ids = \<lparr>iiDocument = ''d'', iiVersion = ''v'', iiChunk = (\<lambda>i. ''c'' @ show_int (int i))\<rparr>"

definition sample_owner :: "session_user option" where
  "sample_owner = Some \<lparr>suId = ''o'', suEmail = [], suName = [], suRole = ''CUSTOMER''\<rparr>"

definition fails_at :: "ingest_step option \<Rightarrow> ingest_step \<Rightarrow> string option" where
  "fails_at broken st = (if broken = Some st then Some ''lost'' else None)"

definition sample_knowledge :: knowledge_world where
  "sample_knowledge = knowledge_step (NewBase ''b'' sample_owner [75]) knowledge_init"

lemma sample_linked: "linked (kwDb sample_knowledge)"
  using knowledge.reachable_inv [of "[NewBase ''b'' sample_owner [75]]"]
  by (simp add: sample_knowledge_def knowledge_inv_def)

lemma sample_trims [simp]: "u_trim [75] = [75]" "u_trim [104, 105] = [104, 105]" "u_trim [84] = [84]"
  by (simp_all add: u_trim_def u_space_def)

lemma sample_knowledge_db:
  "kwDb sample_knowledge = \<lparr>bases = [\<lparr>kbId = ''b'', kbCustomer = ''o'', kbName = [75]\<rparr>],
     documents = [], versions = [], chunks = []\<rparr>"
  by (simp add: sample_knowledge_def createKnowledgeBaseAction_def sample_owner_def requireSession_def
      knowledge_init_def on_kdb_def table_find_def)

lemma failed_ingestion_invisible_witness:
  "retrieveCustomerKnowledge ascii_unicode (\<lambda>_. 1)
     (kwDb (snd (ingestKnowledgeDocumentAction ascii_unicode (fails_at (Some CreateVersion)) sample_ids 0 sample_owner ''b''
        [84] [104, 105] None sample_knowledge))) ''o'' [104] [''b''] None None =
   retrieveCustomerKnowledge ascii_unicode (\<lambda>_. 1) (kwDb sample_knowledge) ''o'' [104] [''b''] None None"
proof -
  let ?run = "ingestKnowledgeDocumentAction ascii_unicode (fails_at (Some CreateVersion)) sample_ids 0 sample_owner ''b''
    [84] [104, 105] None sample_knowledge"
  have "fst ?run = Inl ''lost''"
    by (simp add: ingestKnowledgeDocumentAction_def sample_owner_def requireSession_def assertOwnership_def
        sample_knowledge_db table_find_def form_document_def ingestPlainText_def fails_at_def ids_taken_def
        max_document_bytes_def or_default_def)
  then have "?run = (Inl ''lost'', snd ?run)" by (metis prod.collapse)
  then show ?thesis by (rule failed_ingestion_invisible [OF _ sample_linked]) (simp add: fails_at_def)
qed

definition stored_knowledge :: knowledge_world where
  "stored_knowledge = \<lparr>kwDb = \<lparr>bases = [\<lparr>kbId = ''b'', kbCustomer = ''o'', kbName = [75]\<rparr>],
       documents = [\<lparr>kdId = ''d'', kdBase = ''b'', kdTitle = [84], kdStatus = ING_SUCCEEDED, kdCreatedAt = 0\<rparr>],
       versions = [\<lparr>dvId = ''v'', dvDocument = ''d'', dvVersion = 1\<rparr>],
       chunks = [\<lparr>crId = ''c'', crVersion = ''v'', crOrdinal = 0, crContent = [104, 105], crEmbedding = None\<rparr>]\<rparr>,
     kwAudit = []\<rparr>"

lemma deleted_document_is_forgotten_witness:
  "fst (deleteKnowledgeDocumentAction sample_owner ''d'' stored_knowledge) = Inr ()
   \<and> (\<exists>r. retrieveCustomerKnowledge ascii_unicode (\<lambda>_. 1)
        (kwDb (snd (deleteKnowledgeDocumentAction sample_owner ''d'' stored_knowledge)))
        ''o'' [] [''b''] None None = Inr r \<and> ''d'' \<notin> rhDocument ` set (rrHits r))"
proof -
  let ?run = "deleteKnowledgeDocumentAction sample_owner ''d'' stored_knowledge"
  have ok: "fst ?run = Inr ()" by code_simp
  then have run: "?run = (Inr (), snd ?run)" by (metis prod.collapse)
  have base: "''d'' \<notin> kbId ` set (bases (kwDb stored_knowledge))" by code_simp
  have left: "kwDb (snd ?run) = \<lparr>bases = [\<lparr>kbId = ''b'', kbCustomer = ''o'', kbName = [75]\<rparr>],
      documents = [], versions = [], chunks = []\<rparr>"
    by code_simp
  have t: "js_trim ''b'' = ''b''" by code_simp
  have q: "\<not> isKnowledgeCatalogQuery ascii_unicode []"
    by (simp add: isKnowledgeCatalogQuery_def ascii_unicode_def u_trim_def)
  have get: "retrieveCustomerKnowledge ascii_unicode (\<lambda>_. 1) (kwDb (snd ?run)) ''o'' [] [''b''] None None
      = Inr \<lparr>rrBases = [''b''], rrTopK = 4, rrQuery = [], rrHits = [], rrMode = Passages\<rparr>"
    unfolding left
    by (simp add: retrieveCustomerKnowledge_def requested_ids_def t q own_bases_def rankChunks_def
        js_sort_def List.map_filter_def diversifyChunks_def)
  from deleted_document_is_forgotten [OF run base get] ok get show ?thesis by blast
qed

end
