(* ===== verification/Provisioning.thy ===== *)
theory Provisioning
  imports KnowledgeProps
begin

text \<open>
  The start of the gateway (\<^verbatim>\<open>apps/gateway/src/index.ts\<close>) with the switches of its environment (\<^verbatim>\<open>lib/env.ts\<close>,
  \<^verbatim>\<open>lib/redis.ts\<close>), and what operators provision with scripts (\<^verbatim>\<open>lib/modernJobs.ts\<close>,
  \<^verbatim>\<open>scripts/provision-knowledge.ts\<close>): the local node, federation offers and documents.
\<close>

subsection \<open>Switches\<close>

definition off_words :: "string list" where
  "off_words = [''0'', ''false'', ''no'', ''off'']"

definition boolish :: "string option \<Rightarrow> bool" where
  "boolish v = (case v of None \<Rightarrow> True | Some s \<Rightarrow> to_lower (js_trim s) \<notin> set off_words)"

definition boolishDefaultFalse :: "string option \<Rightarrow> bool" where
  "boolishDefaultFalse v = (case v of None \<Rightarrow> False | Some s \<Rightarrow> to_lower (js_trim s) \<notin> set off_words)"

definition parseBool :: "string option \<Rightarrow> bool \<Rightarrow> bool" where
  "parseBool v fallback =
     (case v of None \<Rightarrow> fallback | Some s \<Rightarrow> if s = [] then fallback else to_lower (js_trim s) \<notin> set off_words)"

definition isRedisEnabled :: "string option \<Rightarrow> bool" where
  "isRedisEnabled v = parseBool v True"

text \<open>The test the voice routes make, and the one the diarization makes.\<close>

definition voice_route_on :: "string option \<Rightarrow> bool" where
  "voice_route_on v \<longleftrightarrow> v \<noteq> Some ''false''"

definition diarization_on :: "string option \<Rightarrow> bool" where
  "diarization_on v \<longleftrightarrow> v = Some ''true''"

subsection \<open>Start and requests\<close>

datatype boot_stage = RestoreDownloads | ReconcileRegistry | WarmDefault | EnsureNode | EnsureKey | ArmTraces

definition boot_order :: "boot_stage list" where
  "boot_order = [RestoreDownloads, ReconcileRegistry, WarmDefault, EnsureNode, EnsureKey, ArmTraces]"

text \<open>The stages that are entered, and the error the start was given up with.\<close>

fun bootstrap :: "(boot_stage \<Rightarrow> string option) \<Rightarrow> boot_stage list \<Rightarrow> boot_stage list \<times> string option" where
  "bootstrap fails [] = ([], None)"
| "bootstrap fails (s # ss) =
     (case fails s of
        Some e \<Rightarrow> ([s], Some e)
      | None \<Rightarrow> (let (done_stages, e) = bootstrap fails ss in (s # done_stages, e)))"

definition raw_upload :: "string \<Rightarrow> string \<Rightarrow> bool" where
  "raw_upload meth reqPath \<longleftrightarrow>
     meth = ''POST'' \<and> (reqPath = ''/v1/voice/analyze'' \<or> reqPath = ''/v1/anusandhan/voice/transcribe'')"

record thrown_error =
  thType :: "string option"
  thStatus :: "int option"
  thLimit :: "int option"

definition error_reply :: "thrown_error \<Rightarrow> int \<times> string \<times> string" where
  "error_reply e =
     (if thType e = Some ''entity.too.large'' \<or> thStatus e = Some 413
      then (413, ''payload_too_large'',
            (let mb = (case thLimit e of None \<Rightarrow> 0 | Some l \<Rightarrow> js_round (of_int l / (1024 * 1024)))
             in if mb \<noteq> 0 then ''Request body exceeds '' @ show_int mb @ ''MB (raise VOICE_MAX_UPLOAD_MB and retry)''
                else ''Request body too large''))
      else (500, ''server_error'', ''Internal error''))"

text \<open>Shutdown: the calls it makes, once.\<close>

datatype stop_call = StopEngine | CloseGraph | CloseServer

definition shutdown :: "bool \<Rightarrow> stop_call list \<times> bool" where
  "shutdown shuttingDown = (if shuttingDown then ([], True) else ([StopEngine, CloseGraph, CloseServer], True))"

subsection \<open>Nodes and offers\<close>

record runtime_node =
  rnName :: string
  rnHostname :: string
  rnRegion :: string
  rnStatus :: string
  rnTotalMb :: int
  rnFreeMb :: int
  rnCores :: nat
  rnTrust :: string
  rnBeat :: int
  rnBackend :: "string option"

record host_facts =
  hfHost :: string
  hfTotal :: int
  hfFree :: int
  hfCores :: nat
  hfBackend :: "string option"

definition whole_mb :: "int \<Rightarrow> int" where
  "whole_mb bytes = js_round (of_int bytes / 1024 / 1024)"

definition refreshed_node :: "host_facts \<Rightarrow> int \<Rightarrow> runtime_node \<Rightarrow> runtime_node" where
  "refreshed_node h now n = n\<lparr>rnHostname := hfHost h, rnStatus := ''ONLINE'', rnTotalMb := whole_mb (hfTotal h),
     rnFreeMb := whole_mb (hfFree h), rnCores := hfCores h, rnBeat := now\<rparr>"

definition local_node :: "host_facts \<Rightarrow> int \<Rightarrow> runtime_node" where
  "local_node h now = \<lparr>rnName = ''local-primary'', rnHostname = hfHost h, rnRegion = ''local'', rnStatus = ''ONLINE'',
     rnTotalMb = whole_mb (hfTotal h), rnFreeMb = whole_mb (hfFree h), rnCores = hfCores h, rnTrust = ''local'',
     rnBeat = now, rnBackend = Some (or_default ''llama-server'' (hfBackend h))\<rparr>"

definition ensureLocalNode :: "host_facts \<Rightarrow> int \<Rightarrow> runtime_node list \<Rightarrow> runtime_node list" where
  "ensureLocalNode h now nodes =
     (if table_find rnName ''local-primary'' nodes = None then nodes @ [local_node h now]
      else map (\<lambda>n. if rnName n = ''local-primary'' then refreshed_node h now n else n) nodes)"

record federation_offer =
  foNode :: string
  foModel :: string
  foCapacity :: int
  foPrice :: int
  foRegion :: string
  foExpires :: int

definition createFederationOffer :: "string \<Rightarrow> int \<Rightarrow> int \<Rightarrow> string option \<Rightarrow> int \<Rightarrow> federation_offer" where
  "createFederationOffer model capacity price region now =
     \<lparr>foNode = ''local-primary'', foModel = model, foCapacity = capacity, foPrice = price,
      foRegion = or_default ''local'' region, foExpires = now + 15 * 60000\<rparr>"

subsection \<open>Documents\<close>

text \<open>The ingestion of the scripts: the writes of the customer's ingestion, without its guards and its audit entry.\<close>

definition raw_document :: "ingest_ids \<Rightarrow> string \<Rightarrow> utext \<Rightarrow> int \<Rightarrow> knowledge_db \<Rightarrow> knowledge_db" where
  "raw_document ids base title now db = db\<lparr>documents := documents db @
     [\<lparr>kdId = iiDocument ids, kdBase = base, kdTitle = title, kdStatus = ING_RUNNING, kdCreatedAt = now\<rparr>]\<rparr>"

definition ingestTextDocument ::
    "unicode \<Rightarrow> (ingest_step \<Rightarrow> string option) \<Rightarrow> ingest_ids \<Rightarrow> int \<Rightarrow> string \<Rightarrow> utext \<Rightarrow> utext \<Rightarrow> knowledge_db
     \<Rightarrow> (string, string \<times> nat) result \<times> knowledge_db" where
  "ingestTextDocument u fails ids now base title content db =
     (let refused = (\<lambda>st n db. fails st \<noteq> None \<or> ids_taken ids st n db);
          reason = (\<lambda>st. or_default ''Unique constraint failed'' (fails st))
      in if refused CreateDocument 0 db then (Inl (reason CreateDocument), db)
         else
           (let db1 = raw_document ids base title now db
            in if refused CreateVersion 0 db1 then (Inl (reason CreateVersion), db1)
               else
                 (let db2 = add_version ids db1
                  in case ingest_chunks u content of
                       Inl e \<Rightarrow> (Inl e, db2)
                     | Inr cs \<Rightarrow>
                         if cs \<noteq> [] \<and> refused CreateChunks (length cs) db2 then (Inl (reason CreateChunks), db2)
                         else
                           (let db3 = add_chunks ids cs db2
                            in if fails MarkSucceeded \<noteq> None then (Inl (reason MarkSucceeded), db3)
                               else (Inr (iiDocument ids, length cs), mark_succeeded (iiDocument ids) db3)))))"

text \<open>
  The script: the documents whose title the base does not have yet, one after the other; it stops with the first
  failure. \<^verbatim>\<open>ids\<close> gives the fresh ids of each.
\<close>

definition base_titles :: "string \<Rightarrow> knowledge_db \<Rightarrow> utext list" where
  "base_titles base db = map kdTitle (filter (\<lambda>d. kdBase d = base) (documents db))"

fun provision_documents ::
    "unicode \<Rightarrow> (utext \<Rightarrow> ingest_step \<Rightarrow> string option) \<Rightarrow> (utext \<Rightarrow> ingest_ids) \<Rightarrow> int \<Rightarrow> string \<Rightarrow> utext list
     \<Rightarrow> (utext \<times> utext) list \<Rightarrow> knowledge_db \<Rightarrow> (string, utext list) result \<times> knowledge_db" where
  "provision_documents u fails ids now base already [] db = (Inr [], db)"
| "provision_documents u fails ids now base already ((title, content) # docs) db =
     (if title \<in> set already then provision_documents u fails ids now base already docs db
      else
        (case ingestTextDocument u (fails title) (ids title) now base title content db of
           (Inl e, db') \<Rightarrow> (Inl e, db')
         | (Inr _, db') \<Rightarrow>
             (case provision_documents u fails ids now base already docs db' of
                (Inl e, db'') \<Rightarrow> (Inl e, db'')
              | (Inr created, db'') \<Rightarrow> (Inr (title # created), db''))))"

subsection \<open>What they show\<close>

text \<open>The page and the routes read the same switch differently, and so do the two readings of the diarization's.\<close>

lemma voice_switch_disagrees: "\<not> boolish (Some ''0'') \<and> voice_route_on (Some ''0'')"
  by (simp add: boolish_def voice_route_on_def off_words_def js_text_defs)

lemma diarization_switch_disagrees:
  "boolishDefaultFalse (Some ''1'') \<and> \<not> diarization_on (Some ''1'') \<and> boolishDefaultFalse (Some [])"
  by (simp add: boolishDefaultFalse_def diarization_on_def off_words_def js_text_defs)

text \<open>A stage is entered exactly when every stage before it passed, and the start succeeds when all pass.\<close>

theorem bootstrap_stages:
  "fst (bootstrap fails ss) = (let ok = takeWhile (\<lambda>s. fails s = None) ss in take (Suc (length ok)) ss)"
  "snd (bootstrap fails ss) = Option.bind (find (\<lambda>s. fails s \<noteq> None) ss) fails"
  by (induction ss) (auto simp: Let_def case_prod_beta split: option.split)

text \<open>A registry that cannot be reconciled leaves the armed traces of the last run unarmed, and no key is made.\<close>

lemma failed_reconcile_skips:
  "fails RestoreDownloads = None \<Longrightarrow> fails ReconcileRegistry = Some e \<Longrightarrow>
   fst (bootstrap fails boot_order) = [RestoreDownloads, ReconcileRegistry]"
  by (simp add: boot_order_def)

lemma shutdown_once: "fst (shutdown (snd (shutdown b))) = []"
  by (simp add: shutdown_def)

text \<open>Heartbeats keep one row of the local node, with the latest facts.\<close>

lemma local_node_found: "rnName (local_node h now) = ''local-primary''"
  by (simp add: local_node_def)

theorem local_node_unique:
  assumes "unique_by rnName nodes"
  shows "unique_by rnName (ensureLocalNode h now nodes)
    \<and> (\<exists>n. table_find rnName ''local-primary'' (ensureLocalNode h now nodes) = Some n
         \<and> rnHostname n = hfHost h \<and> rnStatus n = ''ONLINE'' \<and> rnBeat n = now)"
proof (cases "table_find rnName ''local-primary'' nodes")
  case None
  then have "table_find rnName ''local-primary'' (nodes @ [local_node h now]) = Some (local_node h now)"
    using local_node_found by (rule table_find_append_same)
  moreover have "unique_by rnName (nodes @ [local_node h now])"
    using assms None by (simp add: unique_by_append local_node_found table_find_none_iff)
  ultimately show ?thesis using None by (simp add: ensureLocalNode_def local_node_def)
next
  case (Some n)
  have "unique_by rnName (map (\<lambda>n. if rnName n = ''local-primary'' then refreshed_node h now n else n) nodes)"
    using assms by (subst unique_by_update) (simp_all add: refreshed_node_def)
  moreover have "table_find rnName ''local-primary''
      (map (\<lambda>n. if rnName n = ''local-primary'' then refreshed_node h now n else n) nodes) = Some (refreshed_node h now n)"
    using Some by (induction nodes) (auto simp: table_find_def refreshed_node_def split: if_splits)
  ultimately show ?thesis using Some by (simp add: ensureLocalNode_def refreshed_node_def)
qed

text \<open>An ingestion of the scripts that fails leaves nothing a retrieval can see.\<close>

lemma raw_document_eq: "untitled title = title \<Longrightarrow> raw_document ids base title now = add_document ids base title now"
  by (simp add: raw_document_def add_document_def fun_eq_iff)

lemma raw_steps_unseen:
  assumes "table_find kdId (iiDocument ids) (documents db) = None" and "linked db"
  shows "unseen db (raw_document ids base title now db)"
    and "table_find dvId (iiVersion ids) (versions db) = None \<Longrightarrow>
      unseen db (add_version ids (raw_document ids base title now db))"
    and "table_find dvId (iiVersion ids) (versions db) = None \<Longrightarrow>
      unseen db (add_chunks ids cs (add_version ids (raw_document ids base title now db)))"
  using assms(1) unfolding unseen_def
  by (auto simp: raw_document_def add_version_def add_chunks_def chunk_row_of_def table_find_none_iff)

theorem failed_script_ingestion_unseen:
  assumes "ingestTextDocument u fails ids now base title content db = (Inl e, db')" and "linked db"
  shows "db' = db \<or> unseen db db'"
proof (cases "ids_taken ids CreateDocument 0 db")
  case True
  then show ?thesis using assms(1) by (simp add: ingestTextDocument_def Let_def split: if_splits)
next
  case False
  then have doc: "table_find kdId (iiDocument ids) (documents db) = None" by (simp add: ids_taken_def)
  note un = raw_steps_unseen [OF doc assms(2), where base = base and title = title and now = now]
  have free: "table_find dvId (iiVersion ids) (versions db) = None"
    if "\<not> ids_taken ids CreateVersion 0 (raw_document ids base title now db)"
    using that by (simp add: ids_taken_def raw_document_def)
  show ?thesis
    using assms(1) un(1) un(2,3) [OF free]
    by (auto simp: ingestTextDocument_def Let_def split: if_splits sum.splits)
qed

text \<open>Running the script again, with every title there, changes nothing.\<close>

lemma provisioned_again:
  "\<forall>(title, content) \<in> set docs. title \<in> set already \<Longrightarrow>
   provision_documents u fails ids now base already docs db = (Inr [], db)"
  by (induction docs) auto

text \<open>A document whose ingestion failed half-way has its title, so the script never repairs it.\<close>

lemma half_document_never_repaired:
  assumes "ingestTextDocument u (fails t) ids1 now base t content db = (Inl e, db')" and "db' \<noteq> db"
  shows "provision_documents u f' ids' later base (base_titles base db') [(t, content)] db' = (Inr [], db')"
proof -
  have title: "t \<in> set (base_titles base (raw_document ids1 base t now db))"
    by (simp add: base_titles_def raw_document_def)
  have same: "base_titles base (add_version ids1 x) = base_titles base x" "base_titles base (add_chunks ids1 cs x) = base_titles base x" for x cs
    by (simp_all add: base_titles_def add_version_def add_chunks_def)
  have "t \<in> set (base_titles base db')"
    using assms by (auto simp: ingestTextDocument_def Let_def title same split: if_splits sum.splits)
  then show ?thesis by simp
qed

end
