(* ===== verification/EngineRequests.thy ===== *)
theory EngineRequests
  imports EngineRegistry Streaming
begin

text \<open>
  What the engine sends and watches (\<^verbatim>\<open>engine/llamaServer.ts\<close>, \<^verbatim>\<open>engine/remoteOpenAi.ts\<close>): the payloads of a
  generation, the arguments and the start of a server process, the lock that joins concurrent loads of a
  model, the processor figure of the health page, and the batching of the chat's trace events
  (\<^verbatim>\<open>routes/v1.ts\<close>).
\<close>

subsection \<open>Payloads\<close>

record gen_request =
  grModel :: string
  grMessages :: "chat_message list"
  grTemperature :: rat
  grMaxTokens :: int
  grTopP :: rat
  grStop :: "string list"
  grStream :: bool
  grFormat :: "string option"

text \<open>Absent members of the JSON are \<^verbatim>\<open>None\<close> and \<^verbatim>\<open>False\<close>.\<close>

record gen_payload =
  gpModel :: string
  gpMessages :: "chat_message list"
  gpTemperature :: rat
  gpMaxTokens :: int
  gpTopP :: rat
  gpStop :: "string list option"
  gpStream :: bool
  gpUsage :: bool
  gpFormat :: "string option"
  gpNoReasoning :: bool

definition local_payload :: "gen_request \<Rightarrow> gen_payload" where
  "local_payload r = \<lparr>gpModel = grModel r, gpMessages = grMessages r, gpTemperature = grTemperature r,
     gpMaxTokens = grMaxTokens r, gpTopP = grTopP r, gpStop = (if grStop r = [] then None else Some (grStop r)),
     gpStream = grStream r, gpUsage = grStream r, gpFormat = grFormat r, gpNoReasoning = False\<rparr>"

definition disable_reasoning :: "string option \<Rightarrow> endpoint \<Rightarrow> bool" where
  "disable_reasoning setting e \<longleftrightarrow> setting \<noteq> Some ''0'' \<and> (epOpenRouter e \<or> setting = Some ''1'')"

definition remote_payload :: "string option \<Rightarrow> endpoint \<Rightarrow> gen_request \<Rightarrow> gen_payload" where
  "remote_payload setting e r = (local_payload r)\<lparr>gpModel := epUpstreamModel e,
     gpNoReasoning := (disable_reasoning setting e \<and> \<not> epGemini e)\<rparr>"

definition upstream_failed :: "string \<Rightarrow> int \<Rightarrow> string \<Rightarrow> string" where
  "upstream_failed who status body = who @ '' '' @ show_int status @ '': '' @ body"

definition local_http_error :: "int \<Rightarrow> string \<Rightarrow> engine_error" where
  "local_http_error status body = EngineError ''INTERNAL'' (upstream_failed ''llama-server'' status body)"

definition remote_http_error :: "int \<Rightarrow> string \<Rightarrow> remote_error" where
  "remote_http_error status body = remote_failure (upstream_failed ''Remote LLM'' status (take 800 body))"

subsection \<open>The server process\<close>

record server_env =
  svParallel :: "string option"
  svReasoning :: "string option"
  svFormat :: "string option"

text \<open>\<^verbatim>\<open>weights\<close> is the resolved path of the file.\<close>

definition server_args :: "server_env \<Rightarrow> string \<Rightarrow> load_request \<Rightarrow> bool \<Rightarrow> int \<Rightarrow> string list" where
  "server_args env weights req use_mmap port =
     [''-m'', weights, ''--host'', ''127.0.0.1'', ''--port'', show_int port,
      ''-c'', show_int (lrContextLength req), ''-t'', show_int (lrThreads req),
      ''--parallel'', or_default ''2'' (svParallel env),
      ''--reasoning'', or_default ''off'' (svReasoning env),
      ''--reasoning-format'', or_default ''none'' (svFormat env), ''--no-webui'']
     @ (if use_mmap then [] else [''--no-mmap''])"

text \<open>The last forty pieces of the error output.\<close>

definition push_stderr :: "string \<Rightarrow> string list \<Rightarrow> string list" where
  "push_stderr piece tail = (let t = tail @ [piece] in if length t > 40 then tl t else t)"

definition tail_chars :: "nat \<Rightarrow> string \<Rightarrow> string" where
  "tail_chars n s = drop (length s - n) s"

definition exit_error :: "string list \<Rightarrow> engine_error" where
  "exit_error tail = EngineError ''MODEL_UNAVAILABLE''
     (''llama-server exited during startup: '' @ tail_chars 400 (join '' '' tail))"

text \<open>
  The wait for the server, over what each turn of the loop sees: the time since its start, whether the process
  has ended, and whether it answers healthy. \<^verbatim>\<open>None\<close> is a wait that goes on.
\<close>

fun waitForHealth :: "int \<Rightarrow> string list \<Rightarrow> (int \<times> bool \<times> bool) list \<Rightarrow> (engine_error, unit) result option" where
  "waitForHealth timeoutMs tail [] = None"
| "waitForHealth timeoutMs tail ((elapsed, exited, ok) # turns) =
     (if elapsed \<ge> timeoutMs
      then Some (Inl (EngineError ''MODEL_UNAVAILABLE'' ''llama-server did not become healthy in time''))
      else if exited then Some (Inl (exit_error tail))
      else if ok then Some (Inr ()) else waitForHealth timeoutMs tail turns)"

fun turns_apart :: "int \<Rightarrow> (int \<times> bool \<times> bool) list \<Rightarrow> bool" where
  "turns_apart earliest [] = True"
| "turns_apart earliest ((t, _, _) # turns) = (earliest \<le> t \<and> turns_apart (t + 500) turns)"

subsection \<open>The lock of a load\<close>

text \<open>A load is known by its number; \<^verbatim>\<open>llRunning\<close> are the loads that have not ended.\<close>

record load_locks =
  llLocks :: "string \<rightharpoonup> nat"
  llRunning :: "(nat \<times> string) list"
  llNext :: nat

datatype lock_op = AskLoad string | LoadEnds nat

definition loadModel_locked :: "string \<Rightarrow> load_locks \<Rightarrow> nat \<times> load_locks" where
  "loadModel_locked m s =
     (case llLocks s m of
        Some p \<Rightarrow> (p, s)
      | None \<Rightarrow> (llNext s, s\<lparr>llLocks := (llLocks s)(m \<mapsto> llNext s), llRunning := llRunning s @ [(llNext s, m)],
                           llNext := Suc (llNext s)\<rparr>))"

definition load_ended :: "nat \<Rightarrow> load_locks \<Rightarrow> load_locks" where
  "load_ended p s =
     (case map_of (llRunning s) p of
        None \<Rightarrow> s
      | Some m \<Rightarrow> s\<lparr>llLocks := (if llLocks s m = Some p then (llLocks s)(m := None) else llLocks s),
                      llRunning := filter (\<lambda>(q, _). q \<noteq> p) (llRunning s)\<rparr>)"

definition lock_step :: "lock_op \<Rightarrow> load_locks \<Rightarrow> load_locks" where
  "lock_step op s = (case op of AskLoad m \<Rightarrow> snd (loadModel_locked m s) | LoadEnds p \<Rightarrow> load_ended p s)"

definition no_loads :: load_locks where
  "no_loads = \<lparr>llLocks = Map.empty, llRunning = [], llNext = 0\<rparr>"

subsection \<open>Health figures\<close>

text \<open>The sum over the processors of the idle time and of all times.\<close>

definition cpuSnapshot :: "(rat \<times> rat list) list \<Rightarrow> rat \<times> rat" where
  "cpuSnapshot cpus = (sum_list (map fst cpus), sum_list (map (\<lambda>(idle, others). idle + sum_list others) cpus))"

definition cpuUsagePercent :: "rat \<times> rat \<Rightarrow> rat \<times> rat \<Rightarrow> rat \<times> (rat \<times> rat)" where
  "cpuUsagePercent previous current =
     (let idle = fst current - fst previous; whole = snd current - snd previous
      in (if whole \<le> 0 then 0 else of_int (js_round (max 0 (1 - idle / whole) * 100 * 10)) / 10, current))"

subsection \<open>Trace events of a generation\<close>

record trace_count =
  tcChunks :: nat
  tcCharacters :: nat
  tcLastAt :: int

datatype delta_event = FirstToken int nat | TokenBatch nat nat int nat

definition approx_tokens :: "nat \<Rightarrow> nat" where
  "approx_tokens chars = nat (max 1 (js_round (of_nat chars / 4)))"

definition traceDelta :: "int \<Rightarrow> int \<Rightarrow> int \<Rightarrow> nat \<Rightarrow> trace_count \<Rightarrow> delta_event option \<times> trace_count" where
  "traceDelta started ttft now chars s =
     (let s1 = s\<lparr>tcChunks := Suc (tcChunks s), tcCharacters := tcCharacters s + chars\<rparr>
      in if tcChunks s1 = 1 then (Some (FirstToken ttft chars), s1\<lparr>tcLastAt := now\<rparr>)
         else if tcChunks s1 mod 16 = 0 \<or> now - tcLastAt s1 \<ge> 500
         then (Some (TokenBatch (tcChunks s1) (tcCharacters s1) (now - started) (approx_tokens (tcCharacters s1))),
               s1\<lparr>tcLastAt := now\<rparr>)
         else (None, s1))"

fun traced :: "int \<Rightarrow> int \<Rightarrow> (int \<times> nat) list \<Rightarrow> trace_count \<Rightarrow> delta_event list" where
  "traced started ttft [] s = []"
| "traced started ttft ((now, chars) # ds) s =
     (case traceDelta started ttft now chars s of
        (None, s') \<Rightarrow> traced started ttft ds s'
      | (Some e, s') \<Rightarrow> e # traced started ttft ds s')"

subsection \<open>What they show\<close>

text \<open>Gemini's endpoint never gets the reasoning switch, a local server never does, and the model is the endpoint's.\<close>

theorem gemini_no_reasoning:
  "epGemini e \<Longrightarrow> \<not> gpNoReasoning (remote_payload setting e r)"
  "gpModel (remote_payload setting e r) = epUpstreamModel e"
  "gpMaxTokens (remote_payload setting e r) = grMaxTokens r"
  by (simp_all add: remote_payload_def local_payload_def)

text \<open>Both backends ask for the token counts exactly when they stream.\<close>

lemma usage_asked: "gpUsage (local_payload r) = grStream r" "gpUsage (remote_payload setting e r) = grStream r"
  by (simp_all add: remote_payload_def local_payload_def)

lemma stderr_bounded: "length tail \<le> 40 \<Longrightarrow> length (push_stderr p tail) \<le> 40"
  by (simp add: push_stderr_def Let_def)

text \<open>A server listens to the host itself only.\<close>

lemma listens_locally: "take 4 (server_args env weights req mm port) = [''-m'', weights, ''--host'', ''127.0.0.1'']"
  by (simp add: server_args_def)

lemma health_apart:
  assumes "turns_apart earliest turns" "i < length turns"
  shows "earliest + 500 * int i \<le> fst (turns ! i)"
  using assms
proof (induction turns arbitrary: earliest i)
  case (Cons t turns)
  obtain a b c where t: "t = (a, b, c)" by (cases t)
  show ?case
  proof (cases i)
    case (Suc j)
    have "a + 500 + 500 * int j \<le> fst (turns ! j)" using Cons.prems t Suc by (intro Cons.IH) auto
    then show ?thesis using Suc Cons.prems t by simp
  qed (use Cons.prems t in simp)
qed simp

lemma health_ends: "timeoutMs \<le> fst t \<Longrightarrow> t \<in> set turns \<Longrightarrow> waitForHealth timeoutMs tail turns \<noteq> None"
  by (induction turns) auto

text \<open>The wait ends: after as many half seconds as the limit holds, at the latest.\<close>

theorem health_wait_ends:
  assumes "turns_apart 0 turns" and "timeoutMs \<le> 500 * int k" and "k < length turns"
  shows "waitForHealth timeoutMs tail turns \<noteq> None"
proof -
  have "timeoutMs \<le> fst (turns ! k)" using health_apart [OF assms(1,3)] assms(2) by simp
  then show ?thesis using health_ends assms(3) by (meson nth_mem)
qed

text \<open>The load lock: one running load per model, whose number every later request gets.\<close>

definition lock_inv :: "load_locks \<Rightarrow> bool" where
  "lock_inv s \<longleftrightarrow> distinct (map fst (llRunning s)) \<and> distinct (map snd (llRunning s))
     \<and> (\<forall>(p, m) \<in> set (llRunning s). p < llNext s)
     \<and> (\<forall>p m. (p, m) \<in> set (llRunning s) \<longleftrightarrow> llLocks s m = Some p)"

lemma lock_ask:
  assumes inv: "lock_inv s"
  shows "lock_inv (snd (loadModel_locked m s))"
proof (cases "llLocks s m")
  case None
  have fresh: "llNext s \<notin> fst ` set (llRunning s)" using inv by (fastforce simp: lock_inv_def)
  have free: "m \<notin> snd ` set (llRunning s)" using inv None by (fastforce simp: lock_inv_def)
  have run: "(p, n) \<in> set (llRunning s) \<longleftrightarrow> llLocks s n = Some p" for p n using inv by (simp add: lock_inv_def)
  have small: "p < Suc (llNext s)" if "(p, n) \<in> set (llRunning s)" for p n using inv that unfolding lock_inv_def by (metis (no_types, lifting) case_prodD less_SucI)
  have "distinct (map fst (llRunning s @ [(llNext s, m)]))" "distinct (map snd (llRunning s @ [(llNext s, m)]))"
    using inv fresh free by (simp_all add: lock_inv_def)
  moreover have "(p, n) \<in> set (llRunning s @ [(llNext s, m)]) \<longleftrightarrow> ((llLocks s)(m \<mapsto> llNext s)) n = Some p" for p n
    using run [of p n] None free by (cases "n = m") auto
  ultimately show ?thesis
    using None small by (auto simp: lock_inv_def loadModel_locked_def)
next
  case (Some p)
  then show ?thesis using inv by (simp add: loadModel_locked_def)
qed

lemma map_snd_filter: "distinct (map snd xs) \<Longrightarrow> distinct (map snd (filter P xs))"
  by (induction xs) auto

lemma map_fst_filter: "distinct (map fst xs) \<Longrightarrow> distinct (map fst (filter P xs))"
  by (induction xs) auto

lemma lock_end:
  assumes "lock_inv s"
  shows "lock_inv (load_ended p s)"
proof (cases "map_of (llRunning s) p")
  case None
  then show ?thesis using assms by (simp add: load_ended_def)
next
  case (Some m)
  then have m: "(p, m) \<in> set (llRunning s)" by (rule map_of_SomeD)
  then have lk: "llLocks s m = Some p" using assms by (simp add: lock_inv_def)
  have d: "distinct (map fst (llRunning s))" using assms by (simp add: lock_inv_def)
  have uniq: "q = p \<longleftrightarrow> n = m" if "(q, n) \<in> set (llRunning s)" for q n
  proof -
    have "llLocks s n = Some q" using that assms by (simp add: lock_inv_def)
    moreover have "n = m" if "q = p" using \<open>(q, n) \<in> set (llRunning s)\<close> Some d that by (simp add: map_of_is_SomeI)
    ultimately show ?thesis using lk by auto
  qed
  have "load_ended p s = s\<lparr>llLocks := (llLocks s)(m := None), llRunning := filter (\<lambda>(q, _). q \<noteq> p) (llRunning s)\<rparr>"
    using Some lk by (simp add: load_ended_def)
  then show ?thesis
    using assms uniq by (auto simp: lock_inv_def map_snd_filter map_fst_filter)
qed

interpretation load_lock: invariant_system lock_step lock_inv no_loads
proof
  show "lock_inv no_loads" by (simp add: lock_inv_def no_loads_def)
next
  fix s op
  assume "lock_inv s"
  then show "lock_inv (lock_step op s)"
    by (cases op) (simp_all add: lock_step_def lock_ask lock_end)
qed

theorem one_load_per_model:
  assumes "s = fold lock_step ops no_loads" and "(p, m) \<in> set (llRunning s)"
  shows "loadModel_locked m s = (p, s)"
    and "(q, m) \<in> set (llRunning s) \<Longrightarrow> q = p"
proof -
  have inv: "lock_inv s" unfolding assms(1) by (rule load_lock.reachable_inv)
  then have lk: "llLocks s m = Some p" using assms(2) by (simp add: lock_inv_def)
  then show "loadModel_locked m s = (p, s)" by (simp add: loadModel_locked_def)
  show "q = p" if "(q, m) \<in> set (llRunning s)"
    using that inv lk by (simp add: lock_inv_def)
qed

text \<open>The processor figure is between 0 and 100 when idle time grows no faster than all time.\<close>

lemma cpu_percent_bounds:
  assumes "fst previous \<le> fst current"
  shows "0 \<le> fst (cpuUsagePercent previous current) \<and> fst (cpuUsagePercent previous current) \<le> 100"
proof -
  let ?idle = "fst current - fst previous" and ?whole = "snd current - snd previous"
  have "0 \<le> js_round (max 0 x * 100 * 10)" for x :: rat
    unfolding js_round_def by (simp add: zero_le_floor max_def)
  moreover have "js_round (max 0 (1 - ?idle / ?whole) * 100 * 10) \<le> 1000" if "0 < ?whole"
  proof -
    have "0 \<le> ?idle / ?whole" using assms that by simp
    then have "max 0 (1 - ?idle / ?whole) * 100 * 10 \<le> 1000" by (simp add: max_def)
    then have "max 0 (1 - ?idle / ?whole) * 100 * 10 + 1 / 2 < 1000 + 1" by linarith
    then show ?thesis unfolding js_round_def by linarith
  qed
  ultimately show ?thesis
    by (auto simp: cpuUsagePercent_def Let_def)
qed

text \<open>
  A generation writes few trace events: the first, one per sixteen chunks and one per half second.
\<close>

lemma div_step: "(500::int) \<le> b - a \<Longrightarrow> (c - b) div 500 + 1 \<le> (c - a) div 500"
  by linarith

lemma delta_written:
  assumes "tcChunks s \<noteq> 0" and "Suc (tcChunks s) mod 16 = 0 \<or> 500 \<le> now - tcLastAt s"
  shows "\<exists>e. traceDelta started ttft now chars s =
    (Some e, s\<lparr>tcChunks := Suc (tcChunks s), tcCharacters := tcCharacters s + chars, tcLastAt := now\<rparr>)"
proof -
  have "Suc (tcChunks s) \<noteq> 1" using assms(1) by simp
  then show ?thesis using assms(2) unfolding traceDelta_def Let_def by (simp split del: if_split)
qed

lemma delta_silent:
  assumes "tcChunks s \<noteq> 0" and "\<not> (Suc (tcChunks s) mod 16 = 0 \<or> 500 \<le> now - tcLastAt s)"
  shows "traceDelta started ttft now chars s =
    (None, s\<lparr>tcChunks := Suc (tcChunks s), tcCharacters := tcCharacters s + chars\<rparr>)"
proof -
  have "Suc (tcChunks s) \<noteq> 1" using assms(1) by simp
  then show ?thesis using assms(2) unfolding traceDelta_def Let_def by (simp split del: if_split)
qed

lemma batch_events_bounded:
  assumes "tcChunks s \<ge> 1" "sorted (tcLastAt s # map fst ds @ [finish])"
  shows "int (length (traced started ttft ds s))
    \<le> int ((tcChunks s + length ds) div 16) - int (tcChunks s div 16) + (finish - tcLastAt s) div 500"
  using assms
proof (induction ds arbitrary: s)
  case Nil
  then show ?case by (simp add: pos_imp_zdiv_nonneg_iff)
next
  case (Cons d ds)
  obtain now chars where d: "d = (now, chars)" by (cases d)
  define s1 where "s1 = s\<lparr>tcChunks := Suc (tcChunks s), tcCharacters := tcCharacters s + chars\<rparr>"
  have srt: "sorted (now # map fst ds @ [finish])" "tcLastAt s \<le> now" "now \<le> finish" using Cons.prems(2) d by auto
  have mono: "(finish - now) div 500 \<le> (finish - tcLastAt s) div 500"
    using srt(2) by (intro zdiv_mono1) auto
  have ih_now: "int (length (traced started ttft ds (s1\<lparr>tcLastAt := now\<rparr>)))
      \<le> int ((tcChunks s + length (d # ds)) div 16) - int (Suc (tcChunks s) div 16) + (finish - now) div 500"
    using Cons.IH [of "s1\<lparr>tcLastAt := now\<rparr>"] srt(1) by (simp add: s1_def)
  have ih_same: "int (length (traced started ttft ds s1))
      \<le> int ((tcChunks s + length (d # ds)) div 16) - int (Suc (tcChunks s) div 16) + (finish - tcLastAt s) div 500"
    using Cons.IH [of s1] Cons.prems(2) d by (simp add: s1_def)
  have div_le: "tcChunks s div 16 \<le> Suc (tcChunks s) div 16" by (rule div_le_mono) simp
  have head: "tcChunks s \<noteq> 0" using Cons.prems(1) by simp
  consider (batch) "Suc (tcChunks s) mod 16 = 0" | (time) "Suc (tcChunks s) mod 16 \<noteq> 0" "500 \<le> now - tcLastAt s"
    | (none) "Suc (tcChunks s) mod 16 \<noteq> 0" "now - tcLastAt s < 500" by linarith
  then show ?case
  proof cases
    case batch
    have "Suc (tcChunks s) div 16 = Suc (tcChunks s div 16)" using batch by (simp add: div_Suc)
    moreover have "length (traced started ttft (d # ds) s) = Suc (length (traced started ttft ds (s1\<lparr>tcLastAt := now\<rparr>)))"
      using delta_written [where now = now and started = started and ttft = ttft and chars = chars, OF head disjI1 [OF batch]] d by (auto simp: s1_def)
    ultimately show ?thesis using ih_now mono by linarith
  next
    case time
    have "length (traced started ttft (d # ds) s) = Suc (length (traced started ttft ds (s1\<lparr>tcLastAt := now\<rparr>)))"
      using delta_written [where now = now and started = started and ttft = ttft and chars = chars, OF head disjI2 [OF time(2)]] d by (auto simp: s1_def)
    then show ?thesis using ih_now div_step [OF time(2), of finish] div_le by linarith
  next
    case none
    have "length (traced started ttft (d # ds) s) = length (traced started ttft ds s1)"
      using delta_silent [where now = now and started = started and ttft = ttft and chars = chars, OF head] none d by (simp add: s1_def)
    then show ?thesis using ih_same div_le by linarith
  qed
qed

theorem trace_events_bounded:
  assumes "sorted (started # map fst ds @ [finish])"
  shows "int (length (traced started ttft ds \<lparr>tcChunks = 0, tcCharacters = 0, tcLastAt = started\<rparr>))
    \<le> 1 + int (length ds div 16) + (finish - started) div 500"
proof (cases ds)
  case Nil
  then show ?thesis using assms by (simp add: pos_imp_zdiv_nonneg_iff)
next
  case (Cons d rest)
  obtain now chars where d: "d = (now, chars)" by (cases d)
  let ?s = "\<lparr>tcChunks = 1, tcCharacters = chars, tcLastAt = now\<rparr>"
  have "int (length (traced started ttft rest ?s)) \<le> int (Suc (length rest) div 16) + (finish - now) div 500"
    using batch_events_bounded [of ?s rest finish started ttft] assms Cons d by simp
  moreover have "(finish - now) div 500 \<le> (finish - started) div 500"
    using assms Cons d by (intro zdiv_mono1) auto
  ultimately show ?thesis using Cons d by (simp add: traceDelta_def)
qed

end
