(* ===== verification/Redaction.thy ===== *)
theory Redaction
  imports Prelude
begin

text \<open>
  Redaction of personal data before a prompt reaches a model (\<^verbatim>\<open>packages/platform/src/pii.ts\<close>): a backtracking
  matcher for the regular expressions of the rules, and the replacement of all matches of each rule.
\<close>

subsection \<open>Regular expressions\<close>

text \<open>
  What the rules use: a class of characters, an assertion about the characters on both sides of a
  position (\<^verbatim>\<open>\b\<close> and the look-arounds, all one character wide), sequence, and greedy repetition.
\<close>

datatype rx =
    Cls "char \<Rightarrow> bool"
  | Edge "char option \<Rightarrow> char option \<Rightarrow> bool"
  | Then rx rx
  | Times rx nat nat

definition next_char :: "string \<Rightarrow> char option" where
  "next_char s = (case s of [] \<Rightarrow> None | c # _ \<Rightarrow> Some c)"

text \<open>
  The positions at which an expression can end, in the order in which backtracking tries them; a
  position is the character before it and the text after it. The first one is the match.
\<close>

fun rx_times :: "(char option \<Rightarrow> string \<Rightarrow> (char option \<times> string) list) \<Rightarrow> nat \<Rightarrow> nat \<Rightarrow> char option \<Rightarrow> string
    \<Rightarrow> (char option \<times> string) list" where
  "rx_times f lo 0 p s = (if lo = 0 then [(p, s)] else [])"
| "rx_times f lo (Suc hi) p s =
     concat (map (\<lambda>(p', s'). rx_times f (lo - 1) hi p' s') (f p s)) @ (if lo = 0 then [(p, s)] else [])"

fun ends :: "rx \<Rightarrow> char option \<Rightarrow> string \<Rightarrow> (char option \<times> string) list" where
  "ends (Cls f) p s = (case s of [] \<Rightarrow> [] | c # s' \<Rightarrow> if f c then [(Some c, s')] else [])"
| "ends (Edge e) p s = (if e p (next_char s) then [(p, s)] else [])"
| "ends (Then a b) p s = concat (map (\<lambda>(p', s'). ends b p' s') (ends a p s))"
| "ends (Times a lo hi) p s = rx_times (ends a) lo hi p s"

text \<open>
  \<^verbatim>\<open>match\<close> and \<^verbatim>\<open>replace\<close> with the global flag: the number of matches, from the left and without overlap,
  and the text with each of them replaced. The rules match no empty text.
\<close>

function replace_all :: "rx \<Rightarrow> string \<Rightarrow> char option \<Rightarrow> string \<Rightarrow> nat \<times> string" where
  "replace_all r tok p [] = (0, [])"
| "replace_all r tok p (c # s) =
     (case ends r p (c # s) of
        (p', s') # _ \<Rightarrow>
          if length s' < length (c # s) then (let (n, out) = replace_all r tok p' s' in (Suc n, tok @ out))
          else (let (n, out) = replace_all r tok (Some c) s in (n, c # out))
      | [] \<Rightarrow> (let (n, out) = replace_all r tok (Some c) s in (n, c # out)))"
  by pat_completeness auto
termination by (relation "measure (\<lambda>(r, tok, p, s). length s)") auto

subsection \<open>The rules\<close>

definition is_alpha :: "char \<Rightarrow> bool" where
  "is_alpha c \<longleftrightarrow> is_lower c \<or> is_upper c"

definition w_char :: "char \<Rightarrow> bool" where
  "w_char c \<longleftrightarrow> is_alpha c \<or> is_digit c \<or> c = CHR ''_''"

definition holds :: "(char \<Rightarrow> bool) \<Rightarrow> char option \<Rightarrow> bool" where
  "holds f o' = (case o' of None \<Rightarrow> False | Some c \<Rightarrow> f c)"

definition one_of :: "string \<Rightarrow> char \<Rightarrow> bool" where
  "one_of s c \<longleftrightarrow> c \<in> set s"

definition opt :: "rx \<Rightarrow> rx" where
  "opt r = Times r 0 1"

definition word_boundary :: rx where
  "word_boundary = Edge (\<lambda>p n. holds w_char p \<noteq> holds w_char n)"

definition card_core :: rx where
  "card_core = Then (Times (Then (Cls is_digit) (opt (Cls (one_of '' -'')))) 12 18) (Cls is_digit)"

definition card_rx :: rx where
  "card_rx = Then (Edge (\<lambda>p n. \<not> holds is_digit p)) (Then card_core (Edge (\<lambda>p n. \<not> holds is_digit n)))"

text \<open>An unbounded repetition is bounded by the length of the text, as each round takes a character.\<close>

definition email_rx :: "nat \<Rightarrow> rx" where
  "email_rx n =
     Then word_boundary
    (Then (Times (Cls (\<lambda>c. is_alpha c \<or> is_digit c \<or> one_of ''._%+-'' c)) 1 n)
    (Then (Cls (one_of ''@''))
    (Then (Times (Cls (\<lambda>c. is_alpha c \<or> is_digit c \<or> one_of ''.-'' c)) 1 n)
    (Then (Cls (one_of ''.''))
    (Then (Times (Cls is_alpha) 2 n) word_boundary)))))"

definition phone_rx :: rx where
  "phone_rx =
     Then (Edge (\<lambda>p n. \<not> holds (\<lambda>c. w_char c \<or> c = CHR ''+'') p))
    (Then (opt (Then (opt (Cls (one_of ''+''))) (Then (Times (Cls is_digit) 1 3) (opt (Cls (one_of '' .-''))))))
    (Then (opt (Then (Cls (one_of ''('')) (Then (Times (Cls is_digit) 2 4) (Then (Cls (one_of '')'')) (opt (Cls (one_of '' .-'')))))))
    (Then (Cls is_digit)
    (Then (Times (Then (opt (Cls (one_of '' .-''))) (Cls is_digit)) 6 11)
          (Edge (\<lambda>p n. \<not> holds w_char n))))))"

definition pii_rules :: "string \<Rightarrow> (string \<times> rx \<times> string) list" where
  "pii_rules s =
     [(''credit_card'', card_rx, ''[REDACTED_CREDIT_CARD]''), (''email'', email_rx (length s), ''[REDACTED_EMAIL]''),
      (''phone'', phone_rx, ''[REDACTED_PHONE]'')]"

text \<open>One rule, and the loop; the bound of a repetition is that of the text the rule is given.\<close>

definition apply_rule :: "nat \<Rightarrow> string \<times> (string \<times> int) list \<Rightarrow> string \<times> (string \<times> int) list" where
  "apply_rule k st =
     (let (ruleId, r, tok) = pii_rules (fst st) ! k; (n, out) = replace_all r tok None (fst st)
      in if n = 0 then st else (out, snd st @ [(ruleId, int n)]))"

definition LocalPii_redact :: "string \<Rightarrow> string \<times> (string \<times> int) list" where
  "LocalPii_redact s = fold apply_rule [0, 1, 2] (s, [])"

end
