(* ===== verification/RedactionProps.thy ===== *)
theory RedactionProps
  imports Redaction RoutingProps
begin

text \<open>
  The matcher finds what the expressions denote, and after the redaction of a text no card number is
  left in it, so none reaches a model through the policy router.
\<close>

subsection \<open>What an expression denotes\<close>

definition last_char :: "char option \<Rightarrow> string \<Rightarrow> char option" where
  "last_char p v = (if v = [] then p else Some (last v))"

lemma last_char_simps [simp]:
  "last_char p [] = p" "last_char p (v @ [c]) = Some c" "last_char p (v @ w) = last_char (last_char p v) w"
  "last_char p (c # v) = last_char (Some c) v"
  by (auto simp: last_char_def)

text \<open>\<^verbatim>\<open>denotes r p u t\<close>: the expression can take the text \<^verbatim>\<open>u\<close> that stands between \<^verbatim>\<open>p\<close> and \<^verbatim>\<open>t\<close>.\<close>

fun denotes_times :: "(char option \<Rightarrow> string \<Rightarrow> string \<Rightarrow> bool) \<Rightarrow> nat \<Rightarrow> nat \<Rightarrow> char option \<Rightarrow> string \<Rightarrow> string \<Rightarrow> bool" where
  "denotes_times f lo 0 p u t \<longleftrightarrow> lo = 0 \<and> u = []"
| "denotes_times f lo (Suc hi) p u t \<longleftrightarrow> lo = 0 \<and> u = []
     \<or> (\<exists>v w. u = v @ w \<and> f p v (w @ t) \<and> denotes_times f (lo - 1) hi (last_char p v) w t)"

fun denotes :: "rx \<Rightarrow> char option \<Rightarrow> string \<Rightarrow> string \<Rightarrow> bool" where
  "denotes (Cls f) p u t \<longleftrightarrow> (\<exists>c. u = [c] \<and> f c)"
| "denotes (Edge e) p u t \<longleftrightarrow> u = [] \<and> e p (next_char t)"
| "denotes (Then a b) p u t \<longleftrightarrow> (\<exists>v w. u = v @ w \<and> denotes a p v (w @ t) \<and> denotes b (last_char p v) w t)"
| "denotes (Times a lo hi) p u t \<longleftrightarrow> denotes_times (denotes a) lo hi p u t"

definition reaches :: "(char option \<Rightarrow> string \<Rightarrow> (char option \<times> string) list)
    \<Rightarrow> (char option \<Rightarrow> string \<Rightarrow> string \<Rightarrow> bool) \<Rightarrow> bool" where
  "reaches f d \<longleftrightarrow> (\<forall>p s p' s'. (p', s') \<in> set (f p s) \<longleftrightarrow> (\<exists>u. s = u @ s' \<and> p' = last_char p u \<and> d p u s'))"

lemma reachesD:
  "reaches f d \<Longrightarrow> (p', s') \<in> set (f p s) \<longleftrightarrow> (\<exists>u. s = u @ s' \<and> p' = last_char p u \<and> d p u s')"
  by (simp add: reaches_def)

text \<open>One after the other; the second starts where the first ends.\<close>

lemma reaches_sequence:
  assumes f: "reaches f d" and g: "reaches g e"
  shows "(\<exists>x \<in> set (f p s). (p', s') \<in> set (g (fst x) (snd x)))
    \<longleftrightarrow> (\<exists>u. s = u @ s' \<and> p' = last_char p u \<and> (\<exists>v w. u = v @ w \<and> d p v (w @ s') \<and> e (last_char p v) w s'))"
    (is "?L \<longleftrightarrow> ?R")
proof
  assume ?L
  then obtain q r where "(q, r) \<in> set (f p s)" "(p', s') \<in> set (g q r)" by auto
  then obtain v w where "s = v @ r" "q = last_char p v" "d p v r" "r = w @ s'" "p' = last_char q w" "e q w s'"
    unfolding reachesD [OF f] reachesD [OF g] by blast
  then show ?R by (intro exI [of _ "v @ w"]) auto
next
  assume ?R
  then obtain v w where vw: "s = v @ w @ s'" "p' = last_char (last_char p v) w" "d p v (w @ s')" "e (last_char p v) w s'"
    by auto
  then have "(last_char p v, w @ s') \<in> set (f p s)" unfolding reachesD [OF f] by (intro exI [of _ v]) simp
  moreover have "(p', s') \<in> set (g (last_char p v) (w @ s'))" unfolding reachesD [OF g] using vw by (intro exI [of _ w]) simp
  ultimately show ?L by force
qed

lemma times_reaches:
  assumes "reaches f d"
  shows "reaches (rx_times f lo hi) (denotes_times d lo hi)"
proof (induction hi arbitrary: lo)
  case 0
  then show ?case by (auto simp: reaches_def)
next
  case (Suc hi)
  have "(p', s') \<in> set (rx_times f lo (Suc hi) p s)
      \<longleftrightarrow> (\<exists>x \<in> set (f p s). (p', s') \<in> set (rx_times f (lo - 1) hi (fst x) (snd x))) \<or> lo = 0 \<and> p' = p \<and> s' = s" for p s p' s'
    by (auto simp: case_prod_beta)
  then show ?case
    unfolding reaches_def reaches_sequence [OF assms Suc] denotes_times.simps by auto
qed

lemma then_reaches:
  assumes "reaches (ends a) (denotes a)" and "reaches (ends b) (denotes b)"
  shows "reaches (ends (Then a b)) (denotes (Then a b))"
proof -
  have "(p', s') \<in> set (ends (Then a b) p s) \<longleftrightarrow> (\<exists>x \<in> set (ends a p s). (p', s') \<in> set (ends b (fst x) (snd x)))" for p s p' s'
    by (auto simp: case_prod_beta)
  then show ?thesis unfolding reaches_def reaches_sequence [OF assms] denotes.simps by simp
qed

text \<open>
  The backtracking matcher is sound and complete: the positions it can end at are exactly the ends of
  the texts the expression denotes at that place.
\<close>

lemma matcher_finds_denoted:
  "(p', s') \<in> set (ends r p s) \<longleftrightarrow> (\<exists>u. s = u @ s' \<and> p' = last_char p u \<and> denotes r p u s')"
proof -
  have "reaches (ends r) (denotes r)"
  proof (induction r)
    case (Cls f)
    show ?case by (auto simp: reaches_def split: list.splits)
  next
    case (Edge e)
    show ?case by (auto simp: reaches_def)
  next
    case (Then a b)
    then show ?case by (rule then_reaches)
  next
    case (Times a lo hi)
    then show ?case using times_reaches [of "ends a" "denotes a" lo hi] by (simp add: reaches_def)
  qed
  then show ?thesis by (simp add: reaches_def)
qed

subsection \<open>Card numbers\<close>

fun edge_free :: "rx \<Rightarrow> bool" where
  "edge_free (Cls f) = True"
| "edge_free (Edge e) = False"
| "edge_free (Then a b) = (edge_free a \<and> edge_free b)"
| "edge_free (Times a lo hi) = edge_free a"

lemma times_context:
  assumes "\<And>p u t q r. f p u t = f q u r"
  shows "denotes_times f lo hi p u t = denotes_times f lo hi q u r"
proof (induction hi arbitrary: lo p u t q r)
  case (Suc hi)
  have "f p v (w @ t) = f q v (w @ r)" for v w by (rule assms)
  moreover have "denotes_times f (lo - 1) hi (last_char p v) w t = denotes_times f (lo - 1) hi (last_char q v) w r" for v w
    by (rule Suc)
  ultimately show ?case unfolding denotes_times.simps by (simp only:)
qed simp

lemma edge_free_context: "edge_free r \<Longrightarrow> denotes r p u t = denotes r q u t'"
proof (induction r arbitrary: p u t q t')
  case (Then a b)
  have "denotes a p v (w @ t) = denotes a q v (w @ t')" for v w using Then by simp
  moreover have "denotes b (last_char p v) w t = denotes b (last_char q v) w t'" for v w using Then by simp
  ultimately show ?case unfolding denotes.simps by (simp only:)
next
  case (Times a lo hi)
  then show ?case by (simp add: times_context [of "denotes a"])
qed simp_all

definition card_text :: "string \<Rightarrow> bool" where
  "card_text u \<longleftrightarrow> denotes card_core None u []"

definition card_char :: "char \<Rightarrow> bool" where
  "card_char c \<longleftrightarrow> is_digit c \<or> one_of '' -'' c"

lemma card_rx_iff:
  "denotes card_rx p u t \<longleftrightarrow> \<not> holds is_digit p \<and> card_text u \<and> \<not> holds is_digit (next_char t)"
proof -
  have "edge_free card_core" by (simp add: card_core_def opt_def)
  from edge_free_context [OF this] have "denotes card_core q v r = card_text v" for q v r by (simp add: card_text_def)
  then show ?thesis by (auto simp: card_rx_def)
qed

lemma times_groups:
  assumes "\<And>p v t. f p v t \<Longrightarrow> v \<noteq> [] \<and> is_digit (hd v) \<and> list_all card_char v"
    and "denotes_times f lo hi p u t"
  shows "list_all card_char u \<and> (u \<noteq> [] \<longrightarrow> is_digit (hd u))"
  using assms(2)
proof (induction hi arbitrary: lo p u)
  case (Suc hi)
  from Suc.prems consider "u = []" | v w where "u = v @ w" "f p v (w @ t)" "denotes_times f (lo - 1) hi (last_char p v) w t" by auto
  then show ?case
  proof cases
    case 2
    from assms(1) [OF 2(2)] Suc.IH [OF 2(3)] 2(1) show ?thesis by simp
  qed simp
qed simp

lemma card_group:
  "denotes (Then (Cls is_digit) (opt (Cls (one_of '' -'')))) p v t \<Longrightarrow> v \<noteq> [] \<and> is_digit (hd v) \<and> list_all card_char v"
  by (auto simp: opt_def card_char_def)

lemma card_text_shape:
  assumes "card_text u"
  shows "u \<noteq> [] \<and> is_digit (hd u) \<and> is_digit (last u) \<and> list_all card_char u"
proof -
  from assms obtain v c where "u = v @ [c]" "is_digit c"
    "denotes_times (denotes (Then (Cls is_digit) (opt (Cls (one_of '' -''))))) 12 18 None v [c]"
    unfolding card_text_def card_core_def by (auto simp del: denotes_times.simps)
  moreover from times_groups [OF card_group this(3)] have "list_all card_char v \<and> (v \<noteq> [] \<longrightarrow> is_digit (hd v))" .
  ultimately show ?thesis by (cases v) (auto simp: card_char_def)
qed

subsection \<open>No card number is left\<close>

text \<open>A card number stands at the beginning of a text, or anywhere in it.\<close>

definition card_at :: "char option \<Rightarrow> string \<Rightarrow> bool" where
  "card_at p s \<longleftrightarrow> ends card_rx p s \<noteq> []"

fun no_card :: "char option \<Rightarrow> string \<Rightarrow> bool" where
  "no_card p [] = True"
| "no_card p (c # s) = (\<not> card_at p (c # s) \<and> no_card (Some c) s)"

lemma card_at_iff:
  "card_at p s \<longleftrightarrow> \<not> holds is_digit p \<and> (\<exists>u t. s = u @ t \<and> card_text u \<and> \<not> holds is_digit (next_char t))"
proof -
  have "card_at p s \<longleftrightarrow> (\<exists>q t. (q, t) \<in> set (ends card_rx p s))" by (cases "ends card_rx p s") (auto simp: card_at_def)
  then show ?thesis unfolding matcher_finds_denoted card_rx_iff by auto
qed

text \<open>
  What a rule needs so that replacing its matches cannot put two pieces together to a card number: a match
  takes a character and neither starts nor ends between two digits.
\<close>

definition safe_rule :: "rx \<Rightarrow> bool" where
  "safe_rule r \<longleftrightarrow> (\<forall>p s p' s'. (p', s') \<in> set (ends r p s) \<longrightarrow> length s' < length s \<and>
     \<not> (holds is_digit p \<and> holds is_digit (next_char s)) \<and> \<not> (holds is_digit p' \<and> holds is_digit (next_char s')))"

fun covered :: "rx \<Rightarrow> char option \<Rightarrow> string \<Rightarrow> bool" where
  "covered r p [] = True"
| "covered r p (c # s) = ((ends r p (c # s) = [] \<longrightarrow> \<not> card_at p (c # s)) \<and> covered r (Some c) s)"

lemma covered_suffix: "covered r p (u @ s) \<Longrightarrow> covered r (last_char p u) s"
  by (induction u arbitrary: p) auto

lemma covered_by_card: "covered card_rx p s"
  by (induction s arbitrary: p) (auto simp: card_at_def)

lemma covered_if_none: "no_card p s \<Longrightarrow> covered r p s"
  by (induction s arbitrary: p) auto

abbreviation replaced :: "rx \<Rightarrow> string \<Rightarrow> char option \<Rightarrow> string \<Rightarrow> string" where
  "replaced r tok p s \<equiv> snd (replace_all r tok p s)"

lemma replaced_cases:
  assumes "safe_rule r"
  obtains (hit) p' s' where "(p', s') \<in> set (ends r p (c # s))" "length s' < length (c # s)"
      "replaced r tok p (c # s) = tok @ replaced r tok p' s'"
  | (skip) "ends r p (c # s) = []" "replaced r tok p (c # s) = c # replaced r tok (Some c) s"
proof (cases "ends r p (c # s)")
  case Nil
  then show ?thesis by (intro skip) (simp_all add: case_prod_beta)
next
  case (Cons x xs)
  obtain p' s' where x: "x = (p', s')" by (cases x)
  then have "(p', s') \<in> set (ends r p (c # s))" using Cons by simp
  moreover from this assms have "length s' < length (c # s)" unfolding safe_rule_def by blast
  ultimately show ?thesis using Cons x by (intro hit) (simp_all add: case_prod_beta)
qed

text \<open>A run of card characters at the beginning of the result was there before, with the same kind of end.\<close>

lemma replaced_prefix:
  assumes "safe_rule r" and "tok = b # tok'" and "\<not> card_char b"
    and "replaced r tok p s = v @ t" and "list_all card_char v"
  shows "\<exists>t'. s = v @ t' \<and> (holds is_digit (last_char p v) \<and> holds is_digit (next_char t') \<longrightarrow> holds is_digit (next_char t))"
  using assms(4,5)
proof (induction v arbitrary: p s)
  case Nil
  show ?case
  proof (cases s)
    case (Cons c s1)
    from assms(1) show ?thesis
    proof (cases rule: replaced_cases [of r p c s1 tok])
      case (hit p' s')
      then have "\<not> (holds is_digit p \<and> holds is_digit (next_char s))"
        using assms(1) Cons unfolding safe_rule_def by blast
      then show ?thesis by auto
    next
      case skip
      then have "t = c # replaced r tok (Some c) s1" using Nil Cons by (simp del: replace_all.simps)
      then show ?thesis using Cons by (simp add: next_char_def)
    qed
  qed (simp add: next_char_def holds_def)
next
  case (Cons a v)
  then obtain c s1 where s: "s = c # s1" by (cases s) auto
  from assms(1) show ?case
  proof (cases rule: replaced_cases [of r p c s1 tok])
    case (hit p' s')
    then show ?thesis using Cons.prems assms(2,3) s by simp
  next
    case skip
    then have "c # replaced r tok (Some c) s1 = a # v @ t" using Cons.prems(1) s by (metis append_Cons)
    then have "c = a" "replaced r tok (Some c) s1 = v @ t" unfolding list.inject by blast+
    with Cons.IH [of "Some c" s1] Cons.prems(2) s show ?thesis by auto
  qed
qed

lemma no_card_token:
  assumes "list_all (\<lambda>c. \<not> is_digit c) tok" and "tok \<noteq> []" and "\<And>q. \<not> holds is_digit q \<Longrightarrow> no_card q out"
  shows "no_card q (tok @ out)"
  using assms(1,2)
proof (induction tok arbitrary: q)
  case (Cons c tok)
  have "\<not> card_at q (c # tok @ out)"
  proof
    assume "card_at q (c # tok @ out)"
    then obtain u t where "c # tok @ out = u @ t" "card_text u" unfolding card_at_iff by auto
    with card_text_shape [of u] Cons.prems show False by (cases u) auto
  qed
  moreover have "no_card (Some c) (tok @ out)"
  proof (cases "tok = []")
    case True
    with assms(3) [of "Some c"] Cons.prems show ?thesis by (simp add: holds_def)
  next
    case False
    with Cons show ?thesis by simp
  qed
  ultimately show ?case by simp
qed simp

text \<open>
  The invariant of the scan: the character before a piece of the result is a digit when the one before it
  in the text was, or else the piece does not go on with a digit.
\<close>

lemma replaced_has_no_card:
  assumes "safe_rule r" and "tok = b # tok'" and "\<not> card_char b" and "list_all (\<lambda>c. \<not> is_digit c) tok"
    and "covered r p s"
    and "holds is_digit q = holds is_digit p \<or> \<not> holds is_digit q \<and> \<not> holds is_digit (next_char s)"
  shows "no_card q (replaced r tok p s)"
  using assms(5,6)
proof (induction "length s" arbitrary: p q s rule: less_induct)
  case less
  show ?case
  proof (cases s)
    case (Cons c s1)
    from assms(1) show ?thesis
    proof (cases rule: replaced_cases [of r p c s1 tok])
      case (hit p' s')
      from hit(1) obtain u where u: "s = u @ s'" "p' = last_char p u" unfolding matcher_finds_denoted Cons by auto
      have "covered r p' s'" using less.prems(1) covered_suffix u by simp
      moreover have "\<not> (holds is_digit p' \<and> holds is_digit (next_char s'))"
        using assms(1) hit(1) unfolding safe_rule_def by blast
      ultimately have "no_card q' (replaced r tok p' s')" if "\<not> holds is_digit q'" for q'
        using hit(2) that Cons by (intro less.hyps) auto
      with hit(3) show ?thesis using assms(2,4) Cons by (simp only: Cons) (intro no_card_token, auto)
    next
      case skip
      have "\<not> card_at q (c # replaced r tok (Some c) s1)"
      proof
        assume "card_at q (c # replaced r tok (Some c) s1)"
        then obtain u t where u: "c # replaced r tok (Some c) s1 = u @ t" "card_text u"
          "\<not> holds is_digit q" "\<not> holds is_digit (next_char t)" unfolding card_at_iff by auto
        note shape = card_text_shape [OF u(2)]
        have "replaced r tok p s = u @ t" using skip(2) u(1) Cons by simp
        from replaced_prefix [OF assms(1-3) this] shape obtain t' where t': "s = u @ t'"
          "holds is_digit (last_char p u) \<and> holds is_digit (next_char t') \<longrightarrow> holds is_digit (next_char t)" by auto
        from shape t' u(4) have "\<not> holds is_digit (next_char t')" by (auto simp: last_char_def holds_def)
        moreover from shape t'(1) have "holds is_digit (next_char s)" by (cases u) (auto simp: next_char_def holds_def)
        with less.prems(2) u(3) have "\<not> holds is_digit p" by auto
        ultimately have "card_at p s" unfolding card_at_iff using t'(1) u(2) by blast
        with less.prems(1) skip(1) Cons show False by simp
      qed
      moreover have "no_card (Some c) (replaced r tok (Some c) s1)"
        using less.prems(1) Cons by (intro less.hyps) auto
      ultimately show ?thesis using skip(2) Cons by simp
    qed
  qed simp
qed

subsection \<open>The three rules\<close>

lemma digit_is_word: "is_digit c \<Longrightarrow> w_char c"
  by (simp add: w_char_def)

lemma alpha_no_digit: "is_alpha c \<Longrightarrow> \<not> is_digit c"
  by (auto simp: is_alpha_def is_digit_def is_lower_def is_upper_def)

lemma holds_simps [simp]: "\<not> holds f None" "holds f (Some c) = f c"
  by (simp_all add: holds_def)

lemma holds_word: "holds is_digit p \<Longrightarrow> holds w_char p"
  by (cases p) (simp_all add: digit_is_word)

lemma class_times:
  "denotes_times (\<lambda>p u t. \<exists>c. u = [c] \<and> f c) lo hi p u t \<Longrightarrow> list_all f u \<and> lo \<le> length u"
proof (induction hi arbitrary: lo p u)
  case (Suc hi)
  from Suc.prems consider "lo = 0" "u = []"
    | c w where "u = c # w" "f c" "denotes_times (\<lambda>p u t. \<exists>c. u = [c] \<and> f c) (lo - 1) hi (Some c) w t" by auto
  then show ?case by cases (auto dest: Suc.IH)
qed simp

lemma denotes_class_times: "denotes (Times (Cls f) lo hi) p u t \<Longrightarrow> list_all f u \<and> lo \<le> length u"
proof -
  have "denotes (Cls f) = (\<lambda>p u t. \<exists>c. u = [c] \<and> f c)" by (intro ext) simp
  then show "denotes (Times (Cls f) lo hi) p u t \<Longrightarrow> ?thesis" by (simp add: class_times del: denotes_times.simps)
qed

lemma denotes_second: "denotes (Then a b) p u t \<Longrightarrow> \<exists>v w. u = v @ w \<and> denotes b (last_char p v) w t"
  by auto

lemma safe_ruleI:
  assumes "\<And>p u t. denotes r p u t \<Longrightarrow> u \<noteq> [] \<and> \<not> (holds is_digit p \<and> holds is_digit (next_char (u @ t)))
     \<and> \<not> (holds is_digit (Some (last u)) \<and> holds is_digit (next_char t))"
  shows "safe_rule r"
  unfolding safe_rule_def matcher_finds_denoted
proof (intro allI impI)
  fix p s p' s'
  assume "\<exists>u. s = u @ s' \<and> p' = last_char p u \<and> denotes r p u s'"
  then obtain u where "s = u @ s'" "p' = last_char p u" "denotes r p u s'" by blast
  with assms [of p u s'] show "length s' < length s \<and> \<not> (holds is_digit p \<and> holds is_digit (next_char s))
     \<and> \<not> (holds is_digit p' \<and> holds is_digit (next_char s'))"
    by (auto simp: last_char_def)
qed

lemma safe_card: "safe_rule card_rx"
  by (rule safe_ruleI) (auto simp: card_rx_iff dest: card_text_shape)

lemma email_ends: "denotes (email_rx n) p u t \<Longrightarrow> \<exists>v a. u = v @ a \<and> list_all is_alpha a \<and> a \<noteq> []"
proof -
  assume "denotes (email_rx n) p u t"
  then obtain v1 u1 p1 where 1: "u = v1 @ u1" "denotes (Then (Times (Cls (\<lambda>c. is_alpha c \<or> is_digit c \<or> one_of ''._%+-'' c)) 1 n)
    (Then (Cls (one_of ''@'')) (Then (Times (Cls (\<lambda>c. is_alpha c \<or> is_digit c \<or> one_of ''.-'' c)) 1 n)
    (Then (Cls (one_of ''.'')) (Then (Times (Cls is_alpha) 2 n) word_boundary))))) p1 u1 t"
    unfolding email_rx_def by (blast dest: denotes_second)
  then obtain v2 u2 p2 where 2: "u1 = v2 @ u2" "denotes (Then (Cls (one_of ''@''))
    (Then (Times (Cls (\<lambda>c. is_alpha c \<or> is_digit c \<or> one_of ''.-'' c)) 1 n)
    (Then (Cls (one_of ''.'')) (Then (Times (Cls is_alpha) 2 n) word_boundary)))) p2 u2 t" by (blast dest: denotes_second)
  then obtain v3 u3 p3 where 3: "u2 = v3 @ u3" "denotes (Then (Times (Cls (\<lambda>c. is_alpha c \<or> is_digit c \<or> one_of ''.-'' c)) 1 n)
    (Then (Cls (one_of ''.'')) (Then (Times (Cls is_alpha) 2 n) word_boundary))) p3 u3 t" by (blast dest: denotes_second)
  then obtain v4 u4 p4 where 4: "u3 = v4 @ u4"
    "denotes (Then (Cls (one_of ''.'')) (Then (Times (Cls is_alpha) 2 n) word_boundary)) p4 u4 t" by (blast dest: denotes_second)
  then obtain v5 u5 p5 where 5: "u4 = v5 @ u5" "denotes (Then (Times (Cls is_alpha) 2 n) word_boundary) p5 u5 t"
    by (blast dest: denotes_second)
  then have "denotes (Times (Cls is_alpha) 2 n) p5 u5 t" by (auto simp: word_boundary_def simp del: denotes_times.simps)
  from denotes_class_times [OF this] 1 2 3 4 5 show ?thesis
    by (intro exI [of _ "v1 @ v2 @ v3 @ v4 @ v5"] exI [of _ u5]) auto
qed

lemma email_starts: "denotes (email_rx n) p u t \<Longrightarrow> holds w_char p \<noteq> holds w_char (next_char (u @ t))"
  unfolding email_rx_def denotes.simps(3) [of word_boundary] by (auto simp: word_boundary_def simp del: denotes.simps(3,4))

lemma safe_email: "safe_rule (email_rx n)"
proof (rule safe_ruleI)
  fix p u t
  assume m: "denotes (email_rx n) p u t"
  from email_ends [OF m] obtain v a where a: "u = v @ a" "list_all is_alpha a" "a \<noteq> []" by blast
  then have "is_alpha (last u)" "u \<noteq> []" by (simp_all add: list_all_iff)
  with email_starts [OF m] show "u \<noteq> [] \<and> \<not> (holds is_digit p \<and> holds is_digit (next_char (u @ t)))
     \<and> \<not> (holds is_digit (Some (last u)) \<and> holds is_digit (next_char t))"
    by (auto simp: alpha_no_digit dest: holds_word)
qed

lemma safe_phone: "safe_rule phone_rx"
proof (rule safe_ruleI)
  fix p u t
  assume m: "denotes phone_rx p u t"
  then have "u \<noteq> []" and "\<not> holds (\<lambda>c. w_char c \<or> c = CHR ''+'') p" and "\<not> holds w_char (next_char t)"
    unfolding phone_rx_def by (auto simp del: denotes_times.simps)
  then show "u \<noteq> [] \<and> \<not> (holds is_digit p \<and> holds is_digit (next_char (u @ t)))
     \<and> \<not> (holds is_digit (Some (last u)) \<and> holds is_digit (next_char t))"
    by (cases p) (auto simp: digit_is_word dest: holds_word)
qed

subsection \<open>The redacted text\<close>

lemma replaced_keeps_none:
  assumes "safe_rule r" and "tok = b # tok'" and "\<not> card_char b" and "list_all (\<lambda>c. \<not> is_digit c) tok" and "covered r None s"
  shows "no_card None (replaced r tok None s)"
  by (rule replaced_has_no_card [OF assms]) simp

text \<open>A rule with no match leaves the text as it is, which is also what the loop does.\<close>

lemma no_match_unchanged: "fst (replace_all r tok p s) = 0 \<Longrightarrow> replaced r tok p s = s"
proof (induction r tok p s rule: replace_all.induct)
  case (2 r tok p c s)
  then show ?case by (auto simp: case_prod_beta split: list.splits if_splits)
qed simp

lemma apply_rule_text:
  "k < 3 \<Longrightarrow> fst (apply_rule k st) = replaced (fst (snd (pii_rules (fst st) ! k))) (snd (snd (pii_rules (fst st) ! k))) None (fst st)"
  using no_match_unchanged [of "fst (snd (pii_rules (fst st) ! k))" "snd (snd (pii_rules (fst st) ! k))" None "fst st"]
  by (simp add: apply_rule_def case_prod_beta Let_def)

lemma token_safe:
  "\<not> card_char CHR ''[''" "list_all (\<lambda>c. \<not> is_digit c) ''[REDACTED_CREDIT_CARD]''"
  "list_all (\<lambda>c. \<not> is_digit c) ''[REDACTED_EMAIL]''" "list_all (\<lambda>c. \<not> is_digit c) ''[REDACTED_PHONE]''"
  by (simp_all add: card_char_def one_of_def is_digit_def chr_code_def)

lemma redacted_has_no_card: "no_card None (fst (LocalPii_redact s))"
proof -
  let ?s1 = "fst (apply_rule 0 (s, []))" and ?s2 = "fst (apply_rule 1 (apply_rule 0 (s, [])))"
  have "no_card None ?s1"
    using token_safe safe_card covered_by_card by (simp add: apply_rule_text pii_rules_def replaced_keeps_none del: replace_all.simps)
  then have "no_card None ?s2"
    using token_safe safe_email covered_if_none
    by (simp add: apply_rule_text pii_rules_def replaced_keeps_none del: replace_all.simps)
  then show ?thesis
    using token_safe safe_phone covered_if_none
    by (simp add: LocalPii_redact_def apply_rule_text pii_rules_def replaced_keeps_none del: replace_all.simps)
qed

lemma no_card_everywhere: "no_card p (u @ s) \<Longrightarrow> s = [] \<or> \<not> card_at (last_char p u) s"
proof (induction u arbitrary: p)
  case Nil
  then show ?case by (cases s) auto
qed simp

text \<open>
  C22. No card number reaches a model through the policy router: with the redaction on, in no message of an
  accepted request is there a place at which the expression for card numbers matches, whatever the other
  two rules have cut out around it.
\<close>

theorem no_card_reaches_model:
  assumes "resolveModelForRequest localeCompare hash sha LocalPii_redact rows bindings auth requested maxTokens (Some msgs) True = Inr r"
    and "rrRedactedMessages r = Some out" and "m \<in> set out" and "msgContent m = u @ s"
  shows "ends card_rx (last_char None u) s = []"
proof -
  from assms(1,2) have "out = fst (redact_messages LocalPii_redact msgs)"
    by (auto simp: resolveModelForRequest_def Let_def split: if_splits sum.splits option.splits prod.splits routing_error.splits)
  with assms(3) obtain t where "msgContent m = fst (LocalPii_redact t)" by (auto simp: redact_messages_def)
  then have "no_card None (u @ s)" using redacted_has_no_card assms(4) by metis
  then have "s = [] \<or> ends card_rx (last_char None u) s = []" using no_card_everywhere by (auto simp: card_at_def)
  moreover have "ends card_rx p [] = []" for p
    using card_text_shape by (metis append_is_Nil_conv card_at_def card_at_iff)
  ultimately show ?thesis by auto
qed

lemma sample_redaction:
  "LocalPii_redact ''pay 4111 1111-11111111.'' = (''pay [REDACTED_CREDIT_CARD].'', [(''credit_card'', 1)])"
  by code_simp

lemma no_card_reaches_model_witness:
  "\<exists>r m. resolveModelForRequest (\<lambda>_ _. 0) (\<lambda>_. ''h'') id LocalPii_redact [sample_model] [] sample_auth_router ''m'' 100
       (Some [\<lparr>msgRole = ''user'', msgContent = ''pay 4111 1111-11111111.''\<rparr>]) True = Inr r
     \<and> rrRedactedMessages r = Some [m] \<and> msgContent m = ''pay '' @ ''[REDACTED_CREDIT_CARD].''
     \<and> ends card_rx (Some CHR '' '') ''[REDACTED_CREDIT_CARD].'' = []"
proof -
  let ?msgs = "[\<lparr>msgRole = ''user'', msgContent = ''pay 4111 1111-11111111.''\<rparr>]"
  obtain r where r: "resolveModelForRequest (\<lambda>_ _. 0) (\<lambda>_. ''h'') id LocalPii_redact [sample_model] [] sample_auth_router ''m'' 100
       (Some ?msgs) True = Inr r"
    and out: "rrRedactedMessages r = Some (fst (redact_messages LocalPii_redact ?msgs))"
    by (simp add: resolveModelForRequest_def sample_auth_router_def sample_model_def routing_eval
        candidate_of_def estimateCandidateCost_def platform_default_def find_binding_def
        find_model_def table_find_def Let_def case_prod_beta)
  let ?m = "\<lparr>msgRole = ''user'', msgContent = ''pay [REDACTED_CREDIT_CARD].''\<rparr>"
  have m: "fst (redact_messages LocalPii_redact ?msgs) = [?m]"
    by (simp add: redact_messages_def sample_redaction)
  from no_card_reaches_model [OF r out, of ?m "''pay ''" "''[REDACTED_CREDIT_CARD].''"]
  have "ends card_rx (Some CHR '' '') ''[REDACTED_CREDIT_CARD].'' = []" by (simp add: m)
  with r out m show ?thesis by (intro exI [of _ r] exI [of _ ?m]) simp
qed

text \<open>
  A phone number with its country code has the digits of a card number and is taken for one; a number of
  more than nineteen digits without a gap is none of the three and stays.
\<close>

lemma phone_taken_for_card:
  "LocalPii_redact ''+8801712345678'' = (''+[REDACTED_CREDIT_CARD]'', [(''credit_card'', 1)])"
  by code_simp

lemma long_number_stays:
  "LocalPii_redact ''41111111111111111111'' = (''41111111111111111111'', [])"
  by code_simp

end
