(* ===== verification/DownloadProps.thy ===== *)
theory DownloadProps
  imports Downloads
begin

text \<open>
  The download manager: slots are bounded under any interleaving, a corrupt partial file is
  never repaired (and is published when the manifest cannot be read), and a cancelled
  download that is retried too early loses its new run.
\<close>

subsection \<open>What the parts leave alone\<close>

lemma file_frames [simp]:
  "controllers (set_job j s) = controllers s" "controllers (put_file p f s) = controllers s"
  "controllers (remove_file p s) = controllers s" "controllers (enqueue_id i s) = controllers s"
  "controllers (set_phase uid n ph s) = controllers s"
  "runs (set_job j s) = runs s" "runs (put_file p f s) = runs s" "runs (remove_file p s) = runs s"
  "runs (enqueue_id i s) = runs s"
  "nextController (set_job j s) = nextController s" "nextController (put_file p f s) = nextController s"
  "nextController (remove_file p s) = nextController s" "nextController (enqueue_id i s) = nextController s"
  "nextController (set_phase uid n ph s) = nextController s"
  by (simp_all add: set_job_def put_file_def remove_file_def enqueue_id_def set_phase_def)

definition same_control :: "dl_state \<Rightarrow> dl_state \<Rightarrow> bool" where
  "same_control s s' \<longleftrightarrow> controllers s' = controllers s \<and> runs s' = runs s
     \<and> nextController s' = nextController s \<and> dom (objects s) \<subseteq> dom (objects s')"

lemma same_control_frames [simp]:
  "same_control s s"
  "same_control s t \<Longrightarrow> same_control s (set_job j t)" "same_control s (put_file p f t) = same_control s t"
  "same_control s (remove_file p t) = same_control s t"
  "same_control s (t\<lparr>registered := rs\<rparr>) = same_control s t"
  "same_control s (t\<lparr>expectedHashes := hs\<rparr>) = same_control s t"
  by (auto simp: same_control_def set_job_def put_file_def remove_file_def)

lemma same_control_trans: "same_control s t \<Longrightarrow> same_control t t' \<Longrightarrow> same_control s t'"
  by (auto simp: same_control_def)

lemma complete_control: "same_control s (completeDownload env j s)"
  by (auto simp: completeDownload_def Let_def split: option.split)

lemma publish_control: "same_control s (publish env j f s)"
  unfolding publish_def by (rule same_control_trans [OF _ complete_control]) simp

lemma verify_control: "same_control s (snd (verify_and_publish env expected j f s))"
  by (simp add: verify_and_publish_def publish_control split: option.split)

lemma stream_control: "same_control s (snd (stream_body env w expected j offset reply s))"
proof -
  have "same_control s (snd (verify_and_publish env expected k f (put_file p g s)))" for k f p g
    by (rule same_control_trans [OF _ verify_control]) simp
  then show ?thesis by (simp add: stream_body_def Let_def split: option.split)
qed

lemma fetch_control: "same_control s (snd (fetch_and_stream env w expected j offset s))"
proof -
  have "same_control s (snd (stream_body env w expected j 0 reply (remove_file p s)))" for p reply
    by (rule same_control_trans [OF _ stream_control]) simp
  then show ?thesis by (simp add: fetch_and_stream_def stream_control split: sum.split)
qed

lemma transfer_control: "same_control s (snd (transferOnce env w expected j s))"
proof -
  have "same_control s (snd (fetch_and_stream env w expected j offset (remove_file p s)))" for p offset
    by (rule same_control_trans [OF _ fetch_control]) simp
  then show ?thesis
    unfolding transferOnce_def Let_def
    by (simp add: complete_control verify_control fetch_control)
qed

lemma expected_control: "same_control s (snd (expectedHashFor env j s))"
  by (simp add: expectedHashFor_def Let_def split: option.split)

subsection \<open>Slots\<close>

definition dl_ok :: "dl_env \<Rightarrow> dl_state \<Rightarrow> bool" where
  "dl_ok env s \<longleftrightarrow> distinct (map fst (controllers s)) \<and> of_nat (length (controllers s)) < slots env + 1
     \<and> distinct (map rnController (runs s))
     \<and> list_all (\<lambda>u. u < nextController s) (map rnController (runs s))"

lemma dl_ok_same: "same_control s s' \<Longrightarrow> dl_ok env s' = dl_ok env s"
  by (simp add: dl_ok_def same_control_def)

lemma js_set_fst:
  "map fst (js_set k v m) = (if k \<in> fst ` set m then map fst m else map fst m @ [k])"
  by (auto simp: js_set_def)

lemma js_set_keys: "distinct (map fst m) \<Longrightarrow> distinct (map fst (js_set k v m))"
  by (simp only: js_set_fst) simp

lemma js_set_length: "length (js_set k v m) \<le> Suc (length m)"
  by (simp add: js_set_def)

lemma start_run_ok:
  assumes "dl_ok env s" and "of_nat (length (controllers s)) < slots env"
  shows "dl_ok env (start_run env' j s)"
proof -
  let ?uid = "nextController s"
  let ?s1 = "set_job (j\<lparr>dlAttempt := 1\<rparr>)
    (s\<lparr>controllers := js_set (dlId j) ?uid (controllers s), nextController := ?uid + 1\<rparr>)"
  obtain h s2 where hash: "expectedHashFor env' (j\<lparr>dlAttempt := 1\<rparr>) ?s1 = (h, s2)"
    by (metis surj_pair)
  have same: "same_control ?s1 s2" using expected_control [of ?s1 env' "j\<lparr>dlAttempt := 1\<rparr>"] hash by simp
  have "(of_nat (length (js_set (dlId j) ?uid (controllers s))) :: rat) \<le> of_nat (Suc (length (controllers s)))"
    using js_set_length by (simp only: of_nat_le_iff)
  then have len: "of_nat (length (js_set (dlId j) ?uid (controllers s))) < slots env + 1"
    using assms(2) by simp
  show ?thesis
    using assms(1) same hash len js_set_keys
    by (auto simp: dl_ok_def start_run_def same_control_def Let_def list_all_iff less_Suc_eq)
qed

lemma dl_ok_queue [simp]: "dl_ok env (s\<lparr>queuedDownloadIds := q\<rparr>) = dl_ok env s"
  by (simp add: dl_ok_def)

lemma pump_ok:
  assumes "dl_ok env s" and "slots env' = slots env"
  shows "dl_ok env (pumpDownloadQueue env' s)"
proof -
  have "dl_ok env s \<Longrightarrow> dl_ok env (pump_loop env' q s)" for q
    using assms(2)
    by (induction env' q s rule: pump_loop.induct) (auto simp: start_run_ok split: option.split)
  then show ?thesis using assms(1) by (simp add: pumpDownloadQueue_def)
qed

lemma retry_ok:
  assumes "dl_ok env s" and "slots env' = slots env"
  shows "dl_ok env (snd (retryHuggingFaceDownload env' i s))"
  using assms pump_ok
  by (auto simp: retryHuggingFaceDownload_def Let_def split: option.split
      intro!: pump_ok) (simp_all add: dl_ok_def)

lemma start_ok:
  assumes "dl_ok env s" and "slots env' = slots env"
  shows "dl_ok env (snd (startHuggingFaceDownload env' i repo file reg s))"
proof -
  have "dl_ok env (pumpDownloadQueue env' (enqueue_id i (set_job j
      (s\<lparr>activeIds := ids, expectedHashes := hs\<rparr>))))" for j ids hs
    by (rule pump_ok [OF _ assms(2)]) (use assms(1) in \<open>simp add: dl_ok_def\<close>)
  then show ?thesis
    using assms retry_ok
    by (simp add: startHuggingFaceDownload_def Let_def split: sum.split option.split)
qed

lemma restore_ok:
  assumes "dl_ok env s" and "slots env' = slots env"
  shows "dl_ok env (snd (restoreHuggingFaceDownloads env' jobs s))"
proof -
  have "dl_ok env s \<Longrightarrow> dl_ok env (restore_one j s)" for j s
    by (simp add: restore_one_def Let_def dl_ok_def)
  then have "dl_ok env s \<Longrightarrow> dl_ok env (fold restore_one js s)" for js s
    by (induction js arbitrary: s) auto
  then show ?thesis
    using assms pump_ok by (simp add: restoreHuggingFaceDownloads_def Let_def)
qed

lemma finish_ok:
  assumes "dl_ok env s" and "slots env' = slots env"
  shows "dl_ok env (finish_run env' uid i s)"
  unfolding finish_run_def
proof (rule pump_ok [OF _ assms(2)])
  have "(of_nat (length (js_delete i (controllers s))) :: rat) \<le> of_nat (length (controllers s))"
    by (simp add: js_delete_def)
  moreover have "distinct (map fst (js_delete i (controllers s)))"
    using assms(1) by (simp add: dl_ok_def js_delete_def distinct_map_filter)
  ultimately show "dl_ok env (s\<lparr>controllers := js_delete i (controllers s),
      expectedHashes := js_delete i (expectedHashes s), runs := filter (\<lambda>r. rnController r \<noteq> uid) (runs s)\<rparr>)"
    using assms(1) by (auto simp: dl_ok_def distinct_map_filter list_all_iff)
qed

lemma set_phase_controllers [simp]: "map rnController (runs (set_phase uid n ph s)) = map rnController (runs s)"
  by (simp add: set_phase_def)

lemma phase_ok: "dl_ok env s \<Longrightarrow> dl_ok env (set_phase uid n ph s)"
  by (simp only: dl_ok_def file_frames set_phase_controllers)

lemma job_ok [simp]: "dl_ok env (set_job j s) = dl_ok env s"
  by (simp add: dl_ok_def)

lemma settle_ok:
  assumes "dl_ok env s" and "slots env' = slots env"
  shows "dl_ok env (settle_run env' uid w s)"
proof -
  have "dl_ok env s1" if "transferOnce env' w expected j s = (res, s1)" for expected j res s1
    using transfer_control [of s env' w expected j] that assms(1) dl_ok_same by fastforce
  then show ?thesis
    using assms
    by (auto simp: settle_run_def stop_cancelled_def Let_def finish_ok phase_ok
        split: option.split run_phase.split prod.split sum.split)
qed

lemma wake_ok:
  assumes "dl_ok env s" and "slots env' = slots env"
  shows "dl_ok env (wake_run env' uid s)"
proof -
  have "dl_ok env s1" if "expectedHashFor env' j (set_job j s) = (h, s1)" for j h s1
    using expected_control [of "set_job j s" env' j] that assms(1) dl_ok_same by fastforce
  then show ?thesis
    using assms
    by (auto simp: wake_run_def stop_cancelled_def Let_def finish_ok phase_ok
        split: option.split run_phase.split prod.split)
qed

text \<open>One event: what the hub answers may change from event to event.\<close>

fun dl_event :: "dl_env \<Rightarrow> (string \<Rightarrow> hub_file list option) \<times> dl_op \<Rightarrow> dl_state \<Rightarrow> dl_state" where
  "dl_event env (h, op) s = dl_step (env\<lparr>hub := h\<rparr>) op s"

lemma dl_event_ok:
  assumes "dl_ok env s"
  shows "dl_ok env (dl_event env e s)"
proof -
  obtain h op where e: "e = (h, op)" by (cases e)
  have same: "slots (env\<lparr>hub := h\<rparr>) = slots env" by (simp add: slots_def)
  have abort: "dl_ok env (s\<lparr>aborted := xs\<rparr>) = dl_ok env s" for s xs by (simp add: dl_ok_def)
  show ?thesis
    unfolding e
  proof (cases op)
    case (DlCancel i)
    then show "dl_ok env (dl_event env (h, op) s)"
      using assms by (auto simp: cancelHuggingFaceDownload_def Let_def abort split: option.split)
  next
    case (DlRemove i)
    then show "dl_ok env (dl_event env (h, op) s)"
      using assms by (auto simp: removeHuggingFaceDownload_def dl_ok_def split: option.split)
  qed (use assms same in \<open>simp_all add: start_ok retry_ok restore_ok settle_ok wake_ok\<close>)
qed

lemma dl_ok_empty: "dl_ok env dl_empty"
  by (simp add: dl_ok_def dl_empty_def slots_def)

interpretation downloads: invariant_system "dl_event env" "dl_ok env" dl_empty for env
  by unfold_locales (auto simp: dl_ok_empty dl_event_ok)

text \<open>
  The manager never has more controllers than slots: after any interleaving of starts, retries,
  cancellations, removals, restores, settled transfers and wake-ups, with whatever
  answers of the hub, the controllers belong to different downloads and their number is
  below the configured limit plus one (at most the limit when that is a whole number),
  and every run has a controller of its own.
\<close>

theorem download_slots_bounded: "dl_ok env (fold (dl_event env) events dl_empty)"
  by (rule downloads.reachable_inv)

subsection \<open>Corrupt partial files\<close>

text \<open>
  A corrupt partial file is final: once the partial file has the full size but the wrong hash,
  every attempt, whatever the network does, fails with the verification error and leaves
  all files as they are, so no retry can succeed; and an attempt that has no hash,
  because the manifest could not be read, publishes the same corrupt file.
\<close>

theorem corrupt_partial_is_final:
  assumes "filesAt s (dlRelativePath j) = None" and "filesAt s (part_of j) = Some f"
    and "fiSize f = dlTotal j" and "dlTotal j \<noteq> 0" and "to_lower (fiHash f) \<noteq> to_lower h" and "h \<noteq> []"
  shows "fst (transferOnce env w (Some h) j s) = Inl sha_failed
    \<and> filesAt (snd (transferOnce env w (Some h) j s)) = filesAt s
    \<and> \<not> isRetryableDownloadError sha_failed
    \<and> fst (transferOnce env w None j s) = Inr ()
    \<and> filesAt (snd (transferOnce env w None j s)) (dlRelativePath j) = Some f"
proof -
  have "filesAt (completeDownload env k s1) = filesAt s1" for k s1
    by (auto simp: completeDownload_def set_job_def Let_def split: option.split)
  moreover have "\<not> isRetryableDownloadError sha_failed"
    by (simp add: isRetryableDownloadError_def sha_failed_def retryable_words_def js_text_defs)
  ultimately show ?thesis
    using assms
    by (simp add: transferOnce_def verify_and_publish_def publish_def set_job_def put_file_def)
qed

definition sample_hub :: "string \<Rightarrow> hub_file list option" where
  "sample_hub repo = Some [\<lparr>hfPath = ''a.gguf'', hfSize = 10, hfSha = Some ''ab''\<rparr>,
                            \<lparr>hfPath = ''m-00001-of-00002.gguf'', hfSize = 10, hfSha = None\<rparr>,
                            \<lparr>hfPath = ''m-00002-of-00002.gguf'', hfSize = 10, hfSha = None\<rparr>]"

definition sample_dl_env :: dl_env where
  "sample_dl_env = \<lparr>hub = sample_hub, maxConcurrent = None, maxGb = None, compareNames = (\<lambda>_ _. 0)\<rparr>"

definition sample_transfer :: "string option \<Rightarrow> string \<Rightarrow> dl_world" where
  "sample_transfer fails h = \<lparr>twFree = None,
     twFirst = Inr \<lparr>hrStatus = 200, hrBody = True, hrLength = 10, hrRangeTotal = 0\<rparr>,
     twSecond = Inl ''no second request'', twBytes = 10, twFails = fails, twHash = h\<rparr>"

definition sample_job :: dl_job where
  "sample_job = \<lparr>dlId = ''j'', dlRepo = ''o/r'', dlFilePath = ''a.gguf'', dlRelativePath = ''a.gguf'',
     dlStatus = DL_QUEUED, dlDownloaded = 0, dlTotal = 10, dlError = None, dlRegister = False,
     dlRegistered = None, dlAttempt = 1\<rparr>"

lemma corrupt_partial_is_final_witness:
  "fst (transferOnce sample_dl_env (sample_transfer None ''ab'') (Some ''ab'') sample_job
          (put_file ''a.gguf.part'' \<lparr>fiSize = 10, fiHash = ''cd''\<rparr> dl_empty)) = Inl sha_failed"
proof -
  have "to_lower ''cd'' \<noteq> to_lower ''ab''" by code_simp
  then show ?thesis
    using corrupt_partial_is_final
      [of "put_file ''a.gguf.part'' \<lparr>fiSize = 10, fiHash = ''cd''\<rparr> dl_empty" sample_job
          "\<lparr>fiSize = 10, fiHash = ''cd''\<rparr>" "''ab''" sample_dl_env "sample_transfer None ''ab''"]
    by (simp add: sample_job_def part_of_def put_file_def dl_empty_def)
qed

subsection \<open>Cancelling and retrying\<close>

text \<open>
  Retrying a download whose cancelled run has not stopped yet loses the new run: when the old run
  then ends, it marks the shared download as cancelled and deletes the controller of the
  new one. The new run goes on without a slot, and cancelling it is refused.
\<close>

theorem early_retry_loses_run:
  "let s = fold (dl_step sample_dl_env)
         [DlStart ''j'' ''o/r'' ''a.gguf'' False, DlCancel ''j'', DlRetry ''j'',
          DlSettle 0 (sample_transfer (Some ''This operation was aborted'') [])] dl_empty
   in map_option dlStatus (objects s ''j'') = Some DL_CANCELLED
      \<and> map rnController (runs s) = [1] \<and> controllers s = []
      \<and> fst (cancelHuggingFaceDownload ''j'' s) = False"
  by code_simp

text \<open>
  A bundle is registered although one of its parts failed: only parts that are still active
  hold the registration back, and the scan reports a bundle by its first part alone.
\<close>

lemma failed_shard_is_registered:
  "let s = fold (dl_step sample_dl_env)
         [DlStart ''i'' ''o/r'' ''m-00002-of-00002.gguf'' True, DlStart ''j'' ''o/r'' ''m-00001-of-00002.gguf'' True,
          DlSettle 0 (sample_transfer (Some ''404'') []), DlSettle 1 (sample_transfer None [])] dl_empty
   in map_option dlStatus (objects s ''i'') = Some DL_FAILED
      \<and> registered s = [''huggingface/o/r/m-00001-of-00002.gguf'']"
  by code_simp

end
