(* ===== verification/DownloadLiveness.thy ===== *)
theory DownloadLiveness
  imports DownloadProps
begin

text \<open>
  Every download run ends: whatever else happens, each time its pending transfer has settled
  and its waiting time is over, the run comes closer to its last attempt.
\<close>

definition run_of :: "nat \<Rightarrow> dl_state \<Rightarrow> dl_run option" where
  "run_of uid s = table_find rnController uid (runs s)"

definition run_ok :: "dl_state \<Rightarrow> dl_run \<Rightarrow> bool" where
  "run_ok s r \<longleftrightarrow> 1 \<le> rnAttempt r \<and> rnAttempt r \<le> 8 \<and> (rnPhase r = Waiting \<longrightarrow> rnAttempt r < 8)
     \<and> rnJob r \<in> dom (objects s) \<and> rnController r < nextController s"

definition runs_ok :: "dl_state \<Rightarrow> bool" where
  "runs_ok s \<longleftrightarrow> list_all (run_ok s) (runs s)"

lemma run_ok_mono:
  "run_ok s r \<Longrightarrow> dom (objects s) \<subseteq> dom (objects t) \<Longrightarrow> nextController s \<le> nextController t \<Longrightarrow> run_ok t r"
  by (auto simp: run_ok_def)

lemma runs_ok_same: "runs_ok s \<Longrightarrow> same_control s t \<Longrightarrow> runs_ok t"
  using run_ok_mono [of s _ t] by (auto simp: runs_ok_def same_control_def list_all_iff)

lemma run_of_same: "same_control s t \<Longrightarrow> run_of uid t = run_of uid s"
  by (simp add: same_control_def run_of_def)

lemma table_find_map:
  assumes "\<And>x. key (f x) = key x"
  shows "table_find key k (map f rows) = map_option f (table_find key k rows)"
  by (induction rows) (auto simp: table_find_def assms)

lemma table_find_filter_other:
  "table_find key k (filter (\<lambda>r. key r \<noteq> k') rows) = (if k = k' then None else table_find key k rows)"
  by (induction rows) (auto simp: table_find_def)

subsection \<open>Runs through the operations\<close>

text \<open>\<^verbatim>\<open>calm uid s t\<close>: the step from \<^verbatim>\<open>s\<close> to \<^verbatim>\<open>t\<close> keeps the runs well formed and that of \<^verbatim>\<open>uid\<close> as it is.\<close>

definition calm :: "nat \<Rightarrow> dl_state \<Rightarrow> dl_state \<Rightarrow> bool" where
  "calm uid s t \<longleftrightarrow> runs_ok s \<longrightarrow>
     runs_ok t \<and> nextController s \<le> nextController t \<and>
     (uid < nextController s \<longrightarrow> run_of uid t = run_of uid s)"

lemma calm_refl [simp]: "calm uid s s"
  by (simp add: calm_def)

lemma calm_trans: "calm uid s t \<Longrightarrow> calm uid t u \<Longrightarrow> calm uid s u"
  by (auto simp: calm_def)

lemma calm_same: "same_control s t \<Longrightarrow> calm uid s t"
  using runs_ok_same [of s t] run_of_same [of s t] by (auto simp: calm_def same_control_def)

lemma calm_fields [simp]:
  "calm uid s (t\<lparr>queuedDownloadIds := q\<rparr>) = calm uid s t"
  "calm uid s (t\<lparr>activeIds := ids\<rparr>) = calm uid s t"
  "calm uid s (t\<lparr>expectedHashes := hs\<rparr>) = calm uid s t"
  "calm uid s (t\<lparr>aborted := xs\<rparr>) = calm uid s t"
  "calm uid s (t\<lparr>controllers := cs\<rparr>) = calm uid s t"
  "calm uid s (enqueue_id i t) = calm uid s t"
  by (simp_all add: calm_def runs_ok_def run_of_def run_ok_def [abs_def] enqueue_id_def)

lemma calm_job: "calm uid s t \<Longrightarrow> calm uid s (set_job j t)"
  by (rule calm_trans, assumption, rule calm_same) simp

lemma calm_start: "calm uid s (start_run env j s)"
proof -
  let ?s1 = "set_job (j\<lparr>dlAttempt := 1\<rparr>)
    (s\<lparr>controllers := js_set (dlId j) (nextController s) (controllers s), nextController := nextController s + 1\<rparr>)"
  obtain h s2 where h: "expectedHashFor env (j\<lparr>dlAttempt := 1\<rparr>) ?s1 = (h, s2)" by (metis surj_pair)
  have same: "same_control ?s1 s2" using expected_control [of ?s1 env "j\<lparr>dlAttempt := 1\<rparr>"] h by simp
  have start: "start_run env j s = s2\<lparr>runs := runs s2 @
      [\<lparr>rnJob = dlId j, rnController = nextController s, rnAttempt = 1, rnPhase = Transferring h\<rparr>]\<rparr>"
    by (simp add: start_run_def Let_def h [simplified])
  show ?thesis
    unfolding start using same run_ok_mono [of s _ s2]
    by (auto simp: calm_def runs_ok_def run_of_def same_control_def set_job_def list_all_iff run_ok_def)
qed

lemma calm_pump: "calm uid s (pumpDownloadQueue env s)"
proof -
  have "calm uid s (pump_loop env q s)" for q
    by (induction env q s rule: pump_loop.induct)
       (auto intro: calm_trans [OF calm_start] split: option.split)
  then show ?thesis by (simp add: pumpDownloadQueue_def)
qed

lemma finish_of:
  assumes "runs_ok s"
  shows "runs_ok (finish_run env uid' i s) \<and> nextController s \<le> nextController (finish_run env uid' i s) \<and>
     (uid < nextController s \<longrightarrow>
        run_of uid (finish_run env uid' i s) = (if uid = uid' then None else run_of uid s))"
proof -
  let ?t = "s\<lparr>controllers := js_delete i (controllers s), expectedHashes := js_delete i (expectedHashes s),
          runs := filter (\<lambda>r. rnController r \<noteq> uid') (runs s)\<rparr>"
  have "runs_ok ?t" and "nextController s \<le> nextController ?t"
    using assms by (auto simp: runs_ok_def run_ok_def list_all_iff)
  moreover have "run_of uid ?t = (if uid = uid' then None else run_of uid s)"
    by (simp add: run_of_def table_find_filter_other)
  moreover have "calm uid ?t (finish_run env uid' i s)"
    unfolding finish_run_def by (rule calm_pump)
  ultimately show ?thesis by (simp add: calm_def)
qed

lemma calm_finish: "uid \<noteq> uid' \<Longrightarrow> calm uid s (finish_run env uid' i s)"
  using finish_of [of s env uid' i uid] by (auto simp: calm_def)

lemma set_phase_of:
  "run_of uid (set_phase uid' n ph s) =
     map_option (\<lambda>r. if uid = uid' then r\<lparr>rnAttempt := n, rnPhase := ph\<rparr> else r) (run_of uid s)"
proof -
  have "run_of uid (set_phase uid' n ph s)
      = map_option (\<lambda>r. if rnController r = uid' then r\<lparr>rnAttempt := n, rnPhase := ph\<rparr> else r) (run_of uid s)"
    unfolding run_of_def set_phase_def by (simp add: table_find_map)
  then show ?thesis
    by (cases "run_of uid s") (auto simp: run_of_def dest: table_find_some_in)
qed

lemma set_phase_ok:
  "runs_ok s \<Longrightarrow> 1 \<le> n \<Longrightarrow> n \<le> 8 \<Longrightarrow> (ph = Waiting \<longrightarrow> n < 8) \<Longrightarrow> runs_ok (set_phase uid n ph s)"
  by (auto simp: runs_ok_def set_phase_def run_ok_def list_all_iff)

lemma calm_phase:
  assumes "uid \<noteq> uid'" and "1 \<le> n" and "n \<le> 8" and "ph = Waiting \<longrightarrow> n < 8" and "calm uid s t"
  shows "calm uid s (set_phase uid' n ph t)"
  using assms set_phase_ok [of t n ph uid'] by (auto simp: calm_def set_phase_of option.map_ident_strong)

lemma calm_retry: "calm uid s (snd (retryHuggingFaceDownload env i s))"
  by (auto simp: retryHuggingFaceDownload_def Let_def calm_job split: option.split intro: calm_trans [OF _ calm_pump])

lemma calm_begin: "calm uid s (snd (startHuggingFaceDownload env i repo file reg s))"
  by (auto simp: startHuggingFaceDownload_def Let_def calm_job calm_retry
      split: option.split sum.split intro: calm_trans [OF _ calm_pump])

lemma calm_restore: "calm uid s (snd (restoreHuggingFaceDownloads env jobs s))"
proof -
  have one: "calm uid s (restore_one j s)" for j s
    by (simp add: restore_one_def Let_def calm_job)
  have "calm uid s (fold restore_one js s)" for js s
    by (induction js arbitrary: s) (auto intro: calm_trans [OF one])
  then show ?thesis
    by (auto simp: restoreHuggingFaceDownloads_def Let_def intro: calm_trans [OF _ calm_pump])
qed

lemma calm_cancel: "calm uid s (snd (cancelHuggingFaceDownload i s))"
  by (auto simp: cancelHuggingFaceDownload_def Let_def calm_job split: option.split)

lemma calm_remove: "calm uid s (snd (removeHuggingFaceDownload i s))"
  by (auto simp: removeHuggingFaceDownload_def split: option.split)

lemma calm_stop: "uid \<noteq> uid' \<Longrightarrow> calm uid s (stop_cancelled env uid' j s)"
  unfolding stop_cancelled_def by (rule calm_trans [OF _ calm_finish]) (simp_all add: calm_job)

lemma run_of_ok: "runs_ok s \<Longrightarrow> run_of uid s = Some r \<Longrightarrow> run_ok s r \<and> rnController r = uid"
  by (auto simp: runs_ok_def run_of_def list_all_iff dest: table_find_some_in)

lemma run_ok_pos: "run_ok s r \<Longrightarrow> Suc 0 \<le> rnAttempt r"
  by (simp add: run_ok_def)

lemma calm_settle:
  assumes "uid \<noteq> uid'"
  shows "calm uid s (settle_run env uid' w s)"
proof (cases "runs_ok s")
  case True
  have tr: "calm uid s s1" if "transferOnce env w expected j s = (res, s1)" for expected j res s1
    using calm_same [OF transfer_control [of s env w expected j]] that by (metis snd_conv)
  have "Suc 0 \<le> rnAttempt r \<and> rnAttempt r \<le> 8" if "table_find rnController uid' (runs s) = Some r" for r
    using run_of_ok [OF True, of uid' r] that by (simp add: run_of_def run_ok_def)
  then show ?thesis
    using assms
    by (auto simp: settle_run_def calm_job split: option.split run_phase.split prod.split sum.split
        intro!: calm_phase dest!: tr intro: calm_trans [OF _ calm_finish] calm_trans [OF _ calm_stop])
qed (simp add: calm_def)

lemma calm_wake:
  assumes "uid \<noteq> uid'"
  shows "calm uid s (wake_run env uid' s)"
proof (cases "runs_ok s")
  case True
  have ex: "calm uid s s1" if "expectedHashFor env j (set_job j s) = (h, s1)" for j h s1
    using calm_trans [OF calm_job [OF calm_refl] calm_same [OF expected_control [of "set_job j s" env j]]] that
    by (metis snd_conv)
  have "rnAttempt r < 8" if "table_find rnController uid' (runs s) = Some r" "rnPhase r = Waiting" for r
    using run_of_ok [OF True, of uid' r] that by (simp add: run_of_def run_ok_def)
  then show ?thesis
    using assms
    by (auto simp: wake_run_def Let_def calm_stop Suc_le_eq split: option.split run_phase.split prod.split
        intro!: calm_phase dest!: ex)
qed (simp add: calm_def)

subsection \<open>Progress\<close>

definition rank :: "nat \<Rightarrow> dl_state \<Rightarrow> nat" where
  "rank uid s =
     (case run_of uid s of
        None \<Rightarrow> 0
      | Some r \<Rightarrow> (case rnPhase r of Waiting \<Rightarrow> 2 * (8 - rnAttempt r) | Transferring _ \<Rightarrow> 2 * (8 - rnAttempt r) + 1))"

text \<open>\<^verbatim>\<open>closer uid s t\<close>: the run of \<^verbatim>\<open>uid\<close> ended or came closer to its end.\<close>

definition advances :: "nat \<Rightarrow> dl_state \<Rightarrow> dl_state \<Rightarrow> bool" where
  "advances uid s t \<longleftrightarrow> runs_ok t \<and> uid < nextController t \<and> rank uid t < rank uid s"

lemma finish_advances:
  assumes "runs_ok s" and "uid < nextController s" and "0 < rank uid s0"
  shows "advances uid s0 (finish_run env uid i s)"
  using finish_of [OF assms(1), of env uid i uid] assms(2,3) by (simp add: advances_def rank_def)

lemma stop_advances:
  assumes "runs_ok s" and "uid < nextController s" and "0 < rank uid s0"
  shows "advances uid s0 (stop_cancelled env uid j s)"
proof -
  have "runs_ok (set_job k s)" for k by (rule runs_ok_same [OF assms(1)]) simp
  then show ?thesis unfolding stop_cancelled_def using assms by (intro finish_advances) auto
qed

lemma settle_advances:
  assumes ok: "runs_ok s" "uid < nextController s" and r: "run_of uid s = Some r"
    and phase: "rnPhase r = Transferring expected"
  shows "advances uid s (settle_run env uid w s)"
proof -
  have run: "run_ok s r" "rnController r = uid" using run_of_ok [OF ok(1) r] by auto
  then obtain j where j: "objects s (rnJob r) = Some j" by (auto simp: run_ok_def)
  obtain res s1 where tr: "transferOnce env w expected j s = (res, s1)" by (metis surj_pair)
  have same: "same_control s s1" using transfer_control [of s env w expected j] tr by simp
  have s1: "runs_ok s1" "uid < nextController s1" "run_of uid s1 = Some r"
    using runs_ok_same [OF ok(1) same] same ok(2) run_of_same [OF same] r by (auto simp: same_control_def)
  have job: "runs_ok (set_job k s1)" "same_control s1 (set_job k s1)" for k
    by (rule runs_ok_same [OF s1(1)]) simp_all
  obtain j1 where j1: "objects s1 (rnJob r) = Some j1"
    using same j by (force simp: same_control_def dom_def)
  have pos: "rank uid s = 2 * (8 - rnAttempt r) + 1" by (simp add: rank_def r phase)
  have wait: "advances uid s (set_phase uid (rnAttempt r) Waiting (set_job k s1))" if "rnAttempt r < 8" for k
    using that s1 job [of k] run_of_same [OF job(2), of uid k]
    by (simp add: advances_def set_phase_ok rank_def set_phase_of r phase run_ok_pos [OF run(1)])
  show ?thesis
    using s1 job(1) wait pos j j1 tr phase r
    by (auto simp: settle_run_def run_of_def intro!: finish_advances stop_advances split: sum.split)
qed

lemma wake_advances:
  assumes ok: "runs_ok s" "uid < nextController s" and r: "run_of uid s = Some r"
    and phase: "rnPhase r = Waiting"
  shows "advances uid s (wake_run env uid s)"
proof -
  have run: "run_ok s r" "rnAttempt r < 8" using run_of_ok [OF ok(1) r] phase by (auto simp: run_ok_def)
  then obtain j where j: "objects s (rnJob r) = Some j" by (auto simp: run_ok_def)
  let ?j = "j\<lparr>dlAttempt := rnAttempt r + 1\<rparr>"
  obtain h s1 where h: "expectedHashFor env ?j (set_job ?j s) = (h, s1)" by (metis surj_pair)
  have "same_control s (set_job ?j s)" by simp
  from same_control_trans [OF this] have same: "same_control s s1"
    using expected_control [of "set_job ?j s" env ?j] h by simp
  have pos: "rank uid s = 2 * (8 - rnAttempt r)" "0 < rank uid s" using run(2) by (simp_all add: rank_def r phase)
  have "advances uid s (set_phase uid (rnAttempt r + 1) (Transferring h) s1)"
    using run(2) runs_ok_same [OF ok(1) same] run_of_same [OF same, of uid] same ok(2) r
    by (simp add: advances_def set_phase_ok rank_def set_phase_of same_control_def phase)
  moreover have "advances uid s (stop_cancelled env uid j s)"
    by (rule stop_advances [OF ok pos(2)])
  ultimately show ?thesis
    using j h phase r by (simp add: wake_run_def run_of_def Let_def)
qed

subsection \<open>Schedules\<close>

fun settles :: "nat \<Rightarrow> 'h \<times> dl_op \<Rightarrow> bool" where
  "settles uid (h, DlSettle u w) = (u = uid)"
| "settles uid (h, op) = False"

fun wakes :: "nat \<Rightarrow> 'h \<times> dl_op \<Rightarrow> bool" where
  "wakes uid (h, DlWake u) = (u = uid)"
| "wakes uid (h, op) = False"

definition effective :: "nat \<Rightarrow> dl_run \<Rightarrow> 'h \<times> dl_op \<Rightarrow> bool" where
  "effective uid r e = (case rnPhase r of Waiting \<Rightarrow> wakes uid e | Transferring _ \<Rightarrow> settles uid e)"

lemma calm_event:
  assumes "\<not> settles uid e" and "\<not> wakes uid e"
  shows "calm uid s (dl_event env e s)"
proof -
  obtain h op where e: "e = (h, op)" by (cases e)
  show ?thesis
    using assms unfolding e
    by (cases op) (auto simp: calm_begin calm_retry calm_cancel calm_remove calm_restore
        intro: calm_settle calm_wake)
qed

lemma effective_advances:
  assumes "runs_ok s" and "uid < nextController s" and "run_of uid s = Some r" and "effective uid r e"
  shows "advances uid s (dl_event env e s)"
proof -
  obtain h op where e: "e = (h, op)" by (cases e)
  show ?thesis
    using assms unfolding e
    by (cases op; cases "rnPhase r") (auto simp: effective_def intro: settle_advances wake_advances)
qed

lemma ineffective_calm:
  assumes "run_of uid s = Some r" and "\<not> effective uid r e"
  shows "calm uid s (dl_event env e s)"
proof (cases "settles uid e \<or> wakes uid e")
  case True
  obtain h op where e: "e = (h, op)" by (cases e)
  show ?thesis
    using assms True unfolding e
    by (cases op; cases "rnPhase r")
       (auto simp: effective_def run_of_def settle_run_def wake_run_def)
qed (simp add: calm_event)

lemma ended_calm:
  assumes "run_of uid s = None"
  shows "calm uid s (dl_event env e s)"
proof (cases "settles uid e \<or> wakes uid e")
  case True
  obtain h op where e: "e = (h, op)" by (cases e)
  show ?thesis
    using assms True unfolding e
    by (cases op) (auto simp: run_of_def settle_run_def wake_run_def)
qed (simp add: calm_event)

definition bounded_rank :: "nat \<Rightarrow> nat \<Rightarrow> dl_state \<Rightarrow> bool" where
  "bounded_rank uid n s \<longleftrightarrow> runs_ok s \<and> uid < nextController s \<and> rank uid s \<le> n"

lemma calm_rank: "calm uid s t \<Longrightarrow> bounded_rank uid n s \<Longrightarrow> bounded_rank uid n t"
  by (simp add: calm_def bounded_rank_def rank_def)

lemma event_rank: "bounded_rank uid n s \<Longrightarrow> bounded_rank uid n (dl_event env e s)"
proof (cases "run_of uid s")
  case (Some r)
  assume b: "bounded_rank uid n s"
  show ?thesis
  proof (cases "effective uid r e")
    case True
    from effective_advances [OF _ _ Some True] b show ?thesis
      by (fastforce simp: bounded_rank_def advances_def)
  next
    case False
    from calm_rank [OF ineffective_calm [OF Some False] b] show ?thesis .
  qed
qed (blast intro: calm_rank ended_calm)

lemma events_rank: "bounded_rank uid n s \<Longrightarrow> bounded_rank uid n (fold (dl_event env) es s)"
  by (induction es arbitrary: s) (auto intro: event_rank)

lemma round_rank:
  assumes "bounded_rank uid (Suc n) s" and "\<exists>e \<in> set b. settles uid e" and "\<exists>e \<in> set b. wakes uid e"
  shows "bounded_rank uid n (fold (dl_event env) b s)"
proof (cases "run_of uid s")
  case None
  then have "bounded_rank uid n s" using assms(1) by (simp add: bounded_rank_def rank_def)
  then show ?thesis by (rule events_rank)
next
  case (Some r)
  have "list_ex (effective uid r) b"
    using assms(2,3) by (cases "rnPhase r") (auto simp: effective_def list_ex_iff)
  with assms(1) Some show ?thesis
  proof (induction b arbitrary: s)
    case (Cons e b)
    show ?case
    proof (cases "effective uid r e")
      case True
      from effective_advances [OF _ _ Cons.prems(2) True, of env] Cons.prems(1)
      have "bounded_rank uid n (dl_event env e s)" by (auto simp: bounded_rank_def advances_def)
      then show ?thesis by (simp add: events_rank)
    next
      case False
      note calm = ineffective_calm [OF Cons.prems(2) False, of env]
      have "run_of uid (dl_event env e s) = Some r"
        using calm Cons.prems(1,2) by (auto simp: calm_def bounded_rank_def)
      moreover have "list_ex (effective uid r) b" using Cons.prems(3) False by simp
      ultimately show ?thesis
        using Cons.IH [OF calm_rank [OF calm Cons.prems(1)]] by simp
    qed
  qed simp
qed

lemma rounds_rank:
  "bounded_rank uid n s \<Longrightarrow> n \<le> length rounds \<Longrightarrow>
     list_all (\<lambda>b. list_ex (settles uid) b \<and> list_ex (wakes uid) b) rounds \<Longrightarrow>
     bounded_rank uid 0 (fold (dl_event env) (concat rounds) s)"
proof (induction rounds arbitrary: n s)
  case (Cons b rounds)
  have "bounded_rank uid (n - 1) (fold (dl_event env) b s)"
  proof (cases n)
    case 0
    then show ?thesis using Cons.prems(1) by (simp add: events_rank)
  next
    case (Suc m)
    then show ?thesis using Cons.prems round_rank [of uid m s b env] by (auto simp: list_ex_iff)
  qed
  from Cons.IH [OF this] Cons.prems show ?case by simp
qed simp

lemma event_runs_ok:
  assumes "runs_ok s"
  shows "runs_ok (dl_event env e s)"
proof -
  obtain uid where "\<not> settles uid e" "\<not> wakes uid e"
  proof -
    obtain h op where e: "e = (h, op)" by (cases e)
    show thesis using that [of 0] that [of 1] unfolding e by (cases op) (force+)
  qed
  from calm_event [OF this, of s env] assms show ?thesis by (simp add: calm_def)
qed

lemma runs_ok_empty: "runs_ok dl_empty"
  by (simp add: runs_ok_def dl_empty_def)

interpretation download_runs: invariant_system "dl_event env" runs_ok dl_empty for env
  by unfold_locales (auto simp: runs_ok_empty intro: event_runs_ok)

lemma rank_bound: "runs_ok s \<Longrightarrow> rank uid s \<le> 15"
  using run_of_ok [of s uid] by (force simp: rank_def run_ok_def split: option.split run_phase.split)

lemma rank_zero: "runs_ok s \<Longrightarrow> rank uid s = 0 \<Longrightarrow> run_of uid s = None"
  using run_of_ok [of s uid] by (auto simp: rank_def run_ok_def split: option.splits run_phase.splits)

text \<open>
  C17. Every download run ends. Take any run the manager has started, and let anything happen
  afterwards: other downloads, cancellations, retries, any answers of the hub and of the
  disk. After fifteen rounds in each of which the pending transfer of the run settles once
  and its waiting time ends once, in either order, the run has left its loop: it completed,
  failed or was cancelled, and its place is free.
\<close>

theorem download_run_ends:
  assumes "uid < nextController (fold (dl_event env) before dl_empty)"
    and "list_all (\<lambda>b. list_ex (settles uid) b \<and> list_ex (wakes uid) b) rounds"
    and "15 \<le> length rounds"
  shows "uid \<notin> rnController ` set (runs (fold (dl_event env) (before @ concat rounds) dl_empty))"
proof -
  let ?s = "fold (dl_event env) before dl_empty" and ?t = "fold (dl_event env) (before @ concat rounds) dl_empty"
  have "bounded_rank uid 15 ?s"
    using assms(1) rank_bound [OF download_runs.reachable_inv] by (simp add: bounded_rank_def download_runs.reachable_inv)
  from rounds_rank [OF this assms(3,2), of env] have "bounded_rank uid 0 ?t" by simp
  then have "run_of uid ?t = None" by (intro rank_zero) (simp_all add: bounded_rank_def)
  then show ?thesis by (simp add: run_of_def table_find_none_iff)
qed

lemma download_run_ends_witness:
  "0 \<notin> rnController ` set (runs (fold (dl_event sample_dl_env)
     ([(sample_hub, DlStart ''d1'' ''o/r'' ''a.gguf'' False)]
        @ concat (replicate 15 [(sample_hub, DlSettle 0 (sample_transfer (Some ''network'') ''h'')), (sample_hub, DlWake 0)]))
     dl_empty))"
proof (rule download_run_ends)
  show "0 < nextController (fold (dl_event sample_dl_env)
      [(sample_hub, DlStart ''d1'' ''o/r'' ''a.gguf'' False)] dl_empty)"
    by code_simp
qed (simp_all add: list_all_iff)

end
