(* ===== verification/WeightsProps.thy ===== *)
theory WeightsProps
  imports Weights
begin

text \<open>
  What deleting the weights of a model can touch, and the shape of the identifiers suggested
  for discovered files.
\<close>

subsection \<open>Suggested identifiers\<close>

lemma set_squeeze_runs: "set (squeeze_runs P d run s) \<subseteq> insert d {c \<in> set s. \<not> P c}"
  by (induction P d run s rule: squeeze_runs.induct) auto

lemma set_strip_ends: "set (strip_ends P s) \<subseteq> set s"
  unfolding strip_ends_def by (metis dual_order.trans set_dropWhileD set_rev subsetI)

text \<open>A suggested model id is not empty, at most 60 long, and has only slug characters and dashes.\<close>

lemma slug_shape:
  "toSlug v \<noteq> [] \<and> length (toSlug v) \<le> 60 \<and> set (toSlug v) \<subseteq> {c. slug_char c \<or> c = CHR ''-''}"
proof -
  let ?s = "strip_ends (\<lambda>c. c = CHR ''-'') (squeeze_runs (\<lambda>c. \<not> slug_char c) (CHR ''-'') False (to_lower v))"
  have "set (take 60 ?s) \<subseteq> set ?s" by (rule set_take_subset)
  also have "\<dots> \<subseteq> {c. slug_char c \<or> c = CHR ''-''}"
    using set_strip_ends set_squeeze_runs [of "\<lambda>c. \<not> slug_char c"] by fastforce
  finally have "set (take 60 ?s) \<subseteq> {c. slug_char c \<or> c = CHR ''-''}" .
  moreover have "list_all slug_char ''model''" by code_simp
  ultimately show ?thesis by (auto simp: toSlug_def text_or_def list_all_iff)
qed

subsection \<open>Paths below the weights directory\<close>

lemma join_head: "xs = p # ps \<Longrightarrow> \<exists>t. join sep xs = p @ t"
  by (cases ps) auto

lemma starts_dots_join: "starts_with ''..'' (join ''/'' (''..'' # ps))"
  using join_head [of "''..'' # ps" _ _ "''/''"] by (auto simp: starts_with_def)

lemma dots_outside:
  "\<not> starts_with ''..'' (join ''/'' (map (\<lambda>_. ''..'') xs)) \<Longrightarrow> xs = []"
  using starts_dots_join by (cases xs) auto

text \<open>A path that is not refused lies strictly below the directory.\<close>

lemma relative_inside:
  "\<not> outside_root (join ''/'' (path_relative base p)) \<Longrightarrow>
     \<exists>ps. ps \<noteq> [] \<and> p = base @ ps \<and> path_relative base p = ps"
proof (induction base p rule: path_relative.induct)
  case (1 a as b bs)
  show ?case
  proof (cases "a = b")
    case True
    then show ?thesis using 1 by auto
  next
    case False
    then show ?thesis
      using 1(2) starts_dots_join by (auto simp: outside_root_def)
  qed
qed (auto simp: outside_root_def dest: dots_outside)

lemma relative_append: "path_relative base (base @ ps) = ps"
  by (induction base) (cases ps; simp)+

definition below :: "path \<Rightarrow> path set" where
  "below wdir = {f. \<exists>ps. ps \<noteq> [] \<and> f = wdir @ ps}"

lemma delete_each_files:
  "set (snd (delete_each err wdir dir names files)) \<subseteq> set files \<and>
   set files - set (snd (delete_each err wdir dir names files)) \<subseteq> below wdir \<inter> {dir @ [n] | n. n \<in> set names}"
proof (induction names arbitrary: files)
  case (Cons n ns)
  have inside: "dir @ [n] \<in> below wdir" if "\<not> outside_root (inside_of wdir (dir @ [n]))"
    using relative_inside [of wdir "dir @ [n]"] that by (auto simp: below_def inside_of_def)
  let ?fs = "removeAll (dir @ [n]) files"
  consider "outside_root (inside_of wdir (dir @ [n]))" | "err (dir @ [n]) \<noteq> None"
    | "\<not> outside_root (inside_of wdir (dir @ [n]))" "err (dir @ [n]) = None" "dir @ [n] \<in> set files"
    | "err (dir @ [n]) = None" "dir @ [n] \<notin> set files" by blast
  then show ?case
  proof cases
    case 3
    then have "delete_each err wdir dir (n # ns) files =
        apfst (map_sum id ((#) (inside_of wdir (dir @ [n])))) (delete_each err wdir dir ns ?fs)"
      by (simp add: Let_def)
    then show ?thesis using Cons.IH [of ?fs] inside 3 by auto
  qed (use Cons.IH [of files] in \<open>auto simp: Let_def\<close>)
qed simp

text \<open>
  C36. Deleting a registered model never reaches outside the weights directory: whatever path the
  registry holds, with \<^verbatim>\<open>..\<close>, absolute or malformed, and whatever fails on the way, every
  file that disappears lay strictly below the directory and is named by the deletion.
\<close>

theorem deletion_stays_inside:
  "set (snd (deleteRegisteredWeights err wdir relativePath files)) \<subseteq> set files \<and>
   set files - set (snd (deleteRegisteredWeights err wdir relativePath files)) \<subseteq>
     below wdir \<inter> {butlast t @ [n] | t n. t = path_resolve wdir relativePath \<and> n \<in> set (shard_names (last t))}"
  using delete_each_files [of err wdir "butlast (path_resolve wdir relativePath)"
      "shard_names (last (path_resolve wdir relativePath))" files]
  by (auto simp: deleteRegisteredWeights_def resolveInsideWeightsDir_def Let_def)

text \<open>With nothing in the way the deletion is complete, and names what it removed.\<close>

lemma delete_each_all:
  assumes "\<And>n. n \<in> set names \<Longrightarrow> \<not> outside_root (inside_of wdir (dir @ [n]))"
  shows "\<exists>ds. delete_each (\<lambda>_. None) wdir dir names files =
      (Inr ds, filter (\<lambda>f. f \<notin> (\<lambda>n. dir @ [n]) ` set names) files) \<and>
      set ds = inside_of wdir ` (set files \<inter> (\<lambda>n. dir @ [n]) ` set names)"
  using assms
proof (induction names arbitrary: files)
  case (Cons n ns)
  have inside: "\<not> outside_root (inside_of wdir (dir @ [n]))" using Cons.prems by simp
  show ?case
  proof (cases "dir @ [n] \<in> set files")
    case True
    obtain ds where "delete_each (\<lambda>_. None) wdir dir ns (removeAll (dir @ [n]) files) =
        (Inr ds, filter (\<lambda>f. f \<notin> (\<lambda>n. dir @ [n]) ` set ns) (removeAll (dir @ [n]) files))"
      and "set ds = inside_of wdir ` (set (removeAll (dir @ [n]) files) \<inter> (\<lambda>n. dir @ [n]) ` set ns)"
      using Cons.IH [of "removeAll (dir @ [n]) files"] Cons.prems by auto
    note ds = this
    have rest: "filter (\<lambda>f. f \<notin> (\<lambda>n. dir @ [n]) ` set ns) (removeAll (dir @ [n]) files) =
        filter (\<lambda>f. f \<notin> (\<lambda>n. dir @ [n]) ` set (n # ns)) files"
      by (auto simp: removeAll_filter_not_eq intro: filter_cong)
    show ?thesis
      by (rule exI [of _ "inside_of wdir (dir @ [n]) # ds"])
        (use inside True ds rest in \<open>auto simp: Let_def\<close>)
  next
    case False
    obtain ds where "delete_each (\<lambda>_. None) wdir dir ns files =
        (Inr ds, filter (\<lambda>f. f \<notin> (\<lambda>n. dir @ [n]) ` set ns) files)"
      and "set ds = inside_of wdir ` (set files \<inter> (\<lambda>n. dir @ [n]) ` set ns)"
      using Cons.IH [of files] Cons.prems by auto
    then show ?thesis using inside False
      by (auto simp: Let_def intro!: filter_cong)
  qed
qed simp

text \<open>
  Two registry rows may spell the path of one file differently. \<^verbatim>\<open>normalizedWeightPath\<close> sees
  through one of these spellings, the deletion through all of them.
\<close>

lemma one_file_two_spellings:
  "normalizedWeightPath [''models''] ''./a.gguf'' = normalizedWeightPath [''models''] ''a.gguf'' \<and>
   deleteRegisteredWeights (\<lambda>_. None) [''models''] ''./a.gguf'' [[''models'', ''a.gguf'']] = (Inr [''a.gguf''], []) \<and>
   deleteRegisteredWeights (\<lambda>_. None) [''models''] ''a.gguf'' [[''models'', ''a.gguf'']] = (Inr [''a.gguf''], [])"
  by code_simp

end
