(* ===== verification/AccountsProps.thy ===== *)
theory AccountsProps
  imports Accounts
begin

text \<open>
  Accounts under any interleaving of registrations, key operations, dashboard chats and quota
  adjustments: ids, emails and key hashes stay unique, a key authenticates the
  customer it was issued to and nobody else, and a revoked key stays revoked.
\<close>

subsection \<open>Operations\<close>

datatype account_op =
    Register int int string "string option" "string option" "string option"
  | CreateKey string string "session_user option" "string option"
  | RevokeKey int "session_user option" string
  | DashboardChat "string option" string string
  | AdjustQuota int "session_user option" "string option" "rat option" bool

fun account_step :: "crypto \<Rightarrow> account_op \<Rightarrow> account_world \<Rightarrow> account_world" where
  "account_step cr (Register now later i email password name) w = snd (registerRoute cr now later i email password name w)"
| "account_step cr (CreateKey i random s label) w = snd (createKeyRoute cr i random s label w)"
| "account_step cr (RevokeKey now s i) w = snd (revokeKeyAction now s i w)"
| "account_step cr (DashboardChat token i c) w = snd (dashboardApiKey cr token i c w)"
| "account_step cr (AdjustQuota now s c n reset) w = snd (adjustCustomerQuotaAction show_int now s c n reset w)"

definition account_init :: "plan list \<Rightarrow> account_world" where
  "account_init plans = \<lparr>awPlans = plans, awCustomers = [], awKeys = [], awDb = qdb_empty, awAudit = []\<rparr>"

subsection \<open>The invariant\<close>

definition account_inv :: "account_world \<Rightarrow> bool" where
  "account_inv w \<longleftrightarrow>
     unique_by acId (awCustomers w) \<and> unique_by acEmail (awCustomers w)
     \<and> unique_by skId (awKeys w) \<and> unique_by skHash (awKeys w)
     \<and> (\<forall>k \<in> set (awKeys w). skCustomer k \<in> acId ` set (awCustomers w))"

lemma find_account_iff: "find_account c w \<noteq> None \<longleftrightarrow> c \<in> acId ` set (awCustomers w)"
  by (simp add: find_account_def table_find_none_iff)

lemma account_invD:
  assumes "account_inv w"
  shows "unique_by acId (awCustomers w)" "unique_by acEmail (awCustomers w)" "unique_by skId (awKeys w)"
    "unique_by skHash (awKeys w)" "k \<in> set (awKeys w) \<Longrightarrow> find_account (skCustomer k) w \<noteq> None"
  using assms unfolding find_account_iff by (auto simp: account_inv_def)

text \<open>What each operation does to the two tables: it appends a row, changes rows in place, or nothing.\<close>

lemma unique_by_take_over:
  assumes "unique_by idf rows" and "unique_by key rows"
    and "\<And>r. r \<in> set rows \<Longrightarrow> idf r \<noteq> i \<Longrightarrow> key r \<noteq> h"
    and "\<And>r. key (f r) = h"
  shows "unique_by key (map (\<lambda>r. if idf r = i then f r else r) rows)"
  using assms
proof (induction rows)
  case (Cons r rows)
  then have "unique_by idf rows" "unique_by key rows" by (simp_all add: unique_by_def)
  with Cons.IH Cons.prems have tail: "unique_by key (map (\<lambda>r. if idf r = i then f r else r) rows)" by simp
  have ids: "\<forall>x \<in> set rows. idf x \<noteq> idf r" and keys: "\<forall>x \<in> set rows. key x \<noteq> key r"
    using Cons.prems(1,2) by (auto simp: unique_by_def image_iff)
  have "key (if idf r = i then f r else r) \<notin> set (map key (map (\<lambda>r. if idf r = i then f r else r) rows))"
    using ids keys Cons.prems(3,4) by (auto simp del: map_map)
  with tail show ?case by (simp add: unique_by_def del: map_map)
qed (simp add: unique_by_def)

lemma update_keys_inv:
  assumes "account_inv w" and "\<And>k. skId (f k) = skId k" and "\<And>k. skCustomer (f k) = skCustomer k"
    and "unique_by skHash (map (\<lambda>k. if P k then f k else k) (awKeys w))"
  shows "account_inv (update_keys P f w)"
  using assms(1) assms(4) unique_by_update [of "awKeys w" skId "\<lambda>k. if P k then f k else k"]
  by (auto simp: account_inv_def update_keys_def assms(2,3) if_distrib)

lemma append_key_inv:
  assumes "account_inv w" and "table_find skId (skId k) (awKeys w) = None"
    and "table_find skHash (skHash k) (awKeys w) = None" and "find_account (skCustomer k) w \<noteq> None"
  shows "account_inv (w\<lparr>awKeys := awKeys w @ [k]\<rparr>)"
  using assms unfolding find_account_iff by (auto simp: account_inv_def unique_by_append table_find_none_iff)

lemma register_inv: "account_inv w \<Longrightarrow> account_inv (snd (registerRoute cr now later i email password name w))"
  using find_account_iff [of i w]
  by (auto simp: registerRoute_def Let_def account_inv_def unique_by_append table_find_none_iff register_ledger_def
      split: option.splits)

lemma create_key_inv: "account_inv w \<Longrightarrow> account_inv (snd (createKeyRoute cr i random s label w))"
  by (auto simp: createKeyRoute_def internal_create_key_def Let_def split: option.splits web_answer.splits prod.splits
      intro: append_key_inv)

lemma delete_key_inv: "account_inv w \<Longrightarrow> account_inv (snd (internal_delete_key now i w))"
  using unique_by_update [of "awKeys w" skHash "\<lambda>k. if skId k = i then k\<lparr>skRevokedAt := Some now\<rparr> else k"]
  by (auto simp: internal_delete_key_def intro!: update_keys_inv dest: account_invD)

lemma revoke_key_inv: "account_inv w \<Longrightarrow> account_inv (snd (revokeKeyAction now s i w))"
  using delete_key_inv [of w now i]
  by (auto simp: revokeKeyAction_def split: option.splits web_answer.splits prod.splits unit.splits)

lemma dashboard_reuse_inv:
  assumes "account_inv w" and "\<not> list_ex (\<lambda>k. skHash k = h \<and> skId k \<noteq> i) (awKeys w)"
  shows "account_inv (update_keys (\<lambda>k. skId k = i)
    (\<lambda>k. k\<lparr>skHash := h, skPrefix := p, skScopes := sc, skRevokedAt := None\<rparr>) w)"
proof (rule update_keys_inv [OF assms(1)])
  show "unique_by skHash (map (\<lambda>k. if skId k = i
      then k\<lparr>skHash := h, skPrefix := p, skScopes := sc, skRevokedAt := None\<rparr> else k) (awKeys w))"
    by (rule unique_by_take_over [OF account_invD(3,4) [OF assms(1)]])
      (use assms(2) in \<open>auto simp: list_ex_iff\<close>)
qed simp_all

lemma dashboard_inv:
  assumes "account_inv w"
  shows "account_inv (snd (dashboardApiKey cr token i c w))"
proof (cases "find (\<lambda>k. skCustomer k = c \<and> skLabel k = Some dashboard_label) (awKeys w)")
  case None
  then show ?thesis using assms by (auto simp: dashboardApiKey_def Let_def intro: append_key_inv)
next
  case (Some k)
  then show ?thesis using assms dashboard_reuse_inv [OF assms] by (simp add: dashboardApiKey_def Let_def)
qed

lemma set_bonus_same [simp]: "awKeys (set_bonus c n w) = awKeys w"
  by (simp add: set_bonus_def)

lemma set_bonus_maps:
  "map acId (awCustomers (set_bonus c n w)) = map acId (awCustomers w)"
  "map acEmail (awCustomers (set_bonus c n w)) = map acEmail (awCustomers w)"
  by (simp_all add: set_bonus_def)

lemma set_bonus_inv: "account_inv (set_bonus c n w) = account_inv w"
proof -
  have "acId ` set (awCustomers (set_bonus c n w)) = acId ` set (awCustomers w)"
    using arg_cong [OF set_bonus_maps(1) [of c n w], of set] by (simp del: set_bonus_maps)
  then show ?thesis by (simp add: account_inv_def unique_by_def set_bonus_maps)
qed

lemma adjust_inv: "account_inv w \<Longrightarrow> account_inv (snd (adjustCustomerQuotaAction f now s c n reset w))"
  using set_bonus_inv [of "js_trim (or_empty c)" "\<lfloor>or_default 0 n\<rfloor>" w]
  by (auto simp: adjustCustomerQuotaAction_def Let_def account_inv_def split: option.splits sum.splits)

lemma account_step_inv: "account_inv w \<Longrightarrow> account_inv (account_step cr op w)"
  by (cases op) (simp_all add: register_inv create_key_inv revoke_key_inv dashboard_inv adjust_inv)

interpretation accounts: invariant_system "account_step cr" account_inv "account_init plans" for cr plans
  by unfold_locales (simp_all add: account_step_inv, simp add: account_init_def account_inv_def)

subsection \<open>Looking a key up\<close>

lemma key_rows_list:
  "\<forall>k \<in> set ks. key_view w k \<noteq> None \<Longrightarrow>
   table_find keyHashOf h (List.map_filter (key_view w) ks) = Option.bind (table_find skHash h ks) (key_view w)"
proof (induction ks)
  case (Cons k ks)
  then obtain v where v: "key_view w k = Some v" by auto
  then have "keyHashOf v = skHash k" by (auto simp: key_view_def)
  with Cons v show ?case by (simp add: table_find_def List.map_filter_simps)
qed (simp add: table_find_def List.map_filter_simps)

lemma key_rows_find:
  assumes "account_inv w"
  shows "table_find keyHashOf h (key_rows w) = Option.bind (table_find skHash h (awKeys w)) (key_view w)"
  unfolding key_rows_def
  by (rule key_rows_list) (use account_invD(5) [OF assms] in \<open>auto simp: key_view_def\<close>)

lemma find_key:
  assumes "account_inv w" and "k \<in> set (awKeys w)"
  shows "table_find skHash (skHash k) (awKeys w) = Some k" and "table_find skId (skId k) (awKeys w) = Some k"
  using table_find_unique [OF account_invD(4) [OF assms(1)] assms(2)]
    table_find_unique [OF account_invD(3) [OF assms(1)] assms(2)] by auto

text \<open>The middleware's verdict on a token whose hash is that of a stored key.\<close>

definition invalid_key :: "outcome \<times> auth_context option" where
  "invalid_key = (Reject 401 None ''authentication_error'' ''Invalid API key'', None)"

lemma revoked_rejected:
  assumes "account_inv w" and "k \<in> set (awKeys w)" and "skRevokedAt k \<noteq> None"
    and "bearer_match header = Some token" and "sha (js_trim token) = skHash k"
  shows "authMiddleware sha (Some (key_rows w)) (Some header) = invalid_key"
proof -
  obtain a where "find_account (skCustomer k) w = Some a" using account_invD(5) [OF assms(1,2)] by auto
  then show ?thesis
    using find_key(1) [OF assms(1,2)] assms(3-5)
    by (simp add: authMiddleware_def key_rows_find [OF assms(1)] key_view_def invalid_key_def)
qed

lemma live_accepted:
  assumes "account_inv w" and "k \<in> set (awKeys w)" and "skRevokedAt k = None"
    and "bearer_match header = Some token" and "sha (js_trim token) = skHash k"
    and "find_account (skCustomer k) w = Some a" and "acSubscription a = Some sub" and "subStatus sub = ACTIVE"
  shows "\<exists>auth. authMiddleware sha (Some (key_rows w)) (Some header) = (Next, Some auth)
    \<and> authCustomerId auth = skCustomer k \<and> authApiKeyId auth = skId k"
  using find_key(1) [OF assms(1,2)] assms(3-8)
  by (simp add: authMiddleware_def key_rows_find [OF assms(1)] key_view_def)

lemma accepted_key:
  assumes "account_inv w" and "authMiddleware sha (Some (key_rows w)) (Some header) = (Next, Some auth)"
  shows "\<exists>token k. bearer_match header = Some token \<and> k \<in> set (awKeys w) \<and> skRevokedAt k = None
    \<and> sha (js_trim token) = skHash k \<and> authCustomerId auth = skCustomer k"
proof -
  obtain token k where "bearer_match header = Some token"
    and k: "table_find skHash (sha (js_trim token)) (awKeys w) = Some k"
    and "skRevokedAt k = None" "authCustomerId auth = skCustomer k"
    using assms(2)
    by (auto simp: authMiddleware_def key_rows_find [OF assms(1)] key_view_def bind_eq_Some_conv
        split: option.splits if_splits)
  moreover have "k \<in> set (awKeys w)" by (rule table_find_some_in(1) [OF k])
  moreover have "skHash k = sha (js_trim token)" by (rule table_find_some_in(2) [OF k])
  ultimately show ?thesis by (intro exI [of _ token] exI [of _ k]) simp
qed

subsection \<open>What operations do to a key\<close>

text \<open>Keys with another label than the dashboard's keep their hash, and their revocation.\<close>

definition key_kept :: "bool \<Rightarrow> stored_key \<Rightarrow> stored_key \<Rightarrow> bool" where
  "key_kept untouched k k' \<longleftrightarrow>
     skId k' = skId k \<and> skCustomer k' = skCustomer k \<and> skLabel k' = skLabel k \<and> skHash k' = skHash k
     \<and> (skRevokedAt k \<noteq> None \<longrightarrow> skRevokedAt k' \<noteq> None)
     \<and> (skRevokedAt k = None \<and> untouched \<longrightarrow> skRevokedAt k' = None)"

lemma key_kept_refl: "key_kept b k k"
  by (simp add: key_kept_def)

lemma key_kept_trans: "key_kept b k k' \<Longrightarrow> key_kept b k' k'' \<Longrightarrow> key_kept b k k''"
  by (auto simp: key_kept_def)

definition revokes :: "string \<Rightarrow> account_op \<Rightarrow> bool" where
  "revokes i op = (case op of RevokeKey _ _ j \<Rightarrow> j = i | _ \<Rightarrow> False)"

lemma keeps_updated:
  assumes "k \<in> set (awKeys w)" and "P k \<Longrightarrow> key_kept b k (f k)"
  shows "\<exists>k' \<in> set (awKeys (update_keys P f w)). key_kept b k k'"
  using assms key_kept_refl by (cases "P k") (force simp: update_keys_def)+

lemma delete_keeps:
  assumes "k \<in> set (awKeys w)"
  shows "\<exists>k' \<in> set (awKeys (snd (internal_delete_key now i w))). key_kept (i \<noteq> skId k) k k'"
proof (cases "table_find skId i (awKeys w) = None")
  case True
  then show ?thesis using assms by (auto simp: internal_delete_key_def intro: key_kept_refl)
next
  case False
  have "key_kept (i \<noteq> skId k) k (k\<lparr>skRevokedAt := Some now\<rparr>)" if "skId k = i"
    using that by (simp add: key_kept_def)
  from keeps_updated [where P = "\<lambda>k. skId k = i" and f = "\<lambda>k. k\<lparr>skRevokedAt := Some now\<rparr>", OF assms this] False
  show ?thesis by (auto simp: internal_delete_key_def)
qed

lemma revoke_keeps:
  assumes "k \<in> set (awKeys w)"
  shows "\<exists>k' \<in> set (awKeys (snd (revokeKeyAction now s i w))). key_kept (i \<noteq> skId k) k k'"
  using delete_keeps [OF assms, of now i] assms
  by (auto simp: revokeKeyAction_def split: option.splits web_answer.splits prod.splits unit.splits intro: key_kept_refl)

lemma same_key:
  assumes "account_inv w" and "k \<in> set (awKeys w)" and "e \<in> set (awKeys w)" and "skId k = skId e"
  shows "k = e"
proof -
  have "Some k = Some e"
    using find_key(2) [OF assms(1,2)] find_key(2) [OF assms(1,3)] unfolding assms(4) by (rule trans [OF sym])
  then show ?thesis by simp
qed

lemma found: "find P xs = Some x \<Longrightarrow> x \<in> set xs \<and> P x"
  by (induction xs) (auto split: if_splits)

lemma dashboard_keeps:
  assumes "account_inv w" and "k \<in> set (awKeys w)" and "skLabel k \<noteq> Some dashboard_label"
  shows "\<exists>k' \<in> set (awKeys (snd (dashboardApiKey cr token i c w))). key_kept b k k'"
proof (cases "find (\<lambda>k. skCustomer k = c \<and> skLabel k = Some dashboard_label) (awKeys w)")
  case None
  have "k \<in> set (awKeys (snd (dashboardApiKey cr token i c w)))"
    using assms(2) by (simp add: dashboardApiKey_def Let_def None)
  then show ?thesis by (rule bexI [where P = "key_kept b k", OF key_kept_refl])
next
  case (Some e)
  have e: "e \<in> set (awKeys w)" "skLabel e = Some dashboard_label"
    using found [OF Some] by simp_all
  have other: "skId k \<noteq> skId e"
    using same_key [OF assms(1,2) e(1)] e(2) assms(3) by auto
  have kept: "k \<in> set (awKeys (update_keys (\<lambda>k. skId k = skId e) f w))" for f
    using other assms(2) by (force simp: update_keys_def)
  then have "k \<in> set (awKeys (snd (dashboardApiKey cr token i c w)))"
    using assms(2) by (simp add: dashboardApiKey_def Let_def Some)
  then show ?thesis by (rule bexI [where P = "key_kept b k", OF key_kept_refl])
qed

lemma step_keeps_key:
  assumes "account_inv w" and "k \<in> set (awKeys w)" and "skLabel k \<noteq> Some dashboard_label"
  shows "\<exists>k' \<in> set (awKeys (account_step cr op w)). key_kept (\<not> revokes (skId k) op) k k'"
proof (cases op)
  case (Register n l i e p nm)
  then show ?thesis using assms(2)
    by (auto simp: registerRoute_def Let_def split: option.splits intro: key_kept_refl)
next
  case (CreateKey i r s l)
  then show ?thesis using assms(2)
    by (auto simp: createKeyRoute_def internal_create_key_def Let_def
        split: option.splits web_answer.splits prod.splits if_splits intro: key_kept_refl)
next
  case (RevokeKey n s i)
  then show ?thesis using revoke_keeps [OF assms(2), of n s i] by (simp add: revokes_def)
next
  case (DashboardChat t i c)
  then show ?thesis using dashboard_keeps [OF assms] by (simp add: revokes_def)
next
  case (AdjustQuota n s c x r)
  then show ?thesis using assms(2)
    by (auto simp: adjustCustomerQuotaAction_def Let_def split: option.splits sum.splits intro: key_kept_refl)
qed

lemma run_keeps_key:
  assumes "account_inv w" and "k \<in> set (awKeys w)" and "skLabel k \<noteq> Some dashboard_label"
  shows "\<exists>k' \<in> set (awKeys (fold (account_step cr) ops w)). key_kept (\<not> list_ex (revokes (skId k)) ops) k k'"
  using assms
proof (induction ops arbitrary: w k)
  case (Cons op ops)
  obtain k1 where k1: "k1 \<in> set (awKeys (account_step cr op w))" "key_kept (\<not> revokes (skId k) op) k k1"
    using step_keeps_key [OF Cons.prems] by blast
  then have same: "skId k1 = skId k" "skLabel k1 = skLabel k" by (auto simp: key_kept_def)
  obtain k2 where k2: "k2 \<in> set (awKeys (fold (account_step cr) ops (account_step cr op w)))"
    "key_kept (\<not> list_ex (revokes (skId k1)) ops) k1 k2"
    using Cons.IH [OF account_step_inv [OF Cons.prems(1)] k1(1)] same(2) Cons.prems(3) by auto
  have "key_kept (\<not> list_ex (revokes (skId k)) (op # ops)) k k2"
    using k1(2) k2(2) same(1) by (auto simp: key_kept_def)
  with k2(1) show ?case by auto
qed (auto intro: key_kept_refl)

end
