(* ===== verification/AccountKeys.thy ===== *)
theory AccountKeys
  imports AccountsProps Credentials ChatWireProps
begin

text \<open>
  What the customers rely on: a key opens the account it was issued for and no other, a
  revoked key stays shut, a new account can sign in, and the dashboard's chat acts
  for the signed-in subscriber; with the two defects of the key labelled "dashboard-chat".
\<close>

subsection \<open>Whose key\<close>

definition issues :: "crypto \<Rightarrow> account_op \<Rightarrow> string \<Rightarrow> string \<Rightarrow> bool" where
  "issues cr op c raw =
     (case op of
        CreateKey _ random (Some u) _ \<Rightarrow> c = suId u \<and> raw = raw_key random
      | DashboardChat token _ d \<Rightarrow> c = d \<and> raw = dashboard_raw cr (or_empty token) d
      | _ \<Rightarrow> False)"

lemma key_of_issue:
  assumes "account_inv w" and "k \<in> set (awKeys (account_step cr op w))"
  shows "(\<exists>k0 \<in> set (awKeys w). skHash k0 = skHash k \<and> skCustomer k0 = skCustomer k)
    \<or> (\<exists>raw. issues cr op (skCustomer k) raw \<and> skHash k = crSha cr raw)"
proof (cases op)
  case (Register n l i e p nm)
  then show ?thesis using assms by (auto simp: registerRoute_def Let_def split: option.splits if_splits)
next
  case (CreateKey i r s l)
  then show ?thesis using assms
    by (auto simp: createKeyRoute_def internal_create_key_def issues_def Let_def
        split: option.splits web_answer.splits prod.splits if_splits)
next
  case (RevokeKey n s i)
  then have "k \<in> set (awKeys w) \<or> (\<exists>x \<in> set (awKeys w). k = x\<lparr>skRevokedAt := Some n\<rparr>)"
    using assms(2)
    by (auto simp: revokeKeyAction_def internal_delete_key_def update_keys_def
        split: option.splits web_answer.splits prod.splits unit.splits if_splits)
  then show ?thesis by fastforce
next
  case (DashboardChat t i c)
  show ?thesis
  proof (cases "find (\<lambda>k. skCustomer k = c \<and> skLabel k = Some dashboard_label) (awKeys w)")
    case None
    then show ?thesis using assms(2) unfolding DashboardChat
      by (simp add: dashboardApiKey_def issues_def Let_def split: if_splits) auto
  next
    case (Some e)
    have e: "e \<in> set (awKeys w)" "skCustomer e = c" using found [OF Some] by simp_all
    have "skCustomer k0 = c" if "k0 \<in> set (awKeys w)" "skId k0 = skId e" for k0
      using same_key [OF assms(1) that(1) e(1) that(2)] e(2) by simp
    then show ?thesis using assms(2) unfolding DashboardChat
      by (auto simp: dashboardApiKey_def issues_def Let_def Some update_keys_def split: if_splits)
  qed
next
  case (AdjustQuota n s c x r)
  then show ?thesis using assms
    by (auto simp: adjustCustomerQuotaAction_def Let_def split: option.splits sum.splits if_splits)
qed

lemma keys_are_issued:
  assumes "k \<in> set (awKeys (fold (account_step cr) ops (account_init plans)))"
  shows "\<exists>op \<in> set ops. \<exists>raw. issues cr op (skCustomer k) raw \<and> skHash k = crSha cr raw"
  using assms
proof (induction ops arbitrary: k rule: rev_induct)
  case Nil
  then show ?case by (simp add: account_init_def)
next
  case (snoc op ops)
  let ?w = "fold (account_step cr) ops (account_init plans)"
  have "k \<in> set (awKeys (account_step cr op ?w))" using snoc.prems by simp
  from key_of_issue [OF accounts.reachable_inv this] snoc.IH show ?case by fastforce
qed

text \<open>
  C11. A key opens only the account it was issued for: after any sequence of registrations, key
  operations, dashboard chats and quota adjustments, a request that passes authentication as a
  customer carries a token with the hash of a raw key that an earlier operation issued
  to that very customer, from a session of theirs or for their dashboard chat.
\<close>

theorem keys_authenticate_owner:
  assumes "authMiddleware (crSha cr) (Some (key_rows (fold (account_step cr) ops (account_init plans)))) (Some header)
     = (Next, Some auth)"
  shows "\<exists>token raw. bearer_match header = Some token \<and> crSha cr (js_trim token) = crSha cr raw
     \<and> (\<exists>op \<in> set ops. issues cr op (authCustomerId auth) raw)"
proof -
  obtain token k where "bearer_match header = Some token"
    and k: "k \<in> set (awKeys (fold (account_step cr) ops (account_init plans)))"
    and "crSha cr (js_trim token) = skHash k" "authCustomerId auth = skCustomer k"
    using accepted_key [OF accounts.reachable_inv assms] by blast
  with keys_are_issued [OF k] show ?thesis by metis
qed

subsection \<open>Revocation\<close>

text \<open>
  C12. A revoked key stays shut: when its owner revokes a key that is not labelled "dashboard-chat", every
  request with a token of that hash is answered with 401, whatever operations follow.
\<close>

theorem revoked_key_stays_shut:
  assumes "account_inv w" and "k \<in> set (awKeys w)" and "skLabel k \<noteq> Some dashboard_label"
    and "suId u = skCustomer k" and "bearer_match header = Some token" and "crSha cr (js_trim token) = skHash k"
  shows "fst (revokeKeyAction now (Some u) (skId k) w) = Inr ()
    \<and> authMiddleware (crSha cr)
        (Some (key_rows (fold (account_step cr) ops (snd (revokeKeyAction now (Some u) (skId k) w)))))
        (Some header) = invalid_key"
proof -
  let ?w1 = "snd (revokeKeyAction now (Some u) (skId k) w)"
  obtain e where e: "find (\<lambda>e. skId e = skId k \<and> skCustomer e = suId u) (awKeys w) = Some e"
    using assms(2,4) by (cases "find (\<lambda>e. skId e = skId k \<and> skCustomer e = suId u) (awKeys w)") (auto simp: find_None_iff)
  have fin: "table_find skId (skId k) (awKeys w) = Some k" by (rule find_key(2) [OF assms(1,2)])
  have run: "revokeKeyAction now (Some u) (skId k) w =
      (Inr (), update_keys (\<lambda>e. skId e = skId k) (\<lambda>e. e\<lparr>skRevokedAt := Some now\<rparr>) w)"
    by (simp add: revokeKeyAction_def internal_delete_key_def e fin split: unit.split)
  have inv1: "account_inv ?w1" by (rule revoke_key_inv [OF assms(1)])
  have k1: "k\<lparr>skRevokedAt := Some now\<rparr> \<in> set (awKeys ?w1)"
    using assms(2) by (auto simp: run update_keys_def)
  have label1: "skLabel (k\<lparr>skRevokedAt := Some now\<rparr>) \<noteq> Some dashboard_label" using assms(3) by simp
  obtain k2 where k2: "k2 \<in> set (awKeys (fold (account_step cr) ops ?w1))"
    and kept: "key_kept (\<not> list_ex (revokes (skId (k\<lparr>skRevokedAt := Some now\<rparr>))) ops) (k\<lparr>skRevokedAt := Some now\<rparr>) k2"
    using run_keeps_key [OF inv1 k1 label1] by blast
  have "authMiddleware (crSha cr) (Some (key_rows (fold (account_step cr) ops ?w1))) (Some header) = invalid_key"
    by (rule revoked_rejected [OF accounts.run_inv [OF inv1] k2 _ assms(5)])
      (use kept assms(6) in \<open>auto simp: key_kept_def\<close>)
  then show ?thesis by (simp add: run)
qed

text \<open>Nobody else can revoke it: without the owner's session nothing happens.\<close>

lemma foreign_revocation_refused:
  assumes "account_inv w" and "k \<in> set (awKeys w)" and "suId u \<noteq> skCustomer k"
  shows "revokeKeyAction now (Some u) (skId k) w = (Inl ''API key not found'', w)"
proof -
  have "find (\<lambda>e. skId e = skId k \<and> skCustomer e = suId u) (awKeys w) = None"
    using same_key [OF assms(1,2)] assms(3) by (fastforce simp: find_None_iff)
  then show ?thesis by (simp add: revokeKeyAction_def)
qed

subsection \<open>Accounts last\<close>

lemma step_keeps_account:
  assumes "find_account c w = Some a"
  shows "\<exists>a'. find_account c (account_step cr op w) = Some a' \<and> acEmail a' = acEmail a
    \<and> acPasswordHash a' = acPasswordHash a \<and> acSubscription a' = acSubscription a \<and> acRole a' = acRole a"
proof (cases op)
  case (Register n l i e p nm)
  then show ?thesis using assms
    by (auto simp: registerRoute_def Let_def find_account_def split: option.splits)
next
  case (CreateKey i r s l)
  then show ?thesis using assms
    by (auto simp: createKeyRoute_def internal_create_key_def Let_def find_account_def
        split: option.splits web_answer.splits prod.splits if_splits)
next
  case (RevokeKey n s i)
  then show ?thesis using assms
    by (auto simp: revokeKeyAction_def internal_delete_key_def update_keys_def find_account_def
        split: option.splits web_answer.splits prod.splits unit.splits if_splits)
next
  case (DashboardChat t i d)
  then show ?thesis using assms
    by (auto simp: dashboardApiKey_def Let_def update_keys_def find_account_def split: option.splits)
next
  case (AdjustQuota n s d x r)
  have "\<exists>a'. find_account c (set_bonus d m w) = Some a' \<and> acEmail a' = acEmail a
    \<and> acPasswordHash a' = acPasswordHash a \<and> acSubscription a' = acSubscription a \<and> acRole a' = acRole a" for d m
  proof -
    have "table_find acId c (map (\<lambda>a. if acId a = d then a\<lparr>acBonus := acBonus a + m\<rparr> else a) rows) =
      map_option (\<lambda>a. if acId a = d then a\<lparr>acBonus := acBonus a + m\<rparr> else a) (table_find acId c rows)" for rows
      by (induction rows) (auto simp: table_find_def)
    from this [of "awCustomers w"] show ?thesis
      using assms by (cases "acId a = d") (simp_all add: find_account_def set_bonus_def del: map_map)
  qed
  with AdjustQuota assms show ?thesis
    by (auto simp: adjustCustomerQuotaAction_def Let_def find_account_def split: option.splits sum.splits)
qed

lemma run_keeps_account:
  "find_account c w = Some a \<Longrightarrow> \<exists>a'. find_account c (fold (account_step cr) ops w) = Some a' \<and> acEmail a' = acEmail a
    \<and> acPasswordHash a' = acPasswordHash a \<and> acSubscription a' = acSubscription a \<and> acRole a' = acRole a"
proof (induction ops arbitrary: w a)
  case (Cons op ops)
  from step_keeps_account [OF Cons.prems, of cr op] obtain a1 where
    "find_account c (account_step cr op w) = Some a1" and same: "acEmail a1 = acEmail a"
    "acPasswordHash a1 = acPasswordHash a" "acSubscription a1 = acSubscription a" "acRole a1 = acRole a" by blast
  from Cons.IH [OF this(1)] show ?case unfolding same by simp
qed simp

lemma bearer_header:
  assumes "raw \<noteq> []" and "\<not> is_space (hd raw)" and "\<not> list_ex line_end raw"
  shows "bearer_match (''Bearer '' @ raw) = Some raw"
proof -
  have low: "to_lower ''Bearer'' = ''bearer''" by (simp add: js_text_defs bit_Suc_0_iff)
  have space: "is_space CHR '' ''" by (simp add: is_space_def chr_code_def)
  have six: "take 6 (''Bearer '' @ raw) = ''Bearer''" and rest: "drop 6 (''Bearer '' @ raw) = CHR '' '' # raw" by simp_all
  have drop: "dropWhile is_space (CHR '' '' # raw) = raw"
    using assms(1,2) space by (cases raw) auto
  show ?thesis unfolding bearer_match_def Let_def six rest drop low using assms space by simp
qed

lemma bearer_raw:
  assumes "list_all hex_char random"
  shows "bearer_match (''Bearer '' @ raw_key random) = Some (raw_key random)" and "js_trim (raw_key random) = raw_key random"
proof -
  have ends: "\<not> is_space c" "\<not> line_end c" if "c \<in> set random" for c
    using assms that by (auto simp: list_all_iff hex_char_def is_digit_def is_space_def line_end_def)
  then have "\<not> is_space (last (raw_key random))"
    by (cases random rule: rev_cases) (auto simp: raw_key_def is_space_def chr_code_def)
  moreover have "\<not> is_space (hd (raw_key random))" by (simp add: raw_key_def is_space_def chr_code_def)
  ultimately show "js_trim (raw_key random) = raw_key random"
    by (intro trim_unspaced) (simp_all add: raw_key_def)
  have "\<not> list_ex line_end (raw_key random)"
    using ends(2) by (auto simp: list_ex_iff raw_key_def line_end_def chr_code_def)
  then show "bearer_match (''Bearer '' @ raw_key random) = Some (raw_key random)"
    by (intro bearer_header) (simp_all add: raw_key_def is_space_def chr_code_def)
qed

text \<open>
  A key just issued works until it is revoked: the raw key shown once to a customer with an active
  subscription authenticates as that customer after any operations that do not revoke it, unless
  the customer chose the label "dashboard-chat".
\<close>

theorem issued_key_works:
  assumes "account_inv w" and "list_all hex_char random"
    and "createKeyRoute cr i random (Some u) label w = (WebOk key, w1)"
    and "find_account (suId u) w = Some a" and "acSubscription a = Some sub" and "subStatus sub = ACTIVE"
    and "js_trim (or_empty label) \<noteq> dashboard_label" and "\<not> list_ex (revokes i) ops"
  shows "\<exists>auth. authMiddleware (crSha cr) (Some (key_rows (fold (account_step cr) ops w1)))
       (Some (''Bearer '' @ nkRaw key)) = (Next, Some auth)
     \<and> authCustomerId auth = suId u \<and> authApiKeyId auth = nkId key"
proof -
  define k where "k = \<lparr>skId = i, skCustomer = suId u, skHash = crSha cr (raw_key random),
    skPrefix = take 10 (raw_key random),
    skLabel = (if js_trim (or_empty label) = [] then None else Some (js_trim (or_empty label))),
    skScopes = [], skRevokedAt = None\<rparr>"
  have w1: "w1 = w\<lparr>awKeys := awKeys w @ [k]\<rparr>" and key: "nkRaw key = raw_key random" "nkId key = i"
    using assms(3)
    by (auto simp: createKeyRoute_def internal_create_key_def Let_def k_def
        split: web_answer.splits prod.splits if_splits)
  have inv1: "account_inv w1" using create_key_inv [OF assms(1), of cr i random "Some u" label] assms(3) by simp
  have label: "skLabel k \<noteq> Some dashboard_label" using assms(7) by (simp add: k_def)
  have "k \<in> set (awKeys w1)" by (simp add: w1)
  from run_keeps_key [OF inv1 this label, of cr ops] obtain k2 where
    k2: "k2 \<in> set (awKeys (fold (account_step cr) ops w1))" and kept: "key_kept (\<not> list_ex (revokes i) ops) k k2"
    by (auto simp: k_def)
  have a1: "find_account (suId u) w1 = Some a" using assms(4) by (simp add: w1 find_account_def)
  from run_keeps_account [OF a1, of cr ops] obtain a2 where
    "find_account (suId u) (fold (account_step cr) ops w1) = Some a2" "acSubscription a2 = Some sub"
    using assms(5) by auto
  then show ?thesis
    using live_accepted [OF accounts.run_inv [OF inv1] k2 _ bearer_raw(1) [OF assms(2)], of "crSha cr" a2 sub]
      kept assms(6,8) bearer_raw(2) [OF assms(2)]
    by (simp add: key key_kept_def k_def)
qed

text \<open>
  Who registers can sign in: after a successful registration and any further operations, the
  same email in any case with the same password opens a customer session of the new
  account; argon2 is taken to accept the password it hashed.
\<close>

theorem registered_can_sign_in:
  assumes "account_inv w"
    and "registerRoute cr now later i (Some email) (Some password) name w = (WebOk (c, mail), w1)"
    and "to_lower typed = to_lower email" and "\<And>p. crArgonVerify cr (crArgonHash cr p) p = Some True"
    and "\<And>p. \<not> starts_with seed_prefix (crArgonHash cr p)"
  shows "\<exists>u. authorize cr (Some typed) (Some password) (fold (account_step cr) ops w1) = Some u
     \<and> suId u = c \<and> suRole u = ''CUSTOMER''"
proof -
  obtain a where a: "find_account c w1 = Some a" "acEmail a = to_lower email" "acRole a = ''CUSTOMER''"
    "acPasswordHash a = crArgonHash cr password" and given: "to_lower email \<noteq> []" "8 \<le> length password"
    using assms(2)
    by (auto simp: registerRoute_def Let_def or_empty_def or_default_def find_account_def split: option.splits if_splits)
  have inv1: "account_inv w1"
    using register_inv [OF assms(1), of cr now later i "Some email" "Some password" name] assms(2) by simp
  let ?w = "fold (account_step cr) ops w1"
  from run_keeps_account [OF a(1), of cr ops] obtain a2 where
    a2: "find_account c ?w = Some a2" "acEmail a2 = acEmail a" "acPasswordHash a2 = acPasswordHash a" "acRole a2 = acRole a"
    by blast
  have "acId a2 = c" and "a2 \<in> set (awCustomers ?w)"
    using a2(1) unfolding find_account_def by (auto dest: table_find_some_in)
  then have "table_find acEmail (acEmail a2) (awCustomers ?w) = Some a2"
    by (intro table_find_unique [OF account_invD(2) [OF accounts.run_inv [OF inv1]]])
  moreover have "typed \<noteq> []" using given(1) assms(3) by (auto simp: to_lower_def)
  ultimately show ?thesis
    using a a2(2-4) given assms(3-5) \<open>acId a2 = c\<close>
    by (auto simp: authorize_def or_empty_def or_default_def verifyPassword_def)
qed

subsection \<open>The dashboard's chat\<close>

lemma bearer_dashboard:
  assumes "list_all hex_char (crHmac cr secret c)"
  shows "bearer_match (''Bearer '' @ dashboard_raw cr secret c) = Some (dashboard_raw cr secret c)"
    and "js_trim (dashboard_raw cr secret c) = dashboard_raw cr secret c"
proof -
  have split: "dashboard_raw cr secret c = raw_key (''dash_'' @ crHmac cr secret c)"
    by (simp add: dashboard_raw_def raw_key_def)
  have ends: "\<not> is_space x" "\<not> line_end x" if "x \<in> set (crHmac cr secret c)" for x
    using assms that by (auto simp: list_all_iff hex_char_def is_digit_def is_space_def line_end_def)
  have "\<not> is_space (last (dashboard_raw cr secret c))"
    using ends by (cases "crHmac cr secret c" rule: rev_cases) (auto simp: dashboard_raw_def is_space_def chr_code_def)
  then show "js_trim (dashboard_raw cr secret c) = dashboard_raw cr secret c"
    by (intro trim_unspaced) (simp_all add: dashboard_raw_def is_space_def chr_code_def)
  have "\<not> list_ex line_end (dashboard_raw cr secret c)"
    using ends(2) by (auto simp: list_ex_iff dashboard_raw_def line_end_def chr_code_def)
  then show "bearer_match (''Bearer '' @ dashboard_raw cr secret c) = Some (dashboard_raw cr secret c)"
    by (intro bearer_header) (simp_all add: dashboard_raw_def is_space_def chr_code_def)
qed

text \<open>The row the dashboard's key ends up in, unrevoked whatever its owner did to it before.\<close>

lemma dashboard_key_live:
  assumes "dashboardApiKey cr token i c w = (Inr raw, w')"
  shows "raw = dashboard_raw cr (or_empty token) c
    \<and> (\<exists>k \<in> set (awKeys w'). skHash k = crSha cr raw \<and> skCustomer k = c \<and> skRevokedAt k = None)"
proof (cases "find (\<lambda>k. skCustomer k = c \<and> skLabel k = Some dashboard_label) (awKeys w)")
  case None
  then show ?thesis using assms by (auto simp: dashboardApiKey_def Let_def split: if_splits)
next
  case (Some e)
  let ?raw = "dashboard_raw cr (or_empty token) c"
  let ?f = "\<lambda>k. k\<lparr>skHash := crSha cr ?raw, skPrefix := take 12 ?raw, skScopes := [''chat''], skRevokedAt := None\<rparr>"
  have e: "e \<in> set (awKeys w)" "skCustomer e = c" using found [OF Some] by simp_all
  have raw: "raw = ?raw" and w': "w' = update_keys (\<lambda>k. skId k = skId e) ?f w"
    using assms by (auto simp: dashboardApiKey_def Let_def Some split: if_splits)
  have "?f e \<in> set (awKeys w')" using e(1) by (force simp: w' update_keys_def)
  then show ?thesis using e(2) raw by (intro conjI bexI [of _ "?f e"]) simp_all
qed

text \<open>
  The chat of a signed-in subscriber is charged to that subscriber: the header the proxy sends
  authenticates as the session's customer, and the browser gets the gateway's stream.
\<close>

theorem dashboard_chat_acts_for_subscriber:
  assumes "account_inv w" and "suId u \<noteq> []" and "suRole u \<noteq> ''ADMIN''"
    and "find_account (suId u) w = Some a" and "acSubscription a = Some sub" and "subStatus sub = ACTIVE"
    and "dashboardApiKey cr token i (suId u) w = (Inr raw, w')" and "list_all hex_char (crHmac cr (or_empty token) (suId u))"
    and "gateway (''Bearer '' @ raw) (b\<lparr>rqStream := Some True\<rparr>) = Streams pieces e"
  shows "chat_route cr token i (Some u) (Some b) gateway w = (Streams pieces e, w')"
    and "\<exists>auth. authMiddleware (crSha cr) (Some (key_rows w')) (Some (''Bearer '' @ raw)) = (Next, Some auth)
      \<and> authCustomerId auth = suId u"
proof -
  show "chat_route cr token i (Some u) (Some b) gateway w = (Streams pieces e, w')"
    using assms(2,3,7,9) by (simp add: chat_route_def)
  have inv': "account_inv w'" using dashboard_inv [OF assms(1), of cr token i "suId u"] assms(7) by simp
  obtain k where k: "k \<in> set (awKeys w')" "skHash k = crSha cr raw" "skCustomer k = suId u" "skRevokedAt k = None"
    and raw: "raw = dashboard_raw cr (or_empty token) (suId u)"
    using dashboard_key_live [OF assms(7)] by blast
  have "account_step cr (DashboardChat token i (suId u)) w = w'" using assms(7) by simp
  then obtain a2 where "find_account (suId u) w' = Some a2" "acSubscription a2 = Some sub"
    using step_keeps_account [OF assms(4), of cr "DashboardChat token i (suId u)"] assms(5) by auto
  with live_accepted [OF inv' k(1,4), of "''Bearer '' @ raw" raw "crSha cr" a2 sub] k assms(6)
    bearer_dashboard [where cr = cr and secret = "or_empty token" and c = "suId u", OF assms(8)]
  show "\<exists>auth. authMiddleware (crSha cr) (Some (key_rows w')) (Some (''Bearer '' @ raw)) = (Next, Some auth)
      \<and> authCustomerId auth = suId u"
    by (auto simp: raw)
qed

subsection \<open>Examples and defects\<close>

definition sample_crypto :: crypto where
  "sample_crypto = \<lparr>crSha = (\<lambda>s. s @ ''#''), crHmac = (\<lambda>k s. ''d0''), crArgonHash = (\<lambda>p. ''$'' @ p),
     crArgonVerify = (\<lambda>h p. Some (h = ''$'' @ p))\<rparr>"

definition sample_plan :: plan where
  "sample_plan = \<lparr>planId = ''p'', planName = ''free'', planMonthlyTokenQuota = 1000, planRequestsPerMinute = 10,
     planMaxConcurrent = 2, planAllowedModelIds = [], planBillingMode = ''SUBSCRIPTION''\<rparr>"

definition sample_user :: session_user where
  "sample_user = \<lparr>suId = ''c'', suEmail = ''a@b'', suName = ''a@b'', suRole = ''CUSTOMER''\<rparr>"

definition sample_ops :: "string option \<Rightarrow> account_op list" where
  "sample_ops label = [Register 0 9 ''c'' (Some ''A@b'') (Some ''password'') None,
     CreateKey ''k'' ''0f'' (Some sample_user) label]"

definition account_sample :: "string option \<Rightarrow> account_world" where
  "account_sample label = fold (account_step sample_crypto) (sample_ops label) (account_init [sample_plan])"

lemma account_sample_inv: "account_inv (account_sample label)"
  unfolding account_sample_def by (rule accounts.reachable_inv)

definition sample_auth_of :: "account_world \<Rightarrow> string \<Rightarrow> outcome \<times> string option" where
  "sample_auth_of w header =
     (let (r, auth) = authMiddleware (crSha sample_crypto) (Some (key_rows w)) (Some header)
      in (r, map_option authCustomerId auth))"

lemma keys_authenticate_owner_witness:
  "\<exists>op \<in> set (sample_ops None). issues sample_crypto op ''c'' (raw_key ''0f'')"
proof -
  let ?auth = "authMiddleware (crSha sample_crypto) (Some (key_rows (account_sample None))) (Some ''Bearer mf_0f'')"
  have ok: "fst ?auth = Next" and c: "map_option authCustomerId (snd ?auth) = Some ''c''" by code_simp+
  then obtain auth where auth: "?auth = (Next, Some auth)" "authCustomerId auth = ''c''" by (cases ?auth) auto
  obtain token raw op where t: "bearer_match ''Bearer mf_0f'' = Some token"
      "crSha sample_crypto (js_trim token) = crSha sample_crypto raw" "op \<in> set (sample_ops None)"
      "issues sample_crypto op ''c'' raw"
    using keys_authenticate_owner [OF auth(1) [unfolded account_sample_def]] auth(2) by auto
  have "bearer_match ''Bearer mf_0f'' = Some ''mf_0f''" "js_trim ''mf_0f'' = ''mf_0f''" by code_simp+
  with t show ?thesis by (auto simp: sample_crypto_def raw_key_def)
qed

definition sample_key :: stored_key where
  "sample_key = hd (awKeys (account_sample None))"

lemma sample_key_facts:
  "sample_key \<in> set (awKeys (account_sample None))" "skId sample_key = ''k''" "skCustomer sample_key = ''c''"
  "skLabel sample_key = None" "crSha sample_crypto (js_trim ''mf_0f'') = skHash sample_key"
  by (unfold sample_key_def, rule list.set_sel(1), code_simp) code_simp+

lemma revoked_key_stays_shut_witness:
  "authMiddleware (crSha sample_crypto)
     (Some (key_rows (snd (revokeKeyAction 5 (Some sample_user) (skId sample_key) (account_sample None)))))
     (Some ''Bearer mf_0f'') = invalid_key"
proof -
  have "bearer_match ''Bearer mf_0f'' = Some ''mf_0f''"
    using bearer_header [of "''mf_0f''"] by (simp add: line_end_def is_space_def chr_code_def)
  from revoked_key_stays_shut [OF account_sample_inv sample_key_facts(1) _ _ this sample_key_facts(5),
      of sample_user 5 "[]", THEN conjunct2]
  show ?thesis by (simp add: sample_key_facts sample_user_def)
qed

lemma registered_can_sign_in_witness:
  "\<exists>u. authorize sample_crypto (Some ''a@B'') (Some ''password'')
      (snd (registerRoute sample_crypto 0 9 ''c'' (Some ''A@b'') (Some ''password'') None (account_init [sample_plan]))) = Some u
     \<and> suId u = ''c'' \<and> suRole u = ''CUSTOMER''"
proof -
  let ?run = "registerRoute sample_crypto 0 9 ''c'' (Some ''A@b'') (Some ''password'') None (account_init [sample_plan])"
  have "fst ?run = WebOk (''c'', ''a@b'')" by code_simp
  then have run: "?run = (WebOk (''c'', ''a@b''), snd ?run)" by (metis prod.collapse)
  have same: "to_lower ''a@B'' = to_lower ''A@b''" by code_simp
  have "account_inv (account_init [sample_plan])" by (rule accounts.init_inv)
  from registered_can_sign_in [OF this run same, of "[]"] show ?thesis
    by (simp add: sample_crypto_def seed_prefix_def starts_with_def)
qed

text \<open>
  Two defects of the dashboard's key. A customer who labels a key "dashboard-chat" loses it at the next
  message in the dashboard, which stores its own hash in that row; and a dashboard key the
  customer revoked is live again after the next message.
\<close>

lemma labelled_key_is_taken_over:
  "sample_auth_of (account_sample (Some ''dashboard-chat'')) ''Bearer mf_0f'' = (Next, Some ''c'')
   \<and> sample_auth_of (snd (dashboardApiKey sample_crypto (Some ''s'') ''k2'' ''c'' (account_sample (Some ''dashboard-chat''))))
       ''Bearer mf_0f'' = (fst invalid_key, None)"
  by code_simp

lemma revoked_dashboard_key_returns:
  "let w1 = snd (dashboardApiKey sample_crypto (Some ''s'') ''k2'' ''c'' (account_sample None));
       w2 = snd (revokeKeyAction 5 (Some sample_user) ''k2'' w1);
       w3 = snd (dashboardApiKey sample_crypto (Some ''s'') ''k3'' ''c'' w2)
   in sample_auth_of w1 ''Bearer mf_dash_d0'' = (Next, Some ''c'')
      \<and> sample_auth_of w2 ''Bearer mf_dash_d0'' = (fst invalid_key, None)
      \<and> sample_auth_of w3 ''Bearer mf_dash_d0'' = (Next, Some ''c'')"
  by code_simp

end
