(* ===== verification/Services.thy ===== *)
theory Services
  imports ChatHandler Billing Routing VoiceSetup
begin

text \<open>
  The gateway's metered services beside the chat (\<^verbatim>\<open>routes/v1.ts\<close>): voice uploads, with their guards,
  their hourly window, the two pipelines and what each bills (\<^verbatim>\<open>lib/meterGeminiVoice.ts\<close>), and graph
  queries and statistics (\<^verbatim>\<open>lib/neo4j.ts\<close>). All of them bill through \<^verbatim>\<open>finalizeAndMeter\<close>, with
  no reservation and at no cost. The speech models, the graph database and the inner chat request are
  parameters.
\<close>

subsection \<open>A metered call\<close>

definition no_local :: chat_local where
  "no_local = \<lparr>clExecutionId = None, clReservedTokens = 0, clHeadersStarted = False, clResolvedSlug = []\<rparr>"

definition units_acc :: "int \<Rightarrow> chat_acc" where
  "units_acc n = chat_acc_init\<lparr>caPrompt := n\<rparr>"

definition free_of_charge :: "chat_env \<Rightarrow> chat_env" where
  "free_of_charge env = env\<lparr>cePriceIn := 0, cePriceOut := 0\<rparr>"

definition open_execution :: "chat_env \<Rightarrow> string \<Rightarrow> unit chat" where
  "open_execution env slug =
     and_then (at_stage env CreateRequest (on_state (createInferenceRequest (ceExecutionId env)
         (authCustomerId (ceAuth env)) slug False))) (\<lambda>_.
       at_stage env StartAttempt (checked (\<lambda>s.
         case startAttempt (ceExecutionId env) slug 1 s of None \<Rightarrow> (False, s) | Some s' \<Rightarrow> (True, s'))))"

definition metered_call :: "chat_env \<Rightarrow> string \<Rightarrow> int \<Rightarrow> unit chat" where
  "metered_call env slug units =
     and_then (open_execution env slug) (\<lambda>_. finalizeAndMeter (free_of_charge env) slug 0 (units_acc units))"

text \<open>The Gemini pipeline bills real tokens at the model's prices, and writes no audit event.\<close>

definition meterGeminiVoiceUsage :: "chat_env \<Rightarrow> string \<Rightarrow> chat_acc \<Rightarrow> unit chat" where
  "meterGeminiVoiceUsage env slug a =
     and_then (open_execution env slug) (\<lambda>_.
     and_then (at_stage env Finalize
         (checked (finalizeInferenceRequest (ceExecutionId env) (success_fields env slug a)))) (\<lambda>_.
     and_then (at_stage env EnqueueUsage (enqueueUsage env (job_of env slug a))) (\<lambda>_.
       at_stage env BumpCache (return_ok ()))))"

datatype 'a service_reply = ServiceError int string string | ServiceOk 'a

text \<open>\<^verbatim>\<open>error instanceof Error ? error.message : fallback\<close>.\<close>

definition message_or :: "string \<Rightarrow> thrown \<Rightarrow> string" where
  "message_or fallback e = (if e = TValue then fallback else thrown_message e)"

subsection \<open>The graph\<close>

definition is_word :: "char \<Rightarrow> bool" where
  "is_word c \<longleftrightarrow> is_digit c \<or> is_lower c \<or> is_upper c \<or> chr_code c = 95"

text \<open>\<^verbatim>\<open>\b\<close> after a letter.\<close>

definition keyword_ends :: "string \<Rightarrow> bool" where
  "keyword_ends s \<longleftrightarrow> s = [] \<or> \<not> is_word (hd s)"

definition load_csv_here :: "string \<Rightarrow> bool" where
  "load_csv_here s \<longleftrightarrow> starts_with ''load'' s \<and>
     (let r = drop 4 s; q = dropWhile is_space r
      in r \<noteq> [] \<and> is_space (hd r) \<and> starts_with ''csv'' q \<and> keyword_ends (drop 3 q))"

definition keyword_here :: "string \<Rightarrow> bool" where
  "keyword_here s \<longleftrightarrow> load_csv_here s \<or>
     list_ex (\<lambda>w. starts_with w s \<and> keyword_ends (drop (length w) s))
       [''create'', ''merge'', ''delete'', ''set'', ''remove'', ''drop'', ''foreach'']"

text \<open>The boolean says whether the character before is a word character.\<close>

fun has_keyword :: "bool \<Rightarrow> string \<Rightarrow> bool" where
  "has_keyword prev [] = False"
| "has_keyword prev (c # s) = (\<not> prev \<and> keyword_here (c # s) \<or> has_keyword (is_word c) s)"

definition isWriteCypher :: "string \<Rightarrow> bool" where
  "isWriteCypher cypher = has_keyword False (to_lower cypher)"

datatype cypher_kind = CypherRead | CypherWrite

definition cypher_kind_of :: "string \<Rightarrow> cypher_kind" where
  "cypher_kind_of cypher = (if isWriteCypher cypher then CypherWrite else CypherRead)"

definition kind_slug :: "cypher_kind \<Rightarrow> string" where
  "kind_slug k = (case k of CypherWrite \<Rightarrow> ''neo4j:write'' | CypherRead \<Rightarrow> ''neo4j:read'')"

text \<open>\<^verbatim>\<open>grRun\<close> and \<^verbatim>\<open>grCounts\<close> are the database: the records of a query, and how many nodes and relationships there are.\<close>

record 'a graph =
  grUri :: "string option"
  grReadUnits :: "rat option"
  grWriteUnits :: "rat option"
  grRun :: "string \<Rightarrow> (thrown, 'a) result"
  grCounts :: "(thrown, int \<times> int) result"

definition neo4jConfigured :: "'a graph \<Rightarrow> bool" where
  "neo4jConfigured g \<longleftrightarrow> trimmed_or_empty (grUri g) \<noteq> []"

definition billable_units :: "'a graph \<Rightarrow> cypher_kind \<Rightarrow> rat" where
  "billable_units g k = (case k of CypherWrite \<Rightarrow> neo4jWriteUnits (grWriteUnits g) | CypherRead \<Rightarrow> neo4jReadUnits (grReadUnits g))"

definition runCypher :: "'a graph \<Rightarrow> string \<Rightarrow> (thrown, 'a \<times> cypher_kind \<times> rat) result" where
  "runCypher g cypher =
     (case grRun g cypher of
        Inl e \<Rightarrow> Inl e
      | Inr records \<Rightarrow> Inr (records, cypher_kind_of cypher, billable_units g (cypher_kind_of cypher)))"

definition neo4jStoreStats :: "'a graph \<Rightarrow> (thrown, int \<times> int \<times> int) result" where
  "neo4jStoreStats g =
     (case grCounts g of Inl e \<Rightarrow> Inl e | Inr (n, r) \<Rightarrow> Inr (n, r, n * 256 + r * 128))"

definition graph_unavailable :: "'b service_reply" where
  "graph_unavailable = ServiceError 503 ''service_unavailable'' ''Neo4j is not configured on ModelForge''"

text \<open>Token columns are integers: a fractional number of units is refused by the first update of the metering.\<close>

definition metered_units :: "chat_env \<Rightarrow> string \<Rightarrow> rat \<Rightarrow> unit chat" where
  "metered_units env slug units =
     (if of_int \<lfloor>units\<rfloor> = units then metered_call env slug \<lfloor>units\<rfloor>
      else and_then (open_execution env slug) (\<lambda>_. \<lambda>s. (Inl (TError ''PrismaClientValidationError'' ''invalid value'' None), s)))"

definition graph_query ::
    "'a graph \<Rightarrow> chat_env \<Rightarrow> string option \<Rightarrow> chat_state \<Rightarrow> ('a \<times> cypher_kind \<times> rat) service_reply \<times> chat_state" where
  "graph_query g env body s =
     (if \<not> neo4jConfigured g then (graph_unavailable, s)
      else if trimmed_or_empty body = [] then (ServiceError 400 ''invalid_request'' ''cypher required'', s)
      else
        (case runCypher g (trimmed_or_empty body) of
           Inl e \<Rightarrow> (ServiceError 500 ''neo4j_error'' (message_or ''Neo4j query failed'' e), s)
         | Inr (records, kind, units) \<Rightarrow>
             (case metered_units env (kind_slug kind) units (s, no_local) of
                (Inl e, (s', _)) \<Rightarrow> (ServiceError 500 ''neo4j_error'' (message_or ''Neo4j query failed'' e), s')
              | (Inr _, (s', _)) \<Rightarrow> (ServiceOk (records, kind, units), s'))))"

definition store_units :: "int \<Rightarrow> int" where
  "store_units bytes = min 2147483647 (max 0 bytes)"

definition graph_stats :: "'a graph \<Rightarrow> chat_env \<Rightarrow> chat_state \<Rightarrow> (int \<times> int \<times> int) service_reply \<times> chat_state" where
  "graph_stats g env s =
     (if \<not> neo4jConfigured g then (graph_unavailable, s)
      else
        (case neo4jStoreStats g of
           Inl e \<Rightarrow> (ServiceError 500 ''neo4j_error'' (message_or ''Neo4j stats failed'' e), s)
         | Inr (n, r, bytes) \<Rightarrow>
             (case metered_call env ''neo4j:storage'' (store_units bytes) (s, no_local) of
                (Inl e, (s', _)) \<Rightarrow> (ServiceError 500 ''neo4j_error'' (message_or ''Neo4j stats failed'' e), s')
              | (Inr _, (s', _)) \<Rightarrow> (ServiceOk (n, r, bytes), s'))))"

text \<open>The query behind its quota check; the statistics have none.\<close>

definition graph_query_route ::
    "'a graph \<Rightarrow> chat_env \<Rightarrow> string option \<Rightarrow> chat_state \<Rightarrow> ('a \<times> cypher_kind \<times> rat) service_reply \<times> chat_state" where
  "graph_query_route g env body s =
     (case quotaMiddleware_db (Some (ceAuth env)) (Some (map_option tokensUsed (ledgers (csDb s) (authCustomerId (ceAuth env))))) of
        Reject status _ type msg \<Rightarrow> (ServiceError status type msg, s)
      | Next \<Rightarrow> graph_query g env body s)"

subsection \<open>Voice uploads: the guards\<close>

text \<open>The environment's numbers are already read; the upload limit is a whole number of megabytes.\<close>

record voice_limits =
  vlEnabled :: bool
  vlMaxUploadMb :: int
  vlPerHour :: rat

record voice_upload =
  vuAudioMime :: "string option"
  vuContentType :: "string option"
  vuFileName :: "string option"
  vuBytes :: int
  vuPrompt :: "string option"
  vuModel :: "string option"

definition allowed_audio :: "string list" where
  "allowed_audio = [''audio/webm'', ''audio/wav'', ''audio/mpeg'', ''audio/mp3'', ''audio/mp4'', ''audio/x-m4a'',
     ''audio/m4a'', ''audio/aac'', ''audio/x-aac'', ''audio/ogg'', ''application/octet-stream'']"

definition audio_mime :: "voice_upload \<Rightarrow> string" where
  "audio_mime u = or_default (or_empty (vuContentType u)) (vuAudioMime u)"

definition aac_by_name :: "voice_upload \<Rightarrow> bool" where
  "aac_by_name u \<longleftrightarrow> (let n = to_lower (or_empty (vuFileName u)) in ends_with ''.aac'' n \<or> ends_with ''.m4a'' n)"

definition mime_refused :: "voice_upload \<Rightarrow> bool" where
  "mime_refused u \<longleftrightarrow> audio_mime u \<noteq> []
     \<and> to_lower (js_trim (hd (split_on CHR '';'' (audio_mime u)))) \<notin> set allowed_audio
     \<and> \<not> (aac_by_name u \<and> includes_at ''octet-stream'' (audio_mime u))"

type_synonym voice_windows = "string \<Rightarrow> (int \<times> int) option"

definition voice_hour_ms :: int where
  "voice_hour_ms = 60 * 60 * 1000"

definition voice_key :: "string \<Rightarrow> string" where
  "voice_key customer = customer @ '':voice''"

text \<open>The window of a customer: how many uploads it has admitted, and when it starts over.\<close>

definition voice_window_step :: "rat \<Rightarrow> int \<Rightarrow> string \<Rightarrow> voice_windows \<Rightarrow> bool \<times> voice_windows" where
  "voice_window_step rate now key w =
     (case w key of
        None \<Rightarrow> (True, w(key \<mapsto> (1, now + voice_hour_ms)))
      | Some (count, ends) \<Rightarrow>
          if ends \<le> now then (True, w(key \<mapsto> (1, now + voice_hour_ms)))
          else if of_int count \<ge> rate then (False, w)
          else (True, w(key \<mapsto> (count + 1, ends))))"

definition voice_guard ::
    "voice_limits \<Rightarrow> string \<Rightarrow> int \<Rightarrow> voice_upload \<Rightarrow> voice_windows \<Rightarrow> 'a service_reply option \<times> voice_windows" where
  "voice_guard caps key now u w =
     (let maxMb = max 1 (vlMaxUploadMb caps) in
      if \<not> vlEnabled caps then (Some (ServiceError 403 ''feature_disabled'' ''Voice pipeline is disabled''), w)
      else if vuBytes u = 0 then (Some (ServiceError 400 ''invalid_request'' ''Missing audio binary body''), w)
      else if vuBytes u > maxMb * 1024 * 1024
      then (Some (ServiceError 413 ''payload_too_large'' (''Audio exceeds '' @ show_int maxMb @ ''MB'')), w)
      else if mime_refused u
      then (Some (ServiceError 415 ''unsupported_media_type'' (''Unsupported audio type: '' @ audio_mime u)), w)
      else
        (case voice_window_step (vlPerHour caps) now key w of
           (False, w') \<Rightarrow> (Some (ServiceError 429 ''rate_limit_exceeded'' ''Voice upload hourly limit exceeded''), w')
         | (True, w') \<Rightarrow> (None, w')))"

subsection \<open>Voice uploads: transcription, metering and analysis\<close>

text \<open>What is billed and shown of a transcript.\<close>

record heard =
  hdEnds :: "rat option list"
  hdText :: string
  hdLanguage :: string
  hdModel :: string

record gemini_result =
  gmHeard :: heard
  gmAnalysis :: "string option"
  gmSlug :: string
  gmPromptTokens :: int
  gmCompletionTokens :: int
  gmPriceIn :: "rat option"
  gmPriceOut :: "rat option"

definition buildVoiceAnalysisPrompt :: "heard \<Rightarrow> string \<Rightarrow> string option" where
  "buildVoiceAnalysisPrompt t userPrompt =
     (let instruction = js_trim userPrompt
      in if instruction = [] then None
         else Some (join [newline] [instruction, [], ''Detected transcript language:'', or_text (hdLanguage t) ''unknown'',
                [], ''Transcript:'', hdText t]))"

definition buildVoiceAnalysisSystemPrompt :: "heard \<Rightarrow> string" where
  "buildVoiceAnalysisSystemPrompt t =
     join '' '' [''You analyze speech transcripts.'',
       ''Respond in the same language as the transcript (detected: '' @ or_text (js_trim (hdLanguage t)) ''unknown'' @ '').'',
       ''Do not translate or rewrite the transcript unless the user explicitly asks.'',
       ''Provide concise, actionable insights based only on what was said.'']"

text \<open>
  The configuration of the process, and the services outside it: the speech model (given provider,
  model and language hint), the Gemini pipeline (given whether it shall analyse) and the inner
  request to the chat completion route (status, error message and content of the answer).
\<close>

record voice_config =
  vcGemini :: bool
  vcUnitsPerSec :: "rat option"
  vcStt :: stt_defaults
  vcFile :: "string option"
  vcLanguage :: "string option"
  vcWhisperModel :: string
  vcDiarize :: bool
  vcDiarizeModel :: string
  vcStore :: "thrown option"
  vcTranscribe :: "stt_provider \<Rightarrow> string \<Rightarrow> string option \<Rightarrow> (thrown, heard) result"
  vcRunGemini :: "bool \<Rightarrow> (thrown, gemini_result) result"
  vcAnalysisModel :: "string option \<Rightarrow> (thrown, string) result"
  vcUpstream :: "string \<Rightarrow> string \<Rightarrow> string \<Rightarrow> (thrown, int \<times> string option \<times> string option) result"

record voice_answer =
  vaHeard :: heard
  vaAnalysis :: string
  vaUnits :: int
  vaModel :: "string option"

definition stt_slug :: "voice_config \<Rightarrow> heard \<Rightarrow> string" where
  "stt_slug cfg h = ''stt:'' @ or_text (hdModel h) (or_text (vcWhisperModel cfg) ''faster-whisper'')"

definition heard_seconds :: "voice_upload \<Rightarrow> heard \<Rightarrow> rat" where
  "heard_seconds u h = audioDurationSec (hdEnds h) (Some (hdText h)) (Some (vuBytes u))"

definition stt_units :: "voice_config \<Rightarrow> voice_upload \<Rightarrow> heard \<Rightarrow> int" where
  "stt_units cfg u h = sttBillableUnits (vcUnitsPerSec cfg) (heard_seconds u h)"

definition diarize_units :: "voice_upload \<Rightarrow> heard \<Rightarrow> int" where
  "diarize_units u h = max 1 \<lceil>heard_seconds u h * 5\<rceil>"

definition throw_if :: "thrown option \<Rightarrow> unit chat" where
  "throw_if e = (\<lambda>s. (case e of None \<Rightarrow> Inr () | Some e \<Rightarrow> Inl e, s))"

definition answer_of :: "(thrown, 'a) result \<Rightarrow> 'a chat" where
  "answer_of r = (\<lambda>s. (r, s))"

definition voice_gemini :: "voice_config \<Rightarrow> chat_env \<Rightarrow> voice_upload \<Rightarrow> voice_answer service_reply chat" where
  "voice_gemini cfg env u =
     and_then (throw_if (vcStore cfg)) (\<lambda>_.
     and_then (answer_of (vcRunGemini cfg (trimmed_or_empty (vuPrompt u) \<noteq> []))) (\<lambda>g.
     and_then (meterGeminiVoiceUsage (env\<lparr>cePriceIn := or_default 0 (gmPriceIn g), cePriceOut := or_default 0 (gmPriceOut g)\<rparr>)
         (gmSlug g) (chat_acc_init\<lparr>caPrompt := gmPromptTokens g, caCompletion := gmCompletionTokens g\<rparr>)) (\<lambda>_.
       return_ok (ServiceOk \<lparr>vaHeard = gmHeard g, vaAnalysis = or_empty (gmAnalysis g),
         vaUnits = gmPromptTokens g + gmCompletionTokens g, vaModel = Some (gmSlug g)\<rparr>))))"

text \<open>The bills: one execution for the transcript, another for its speakers.\<close>

definition voice_bills :: "voice_config \<Rightarrow> chat_env \<Rightarrow> chat_env \<Rightarrow> voice_upload \<Rightarrow> heard \<Rightarrow> unit chat" where
  "voice_bills cfg env env' u h =
     and_then (metered_call env (stt_slug cfg h) (stt_units cfg u h)) (\<lambda>_.
       if vcDiarize cfg then metered_call env' (''diarize:'' @ vcDiarizeModel cfg) (diarize_units u h)
       else return_ok ())"

definition voice_analysis :: "voice_config \<Rightarrow> voice_upload \<Rightarrow> heard \<Rightarrow> voice_answer service_reply chat" where
  "voice_analysis cfg u h =
     (case buildVoiceAnalysisPrompt h (trimmed_or_empty (vuPrompt u)) of
        None \<Rightarrow> return_ok (ServiceOk \<lparr>vaHeard = h, vaAnalysis = [], vaUnits = stt_units cfg u h, vaModel = None\<rparr>)
      | Some prompt \<Rightarrow>
          and_then (answer_of (vcAnalysisModel cfg (vuModel u))) (\<lambda>m.
          and_then (answer_of (vcUpstream cfg m (buildVoiceAnalysisSystemPrompt h) prompt)) (\<lambda>(status, msg, content).
            return_ok (if 200 \<le> status \<and> status < 300
              then ServiceOk \<lparr>vaHeard = h, vaAnalysis = or_empty content, vaUnits = stt_units cfg u h, vaModel = Some m\<rparr>
              else ServiceError status ''analysis_failed'' (or_default ''Transcript analysis failed'' msg)))))"

definition voice_whisper ::
    "voice_config \<Rightarrow> chat_env \<Rightarrow> chat_env \<Rightarrow> voice_upload \<Rightarrow> voice_answer service_reply chat" where
  "voice_whisper cfg env env' u =
     (let stt = resolveVoiceEnv (vcFile cfg) (vcStt cfg); m = active_stt_model stt in
      and_then (throw_if (vcStore cfg)) (\<lambda>_.
      and_then (answer_of (vcTranscribe cfg (sdProvider stt) m (resolveSttLanguageHint (vcLanguage cfg) m))) (\<lambda>h.
      and_then (voice_bills cfg env env' u h) (\<lambda>_.
        voice_analysis cfg u h))))"

definition voice_analyze ::
    "voice_limits \<Rightarrow> voice_config \<Rightarrow> chat_env \<Rightarrow> chat_env \<Rightarrow> voice_upload \<Rightarrow> voice_windows \<Rightarrow> chat_state
     \<Rightarrow> voice_answer service_reply \<times> voice_windows \<times> chat_state" where
  "voice_analyze caps cfg env env' u w s =
     (case voice_guard caps (voice_key (authCustomerId (ceAuth env))) (ceNow env) u w of
        (Some reply, w') \<Rightarrow> (reply, w', s)
      | (None, w') \<Rightarrow>
          (case (if vcGemini cfg then voice_gemini cfg env u else voice_whisper cfg env env' u) (s, no_local) of
             (Inl e, (s', _)) \<Rightarrow> (ServiceError 500 ''voice_pipeline_error'' (message_or ''Voice pipeline failed'' e), w', s')
           | (Inr reply, (s', _)) \<Rightarrow> (reply, w', s')))"

end
