(* ===== verification/Anusandhan.thy ===== *)
theory Anusandhan
  imports Services EngineRegistry
begin

text \<open>
  The API of one dedicated client (\<^verbatim>\<open>routes/anusandhan.ts\<close>, \<^verbatim>\<open>lib/anusandhanClient.ts\<close>): transcription, and
  a chat that always runs on the platform default. It shares the request records, the metering and
  the engine with the open API, and has its own admission: no reservation, no plan, no audit event.
\<close>

subsection \<open>The client\<close>

datatype client_error = ClientError string string int | ClientThrew thrown

definition assertAnusandhanClientHeader :: "bool \<Rightarrow> string option \<Rightarrow> client_error option" where
  "assertAnusandhanClientHeader required header =
     (if \<not> required then None
      else if to_lower (trimmed_or_empty header) \<noteq> ''anusandhan''
      then Some (ClientError ''Missing or invalid x-modelforge-client header (expected: anusandhan)'' ''invalid_client'' 403)
      else None)"

definition resolveAnusandhanPlatformDefault :: "hosted_model list \<Rightarrow> (client_error, hosted_model) result" where
  "resolveAnusandhanPlatformDefault rows =
     (case find isPlatformDefault rows of
        None \<Rightarrow> Inl (ClientError ''No platform default model configured - set one in Admin -> Model Registry'' ''NO_DEFAULT_MODEL'' 503)
      | Some d \<Rightarrow> Inr d)"

text \<open>The other resident models are stopped, then the default is made ready.\<close>

definition load_default ::
    "engine_env \<Rightarrow> world \<Rightarrow> hosted_model \<Rightarrow> engine \<Rightarrow> (client_error, hosted_model) result \<times> engine" where
  "load_default eenv w d s =
     (case engine_load eenv w
             \<lparr>lrModelId = modelId d, lrWeightsPath = weightsPath d, lrContextLength = contextLength d, lrThreads = nThreads d\<rparr> s of
        (Inl (EngineError c msg), s') \<Rightarrow> (Inl (ClientThrew (TEngine c msg)), s')
      | (Inr r, s') \<Rightarrow>
          if lpSuccess r then (Inr d, mark_id (hmId d) MS_LOADED s')
          else (Inl (ClientError (or_text (lpMessage r) (''Failed to load platform default '' @ modelId d)) ''MODEL_UNAVAILABLE'' 503), s'))"

definition prepareAnusandhanLlmPool ::
    "engine_env \<Rightarrow> bool \<Rightarrow> world \<Rightarrow> engine \<Rightarrow> (client_error, hosted_model) result \<times> engine" where
  "prepareAnusandhanLlmPool eenv single w s =
     (case resolveAnusandhanPlatformDefault (registry s) of
        Inl e \<Rightarrow> (Inl e, s)
      | Inr d \<Rightarrow>
          (let s1 = (if single \<and> providerKind d = LOCAL_GGUF then snd (unloadAllExcept eenv (wNow w) (modelId d) s) else s)
           in if providerKind d = OPENAI_COMPAT
              then (Inr d, if hmStatus d \<noteq> MS_LOADED then mark_id (hmId d) MS_LOADED s1 else s1)
              else if modelId d \<in> lmModelId ` set (engine_list (wNow w) s1) then (Inr d, s1)
              else load_default eenv w d s1))"

subsection \<open>The chat\<close>

text \<open>Without counts from the backend: the prompt's estimate takes in the answer.\<close>

definition anusandhan_estimate :: "chat_message list \<Rightarrow> chat_acc \<Rightarrow> chat_acc" where
  "anusandhan_estimate ms a =
     (if caPrompt a + caCompletion a = 0
      then (let chars = sum_list (map (\<lambda>m. int (length (msgContent m))) ms) + int (length (caContent a))
            in a\<lparr>caPrompt := max 1 (ceil_div chars 4), caCompletion := max 1 (ceil_div (int (length (caContent a))) 4)\<rparr>)
      else a)"

definition anusandhan_generate :: "chat_env \<Rightarrow> chat_request \<Rightarrow> chat_acc chat" where
  "anusandhan_generate env body =
     at_stage env Generation
       (case ceEngineError env of
          Some e \<Rightarrow> (\<lambda>s. (Inl e, s))
        | None \<Rightarrow> return_ok (anusandhan_estimate (chat_messages body) (fold absorb_chunk (ceChunks env) chat_acc_init)))"

text \<open>The usage job carries the execution's id as its request id.\<close>

definition own_request :: "chat_env \<Rightarrow> chat_env" where
  "own_request env = env\<lparr>ceRequestId := ceExecutionId env\<rparr>"

definition anusandhan_book :: "chat_env \<Rightarrow> string \<Rightarrow> chat_acc \<Rightarrow> unit chat" where
  "anusandhan_book env slug a =
     and_then (at_stage env Finalize
         (checked (finalizeInferenceRequest (ceExecutionId env) (success_fields env slug a)))) (\<lambda>_.
       at_stage env EnqueueUsage (enqueueUsage env (job_of (own_request env) slug a)))"

definition anusandhan_try :: "chat_env \<Rightarrow> string \<Rightarrow> chat_request \<Rightarrow> chat_acc chat" where
  "anusandhan_try env slug body =
     and_then (at_stage env CreateRequest (on_state (createInferenceRequest (ceExecutionId env)
         (authCustomerId (ceAuth env)) slug False))) (\<lambda>_.
     and_then (on_local (\<lambda>l. l\<lparr>clExecutionId := Some (ceExecutionId env)\<rparr>)) (\<lambda>_.
     and_then (at_stage env StartAttempt (checked (\<lambda>s.
         case startAttempt (ceExecutionId env) slug 1 s of None \<Rightarrow> (False, s) | Some s' \<Rightarrow> (True, s')))) (\<lambda>_.
     and_then (at_stage env Pricing (return_ok ())) (\<lambda>_.
     and_then (anusandhan_generate env body) (\<lambda>a.
     and_then (anusandhan_book env slug a) (\<lambda>_.
     and_then (at_stage env Respond (return_ok ())) (\<lambda>_.
       return_ok a)))))))"

text \<open>The \<^verbatim>\<open>catch\<close> clause: an execution that was created is failed; a failure of that is swallowed.\<close>

definition anusandhan_catch :: "chat_env \<Rightarrow> chat_state \<times> chat_local \<Rightarrow> chat_state" where
  "anusandhan_catch env sl =
     (case clExecutionId (snd sl) of
        None \<Rightarrow> fst sl
      | Some i \<Rightarrow>
          if ceThrows env FinalizeFailed \<noteq> None then fst sl
          else snd (finalizeInferenceRequest i
             \<lparr>ffStatus = Failed, ffPromptTokens = None, ffCompletionTokens = None, ffCostMicros = None,
              ffErrorCode = Some ''inference_error'', ffResolvedModelSlug = None, ffAttemptNo = Some 1\<rparr> (fst sl)))"

definition client_reply :: "client_error \<Rightarrow> 'a service_reply" where
  "client_reply e =
     (case e of
        ClientError msg c status \<Rightarrow> ServiceError status c msg
      | ClientThrew t \<Rightarrow> ServiceError 500 ''server_error'' (message_or ''Inference failed'' t))"

definition anusandhan_chat ::
    "engine_env \<Rightarrow> bool \<Rightarrow> world \<Rightarrow> chat_env \<Rightarrow> chat_request \<Rightarrow> engine \<Rightarrow> chat_state
     \<Rightarrow> (string \<times> chat_acc) service_reply \<times> engine \<times> chat_state" where
  "anusandhan_chat eenv single w env body e s =
     (if crStream body
      then (ServiceError 400 ''invalid_request'' ''Anusandhan client endpoint supports stream=false only'', e, s)
      else
        (case prepareAnusandhanLlmPool eenv single w e of
           (Inl err, e') \<Rightarrow> (client_reply err, e', s)
         | (Inr d, e') \<Rightarrow>
             (case anusandhan_try env (modelId d) body (s, no_local) of
                (Inr a, (s', _)) \<Rightarrow> (ServiceOk (modelId d, a), e', s')
              | (Inl t, (s', l)) \<Rightarrow> (client_reply (ClientThrew t), e', anusandhan_catch env (s', l)))))"

text \<open>The middlewares before it, once the key is known: the client's header and the quota of the ledger.\<close>

definition anusandhan_chat_route ::
    "bool \<Rightarrow> string option \<Rightarrow> engine_env \<Rightarrow> bool \<Rightarrow> world \<Rightarrow> chat_env \<Rightarrow> chat_request \<Rightarrow> engine \<Rightarrow> chat_state
     \<Rightarrow> (string \<times> chat_acc) service_reply \<times> engine \<times> chat_state" where
  "anusandhan_chat_route required header eenv single w env body e s =
     (case assertAnusandhanClientHeader required header of
        Some err \<Rightarrow> (client_reply err, e, s)
      | None \<Rightarrow>
          (case quotaMiddleware_db (Some (ceAuth env)) (Some (map_option tokensUsed (ledgers (csDb s) (authCustomerId (ceAuth env))))) of
             Reject status _ type msg \<Rightarrow> (ServiceError status type msg, e, s)
           | Next \<Rightarrow> anusandhan_chat eenv single w env body e s))"

subsection \<open>The transcription\<close>

definition anusandhan_voice_key :: "string \<Rightarrow> string" where
  "anusandhan_voice_key customer = customer @ '':anusandhan:voice''"

text \<open>Gemini's tokens are metered, the local models' units are only reported.\<close>

definition transcribe_gemini :: "voice_config \<Rightarrow> chat_env \<Rightarrow> voice_answer service_reply chat" where
  "transcribe_gemini cfg env =
     and_then (throw_if (vcStore cfg)) (\<lambda>_.
     and_then (answer_of (vcRunGemini cfg False)) (\<lambda>g.
     and_then (meterGeminiVoiceUsage (env\<lparr>cePriceIn := or_default 0 (gmPriceIn g), cePriceOut := or_default 0 (gmPriceOut g)\<rparr>)
         (gmSlug g) (chat_acc_init\<lparr>caPrompt := gmPromptTokens g, caCompletion := gmCompletionTokens g\<rparr>)) (\<lambda>_.
       return_ok (ServiceOk \<lparr>vaHeard = gmHeard g, vaAnalysis = or_empty (gmAnalysis g),
         vaUnits = gmPromptTokens g + gmCompletionTokens g, vaModel = Some (gmSlug g)\<rparr>))))"

definition transcribe_local :: "voice_config \<Rightarrow> voice_upload \<Rightarrow> voice_answer service_reply chat" where
  "transcribe_local cfg u =
     (let stt = resolveVoiceEnv (vcFile cfg) (vcStt cfg); m = active_stt_model stt in
      and_then (throw_if (vcStore cfg)) (\<lambda>_.
      and_then (answer_of (vcTranscribe cfg (sdProvider stt) m (resolveSttLanguageHint (vcLanguage cfg) m))) (\<lambda>h.
        return_ok (ServiceOk \<lparr>vaHeard = h, vaAnalysis = [], vaUnits = stt_units cfg u h, vaModel = None\<rparr>))))"

definition anusandhan_transcribe ::
    "voice_limits \<Rightarrow> voice_config \<Rightarrow> chat_env \<Rightarrow> voice_upload \<Rightarrow> voice_windows \<Rightarrow> chat_state
     \<Rightarrow> voice_answer service_reply \<times> voice_windows \<times> chat_state" where
  "anusandhan_transcribe caps cfg env u w s =
     (case voice_guard caps (anusandhan_voice_key (authCustomerId (ceAuth env))) (ceNow env) u w of
        (Some reply, w') \<Rightarrow> (reply, w', s)
      | (None, w') \<Rightarrow>
          (case (if vcGemini cfg then transcribe_gemini cfg env else transcribe_local cfg u) (s, no_local) of
             (Inl e, (s', _)) \<Rightarrow> (ServiceError 500 ''voice_pipeline_error'' (message_or ''Voice transcribe failed'' e), w', s')
           | (Inr reply, (s', _)) \<Rightarrow> (reply, w', s')))"

end
