(* ===== verification/ServicesProps.thy ===== *)
theory ServicesProps
  imports Services ChatProps
begin

text \<open>
  What the metered services book, and what they book when they fail; the hourly window of voice
  uploads; which requests are writes of the graph; what polling the statistics costs.
\<close>

subsection \<open>Metered calls\<close>

lemma free_of_charge_simps [simp]:
  "ceRedis (free_of_charge env) = ceRedis env" "ceNow (free_of_charge env) = ceNow env"
  "ceAuth (free_of_charge env) = ceAuth env" "ceExecutionId (free_of_charge env) = ceExecutionId env"
  "undisturbed (free_of_charge env) = undisturbed env" "job_of (free_of_charge env) slug a = job_of env slug a"
  "after_usage (free_of_charge env) j db = after_usage env j db"
  "ceThrows (free_of_charge env) = ceThrows env"
  by (simp_all add: free_of_charge_def undisturbed_def job_of_def after_usage_def)

lemma units_acc_simps [simp]: "caPrompt (units_acc n) = n" "caCompletion (units_acc n) = 0"
  by (simp_all add: units_acc_def chat_acc_init_def)

lemma keeps_open_execution: "keeps_ledger (open_execution env slug)"
  unfolding open_execution_def
  by (intro keeps_and_then keeps_at_stage keeps_checked keeps_on_state) (auto split: option.split dest: csDb_start)

lemma metered_call_cases:
  assumes "undisturbed env" and "metered_call env slug n sl = (r, sl')"
  shows "csDb (fst sl') = csDb (fst sl) \<or> csDb (fst sl') = after_usage env (job_of env slug (units_acc n)) (csDb (fst sl))"
    and "r = Inr () \<Longrightarrow> csDb (fst sl') = after_usage env (job_of env slug (units_acc n)) (csDb (fst sl))"
proof -
  obtain r1 s1 l1 where open_ex: "open_execution env slug (fst sl, snd sl) = (r1, (s1, l1))" by (metis prod.exhaust)
  note same = keeps_result [OF keeps_open_execution open_ex]
  have quiet: "undisturbed (free_of_charge env)" using assms(1) by simp
  have "(csDb (fst sl') = csDb (fst sl) \<or> csDb (fst sl') = after_usage env (job_of env slug (units_acc n)) (csDb (fst sl)))
    \<and> (r = Inr () \<longrightarrow> csDb (fst sl') = after_usage env (job_of env slug (units_acc n)) (csDb (fst sl)))"
  proof (cases r1)
    case (Inl e)
    then show ?thesis using assms(2) open_ex same by (auto simp: metered_call_def and_then_def)
  next
    case (Inr u)
    then have "finalizeAndMeter (free_of_charge env) slug 0 (units_acc n) (s1, l1) = (r, (fst sl', snd sl'))"
      using assms(2) open_ex by (simp add: metered_call_def and_then_def)
    from meter_cases [OF quiet this] same show ?thesis by (auto simp: after_commit_def)
  qed
  then show "csDb (fst sl') = csDb (fst sl) \<or> csDb (fst sl') = after_usage env (job_of env slug (units_acc n)) (csDb (fst sl))"
    and "r = Inr () \<Longrightarrow> csDb (fst sl') = after_usage env (job_of env slug (units_acc n)) (csDb (fst sl))"
    by simp_all
qed

text \<open>The event of a fresh execution, written by the handler or by the worker, is one entry of the log.\<close>

lemma booked_entries:
  assumes "fresh_request env db"
  shows "entries (delivered env later (job_of env slug a) (after_usage env (job_of env slug a) db))
    = entries db @ [usage_entry (job_of env slug a)]"
  using deliver_entries [OF assms refl] assms by (simp add: fresh_request_def)

text \<open>What one booking adds does not disturb another execution.\<close>

lemma persist_keeps_fresh:
  assumes "fresh_request env' db" and "ceExecutionId env' \<noteq> ceExecutionId env"
  shows "fresh_request env' (snd (persist_tx t (job_of env slug a) db))"
  using assms
  by (auto simp: persist_tx_post fresh_request_def job_of_def job_event_def find_entry_none usage_entry_def ensure_ledger_def
      upsert_ledger_def commit_key_def table_find_none_iff split: option.split)

lemma after_usage_keeps_fresh:
  "fresh_request env' db \<Longrightarrow> ceExecutionId env' \<noteq> ceExecutionId env
   \<Longrightarrow> fresh_request env' (after_usage env (job_of env slug a) db)"
  by (simp add: after_usage_def persist_keeps_fresh)

subsection \<open>Voice uploads\<close>

text \<open>The two bills of a transcript, once delivered.\<close>

definition voice_entries :: "voice_config \<Rightarrow> chat_env \<Rightarrow> chat_env \<Rightarrow> voice_upload \<Rightarrow> heard \<Rightarrow> quota_entry list" where
  "voice_entries cfg env env' u h =
     usage_entry (job_of env (stt_slug cfg h) (units_acc (stt_units cfg u h)))
     # (if vcDiarize cfg then [usage_entry (job_of env' (''diarize:'' @ vcDiarizeModel cfg) (units_acc (diarize_units u h)))] else [])"

definition voice_delivered :: "voice_config \<Rightarrow> chat_env \<Rightarrow> chat_env \<Rightarrow> int \<Rightarrow> voice_upload \<Rightarrow> heard \<Rightarrow> qdb \<Rightarrow> qdb" where
  "voice_delivered cfg env env' later u h db =
     (let db1 = delivered env later (job_of env (stt_slug cfg h) (units_acc (stt_units cfg u h))) db
      in if vcDiarize cfg
         then delivered env' later (job_of env' (''diarize:'' @ vcDiarizeModel cfg) (units_acc (diarize_units u h))) db1
         else db1)"

lemma persist_fresh_entries:
  "fresh_request env db \<Longrightarrow> entries (snd (persist_tx t (job_of env slug a) db)) = entries db @ [usage_entry (job_of env slug a)]"
  using persist_entries [of env db db t slug a] by (simp add: fresh_request_def)

lemma voice_bills_booked:
  assumes "undisturbed env" "undisturbed env'" and "ceRedis env' = ceRedis env"
    and "fresh_request env (csDb (fst sl))" "fresh_request env' (csDb (fst sl))"
    and "ceExecutionId env' \<noteq> ceExecutionId env"
    and "voice_bills cfg env env' u h sl = (Inr (), sl')"
  shows "entries (voice_delivered cfg env env' later u h (csDb (fst sl')))
    = entries (csDb (fst sl)) @ voice_entries cfg env env' u h"
proof -
  let ?j = "job_of env (stt_slug cfg h) (units_acc (stt_units cfg u h))"
    and ?j' = "job_of env' (''diarize:'' @ vcDiarizeModel cfg) (units_acc (diarize_units u h))"
  from assms(7) obtain sl1 where first: "metered_call env (stt_slug cfg h) (stt_units cfg u h) sl = (Inr (), sl1)"
    and second: "(if vcDiarize cfg then metered_call env' (''diarize:'' @ vcDiarizeModel cfg) (diarize_units u h)
       else return_ok ()) sl1 = (Inr (), sl')"
    by (auto simp: voice_bills_def and_then_Inr)
  have db1: "csDb (fst sl1) = after_usage env ?j (csDb (fst sl))"
    by (rule metered_call_cases(2) [OF assms(1) first]) simp
  have db2: "csDb (fst sl') = (if vcDiarize cfg then after_usage env' ?j' (csDb (fst sl1)) else csDb (fst sl1))"
  proof (cases "vcDiarize cfg")
    case True
    then have "metered_call env' (''diarize:'' @ vcDiarizeModel cfg) (diarize_units u h) sl1 = (Inr (), sl')"
      using second by simp
    from metered_call_cases(2) [OF assms(2) this] True show ?thesis by simp
  qed (use second in \<open>simp add: return_ok_def\<close>)
  show ?thesis
    using assms(3-6) persist_keeps_fresh [OF assms(5,6)] persist_fresh_entries [OF assms(4)]
    by (auto simp: voice_delivered_def voice_entries_def db2 db1 delivered_def after_usage_def persist_fresh_entries)
qed

text \<open>
  A transcribed upload is billed exactly once for what was heard: when it is answered and its usage jobs are delivered (by the handler or by the
  worker), the customer's used total has grown by the units of the audio's length and, with speakers told
  apart, by theirs, and nothing is reserved.
\<close>

theorem voice_upload_billed:
  assumes "undisturbed env" "undisturbed env'" and "ceRedis env' = ceRedis env" and "ceAuth env' = ceAuth env"
    and "fresh_request env (csDb s)" "fresh_request env' (csDb s)" and "ceExecutionId env' \<noteq> ceExecutionId env"
    and "\<not> vcGemini cfg" and "c = authCustomerId (ceAuth env)"
    and "voice_analyze caps cfg env env' u w s = (ServiceOk ans, w', s')"
  shows "let db' = voice_delivered cfg env env' later u (vaHeard ans) (csDb s')
    in used_total c (entries db') = used_total c (entries (csDb s)) + stt_units cfg u (vaHeard ans)
          + (if vcDiarize cfg then diarize_units u (vaHeard ans) else 0)
       \<and> reserved_total c (entries db') = reserved_total c (entries (csDb s))
       \<and> vaUnits ans = stt_units cfg u (vaHeard ans)"
proof -
  let ?m = "active_stt_model (resolveVoiceEnv (vcFile cfg) (vcStt cfg))"
  from assms(8,10) obtain w1 l' where run: "voice_whisper cfg env env' u (s, no_local) = (Inr (ServiceOk ans), (s', l'))"
    by (auto simp: voice_analyze_def voice_guard_def Let_def split: prod.splits sum.splits option.splits bool.splits if_splits)
  then obtain h sl1 where bills: "voice_bills cfg env env' u h (s, no_local) = (Inr (), sl1)"
    and analysis: "voice_analysis cfg u h sl1 = (Inr (ServiceOk ans), (s', l'))"
    by (auto simp: voice_whisper_def Let_def and_then_Inr throw_if_def answer_of_def split: option.splits)
  from analysis have ans: "vaHeard ans = h" "vaUnits ans = stt_units cfg u h" "sl1 = (s', l')"
    by (auto simp: voice_analysis_def return_ok_def and_then_Inr answer_of_def split: option.splits if_splits)
  have "entries (voice_delivered cfg env env' later u h (csDb (fst sl1)))
      = entries (csDb (fst (s, no_local))) @ voice_entries cfg env env' u h"
    by (rule voice_bills_booked) (use assms bills in simp_all)
  with ans assms(4,9) show ?thesis
    by (simp add: Let_def voice_entries_def used_total_def reserved_total_def usage_entry_def job_of_def)
qed

text \<open>
  A refused analysis is not a refund: the inner request's status is passed on and the bills stay booked.
\<close>

lemma refused_analysis_is_billed:
  assumes "undisturbed env" "undisturbed env'" and "ceRedis env' = ceRedis env"
    and "fresh_request env (csDb s)" "fresh_request env' (csDb s)" and "ceExecutionId env' \<noteq> ceExecutionId env"
    and "voice_whisper cfg env env' u (s, no_local) = (Inr (ServiceError status type msg), (s', l'))"
  shows "\<exists>h. entries (voice_delivered cfg env env' later u h (csDb s')) = entries (csDb s) @ voice_entries cfg env env' u h"
proof -
  from assms(7) obtain h sl1 where bills: "voice_bills cfg env env' u h (s, no_local) = (Inr (), sl1)"
    and analysis: "voice_analysis cfg u h sl1 = (Inr (ServiceError status type msg), (s', l'))"
    by (auto simp: voice_whisper_def Let_def and_then_Inr throw_if_def answer_of_def split: option.splits)
  from analysis have "sl1 = (s', l')"
    by (auto simp: voice_analysis_def return_ok_def and_then_Inr answer_of_def split: option.splits if_splits)
  with voice_bills_booked [OF assms(1-3) _ _ assms(6) bills] assms(4,5) show ?thesis by (intro exI [of _ h]) simp
qed

subsection \<open>The hourly window\<close>

text \<open>How many of a customer's uploads at the given times pass the window, and the window after them.\<close>

fun voice_admitted :: "rat \<Rightarrow> string \<Rightarrow> int list \<Rightarrow> voice_windows \<Rightarrow> nat" where
  "voice_admitted rate key [] w = 0"
| "voice_admitted rate key (t # ts) w =
     (let (ok, w') = voice_window_step rate t key w in (if ok then 1 else 0) + voice_admitted rate key ts w')"

definition voice_cap :: "rat \<Rightarrow> int" where
  "voice_cap rate = max 1 \<lceil>rate\<rceil>"

definition voice_window_over :: "string \<Rightarrow> int \<Rightarrow> voice_windows \<Rightarrow> bool" where
  "voice_window_over key t w \<longleftrightarrow> (case w key of None \<Rightarrow> True | Some (n, e) \<Rightarrow> e \<le> t)"

lemma room_for_one: "\<not> rate \<le> of_int n \<Longrightarrow> 1 + max 0 (\<lceil>rate\<rceil> - (n + 1)) \<le> max 0 (\<lceil>rate\<rceil> - n)"
proof -
  assume "\<not> rate \<le> of_int n"
  then have "n < \<lceil>rate\<rceil>" by (simp add: less_ceiling_iff)
  then show ?thesis by simp
qed

lemma admitted_in_window:
  assumes "w key = Some (n, e)" and "\<forall>t\<in>set ts. t < e"
  shows "int (voice_admitted rate key ts w) \<le> max 0 (\<lceil>rate\<rceil> - n)"
  using assms
proof (induction ts arbitrary: w n)
  case (Cons t ts)
  show ?case
  proof (cases "rate \<le> of_int n")
    case True
    with Cons show ?thesis by (simp add: voice_window_step_def)
  next
    case False
    have "int (voice_admitted rate key ts (w(key \<mapsto> (n + 1, e)))) \<le> max 0 (\<lceil>rate\<rceil> - (n + 1))"
      using Cons.prems by (intro Cons.IH) auto
    with False room_for_one [OF False] Cons.prems show ?thesis by (simp add: voice_window_step_def)
  qed
qed simp

text \<open>A window that starts over at the first of the uploads lasts longer than all of them.\<close>

lemma admitted_from_reset:
  assumes "voice_window_over key t w" and "\<forall>u\<in>set ts. u < t + voice_hour_ms"
  shows "int (voice_admitted rate key (t # ts) w) \<le> voice_cap rate"
proof -
  have "voice_window_step rate t key w = (True, w(key \<mapsto> (1, t + voice_hour_ms)))"
    using assms(1) by (auto simp: voice_window_step_def voice_window_over_def split: option.splits)
  moreover have "int (voice_admitted rate key ts (w(key \<mapsto> (1, t + voice_hour_ms)))) \<le> max 0 (\<lceil>rate\<rceil> - 1)"
    by (rule admitted_in_window) (use assms(2) in auto)
  ultimately show ?thesis by (simp add: voice_cap_def)
qed

lemma admitted_across_windows:
  assumes "w key = Some (n, e)" and "sorted ts" and "\<forall>t\<in>set ts. t0 \<le> t \<and> t < t0 + voice_hour_ms"
  shows "int (voice_admitted rate key ts w) \<le> max 0 (\<lceil>rate\<rceil> - n) + voice_cap rate"
  using assms
proof (induction ts arbitrary: w n)
  case (Cons t ts)
  show ?case
  proof (cases "e \<le> t")
    case True
    have "\<forall>u\<in>set ts. u < t + voice_hour_ms" using Cons.prems(3) by force
    moreover have "voice_window_over key t w" using True Cons.prems(1) by (simp add: voice_window_over_def)
    ultimately have "int (voice_admitted rate key (t # ts) w) \<le> voice_cap rate" by (intro admitted_from_reset)
    then show ?thesis by linarith
  next
    case open_window: False
    show ?thesis
    proof (cases "rate \<le> of_int n")
      case True
      with open_window Cons show ?thesis by (simp add: voice_window_step_def)
    next
      case False
      have "int (voice_admitted rate key ts (w(key \<mapsto> (n + 1, e)))) \<le> max 0 (\<lceil>rate\<rceil> - (n + 1)) + voice_cap rate"
        using Cons.prems by (intro Cons.IH) auto
      with False open_window room_for_one [OF False] Cons.prems show ?thesis by (simp add: voice_window_step_def)
    qed
  qed
qed (simp add: voice_cap_def)

text \<open>
  Within any hour, however its uploads fall across two windows, a customer passes at most twice the
  hourly limit (a limit below one counts as one), whatever its window holds when the hour begins.
\<close>

theorem voice_hour_bounded:
  assumes "sorted ts" and "\<forall>t\<in>set ts. t0 \<le> t \<and> t < t0 + voice_hour_ms"
    and "case w key of None \<Rightarrow> True | Some (n, e) \<Rightarrow> 0 \<le> n"
  shows "int (voice_admitted rate key ts w) \<le> 2 * voice_cap rate"
proof (cases ts)
  case (Cons t us)
  have cap: "1 \<le> voice_cap rate" "\<lceil>rate\<rceil> \<le> voice_cap rate" by (simp_all add: voice_cap_def)
  show ?thesis
  proof (cases "w key")
    case None
    have "\<forall>u\<in>set us. u < t + voice_hour_ms" using assms(2) Cons by force
    then have "int (voice_admitted rate key ts w) \<le> voice_cap rate"
      unfolding Cons by (intro admitted_from_reset) (simp_all add: voice_window_over_def None)
    with cap show ?thesis by linarith
  next
    case (Some ne)
    obtain n e where "w key = Some (n, e)" "0 \<le> n" using Some assms(3) by (cases ne) auto
    moreover from this have "int (voice_admitted rate key ts w) \<le> max 0 (\<lceil>rate\<rceil> - n) + voice_cap rate"
      using assms(1,2) by (intro admitted_across_windows)
    ultimately show ?thesis using cap by linarith
  qed
qed (simp add: voice_cap_def)

text \<open>A limit of zero still admits one upload in each window, and both windows may be full.\<close>

lemma voice_hour_bound_reached:
  "voice_admitted 2 k [3600000 - 2, 3600000 - 1, 3600000 + 5, 3600000 + 6, 3600000 + 7] [k \<mapsto> (0, 3600000)] = 4"
  "voice_admitted 0 k [5, 6] (\<lambda>_. None) = 1"
  by (simp_all add: voice_window_step_def voice_hour_ms_def)

subsection \<open>Writes of the graph\<close>

text \<open>What the regular expression finds: a keyword somewhere, with no word character on either side.\<close>

lemma has_keyword_iff:
  "has_keyword prev s \<longleftrightarrow> (\<exists>pre suf. s = pre @ suf \<and> suf \<noteq> [] \<and> keyword_here suf
     \<and> (if pre = [] then \<not> prev else \<not> is_word (last pre)))"
proof (induction prev s rule: has_keyword.induct)
  case (2 prev c s)
  show ?case
  proof
    assume "has_keyword prev (c # s)"
    then consider "\<not> prev" "keyword_here (c # s)" | "has_keyword (is_word c) s" by auto
    then show "\<exists>pre suf. c # s = pre @ suf \<and> suf \<noteq> [] \<and> keyword_here suf
        \<and> (if pre = [] then \<not> prev else \<not> is_word (last pre))"
    proof cases
      case 1
      then show ?thesis by (intro exI [of _ "[]"] exI [of _ "c # s"]) simp
    next
      case 2
      with "2.IH" obtain pre suf where "s = pre @ suf" "suf \<noteq> []" "keyword_here suf"
        "if pre = [] then \<not> is_word c else \<not> is_word (last pre)" by auto
      then show ?thesis by (intro exI [of _ "c # pre"] exI [of _ suf]) (auto split: if_splits)
    qed
  next
    assume "\<exists>pre suf. c # s = pre @ suf \<and> suf \<noteq> [] \<and> keyword_here suf
        \<and> (if pre = [] then \<not> prev else \<not> is_word (last pre))"
    then obtain pre suf where split: "c # s = pre @ suf" "suf \<noteq> []" "keyword_here suf"
      "if pre = [] then \<not> prev else \<not> is_word (last pre)" by blast
    then show "has_keyword prev (c # s)"
    proof (cases pre)
      case (Cons d pre')
      with split have "has_keyword (is_word c) s"
        unfolding "2.IH" by (intro exI [of _ pre'] exI [of _ suf]) (auto split: if_splits)
      then show ?thesis by simp
    qed auto
  qed
qed auto

text \<open>A keyword inside a text literal is one too, so a query that only reads is billed as a write.\<close>

lemma keyword_in_literal_is_a_write:
  "isWriteCypher ''MATCH (n {name: \"drop\"}) RETURN n''" "\<not> isWriteCypher ''MATCH (n {name: \"dropped\"}) RETURN n''"
  by code_simp+

subsection \<open>Polling the statistics\<close>

fun graph_polls :: "'a graph \<Rightarrow> chat_env list \<Rightarrow> chat_state \<Rightarrow> (int \<times> int \<times> int) service_reply list \<times> chat_state" where
  "graph_polls g [] s = ([], s)"
| "graph_polls g (env # envs) s =
     (let (r, s1) = graph_stats g env s; (rs, s2) = graph_polls g envs s1 in (r # rs, s2))"

lemma stats_booked:
  assumes "graph_stats g env s = (ServiceOk v, s')" and "undisturbed env" and "\<not> ceRedis env" and "fresh_request env (csDb s)"
    and "grCounts g = Inr (n, r)"
  shows "csDb s' = snd (persist_tx (ceNow env) (job_of env ''neo4j:storage'' (units_acc (store_units (n * 256 + r * 128)))) (csDb s))"
proof -
  from assms(1,5) obtain l' where
    "metered_call env ''neo4j:storage'' (store_units (n * 256 + r * 128)) (s, no_local) = (Inr (), (s', l'))"
    by (auto simp: graph_stats_def neo4jStoreStats_def graph_unavailable_def split: if_splits prod.splits sum.splits)
  from metered_call_cases(2) [OF assms(2) this] assms(3) show ?thesis by (simp add: after_usage_def)
qed

text \<open>
  The size of the graph is charged again at every look at it: after any number of answered
  statistics requests the customer's used total, which its quota is checked against, has grown by that
  many times the size (the usage summary of the same events reports it once).
\<close>

theorem graph_polls_accumulate:
  assumes "\<forall>env\<in>set envs. undisturbed env \<and> \<not> ceRedis env \<and> fresh_request env (csDb s) \<and> authCustomerId (ceAuth env) = c"
    and "distinct (map ceExecutionId envs)" and "grCounts g = Inr (n, r)"
    and "graph_polls g envs s = (replies, s')" and "\<forall>x\<in>set replies. \<exists>v. x = ServiceOk v"
  shows "used_total c (entries (csDb s')) = used_total c (entries (csDb s)) + int (length envs) * store_units (n * 256 + r * 128)"
  using assms
proof (induction envs arbitrary: s replies)
  case (Cons env envs)
  let ?u = "store_units (n * 256 + r * 128)"
  obtain x s1 where first: "graph_stats g env s = (x, s1)" by (metis prod.exhaust)
  obtain xs s2 where others: "graph_polls g envs s1 = (xs, s2)" by (metis prod.exhaust)
  with Cons.prems(4) first have split: "replies = x # xs" "s2 = s'" by simp_all
  with Cons.prems(5) obtain v where "x = ServiceOk v" by auto
  with first have db: "csDb s1 = snd (persist_tx (ceNow env) (job_of env ''neo4j:storage'' (units_acc ?u)) (csDb s))"
    using Cons.prems(1,3) by (intro stats_booked) auto
  have fresh: "fresh_request env' (csDb s1)" if "env' \<in> set envs" for env'
  proof -
    have "ceExecutionId env' \<noteq> ceExecutionId env" using Cons.prems(2) imageI [OF that, of ceExecutionId] by auto
    then show ?thesis unfolding db by (intro persist_keeps_fresh) (use Cons.prems(1) that in auto)
  qed
  have "used_total c (entries (csDb s')) = used_total c (entries (csDb s1)) + int (length envs) * ?u"
    by (rule Cons.IH [of s1 xs]) (use Cons.prems fresh others split in auto)
  moreover have "used_total c (entries (csDb s1)) = used_total c (entries (csDb s)) + ?u"
  proof -
    have "fresh_request env (csDb s)" using Cons.prems(1) by simp
    from persist_fresh_entries [OF this] Cons.prems(1) show ?thesis
      unfolding db by (simp add: used_total_def, simp add: usage_entry_def job_of_def)
  qed
  ultimately show ?case by (simp add: algebra_simps)
qed simp

lemma summary_reports_size_once:
  assumes "0 < k" and "0 \<le> b"
  shows "sumNeo4jStoreBytes (summarizeUsageEvents (replicate k \<lparr>ulSlug = ''neo4j:storage'', ulPromptTokens = b, ulCompletionTokens = 0\<rparr>)) = b"
proof -
  have "sumNeo4jStoreBytes (fold add_usage (replicate k \<lparr>ulSlug = ''neo4j:storage'', ulPromptTokens = b, ulCompletionTokens = 0\<rparr>) sm)
      = (if k = 0 then sumNeo4jStoreBytes sm else max (sumNeo4jStoreBytes sm) b)" for sm
    by (induction k arbitrary: sm) (auto simp: add_usage_def classifyUsageSlug_def starts_with_def)
  then show ?thesis using assms by (simp add: summarizeUsageEvents_def empty_summary_def)
qed

text \<open>Speakers are billed under a slug no meter kind is made for, so they are reported as model tokens.\<close>

lemma diarization_reported_as_llm: "classifyUsageSlug (''diarize:'' @ m) = Llm"
  by (simp add: classifyUsageSlug_def starts_with_def)

text \<open>
  Over its quota a customer's graph queries stop at the quota check, before anything is done. Statistics
  and uploads have no such check.
\<close>

lemma exhausted_query_refused:
  assumes "billingMode (ceAuth env) \<noteq> ''USAGE''" and "0 < monthlyTokenQuota (ceAuth env)"
    and "ledgers (csDb s) (authCustomerId (ceAuth env)) = Some l" and "monthlyTokenQuota (ceAuth env) \<le> tokensUsed l"
  shows "graph_query_route g env body s = (ServiceError 429 ''quota_exceeded'' ''Monthly token quota exhausted'', s)"
  using assms by (simp add: graph_query_route_def quotaMiddleware_db_def quota_exempt_def quota_verdict_def)

end
