(* ===== verification/VoiceSetupProps.thy ===== *)
theory VoiceSetupProps
  imports VoiceSetup ChatWireProps
begin

text \<open>
  The selection file is read back as it was written; there is one install at a time, and what it
  or an administrator selects is always a model of the provider's catalog.
\<close>

subsection \<open>The selection file\<close>

lemma newline_space [simp]: "json_space newline" "json_space CHR '' ''"
  by (simp_all add: newline_def json_space_def chr_code_def)

lemma skip_newline [simp]: "skip_ws (newline # s) = skip_ws s" "skip_ws (CHR '' '' # s) = skip_ws s"
  by (simp_all add: skip_ws_def)

lemma skip_string [simp]: "skip_ws (json_string s @ r) = json_string s @ r"
  by (simp add: json_string_def)

lemma starts_string [simp]: "starts_with [c_quote] (json_string s @ r)"
  by (simp add: json_string_def)

lemma read_json_string: "read_json (Suc n) (CHR '' '' # json_string v @ r) = Some (JStr v, r)"
proof -
  obtain s where s: "json_string v @ r = c_quote # s" by (simp add: json_string_def)
  from read_quoted [of v r] have "read_string (length (c_quote # s)) s = Some (v, r)" by (simp only: s list.sel)
  then show ?thesis unfolding s by (simp del: read_string.simps)
qed

lemma field_read:
  "read_fields (Suc (Suc n)) (runtime_field k v @ r) =
     (if starts_with ''}'' (skip_ws r) then Some ([(k, JStr v)], tl (skip_ws r))
      else if starts_with '','' (skip_ws r)
      then map_option (\<lambda>(kvs, r''). ((k, JStr v) # kvs, r'')) (read_fields (Suc n) (tl (skip_ws r)))
      else None)"
proof -
  have skip: "skip_ws (runtime_field k v @ r) = json_string k @ '': '' @ json_string v @ r"
    by (simp add: runtime_field_def)
  have "skip_ws ('': '' @ json_string v @ r) = '': '' @ json_string v @ r" by simp
  moreover have "read_json (Suc n) (tl ('': '' @ json_string v @ r)) = Some (JStr v, r)"
    using read_json_string [of n v r] by simp
  moreover have "starts_with '':'' ('': '' @ json_string v @ r)" by simp
  ultimately show ?thesis
    unfolding read_fields.simps(2) [of "Suc n"] skip
    by (simp only: starts_string read_quoted option.case prod.case not_True_eq_False if_False)
qed

lemma runtime_text_parsed:
  "parse_json (runtime_text c) = Some (JObj [(''provider'', JStr (provider_name (rtProvider c))),
     (''model'', JStr (rtModel c)), (''updatedAt'', JStr (rtUpdatedAt c))])"
proof -
  define fields where "fields = [(''provider'', JStr (provider_name (rtProvider c))),
     (''model'', JStr (rtModel c)), (''updatedAt'', JStr (rtUpdatedAt c))]"
  define body where "body = runtime_field ''provider'' (provider_name (rtProvider c)) @ '',''
     @ runtime_field ''model'' (rtModel c) @ '','' @ runtime_field ''updatedAt'' (rtUpdatedAt c)
     @ [newline] @ ''}'' @ [newline]"
  obtain n where n: "length (runtime_text c) + 1 = Suc (Suc (Suc (Suc (Suc n))))"
    by (simp add: runtime_text_def runtime_field_def)
  obtain q where "skip_ws body = c_quote # q"
    by (simp add: body_def runtime_field_def json_string_def)
  then have nonempty: "\<not> starts_with ''}'' (skip_ws body)" by simp
  have "read_fields (Suc (Suc (Suc (Suc n)))) body = Some (fields, [newline])"
    unfolding body_def fields_def by (simp add: field_read del: read_fields.simps)
  with nonempty have "read_json (Suc (Suc (Suc (Suc (Suc n))))) (''{'' @ body) = Some (JObj fields, [newline])"
    by (simp del: read_fields.simps)
  moreover have "runtime_text c = ''{'' @ body" by (simp add: runtime_text_def body_def)
  ultimately show ?thesis unfolding parse_json_def n by (simp add: fields_def del: read_json.simps)
qed

lemma asProvider_name [simp]: "asProvider (provider_name p) = Some p"
  by (cases p) (simp_all add: asProvider_def provider_name_def)

lemma trimmed_ends:
  assumes "js_trim s \<noteq> []"
  shows "\<not> is_space (hd (js_trim s))" and "\<not> is_space (last (js_trim s))"
proof -
  define t where "t = dropWhile is_space s"
  define u where "u = dropWhile is_space (rev t)"
  have js: "js_trim s = rev u" by (simp add: js_trim_def trim_start_def trim_end_def t_def u_def)
  with assms have "u \<noteq> []" by simp
  then have u: "\<not> is_space (hd u)" unfolding u_def by (rule hd_dropWhile)
  with js \<open>u \<noteq> []\<close> show "\<not> is_space (last (js_trim s))" by (simp add: last_rev)
  have "rev t = takeWhile is_space (rev t) @ u" by (simp add: u_def)
  then have split: "t = rev u @ rev (takeWhile is_space (rev t))" by (metis rev_append rev_rev_ident)
  with \<open>u \<noteq> []\<close> have "t \<noteq> []" "hd t = hd (rev u)" by (metis append_is_Nil_conv rev_is_Nil_conv, metis hd_append2 rev_is_Nil_conv)
  moreover from \<open>t \<noteq> []\<close> have "\<not> is_space (hd t)" unfolding t_def by (rule hd_dropWhile)
  ultimately show "\<not> is_space (hd (js_trim s))" by (simp add: js)
qed

lemma js_trim_idem [simp]: "js_trim (js_trim s) = js_trim s"
  by (cases "js_trim s = []") (simp_all add: trim_unspaced trimmed_ends, simp add: js_trim_def trim_start_def trim_end_def)

text \<open>
  The gateway reads back the selection it wrote: whatever provider, time and (not blank) model were
  written, the file's JSON text is parsed to the same three values, and they are what the transcription
  resolves to, whatever the environment says.
\<close>

theorem selection_survives_the_file:
  assumes "js_trim m \<noteq> []"
  shows "readVoiceRuntimeConfig (Some (runtime_text (runtime_next now p m))) = Some (runtime_next now p m)
    \<and> resolveActiveSttSelection (Some (runtime_text (runtime_next now p m))) env = (p, js_trim m)
    \<and> active_stt_model (resolveVoiceEnv (Some (runtime_text (runtime_next now p m))) env) = js_trim m"
proof -
  have "readVoiceRuntimeConfig (Some (runtime_text (runtime_next now p m))) = Some (runtime_next now p m)"
    using assms by (simp add: readVoiceRuntimeConfig_def runtime_text_parsed runtime_next_def js_prop_def or_default_def)
  with assms show ?thesis
    by (cases p) (simp_all add: resolveActiveSttSelection_def runtime_next_def resolveVoiceEnv_def active_stt_model_def)
qed

subsection \<open>One install at a time\<close>

text \<open>
  What the gateway does to its jobs and its selection: the two routes, and the two awaits of an
  install's closure coming back. \<^verbatim>\<open>randomUUID\<close> gives an identifier no job has.
\<close>

inductive voice_step :: "stt_defaults \<Rightarrow> voice_world \<Rightarrow> voice_world \<Rightarrow> bool" for env where
  Install: "i \<notin> vjId ` set (vwJobs w) \<Longrightarrow> voice_step env w (snd (install_route env i prov mdl act w))"
| PreloadEnds: "voice_step env w (preload_ended i e w)"
| WriteEnds: "voice_step env w (write_ended now i e w)"
| Activate: "voice_step env w (snd (activate_route env now ok prov mdl w))"

definition voice_boot :: "string option \<Rightarrow> voice_world" where
  "voice_boot file = \<lparr>vwJobs = [], vwActive = None, vwFile = file\<rparr>"

definition job_wf :: "string option \<Rightarrow> voice_job \<Rightarrow> bool" where
  "job_wf active j \<longleftrightarrow> isAllowedModel (vjProvider j) (vjModel j)
     \<and> (job_open j \<longrightarrow> active = Some (vjId j))"

definition voice_inv :: "string option \<Rightarrow> voice_world \<Rightarrow> bool" where
  "voice_inv file w \<longleftrightarrow> distinct (map vjId (vwJobs w)) \<and> list_all (job_wf (vwActive w)) (vwJobs w)
     \<and> (vwFile w = file \<or> (\<exists>c. isAllowedModel (rtProvider c) (rtModel c) \<and> vwFile w = Some (runtime_text c)))"

lemma update_job_ids [simp]:
  "(\<And>j. vjId (f j) = vjId j) \<Longrightarrow> map vjId (vwJobs (update_job i f w)) = map vjId (vwJobs w)"
  by (simp add: update_job_def)

lemma update_job_fields [simp]:
  "vwActive (update_job i f w) = vwActive w" "vwFile (update_job i f w) = vwFile w"
  by (simp_all add: update_job_def)

lemma finish_job_inv:
  assumes "voice_inv file w" and "st = JobSucceeded \<or> st = JobFailed"
  shows "voice_inv file (finish_job i st e w)"
proof -
  have "job_wf (if vwActive w = Some i then None else vwActive w)
          (if vjId j = i then j\<lparr>vjStatus := st, vjError := e\<rparr> else j)" if "j \<in> set (vwJobs w)" for j
    using assms that by (auto simp: voice_inv_def list_all_iff job_wf_def job_open_def)
  with assms(1) show ?thesis
    by (auto simp: voice_inv_def finish_job_def clear_active_def update_job_def list_all_iff o_def if_distrib cong: if_cong)
qed

lemma mark_writing_inv: "voice_inv file w \<Longrightarrow> voice_inv file (update_job i (\<lambda>j. j\<lparr>vjWriting := True\<rparr>) w)"
  by (auto simp: voice_inv_def update_job_def list_all_iff job_wf_def job_open_def o_def if_distrib cong: if_cong)

lemma no_install_all_closed:
  assumes "voice_inv file w" and "install_in_progress w = None" and "j \<in> set (vwJobs w)"
  shows "\<not> job_open j"
proof
  assume j: "job_open j"
  with assms(1,3) have "vwActive w = Some (vjId j)" by (auto simp: voice_inv_def list_all_iff job_wf_def)
  moreover from assms(1,3) have "table_find vjId (vjId j) (vwJobs w) = Some j"
    by (intro table_find_unique) (simp_all add: voice_inv_def unique_by_def)
  ultimately show False using assms(2) j by (simp add: install_in_progress_def)
qed

lemma start_inv:
  assumes "voice_inv file w" and "i \<notin> vjId ` set (vwJobs w)"
  shows "voice_inv file (snd (startSttModelInstall i p m act w))"
proof (cases "isAllowedModel p (js_trim m) \<and> install_in_progress w = None")
  case True
  define w1 where "w1 = w\<lparr>vwJobs := vwJobs w @ [new_job i p (js_trim m) act], vwActive := Some i\<rparr>"
  have closed: "\<not> job_open j" if "j \<in> set (vwJobs w)" for j
    by (rule no_install_all_closed) (use assms True that in auto)
  from assms(1) have old: "job_wf (vwActive w) j" if "j \<in> set (vwJobs w)" for j
    using that by (simp add: voice_inv_def list_all_iff)
  have "job_wf (Some i) j" if "j \<in> set (vwJobs w)" for j
    using closed [OF that] old [OF that] by (simp add: job_wf_def)
  moreover have "job_wf (Some i) (new_job i p (js_trim m) act)"
    using True by (simp add: job_wf_def new_job_def)
  ultimately have w1: "voice_inv file w1"
    using assms by (auto simp: voice_inv_def w1_def list_all_iff new_job_def)
  from True have "snd (startSttModelInstall i p m act w)
      = (if p = HfSpace \<and> \<not> act then finish_job i JobSucceeded None w1 else w1)"
    by (simp add: startSttModelInstall_def w1_def Let_def)
  with w1 show ?thesis by (simp add: finish_job_inv)
next
  case False
  with assms show ?thesis by (auto simp: startSttModelInstall_def Let_def)
qed

lemma preload_ended_inv: "voice_inv file w \<Longrightarrow> voice_inv file (preload_ended i e w)"
  by (auto simp: preload_ended_def finish_job_inv mark_writing_inv split: option.split)

lemma catalog_trimmed: "isAllowedModel p m \<Longrightarrow> js_trim m = m"
  by (cases p; rule trim_unspaced)
    (auto simp: isAllowedModel_def catalogForProvider_def whisper_catalog_def nemo_catalog_def hf_space_catalog_def
      default_hf_space_def is_space_def chr_code_def)

lemma write_selection_inv:
  assumes "voice_inv file w" and "isAllowedModel p m"
  shows "voice_inv file (w\<lparr>vwFile := Some (runtime_text (runtime_next now p m))\<rparr>)"
proof -
  have "isAllowedModel (rtProvider (runtime_next now p m)) (rtModel (runtime_next now p m))"
    using assms(2) by (simp add: runtime_next_def catalog_trimmed)
  then show ?thesis using assms(1) by (auto simp: voice_inv_def)
qed

lemma write_ended_inv: "voice_inv file w \<Longrightarrow> voice_inv file (write_ended now i e w)"
proof (cases "table_find vjId i (vwJobs w)")
  case (Some j)
  assume inv: "voice_inv file w"
  with table_find_some_in(1) [OF Some] have "isAllowedModel (vjProvider j) (vjModel j)"
    by (auto simp: voice_inv_def list_all_iff job_wf_def)
  with inv Some show ?thesis
    by (auto simp: write_ended_def finish_job_inv write_selection_inv split: option.split)
qed (simp add: write_ended_def)

lemma install_route_world:
  "snd (install_route env i prov mdl act w) = w
   \<or> snd (install_route env i prov mdl act w)
       = snd (startSttModelInstall i (parseProvider (or_default (provider_name (sdProvider env)) prov)) (js_trim (or_empty mdl)) act w)"
  by (simp add: install_route_def Let_def split: prod.split sum.split)

lemma voice_step_inv: "voice_step env w w' \<Longrightarrow> voice_inv file w \<Longrightarrow> voice_inv file w'"
proof (induction rule: voice_step.induct)
  case (Install i w prov mdl act)
  then show ?case
    using install_route_world [of env i prov mdl act w] start_inv by metis
next
  case (Activate w now ok prov mdl)
  then show ?case by (simp add: activate_route_def Let_def write_selection_inv)
qed (simp_all add: preload_ended_inv write_ended_inv)

lemma voice_reachable_inv: "(voice_step env)\<^sup>*\<^sup>* (voice_boot file) w \<Longrightarrow> voice_inv file w"
proof (induction rule: rtranclp_induct)
  case base
  show ?case by (simp add: voice_inv_def voice_boot_def)
qed (rule voice_step_inv)

text \<open>
  However installs, their ends and manual activations interleave, two jobs are never under way
  together: an open job is the one recorded as active, a second install asked for meanwhile is refused
  naming it, and leaves the gateway as it was. And what has been written to the selection since the start
  names a model of its provider's catalog.
\<close>

theorem install_exclusive:
  assumes "(voice_step env)\<^sup>*\<^sup>* (voice_boot file) w" and "j \<in> set (vwJobs w)" and "job_open j"
  shows "(\<forall>j'\<in>set (vwJobs w). job_open j' \<longrightarrow> j' = j)
    \<and> (isAllowedModel p (js_trim m) \<longrightarrow> startSttModelInstall i p m act w
         = (Inl (''Install already in progress for '' @ provider_name (vjProvider j) @ '':'' @ vjModel j), w))
    \<and> isAllowedModel (vjProvider j) (vjModel j)
    \<and> (vwFile w = file \<or> (\<exists>c. isAllowedModel (rtProvider c) (rtModel c) \<and> vwFile w = Some (runtime_text c)))"
proof -
  from assms(1) have inv: "voice_inv file w" by (rule voice_reachable_inv)
  then have wf: "job_wf (vwActive w) j'" if "j' \<in> set (vwJobs w)" for j'
    using that by (simp add: voice_inv_def list_all_iff)
  from wf [OF assms(2)] assms(3) have active: "vwActive w = Some (vjId j)" and allowed: "isAllowedModel (vjProvider j) (vjModel j)"
    by (simp_all add: job_wf_def)
  from inv have ids: "inj_on vjId (set (vwJobs w))" by (simp add: voice_inv_def distinct_map)
  have only: "j' = j" if "j' \<in> set (vwJobs w)" and "job_open j'" for j'
    using wf [OF that(1)] that active assms(2) ids by (auto simp: job_wf_def inj_on_def)
  from inv assms(2) have "table_find vjId (vjId j) (vwJobs w) = Some j"
    by (intro table_find_unique) (simp_all add: voice_inv_def unique_by_def)
  with active assms(3) have "install_in_progress w = Some j" by (simp add: install_in_progress_def)
  with allowed only inv show ?thesis by (auto simp: startSttModelInstall_def Let_def voice_inv_def)
qed

lemma table_find_map_same:
  "table_find key k rows = Some r \<Longrightarrow> (\<And>x. key (f x) = key x)
   \<Longrightarrow> table_find key k (map (\<lambda>x. if key x = k then f x else x) rows) = Some (f r)"
  by (induction rows) (auto simp: table_find_def split: if_splits)

text \<open>
  An install that is not disturbed ends: when its preload and its write have come back, whatever they
  report, its job is closed and the next install is admitted.
\<close>

lemma install_ends:
  assumes "voice_inv file w" and "j \<in> set (vwJobs w)" and "job_open j"
  shows "install_in_progress (write_ended now (vjId j) e' (preload_ended (vjId j) e w)) = None"
proof -
  from assms have active: "vwActive w = Some (vjId j)" by (auto simp: voice_inv_def list_all_iff job_wf_def)
  have found: "table_find vjId (vjId j) (vwJobs w) = Some j"
    using assms by (intro table_find_unique) (simp_all add: voice_inv_def unique_by_def)
  have finished: "install_in_progress (finish_job (vjId j) st m v) = None" if "vwActive v = Some (vjId j)" for st m v
    using that by (simp add: finish_job_def clear_active_def install_in_progress_def)
  have mapped: "table_find vjId (vjId j) (vwJobs (update_job (vjId j) f w)) = Some (f j)"
    if "\<And>x. vjId (f x) = vjId x" for f
    using found that by (simp add: update_job_def table_find_map_same)
  have closed: "table_find vjId (vjId j) (vwJobs (finish_job (vjId j) st m w)) = Some (j\<lparr>vjStatus := st, vjError := m\<rparr>)" for st m
    using mapped [of "\<lambda>j. j\<lparr>vjStatus := st, vjError := m\<rparr>"] by (simp add: finish_job_def clear_active_def)
  show ?thesis
    using found active assms(3)
    by (auto simp: preload_ended_def write_ended_def closed mapped finished job_open_def split: option.split)
qed

text \<open>
  The selection of an administrator made while an install runs is lost: the install writes its own when
  it ends.
\<close>

lemma activation_overwritten_by_install:
  assumes "table_find vjId i (vwJobs w) = Some j" and "job_open j" and "vjWriting j"
    and "activate_route env t ok (Some p) (Some m) w = (Inr sel, w')"
  shows "vwFile (write_ended now i None w') = Some (runtime_text (runtime_next now (vjProvider j) (vjModel j)))"
proof -
  from assms(4) have "vwJobs w' = vwJobs w" by (auto simp: activate_route_def Let_def split: if_splits)
  with assms show ?thesis by (simp add: write_ended_def finish_job_def clear_active_def)
qed

subsection \<open>Samples\<close>

definition sample_stt_env :: stt_defaults where
  "sample_stt_env = \<lparr>sdProvider = FasterWhisper, sdWhisperModel = ''small'', sdNemoModel = ''n'', sdHfSpace = []\<rparr>"

definition sample_voice_job :: voice_job where
  "sample_voice_job = new_job ''j1'' FasterWhisper ''base'' True"

definition sample_voice_world :: voice_world where
  "sample_voice_world = \<lparr>vwJobs = [sample_voice_job], vwActive = Some ''j1'', vwFile = None\<rparr>"

lemma base_trim [simp]: "js_trim '' base '' = ''base''" "js_trim ''base'' = ''base''"
  by code_simp+

lemma sample_install:
  "install_route sample_stt_env ''j1'' None (Some '' base '') True (voice_boot None) = (Inr ''j1'', sample_voice_world)"
  by (simp add: install_route_def parseProvider_def sample_stt_env_def or_default_def asProvider_def provider_name_def
      or_empty_def startSttModelInstall_def isAllowedModel_def catalogForProvider_def whisper_catalog_def
      install_in_progress_def voice_boot_def sample_voice_world_def sample_voice_job_def Let_def)

lemma selection_survives_the_file_witness:
  "readVoiceRuntimeConfig (Some (runtime_text (runtime_next ''t'' HfSpace '' base ''))) = Some (runtime_next ''t'' HfSpace '' base '')
   \<and> resolveActiveSttSelection (Some (runtime_text (runtime_next ''t'' HfSpace '' base ''))) sample_stt_env = (HfSpace, ''base'')"
  using selection_survives_the_file [of "'' base ''" "''t''" HfSpace sample_stt_env] by simp

lemma install_exclusive_witness:
  "startSttModelInstall ''j2'' Nemo ''kazalbrur/bangla-stt-conformer-120m-dialects'' False sample_voice_world
     = (Inl (''Install already in progress for '' @ ''faster-whisper'' @ '':'' @ ''base''), sample_voice_world)"
proof -
  have "(voice_step sample_stt_env)\<^sup>*\<^sup>* (voice_boot None) sample_voice_world"
    using voice_step.Install [of "''j1''" "voice_boot None" sample_stt_env None "Some '' base ''" True]
    by (simp add: sample_install, simp add: voice_boot_def)
  moreover have "sample_voice_job \<in> set (vwJobs sample_voice_world)" by (simp add: sample_voice_world_def)
  moreover have "job_open sample_voice_job" by (simp add: job_open_def sample_voice_job_def new_job_def)
  moreover have "js_trim ''kazalbrur/bangla-stt-conformer-120m-dialects'' = ''kazalbrur/bangla-stt-conformer-120m-dialects''"
    by (rule trim_unspaced) (simp_all add: is_space_def chr_code_def)
  moreover have "isAllowedModel Nemo ''kazalbrur/bangla-stt-conformer-120m-dialects''"
    by (simp add: isAllowedModel_def catalogForProvider_def nemo_catalog_def)
  ultimately show ?thesis
    using install_exclusive [of sample_stt_env None sample_voice_world sample_voice_job Nemo
        "''kazalbrur/bangla-stt-conformer-120m-dialects''" "''j2''" False]
    by (simp add: sample_voice_job_def new_job_def provider_name_def)
qed

end
