(* ===== verification/ServicesExamples.thy ===== *)
theory ServicesExamples
  imports ServicesProps ChatExamples VoiceSetupProps
begin

text \<open>Runs of the metered services on small inputs.\<close>

definition sample_call :: "string \<Rightarrow> chat_env" where
  "sample_call i = (sample_chat no_throw)\<lparr>ceExecutionId := i\<rparr>"

definition sample_heard :: heard where
  "sample_heard = \<lparr>hdEnds = [Some 1, Some 2], hdText = ''hi'', hdLanguage = ''en'', hdModel = ''small''\<rparr>"

definition sample_voice_config :: voice_config where
  "sample_voice_config = \<lparr>vcGemini = False, vcUnitsPerSec = None, vcStt = sample_stt_env, vcFile = None,
     vcLanguage = None, vcWhisperModel = ''small'', vcDiarize = True, vcDiarizeModel = ''d'', vcStore = None,
     vcTranscribe = (\<lambda>_ _ _. Inr sample_heard), vcRunGemini = (\<lambda>_. Inl TValue), vcAnalysisModel = (\<lambda>_. Inl TValue),
     vcUpstream = (\<lambda>_ _ _. Inl TValue)\<rparr>"

definition sample_limits :: voice_limits where
  "sample_limits = \<lparr>vlEnabled = True, vlMaxUploadMb = 50, vlPerHour = 20\<rparr>"

definition sample_upload :: voice_upload where
  "sample_upload = \<lparr>vuAudioMime = Some ''audio/wav'', vuContentType = None, vuFileName = None, vuBytes = 10,
     vuPrompt = None, vuModel = None\<rparr>"

lemma sample_call_fields:
  "undisturbed (sample_call i)" "ceAuth (sample_call i) = ceAuth (sample_chat no_throw)" "ceRedis (sample_call i) = False"
  "ceExecutionId (sample_call i) = i" "authCustomerId (ceAuth (sample_chat no_throw)) = ''c''"
  "csDb (chat_empty db) = db"
  by (simp_all add: sample_call_def sample_chat_def undisturbed_def sample_auth_def chat_empty_def)

lemma sample_call_fresh: "fresh_request (sample_call i) sample_db"
  by (simp add: fresh_request_def sample_db_def find_entry_def table_find_def)

lemma sample_units: "stt_units sample_voice_config sample_upload sample_heard = 50"
  "diarize_units sample_upload sample_heard = 10"
  by (simp_all add: stt_units_def diarize_units_def heard_seconds_def audioDurationSec_def sample_heard_def sttBillableUnits_def
      sttBillableUnitsPerSec_def units_setting_def sample_voice_config_def)

definition sample_answer :: voice_answer where
  "sample_answer = \<lparr>vaHeard = sample_heard, vaAnalysis = [], vaUnits = 50, vaModel = None\<rparr>"

lemma sample_run: "fst (voice_analyze sample_limits sample_voice_config (sample_call ''x'') (sample_call ''y'') sample_upload (\<lambda>_. None)
    (chat_empty sample_db)) = ServiceOk sample_answer"
  by code_simp

lemma voice_upload_billed_witness:
  "used_total ''c'' (entries (voice_delivered sample_voice_config (sample_call ''x'') (sample_call ''y'') 9 sample_upload sample_heard
     (csDb (snd (snd (voice_analyze sample_limits sample_voice_config (sample_call ''x'') (sample_call ''y'') sample_upload (\<lambda>_. None)
       (chat_empty sample_db))))))) = 50 + 10"
proof -
  let ?run = "voice_analyze sample_limits sample_voice_config (sample_call ''x'') (sample_call ''y'') sample_upload (\<lambda>_. None)
       (chat_empty sample_db)"
  have run: "?run = (ServiceOk sample_answer, fst (snd ?run), snd (snd ?run))" by (metis sample_run prod.collapse)
  have used: "used_total ''c'' (entries sample_db) = 0" by code_simp
  have heard: "vaHeard sample_answer = sample_heard" by (simp add: sample_answer_def)
  have cfg: "vcDiarize sample_voice_config" "\<not> vcGemini sample_voice_config" by (simp_all add: sample_voice_config_def)
  have ids: "ceExecutionId (sample_call ''y'') \<noteq> ceExecutionId (sample_call ''x'')" by (simp add: sample_call_fields)
  have fresh: "fresh_request (sample_call i) (csDb (chat_empty sample_db))" for i
    by (simp only: sample_call_fields sample_call_fresh)
  from voice_upload_billed [OF _ _ _ _ fresh fresh ids cfg(2) _ run, of "''c''" 9]
  show ?thesis by (simp add: sample_call_fields heard used sample_units cfg Let_def)
qed

lemma voice_hour_bounded_witness:
  "int (voice_admitted 2 ''c:voice'' [3599998, 3599999, 3600005, 3600006, 3600007] [''c:voice'' \<mapsto> (0, 3600000)]) \<le> 2 * 2"
  using voice_hour_bounded [of "[3599998, 3599999, 3600005, 3600006, 3600007]" 3599998 "[''c:voice'' \<mapsto> (0, 3600000)]" "''c:voice''" 2]
  by (simp only: voice_cap_def) (simp add: voice_hour_ms_def)

definition sample_graph :: "unit graph" where
  "sample_graph = \<lparr>grUri = Some ''bolt'', grReadUnits = None, grWriteUnits = None, grRun = (\<lambda>_. Inr ()), grCounts = Inr (3, 2)\<rparr>"

lemma graph_polls_accumulate_witness:
  "used_total ''c'' (entries (csDb (snd (graph_polls sample_graph [sample_call ''x'', sample_call ''y''] (chat_empty sample_db)))))
     = 2 * 1024"
proof -
  let ?run = "graph_polls sample_graph [sample_call ''x'', sample_call ''y''] (chat_empty sample_db)"
  have "fst ?run = [ServiceOk (3, 2, 1024), ServiceOk (3, 2, 1024)]" by code_simp
  then have run: "?run = ([ServiceOk (3, 2, 1024), ServiceOk (3, 2, 1024)], snd ?run)" by (metis prod.collapse)
  have used: "used_total ''c'' (entries sample_db) = 0" by code_simp
  have graph: "grCounts sample_graph = Inr (3, 2)" by (simp add: sample_graph_def)
  from graph_polls_accumulate [OF _ _ graph run, of "''c''"]
  show ?thesis by (simp add: sample_call_fields sample_call_fresh used store_units_def)
qed

end
