(* ===== verification/AnusandhanProps.thy ===== *)
theory AnusandhanProps
  imports Anusandhan ServicesExamples
begin

text \<open>
  What the dedicated client's API does to the ledger and to the pool: which model answers, that an answer
  is booked once, what a failure leaves behind, and what the differences from the open API amount to.
\<close>

subsection \<open>The platform default\<close>

lemma prepared_is_default:
  assumes "prepareAnusandhanLlmPool eenv single w s = (Inr d, s')"
  shows "find isPlatformDefault (registry s) = Some d"
  using assms
  by (auto simp: prepareAnusandhanLlmPool_def resolveAnusandhanPlatformDefault_def load_default_def Let_def
      split: option.splits if_splits prod.splits sum.splits engine_error.splits)

text \<open>
  Readying a local default stops every other local model, whatever it is doing: afterwards only the default
  and models the registry calls remote are in the pool.
\<close>

lemma default_alone_in_pool:
  assumes "prepareAnusandhanLlmPool eenv True w s = (Inr d, s')" and "providerKind d = LOCAL_GGUF"
    and "modelId d \<in> lmModelId ` set (engine_list (wNow w) (snd (unloadAllExcept eenv (wNow w) (modelId d) s)))"
  shows "pool s' = filter (\<lambda>i. iModelId i = modelId d \<or> isRemoteModel (iModelId i) s) (pool s)"
proof -
  have "find isPlatformDefault (registry s) = Some d" by (rule prepared_is_default [OF assms(1)])
  then have "s' = snd (unloadAllExcept eenv (wNow w) (modelId d) s)"
    using assms by (simp add: prepareAnusandhanLlmPool_def resolveAnusandhanPlatformDefault_def)
  then show ?thesis by (simp only: only_default_stays)
qed

lemma request_in_flight_is_stopped:
  assumes "prepareAnusandhanLlmPool eenv True w s = (Inr d, s')" and "providerKind d = LOCAL_GGUF"
    and "modelId d \<in> lmModelId ` set (engine_list (wNow w) (snd (unloadAllExcept eenv (wNow w) (modelId d) s)))"
    and "i \<in> set (pool s)" and "0 < iActiveRequests i" and "iModelId i \<noteq> modelId d" and "\<not> isRemoteModel (iModelId i) s"
  shows "i \<notin> set (pool s')"
  using default_alone_in_pool [OF assms(1-3)] assms(4-7) by simp

subsection \<open>Accounting\<close>

lemma own_request_simps [simp]:
  "ceExecutionId (own_request env) = ceExecutionId env" "ceAuth (own_request env) = ceAuth env"
  "ceRedis (own_request env) = ceRedis env" "ceNow (own_request env) = ceNow env"
  "after_usage (own_request env) j db = after_usage env j db"
  "fresh_request (own_request env) db = fresh_request env db"
  "delivered (own_request env) later j db = delivered env later j db"
  by (simp_all add: own_request_def after_usage_def fresh_request_def delivered_def)

definition untouched :: "qdb \<Rightarrow> chat_state \<times> chat_local \<Rightarrow> bool" where
  "untouched db sl \<longleftrightarrow> csDb (fst sl) = db"

lemma keeps_untouched: "keeps_ledger m \<Longrightarrow> m sl = (r, sl') \<Longrightarrow> untouched db sl \<Longrightarrow> untouched db sl'"
  using keeps_result [of m "fst sl" "snd sl" r "fst sl'" "snd sl'"] by (simp add: untouched_def)

lemma set_execution_untouched:
  "on_local (\<lambda>l. l\<lparr>clExecutionId := Some i\<rparr>) sl = (r, sl') \<Longrightarrow> untouched db sl \<Longrightarrow> untouched db sl'"
  by (cases sl) (auto simp: on_local_def untouched_def)

lemma keeps_anusandhan_generate: "keeps_ledger (anusandhan_generate env body)"
  unfolding anusandhan_generate_def by (intro keeps_at_stage) (auto split: option.split)

text \<open>The booking reaches the ledger in its last step only.\<close>

lemma book_cases:
  assumes "anusandhan_book env slug a sl = (r, sl')" and "untouched db sl"
  shows "untouched db sl' \<or> csDb (fst sl') = after_usage env (job_of (own_request env) slug a) db"
    and "r = Inr () \<Longrightarrow> csDb (fst sl') = after_usage env (job_of (own_request env) slug a) db"
proof -
  let ?m = "at_stage env Finalize (checked (finalizeInferenceRequest (ceExecutionId env) (success_fields env slug a)))"
  obtain r1 sl1 where m: "?m sl = (r1, sl1)" by (metis prod.exhaust)
  have "keeps_ledger ?m" by (intro keeps_at_stage keeps_checked) simp
  from keeps_untouched [OF this m assms(2)] have u: "csDb (fst sl1) = db" by (simp add: untouched_def)
  have "(untouched db sl' \<or> csDb (fst sl') = after_usage env (job_of (own_request env) slug a) db)
    \<and> (r = Inr () \<longrightarrow> csDb (fst sl') = after_usage env (job_of (own_request env) slug a) db)"
  proof (cases r1)
    case (Inl e)
    then show ?thesis using assms(1) m u by (auto simp: anusandhan_book_def and_then_def untouched_def)
  next
    case (Inr v)
    then have "at_stage env EnqueueUsage (enqueueUsage env (job_of (own_request env) slug a)) (fst sl1, snd sl1) = (r, (fst sl', snd sl'))"
      using assms(1) m by (simp add: anusandhan_book_def and_then_def)
    from enqueue_step_cases [OF this] u show ?thesis by (auto simp: after_usage_def untouched_def)
  qed
  then show "untouched db sl' \<or> csDb (fst sl') = after_usage env (job_of (own_request env) slug a) db"
    and "r = Inr () \<Longrightarrow> csDb (fst sl') = after_usage env (job_of (own_request env) slug a) db" by simp_all
qed

lemma start_keeps: "keeps_ledger (at_stage env StartAttempt (checked (\<lambda>s.
    case startAttempt i slug n s of None \<Rightarrow> (False, s) | Some s' \<Rightarrow> (True, s'))))"
  by (intro keeps_at_stage keeps_checked) (auto split: option.split dest: csDb_start)

lemma create_keeps: "keeps_ledger (at_stage env CreateRequest (on_state (createInferenceRequest i c slug st)))"
  by (intro keeps_at_stage keeps_on_state) simp

lemma anusandhan_success:
  assumes "anusandhan_try env slug body (s, no_local) = (Inr a, (s', l'))"
  shows "csDb s' = after_usage env (job_of (own_request env) slug a) (csDb s)"
proof -
  from assms obtain sl1 sl2 sl3 sl4 sl5 sl6 sl7 where
    steps: "at_stage env CreateRequest (on_state (createInferenceRequest (ceExecutionId env)
         (authCustomerId (ceAuth env)) slug False)) (s, no_local) = (Inr (), sl1)"
      "on_local (\<lambda>l. l\<lparr>clExecutionId := Some (ceExecutionId env)\<rparr>) sl1 = (Inr (), sl2)"
      "at_stage env StartAttempt (checked (\<lambda>s.
         case startAttempt (ceExecutionId env) slug 1 s of None \<Rightarrow> (False, s) | Some s' \<Rightarrow> (True, s'))) sl2 = (Inr (), sl3)"
      "at_stage env Pricing (return_ok ()) sl3 = (Inr (), sl4)"
      "anusandhan_generate env body sl4 = (Inr a, sl5)" "anusandhan_book env slug a sl5 = (Inr (), sl6)"
      "at_stage env Respond (return_ok ()) sl6 = (Inr (), sl7)" "return_ok a sl7 = (Inr a, (s', l'))"
    unfolding anusandhan_try_def and_then_Inr by (auto simp: return_ok_def)
  have "untouched (csDb s) (s, no_local)" by (simp add: untouched_def)
  from keeps_untouched [OF create_keeps steps(1) this] have "untouched (csDb s) sl1" .
  from set_execution_untouched [OF steps(2) this] have "untouched (csDb s) sl2" .
  from keeps_untouched [OF start_keeps steps(3) this] have "untouched (csDb s) sl3" .
  from keeps_untouched [OF keeps_at_stage [OF keeps_return] steps(4) this] have "untouched (csDb s) sl4" .
  from keeps_untouched [OF keeps_anusandhan_generate steps(5) this] have "untouched (csDb s) sl5" .
  from book_cases(2) [OF steps(6) this] have "csDb (fst sl6) = after_usage env (job_of (own_request env) slug a) (csDb s)" by simp
  moreover have "sl7 = sl6" "sl7 = (s', l')" using steps(7,8) by (auto simp: at_stage_def return_ok_def split: option.splits)
  ultimately show ?thesis by (metis fst_conv)
qed


text \<open>The \<^verbatim>\<open>catch\<close> clause leaves the ledger alone: nothing was reserved.\<close>

lemma catch_keeps_ledger: "csDb (anusandhan_catch env (s, l)) = csDb s"
  by (simp add: anusandhan_catch_def split: option.split)

subsection \<open>What differs from the open API\<close>

text \<open>Without counts from the backend the answer is charged in the prompt as well.\<close>

lemma ceil_div_parts:
  assumes "4 dvd y" shows "ceil_div (x + y) 4 = ceil_div x 4 + y div 4"
  using assms unfolding ceil_div_def by presburger

lemma estimate_charges_answer_twice:
  assumes "caPrompt a + caCompletion a = 0" and "4 dvd int (length (caContent a))" and "caContent a \<noteq> []"
    and "0 < sum_list (map (\<lambda>m. int (length (msgContent m))) ms)"
  shows "caCompletion (anusandhan_estimate ms a) = snd (estimateChatTokens ms (caContent a))"
    and "caPrompt (anusandhan_estimate ms a) = fst (estimateChatTokens ms (caContent a)) + snd (estimateChatTokens ms (caContent a))"
proof -
  define x where "x = sum_list (map (\<lambda>m. int (length (msgContent m))) ms)"
  define y where "y = int (length (caContent a))"
  have xy: "0 < x" "0 < y" "4 dvd y" using assms by (simp_all add: x_def y_def)
  then have "1 \<le> ceil_div x 4" "ceil_div y 4 = y div 4" "1 \<le> y div 4" unfolding ceil_div_def by presburger+
  with ceil_div_parts [OF xy(3), of x] assms(1) show
    "caCompletion (anusandhan_estimate ms a) = snd (estimateChatTokens ms (caContent a))"
    "caPrompt (anusandhan_estimate ms a) = fst (estimateChatTokens ms (caContent a)) + snd (estimateChatTokens ms (caContent a))"
    by (simp_all add: anusandhan_estimate_def estimateChatTokens_def Let_def x_def [symmetric] y_def [symmetric])
qed

text \<open>A transcription by the local models is reported with its units and booked nowhere.\<close>

lemma local_transcription_unbilled:
  assumes "\<not> vcGemini cfg" and "anusandhan_transcribe caps cfg env u w s = (ServiceOk ans, w', s')"
  shows "s' = s" and "1 \<le> vaUnits ans"
  using assms
  by (auto simp: anusandhan_transcribe_def transcribe_local_def Let_def and_then_Inr throw_if_def answer_of_def return_ok_def
      stt_units_def sttBillableUnits_def voice_guard_def split: option.splits prod.splits sum.splits if_splits bool.splits)

subsection \<open>A run\<close>

definition sample_engine :: engine where
  "sample_engine = engine_empty\<lparr>registry := [sample_model\<lparr>isPlatformDefault := True, providerKind := OPENAI_COMPAT\<rparr>]\<rparr>"

definition other_model_body :: chat_request where
  "other_model_body = sample_body\<lparr>crModel := ''other''\<rparr>"

lemma sample_client_chat:
  "fst (anusandhan_chat sample_env True sample_world (sample_call ''x'') other_model_body sample_engine (chat_empty sample_db))
   = ServiceOk (''m'', \<lparr>caPrompt = 10, caCompletion = 20, caFinish = Stop, caContent = ''hi''\<rparr>)"
  by code_simp


text \<open>The plan of this customer has no model at all, and the open API would refuse it.\<close>

lemma default_served_without_plan:
  "allowedModelIds (ceAuth (sample_call ''x'')) = []
   \<and> fst (anusandhan_chat sample_env True sample_world (sample_call ''x'') other_model_body sample_engine (chat_empty sample_db))
     = ServiceOk (''m'', \<lparr>caPrompt = 10, caCompletion = 20, caFinish = Stop, caContent = ''hi''\<rparr>)"
  by (simp add: sample_client_chat sample_call_fields, simp add: sample_chat_def sample_auth_def)

end
