(* ===== verification/VoiceProps.thy ===== *)
theory VoiceProps
  imports Voice
begin

text \<open>
  Repaired times, coalesced turns, the speaker of a segment, the words of a turn, and the
  independence of the transcript from the order in which the clips are recognised.
\<close>

subsection \<open>Sorting by time\<close>

lemma set_sort_turns [simp]: "set (sort_turns ts) = set ts"
  by (simp add: sort_turns_def)

lemma sort_turns_nil [simp]: "sort_turns ts = [] \<longleftrightarrow> ts = []"
  by (simp add: sort_turns_def)

lemma sort_turns_empty [simp]: "sort_turns [] = []"
  by simp

lemma sorted_sort_turns: "sorted (map tnStart (sort_turns ts))"
proof -
  have "sorted_wrt (\<lambda>a b. tnStart a - tnStart b \<le> 0) (sort_turns ts)"
    unfolding sort_turns_def by (rule sorted_js_sort) (rule preorder_cmp_key)
  then show ?thesis by (simp add: sorted_map)
qed

lemma sort_turns_sorted:
  assumes "sorted (map tnStart ts)"
  shows "sort_turns ts = ts"
  unfolding sort_turns_def js_sort_def
  using assms
proof (induction ts)
  case (Cons t ts)
  then show ?case by (cases ts) auto
qed simp

subsection \<open>Repaired times\<close>

lemma repaired_end_bounds:
  "startSec s \<le> repaired_end s nxt d" "0 < d \<Longrightarrow> repaired_end s nxt d \<le> max d (startSec s)"
proof -
  have "\<exists>x. repaired_end s nxt d = max (if d > 0 then min x d else x) (startSec s)"
    unfolding repaired_end_def Let_def by blast
  then show "startSec s \<le> repaired_end s nxt d" "0 < d \<Longrightarrow> repaired_end s nxt d \<le> max d (startSec s)"
    by auto
qed

lemma repair_from_times:
  "list_all2 (\<lambda>s r. startSec r = startSec s \<and> sgText r = sgText s \<and> sgSpeaker r = sgSpeaker s
       \<and> startSec r \<le> endSec r \<and> (0 < d \<longrightarrow> endSec r \<le> max d (startSec r))) segs (repair_from d segs)"
  by (induction d segs rule: repair_from.induct) (auto simp: repaired_end_bounds)

text \<open>Repairing keeps starts, texts and speakers; no segment ends before it starts or after the recording.\<close>

lemma repaired_times:
  assumes "d = (case durationSec of Some x \<Rightarrow> x | None \<Rightarrow> endSec (last segs))"
  shows "list_all2 (\<lambda>s r. startSec r = startSec s \<and> sgText r = sgText s \<and> sgSpeaker r = sgSpeaker s
       \<and> startSec r \<le> endSec r \<and> (0 < d \<longrightarrow> endSec r \<le> max d (startSec r)))
     segs (repairSegmentTimestamps segs durationSec)"
  using repair_from_times assms by (auto simp: repairSegmentTimestamps_def)

subsection \<open>Coalesced turns\<close>

definition mergeable :: "rat \<Rightarrow> turn \<Rightarrow> turn \<Rightarrow> bool" where
  "mergeable gap a b \<longleftrightarrow> tnSpeaker b = tnSpeaker a \<and> tnStart b - tnEnd a \<le> gap"

definition inside :: "turn \<Rightarrow> turn \<Rightarrow> bool" where
  "inside t u \<longleftrightarrow> tnSpeaker t = tnSpeaker u \<and> tnStart u \<le> tnStart t \<and> tnEnd t \<le> tnEnd u"

lemma coalesce_from_hd:
  "\<exists>u us. coalesce_from gap p ts = u # us \<and> tnStart u = tnStart p \<and> tnSpeaker u = tnSpeaker p \<and> tnEnd p \<le> tnEnd u"
proof (induction gap p ts rule: coalesce_from.induct)
  case (2 gap p c ts)
  then show ?case by fastforce
qed simp

lemma coalesce_from_apart: "successively (\<lambda>a b. \<not> mergeable gap a b) (coalesce_from gap p ts)"
proof (induction gap p ts rule: coalesce_from.induct)
  case (2 gap p c ts)
  obtain u us where "coalesce_from gap c ts = u # us" "tnStart u = tnStart c" "tnSpeaker u = tnSpeaker c"
    using coalesce_from_hd by blast
  with 2 show ?case by (auto simp: mergeable_def)
qed simp

lemma coalesce_from_covers:
  "sorted (map tnStart (p # ts)) \<Longrightarrow> t \<in> set (p # ts) \<Longrightarrow> \<exists>u \<in> set (coalesce_from gap p ts). inside t u"
proof (induction gap p ts arbitrary: t rule: coalesce_from.induct)
  case (1 gap p)
  then show ?case by (simp add: inside_def)
next
  case (2 gap p c ts)
  let ?p = "p\<lparr>tnEnd := max (tnEnd p) (tnEnd c)\<rparr>"
  show ?case
  proof (cases "tnSpeaker c = tnSpeaker p \<and> tnStart c - tnEnd p \<le> gap")
    case True
    have s: "sorted (map tnStart (?p # ts))" using 2(3) by simp
    have self: "\<exists>u \<in> set (coalesce_from gap ?p ts). inside ?p u" using 2(1) [OF True s, of ?p] by simp
    have "inside p ?p" "inside c ?p" using True 2(3) by (auto simp: inside_def)
    moreover have "inside a b \<Longrightarrow> inside b c' \<Longrightarrow> inside a c'" for a b c' by (auto simp: inside_def)
    ultimately show ?thesis using True 2(1) [OF True s, of t] self 2(4) by (simp, metis)
  next
    case False
    have "sorted (map tnStart (c # ts))" using 2(3) by simp
    with 2(2) [OF False] 2(4) False show ?thesis by (auto simp: inside_def)
  qed
qed

lemma coalesce_from_members:
  "u \<in> set (coalesce_from gap p ts) \<Longrightarrow>
     (\<exists>t \<in> set (p # ts). tnStart u = tnStart t \<and> tnSpeaker u = tnSpeaker t) \<and>
     (\<exists>t \<in> set (p # ts). tnEnd u = tnEnd t \<and> tnSpeaker u = tnSpeaker t)"
proof (induction gap p ts rule: coalesce_from.induct)
  case (2 gap p c ts)
  show ?case
  proof (cases "tnSpeaker c = tnSpeaker p \<and> tnStart c - tnEnd p \<le> gap")
    case True
    with 2(1) [OF True] 2(3) show ?thesis by (auto simp: max_def split: if_splits)
  next
    case False
    with 2(2) [OF False] 2(3) show ?thesis by auto
  qed
qed auto

lemma coalesce_from_sorted:
  "sorted (map tnStart (p # ts)) \<Longrightarrow> sorted (map tnStart (coalesce_from gap p ts))"
proof (induction gap p ts rule: coalesce_from.induct)
  case (2 gap p c ts)
  show ?case
  proof (cases "tnSpeaker c = tnSpeaker p \<and> tnStart c - tnEnd p \<le> gap")
    case True
    with 2(1) [OF True] 2(3) show ?thesis by simp
  next
    case False
    have "tnStart p \<le> tnStart u" if "u \<in> set (coalesce_from gap c ts)" for u
      using coalesce_from_members [OF that] 2(3) by fastforce
    moreover have "coalesce_from gap p (c # ts) = p # coalesce_from gap c ts" using False by auto
    ultimately show ?thesis using 2(2) [OF False] 2(3) by simp
  qed
qed simp

lemma coalesce_from_id:
  "successively (\<lambda>a b. \<not> mergeable gap a b) (p # ts) \<Longrightarrow> coalesce_from gap p ts = p # ts"
  by (induction gap p ts rule: coalesce_from.induct) (auto simp: mergeable_def)

text \<open>
  Coalescing keeps what the diarization says and leaves nothing to merge: every turn lies
  inside a resulting turn of its speaker, every bound of a result is the bound of a turn of
  that speaker, the results are in order, no two neighbours could still be merged, and
  coalescing them again changes nothing.
\<close>

theorem coalesced_turns:
  "(\<forall>t \<in> set turns. \<exists>u \<in> set (coalesceTurns turns gap). inside t u) \<and>
   (\<forall>u \<in> set (coalesceTurns turns gap).
      (\<exists>t \<in> set turns. tnStart u = tnStart t \<and> tnSpeaker u = tnSpeaker t) \<and>
      (\<exists>t \<in> set turns. tnEnd u = tnEnd t \<and> tnSpeaker u = tnSpeaker t)) \<and>
   sorted (map tnStart (coalesceTurns turns gap)) \<and>
   successively (\<lambda>a b. \<not> mergeable gap a b) (coalesceTurns turns gap) \<and>
   coalesceTurns (coalesceTurns turns gap) gap = coalesceTurns turns gap"
proof (cases "sort_turns turns")
  case Nil
  then show ?thesis by (simp add: coalesceTurns_def)
next
  case (Cons p ts)
  let ?c = "coalesce_from gap p ts"
  have c: "coalesceTurns turns gap = ?c" by (simp add: coalesceTurns_def Cons)
  have turns: "set turns = set (p # ts)" using Cons set_sort_turns [of turns] by simp
  have s: "sorted (map tnStart (p # ts))" using sorted_sort_turns [of turns] Cons by simp
  obtain u us where u: "?c = u # us" using coalesce_from_hd by blast
  have apart: "successively (\<lambda>a b. \<not> mergeable gap a b) ?c" by (rule coalesce_from_apart)
  have "sort_turns ?c = ?c" by (rule sort_turns_sorted [OF coalesce_from_sorted [OF s]])
  then have "coalesceTurns ?c gap = ?c"
    using apart u coalesce_from_id [of gap u us] by (simp add: coalesceTurns_def)
  then show ?thesis
    unfolding c turns
    using coalesce_from_covers [OF s] coalesce_from_members apart coalesce_from_sorted [OF s] by blast
qed

theorem coalesced_turns_witness:
  "\<exists>u \<in> set (coalesceTurns [\<lparr>tnStart = 2, tnEnd = 3, tnSpeaker = ''A''\<rparr>, \<lparr>tnStart = 0, tnEnd = 2, tnSpeaker = ''A''\<rparr>] 0).
     inside \<lparr>tnStart = 2, tnEnd = 3, tnSpeaker = ''A''\<rparr> u"
  using coalesced_turns [of "[\<lparr>tnStart = 2, tnEnd = 3, tnSpeaker = ''A''\<rparr>, \<lparr>tnStart = 0, tnEnd = 2, tnSpeaker = ''A''\<rparr>]" 0]
  by simp

subsection \<open>The speaker of a segment\<close>

definition overlap_of :: "segment \<Rightarrow> turn \<Rightarrow> rat" where
  "overlap_of s t = segmentTurnOverlap (startSec s) (endSec s) (tnStart t) (tnEnd t)"

lemma overlap_nonneg: "0 \<le> overlap_of s t"
  by (simp add: overlap_of_def segmentTurnOverlap_def)

lemma best_overlap_max:
  "best_overlap s b sp ts = (b', sp') \<Longrightarrow>
     b \<le> b' \<and> (\<forall>t \<in> set ts. overlap_of s t \<le> b') \<and>
     (b' = b \<and> sp' = sp \<or> (\<exists>t \<in> set ts. sp' = Some (tnSpeaker t) \<and> overlap_of s t = b' \<and> b < b'))"
  by (induction ts arbitrary: b sp)
     (fastforce simp: overlap_of_def Let_def split: if_splits)+

lemma nearest_turn_best:
  "nearest_turn mid best ts = r \<Longrightarrow> ts \<noteq> [] \<or> best \<noteq> None \<Longrightarrow>
     \<exists>d sp. r = Some sp \<and>
       (best = Some (d, sp) \<or> (\<exists>t \<in> set ts. d = turn_distance mid t \<and> sp = tnSpeaker t)) \<and>
       (\<forall>t \<in> set ts. d \<le> turn_distance mid t) \<and> (\<forall>d' sp'. best = Some (d', sp') \<longrightarrow> d \<le> d')"
proof (induction ts arbitrary: best)
  case Nil
  then show ?case by auto
next
  case (Cons t ts)
  show ?case
  proof (cases "case best of None \<Rightarrow> True | Some (d, _) \<Rightarrow> turn_distance mid t < d")
    case True
    then have "nearest_turn mid (Some (turn_distance mid t, tnSpeaker t)) ts = r" using Cons.prems by simp
    from Cons.IH [OF this] obtain d sp where "r = Some sp"
      "d = turn_distance mid t \<and> sp = tnSpeaker t \<or> (\<exists>t \<in> set ts. d = turn_distance mid t \<and> sp = tnSpeaker t)"
      "\<forall>t \<in> set ts. d \<le> turn_distance mid t" "d \<le> turn_distance mid t" by auto
    with True show ?thesis by (intro exI [of _ d] exI [of _ sp]) (auto split: option.splits)
  next
    case False
    then obtain d0 sp0 where best: "best = Some (d0, sp0)" "d0 \<le> turn_distance mid t"
      by (auto split: option.splits)
    then have "nearest_turn mid best ts = r" using Cons.prems by simp
    from Cons.IH [OF this] best obtain d sp where "r = Some sp"
      "best = Some (d, sp) \<or> (\<exists>t \<in> set ts. d = turn_distance mid t \<and> sp = tnSpeaker t)"
      "\<forall>t \<in> set ts. d \<le> turn_distance mid t" "d \<le> d0" by auto
    with best show ?thesis by (intro exI [of _ d] exI [of _ sp]) auto
  qed
qed

text \<open>
  A segment is given to a turn that no other turn overlaps it more than; when no turn
  overlaps it, to a turn that is nearest to its middle.
\<close>

theorem speaker_overlaps_most:
  assumes "turns \<noteq> []" and "\<forall>t \<in> set turns. tnSpeaker t \<noteq> []"
  shows "\<exists>t \<in> set turns. assign_speaker (sort_turns turns) s = Some (tnSpeaker t) \<and>
     (\<forall>t' \<in> set turns. overlap_of s t' \<le> overlap_of s t) \<and>
     ((\<forall>t' \<in> set turns. overlap_of s t' = 0) \<longrightarrow>
        (\<forall>t' \<in> set turns. turn_distance ((startSec s + endSec s) / 2) t \<le> turn_distance ((startSec s + endSec s) / 2) t'))"
proof -
  let ?ts = "sort_turns turns" and ?mid = "(startSec s + endSec s) / 2"
  obtain b sp where b: "best_overlap s 0 None ?ts = (b, sp)" by (cases "best_overlap s 0 None ?ts")
  note best = best_overlap_max [OF b, simplified]
  show ?thesis
  proof (cases "0 < b")
    case True
    with best obtain t where t: "t \<in> set turns" "sp = Some (tnSpeaker t)" "overlap_of s t = b" by auto
    then have "assign_speaker ?ts s = Some (tnSpeaker t)"
      using b True assms(2) by (auto simp: assign_speaker_def no_label_def)
    with t best True show ?thesis by (intro bexI [of _ t]) auto
  next
    case False
    then have zero: "b = 0" "sp = None" using best by auto
    have none: "\<forall>t \<in> set turns. overlap_of s t = 0"
    proof
      fix t assume "t \<in> set turns"
      then have "overlap_of s t \<le> 0" using best zero(1) by simp
      then show "overlap_of s t = 0" using overlap_nonneg [of s t] by simp
    qed
    show ?thesis
    proof (cases "find (\<lambda>t. tnStart t \<le> ?mid \<and> ?mid \<le> tnEnd t) ?ts")
      case (Some t)
      then have t: "t \<in> set turns" "tnStart t \<le> ?mid" "?mid \<le> tnEnd t"
        by (auto simp: find_Some_iff dest: nth_mem)
      have "assign_speaker ?ts s = Some (tnSpeaker t)"
        using Some b zero t(1) assms(2) by (auto simp: assign_speaker_def no_label_def Let_def)
      moreover have "turn_distance ?mid t = 0" using t by (simp add: turn_distance_def)
      moreover have "0 \<le> turn_distance ?mid t'" for t' by (simp add: turn_distance_def)
      ultimately show ?thesis using t(1) none by (intro bexI [of _ t]) auto
    next
      case None
      then have "assign_speaker ?ts s = nearest_turn ?mid None ?ts"
        using b zero by (simp add: assign_speaker_def no_label_def Let_def)
      moreover obtain d sp' where n: "nearest_turn ?mid None ?ts = Some sp'"
        "\<exists>t \<in> set turns. d = turn_distance ?mid t \<and> sp' = tnSpeaker t"
        "\<forall>t \<in> set turns. d \<le> turn_distance ?mid t"
        using nearest_turn_best [of ?mid None ?ts, OF refl] assms(1) by auto
      moreover obtain t where "t \<in> set turns" "d = turn_distance ?mid t" "sp' = tnSpeaker t"
        using n(2) by blast
      ultimately show ?thesis using none by (intro bexI [of _ t]) simp_all
    qed
  qed
qed

theorem speaker_overlaps_most_witness:
  "let turns = [\<lparr>tnStart = 0, tnEnd = 2, tnSpeaker = ''A''\<rparr>, \<lparr>tnStart = 2, tnEnd = 9, tnSpeaker = ''B''\<rparr>];
       s = plain_segment 1 6 [104] None None in
   \<exists>t \<in> set turns. assign_speaker (sort_turns turns) s = Some (tnSpeaker t) \<and>
     (\<forall>t' \<in> set turns. overlap_of s t' \<le> overlap_of s t) \<and>
     ((\<forall>t' \<in> set turns. overlap_of s t' = 0) \<longrightarrow>
        (\<forall>t' \<in> set turns. turn_distance ((startSec s + endSec s) / 2) t \<le> turn_distance ((startSec s + endSec s) / 2) t'))"
  unfolding Let_def by (rule speaker_overlaps_most) simp_all

subsection \<open>The words of a turn\<close>

text \<open>
  Words are placed evenly in the time of their span. A word whose place lies in a turn is in
  the text of that turn, so consecutive turns lose no word between them.
\<close>

lemma word_in_its_turn:
  assumes "i < length ws" and "a + 1 / 100 \<le> b"
    and "c \<le> a + (b - a) * of_nat i / of_nat (length ws)"
    and "a + (b - a) * of_nat i / of_nat (length ws) < d"
  shows "ws ! i \<in> set (slice_words ws a b c d)"
proof -
  let ?n = "length ws" and ?dur = "max (1 / 100) (b - a)"
  let ?x = "a + (b - a) * of_nat i / of_nat ?n :: rat"
  have n: "(0 :: rat) < of_nat ?n" using assms(1) by (cases ws) simp_all
  have dur: "?dur = b - a" "0 < b - a" using assms(2) by auto
  have x0: "a \<le> ?x" using dur(2) by simp
  have "of_nat i / of_nat ?n < (1 :: rat)" using assms(1) n by simp
  then have "(b - a) * (of_nat i / of_nat ?n) < (b - a) * 1" using dur(2) by (intro mult_strict_left_mono)
  then have x1: "?x < b" by simp
  have lo: "(max a c - a) / ?dur * of_nat ?n \<le> of_nat i"
  proof -
    have "max a c - a \<le> (b - a) * of_nat i / of_nat ?n" using assms(3) x0 by auto
    then have "(max a c - a) * of_nat ?n \<le> (b - a) * of_nat i" using n by (simp add: pos_le_divide_eq)
    then show ?thesis unfolding dur(1) using dur(2) by (simp add: divide_simps mult.commute)
  qed
  have hi: "of_nat i < (min b d - a) / ?dur * of_nat ?n"
  proof -
    have "(b - a) * of_nat i / of_nat ?n < min b d - a" using assms(4) x1 by auto
    then have "(b - a) * of_nat i < (min b d - a) * of_nat ?n" using n by (simp add: pos_divide_less_eq)
    then show ?thesis unfolding dur(1) using dur(2) by (simp add: divide_simps mult.commute)
  qed
  obtain i0 i1 where sb: "slice_bounds ?n a b c d = (i0, i1)" by (cases "slice_bounds ?n a b c d")
  have "\<lfloor>(max a c - a) / ?dur * of_nat ?n\<rfloor> \<le> int i" using lo by (simp add: floor_le_iff)
  moreover have "i0 = nat (max 0 (min (int ?n - 1) \<lfloor>(max a c - a) / ?dur * of_nat ?n\<rfloor>))"
    using sb unfolding slice_bounds_def Let_def by blast
  ultimately have i0: "i0 \<le> i" by linarith
  have "int i < \<lceil>(min b d - a) / ?dur * of_nat ?n\<rceil>" using hi by (simp add: less_ceiling_iff)
  moreover have "i1 = nat (max (max 0 (min (int ?n - 1) \<lfloor>(max a c - a) / ?dur * of_nat ?n\<rfloor>) + 1)
      (min (int ?n) \<lceil>(min b d - a) / ?dur * of_nat ?n\<rceil>))"
    using sb unfolding slice_bounds_def Let_def by blast
  ultimately have "i < i1" using assms(1) by (simp only: zless_nat_eq_int_zless max_less_iff_conj min_less_iff_conj less_max_iff_disj) simp
  then have "ws ! i \<in> set (take (i1 - i0) (drop i0 ws))"
    using i0 assms(1) by (auto simp: in_set_conv_nth intro!: exI [of _ "i - i0"])
  moreover have "max a c < min b d" using x0 x1 assms(3,4) by auto
  ultimately show ?thesis using assms(1) sb by (auto simp: slice_words_def)
qed

subsection \<open>The order of recognition\<close>

definition slot_result :: "(turn \<Rightarrow> artifact option) \<Rightarrow> turn \<Rightarrow> segment option" where
  "slot_result asr t =
     (case asr t of
        None \<Rightarrow> None
      | Some p \<Rightarrow> if u_trim (arText p) = [] then None
                  else Some (plain_segment (tnStart t) (tnEnd t) (u_trim (arText p)) (Some (tnSpeaker t)) (arConfidence p)))"

lemma finish_slot_results:
  "ptResults (finish_slot asr el k st) =
     (case slot_result asr (el ! k) of None \<Rightarrow> ptResults st | Some r \<Rightarrow> (ptResults st)[k := Some r])"
  by (simp add: finish_slot_def slot_result_def Let_def split: option.split)

lemma finished_slots:
  "length (ptResults st) = length el \<Longrightarrow>
     ptResults (fold (finish_slot asr el) order st) =
       map (\<lambda>k. if k \<in> set order \<and> slot_result asr (el ! k) \<noteq> None then slot_result asr (el ! k)
                else ptResults st ! k) [0..<length el]"
proof (induction order arbitrary: st)
  case Nil
  then show ?case by (intro nth_equalityI) simp_all
next
  case (Cons k order)
  have "length (ptResults (finish_slot asr el k st)) = length el"
    using Cons.prems by (simp add: finish_slot_results split: option.split)
  from Cons.IH [OF this] show ?case
    using Cons.prems
    by (auto simp: finish_slot_results nth_list_update split: option.split) (metis nth_list_update_neq option.distinct(1))
qed

text \<open>
  The segments that recognition turn by turn produces do not depend on the number of
  workers nor on the order in which they finish: any order that finishes every slot gives,
  sorted by time, one segment for each turn of at least 0.35 s that was recognised as text.
\<close>

theorem per_turn_order_irrelevant:
  assumes "set order = {..<length (eligible_turns turns)}"
  shows "fst (transcribePerTurn asr order turns language) =
     sort_segments (List.map_filter (slot_result asr) (eligible_turns turns))"
proof -
  let ?el = "eligible_turns turns"
  have "map (\<lambda>k. if k \<in> set order \<and> slot_result asr (?el ! k) \<noteq> None then slot_result asr (?el ! k)
           else replicate (length ?el) None ! k) [0..<length ?el] = map (slot_result asr) ?el"
    using assms by (intro nth_equalityI) auto
  moreover have "List.map_filter (\<lambda>x. x) (map f xs) = List.map_filter f xs" for f :: "turn \<Rightarrow> segment option" and xs
    by (induction xs) (auto simp: List.map_filter_simps split: option.split)
  moreover define st where "st = \<lparr>ptResults = replicate (length ?el) None, ptModel = ''unknown'',
      ptLanguage = (case language of None \<Rightarrow> ''unknown'' | Some l \<Rightarrow> l)\<rparr>"
  have "length (ptResults st) = length ?el" "ptResults st = replicate (length ?el) None"
    by (simp_all add: st_def)
  ultimately show ?thesis
    unfolding transcribePerTurn_def Let_def st_def [symmetric] by (simp only: finished_slots fst_conv)
qed

theorem per_turn_order_irrelevant_witness:
  "fst (transcribePerTurn (\<lambda>_. None) [1, 0]
      [\<lparr>tnStart = 0, tnEnd = 2, tnSpeaker = ''A''\<rparr>, \<lparr>tnStart = 2, tnEnd = 9, tnSpeaker = ''B''\<rparr>] None)
   = sort_segments (List.map_filter (slot_result (\<lambda>_. None))
      (eligible_turns [\<lparr>tnStart = 0, tnEnd = 2, tnSpeaker = ''A''\<rparr>, \<lparr>tnStart = 2, tnEnd = 9, tnSpeaker = ''B''\<rparr>]))"
  by (rule per_turn_order_irrelevant) (auto simp: eligible_turns_def)

text \<open>
  The test for duplicated texts changes nothing: per-turn segments are used whatever it says.
\<close>

lemma duplicate_test_unused:
  "transcribePerTurn (vrAsr run) (vrOrder run) (coalesceTurns (runDiarization raw) (35 / 100)) language = (segs, model, lang) \<Longrightarrow>
   segs \<noteq> [] \<Longrightarrow> hasDuplicatedTurnText segs 3 \<Longrightarrow> dzEnabled cfg \<Longrightarrow> dzMode cfg = PerTurn \<Longrightarrow> vrDiarized run = Inr raw \<Longrightarrow>
   coalesceTurns (runDiarization raw) (35 / 100) \<noteq> [] \<Longrightarrow>
   transcribeWithDiarization run cfg language =
     Inr (labelled_artifact run cfg lang None model (collapseDuplicateAdjacentText segs))"
  by (simp add: transcribeWithDiarization_def)

end
