(* ===== verification/GeminiVoiceProps.thy ===== *)
theory GeminiVoiceProps
  imports GeminiVoice VoiceProps
begin

text \<open>
  The Gemini voice pipeline: how many requests a run makes, which uploaded files it deletes,
  what its result bills, and which speakers and times its transcript shows.
\<close>

subsection \<open>Requests\<close>

lemmas net_simps = net_bind_def net_return_def net_send_def net_finally_def

text \<open>The requests a computation adds: at most \<^verbatim>\<open>n\<close>, each satisfying \<^verbatim>\<open>P\<close>.\<close>

definition adds :: "(gemini_request \<Rightarrow> bool) \<Rightarrow> nat \<Rightarrow> 'a net \<Rightarrow> bool" where
  "adds P n m \<longleftrightarrow> (\<forall>h. \<exists>more. snd (m h) = h @ more \<and> length more \<le> n \<and> list_all P more)"

lemma addsE:
  assumes "adds P n m"
  obtains more where "snd (m h) = h @ more" "length more \<le> n" "list_all P more"
  using assms unfolding adds_def by blast

lemma adds_return [intro]: "adds P 0 (net_return r)"
  by (simp add: adds_def net_return_def)

lemma adds_send [intro]: "P r \<Longrightarrow> adds P (Suc 0) (net_send gs r)"
  by (simp add: adds_def net_send_def)

lemma adds_mono: "adds P n m \<Longrightarrow> n \<le> k \<Longrightarrow> adds P k m"
  by (fastforce simp: adds_def)

lemma adds_bind:
  assumes "adds P n m" and "\<And>x. adds P k (f x)"
  shows "adds P (n + k) (net_bind m f)"
  unfolding adds_def
proof
  fix h
  obtain more where m: "snd (m h) = h @ more" "length more \<le> n" "list_all P more"
    by (rule addsE [OF assms(1)])
  show "\<exists>more. snd (net_bind m f h) = h @ more \<and> length more \<le> n + k \<and> list_all P more"
  proof (cases "fst (m h)")
    case (Inl e)
    then have "snd (net_bind m f h) = h @ more" using m(1) by (simp add: net_bind_def case_prod_beta)
    then show ?thesis using m by auto
  next
    case (Inr x)
    obtain more' where f: "snd (f x (h @ more)) = (h @ more) @ more'" "length more' \<le> k" "list_all P more'"
      by (rule addsE [OF assms(2)])
    have "snd (net_bind m f h) = h @ (more @ more')"
      using m(1) f(1) Inr by (simp add: net_bind_def case_prod_beta)
    moreover have "length (more @ more') \<le> n + k" "list_all P (more @ more')" using m f by auto
    ultimately show ?thesis by blast
  qed
qed

lemma adds_bind_to:
  "adds P n m \<Longrightarrow> (\<And>x. adds P k (f x)) \<Longrightarrow> n + k \<le> j \<Longrightarrow> adds P j (net_bind m f)"
  by (blast intro: adds_mono adds_bind)

lemma adds_return_to [intro]: "adds P k (net_return r)"
  by (rule adds_mono [OF adds_return]) simp

lemma adds_after_send:
  assumes "P r" and "\<And>x. adds P k (f x)" and "Suc k \<le> j"
  shows "adds P j (net_bind (net_send gs r) f)"
proof -
  have "adds P (Suc 0 + k) (net_bind (net_send gs r) f)" by (rule adds_bind) (use assms in auto)
  then show ?thesis by (rule adds_mono) (use assms(3) in simp)
qed

lemma adds_after_read:
  assumes "\<And>x. adds P k (f x)"
  shows "adds P k (net_bind (net_return r) f)"
  using adds_bind [OF adds_return assms, of r] by simp

text \<open>Requests of an upload.\<close>

fun upload_request :: "gemini_request \<Rightarrow> bool" where
  "upload_request (StartUpload _ _ _) = True"
| "upload_request (PutUpload _ _) = True"
| "upload_request (PollFile _) = True"
| "upload_request _ = False"

lemma poll_adds: "adds upload_request n (poll_file n gs mime f name)"
proof (induction n)
  case (Suc n)
  show ?case
    unfolding poll_file.simps
    by (rule adds_after_send [where k = n]) (auto simp: Suc intro!: adds_after_read)
qed (simp add: adds_return)

lemma finish_adds: "adds upload_request 60 (finish_upload gs mime payload)"
  unfolding finish_upload_def
  by (auto intro: poll_adds split: option.split)

lemma put_adds: "adds upload_request 61 (net_bind (net_send gs (PutUpload url bytes)) (\<lambda>p.
    if \<not> http_ok p then net_return (Inl (e p))
    else net_bind (net_return (g p)) (finish_upload gs mime)))"
  by (rule adds_after_send [where k = 60]) (auto intro!: adds_after_read finish_adds)

lemma upload_adds: "adds upload_request 62 (uploadGeminiFile gs bytes mime name)"
  unfolding uploadGeminiFile_def
  by (rule adds_after_send [where k = 61]) (auto intro!: put_adds split: option.split)

text \<open>The request for the transcript is one request, whatever comes of it.\<close>

definition generate_request :: "gemini_auth \<Rightarrow> voice_input \<Rightarrow> audio_part \<Rightarrow> gemini_request" where
  "generate_request auth i part = Generate (gaUpstream auth) (buildSystemPrompt (viAnalyze i) (viLanguageHint i))
     (user_bits (viAnalyze i) (viLanguageHint i) (viAnalysisHint i)) part"

lemma generate_history: "snd (generate_voice gs auth i part h) = h @ [generate_request auth i part]"
  by (auto simp: generate_voice_def net_simps generate_request_def split: sum.split)

text \<open>
  C29. An uploaded recording does not stay with the provider: once an upload has returned a file with
  a name, the run makes one request for the transcript and then deletes exactly that file, whether the transcript
  is answered, refused, unreadable or times out.
\<close>

theorem uploaded_audio_deleted:
  assumes "inline_max_bytes < viBytes i"
    and "uploadGeminiFile gs (viBytes i) (guessMime (viFileName i) (viMime i)) (viFileName i) [] = (Inr f, h)"
    and "frName f = Some n" and "n \<noteq> []"
  shows "snd (gemini_run gs auth i [])
    = h @ [generate_request auth i (FileAudio (frUri f) (frMime f)), DeleteFile n]"
proof -
  have "snd (net_finally (generate_voice gs auth i (FileAudio (frUri f) (frMime f))) (deleteGeminiFile (frName f)) h)
    = deleteGeminiFile (frName f) (snd (generate_voice gs auth i (FileAudio (frUri f) (frMime f)) h))"
    by (simp add: net_finally_def case_prod_beta)
  then show ?thesis
    using assms
    by (simp add: gemini_run_def Let_def net_bind_def generate_history deleteGeminiFile_def named_def or_empty_def or_default_def)
qed

text \<open>A run makes at most 64 requests: two to upload, sixty to wait, one to generate and one to delete.\<close>

lemma gemini_run_bounded: "length (snd (gemini_run gs auth i [])) \<le> 64"
proof (cases "viBytes i \<le> inline_max_bytes")
  case True
  then show ?thesis by (simp add: gemini_run_def Let_def generate_history)
next
  case False
  define up where "up = uploadGeminiFile gs (viBytes i) (guessMime (viFileName i) (viMime i)) (viFileName i)"
  obtain more where more: "snd (up []) = more" "length more \<le> 62"
    using addsE [OF upload_adds [of gs "viBytes i" "guessMime (viFileName i) (viMime i)" "viFileName i"], of "[]"]
    by (auto simp: up_def)
  have "length (deleteGeminiFile n (k @ [r])) \<le> length k + 2" for n k r
    by (simp add: deleteGeminiFile_def split: option.split)
  then have "length (snd (net_finally (generate_voice gs auth i part) (deleteGeminiFile n) k)) \<le> length k + 2" for part n k
    by (simp add: net_finally_def case_prod_beta generate_history)
  note fin = this
  show ?thesis
  proof (cases "fst (up [])")
    case (Inl e)
    then show ?thesis using False more by (simp add: gemini_run_def Let_def net_bind_def case_prod_beta up_def)
  next
    case (Inr f)
    have "length (snd (net_finally (generate_voice gs auth i (FileAudio (frUri f) (frMime f)))
        (deleteGeminiFile (frName f)) more)) \<le> 64"
      using fin [of "FileAudio (frUri f) (frMime f)" "frName f" more] more(2) by linarith
    then show ?thesis using False Inr more(1) by (simp add: gemini_run_def Let_def net_bind_def case_prod_beta up_def)
  qed
qed

text \<open>
  When the upload itself throws (the service reports that processing failed, or a request of the wait is
  rejected), nothing is deleted: the file that was already sent stays.
\<close>

lemma failed_upload_keeps_file:
  assumes "inline_max_bytes < viBytes i"
    and "fst (uploadGeminiFile gs (viBytes i) (guessMime (viFileName i) (viMime i)) (viFileName i) []) = Inl e"
  shows "fst (gemini_run gs auth i []) = Inl e \<and> DeleteFile n \<notin> set (snd (gemini_run gs auth i []))"
proof -
  obtain more where "snd (uploadGeminiFile gs (viBytes i) (guessMime (viFileName i) (viMime i)) (viFileName i) []) = more"
    "list_all upload_request more"
    using addsE [OF upload_adds [of gs "viBytes i" "guessMime (viFileName i) (viMime i)" "viFileName i"], of "[]"] by auto
  then show ?thesis
    using assms by (auto simp: gemini_run_def Let_def net_bind_def case_prod_beta list_all_iff)
qed

subsection \<open>Results\<close>

text \<open>Every result comes from one answer whose text was read as a transcript.\<close>

lemma generate_result:
  assumes "fst (generate_voice gs auth i part h) = Inr v"
  obtains y x where "v = voice_result auth i y (reply_text y) (read_voice x)"
  using assms
  by (auto simp: generate_voice_def net_simps parseGeminiVoiceJson_def map_sum_def split: sum.splits if_splits option.splits)

lemma gemini_run_result:
  assumes "fst (gemini_run gs auth i h) = Inr v"
  obtains y x where "v = voice_result auth i y (reply_text y) (read_voice x)"
proof (cases "viBytes i \<le> inline_max_bytes")
  case True
  then show ?thesis using assms that by (auto simp: gemini_run_def Let_def elim: generate_result)
next
  case False
  let ?up = "uploadGeminiFile gs (viBytes i) (guessMime (viFileName i) (viMime i)) (viFileName i)"
  obtain f where "fst (?up h) = Inr f"
    using assms False by (cases "fst (?up h)") (auto simp: gemini_run_def Let_def net_bind_def case_prod_beta)
  then have "fst (generate_voice gs auth i (FileAudio (frUri f) (frMime f)) (snd (?up h))) = Inr v"
    using assms False by (simp add: gemini_run_def Let_def net_bind_def net_finally_def case_prod_beta)
  then show ?thesis using that by (rule generate_result)
qed

text \<open>A segment to show: it does not end before it starts, and names a speaker.\<close>

definition timed_turn :: "segment \<Rightarrow> bool" where
  "timed_turn s \<longleftrightarrow> startSec s \<le> endSec s \<and> sgSpeaker s \<noteq> None \<and> sgSpeaker s \<noteq> Some []"

lemma voice_segment_timed: "timed_turn (voice_segment s)"
  by (auto simp: voice_segment_def Let_def timed_turn_def or_text_def)

lemma longer_in: "foldl longer s r \<in> set (s # r)"
proof (induction r arbitrary: s)
  case (Cons a r)
  have "longer s a = s \<or> longer s a = a" by (auto simp: longer_def)
  then show ?case using Cons [of "longer s a"] by auto
qed simp

lemma kept_timed:
  "\<forall>s \<in> set segs. timed_turn s \<Longrightarrow> \<forall>s \<in> set (kept_segments segs). timed_turn s \<and> sgText s \<noteq> []"
  by (auto simp: kept_segments_def timed_turn_def)

lemma repaired_timed:
  assumes "\<forall>s \<in> set segs. timed_turn s \<and> sgText s \<noteq> []"
  shows "\<forall>s \<in> set (repairSegmentTimestamps segs d). timed_turn s \<and> sgText s \<noteq> []"
proof
  fix r assume "r \<in> set (repairSegmentTimestamps segs d)"
  then obtain k where k: "k < length (repairSegmentTimestamps segs d)" "r = repairSegmentTimestamps segs d ! k"
    by (auto simp: in_set_conv_nth)
  note times = repaired_times [OF refl, of segs d]
  then have "k < length segs" using k(1) list_all2_lengthD by fastforce
  moreover have "startSec r \<le> endSec r" "sgSpeaker r = sgSpeaker (segs ! k)" "sgText r = sgText (segs ! k)"
    using list_all2_nthD2 [OF times k(1)] k(2) by auto
  moreover have "timed_turn (segs ! k) \<and> sgText (segs ! k) \<noteq> []" using assms calculation(1) by simp
  ultimately show "timed_turn r \<and> sgText r \<noteq> []" by (simp add: timed_turn_def)
qed

lemma normalize_timed:
  assumes "\<forall>s \<in> set (arSegments a). timed_turn s"
  shows "\<forall>s \<in> set (arSegments (normalizeTranscript a)). timed_turn s \<and> sgText s \<noteq> []"
proof (cases "arSegments a")
  case Nil
  then show ?thesis by (simp add: normalizeTranscript_def kept_segments_def repairSegmentTimestamps_def)
next
  case (Cons s r)
  have best: "timed_turn (foldl longer s r)" using assms longer_in [of s r] Cons by auto
  show ?thesis
  proof (cases "kept_segments (arSegments a) = [] \<and> 8 \<le> length (clean_text (sgText (foldl longer s r)))")
    case True
    then have "arSegments (normalizeTranscript a)
        = [(foldl longer s r)\<lparr>sgText := clean_text (sgText (foldl longer s r))\<rparr>]"
      by (simp add: normalizeTranscript_def Let_def Cons)
    moreover have "clean_text (sgText (foldl longer s r)) \<noteq> []" using True by auto
    ultimately show ?thesis using best by (simp add: timed_turn_def)
  next
    case False
    have "arSegments (normalizeTranscript a) = repairSegmentTimestamps (kept_segments (arSegments a))
        (if kept_segments (arSegments a) = [] then None else Some (endSec (last (kept_segments (arSegments a)))))"
      using False by (simp add: normalizeTranscript_def Let_def Cons)
    then show ?thesis using repaired_timed [OF kept_timed [OF assms]] by simp
  qed
qed

lemma artifact_timed: "\<forall>s \<in> set (arSegments (voice_artifact u (read_voice x))). timed_turn s \<and> sgText s \<noteq> []"
proof -
  have segs: "\<forall>s \<in> set (gpSegments (read_voice x)). timed_turn s"
    by (auto simp: read_voice_def Let_def voice_segment_timed)
  show ?thesis
    unfolding voice_artifact_def by (rule normalize_timed) (use segs in \<open>simp add: timed_turn_def\<close>)
qed

text \<open>What is billed is at least one token, and the total covers both counts.\<close>

lemma tokens_positive:
  assumes "voice_tokens b n y = (p, q)"
  shows "0 \<le> p \<and> 0 \<le> q \<and> 1 \<le> p + q"
  using assms by (auto simp: voice_tokens_def Let_def split: if_splits)

text \<open>
  Every transcript the Gemini pipeline returns is billed and well formed: the counts that are metered are not
  negative and at least one token, the total covers them, every segment has a text and a speaker and does
  not end before it starts, and without a request for an analysis there is none.
\<close>

theorem gemini_result_sound:
  assumes "fst (gemini_run gs auth i h) = Inr v"
  shows "0 \<le> gvPromptTokens v \<and> 0 \<le> gvCompletionTokens v \<and> 1 \<le> gvPromptTokens v + gvCompletionTokens v
    \<and> gvPromptTokens v + gvCompletionTokens v \<le> gvTotalTokens v
    \<and> list_all (\<lambda>s. sgText s \<noteq> [] \<and> or_empty (sgSpeaker s) \<noteq> [] \<and> startSec s \<le> endSec s) (arSegments (gvTranscript v))
    \<and> (viAnalyze i \<or> gvAnalysis v = [])"
proof -
  obtain y x where v: "v = voice_result auth i y (reply_text y) (read_voice x)"
    using assms by (rule gemini_run_result)
  obtain p q where pq: "voice_tokens (viBytes i) (length (reply_text y)) y = (p, q)" by fastforce
  show ?thesis
    using tokens_positive [OF pq] artifact_timed [of "gaUpstream auth" x]
    by (auto simp: v voice_result_def Let_def pq list_all_iff timed_turn_def or_empty_def or_default_def split: option.splits)
qed

subsection \<open>Names\<close>

text \<open>Only spoken names replace the labels of the diarization, each label once.\<close>

lemma spoken_names_real:
  "(i, n) \<in> set (spoken_names raw) \<Longrightarrow> i \<noteq> [] \<and> n \<noteq> [] \<and> \<not> generic_speaker n"
  "distinct (map fst (spoken_names raw))"
proof -
  define good where "good = (\<lambda>ns :: (string \<times> string) list. distinct (map fst ns)
    \<and> (\<forall>(i, n) \<in> set ns. i \<noteq> [] \<and> n \<noteq> [] \<and> \<not> generic_speaker n))"
  have upd: "(a, b) \<in> set (AList.update k w ns) \<Longrightarrow> (a, b) = (k, w) \<or> (a, b) \<in> set ns" for a b k w and ns :: "(string \<times> string) list"
    by (induction ns) (auto split: if_splits)
  have "good ns \<Longrightarrow> good (add_speaker kv ns)" for kv ns
    unfolding good_def add_speaker_def Let_def
    by (auto simp: distinct_update dest!: upd)
  then have "good ns \<Longrightarrow> good (fold add_speaker raw ns)" for ns
    by (induction raw arbitrary: ns) auto
  from this [of "[]"] have "good (spoken_names raw)" by (simp add: spoken_names_def good_def)
  then show "(i, n) \<in> set (spoken_names raw) \<Longrightarrow> i \<noteq> [] \<and> n \<noteq> [] \<and> \<not> generic_speaker n"
    "distinct (map fst (spoken_names raw))" by (auto simp: good_def)
qed

text \<open>An answer in a code fence is read like the bare object.\<close>

lemma cut_at_fence: "0x60 \<notin> set a \<Longrightarrow> cut_at fence_mark (a @ fence_mark @ b) = Some (a, b)"
  by (induction a) (auto simp: fence_mark_def)

lemma trimmed_start:
  assumes "u_trim body = body" and "body \<noteq> []"
  shows "\<not> u_space (hd body)" "dropWhile u_space (rev body) = rev body"
proof -
  show start: "\<not> u_space (hd body)"
  proof
    assume "u_space (hd body)"
    then have "length (dropWhile u_space body) < length body"
      using assms(2) length_dropWhile_le [of u_space "tl body"] by (cases body) (auto simp: le_imp_less_Suc)
    then have "length (u_trim body) < length body"
      using length_dropWhile_le [of u_space "rev (dropWhile u_space body)"] by (simp add: u_trim_def)
    then show False using assms(1) by simp
  qed
  then have "dropWhile u_space body = body" using assms(2) by (cases body) auto
  then have "rev (dropWhile u_space (rev body)) = body" using assms(1) by (simp add: u_trim_def)
  then show "dropWhile u_space (rev body) = rev body" by (metis rev_rev_ident)
qed

lemma unfenced_block:
  assumes "0x60 \<notin> set body" and "u_trim body = body" and "body \<noteq> []"
  shows "unfenced (lit ''```json'' @ [10] @ body @ [10] @ fence_mark) = body"
proof -
  have lit: "lit ''```json'' = fence_mark @ [0x6A, 0x73, 0x6F, 0x6E]" by (simp add: lit_def fence_mark_def)
  have nl: "u_space 10" by (simp add: u_space_def)
  have start: "u_trimStart ([10] @ body @ [10] @ fence_mark) = body @ [10] @ fence_mark"
    using trimmed_start(1) [OF assms(2,3)] nl assms(3) by (cases body) (simp_all add: u_trimStart_def)
  have "cut_at fence_mark (lit ''```json'' @ [10] @ body @ [10] @ fence_mark)
      = Some ([], [0x6A, 0x73, 0x6F, 0x6E] @ [10] @ body @ [10] @ fence_mark)"
    using cut_at_fence [of "[]"] by (simp add: lit)
  moreover have "drop_json_word ([0x6A, 0x73, 0x6F, 0x6E] @ [10] @ body @ [10] @ fence_mark) = [10] @ body @ [10] @ fence_mark"
    by (simp add: drop_json_word_def)
  moreover have "cut_at fence_mark (body @ [10] @ fence_mark) = Some (body @ [10], [])"
    using cut_at_fence [of "body @ [10]" "[]"] assms(1) by simp
  moreover have "u_trim (body @ [10]) = body"
    using trimmed_start [OF assms(2,3)] nl assms(3) by (cases body) (simp_all add: u_trim_def)
  ultimately show ?thesis using start by (simp add: unfenced_def)
qed

subsection \<open>Runs\<close>

definition sample_raw_voice :: raw_voice where
  "sample_raw_voice = \<lparr>rvLanguage = None, rvText = None, rvTextEn = None, rvText_en = None,
     rvDialectHint = Some ''CTG'', rvDialect_hint = None, rvDialectLabel = None, rvDialect_label = None,
     rvAnalysis = Some (lit '' calm ''), rvSpeakerNames = Some [(''SPEAKER_00'', Some ''Rahim''), (''SPEAKER_01'', Some ''Speaker 2'')],
     rvSpeaker_names = None, rvNamesMentioned = None, rvNames_mentioned = None,
     rvSegments = Some [\<lparr>rsSpeaker = Some ''SPEAKER_00'', rsStartSec = None, rsStart = Some 1, rsEndSec = Some (1 / 2), rsEnd = None,
       rsText = Some (lit '' salam  bhai ''), rsTextEn = None, rsText_en = None\<rparr>]\<rparr>"

definition sample_gemini_reply :: gemini_reply where
  "sample_gemini_reply = \<lparr>gyParts = [Some (lit ''{x}'')], gyPromptTokens = None, gyCandidatesTokens = None, gyTotalTokens = None\<rparr>"

definition sample_service :: "gemini_service" where
  "sample_service = \<lparr>
     gsSend = (\<lambda>past r. case r of
         StartUpload _ _ _ \<Rightarrow> Inr \<lparr>gaStatus = 200, gaBody = [], gaUploadUrl = Some ''u''\<rparr>
       | PollFile _ \<Rightarrow> Inr \<lparr>gaStatus = (if length past < 3 then 500 else 200), gaBody = ''ACTIVE'', gaUploadUrl = None\<rparr>
       | _ \<Rightarrow> Inr \<lparr>gaStatus = 200, gaBody = ''PROCESSING'', gaUploadUrl = None\<rparr>),
     gsReadUpload = (\<lambda>b. Inr (Some \<lparr>gfUri = Some ''uri'', gfMime = None, gfName = Some ''files/1'', gfState = Some b\<rparr>, b)),
     gsReadFile = (\<lambda>b. Inr \<lparr>gfUri = None, gfMime = None, gfName = None, gfState = Some b\<rparr>),
     gsReadReply = (\<lambda>b. Inr sample_gemini_reply),
     gsReadVoice = (\<lambda>t. Inr sample_raw_voice)\<rparr>"

definition sample_gemini_auth :: gemini_auth where
  "sample_gemini_auth = \<lparr>gaKey = ''k'', gaUpstream = ''g'', gaSlug = ''gemini:g'', gaHostedId = None, gaPriceIn = None, gaPriceOut = None\<rparr>"

definition sample_input :: "int \<Rightarrow> voice_input" where
  "sample_input n = \<lparr>viBytes = n, viBase64 = [], viFileName = ''call.MP3'', viMime = None, viAnalyze = False,
     viLanguageHint = None, viAnalysisHint = None\<rparr>"

lemmas sample_gemini_defs = sample_raw_voice_def sample_gemini_reply_def sample_service_def sample_gemini_auth_def sample_input_def

lemma sample_upload:
  "uploadGeminiFile sample_service 20000000 ''audio/mpeg'' ''call.MP3'' []
   = (Inr \<lparr>frUri = ''uri'', frMime = ''audio/mpeg'', frName = Some ''files/1''\<rparr>,
      [StartUpload ''audio/mpeg'' 20000000 ''call.MP3'', PutUpload ''u'' 20000000, PollFile ''files/1'', PollFile ''files/1''])"
  by code_simp

lemma uploaded_audio_deleted_witness:
  "last (snd (gemini_run sample_service sample_gemini_auth (sample_input 20000000) [])) = DeleteFile ''files/1''"
proof -
  have mime: "guessMime ''call.MP3'' None = ''audio/mpeg''" by code_simp
  have big: "inline_max_bytes < 20000000" by (simp add: inline_max_bytes_def)
  have input: "viBytes (sample_input n) = n" "viFileName (sample_input n) = ''call.MP3''" "viMime (sample_input n) = None" for n
    by (simp_all add: sample_input_def)
  have up: "uploadGeminiFile sample_service (viBytes (sample_input 20000000))
      (guessMime (viFileName (sample_input 20000000)) (viMime (sample_input 20000000))) (viFileName (sample_input 20000000)) []
    = (Inr \<lparr>frUri = ''uri'', frMime = ''audio/mpeg'', frName = Some ''files/1''\<rparr>,
       [StartUpload ''audio/mpeg'' 20000000 ''call.MP3'', PutUpload ''u'' 20000000, PollFile ''files/1'', PollFile ''files/1''])"
    by (simp only: input mime sample_upload)
  have "inline_max_bytes < viBytes (sample_input 20000000)" by (simp only: input big)
  from uploaded_audio_deleted [OF this up, of "''files/1''" sample_gemini_auth] show ?thesis by simp
qed

definition sample_result :: gemini_voice where
  "sample_result = voice_result sample_gemini_auth (sample_input 5000) sample_gemini_reply (lit ''{x}'') (read_voice sample_raw_voice)"

lemma sample_result_run: "fst (gemini_run sample_service sample_gemini_auth (sample_input 5000) []) = Inr sample_result"
proof -
  have text': "reply_text sample_gemini_reply = lit ''{x}''"
    by (simp add: reply_text_def sample_gemini_reply_def or_default_def u_trim_def u_space_def lit_def)
  have parsed: "parseGeminiVoiceJson sample_service (lit ''{x}'') = Inr (read_voice sample_raw_voice)"
    by (simp add: parseGeminiVoiceJson_def sample_service_def unfenced_def braced_def u_slice_def u_trim_def u_space_def
        lit_def fence_mark_def)
  have "lit ''{x}'' \<noteq> []" by (simp add: lit_def)
  then show ?thesis
    using text' parsed
    by (simp add: gemini_run_def generate_voice_def net_simps sample_input_def inline_max_bytes_def sample_service_def
        http_ok_def sample_result_def Let_def)
qed

text \<open>Five kilobytes without counts are billed as five and one tokens; an end before its start is moved.\<close>

lemma sample_tokens: "voice_tokens 5000 3 sample_gemini_reply = (5, 1)"
  by code_simp

lemma sample_segment:
  "voice_segment \<lparr>rsSpeaker = None, rsStartSec = None, rsStart = Some 1, rsEndSec = Some (1 / 2), rsEnd = None,
     rsText = Some [32, 97, 32, 10, 98], rsTextEn = None, rsText_en = None\<rparr>
   = \<lparr>startSec = 1, endSec = 1, sgText = [97, 32, 98], sgTextEn = None, sgConfidence = None,
      sgSpeaker = Some ''SPEAKER_00'', sgSpeakerId = Some ''SPEAKER_00''\<rparr>"
proof -
  have "js_trim ''SPEAKER_00'' = ''SPEAKER_00''" by (simp add: js_text_defs)
  then show ?thesis
    by (simp add: voice_segment_def first_of_def or_default_def or_text_def Let_def u_null_def u_collapse_def u_trim_def u_space_def)
qed

lemma sample_names:
  "spoken_names [(''SPEAKER_00'', Some ''Rahim''), ('' SPEAKER_00'', Some ''Karim''), (''SPEAKER_01'', Some ''speaker-2'')]
   = [(''SPEAKER_00'', ''Karim'')]"
  "normalizeDialectHint (Some '' CTG '') = (Some ''chittagong'', Some ''Chittagong'')"
  "normalizeDialectHint (Some ''Old  Dhaka'') = (Some ''old_dhaka'', Some ''Old  Dhaka'')"
  by code_simp+

lemma gemini_result_sound_witness:
  "1 \<le> gvPromptTokens sample_result + gvCompletionTokens sample_result \<and> gvAnalysis sample_result = []"
  using gemini_result_sound [OF sample_result_run] by (simp add: sample_input_def)

end
