(* ===== verification/ModelAdminProps.thy ===== *)
theory ModelAdminProps
  imports ModelAdmin CanonicalProps
begin

text \<open>
  What model administration keeps: identities, the single platform default, the agreement of
  the plans with their entitlements, and the prices that are billed.
\<close>

subsection \<open>Sequences of actions\<close>

text \<open>An action happens some milliseconds after the one before.\<close>

datatype admin_op =
    Upsert form
  | UpsertRemote web_env form
  | RegisterDiscovered path form
  | UpdateProperties web_env form
  | GrantAll form
  | SetDefault world "string option" form
  | RemoveModel "path \<Rightarrow> string option" path "string option" string
  | LoadOp world string
  | UnloadOp string
  | Charge string

text \<open>\<^verbatim>\<open>Charge\<close> looks up the price of a request, which creates a version when there is none.\<close>

definition charge :: "string \<Rightarrow> int \<Rightarrow> admin_state \<Rightarrow> admin_state" where
  "charge i now s =
     (case getActivePricingVersion (models s) i now (asPricing s) of
        None \<Rightarrow> s | Some (_, vs) \<Rightarrow> s\<lparr>asPricing := vs\<rparr>)"

fun admin_step ::
    "engine_env \<Rightarrow> (string \<Rightarrow> string \<Rightarrow> rat) \<Rightarrow> admin_op \<Rightarrow> int \<Rightarrow> admin_state \<Rightarrow> admin_state" where
  "admin_step env loc (Upsert f) now s = snd (upsertModelAction now f s)"
| "admin_step env loc (UpsertRemote we f) now s = snd (upsertRemoteModelAction we now f s)"
| "admin_step env loc (RegisterDiscovered wdir f) now s = snd (registerDiscoveredAction loc wdir f s)"
| "admin_step env loc (UpdateProperties we f) now s = snd (updateModelPropertiesAction we now f s)"
| "admin_step env loc (GrantAll f) now s = grantModelToAllPlansAction f s"
| "admin_step env loc (SetDefault w down f) now s = snd (setPlatformDefaultModelAction env w down f s)"
| "admin_step env loc (RemoveModel err wdir down m) now s = snd (removeModelAction env err wdir down m s)"
| "admin_step env loc (LoadOp w m) now s = snd (load_route env w m s)"
| "admin_step env loc (UnloadOp m) now s = snd (unload_route env m s)"
| "admin_step env loc (Charge i) now s = charge i now s"

definition timed_step ::
    "engine_env \<Rightarrow> (string \<Rightarrow> string \<Rightarrow> rat) \<Rightarrow> nat \<times> admin_op \<Rightarrow> int \<times> admin_state \<Rightarrow> int \<times> admin_state" where
  "timed_step env loc op cs =
     (let now = fst cs + 1 + int (fst op) in (now, admin_step env loc (snd op) now (snd cs)))"

subsection \<open>The engine writes only statuses\<close>

text \<open>The columns of a row the properties below speak of.\<close>

definition row_facts :: "hosted_model \<Rightarrow> string \<times> string \<times> bool \<times> rat \<times> rat" where
  "row_facts r = (hmId r, modelId r, isPlatformDefault r, pricePerMTokIn r, pricePerMTokOut r)"

lemma row_facts_status [simp]: "row_facts (r\<lparr>hmStatus := st\<rparr>) = row_facts r"
  by (simp add: row_facts_def)

abbreviation facts :: "engine \<Rightarrow> (string \<times> string \<times> bool \<times> rat \<times> rat) list" where
  "facts e \<equiv> map row_facts (registry e)"

lemma facts_update [simp]:
  "map row_facts (update_where P (\<lambda>r. r\<lparr>hmStatus := st\<rparr>) rows) = map row_facts rows"
  by (rule update_where_keys) simp

lemma facts_marks [simp]:
  "facts (setRegistryStatus env m st e) = facts e"
  "facts (mark_where P st e) = facts e"
  "facts (mark_id i st e) = facts e"
  "facts (mark_status m st e) = facts e"
  "facts (delete_instance m e) = facts e"
  by (simp_all add: setRegistryStatus_def mark_where_def mark_id_def mark_status_def delete_instance_def)

lemma facts_unload [simp]: "facts (snd (unloadModel env m e)) = facts e"
  by (simp add: unloadModel_def split: option.split)

lemma facts_evict_loop [simp]: "facts (evict_loop env alone need cs e) = facts e"
  by (induction cs arbitrary: e) (simp_all add: alone_def)

lemma facts_evict [simp]: "facts (snd (evictForBudget env w alone need e)) = facts e"
  by (simp add: evictForBudget_def Let_def)

lemma facts_prepare [simp]: "facts (snd (load_prepare env w req e)) = facts e"
  by (auto simp: load_prepare_def Let_def split: option.split sum.split prod.split)
    (metis facts_evict snd_conv)+

lemma facts_finish [simp]: "facts (snd (load_finish env w req need port e)) = facts e"
  by (simp add: load_finish_def split: option.split)

lemma facts_register [simp]: "facts (register_instance w req need port e) = facts e"
  by (simp add: register_instance_def Let_def)

lemma facts_load [simp]: "facts (snd (loadModelUnlocked env w req e)) = facts e"
  by (auto simp: loadModelUnlocked_def split: option.split sum.split prod.split)
    (metis facts_prepare snd_conv)+

lemma facts_engine_load [simp]: "facts (snd (engine_load env w req e)) = facts e"
  by (simp add: engine_load_def)

lemma facts_engine_unload [simp]: "facts (snd (engine_unload env m e)) = facts e"
  by (simp add: engine_unload_def)

subsection \<open>Identities, the default and the entitlements\<close>

definition ids_ok :: "admin_state \<Rightarrow> bool" where
  "ids_ok s \<longleftrightarrow> unique_by modelId (models s) \<and> unique_by hmId (models s)
     \<and> (\<forall>n \<ge> asNextId s. ''id'' @ digits_of n \<notin> hmId ` set (models s))
     \<and> pvsModel ` set (asPricing s) \<subseteq> hmId ` set (models s)"

definition one_default :: "admin_state \<Rightarrow> bool" where
  "one_default s \<longleftrightarrow> length (filter isPlatformDefault (models s)) \<le> 1"

definition plans_entitled :: "admin_state \<Rightarrow> bool" where
  "plans_entitled s \<longleftrightarrow> unique_by paId (asPlans s)
     \<and> (\<forall>p \<in> set (asPlans s). Pair (paId p) ` set (paAllowed p) \<subseteq> set (asEntitlements s))"

definition admin_inv :: "admin_state \<Rightarrow> bool" where
  "admin_inv s \<longleftrightarrow> ids_ok s \<and> one_default s \<and> plans_entitled s"

lemma facts_cong:
  assumes "map row_facts rows = map row_facts rows'"
  shows "map modelId rows = map modelId rows'" "map hmId rows = map hmId rows'"
    "map isPlatformDefault rows = map isPlatformDefault rows'"
  using arg_cong [OF assms, of "map (\<lambda>(_, m, _). m)"] arg_cong [OF assms, of "map fst"]
    arg_cong [OF assms, of "map (\<lambda>(_, _, d, _). d)"]
  by (simp_all add: row_facts_def comp_def)

lemma length_filter_map: "length (filter P xs) = length (filter id (map P xs))"
  by (simp add: filter_map comp_def)

lemma admin_inv_cong:
  assumes "facts (asEngine s) = facts (asEngine s')" and "asPlans s = asPlans s'"
    and "asEntitlements s = asEntitlements s'" and "asPricing s = asPricing s'"
    and "asNextId s \<le> asNextId s'" and "admin_inv s"
  shows "admin_inv s'"
proof -
  note eqs = facts_cong [OF assms(1)]
  have "hmId ` set (models s) = hmId ` set (models s')" using eqs(2) by (metis set_map)
  moreover have "length (filter isPlatformDefault (models s)) = length (filter isPlatformDefault (models s'))"
    using eqs(3) by (metis length_filter_map)
  ultimately show ?thesis
    using assms(2-) eqs
    by (auto simp: admin_inv_def ids_ok_def one_default_def plans_entitled_def unique_by_def)
qed

lemma models_set_models [simp]: "models (set_models f s) = f (models s)"
  by (simp add: set_models_def)

lemma set_models_frame [simp]:
  "asPlans (set_models f s) = asPlans s" "asEntitlements (set_models f s) = asEntitlements s"
  "asPricing (set_models f s) = asPricing s" "asNextId (set_models f s) = asNextId s"
  "asCredentials (set_models f s) = asCredentials s" "asFiles (set_models f s) = asFiles s"
  by (simp_all add: set_models_def)

lemma next_id_frame [simp]:
  "asEngine (next_id s) = asEngine s" "asPlans (next_id s) = asPlans s"
  "asEntitlements (next_id s) = asEntitlements s" "asPricing (next_id s) = asPricing s"
  "asNextId (next_id s) = Suc (asNextId s)"
  by (simp_all add: next_id_def)

text \<open>An edit of the rows that keeps the identities and who is the default.\<close>

definition data_edit :: "(hosted_model \<Rightarrow> hosted_model) \<Rightarrow> bool" where
  "data_edit f \<longleftrightarrow> (\<forall>r. hmId (f r) = hmId r \<and> modelId (f r) = modelId r
                       \<and> isPlatformDefault (f r) = isPlatformDefault r)"

lemma edit_maps:
  assumes "data_edit f"
  shows "map hmId (update_where P f rows) = map hmId rows"
    "map modelId (update_where P f rows) = map modelId rows"
    "map isPlatformDefault (update_where P f rows) = map isPlatformDefault rows"
  using assms by (auto simp: data_edit_def intro!: update_where_keys)

lemma image_of_map: "map f xs = map f ys \<Longrightarrow> f ` set xs = f ` set ys"
  by (metis set_map)

lemma edit_inv:
  assumes "data_edit f" and "admin_inv s"
  shows "admin_inv (set_models (update_where P f) s)"
proof -
  note maps = edit_maps [OF assms(1), of P "models s"]
  have "length (filter isPlatformDefault (update_where P f (models s))) = length (filter isPlatformDefault (models s))"
    using maps(3) by (metis length_filter_map)
  then show ?thesis
    using assms(2) image_of_map [OF maps(1)] maps
    by (auto simp: admin_inv_def ids_ok_def one_default_def plans_entitled_def unique_by_def)
qed

lemma digits_of_inj: "digits_of m = digits_of n \<Longrightarrow> m = n"
  using digits_value_of by (metis of_nat_eq_iff)

lemma fresh_row_id: "admin_inv s \<Longrightarrow> row_id s \<notin> hmId ` set (models s)"
  by (simp add: admin_inv_def ids_ok_def row_id_def)

lemma upsert_inv:
  assumes "data_edit f" and "admin_inv s"
  shows "admin_inv (snd (upsert_model slug f s))"
    and "fst (upsert_model slug f s) \<in> hmId ` set (models (snd (upsert_model slug f s)))"
proof -
  have "admin_inv (snd (upsert_model slug f s)) \<and>
      fst (upsert_model slug f s) \<in> hmId ` set (models (snd (upsert_model slug f s)))"
  proof (cases "find_model slug (models s)")
    case None
    have new: "hmId (f (blank_model (row_id s) slug)) = row_id s" "modelId (f (blank_model (row_id s) slug)) = slug"
      "\<not> isPlatformDefault (f (blank_model (row_id s) slug))"
      using assms(1) by (simp_all add: data_edit_def blank_model_def)
    have "slug \<notin> modelId ` set (models s)" using None by (simp add: find_model_def table_find_none_iff)
    moreover have "''id'' @ digits_of n \<noteq> row_id s" if "Suc (asNextId s) \<le> n" for n
      using that digits_of_inj [of n "asNextId s"] by (auto simp: row_id_def)
    ultimately have "ids_ok (snd (upsert_model slug f s))"
      using None new assms(2) fresh_row_id [OF assms(2)]
      by (simp add: upsert_model_def admin_inv_def ids_ok_def unique_by_append) blast
    moreover have "one_default (snd (upsert_model slug f s))" "plans_entitled (snd (upsert_model slug f s))"
      using None new assms(2) by (simp_all add: upsert_model_def admin_inv_def one_default_def plans_entitled_def)
    ultimately show ?thesis using None new by (simp add: upsert_model_def admin_inv_def)
  next
    case (Some r)
    then have "r \<in> set (models s)" unfolding find_model_def by (rule table_find_some_in(1))
    then have "hmId r \<in> hmId ` set (update_where (\<lambda>r. modelId r = slug) f (models s))"
      unfolding image_of_map [OF edit_maps(1) [OF assms(1)]] by (rule imageI)
    moreover have "upsert_model slug f s = (hmId r, set_models (update_where (\<lambda>r. modelId r = slug) f) s)"
      using Some by (simp add: upsert_model_def)
    ultimately show ?thesis using edit_inv [OF assms] by (simp only: fst_conv snd_conv models_set_models)
  qed
  then show "admin_inv (snd (upsert_model slug f s))"
    and "fst (upsert_model slug f s) \<in> hmId ` set (models (snd (upsert_model slug f s)))" by auto
qed

lemma add_price_inv:
  "admin_inv s \<Longrightarrow> i \<in> hmId ` set (models s) \<Longrightarrow> admin_inv (add_price i a b now s)"
  by (auto simp: admin_inv_def ids_ok_def one_default_def plans_entitled_def add_price_def)

lemma close_prices_inv: "admin_inv s \<Longrightarrow> admin_inv (close_prices i now s)"
  by (auto simp: admin_inv_def ids_ok_def one_default_def plans_entitled_def close_prices_def set_update_where
      split: if_splits)

lemma default_rows:
  assumes "\<And>r r'. r \<in> set rows \<Longrightarrow> r' \<in> set rows \<Longrightarrow> P r \<Longrightarrow> P r' \<Longrightarrow> r = r'" and "distinct rows"
  shows "length (filter P rows) \<le> 1"
  using assms
proof (induction rows)
  case (Cons r rows)
  then have "P r \<Longrightarrow> filter P rows = []" by (auto simp: filter_empty_conv)
  then show ?case using Cons by auto
qed simp

lemma update_where_nil: "update_where P f [] = []"
  by (simp add: update_where_def)

lemma update_where_cons: "update_where P f (r # rows) = (if P r then f r else r) # update_where P f rows"
  by (simp add: update_where_def)

lemma filter_default:
  "filter isPlatformDefault (update_where P (\<lambda>r. r\<lparr>isPlatformDefault := True\<rparr>)
     (update_where isPlatformDefault (\<lambda>r. r\<lparr>isPlatformDefault := False\<rparr>) rows)) =
   map (\<lambda>r. r\<lparr>isPlatformDefault := True\<rparr>)
     (filter P (update_where isPlatformDefault (\<lambda>r. r\<lparr>isPlatformDefault := False\<rparr>) rows))"
  by (induction rows) (simp_all add: update_where_nil update_where_cons)

lemma unique_filter:
  assumes "unique_by key rows"
  shows "length (filter (\<lambda>r. key r = k) rows) \<le> 1"
proof -
  have "inj_on key (set rows)" "distinct rows"
    using assms by (auto simp: unique_by_def distinct_map)
  then show ?thesis by (intro default_rows) (auto dest: inj_onD)
qed

lemma make_default_inv:
  assumes "admin_inv s" and "P = (\<lambda>r. modelId r = k) \<or> P = (\<lambda>r. hmId r = k)"
  shows "admin_inv (make_default P s)"
proof -
  let ?rows = "update_where isPlatformDefault (\<lambda>r. r\<lparr>isPlatformDefault := False\<rparr>) (models s)"
  let ?rows' = "update_where P (\<lambda>r. r\<lparr>isPlatformDefault := True\<rparr>) ?rows"
  have maps: "map hmId ?rows = map hmId (models s)" "map modelId ?rows = map modelId (models s)"
    "map hmId ?rows' = map hmId (models s)" "map modelId ?rows' = map modelId (models s)"
    by (simp_all add: update_where_keys)
  then have "unique_by modelId ?rows" "unique_by hmId ?rows"
    using assms(1) by (simp_all add: admin_inv_def ids_ok_def unique_by_def)
  then have "length (filter P ?rows) \<le> 1" using assms(2) unique_filter [of modelId _ k] unique_filter [of hmId _ k] by (elim disjE) simp_all
  then show ?thesis using assms(1) image_of_map [OF maps(3)] maps
    by (auto simp: admin_inv_def ids_ok_def one_default_def plans_entitled_def unique_by_def make_default_def
        filter_default)
qed

lemma grant_plan_frame [simp]:
  "asEngine (grant_plan slug p s) = asEngine s" "asPricing (grant_plan slug p s) = asPricing s"
  "asNextId (grant_plan slug p s) = asNextId s" "asCredentials (grant_plan slug p s) = asCredentials s"
  by (simp_all add: grant_plan_def)

lemma grant_all_frame [simp]:
  "asEngine (grant_all slug s) = asEngine s" "asPricing (grant_all slug s) = asPricing s"
  "asNextId (grant_all slug s) = asNextId s" "asCredentials (grant_all slug s) = asCredentials s"
proof -
  have "asEngine (fold (grant_plan slug) ps s) = asEngine s \<and> asPricing (fold (grant_plan slug) ps s) = asPricing s \<and>
      asNextId (fold (grant_plan slug) ps s) = asNextId s \<and> asCredentials (fold (grant_plan slug) ps s) = asCredentials s"
    for ps by (induction ps arbitrary: s) auto
  then show "asEngine (grant_all slug s) = asEngine s" "asPricing (grant_all slug s) = asPricing s"
    "asNextId (grant_all slug s) = asNextId s" "asCredentials (grant_all slug s) = asCredentials s"
    by (simp_all add: grant_all_def)
qed

text \<open>
  Writing back a list that was read earlier keeps the agreement when its models are entitled.
\<close>

lemma grant_plan_entitled:
  assumes "plans_entitled s" and "Pair (paId p) ` set (paAllowed p) \<subseteq> set (asEntitlements s)"
  shows "plans_entitled (grant_plan slug p s)" and "set (asEntitlements s) \<subseteq> set (asEntitlements (grant_plan slug p s))"
proof -
  have ents: "set (asEntitlements (grant_plan slug p s)) = insert (paId p, slug) (set (asEntitlements s))"
    by (auto simp: grant_plan_def)
  have "map paId (asPlans (grant_plan slug p s)) = map paId (asPlans s)"
    by (simp add: grant_plan_def update_where_keys)
  moreover have "Pair (paId q) ` set (paAllowed q) \<subseteq> set (asEntitlements (grant_plan slug p s))"
    if "q \<in> set (asPlans (grant_plan slug p s))" for q
  proof -
    obtain q0 where q0: "q0 \<in> set (asPlans s)"
      "q = (if paId q0 = paId p then q0\<lparr>paAllowed := paAllowed p @ [slug]\<rparr> else q0)"
      using \<open>q \<in> _\<close> by (auto simp: grant_plan_def set_update_where)
    have "Pair (paId q0) ` set (paAllowed q0) \<subseteq> set (asEntitlements s)"
      using assms(1) q0(1) by (simp add: plans_entitled_def)
    then show ?thesis using assms(2) q0(2) ents by (cases "paId q0 = paId p") auto
  qed
  ultimately show "plans_entitled (grant_plan slug p s)"
    using assms(1) by (simp add: plans_entitled_def unique_by_def)
  show "set (asEntitlements s) \<subseteq> set (asEntitlements (grant_plan slug p s))" using ents by auto
qed

lemma grant_all_entitled:
  assumes "plans_entitled s"
  shows "plans_entitled (grant_all slug s)"
proof -
  have "plans_entitled (fold (grant_plan slug) ps s)"
    if "plans_entitled s" "\<forall>p \<in> set ps. Pair (paId p) ` set (paAllowed p) \<subseteq> set (asEntitlements s)" for ps s
    using that
  proof (induction ps arbitrary: s)
    case (Cons p ps)
    have p: "Pair (paId p) ` set (paAllowed p) \<subseteq> set (asEntitlements s)" using Cons.prems(2) by simp
    note step = grant_plan_entitled [OF Cons.prems(1) p, of slug]
    have "\<forall>q \<in> set ps. Pair (paId q) ` set (paAllowed q) \<subseteq> set (asEntitlements (grant_plan slug p s))"
      using Cons.prems(2) step(2) by (meson list.set_intros(2) subset_trans)
    then show ?case using Cons.IH [OF step(1)] by simp
  qed simp
  then show ?thesis using assms by (auto simp: grant_all_def plans_entitled_def)
qed

lemma grant_all_inv: "admin_inv s \<Longrightarrow> admin_inv (grant_all slug s)"
  by (simp add: admin_inv_def ids_ok_def one_default_def grant_all_entitled)

text \<open>Every plan offers the model afterwards.\<close>

lemma grant_all_grants:
  assumes "p \<in> set (asPlans (grant_all slug s))"
  shows "slug \<in> set (paAllowed p)"
proof -
  have all: "slug \<in> set (paAllowed q)"
    if "q \<in> set (asPlans (fold (grant_plan slug) ps s))"
      "\<forall>r \<in> set (asPlans s). slug \<in> set (paAllowed r) \<or> paId r \<in> paId ` set ps" for q ps s
    using that
  proof (induction ps arbitrary: s)
    case (Cons p ps)
    have "\<forall>r \<in> set (asPlans (grant_plan slug p s)). slug \<in> set (paAllowed r) \<or> paId r \<in> paId ` set ps"
      using Cons.prems(2) by (auto simp: grant_plan_def set_update_where)
    then show ?case using Cons by simp
  qed auto
  show ?thesis by (rule all [OF assms [unfolded grant_all_def]]) auto
qed

lemma save_credential_inv: "admin_inv s \<Longrightarrow> admin_inv (snd (save_credential ex l sec s))"
  by (rule admin_inv_cong [of s]) (auto simp: save_credential_def split: option.split)

lemma remote_credential_inv: "admin_inv s \<Longrightarrow> admin_inv (snd (remote_credential env k l ex s))"
  by (simp add: remote_credential_def case_prod_beta save_credential_inv split: sum.split)

lemma with_engine_inv:
  assumes "admin_inv s" and "facts (snd (op (asEngine s))) = facts (asEngine s)"
  shows "admin_inv (snd (with_engine op s))"
  by (rule admin_inv_cong [OF _ _ _ _ _ assms(1)])
    (use assms(2) in \<open>simp_all add: with_engine_def case_prod_beta\<close>)

lemma load_route_inv:
  assumes "admin_inv s"
  shows "admin_inv (snd (load_route env w slug s))"
proof (cases "find_model slug (models s)")
  case (Some hosted)
  let ?req = "\<lparr>lrModelId = modelId hosted, lrWeightsPath = weightsPath hosted,
      lrContextLength = contextLength hosted, lrThreads = nThreads hosted\<rparr>"
  obtain r e1 where load: "engine_load env w ?req (asEngine s) = (r, e1)" by (metis prod.exhaust)
  then have "facts e1 = facts (asEngine s)" by (metis facts_engine_load snd_conv)
  then show ?thesis unfolding load_route_def Some option.case
    by (intro with_engine_inv [OF assms]) (simp add: load split: sum.split)
qed (use assms in \<open>simp add: load_route_def\<close>)

lemma unload_route_inv: "admin_inv s \<Longrightarrow> admin_inv (snd (unload_route env slug s))"
  unfolding unload_route_def
  by (rule with_engine_inv) (simp_all add: case_prod_beta)

lemma unload_others_inv: "admin_inv s \<Longrightarrow> admin_inv (unload_others env keep ms s)"
  by (induction ms arbitrary: s) (simp_all add: unload_route_inv)

lemma upsert_priced_inv:
  "data_edit f \<Longrightarrow> admin_inv s \<Longrightarrow> upsert_model slug f s = (i, s1) \<Longrightarrow> admin_inv (add_price i a b now s1)"
  using upsert_inv [of f s slug] by (simp add: add_price_inv)

lemma data_edits [simp]:
  "data_edit (local_row f c t a b)" "data_edit (registered_row body d c t a b)"
  "data_edit (remote_row n u m c a b k)" "data_edit (edited_remote_row n c a b q u m k)"
  "data_edit (edited_local_row n c a b w q t)"
  by (simp_all add: data_edit_def local_row_def registered_row_def remote_row_def edited_remote_row_def
      edited_local_row_def)

lemma store_remote_inv:
  assumes "data_edit f" and "admin_inv s"
  shows "admin_inv (store_remote slug f a b mk now s)"
proof -
  obtain i s1 where up: "upsert_model slug f s = (i, s1)" by (metis prod.exhaust)
  have "admin_inv (grant_all slug (add_price i a b now s1))"
    by (rule grant_all_inv [OF upsert_priced_inv [OF assms up]])
  then show ?thesis using make_default_inv [of _ "\<lambda>r. hmId r = i" i] by (simp add: store_remote_def up Let_def)
qed

lemma upsertModel_inv: "admin_inv s \<Longrightarrow> admin_inv (snd (upsertModelAction now f s))"
  by (auto simp: upsertModelAction_def Let_def split: option.split prod.split intro: upsert_priced_inv [rotated 2])

lemma registerDiscovered_inv: "admin_inv s \<Longrightarrow> admin_inv (snd (registerDiscoveredAction loc wdir f s))"
  by (auto simp: registerDiscoveredAction_def register_route_def Let_def upsert_inv(1)
      split: option.split prod.split sum.split route_reply.split if_split)

lemma upsertRemote_inv: "admin_inv s \<Longrightarrow> admin_inv (snd (upsertRemoteModelAction we now f s))"
  using remote_credential_inv [of s we]
  by (auto simp: upsertRemoteModelAction_def Let_def store_remote_inv split: option.split prod.split sum.split)
    (metis snd_conv store_remote_inv data_edits)+

lemma reprice_inv: "admin_inv s \<Longrightarrow> hmId r \<in> hmId ` set (models s) \<Longrightarrow> admin_inv (reprice r a b now s)"
  by (auto simp: reprice_def close_prices_def intro!: add_price_inv close_prices_inv [unfolded close_prices_def])

lemma edit_credential_frame:
  assumes "edit_credential env url k ex s = (r, s')"
  shows "models s' = models s" "asPricing s' = asPricing s" "admin_inv s \<Longrightarrow> admin_inv s'"
proof -
  have "models (snd (remote_credential env k l c s)) = models s \<and> asPricing (snd (remote_credential env k l c s)) = asPricing s"
    for l c
    by (simp add: remote_credential_def save_credential_def case_prod_beta split: sum.split option.split)
  then show "models s' = models s" "asPricing s' = asPricing s"
    using assms by (auto simp: edit_credential_def split: if_splits) (metis snd_conv)+
  show "admin_inv s \<Longrightarrow> admin_inv s'"
    using assms remote_credential_inv [of s env k] by (auto simp: edit_credential_def split: if_splits) (metis snd_conv)
qed

text \<open>What an edit of either kind leaves: the stored key, and on success the edited row.\<close>

definition edited :: "hosted_model \<Rightarrow> rat \<Rightarrow> rat \<Rightarrow> admin_state \<Rightarrow> (string, unit) result \<Rightarrow> admin_state \<Rightarrow> bool" where
  "edited ex a b s r s1 \<longleftrightarrow>
     (\<exists>s'. models s' = models s \<and> asPricing s' = asPricing s \<and> (admin_inv s \<longrightarrow> admin_inv s') \<and>
        (isl r \<and> s1 = s' \<or>
         \<not> isl r \<and> (\<exists>g. data_edit g \<and> (\<forall>x. pricePerMTokIn (g x) = a \<and> pricePerMTokOut (g x) = b) \<and>
                       s1 = set_models (update_where (\<lambda>x. hmId x = hmId ex) g) s')))"

lemma edited_self: "isl r \<Longrightarrow> edited ex a b s r s"
  by (auto simp: edited_def)

lemma edited_row:
  assumes "models s' = models s" "asPricing s' = asPricing s" "admin_inv s \<Longrightarrow> admin_inv s'"
    and "data_edit g" "\<And>x. pricePerMTokIn (g x) = a \<and> pricePerMTokOut (g x) = b" "\<not> isl r"
  shows "edited ex a b s r (set_models (update_where (\<lambda>x. hmId x = hmId ex) g) s')"
  unfolding edited_def using assms by blast

lemma edit_remote_edited:
  assumes "edit_remote env f ex name ctx a b s = (r, s1)"
  shows "edited ex a b s r s1"
proof -
  let ?url = "strip_slashes (js_trim (form_text f ''remoteBaseUrl''))" and ?k = "js_trim (form_text f ''apiKey'')"
  obtain c s' where c: "edit_credential env ?url ?k ex s = (c, s')" by (metis prod.exhaust)
  note frame = edit_credential_frame [OF c]
  have stored: "isl r' \<Longrightarrow> edited ex a b s r' s'" for r'
    using frame by (auto simp: edited_def)
  have row: "edited ex a b s (Inr ()) (set_models (update_where (\<lambda>x. hmId x = hmId ex)
      (edited_remote_row name n a b q u m k)) s')" for n q u m k
    by (rule edited_row [OF frame]) (simp_all add: edited_remote_row_def)
  show ?thesis
  proof (cases "?url = [] \<or> js_trim (form_text f ''remoteModelId'') = []")
    case True
    then show ?thesis using assms by (auto simp: edit_remote_def Let_def edited_self)
  next
    case False
    then show ?thesis using assms c stored row
      by (auto simp: edit_remote_def Let_def split: sum.splits option.splits)
  qed
qed

lemma edit_local_edited:
  assumes "edit_local f ex name ctx a b s = (r, s1)"
  shows "edited ex a b s r s1"
proof -
  have row: "edited ex a b s (Inr ()) (set_models (update_where (\<lambda>x. hmId x = hmId ex)
      (edited_local_row name n a b w q t)) s)" for n w q t
    by (rule edited_row) (simp_all add: edited_local_row_def)
  show ?thesis using assms row
    by (auto simp: edit_local_def Let_def edited_self split: if_splits option.splits)
qed

text \<open>The edit keeps the identities, so the edited row is still there when it is priced anew.\<close>

lemma edit_route_inv:
  assumes "admin_inv s" and "existing \<in> set (models s)" and "edited existing a b s r s1"
  shows "admin_inv s1 \<and> hmId existing \<in> hmId ` set (models s1)"
proof -
  obtain s' where s': "models s' = models s" "admin_inv s'"
    and cases: "s1 = s' \<or> (\<exists>g. data_edit g \<and> s1 = set_models (update_where (\<lambda>x. hmId x = hmId existing) g) s')"
    using assms(1,3) by (auto simp: edited_def)
  have "hmId existing \<in> hmId ` set (update_where P g (models s))" if "data_edit g" for P g
    unfolding image_of_map [OF edit_maps(1) [OF that]] using assms(2) by simp
  then show ?thesis using cases assms(2) s' edit_inv by auto
qed

lemma updateProperties_inv:
  assumes "admin_inv s"
  shows "admin_inv (snd (updateModelPropertiesAction we now f s))"
proof (cases "find_model (js_trim (form_text f ''modelId'')) (models s)")
  case (Some existing)
  have "existing \<in> set (models s)" using Some unfolding find_model_def by (rule table_find_some_in(1))
  note route = edit_route_inv [OF assms this]
  show ?thesis
    using assms Some route [OF edit_remote_edited] route [OF edit_local_edited]
    by (simp add: updateModelPropertiesAction_def Let_def reprice_inv split: prod.split sum.split)
qed (use assms in \<open>simp add: updateModelPropertiesAction_def Let_def\<close>)

lemma warm_default_inv:
  assumes "admin_inv s"
  shows "admin_inv (snd (warm_default env w down m s))"
proof -
  have mark: "admin_inv (s\<lparr>asEngine := mark_id i st (asEngine s)\<rparr>)" for i st
    by (rule admin_inv_cong [OF _ _ _ _ _ assms]) simp_all
  show ?thesis
    using mark unload_others_inv [OF assms] load_route_inv [OF unload_others_inv [OF assms], of env w]
    by (auto simp: warm_default_def Let_def assms unload_others_inv split: option.split prod.split sum.split)
      (metis snd_conv)+
qed

lemma setDefault_inv:
  assumes "admin_inv s"
  shows "admin_inv (snd (setPlatformDefaultModelAction env w down f s))"
proof -
  have "admin_inv (grant_all k (make_default (\<lambda>r. modelId r = k) s))" for k
    by (rule grant_all_inv, rule make_default_inv [OF assms, of _ k]) simp
  note warm = warm_default_inv [OF this]
  show ?thesis
    using assms warm
    by (auto simp: setPlatformDefaultModelAction_def Let_def split: option.split prod.split) (metis snd_conv)
qed

lemma revoke_all_inv:
  assumes "admin_inv s"
  shows "admin_inv (revoke_all slug s)"
proof -
  have ids: "map paId (asPlans (revoke_all slug s)) = map paId (asPlans s)"
    by (simp add: revoke_all_def update_where_keys)
  have "Pair (paId q) ` set (paAllowed q) \<subseteq> set (asEntitlements (revoke_all slug s))"
    if "q \<in> set (asPlans (revoke_all slug s))" for q
  proof -
    obtain p where p: "p \<in> set (asPlans s)" "paId q = paId p" "set (paAllowed q) = set (paAllowed p) - {slug}"
    proof -
      obtain p where "p \<in> set (asPlans s)"
        "q = (if slug \<in> set (paAllowed p) then p\<lparr>paAllowed := filter (\<lambda>m. m \<noteq> slug) (paAllowed p)\<rparr> else p)"
        using \<open>q \<in> _\<close> by (auto simp: revoke_all_def set_update_where)
      then show thesis by (intro that [of p]) auto
    qed
    have "Pair (paId p) ` set (paAllowed p) \<subseteq> set (asEntitlements s)"
      using assms p(1) by (simp add: admin_inv_def plans_entitled_def)
    then show ?thesis using p(2,3) by (auto simp: revoke_all_def)
  qed
  then show ?thesis using assms ids
    by (simp add: admin_inv_def ids_ok_def one_default_def plans_entitled_def unique_by_def) (simp add: revoke_all_def)
qed

lemma delete_row_inv:
  assumes "admin_inv s"
  shows "admin_inv (delete_row hosted s)"
proof -
  have "length (filter isPlatformDefault (filter P rows)) \<le> length (filter isPlatformDefault rows)" for P rows
    by (induction rows) auto
  from this [of "\<lambda>r. hmId r \<noteq> hmId hosted" "models s"] have "one_default (delete_row hosted s)"
    using assms by (simp add: admin_inv_def one_default_def delete_row_def)
  then show ?thesis using assms
    by (auto simp: admin_inv_def ids_ok_def plans_entitled_def unique_by_def delete_row_def distinct_map_filter)
qed

lemma files_inv: "admin_inv s \<Longrightarrow> admin_inv (s\<lparr>asFiles := fs\<rparr>)"
  by (rule admin_inv_cong) simp_all

lemma removeModel_inv:
  assumes "admin_inv s"
  shows "admin_inv (snd (removeModelAction env err wdir down m s))"
proof -
  have "admin_inv (delete_row h (revoke_all k (snd (with_engine (engine_unload env k) s))))" for h k
    by (rule delete_row_inv, rule revoke_all_inv, rule with_engine_inv [OF assms]) simp
  then have "admin_inv (snd (delete_route env err wdir k s))" for k
    using assms by (simp add: delete_route_def Let_def files_inv split: option.split prod.split)
  then show ?thesis using assms
    by (auto simp: removeModelAction_def Let_def split: option.split prod.split sum.split) (metis snd_conv)+
qed

lemma charge_inv: "admin_inv s \<Longrightarrow> admin_inv (charge i now s)"
  by (auto simp: charge_def getActivePricingVersion_def admin_inv_def ids_ok_def one_default_def
      plans_entitled_def Let_def table_find_def find_Some_iff split: option.split list.split)

definition admin_empty :: admin_state where
  "admin_empty = \<lparr>asEngine = engine_empty, asPlans = [], asEntitlements = [], asPricing = [],
     asCredentials = [], asFiles = [], asNextId = 0\<rparr>"

lemma admin_step_inv: "admin_inv s \<Longrightarrow> admin_inv (admin_step env loc op now s)"
  by (cases op) (simp_all add: upsertModel_inv upsertRemote_inv registerDiscovered_inv updateProperties_inv
      grant_all_inv grantModelToAllPlansAction_def setDefault_inv removeModel_inv load_route_inv
      unload_route_inv charge_inv)

lemma admin_empty_inv: "admin_inv admin_empty"
  by (simp add: admin_inv_def ids_ok_def one_default_def plans_entitled_def admin_empty_def engine_empty_def)

interpretation admin: invariant_system "timed_step env loc" "\<lambda>cs. admin_inv (snd cs)" "(0, admin_empty)"
  for env loc
  by unfold_locales (simp_all add: timed_step_def Let_def admin_step_inv admin_empty_inv)

text \<open>
  C34. However the administrators' actions, the loads and unloads and the requests that are charged
  follow each other: model ids and row ids stay unique, at most one model is the platform
  default, every model a plan lists has its entitlement row, and every price version belongs to
  a registered model.
\<close>

theorem admin_state_sound:
  assumes "admin_inv s"
  shows "admin_inv (snd (fold (timed_step env loc) ops (clock, s)))"
  using admin.run_inv [of "(clock, s)" env loc ops] assms by simp

subsection \<open>Removing a model\<close>

lemma unload_paths:
  "map (\<lambda>r. (hmId r, weightsPath r)) (registry (snd (engine_unload env m e))) =
   map (\<lambda>r. (hmId r, weightsPath r)) (registry e)"
  by (simp add: engine_unload_def unloadModel_def mark_status_def mark_where_def setRegistryStatus_def
      delete_instance_def update_where_keys split: option.split)

lemma unload_leaves_pool:
  assumes "find_model m (registry e) = Some h"
  shows "providerKind h = OPENAI_COMPAT \<or> m \<notin> iModelId ` set (pool (snd (engine_unload env m e)))"
  using assms
  by (auto simp: engine_unload_def isRemoteModel_def isRemoteProviderKind_def)

lemma filter_facts:
  "map row_facts (filter (\<lambda>r. hmId r \<noteq> k) rows) = filter (\<lambda>(i, _). i \<noteq> k) (map row_facts rows)"
  by (induction rows) (simp_all add: row_facts_def)

lemma delete_route_result:
  assumes "delete_route env err wdir slug s = (Inr res, s')"
  obtains h where "find_model slug (models s) = Some h"
    "asPlans s' = asPlans (revoke_all slug s)" "asEntitlements s' = asEntitlements (revoke_all slug s)"
    "models s' = filter (\<lambda>r. hmId r \<noteq> hmId h) (registry (snd (engine_unload env slug (asEngine s))))"
    "pool (asEngine s') = pool (snd (engine_unload env slug (asEngine s)))"
    "asFiles s' = asFiles s \<or> weightsPath h \<notin> weightsPath ` {r \<in> set (models s). hmId r \<noteq> hmId h}"
proof (cases "find_model slug (models s)")
  case (Some h)
  let ?e = "snd (engine_unload env slug (asEngine s))"
  let ?others = "filter (\<lambda>r. hmId r \<noteq> hmId h \<and> weightsPath r = weightsPath h) (registry ?e)"
  have s': "asPlans s' = asPlans (revoke_all slug s)" "asEntitlements s' = asEntitlements (revoke_all slug s)"
    "models s' = filter (\<lambda>r. hmId r \<noteq> hmId h) (registry ?e)" "pool (asEngine s') = pool ?e"
    "?others \<noteq> [] \<Longrightarrow> asFiles s' = asFiles s"
    using assms Some
    by (auto simp: delete_route_def Let_def case_prod_beta with_engine_def revoke_all_def delete_row_def set_models_def
        split: if_splits)
  have "weightsPath h \<notin> weightsPath ` {r \<in> set (models s). hmId r \<noteq> hmId h}" if "?others = []"
  proof -
    have "(hmId r, weightsPath r) \<in> (\<lambda>r. (hmId r, weightsPath r)) ` set (registry ?e)" if "r \<in> set (models s)" for r
      using that image_of_map [OF unload_paths [of env slug "asEngine s"]] by blast
    then show ?thesis using that by (fastforce simp: filter_empty_conv)
  qed
  then show thesis using that [OF Some s'(1-4)] s'(5) by blast
qed (use assms in \<open>simp add: delete_route_def\<close>)

text \<open>
  A removed model is gone everywhere: no plan lists it, no entitlement, no registry row and no
  process is left of it, the other rows keep their identities and prices, and the weight files stay when another
  row names the same path.
\<close>

theorem removed_model_is_gone:
  assumes "admin_inv s" and "delete_route env err wdir slug s = (Inr res, s')"
  shows "slug \<notin> (\<Union>p \<in> set (asPlans s'). set (paAllowed p)) \<and> slug \<notin> snd ` set (asEntitlements s') \<and>
    find_model slug (models s') = None \<and>
    (\<exists>h. find_model slug (models s) = Some h \<and>
       facts (asEngine s') = filter (\<lambda>(i, _). i \<noteq> hmId h) (facts (asEngine s)) \<and>
       (providerKind h = OPENAI_COMPAT \<or> slug \<notin> iModelId ` set (pool (asEngine s'))) \<and>
       (asFiles s' = asFiles s \<or>
        weightsPath h \<notin> weightsPath ` {r \<in> set (models s). hmId r \<noteq> hmId h}))"
proof -
  obtain h where h: "find_model slug (models s) = Some h"
    and s': "asPlans s' = asPlans (revoke_all slug s)" "asEntitlements s' = asEntitlements (revoke_all slug s)"
      "models s' = filter (\<lambda>r. hmId r \<noteq> hmId h) (registry (snd (engine_unload env slug (asEngine s))))"
      "pool (asEngine s') = pool (snd (engine_unload env slug (asEngine s)))"
      "asFiles s' = asFiles s \<or> weightsPath h \<notin> weightsPath ` {r \<in> set (models s). hmId r \<noteq> hmId h}"
    by (rule delete_route_result [OF assms(2)])
  have facts: "facts (asEngine s') = filter (\<lambda>(i, _). i \<noteq> hmId h) (facts (asEngine s))"
    unfolding s'(3) filter_facts facts_engine_unload by (rule refl)
  have "modelId r \<noteq> slug" if r: "r \<in> set (models s')" for r
  proof
    assume "modelId r = slug"
    have "row_facts r \<in> set (facts (asEngine s'))" using r by simp
    then have "row_facts r \<in> set (filter (\<lambda>(i, _). i \<noteq> hmId h) (facts (asEngine s)))" unfolding facts .
    then have "row_facts r \<in> row_facts ` set (models s)" "hmId r \<noteq> hmId h"
      by (simp_all add: row_facts_def)
    then obtain r0 where "r0 \<in> set (models s)" "hmId r0 \<noteq> hmId h" "modelId r0 = slug"
      using \<open>modelId r = slug\<close> by (auto simp: row_facts_def)
    moreover have "h \<in> set (models s)" "modelId h = slug"
      using table_find_some_in [OF h [unfolded find_model_def]] by simp_all
    ultimately show False
      using assms(1) by (auto simp: admin_inv_def ids_ok_def unique_by_def distinct_map dest: inj_onD)
  qed
  then have "find_model slug (models s') = None" by (auto simp: find_model_def table_find_none_iff)
  moreover have "slug \<notin> (\<Union>p \<in> set (asPlans s'). set (paAllowed p))" "slug \<notin> snd ` set (asEntitlements s')"
    unfolding s'(1,2) by (auto simp: revoke_all_def set_update_where split: if_splits)
  ultimately show ?thesis using h facts unload_leaves_pool [OF h, of env] s'(4,5) by auto
qed

end
