(* ===== verification/ModelPricing.thy ===== *)
theory ModelPricing
  imports ModelAdminProps
begin

text \<open>
  The price a request is charged with against the price the catalogue shows, under the
  actions of model administration: edits of the row and new price versions stay together,
  except when a discovered file is registered again.
\<close>

subsection \<open>The price that is billed\<close>

text \<open>The newest version is open, newer than the others, and carries the prices of the row.\<close>

definition current_price :: "pricing_version list \<Rightarrow> rat \<Rightarrow> rat \<Rightarrow> bool" where
  "current_price vs a b \<longleftrightarrow>
     (\<exists>us v. vs = us @ [v] \<and> pvsTo v = None \<and> pvsPriceIn v = a \<and> pvsPriceOut v = b
             \<and> (\<forall>u \<in> set us. pvsFrom u < pvsFrom v))"

definition versions_of :: "string \<Rightarrow> admin_state \<Rightarrow> pricing_version list" where
  "versions_of i s = filter (\<lambda>v. pvsModel v = i) (asPricing s)"

definition priced :: "admin_state \<Rightarrow> string \<times> string \<times> bool \<times> rat \<times> rat \<Rightarrow> bool" where
  "priced s = (\<lambda>(i, _, _, a, b). versions_of i s = [] \<or> current_price (versions_of i s) a b)"

definition price_inv :: "int \<times> admin_state \<Rightarrow> bool" where
  "price_inv cs \<longleftrightarrow> admin_inv (snd cs)
     \<and> (\<forall>v \<in> set (asPricing (snd cs)). pvsFrom v \<le> fst cs)
     \<and> (\<forall>r \<in> set (facts (asEngine (snd cs))). priced (snd cs) r)"

lemma price_inv_cong:
  assumes "price_inv (t, s)" and "t \<le> t'" and "facts (asEngine s') = facts (asEngine s)"
    and "asPricing s' = asPricing s" and "admin_inv s'"
  shows "price_inv (t', s')"
  using assms by (auto simp: price_inv_def priced_def versions_of_def) 

text \<open>A row set anew and its new version: the other rows keep their prices.\<close>

lemma priced_add:
  assumes "\<forall>v \<in> set (asPricing s). pvsFrom v \<le> t" and "t < now"
    and "\<And>r. r \<in> set (models s) \<Longrightarrow> hmId r \<noteq> i \<Longrightarrow> priced s (row_facts r)"
    and "\<And>r. r \<in> set (models s) \<Longrightarrow> hmId r = i \<Longrightarrow> pricePerMTokIn r = a \<and> pricePerMTokOut r = b"
    and "admin_inv (add_price i a b now s)"
  shows "price_inv (now, add_price i a b now s)"
proof -
  have rows: "priced (add_price i a b now s) (row_facts r)" if "r \<in> set (models s)" for r
  proof (cases "hmId r = i")
    case True
    have "current_price (versions_of i s @ [\<lparr>pvsModel = i, pvsPriceIn = a, pvsPriceOut = b, pvsFrom = now, pvsTo = None\<rparr>]) a b"
      unfolding current_price_def using assms(1,2) by (fastforce simp: versions_of_def)
    then show ?thesis using True assms(4) [OF that True]
      by (simp add: priced_def row_facts_def versions_of_def add_price_def)
  next
    case False
    then show ?thesis using assms(3) [OF that False]
      by (simp add: priced_def row_facts_def versions_of_def add_price_def)
  qed
  have "\<forall>v \<in> set (asPricing (add_price i a b now s)). pvsFrom v \<le> now"
    using assms(1,2) by (auto simp: add_price_def)
  moreover have "models (add_price i a b now s) = models s" by (simp add: add_price_def)
  ultimately show ?thesis using rows assms(5) by (auto simp: price_inv_def)
qed

lemma price_inv_rows:
  "price_inv (t, s) \<Longrightarrow> r \<in> set (models s) \<Longrightarrow> priced s (row_facts r)"
  by (simp add: price_inv_def)

text \<open>An edit that sets the prices of the row it concerns.\<close>

definition prices_edit :: "rat \<Rightarrow> rat \<Rightarrow> (hosted_model \<Rightarrow> hosted_model) \<Rightarrow> bool" where
  "prices_edit a b f \<longleftrightarrow> data_edit f \<and> (\<forall>r. pricePerMTokIn (f r) = a \<and> pricePerMTokOut (f r) = b)"

lemma prices_edits [simp]:
  "prices_edit a b (local_row f c t a b)" "prices_edit a b (remote_row n u m c a b k)"
  "prices_edit a b (edited_remote_row n c a b q u m k)" "prices_edit a b (edited_local_row n c a b w q t)"
  by (simp_all add: prices_edit_def local_row_def remote_row_def edited_remote_row_def edited_local_row_def
      data_edit_def)

lemma upsert_price_inv:
  assumes inv: "price_inv (t, s)" and "t < now" and f: "prices_edit a b f"
    and up: "upsert_model slug f s = (i, s1)"
  shows "price_inv (now, add_price i a b now s1)"
proof (rule priced_add)
  have adm: "admin_inv s" using inv by (simp add: price_inv_def)
  have edit: "data_edit f" using f by (simp add: prices_edit_def)
  show "admin_inv (add_price i a b now s1)" by (rule upsert_priced_inv [OF edit adm up])
  have pricing: "asPricing s1 = asPricing s" using up by (auto simp: upsert_model_def split: option.splits)
  then show "\<forall>v \<in> set (asPricing s1). pvsFrom v \<le> t" using inv by (simp add: price_inv_def)
  have same: "priced s1 = priced s" by (auto simp: priced_def versions_of_def pricing)
  have rows: "(r \<in> set (models s) \<and> hmId r \<noteq> i) \<or> (\<exists>r0. r = f r0 \<and> hmId r0 = i)"
    if r: "r \<in> set (models s1)" for r
  proof (cases "find_model slug (models s)")
    case None
    then have "r \<in> set (models s) \<or> r = f (blank_model (row_id s) slug)" "i = row_id s"
      using r up by (auto simp: upsert_model_def)
    then show ?thesis using fresh_row_id [OF adm] by (force simp: blank_model_def)
  next
    case (Some r1)
    have r1: "r1 \<in> set (models s)" "modelId r1 = slug"
      using table_find_some_in [OF Some [unfolded find_model_def]] by simp_all
    obtain r0 where r0: "r0 \<in> set (models s)" "r = (if modelId r0 = slug then f r0 else r0)"
      using r up Some by (auto simp: upsert_model_def set_update_where)
    have i: "i = hmId r1" using up Some by (simp add: upsert_model_def)
    have "inj_on modelId (set (models s))" "inj_on hmId (set (models s))"
      using adm by (auto simp: admin_inv_def ids_ok_def unique_by_def distinct_map)
    then have "(modelId r0 = slug) = (r0 = r1)" "(hmId r0 = i) = (r0 = r1)"
      using r0(1) r1 i by (auto dest: inj_onD)
    then show ?thesis using r0 by auto
  qed
  show "priced s1 (row_facts r)" if "r \<in> set (models s1)" "hmId r \<noteq> i" for r
    using rows [OF that(1)] that(2) edit price_inv_rows [OF inv] by (auto simp: same data_edit_def)
  show "pricePerMTokIn r = a \<and> pricePerMTokOut r = b" if "r \<in> set (models s1)" "hmId r = i" for r
    using rows [OF that(1)] that(2) f by (auto simp: prices_edit_def)
qed (rule assms(2))

text \<open>The rows of one state carry the ids and prices of rows of the other.\<close>

lemma price_inv_rows_of:
  assumes "price_inv (t, s)" and "t \<le> t'" and "asPricing s' = asPricing s" and "admin_inv s'"
    and "\<And>r'. r' \<in> set (models s') \<Longrightarrow> \<exists>r \<in> set (models s). hmId r' = hmId r
           \<and> pricePerMTokIn r' = pricePerMTokIn r \<and> pricePerMTokOut r' = pricePerMTokOut r"
  shows "price_inv (t', s')"
proof -
  have "priced s' (row_facts r')" if row: "r' \<in> set (models s')" for r'
  proof -
    obtain r where "r \<in> set (models s)" "hmId r' = hmId r" "pricePerMTokIn r' = pricePerMTokIn r"
      "pricePerMTokOut r' = pricePerMTokOut r" using assms(5) [OF row] by auto
    then show ?thesis using price_inv_rows [OF assms(1), of r] assms(3)
      by (simp add: priced_def versions_of_def row_facts_def)
  qed
  then show ?thesis using assms by (auto simp: price_inv_def intro: order_trans)
qed

lemma price_inv_frame:
  assumes "price_inv (t, s)" and "t \<le> t'" and "models s' = models s" and "asPricing s' = asPricing s"
    and "admin_inv s'"
  shows "price_inv (t', s')"
  by (rule price_inv_rows_of [OF assms(1,2,4,5)]) (use assms(3) in auto)

lemma price_inv_later: "price_inv (t, s) \<Longrightarrow> t \<le> t' \<Longrightarrow> price_inv (t', s)"
  by (rule price_inv_frame [of t s]) (simp_all add: price_inv_def)

lemma price_inv_admin: "price_inv (t, s) \<Longrightarrow> admin_inv s"
  by (simp add: price_inv_def)

lemma grant_all_price_inv: "price_inv (t, s) \<Longrightarrow> price_inv (t, grant_all slug s)"
  by (rule price_inv_frame [of t s]) (simp_all add: grant_all_inv price_inv_admin)

lemma make_default_price_inv:
  assumes "price_inv (t, s)" and "P = (\<lambda>r. modelId r = k) \<or> P = (\<lambda>r. hmId r = k)"
  shows "price_inv (t, make_default P s)"
proof (rule price_inv_rows_of [OF assms(1)])
  show "admin_inv (make_default P s)" by (rule make_default_inv [OF price_inv_admin [OF assms(1)] assms(2)])
  show "\<exists>r \<in> set (models s). hmId r' = hmId r \<and> pricePerMTokIn r' = pricePerMTokIn r
      \<and> pricePerMTokOut r' = pricePerMTokOut r" if "r' \<in> set (models (make_default P s))" for r'
    using that by (auto simp: make_default_def set_update_where split: if_splits)
qed (simp_all add: make_default_def)

lemma store_remote_price_inv:
  assumes "price_inv (t, s)" and "t < now" and "prices_edit a b f"
  shows "price_inv (now, store_remote slug f a b mk now s)"
proof -
  obtain i s1 where up: "upsert_model slug f s = (i, s1)" by (metis prod.exhaust)
  have "price_inv (now, grant_all slug (add_price i a b now s1))"
    by (rule grant_all_price_inv [OF upsert_price_inv [OF assms up]])
  then show ?thesis using make_default_price_inv [of now _ "\<lambda>r. hmId r = i" i]
    by (simp add: store_remote_def up Let_def)
qed

lemma upsertModel_price_inv:
  assumes "price_inv (t, s)" and "t < now"
  shows "price_inv (now, snd (upsertModelAction now f s))"
proof -
  have "price_inv (now, add_price (fst u) a b now (snd u))"
    if "u = upsert_model slug (local_row f c n a b) s" for u slug c n a b
    by (rule upsert_price_inv [OF assms prices_edits(1)]) (simp only: that prod.collapse)
  then show ?thesis using price_inv_later [OF assms(1)] assms(2)
    by (simp add: upsertModelAction_def Let_def case_prod_beta split: option.split)
qed

lemma remote_credential_price_inv:
  assumes "price_inv (t, s)" and "remote_credential env k l ex s = (r, s')"
  shows "price_inv (t, s')"
proof (rule price_inv_frame [OF assms(1)])
  have "models (snd (remote_credential env k l ex s)) = models s \<and> asPricing (snd (remote_credential env k l ex s)) = asPricing s"
    by (simp add: remote_credential_def save_credential_def case_prod_beta split: sum.split option.split)
  then show "models s' = models s" "asPricing s' = asPricing s" using assms(2) by simp_all
  show "admin_inv s'" using remote_credential_inv [OF price_inv_admin [OF assms(1)], of env k l ex] assms(2) by simp
qed simp

lemma upsertRemote_price_inv:
  assumes "price_inv (t, s)" and "t < now"
  shows "price_inv (now, snd (upsertRemoteModelAction we now f s))"
proof -
  have cred: "price_inv (t, snd (remote_credential we k l ex s))" for k l ex
    by (rule remote_credential_price_inv [OF assms(1)]) (rule surjective_pairing)
  have later: "price_inv (now, snd (remote_credential we k l ex s))" for k l ex
    using assms(2) price_inv_later [OF cred] by simp
  have stored: "price_inv (now, store_remote slug (remote_row n u m c a b cr) a b mk now (snd (remote_credential we k l ex s)))"
    for k l ex slug n u m c a b cr mk
    by (rule store_remote_price_inv [OF cred assms(2)]) simp
  show ?thesis using price_inv_later [OF assms(1), of now] assms(2) later stored
    by (simp add: upsertRemoteModelAction_def Let_def case_prod_beta split: option.split sum.split)
qed

lemma filter_update_other:
  "(\<And>v. P v \<Longrightarrow> \<not> Q v \<and> \<not> Q (f v)) \<Longrightarrow> filter Q (update_where P f xs) = filter Q xs"
  by (induction xs) (auto simp: update_where_def)

lemma reprice_price_inv:
  assumes inv: "price_inv (t, s)" and "t < now" and ex: "existing \<in> set (models s)"
    and "edited existing a b s r s1" and "\<not> isl r"
  shows "price_inv (now, reprice existing a b now s1)"
proof -
  let ?i = "hmId existing"
  obtain g s' where g: "models s' = models s" "asPricing s' = asPricing s" "admin_inv s'" "data_edit g"
    "\<And>x. pricePerMTokIn (g x) = a \<and> pricePerMTokOut (g x) = b"
    "s1 = set_models (update_where (\<lambda>x. hmId x = ?i) g) s'"
    using assms(4,5) price_inv_admin [OF inv] by (auto simp: edited_def)
  have adm: "admin_inv s1" using edit_inv [OF g(4,3)] g(6) by simp
  have "?i \<in> hmId ` set (models s1)" using edit_route_inv [OF price_inv_admin [OF inv] ex assms(4)] by simp
  have same: "r = existing" if "r \<in> set (models s)" "hmId r = ?i" for r
    using price_inv_admin [OF inv] ex that by (auto simp: admin_inv_def ids_ok_def unique_by_def distinct_map dest: inj_onD)
  have rows: "\<exists>r0 \<in> set (models s). hmId r = hmId r0 \<and> (if hmId r0 = ?i then pricePerMTokIn r = a \<and> pricePerMTokOut r = b
      else r = r0)" if row: "r \<in> set (models s1)" for r
  proof -
    obtain r0 where "r0 \<in> set (models s)" "r = (if hmId r0 = ?i then g r0 else r0)"
      using row g(1,6) by (auto simp: set_update_where)
    then show ?thesis using g(4,5) by (intro bexI [of _ r0]) (auto simp: data_edit_def)
  qed
  show ?thesis
  proof (cases "a \<noteq> pricePerMTokIn existing \<or> b \<noteq> pricePerMTokOut existing")
    case False
    have "price_inv (now, s1)"
    proof (rule price_inv_rows_of [OF inv])
      show "\<exists>r0 \<in> set (models s). hmId r = hmId r0 \<and> pricePerMTokIn r = pricePerMTokIn r0
          \<and> pricePerMTokOut r = pricePerMTokOut r0" if row: "r \<in> set (models s1)" for r
        using rows [OF row] False same by (metis (no_types, lifting))
    qed (use assms(2) adm g in auto)
    then show ?thesis using False by (simp add: reprice_def)
  next
    case True
    let ?s2 = "close_prices ?i now s1"
    have pricing: "asPricing ?s2 = update_where (\<lambda>v. pvsModel v = ?i \<and> pvsTo v = None) (\<lambda>v. v\<lparr>pvsTo := Some now\<rparr>) (asPricing s)"
      using g(2,6) by (simp add: close_prices_def)
    have eng: "models ?s2 = models s1" by (simp add: close_prices_def)
    have "price_inv (now, add_price ?i a b now ?s2)"
    proof (rule priced_add [OF _ assms(2)])
      show "\<forall>v \<in> set (asPricing ?s2). pvsFrom v \<le> t"
        using inv by (auto simp: price_inv_def pricing set_update_where)
      show "admin_inv (add_price ?i a b now ?s2)"
        using adm \<open>?i \<in> _\<close> eng by (intro add_price_inv close_prices_inv) simp_all
      fix r assume row: "r \<in> set (models ?s2)"
      then obtain r0 where r0: "r0 \<in> set (models s)" "hmId r = hmId r0"
        "if hmId r0 = ?i then pricePerMTokIn r = a \<and> pricePerMTokOut r = b else r = r0"
        using rows eng by auto
      show "pricePerMTokIn r = a \<and> pricePerMTokOut r = b" if "hmId r = ?i" using r0(2,3) that by simp
      show "priced ?s2 (row_facts r)" if "hmId r \<noteq> ?i"
      proof -
        have "filter (\<lambda>v. pvsModel v = hmId r) (asPricing ?s2) = filter (\<lambda>v. pvsModel v = hmId r) (asPricing s)"
          unfolding pricing by (rule filter_update_other) (use that in auto)
        then show ?thesis using price_inv_rows [OF inv r0(1)] r0(2,3) that
          by (simp add: priced_def versions_of_def row_facts_def)
      qed
    qed
    then show ?thesis using True by (simp add: reprice_def)
  qed
qed

lemma updateProperties_price_inv:
  assumes inv: "price_inv (t, s)" and "t < now"
  shows "price_inv (now, snd (updateModelPropertiesAction we now f s))"
proof (cases "find_model (js_trim (form_text f ''modelId'')) (models s)")
  case None
  then show ?thesis using price_inv_later [OF inv, of now] assms(2)
    by (simp add: updateModelPropertiesAction_def Let_def)
next
  case (Some existing)
  have ex: "existing \<in> set (models s)" using Some unfolding find_model_def by (rule table_find_some_in(1))
  have ok: "price_inv (now, reprice existing a b now s1)" if "edited existing a b s (Inr u) s1" for a b u s1
    by (rule reprice_price_inv [OF inv assms(2) ex that]) simp
  have bad: "price_inv (now, s1)" if "edited existing a b s (Inl e) s1" for a b e s1
    using that price_inv_admin [OF inv] assms(2)
    by (intro price_inv_frame [OF inv]) (auto simp: edited_def)
  show ?thesis
    using Some price_inv_later [OF inv, of now] assms(2) ok [OF edit_remote_edited] ok [OF edit_local_edited]
      bad [OF edit_remote_edited] bad [OF edit_local_edited]
    by (simp add: updateModelPropertiesAction_def Let_def split: prod.split sum.split)
qed

text \<open>The newest version is the active one.\<close>

lemma preorder_newest: "preorder_cmp (\<lambda>a b. of_int (pvsFrom b) - of_int (pvsFrom a))"
  by (auto simp: preorder_cmp_def)

lemma active_is_current:
  assumes "current_price (versions_of i s) a b" and "\<forall>v \<in> set (asPricing s). pvsFrom v \<le> now"
  shows "\<exists>v. getActivePricingVersion rows i now (asPricing s) = Some (v, asPricing s)
           \<and> pvsPriceIn v = a \<and> pvsPriceOut v = b"
proof -
  let ?cmp = "\<lambda>a b :: pricing_version. of_int (pvsFrom b) - of_int (pvsFrom a) :: rat"
  let ?active = "filter (active_pricing i now) (asPricing s)"
  obtain us v where vs: "versions_of i s = us @ [v]" "pvsTo v = None" "pvsPriceIn v = a" "pvsPriceOut v = b"
    "\<forall>u \<in> set us. pvsFrom u < pvsFrom v" using assms(1) by (auto simp: current_price_def)
  have v: "v \<in> set (asPricing s)" "pvsModel v = i"
    using arg_cong [OF vs(1), of set] by (auto simp: versions_of_def)
  then have act: "v \<in> set ?active" using assms(2) vs(2) by (simp add: active_pricing_def)
  then have "?active \<noteq> []" by (metis empty_iff list.set(1))
  then obtain h hs where h: "js_sort ?cmp ?active = h # hs"
    by (metis js_sort_nil_iff neq_Nil_conv)
  have "?cmp h v \<le> 0" using hd_js_sort_least [OF preorder_newest act] h by simp
  then have "pvsFrom v \<le> pvsFrom h" by simp
  moreover have "h \<in> set (us @ [v])"
    using js_sort_cons_in [OF h] unfolding vs(1) [symmetric] by (auto simp: versions_of_def active_pricing_def)
  ultimately have "h = v" using vs(5) by fastforce
  then show ?thesis using vs(3,4) h by (simp add: getActivePricingVersion_def)
qed

lemma charge_price_inv:
  assumes inv: "price_inv (t, s)" and "t < now"
  shows "price_inv (now, charge i now s)"
proof (cases "versions_of i s = []")
  case False
  note later = price_inv_later [OF inv, of now]
  show ?thesis
  proof (cases "table_find hmId i (models s)")
    case None
    then have "i \<notin> hmId ` set (models s)" by (simp add: table_find_none_iff)
    then show ?thesis using False price_inv_admin [OF inv]
      by (auto simp: versions_of_def filter_empty_conv admin_inv_def ids_ok_def)
  next
    case (Some r)
    note r = table_find_some_in [OF Some]
    have "current_price (versions_of i s) (pricePerMTokIn r) (pricePerMTokOut r)"
      using price_inv_rows [OF inv r(1)] r(2) False by (simp add: priced_def row_facts_def)
    moreover have "\<forall>v \<in> set (asPricing s). pvsFrom v \<le> now" using later assms(2) by (simp add: price_inv_def)
    ultimately obtain v where "getActivePricingVersion (models s) i now (asPricing s) = Some (v, asPricing s)"
      using active_is_current by blast
    then show ?thesis using later assms(2) by (simp add: charge_def)
  qed
next
  case True
  then have none: "filter (active_pricing i now) (asPricing s) = []"
    by (auto simp: versions_of_def filter_empty_conv active_pricing_def)
  show ?thesis
  proof (cases "table_find hmId i (models s)")
    case None
    then show ?thesis using none price_inv_later [OF inv, of now] assms(2)
      by (simp add: charge_def getActivePricingVersion_def js_sort_def)
  next
    case (Some r)
    note r = table_find_some_in [OF Some]
    have "charge i now s = add_price i (pricePerMTokIn r) (pricePerMTokOut r) now s"
      using none Some by (simp add: charge_def getActivePricingVersion_def js_sort_def add_price_def Let_def)
    moreover have "r' = r" if "r' \<in> set (models s)" "hmId r' = i" for r'
      using price_inv_admin [OF inv] r that by (auto simp: admin_inv_def ids_ok_def unique_by_def distinct_map dest: inj_onD)
    moreover have "price_inv (now, add_price i (pricePerMTokIn r) (pricePerMTokOut r) now s)"
    proof (rule priced_add [OF _ assms(2)])
      show "admin_inv (add_price i (pricePerMTokIn r) (pricePerMTokOut r) now s)"
        by (rule add_price_inv [OF price_inv_admin [OF inv]]) (use r in auto)
    qed (use inv calculation(2) price_inv_rows [OF inv] in \<open>auto simp: price_inv_def\<close>)
    ultimately show ?thesis by simp
  qed
qed

text \<open>Actions that touch neither prices nor price versions.\<close>

lemma with_engine_frame:
  "asPricing (snd (with_engine op s)) = asPricing s"
  "facts (snd (op (asEngine s))) = facts (asEngine s) \<Longrightarrow> facts (asEngine (snd (with_engine op s))) = facts (asEngine s)"
  by (simp_all add: with_engine_def case_prod_beta)

lemma load_route_frame:
  "facts (asEngine (snd (load_route env w slug s))) = facts (asEngine s)
   \<and> asPricing (snd (load_route env w slug s)) = asPricing s"
proof (cases "find_model slug (models s)")
  case (Some hosted)
  let ?req = "\<lparr>lrModelId = modelId hosted, lrWeightsPath = weightsPath hosted,
      lrContextLength = contextLength hosted, lrThreads = nThreads hosted\<rparr>"
  obtain r e1 where load: "engine_load env w ?req (asEngine s) = (r, e1)" by (metis prod.exhaust)
  then have "facts e1 = facts (asEngine s)" by (metis facts_engine_load snd_conv)
  then show ?thesis unfolding load_route_def Some option.case
    by (simp add: with_engine_def load split: sum.split)
qed (simp add: load_route_def)

lemma unload_route_frame:
  "facts (asEngine (snd (unload_route env slug s))) = facts (asEngine s)
   \<and> asPricing (snd (unload_route env slug s)) = asPricing s"
  by (simp add: unload_route_def with_engine_def case_prod_beta)

lemma unload_others_frame:
  "facts (asEngine (unload_others env keep ms s)) = facts (asEngine s)
   \<and> asPricing (unload_others env keep ms s) = asPricing s"
  by (induction ms arbitrary: s) (simp_all add: unload_route_frame)

lemma warm_default_frame:
  "facts (asEngine (snd (warm_default env w down m s))) = facts (asEngine s)
   \<and> asPricing (snd (warm_default env w down m s)) = asPricing s"
proof -
  have "facts (asEngine s') = facts (asEngine s) \<and> asPricing s' = asPricing s"
    if "load_route env w k (unload_others env k ms s) = (r, s')" for k ms r s'
    using load_route_frame [of env w k "unload_others env k ms s"] unload_others_frame that by simp
  then show ?thesis
    by (auto simp: warm_default_def Let_def unload_others_frame split: option.split prod.split sum.split)
qed

lemma setDefault_price_inv:
  assumes "price_inv (t, s)" and "t \<le> now"
  shows "price_inv (now, snd (setPlatformDefaultModelAction env w down f s))"
proof (cases "find_model (js_trim (form_string f ''modelId'')) (models s)")
  case (Some m)
  let ?k = "js_trim (form_string f ''modelId'')"
  let ?s1 = "grant_all ?k (make_default (\<lambda>r. modelId r = ?k) s)"
  have "price_inv (t, ?s1)"
    by (rule grant_all_price_inv, rule make_default_price_inv [OF assms(1), of _ ?k]) simp
  then have "price_inv (now, snd (warm_default env w down m ?s1))"
    using assms(2) warm_default_frame warm_default_inv price_inv_admin by (blast intro: price_inv_cong)
  then show ?thesis using Some price_inv_later [OF assms]
    by (simp add: setPlatformDefaultModelAction_def Let_def case_prod_beta)
qed (use price_inv_later [OF assms] in \<open>simp add: setPlatformDefaultModelAction_def Let_def\<close>)

lemma removeModel_price_inv:
  assumes "price_inv (t, s)" and "t \<le> now"
  shows "price_inv (now, snd (removeModelAction env err wdir down m s))"
proof -
  let ?s1 = "\<lambda>k. revoke_all k (snd (with_engine (engine_unload env k) s))"
  have adm: "admin_inv (?s1 k)" for k
    by (rule revoke_all_inv, rule with_engine_inv [OF price_inv_admin [OF assms(1)]]) simp
  have s1: "price_inv (now, ?s1 k)" for k
    by (rule price_inv_cong [OF assms _ _ adm]) (simp_all add: revoke_all_def with_engine_frame)
  have row: "price_inv (now, delete_row h (?s1 k)\<lparr>asFiles := fs\<rparr>)" for h k fs
  proof -
    have "versions_of i (delete_row h (?s1 k)) = versions_of i (?s1 k)" if "i \<noteq> hmId h" for i
      unfolding versions_of_def delete_row_def using that by (simp, intro filter_cong) auto
    then have "priced (delete_row h (?s1 k)) (row_facts r)" if "r \<in> set (models (delete_row h (?s1 k)))" for r
      using that price_inv_rows [OF s1, of r k] by (auto simp: delete_row_def priced_def row_facts_def)
    moreover have "\<forall>v \<in> set (asPricing (delete_row h (?s1 k))). pvsFrom v \<le> now"
      using s1 by (auto simp: price_inv_def delete_row_def)
    ultimately show ?thesis using files_inv [OF delete_row_inv [OF adm]]
      by (auto simp: price_inv_def priced_def versions_of_def)
  qed
  have "price_inv (now, snd (delete_route env err wdir k s))" for k
    using price_inv_later [OF assms] row by (simp add: delete_route_def Let_def case_prod_beta split: option.split)
  then show ?thesis using price_inv_later [OF assms]
    by (simp add: removeModelAction_def Let_def case_prod_beta split: option.split sum.split)
qed

text \<open>Every action but the registration of a discovered file sets prices and versions together.\<close>

fun prices_versions :: "admin_op \<Rightarrow> bool" where
  "prices_versions (RegisterDiscovered _ _) = False"
| "prices_versions _ = True"

lemma admin_step_price_inv:
  assumes inv: "price_inv (t, s)" and "t < now" and "prices_versions op"
  shows "price_inv (now, admin_step env loc op now s)"
proof -
  note later = price_inv_later [OF inv, of now]
  have "price_inv (now, snd (load_route env w k s))" "price_inv (now, snd (unload_route env k s))" for w k
    using assms(2) load_route_frame unload_route_frame load_route_inv unload_route_inv price_inv_admin [OF inv]
    by (auto intro!: price_inv_cong [OF inv])
  then show ?thesis using assms later
    by (cases op) (simp_all add: upsertModel_price_inv upsertRemote_price_inv updateProperties_price_inv
        grant_all_price_inv grantModelToAllPlansAction_def setDefault_price_inv removeModel_price_inv charge_price_inv)
qed

interpretation prices: guarded_system "timed_step env loc" "\<lambda>op. prices_versions (snd op)" price_inv "(0, admin_empty)"
  for env loc
proof unfold_locales
  show "price_inv (0, admin_empty)"
    by (simp add: price_inv_def admin_empty_inv) (simp add: admin_empty_def engine_empty_def)
  show "price_inv (timed_step env loc op cs)" if "price_inv cs" "prices_versions (snd op)" for op cs
    using that by (cases cs) (simp add: timed_step_def Let_def admin_step_price_inv)
qed

text \<open>
  What is billed is what the catalogue shows: after any actions other than the registration of
  a discovered file, removals, edits, new defaults and charged requests included, the price
  version that a request is charged with carries the prices of the model's row.
\<close>

theorem billed_price_is_listed:
  assumes "price_inv (clock, s)" and "\<forall>op \<in> set ops. prices_versions (snd op)"
    and "fold (timed_step env loc) ops (clock, s) = (now, s')" and "r \<in> set (models s')"
  shows "\<exists>v vs. getActivePricingVersion (models s') (hmId r) now (asPricing s') = Some (v, vs)
           \<and> pvsPriceIn v = pricePerMTokIn r \<and> pvsPriceOut v = pricePerMTokOut r"
proof -
  have inv: "price_inv (now, s')" using prices.run_inv [OF assms(1,2), of env loc] assms(3) by simp
  show ?thesis
  proof (cases "versions_of (hmId r) s' = []")
    case True
    then have none: "filter (active_pricing (hmId r) now) (asPricing s') = []"
      by (auto simp: versions_of_def filter_empty_conv active_pricing_def)
    have "table_find hmId (hmId r) (models s') = Some r"
      using price_inv_admin [OF inv] assms(4) by (intro table_find_unique) (auto simp: admin_inv_def ids_ok_def)
    then show ?thesis using none by (simp add: getActivePricingVersion_def js_sort_def Let_def)
  next
    case False
    then have "current_price (versions_of (hmId r) s') (pricePerMTokIn r) (pricePerMTokOut r)"
      using price_inv_rows [OF inv assms(4)] by (simp add: priced_def row_facts_def)
    then show ?thesis using active_is_current inv by (fastforce simp: price_inv_def)
  qed
qed

text \<open>A form that names the model \<^verbatim>\<open>m\<close> and prices it.\<close>

definition price_form :: "string \<Rightarrow> form" where
  "price_form p = map_of [(''modelId'', ''m''), (''displayName'', ''M''), (''weightsPath'', ''m.gguf''),
     (''pricePerMTokIn'', p), (''pricePerMTokOut'', p)]"

definition no_keys :: web_env where
  "no_keys = \<lparr>weKeys = \<lparr>keMasterKey = None, keJwtSecret = None, keAuthSecret = None\<rparr>,
     weAead = \<lparr>aeSeal = \<lambda>_ _ t. (t, []), aeOpen = \<lambda>_ _ c _. Some c\<rparr>, weIv = [], weProviderKeys = []\<rparr>"

definition priced_state :: "int \<times> admin_state" where
  "priced_state = fold (timed_step sample_env (\<lambda>_ _. 0))
     [(0, Upsert (price_form ''5'')), (0, UpdateProperties no_keys (price_form ''2.5''))] (0, admin_empty)"

lemma priced_state_rows:
  "map (\<lambda>r. (hmId r, pricePerMTokIn r)) (models (snd priced_state)) = [(''id0'', 5 / 2)]"
  by code_simp

theorem billed_price_is_listed_witness:
  "\<exists>v vs. getActivePricingVersion (models (snd priced_state)) ''id0'' (fst priced_state)
      (asPricing (snd priced_state)) = Some (v, vs) \<and> pvsPriceIn v = 5 / 2"
proof -
  obtain r where r: "r \<in> set (models (snd priced_state))" "hmId r = ''id0''" "pricePerMTokIn r = 5 / 2"
    using priced_state_rows by auto
  have start: "price_inv (0, admin_empty)"
    using prices.reachable_inv [of "[]"] by simp
  show ?thesis
    using billed_price_is_listed [OF start, of "[(0, Upsert (price_form ''5'')), (0, UpdateProperties no_keys (price_form ''2.5''))]"
        sample_env "\<lambda>_ _. 0" "fst priced_state" "snd priced_state" r] r
    by (auto simp: priced_state_def)
qed

text \<open>
  Registering the file of a model again resets the prices of the row to 20 and 60 and leaves the
  old version in force: what is billed is no longer what is shown.
\<close>

lemma registration_hides_price:
  "let s = snd priced_state\<lparr>asFiles := [[''w'', ''m.gguf'']]\<rparr>;
       s' = snd (registerDiscoveredAction (\<lambda>_ _. 0) [''w''] (price_form []) s)
   in map pricePerMTokIn (models s') = [20] \<and>
      map_option (pvsPriceIn \<circ> fst) (getActivePricingVersion (models s') ''id0'' 9 (asPricing s')) = Some (5 / 2)"
  by code_simp

theorem admin_state_sound_witness: "admin_inv (snd priced_state)"
  unfolding priced_state_def by (rule admin_state_sound [OF admin_empty_inv])

text \<open>The model of the priced state, removed.\<close>

theorem removed_model_is_gone_witness:
  "find_model ''m'' (models (snd (delete_route sample_env (\<lambda>_. None) [''w''] ''m'' (snd priced_state)))) = None"
proof -
  obtain res s' where run: "delete_route sample_env (\<lambda>_. None) [''w''] ''m'' (snd priced_state) = (Inr res, s')"
  proof -
    have "\<not> isl (fst (delete_route sample_env (\<lambda>_. None) [''w''] ''m'' (snd priced_state)))" by code_simp
    then show thesis using that
      by (cases "delete_route sample_env (\<lambda>_. None) [''w''] ''m'' (snd priced_state)"; cases "fst (delete_route sample_env (\<lambda>_. None) [''w''] ''m'' (snd priced_state))") auto
  qed
  have "admin_inv (snd (fold (timed_step sample_env (\<lambda>_ _. 0)) ops (0, admin_empty)))" for ops
    using admin.run_inv [of "(0, admin_empty)"] admin_empty_inv by simp
  then have "admin_inv (snd priced_state)" unfolding priced_state_def .
  from removed_model_is_gone [OF this run] show ?thesis unfolding run by simp
qed

end
