(* ===== verification/ModelAccess.thy ===== *)
theory ModelAccess
  imports ModelPricing
begin

text \<open>
  How an administrator's action reaches the request path: the key of a remote provider from the
  form to the request, the answer to a new platform default, and plans granted at the same time.
\<close>

subsection \<open>The key of a remote provider\<close>

text \<open>The gateway's view of the credential rows; a secret that does not open is an error there.\<close>

definition stored_secret :: "aead \<Rightarrow> key_env \<Rightarrow> admin_state \<Rightarrow> string \<Rightarrow> string option" where
  "stored_secret ae env s i =
     (case table_find crId i (asCredentials s) of
        None \<Rightarrow> None
      | Some c \<Rightarrow> (case decryptProviderSecret ae env (crSecret c) of Inr t \<Rightarrow> Some t | Inl _ \<Rightarrow> None))"

lemma set_models_find:
  "asCredentials (make_default P s) = asCredentials s" "asCredentials (add_price i a b now s) = asCredentials s"
  by (simp_all add: make_default_def add_price_def)

lemma upsert_credentials [simp]: "asCredentials (snd (upsert_model slug f s)) = asCredentials s"
  by (simp add: upsert_model_def next_id_def split: option.split)

lemma store_remote_credentials: "asCredentials (store_remote slug f a b mk now s) = asCredentials s"
  by (simp add: store_remote_def Let_def case_prod_beta set_models_find)

lemma find_update:
  assumes "\<And>r. modelId (f r) = modelId r" and "find_model slug rows = Some r"
  shows "find_model slug (update_where P f rows) = Some (if P r then f r else r)"
  using assms by (induction rows) (auto simp: find_model_def table_find_def update_where_def)

lemma upsert_find:
  assumes "data_edit f"
  shows "\<exists>r. find_model slug (models (snd (upsert_model slug f s))) = Some (f r)"
proof (cases "find_model slug (models s)")
  case None
  then show ?thesis using assms
    by (auto simp: upsert_model_def find_model_def data_edit_def blank_model_def)
next
  case (Some r)
  then have "modelId r = slug" unfolding find_model_def by (rule table_find_some_in(2))
  then show ?thesis using find_update [OF _ Some, of f "\<lambda>r. modelId r = slug"] assms Some
    by (auto simp: upsert_model_def data_edit_def)
qed

text \<open>Columns that the default flag does not touch.\<close>

definition provider_columns :: "hosted_model \<Rightarrow> string \<times> provider_kind \<times> string option \<times> string option \<times> string option" where
  "provider_columns r = (modelId r, providerKind r, remoteBaseUrl r, remoteModelId r, credentialId r)"

lemma find_map_columns:
  "map provider_columns rows = map provider_columns rows' \<Longrightarrow>
   map_option provider_columns (find_model slug rows) = map_option provider_columns (find_model slug rows')"
proof (induction rows arbitrary: rows')
  case (Cons r rows)
  then show ?case
    by (cases rows') (auto simp: find_model_def table_find_def provider_columns_def)
qed (simp add: find_model_def table_find_def)

lemma store_remote_columns:
  assumes "data_edit f"
  shows "\<exists>r. map_option provider_columns (find_model slug (models (store_remote slug f a b mk now s))) =
           Some (provider_columns (f r))"
proof -
  obtain i s1 where up: "upsert_model slug f s = (i, s1)" by (metis prod.exhaust)
  obtain r where r: "find_model slug (models s1) = Some (f r)" using upsert_find [OF assms, of slug s] up by auto
  have "map provider_columns (models (make_default P s')) = map provider_columns (models s')" for P s'
    by (simp add: make_default_def update_where_keys provider_columns_def)
  then have "map provider_columns (models (store_remote slug f a b mk now s)) = map provider_columns (models s1)"
    by (simp add: store_remote_def up Let_def add_price_def)
  from find_map_columns [OF this, of slug] show ?thesis using r by auto
qed

lemma saved_credential_opens:
  assumes "aead_opens ae" and "encryptProviderSecret ae env iv key = Inr secret"
    and "gatewayMasterKey env' = webMasterKey env"
    and "save_credential ex label secret s = (i, s')"
    and "ex \<noteq> None \<longrightarrow> the ex \<in> crId ` set (asCredentials s)"
    and "ex = None \<longrightarrow> row_id s \<notin> crId ` set (asCredentials s)"
  shows "stored_secret ae env' s' i = Some key"
proof -
  have opens: "decryptProviderSecret ae env' secret = Inr key" by (rule sealed_opens [OF assms(1-3)])
  have hit: "\<exists>c. table_find crId k (update_where (\<lambda>c. crId c = k) (\<lambda>c. c\<lparr>crLabel := label, crSecret := secret\<rparr>) cs) = Some c
      \<and> crSecret c = secret" if "k \<in> crId ` set cs" for k cs
    using that by (induction cs) (auto simp: table_find_def update_where_def)
  show ?thesis
  proof (cases ex)
    case None
    then have "table_find crId i (asCredentials s') = Some \<lparr>crId = i, crLabel = label, crSecret = secret\<rparr>"
      using assms(4,6) by (auto simp: save_credential_def next_id_def table_find_none_iff)
    then show ?thesis using opens by (simp add: stored_secret_def)
  next
    case (Some k)
    then show ?thesis using assms(4,5) hit [of k "asCredentials s"] opens
      by (auto simp: save_credential_def stored_secret_def)
  qed
qed

text \<open>Trimming.\<close>

lemma trim_end_prefix: "\<exists>t. s = trim_end s @ t \<and> list_all is_space t"
proof -
  have "rev s = takeWhile is_space (rev s) @ dropWhile is_space (rev s)" by simp
  then have "s = trim_end s @ rev (takeWhile is_space (rev s))"
    unfolding trim_end_def by (metis rev_append rev_rev_ident)
  moreover have "list_all is_space (rev (takeWhile is_space (rev s)))"
    by (auto simp: list_all_iff dest: set_takeWhileD)
  ultimately show ?thesis by blast
qed

lemma trim_start_fixed: "s = [] \<or> \<not> is_space (hd s) \<Longrightarrow> trim_start s = s"
  by (cases s) (auto simp: trim_start_def)

lemma trim_nonempty: "s \<noteq> [] \<Longrightarrow> \<not> is_space (hd s) \<Longrightarrow> js_trim s \<noteq> []"
  using trim_end_prefix [of s] by (auto simp: js_trim_def trim_start_fixed list_all_iff)

lemma hd_trim:
  assumes "js_trim s \<noteq> []"
  shows "\<not> is_space (hd (js_trim s))"
proof -
  obtain t where "trim_start s = js_trim s @ t" using trim_end_prefix [of "trim_start s"] by (auto simp: js_trim_def)
  then have "hd (js_trim s) = hd (trim_start s)" "trim_start s \<noteq> []" using assms by auto
  then show ?thesis using hd_dropWhile [of is_space s] by (simp add: trim_start_def)
qed

lemma trim_twice: "js_trim (js_trim s) = js_trim s"
proof (cases "js_trim s = []")
  case False
  have "trim_end (trim_end t) = trim_end t" for t by (simp add: trim_end_def)
  moreover have "js_trim (js_trim s) = trim_end (js_trim s)"
    using trim_start_fixed [of "js_trim s"] hd_trim [OF False] by (subst js_trim_def) simp
  ultimately show ?thesis by (simp only: js_trim_def)
next
  case True
  show ?thesis unfolding True by (simp add: js_trim_def trim_start_def trim_end_def)
qed

lemma hd_strip: "strip_slashes s \<noteq> [] \<Longrightarrow> hd (strip_slashes s) = hd s"
proof -
  assume ne: "strip_slashes s \<noteq> []"
  have "rev s = takeWhile (\<lambda>c. c = CHR ''/'') (rev s) @ dropWhile (\<lambda>c. c = CHR ''/'') (rev s)" by simp
  then have "s = strip_slashes s @ rev (takeWhile (\<lambda>c. c = CHR ''/'') (rev s))"
    unfolding strip_slashes_def by (metis rev_append rev_rev_ident)
  then show ?thesis using ne by (metis hd_append2)
qed

lemma stored_secret_cong: "asCredentials s = asCredentials s' \<Longrightarrow> stored_secret ae env s = stored_secret ae env s'"
  by (rule ext) (simp add: stored_secret_def)

text \<open>The fields of the form, as the action reads them.\<close>

definition form_url :: "form \<Rightarrow> string" where
  "form_url f = strip_slashes (js_trim (form_text f ''remoteBaseUrl''))"

lemma upsert_remote_stores:
  assumes "upsertRemoteModelAction we now f s = ((True, msg), s')" and "js_trim (form_text f ''apiKey'') \<noteq> []"
  obtains label secret i s1 name ctx a b mk where
    "encryptProviderSecret (weAead we) (weKeys we) (weIv we) (js_trim (form_text f ''apiKey'')) = Inr secret"
    "save_credential (Option.bind (find_model (js_trim (form_text f ''modelId'')) (models s)) credentialId)
       label secret s = (i, s1)"
    "s' = store_remote (js_trim (form_text f ''modelId''))
       (remote_row name (form_url f) (js_trim (form_text f ''remoteModelId'')) ctx a b (Some i)) a b mk now s1"
    "form_url f \<noteq> []" "js_trim (form_text f ''remoteModelId'') \<noteq> []"
  using assms that
  by (auto simp: upsertRemoteModelAction_def Let_def remote_credential_def form_url_def
      split: if_splits prod.splits sum.splits option.splits)


definition demo_web :: web_env where
  "demo_web = no_keys\<lparr>weKeys := \<lparr>keMasterKey = Some ''secret'', keJwtSecret = None, keAuthSecret = None\<rparr>\<rparr>"

definition demo_form :: form where
  "demo_form = map_of [(''modelId'', ''r''), (''displayName'', ''R''), (''remoteBaseUrl'', ''https://h/v1/''),
     (''remoteModelId'', ''up''), (''apiKey'', '' k1 '')]"


subsection \<open>The answer to a new default\<close>

lemma load_message:
  assumes "engine_load env w req e = (Inr r, e')"
  shows "lpMessage r \<noteq> [] \<and> lpMessage r \<noteq> ''Loaded into model pool''"
  using assms
  by (auto simp: engine_load_def loadModelUnlocked_def load_finish_def
      split: if_splits option.splits prod.splits sum.splits)

lemma warm_message:
  assumes "down \<noteq> Some []"  and "down \<noteq> Some ''Loaded into model pool''"
  shows "fst (warm_default env w down m s) \<noteq> [] \<and> fst (warm_default env w down m s) \<noteq> ''Loaded into model pool''"
proof -
  have route: "gateway_error x \<noteq> [] \<and> gateway_error x \<noteq> ''Loaded into model pool''" for x
    by (simp add: gateway_error_def)
  have "lpMessage r \<noteq> [] \<and> lpMessage r \<noteq> ''Loaded into model pool''" if "load_route env w k s' = (Inr r, s'')" for k s' r s''
    using that load_message [of env w]
    by (auto simp: load_route_def with_engine_def split: option.splits prod.splits sum.splits)
  then show ?thesis using assms route
    by (auto simp: warm_default_def Let_def split: option.split prod.split sum.split)
qed

text \<open>
  The answer to a new platform default always says that warming failed: the text it compares the
  engine's message with is not one the engine or the gateway gives, so the two success texts
  are never used, for local and for remote models.
\<close>

lemma default_reports_failure:
  assumes "find_model (js_trim (form_string f ''modelId'')) (models s) = Some m"
    and "js_trim (form_string f ''modelId'') \<noteq> []"
    and "down \<noteq> Some []" and "down \<noteq> Some ''Loaded into model pool''"
  shows "\<exists>msg. fst (setPlatformDefaultModelAction env w down f s) =
    (True, js_trim (form_string f ''modelId'') @ '' is now the platform default, but warm load failed: '' @ msg)"
  using assms(1,2) warm_message [OF assms(3,4)]
  by (simp add: setPlatformDefaultModelAction_def Let_def case_prod_beta)

subsection \<open>Grants at the same time\<close>

text \<open>
  Two grants that read the plan before either writes it: the later write drops the model of the
  earlier one from the plan, while its entitlement row stays.
\<close>

lemma overlapping_grants_lose_model:
  assumes "asPlans s = [p]" and "a \<notin> set (paAllowed p)" and "a \<noteq> b"
  shows "\<exists>q. asPlans (grant_plan b p (grant_plan a p s)) = [q] \<and> a \<notin> set (paAllowed q)
    \<and> (paId p, a) \<in> set (asEntitlements (grant_plan b p (grant_plan a p s)))"
  using assms by (auto simp: grant_plan_def update_where_def)

end
