(* ===== verification/PoolActionsProps.thy ===== *)
theory PoolActionsProps
  imports PoolActions CanonicalProps
begin

text \<open>
  What an administrator sees of a failed action: the toast shows exactly the message of the engine,
  through the gateway's error body and the web server's unwrapping; and without the role
  nothing happens.
\<close>

subsection \<open>Unwrapping\<close>

lemma colon_ends: "ends_number ('':'' @ r)"
  by (auto simp: ends_number_def is_digit_def chr_code_def split: list.splits)

lemma gateway_body_error:
  assumes "0 \<le> st"
  shows "gateway_body (gateway_error (st, b)) = Some b"
proof -
  have shape: "gateway_error (st, b) = ''Gateway '' @ digits_of (nat st) @ '': '' @ b"
    using assms by (simp add: gateway_error_def show_int_def)
  have split: "takeWhile is_digit (digits_of (nat st) @ '': '' @ b) = digits_of (nat st)"
    "dropWhile is_digit (digits_of (nat st) @ '': '' @ b) = '': '' @ b"
    using span_digits [OF colon_ends [of "'' '' @ b"], of "nat st"] by simp_all
  have "drop 8 (gateway_error (st, b)) = digits_of (nat st) @ '': '' @ b" by (simp add: shape)
  moreover have "starts_with ''Gateway '' (gateway_error (st, b))" by (simp add: shape starts_with_def)
  ultimately show ?thesis
    using digits_of_nonempty split by (simp add: gateway_body_def Let_def starts_with_def)
qed

lemma describe_plain: "0 \<le> st \<Longrightarrow> describeError (gateway_error (st, plain_error msg)) = msg"
proof -
  assume "0 \<le> st"
  moreover have "parse_json (plain_error msg) = Some (JObj [(''error'', JStr msg)])"
    unfolding plain_error_def by (rule parse_text) simp
  ultimately show ?thesis by (simp add: describeError_def gateway_body_error js_prop_def)
qed

lemma failure_body_text: "failure_body msg = json_text (JObj [(''success'', JBool False), (''error'', JStr msg)])"
proof -
  have "json_string ''success'' = ''\"success\"''" "json_string ''error'' = ''\"error\"''"
    by (simp_all add: json_string_def escape_char_def chr_code_def)
  then show ?thesis by (simp add: failure_body_def)
qed

lemma error_body_text:
  "error_body kind msg = json_text (JObj [(''error'', JObj [(''type'', JStr kind), (''message'', JStr msg)])])"
proof -
  have "json_string ''type'' = ''\"type\"''" "json_string ''message'' = ''\"message\"''" "json_string ''error'' = ''\"error\"''"
    by (simp_all add: json_string_def escape_char_def chr_code_def)
  then show ?thesis by (simp add: error_body_def)
qed

lemma describe_failure: "0 \<le> st \<Longrightarrow> describeError (gateway_error (st, failure_body msg)) = msg"
proof -
  assume "0 \<le> st"
  moreover have "parse_json (failure_body msg) = Some (JObj [(''success'', JBool False), (''error'', JStr msg)])"
    unfolding failure_body_text by (rule parse_text) simp
  ultimately show ?thesis by (simp add: describeError_def gateway_body_error js_prop_def)
qed

lemma describe_error_body: "0 \<le> st \<Longrightarrow> describeError (gateway_error (st, error_body kind msg)) = msg"
proof -
  assume "0 \<le> st"
  moreover have "parse_json (error_body kind msg)
      = Some (JObj [(''error'', JObj [(''type'', JStr kind), (''message'', JStr msg)])])"
    unfolding error_body_text by (rule parse_text) simp
  ultimately show ?thesis by (simp add: describeError_def gateway_body_error js_prop_def)
qed

subsection \<open>Failures\<close>

text \<open>
  A failed load is reported as it happened: the administrator sees exactly the engine's message (unwrapped from the
  gateway's 503 body), the row is marked as failed, and one audit event records the failure; an unknown
  model is reported as such and changes nothing else.
\<close>

theorem load_failure_shown:
  assumes "requireAdmin session = Inr admin"
  shows "(case find_model slug (models (fst s)) of
      None \<Rightarrow> loadModelAction env w None session slug s
        = (Inr \<lparr>plOk = False, plMessage = ''Unknown model''\<rparr>, fst s, snd s @ [admin_event admin ''model.load.failed'' slug])
    | Some hosted \<Rightarrow>
        (case engine_load env w \<lparr>lrModelId = modelId hosted, lrWeightsPath = weightsPath hosted,
            lrContextLength = contextLength hosted, lrThreads = nThreads hosted\<rparr> (asEngine (fst s)) of
           (Inl err, e1) \<Rightarrow> loadModelAction env w None session slug s
             = (Inr \<lparr>plOk = False, plMessage = errorText err\<rparr>, (fst s)\<lparr>asEngine := mark_id (hmId hosted) MS_ERROR e1\<rparr>,
                snd s @ [admin_event admin ''model.load.failed'' slug])
         | (Inr r, e1) \<Rightarrow> plOk (projr (fst (loadModelAction env w None session slug s))) = lpSuccess r))"
proof (cases "find_model slug (models (fst s))")
  case None
  then show ?thesis
    using assms by (simp add: loadModelAction_def load_route_def describe_error_body)
next
  case (Some hosted)
  then show ?thesis
    using assms
    by (auto simp: loadModelAction_def load_route_def with_engine_def describe_failure Let_def split: prod.split sum.split)
qed

definition broken_world :: world where
  "broken_world = \<lparr>wBinary = ''bin'', wBinaryExists = False, wStatSize = (\<lambda>_. None),
     wProbe = (\<lambda>_. True), wHealth = None, wReservations = None, wNow = 0\<rparr>"

definition one_model :: admin_state where
  "one_model = \<lparr>asEngine = \<lparr>pool = [], registry = [blank_model ''1'' ''m''], nextUid = 0\<rparr>, asPlans = [],
     asEntitlements = [], asPricing = [], asCredentials = [], asFiles = [], asNextId = 2\<rparr>"

definition sample_admin :: session_user where
  "sample_admin = \<lparr>suId = ''a'', suEmail = [], suName = [], suRole = ''ADMIN''\<rparr>"

definition plain_env :: engine_env where
  "plain_env = \<lparr>envDatabase = True, envProtectedModels = [], envRamBudgetMb = 100, envPortBase = 9100, envAutoLoad = True\<rparr>"

lemma load_failure_shown_witness:
  "fst (loadModelAction plain_env broken_world None (Some sample_admin) ''m'' (one_model, []))
   = Inr \<lparr>plOk = False, plMessage = ''llama-server not found at bin. Run: pnpm llama:fetch''\<rparr>"
proof -
  have admin: "requireAdmin (Some sample_admin) = Inr sample_admin"
    by (simp add: requireAdmin_def requireSession_def sample_admin_def)
  have row: "find_model ''m'' (models one_model) = Some (blank_model ''1'' ''m'')"
    by (simp add: find_model_def table_find_def one_model_def blank_model_def)
  have "fst (engine_load plain_env broken_world \<lparr>lrModelId = modelId (blank_model ''1'' ''m''),
        lrWeightsPath = weightsPath (blank_model ''1'' ''m''), lrContextLength = contextLength (blank_model ''1'' ''m''),
        lrThreads = nThreads (blank_model ''1'' ''m'')\<rparr> (asEngine one_model))
      = Inl (EngineError ''MODEL_UNAVAILABLE'' ''llama-server not found at bin. Run: pnpm llama:fetch'')"
    by code_simp
  then show ?thesis
    using load_failure_shown [OF admin, where slug = "''m''" and s = "(one_model, [])" and env = plain_env and w = broken_world] row
    by (auto simp: errorText_def split: prod.splits)
qed

text \<open>The same for speech models, whose routes answer \<^verbatim>\<open>{ "error": message }\<close>.\<close>

lemma install_failure_shown:
  assumes "requireAdmin session = Inr admin"
    and "install_route env i (Some (provider_name p)) (Some m) act (fst s) = (Inl (st, msg), w')" and "0 \<le> st"
  shows "installWhisperModelAction env None session i m (Some p) (Some act) s
    = (Inr \<lparr>srOk = False, srMessage = msg, srJob = None\<rparr>, w', snd s)"
proof -
  have "(Some act \<noteq> Some False) = act" by simp
  then show ?thesis using assms by (simp add: installWhisperModelAction_def or_default_def describe_plain)
qed

text \<open>Without the role of an administrator the actions redirect and change nothing.\<close>

lemma pool_actions_guarded:
  assumes "requireAdmin session = Inl target"
  shows "loadModelAction env w down session slug s = (Inl target, s)"
    and "unloadModelAction env down session slug s = (Inl target, s)"
    and "installWhisperModelAction stt down session i m p act v = (Inl target, v)"
    and "activateWhisperModelAction stt down session now ok m p v = (Inl target, v)"
  using assms
  by (simp_all add: loadModelAction_def unloadModelAction_def installWhisperModelAction_def activateWhisperModelAction_def)

end
