(* ===== verification/Trust.thy ===== *)
theory Trust
  imports Canonical
begin

text \<open>
  Signatures and usage receipts: \<^verbatim>\<open>packages/platform/src/signing.ts\<close> and \<^verbatim>\<open>federation.ts\<close>,
  \<^verbatim>\<open>apps/gateway/src/lib/receipts.ts\<close>, and the two web routes that publish the keys and
  check a receipt. SHA-256, Ed25519 and the base64 decoding are parameters.
\<close>

subsection \<open>Keys on disk\<close>

datatype file_read = Content string | NoEntry | ReadError string

record key_files =
  privatePath :: file_read
  publicPath :: file_read

record signer =
  privateKey :: string
  publicKey :: string
  keyId :: string

text \<open>
  The constructor: either both files are read, or the first one that is missing makes it
  write a new pair over both paths; any other read error is thrown.
\<close>

definition read_keys :: "key_files \<Rightarrow> (string option, string \<times> string) result" where
  "read_keys fs =
     (case privatePath fs of
        ReadError e \<Rightarrow> Inl (Some e)
      | NoEntry \<Rightarrow> Inl None
      | Content a \<Rightarrow>
          (case publicPath fs of
             ReadError e \<Rightarrow> Inl (Some e)
           | NoEntry \<Rightarrow> Inl None
           | Content b \<Rightarrow> Inr (a, b)))"

definition signer_of :: "(string \<Rightarrow> string) \<Rightarrow> string \<times> string \<Rightarrow> signer" where
  "signer_of sha ks = \<lparr>privateKey = fst ks, publicKey = snd ks, keyId = take 32 (sha (snd ks))\<rparr>"

definition openSigner :: "(string \<Rightarrow> string) \<Rightarrow> string \<times> string \<Rightarrow> key_files \<Rightarrow> (string, signer \<times> key_files) result" where
  "openSigner sha fresh fs =
     (case read_keys fs of
        Inr ks \<Rightarrow> Inr (signer_of sha ks, fs)
      | Inl (Some e) \<Rightarrow> Inl e
      | Inl None \<Rightarrow>
          Inr (signer_of sha fresh, \<lparr>privatePath = Content (fst fresh), publicPath = Content (snd fresh)\<rparr>))"

subsection \<open>Signing and verifying\<close>

text \<open>
  \<^verbatim>\<open>ed_sign\<close> answers the signature in base64url; \<^verbatim>\<open>ed_verify\<close> takes the public key, the text and
  the decoded signature, and is \<^verbatim>\<open>None\<close> when it throws.
\<close>

record 'b crypto =
  sha256 :: "string \<Rightarrow> string"
  ed_sign :: "string \<Rightarrow> string \<Rightarrow> string"
  ed_verify :: "string \<Rightarrow> string \<Rightarrow> 'b \<Rightarrow> bool option"
  from_base64 :: "string \<Rightarrow> 'b"

record payload_signature =
  sigKeyId :: string
  signature :: string
  payloadHash :: string
  algorithm :: string

definition SIGNING_ALGORITHM :: string where
  "SIGNING_ALGORITHM = ''Ed25519''"

definition signPayload :: "'b crypto \<Rightarrow> signer \<Rightarrow> json \<Rightarrow> (string, payload_signature) result" where
  "signPayload cr sg p =
     (case canonicalStringify p of
        Inl e \<Rightarrow> Inl e
      | Inr t \<Rightarrow>
          map_sum (\<lambda>e. e)
            (\<lambda>h. \<lparr>sigKeyId = keyId sg, signature = ed_sign cr (privateKey sg) t, payloadHash = h,
                  algorithm = SIGNING_ALGORITHM\<rparr>)
            (hashCanonicalPayload (sha256 cr) p))"

text \<open>
  The hash is computed, and may throw, only after the algorithm and the key agree; what is
  thrown inside the \<^verbatim>\<open>try\<close> is the answer false.
\<close>

definition verifyPayload :: "'b crypto \<Rightarrow> signer \<Rightarrow> json \<Rightarrow> payload_signature \<Rightarrow> (string, bool) result" where
  "verifyPayload cr sg p z =
     (if algorithm z \<noteq> SIGNING_ALGORITHM \<or> sigKeyId z \<noteq> keyId sg then Inr False
      else
        (case hashCanonicalPayload (sha256 cr) p of
           Inl e \<Rightarrow> Inl e
         | Inr h \<Rightarrow>
             if payloadHash z \<noteq> h then Inr False
             else
               (case canonicalStringify p of
                  Inl e \<Rightarrow> Inr False
                | Inr t \<Rightarrow>
                    Inr (case ed_verify cr (publicKey sg) t (from_base64 cr (signature z)) of
                           None \<Rightarrow> False | Some b \<Rightarrow> b))))"

subsection \<open>Commands seen before\<close>

definition isReplay :: "string \<Rightarrow> string list \<Rightarrow> bool \<times> string list" where
  "isReplay nonce seen = (if nonce \<in> set seen then (True, seen) else (False, seen @ [nonce]))"

fun observe :: "string list \<Rightarrow> string list \<Rightarrow> bool list" where
  "observe [] seen = []"
| "observe (x # xs) seen = (let (b, seen') = isReplay x seen in b # observe xs seen')"

subsection \<open>Receipts\<close>

record signing_key =
  skKeyId :: string
  skAlgorithm :: string
  skPublicKey :: string
  skPrivateRef :: string
  skActive :: bool
  skCreatedAt :: int
  skRevokedAt :: "int option"

record receipt_request =
  rqId :: string
  rqCustomerId :: string
  rqApiKeyId :: string
  rqRequestedSlug :: string
  rqResolvedSlug :: "string option"
  rqPrompt :: int
  rqCompletion :: int
  rqCostMicros :: int
  rqFinish :: "string option"
  rqStatus :: string

record usage_receipt =
  rcRequestId :: string
  rcUsageEventId :: "string option"
  rcCanonical :: string
  rcHash :: string
  rcSignature :: string
  rcAlgorithm :: string
  rcKeyId :: string
  rcPrevious :: "string option"
  rcIssuedAt :: int

record receipt_db =
  signingKeys :: "signing_key list"
  receipts :: "usage_receipt list"
  receiptLinks :: "(string \<times> nat) list"

definition json_opt :: "string option \<Rightarrow> json" where
  "json_opt x = (case x of None \<Rightarrow> JNull | Some s \<Rightarrow> JStr s)"

text \<open>\<^verbatim>\<open>isoTime\<close> is \<^verbatim>\<open>Date.toISOString\<close>.\<close>

definition receipt_payload :: "(int \<Rightarrow> string) \<Rightarrow> receipt_request \<Rightarrow> string option \<Rightarrow> int \<Rightarrow> json" where
  "receipt_payload isoTime q ev ms =
     JObj [(''version'', JNum 1),
           (''requestId'', JStr (rqId q)),
           (''customerId'', JStr (rqCustomerId q)),
           (''apiKeyId'', JStr (rqApiKeyId q)),
           (''requestedModel'', JStr (rqRequestedSlug q)),
           (''resolvedModel'', json_opt (rqResolvedSlug q)),
           (''promptTokens'', JNum (rqPrompt q)),
           (''completionTokens'', JNum (rqCompletion q)),
           (''costMicros'', JStr (show_int (rqCostMicros q))),
           (''finishReason'', json_opt (rqFinish q)),
           (''status'', JStr (rqStatus q)),
           (''usageEventId'', json_opt ev),
           (''issuedAt'', JStr (isoTime ms))]"

text \<open>The upsert: whatever the row says, it is active and not revoked afterwards.\<close>

definition ensureSigningKey :: "signer \<Rightarrow> string \<Rightarrow> int \<Rightarrow> receipt_db \<Rightarrow> receipt_db" where
  "ensureSigningKey sg dir now db =
     (case table_find skKeyId (keyId sg) (signingKeys db) of
        None \<Rightarrow>
          db\<lparr>signingKeys := signingKeys db @
               [\<lparr>skKeyId = keyId sg, skAlgorithm = SIGNING_ALGORITHM, skPublicKey = publicKey sg,
                 skPrivateRef = dir, skActive = True, skCreatedAt = now, skRevokedAt = None\<rparr>]\<rparr>
      | Some _ \<Rightarrow>
          db\<lparr>signingKeys := map (\<lambda>k. if skKeyId k = keyId sg
                                     then k\<lparr>skActive := True, skRevokedAt := None\<rparr> else k) (signingKeys db)\<rparr>)"

text \<open>\<^verbatim>\<open>findFirst\<close> by \<^verbatim>\<open>issuedAt\<close> descending; among equal times the older row is taken.\<close>

fun latest :: "usage_receipt list \<Rightarrow> usage_receipt option" where
  "latest [] = None"
| "latest (r # rs) =
     (case latest rs of None \<Rightarrow> Some r | Some x \<Rightarrow> if rcIssuedAt x > rcIssuedAt r then Some x else Some r)"

text \<open>
  One call of \<^verbatim>\<open>issueUsageReceipt\<close> between its awaits: what it has read (\<^verbatim>\<open>previous\<close>), the key row
  it ensures, and the row it creates.
\<close>

datatype call_phase = HasRead | KeyReady | Finished

record receipt_call =
  rlPhase :: call_phase
  rlRequest :: receipt_request
  rlEvent :: "string option"
  rlPrevious :: "string option"
  rlIssuedAt :: int

definition receipt_read :: "receipt_request \<Rightarrow> string option \<Rightarrow> int \<Rightarrow> receipt_db \<Rightarrow> usage_receipt + receipt_call" where
  "receipt_read q ev now db =
     (case find (\<lambda>r. rcRequestId r = rqId q) (receipts db) of
        Some r \<Rightarrow> Inl r
      | None \<Rightarrow>
          Inr \<lparr>rlPhase = HasRead, rlRequest = q, rlEvent = ev, rlPrevious = map_option rcHash (latest (receipts db)),
               rlIssuedAt = now\<rparr>)"

definition receipt_row :: "'b crypto \<Rightarrow> signer \<Rightarrow> (int \<Rightarrow> string) \<Rightarrow> receipt_call \<Rightarrow> (string, usage_receipt) result" where
  "receipt_row cr sg isoTime c =
     (let p = receipt_payload isoTime (rlRequest c) (rlEvent c) (rlIssuedAt c) in
      case (signPayload cr sg p, canonicalStringify p) of
        (Inr z, Inr t) \<Rightarrow>
          Inr \<lparr>rcRequestId = rqId (rlRequest c), rcUsageEventId = rlEvent c, rcCanonical = t,
               rcHash = payloadHash z, rcSignature = signature z, rcAlgorithm = algorithm z,
               rcKeyId = sigKeyId z, rcPrevious = rlPrevious c, rcIssuedAt = rlIssuedAt c\<rparr>
      | (Inl e, _) \<Rightarrow> Inl e
      | (_, Inl e) \<Rightarrow> Inl e)"

text \<open>The two unique indexes; null is not compared. The id of a row is its position.\<close>

definition receipt_taken :: "usage_receipt \<Rightarrow> receipt_db \<Rightarrow> bool" where
  "receipt_taken r db \<longleftrightarrow>
     (\<exists>x \<in> set (receipts db). rcRequestId x = rcRequestId r \<or>
        (rcUsageEventId r \<noteq> None \<and> rcUsageEventId x = rcUsageEventId r))"

definition receipt_create :: "usage_receipt \<Rightarrow> receipt_db \<Rightarrow> (string, receipt_db) result" where
  "receipt_create r db =
     (if receipt_taken r db then Inl ''P2002''
      else Inr (db\<lparr>receipts := receipts db @ [r],
                  receiptLinks := (rcRequestId r, length (receipts db)) # receiptLinks db\<rparr>))"

text \<open>The steps of concurrent calls, beside the revocation of a key by an operator.\<close>

record receipt_world =
  rwDb :: receipt_db
  rwCalls :: "receipt_call list"

datatype receipt_op =
    ReadPrevious receipt_request "string option" int
  | EnsureKey nat int
  | WriteReceipt nat
  | RevokeKey string int

definition receipt_step ::
  "'b crypto \<Rightarrow> signer \<Rightarrow> string \<Rightarrow> (int \<Rightarrow> string) \<Rightarrow> receipt_op \<Rightarrow> receipt_world \<Rightarrow> receipt_world" where
  "receipt_step cr sg dir isoTime op w =
     (case op of
        ReadPrevious q ev now \<Rightarrow>
          (case receipt_read q ev now (rwDb w) of
             Inl r \<Rightarrow> w
           | Inr c \<Rightarrow> w\<lparr>rwCalls := rwCalls w @ [c]\<rparr>)
      | EnsureKey i now \<Rightarrow>
          (if length (rwCalls w) \<le> i \<or> rlPhase (rwCalls w ! i) \<noteq> HasRead then w
           else w\<lparr>rwDb := ensureSigningKey sg dir now (rwDb w),
                  rwCalls := (rwCalls w)[i := (rwCalls w ! i)\<lparr>rlPhase := KeyReady\<rparr>]\<rparr>)
      | WriteReceipt i \<Rightarrow>
          (if length (rwCalls w) \<le> i \<or> rlPhase (rwCalls w ! i) \<noteq> KeyReady then w
           else
             (let w' = w\<lparr>rwCalls := (rwCalls w)[i := (rwCalls w ! i)\<lparr>rlPhase := Finished\<rparr>]\<rparr> in
              case receipt_row cr sg isoTime (rwCalls w ! i) of
                Inl e \<Rightarrow> w'
              | Inr r \<Rightarrow>
                  (case receipt_create r (rwDb w) of
                     Inl e \<Rightarrow> w' | Inr db \<Rightarrow> w'\<lparr>rwDb := db\<rparr>)))
      | RevokeKey k now \<Rightarrow>
          w\<lparr>rwDb := (rwDb w)\<lparr>signingKeys := map (\<lambda>r. if skKeyId r = k
              then r\<lparr>skActive := False, skRevokedAt := Some now\<rparr> else r) (signingKeys (rwDb w))\<rparr>\<rparr>)"

text \<open>A call that nothing interrupts.\<close>

definition issueUsageReceipt ::
  "'b crypto \<Rightarrow> signer \<Rightarrow> string \<Rightarrow> (int \<Rightarrow> string) \<Rightarrow> receipt_request \<Rightarrow> string option \<Rightarrow> int \<Rightarrow> receipt_db
    \<Rightarrow> (string, usage_receipt) result \<times> receipt_db" where
  "issueUsageReceipt cr sg dir isoTime q ev now db =
     (case receipt_read q ev now db of
        Inl r \<Rightarrow> (Inr r, db)
      | Inr c \<Rightarrow>
          (let db1 = ensureSigningKey sg dir now db in
           case receipt_row cr sg isoTime c of
             Inl e \<Rightarrow> (Inl e, db1)
           | Inr r \<Rightarrow>
               (case receipt_create r db1 of
                  Inl e \<Rightarrow> (Inl e, db1)
                | Inr db2 \<Rightarrow> (Inr r, db2))))"

subsection \<open>The public routes\<close>

definition usage_keys :: "receipt_db \<Rightarrow> signing_key list" where
  "usage_keys db =
     js_sort (\<lambda>a b. of_int (skCreatedAt b) - of_int (skCreatedAt a))
       (filter (\<lambda>k. skActive k \<and> skRevokedAt k = None) (signingKeys db))"

text \<open>
  \<^verbatim>\<open>localeCompare\<close> on letters and digits: letters are compared without their case first, and a
  lower-case letter comes before its capital.
\<close>

fun compare_codes :: "nat list \<Rightarrow> nat list \<Rightarrow> int" where
  "compare_codes [] [] = 0"
| "compare_codes [] (y # ys) = - 1"
| "compare_codes (x # xs) [] = 1"
| "compare_codes (x # xs) (y # ys) = (if x < y then - 1 else if y < x then 1 else compare_codes xs ys)"

definition localeCompare :: "string \<Rightarrow> string \<Rightarrow> int" where
  "localeCompare a b =
     (let p = compare_codes (map (chr_code \<circ> lower_char) a) (map (chr_code \<circ> lower_char) b) in
      if p \<noteq> 0 then p
      else compare_codes (map (\<lambda>c. if is_upper c then 1 else 0) a) (map (\<lambda>c. if is_upper c then 1 else 0) b))"

text \<open>Values here come from \<^verbatim>\<open>JSON.parse\<close>: an object keeps the last value of a repeated key.\<close>

definition sort_entries :: "(string \<times> 'a) list \<Rightarrow> (string \<times> 'a) list" where
  "sort_entries es = js_sort (\<lambda>a b. of_int (localeCompare (fst a) (fst b))) es"

definition set_field :: "string \<times> 'a \<Rightarrow> (string \<times> 'a) list \<Rightarrow> (string \<times> 'a) list" where
  "set_field kv es =
     (if fst kv \<in> fst ` set es then map (\<lambda>e. if fst e = fst kv then kv else e) es else es @ [kv])"

fun stableStringify :: "json \<Rightarrow> string"
  and stable_list :: "json list \<Rightarrow> string list"
  and stable_fields :: "(string \<times> json) list \<Rightarrow> (string \<times> string) list" where
  "stableStringify (JArr xs) = ''['' @ join '','' (stable_list xs) @ '']''"
| "stableStringify (JObj kvs) =
     ''{'' @ join '','' (map (\<lambda>(k, t). json_string k @ '':'' @ t)
        (sort_entries (fold set_field (stable_fields kvs) []))) @ ''}''"
| "stableStringify v = json_text v"
| "stable_list [] = []"
| "stable_list (x # xs) = stableStringify x # stable_list xs"
| "stable_fields [] = []"
| "stable_fields ((k, v) # r) = (k, stableStringify v) # stable_fields r"

text \<open>The text that the verification route checks; \<^verbatim>\<open>None\<close> when \<^verbatim>\<open>JSON.parse\<close> throws.\<close>

definition verified_text :: "string \<Rightarrow> string option" where
  "verified_text payload =
     (if starts_with ''{'' (js_trim payload) then map_option stableStringify (parse_json payload)
      else Some payload)"

datatype verify_reply =
    BadRequest string
  | UnknownKey
  | Verified bool string string

definition url_to_standard :: "string \<Rightarrow> string" where
  "url_to_standard s = map (\<lambda>c. if c = CHR ''-'' then CHR ''+'' else if c = CHR ''_'' then CHR ''/'' else c) s"

definition present_text :: "string option \<Rightarrow> string option" where
  "present_text x = (case x of Some (c # s) \<Rightarrow> Some (c # s) | _ \<Rightarrow> None)"

definition verifyReceipt ::
  "'b crypto \<Rightarrow> receipt_db \<Rightarrow> string option \<Rightarrow> string option \<Rightarrow> string option \<Rightarrow> verify_reply" where
  "verifyReceipt cr db payload sig key =
     (case (present_text payload, present_text sig, present_text key) of
        (Some p, Some s, Some k) \<Rightarrow>
          (case table_find skKeyId k (signingKeys db) of
             None \<Rightarrow> UnknownKey
           | Some row \<Rightarrow>
               if skRevokedAt row \<noteq> None then UnknownKey
               else
                 (case verified_text p of
                    None \<Rightarrow> BadRequest ''SyntaxError''
                  | Some t \<Rightarrow>
                      (case ed_verify cr (skPublicKey row) t (from_base64 cr (url_to_standard s)) of
                         None \<Rightarrow> BadRequest ''Verification failed''
                       | Some b \<Rightarrow> Verified b (sha256 cr t) (skAlgorithm row))))
      | _ \<Rightarrow> BadRequest ''payload, signature, and keyId are required'')"

end
