(* ===== verification/CoreTrace.thy ===== *)
theory CoreTrace
  imports Prelude
begin

text \<open>
  Diagnostic captures of inference requests: the registry of armed captures and the recorder of
  \<^verbatim>\<open>apps/gateway/src/lib/coreTrace.ts\<close>, the two internal routes that arm and disarm, the
  customer's server actions \<^verbatim>\<open>core-inspector/actions.ts\<close> and the route that reads a capture.
  The steps of the web application, of the gateway and of requests in flight interleave in an
  inductive step relation.
\<close>

subsection \<open>State\<close>

datatype trace_status = TS_ARMED | TS_CAPTURING | TS_COMPLETED | TS_FAILED | TS_CANCELLED | TS_EXPIRED

record trace_session =
  tsId :: string
  tsCustomer :: string
  tsRequest :: "string option"
  tsStatus :: trace_status
  tsExpires :: int
  tsStarted :: "int option"
  tsCompleted :: "int option"
  tsCreated :: int

record trace_event =
  teTrace :: string
  teSequence :: nat
  tePhase :: string
  teKind :: string

record trace_recorder =
  reTrace :: string
  reSequence :: nat
  reClosed :: bool

text \<open>
  Beside the tables and the gateway's map: the claims whose update has answered, the closings
  that wait for their last event, and the cancellations that have passed their check.
\<close>

record trace_world =
  sessions :: "trace_session list"
  traceEvents :: "trace_event list"
  armedByCustomer :: "string \<rightharpoonup> string"
  recorders :: "trace_recorder list"
  claims :: "(string \<times> string \<times> bool) list"
  closings :: "(nat \<times> trace_status) list"
  cancelling :: "string list"

definition trace_init :: trace_world where
  "trace_init = \<lparr>sessions = [], traceEvents = [], armedByCustomer = Map.empty, recorders = [],
     claims = [], closings = [], cancelling = []\<rparr>"

definition update_sessions ::
    "(trace_session \<Rightarrow> bool) \<Rightarrow> (trace_session \<Rightarrow> trace_session) \<Rightarrow> trace_world \<Rightarrow> trace_world" where
  "update_sessions P f w = w\<lparr>sessions := map (\<lambda>s. if P s then f s else s) (sessions w)\<rparr>"

subsection \<open>The gateway\<close>

text \<open>Rows of one table are created at increasing times, so the list is in creation order.\<close>

definition hydrateArmedCoreTraces :: "int \<Rightarrow> trace_world \<Rightarrow> trace_world" where
  "hydrateArmedCoreTraces now w =
     (let w1 = update_sessions (\<lambda>s. tsStatus s = TS_ARMED \<and> tsExpires s \<le> now)
                 (\<lambda>s. s\<lparr>tsStatus := TS_EXPIRED\<rparr>) w;
          live = filter (\<lambda>s. tsStatus s = TS_ARMED \<and> tsExpires s > now) (sessions w1)
      in w1\<lparr>armedByCustomer :=
              fold (\<lambda>s m. if m (tsCustomer s) = None then m(tsCustomer s \<mapsto> tsId s) else m) live Map.empty\<rparr>)"

definition armCoreTrace :: "string \<Rightarrow> string \<Rightarrow> trace_world \<Rightarrow> trace_world" where
  "armCoreTrace c t w = w\<lparr>armedByCustomer := (armedByCustomer w)(c \<mapsto> t)\<rparr>"

definition disarmCoreTrace :: "string \<Rightarrow> string option \<Rightarrow> trace_world \<Rightarrow> trace_world" where
  "disarmCoreTrace c t w =
     (if t = None \<or> armedByCustomer w c = t then w\<lparr>armedByCustomer := (armedByCustomer w)(c := None)\<rparr> else w)"

datatype arm_reply = ArmBad | ArmMissing | Armed

definition armRoute :: "string \<Rightarrow> string \<Rightarrow> int \<Rightarrow> trace_world \<Rightarrow> arm_reply \<times> trace_world" where
  "armRoute t c now w =
     (if c = [] then (ArmBad, w)
      else if find (\<lambda>s. tsId s = t \<and> tsCustomer s = c \<and> tsStatus s = TS_ARMED \<and> tsExpires s > now) (sessions w) = None
      then (ArmMissing, w)
      else (Armed, armCoreTrace c t w))"

text \<open>
  \<^verbatim>\<open>claimCoreTrace\<close> up to the answer of its update. \<^verbatim>\<open>ok\<close> says whether the database answers; an
  error, also that of the unique index on the request, is taken as a count of zero.
\<close>

definition claimable :: "string \<Rightarrow> string \<Rightarrow> int \<Rightarrow> trace_session \<Rightarrow> bool" where
  "claimable c t now s \<longleftrightarrow> tsId s = t \<and> tsCustomer s = c \<and> tsStatus s = TS_ARMED \<and> tsExpires s > now"

definition claim_update :: "string \<Rightarrow> string \<Rightarrow> string option \<Rightarrow> int \<Rightarrow> bool \<Rightarrow> trace_world \<Rightarrow> trace_world" where
  "claim_update c r explicit now ok w =
     (case (case explicit of Some t \<Rightarrow> Some t | None \<Rightarrow> armedByCustomer w c) of
        None \<Rightarrow> w
      | Some t \<Rightarrow>
          if t = [] then w
          else if \<not> ok \<or> Some r \<in> tsRequest ` set (sessions w) then w\<lparr>claims := claims w @ [(c, t, False)]\<rparr>
          else
            (let n = length (filter (claimable c t now) (sessions w));
                 w1 = update_sessions (claimable c t now)
                        (\<lambda>s. s\<lparr>tsStatus := TS_CAPTURING, tsRequest := Some r, tsStarted := Some now\<rparr>) w
             in w1\<lparr>claims := claims w1 @ [(c, t, n = 1)]\<rparr>))"

text \<open>The rest of the claim: disarm, and a recorder when the update hit.\<close>

definition claim_finish :: "nat \<Rightarrow> trace_world \<Rightarrow> trace_world" where
  "claim_finish i w =
     (if length (claims w) \<le> i then w
      else
        (case claims w ! i of (c, t, hit) \<Rightarrow>
           (let w1 = disarmCoreTrace c (Some t) (w\<lparr>claims := take i (claims w) @ drop (Suc i) (claims w)\<rparr>)
            in if hit then w1\<lparr>recorders := recorders w1 @ [\<lparr>reTrace = t, reSequence = 0, reClosed = False\<rparr>]\<rparr>
               else w1)))"

text \<open>\<^verbatim>\<open>CoreTraceRecorder.event\<close>: the number is taken even if the write is skipped.\<close>

definition record_event :: "nat \<Rightarrow> string \<Rightarrow> string \<Rightarrow> bool \<Rightarrow> trace_world \<Rightarrow> trace_world" where
  "record_event i phase kind ok w =
     (if length (recorders w) \<le> i \<or> reClosed (recorders w ! i) then w
      else
        (let r = recorders w ! i; n = reSequence r + 1;
             w1 = w\<lparr>recorders := (recorders w)[i := r\<lparr>reSequence := n\<rparr>]\<rparr>
         in if \<not> ok \<or> (\<exists>e \<in> set (traceEvents w). teTrace e = reTrace r \<and> teSequence e = n) then w1
            else w1\<lparr>traceEvents := traceEvents w @
                   [\<lparr>teTrace = reTrace r, teSequence = n, tePhase = phase, teKind = kind\<rparr>]\<rparr>))"

text \<open>\<^verbatim>\<open>complete\<close> and \<^verbatim>\<open>fail\<close>: the last event, and after its await the closing with its update.\<close>

definition close_begin :: "nat \<Rightarrow> trace_status \<Rightarrow> bool \<Rightarrow> trace_world \<Rightarrow> trace_world" where
  "close_begin i st ok w =
     (if length (recorders w) \<le> i \<or> reClosed (recorders w ! i) then w
      else
        (let w1 = (if st = TS_COMPLETED then record_event i ''complete'' ''request.completed'' ok w
                   else record_event i ''failed'' ''request.failed'' ok w)
         in w1\<lparr>closings := closings w1 @ [(i, st)]\<rparr>))"

definition close_end :: "nat \<Rightarrow> int \<Rightarrow> bool \<Rightarrow> trace_world \<Rightarrow> trace_world" where
  "close_end k now ok w =
     (if length (closings w) \<le> k then w
      else
        (case closings w ! k of (i, st) \<Rightarrow>
           (let r = recorders w ! i;
                w1 = w\<lparr>closings := take k (closings w) @ drop (Suc k) (closings w),
                       recorders := (recorders w)[i := r\<lparr>reClosed := True\<rparr>]\<rparr>
            in if ok then update_sessions (\<lambda>s. tsId s = reTrace r)
                            (\<lambda>s. s\<lparr>tsStatus := st, tsCompleted := Some now\<rparr>) w1
               else w1)))"

subsection \<open>The web application\<close>

definition TRACE_TTL_MS :: int where
  "TRACE_TTL_MS = 10 * 60 * 1000"

text \<open>The database steps of \<^verbatim>\<open>armCoreInspectorAction\<close>.\<close>

definition cancel_armed :: "string \<Rightarrow> trace_world \<Rightarrow> trace_world" where
  "cancel_armed c w =
     update_sessions (\<lambda>s. tsCustomer s = c \<and> tsStatus s = TS_ARMED) (\<lambda>s. s\<lparr>tsStatus := TS_CANCELLED\<rparr>) w"

definition create_session :: "string \<Rightarrow> string \<Rightarrow> int \<Rightarrow> trace_world \<Rightarrow> trace_world" where
  "create_session t c now w =
     w\<lparr>sessions := sessions w @ [\<lparr>tsId = t, tsCustomer = c, tsRequest = None, tsStatus = TS_ARMED,
        tsExpires = now + TRACE_TTL_MS, tsStarted = None, tsCompleted = None, tsCreated = now\<rparr>]\<rparr>"

definition mark_cancelled :: "string \<Rightarrow> trace_world \<Rightarrow> trace_world" where
  "mark_cancelled t w = update_sessions (\<lambda>s. tsId s = t) (\<lambda>s. s\<lparr>tsStatus := TS_CANCELLED\<rparr>) w"

text \<open>The whole action when nothing comes between, and the check of a cancellation.\<close>

definition armCoreInspectorAction ::
    "string \<Rightarrow> string \<Rightarrow> string \<Rightarrow> int \<Rightarrow> bool \<Rightarrow> trace_world \<Rightarrow> (string, string) result \<times> trace_world" where
  "armCoreInspectorAction t user role now reachable w =
     (if role = ''ADMIN'' then (Inl ''Use a subscriber account to capture inference traffic.'', w)
      else
        (let w1 = create_session t user now (cancel_armed user w)
         in if \<not> reachable then (Inl ''Gateway unavailable'', mark_cancelled t w1)
            else
              (case armRoute t user now w1 of
                 (Armed, w2) \<Rightarrow> (Inr t, w2)
               | (_, w2) \<Rightarrow> (Inl ''Gateway error'', mark_cancelled t w2))))"

definition cancel_check :: "string \<Rightarrow> string \<Rightarrow> trace_world \<Rightarrow> trace_world" where
  "cancel_check t user w =
     (if find (\<lambda>s. tsId s = t \<and> tsCustomer s = user \<and> tsStatus s = TS_ARMED) (sessions w) = None then w
      else w\<lparr>cancelling := t # cancelling w\<rparr>)"

text \<open>The capture as the reading route shows it.\<close>

datatype trace_view = NotSignedIn | NotFound | Shown trace_status "nat list"

definition viewTrace :: "(string \<times> string) option \<Rightarrow> string \<Rightarrow> int \<Rightarrow> trace_world \<Rightarrow> trace_view" where
  "viewTrace user t now w =
     (case user of
        None \<Rightarrow> NotSignedIn
      | Some (uid, role) \<Rightarrow>
          if uid = [] then NotSignedIn
          else
            (case table_find tsId t (sessions w) of
               None \<Rightarrow> NotFound
             | Some s \<Rightarrow>
                 if role \<noteq> ''ADMIN'' \<and> tsCustomer s \<noteq> uid then NotFound
                 else Shown (if tsStatus s = TS_ARMED \<and> tsExpires s \<le> now then TS_EXPIRED else tsStatus s)
                        (sort (map teSequence (filter (\<lambda>e. teTrace e = t) (traceEvents w))))))"

subsection \<open>Steps\<close>

text \<open>
  One step of any party. The steps of one action need not follow each other, so what holds
  for all paths of this relation holds for the interleavings of the code.
\<close>

inductive trace_step :: "trace_world \<Rightarrow> trace_world \<Rightarrow> bool" where
  Hydrate: "trace_step w (hydrateArmedCoreTraces now w)"
| CancelArmed: "trace_step w (cancel_armed c w)"
| Create: "t \<notin> tsId ` set (sessions w) \<Longrightarrow> trace_step w (create_session t c now w)"
| Arm: "trace_step w (snd (armRoute t c now w))"
| ArmFailed: "trace_step w (mark_cancelled t w)"
| CancelCheck: "trace_step w (cancel_check t c w)"
| Disarm: "trace_step w (disarmCoreTrace c t w)"
| CancelWrite: "t \<in> set (cancelling w) \<Longrightarrow> trace_step w (mark_cancelled t w)"
| Claim: "trace_step w (claim_update c r explicit now ok w)"
| ClaimFinish: "trace_step w (claim_finish i w)"
| Event: "trace_step w (record_event i phase kind ok w)"
| CloseBegin: "st = TS_COMPLETED \<or> st = TS_FAILED \<Longrightarrow> trace_step w (close_begin i st ok w)"
| CloseEnd: "trace_step w (close_end k now ok w)"

inductive_cases trace_stepE: "trace_step w w'"

definition trace_reachable :: "trace_world \<Rightarrow> bool" where
  "trace_reachable w \<longleftrightarrow> trace_step\<^sup>*\<^sup>* trace_init w"

end
