(* ===== verification/Reads.thy ===== *)
theory Reads
  imports Trust CoreTrace Accounts Billing
begin

text \<open>
  What customers can read: the model list and the rows of requests and receipts of the API
  (\<^verbatim>\<open>routes/v1.ts\<close>), the traces of the dashboard (\<^verbatim>\<open>app/api/core-inspector/[id]/route.ts\<close>), the page of a
  request (\<^verbatim>\<open>app/(customer)/requests/[id]/page.tsx\<close>) and the usage report of the control plane
  (\<^verbatim>\<open>routes/internal.ts\<close>), with the isolation of the tenants.
\<close>

subsection \<open>Tables\<close>

text \<open>An attempt is its request, its number and its other columns.\<close>

record 'a tenant_db =
  tdRequests :: "receipt_request list"
  tdReceipts :: "usage_receipt list"
  tdAttempts :: "(string \<times> int \<times> 'a) list"
  tdSessions :: "trace_session list"
  tdEvents :: "trace_event list"

datatype 'a page = Found 'a | NotFound int string

subsection \<open>Models\<close>

record model_view =
  mvId :: string
  mvContext :: int
  mvStatus :: model_status
  mvDefault :: bool
  mvPrices :: "rat \<times> rat"

definition model_view_of :: "hosted_model \<Rightarrow> model_view" where
  "model_view_of m = \<lparr>mvId = modelId m, mvContext = contextLength m, mvStatus = hmStatus m,
     mvDefault = isPlatformDefault m, mvPrices = (pricePerMTokIn m, pricePerMTokOut m)\<rparr>"

text \<open>\<^verbatim>\<open>loc\<close> is the order of the database's collation.\<close>

definition models_route :: "(string \<Rightarrow> string \<Rightarrow> rat) \<Rightarrow> auth_context \<Rightarrow> hosted_model list \<Rightarrow> model_view list" where
  "models_route loc auth rows =
     map model_view_of (js_sort (\<lambda>a b. loc (modelId a) (modelId b))
       (filter (\<lambda>m. modelId m \<in> set (allowedModelIds auth)) rows))"

text \<open>The reply for one model has its quantization instead of its prices.\<close>

definition model_route :: "auth_context \<Rightarrow> string \<Rightarrow> hosted_model list \<Rightarrow> (model_view \<times> string) page" where
  "model_route auth i rows =
     (if i \<notin> set (allowedModelIds auth) \<and> i \<noteq> ''auto'' then NotFound 404 ''Model not found''
      else (case find_model i rows of
              None \<Rightarrow> NotFound 404 ''Model not found''
            | Some m \<Rightarrow> Found (model_view_of m, quantization m)))"

subsection \<open>Requests, receipts and traces\<close>

definition attempts_of :: "string \<Rightarrow> 'a tenant_db \<Rightarrow> (string \<times> int \<times> 'a) list" where
  "attempts_of i db = filter (\<lambda>a. fst a = i) (tdAttempts db)"

definition receipt_of :: "string \<Rightarrow> 'a tenant_db \<Rightarrow> usage_receipt option" where
  "receipt_of i db = table_find rcRequestId i (tdReceipts db)"

definition request_route ::
    "auth_context \<Rightarrow> string \<Rightarrow> 'a tenant_db \<Rightarrow> (receipt_request \<times> (string \<times> int \<times> 'a) list \<times> usage_receipt option) page" where
  "request_route auth i db =
     (case table_find rqId i (tdRequests db) of
        None \<Rightarrow> NotFound 404 ''Request not found''
      | Some q \<Rightarrow>
          if rqCustomerId q \<noteq> authCustomerId auth then NotFound 404 ''Request not found''
          else Found (q, attempts_of i db, receipt_of i db))"

definition receipt_route :: "auth_context \<Rightarrow> string \<Rightarrow> 'a tenant_db \<Rightarrow> (usage_receipt \<times> receipt_request) page" where
  "receipt_route auth i db =
     (case receipt_of i db of
        None \<Rightarrow> NotFound 404 ''Receipt not found''
      | Some r \<Rightarrow>
          (case table_find rqId (rcRequestId r) (tdRequests db) of
             None \<Rightarrow> NotFound 404 ''Receipt not found''
           | Some q \<Rightarrow> if rqCustomerId q \<noteq> authCustomerId auth then NotFound 404 ''Receipt not found'' else Found (r, q)))"

text \<open>A capture that is still armed after its time is shown as expired; its events in the order of their numbers.\<close>

definition effective_status :: "int \<Rightarrow> trace_session \<Rightarrow> trace_status" where
  "effective_status now t = (if tsStatus t = TS_ARMED \<and> tsExpires t \<le> now then TS_EXPIRED else tsStatus t)"

definition trace_events_of :: "string \<Rightarrow> 'a tenant_db \<Rightarrow> trace_event list" where
  "trace_events_of i db = sort_key teSequence (filter (\<lambda>e. teTrace e = i) (tdEvents db))"

definition trace_route ::
    "int \<Rightarrow> session_user option \<Rightarrow> string \<Rightarrow> 'a tenant_db
     \<Rightarrow> (trace_session \<times> trace_status \<times> trace_event list \<times> receipt_request option) page" where
  "trace_route now session i db =
     (case session of
        None \<Rightarrow> NotFound 401 ''Authentication required''
      | Some user \<Rightarrow>
          if suId user = [] then NotFound 401 ''Authentication required''
          else
            (case table_find tsId i (tdSessions db) of
               None \<Rightarrow> NotFound 404 ''Trace not found''
             | Some t \<Rightarrow>
                 if suRole user \<noteq> ''ADMIN'' \<and> tsCustomer t \<noteq> suId user then NotFound 404 ''Trace not found''
                 else Found (t, effective_status now t, trace_events_of i db,
                        Option.bind (tsRequest t) (\<lambda>q. table_find rqId q (tdRequests db)))))"

text \<open>The page of a request: an exception of the ownership check is the error page.\<close>

definition request_page ::
    "session_user \<Rightarrow> string \<Rightarrow> 'a tenant_db \<Rightarrow> (receipt_request \<times> (string \<times> int \<times> 'a) list \<times> usage_receipt option) page" where
  "request_page user i db =
     (case table_find rqId i (tdRequests db) of
        None \<Rightarrow> NotFound 404 []
      | Some q \<Rightarrow>
          if \<not> assertOwnership (rqCustomerId q) user then NotFound 500 ''FORBIDDEN''
          else Found (q, sort_key (\<lambda>a. fst (snd a)) (attempts_of i db), receipt_of i db))"

subsection \<open>The usage report\<close>

record usage_report =
  urCount :: int
  urPrompt :: int
  urCompletion :: int
  urTotal :: int

definition usage_report_of :: "string \<Rightarrow> int \<Rightarrow> int \<Rightarrow> billed_event list \<Rightarrow> usage_report page" where
  "usage_report_of c from_ms to_ms es =
     (if c = [] then NotFound 400 ''customerId required''
      else
        (let rows = take 5000 (sort_key beCreatedAt (period_events c from_ms to_ms es));
             p = sum_list (map bePromptTokens rows); q = sum_list (map beCompletionTokens rows)
         in Found \<lparr>urCount = int (length rows), urPrompt = p, urCompletion = q, urTotal = p + q\<rparr>))"

subsection \<open>Tenants do not see each other\<close>

definition db_keys :: "'a tenant_db \<Rightarrow> bool" where
  "db_keys db \<longleftrightarrow> unique_by rqId (tdRequests db) \<and> unique_by rcRequestId (tdReceipts db) \<and> unique_by tsId (tdSessions db)
     \<and> (\<forall>t \<in> set (tdSessions db). \<forall>q \<in> set (tdRequests db). tsRequest t = Some (rqId q) \<longrightarrow> rqCustomerId q = tsCustomer t)"

definition own_requests :: "string \<Rightarrow> 'a tenant_db \<Rightarrow> receipt_request list" where
  "own_requests c db = filter (\<lambda>q. rqCustomerId q = c) (tdRequests db)"

definition own_sessions :: "string \<Rightarrow> 'a tenant_db \<Rightarrow> trace_session list" where
  "own_sessions c db = filter (\<lambda>t. tsCustomer t = c) (tdSessions db)"

text \<open>The rows of one customer: its requests and traces, and what belongs to them.\<close>

definition own_rows :: "string \<Rightarrow> 'a tenant_db \<Rightarrow> 'a tenant_db" where
  "own_rows c db = \<lparr>tdRequests = own_requests c db,
     tdReceipts = filter (\<lambda>r. rcRequestId r \<in> rqId ` set (own_requests c db)) (tdReceipts db),
     tdAttempts = filter (\<lambda>a. fst a \<in> rqId ` set (own_requests c db)) (tdAttempts db),
     tdSessions = own_sessions c db,
     tdEvents = filter (\<lambda>e. teTrace e \<in> tsId ` set (own_sessions c db)) (tdEvents db)\<rparr>"

lemma table_find_filter:
  assumes "unique_by key rows"
  shows "table_find key k (filter P rows)
    = (case table_find key k rows of None \<Rightarrow> None | Some r \<Rightarrow> if P r then Some r else None)"
  using assms
proof (induction rows)
  case (Cons r rows)
  have IH: "table_find key k (filter P rows)
      = (case table_find key k rows of None \<Rightarrow> None | Some r \<Rightarrow> if P r then Some r else None)"
    using Cons by (simp add: unique_by_def)
  show ?case
  proof (cases "key r = k")
    case True
    have "k \<notin> key ` set rows" using Cons.prems True by (auto simp: unique_by_def)
    then have "table_find key k (filter P rows) = None" by (auto simp: table_find_none_iff)
    then show ?thesis using True by (simp add: table_find_def)
  next
    case False
    then show ?thesis using IH by (simp add: table_find_def)
  qed
qed (simp add: table_find_def)

lemma table_find_filter_key:
  "P k \<Longrightarrow> table_find key k (filter (\<lambda>r. P (key r)) rows) = table_find key k rows"
  by (induction rows) (auto simp: table_find_def)

lemma filter_filter_key: "P k \<Longrightarrow> filter (\<lambda>a. f a = k) (filter (\<lambda>a. P (f a)) xs) = filter (\<lambda>a. f a = k) xs"
  by (induction xs) auto

text \<open>Each read of a customer gives the same on the whole tables as on the customer's rows alone.\<close>

lemma own_request_find:
  assumes "db_keys db"
  shows "table_find rqId i (own_requests c db)
    = (case table_find rqId i (tdRequests db) of None \<Rightarrow> None | Some q \<Rightarrow> if rqCustomerId q = c then Some q else None)"
  using table_find_filter [of rqId "tdRequests db" i "\<lambda>q. rqCustomerId q = c"] assms
  by (simp add: own_requests_def db_keys_def)

lemma own_request_member:
  assumes "table_find rqId i (tdRequests db) = Some q" and "rqCustomerId q = c"
  shows "i \<in> rqId ` set (own_requests c db)"
  using table_find_some_in [OF assms(1)] assms(2) by (auto simp: own_requests_def)

text \<open>What belongs to an own request or trace is kept.\<close>

lemma own_details:
  "i \<in> rqId ` set (own_requests c db) \<Longrightarrow> attempts_of i (own_rows c db) = attempts_of i db"
  "i \<in> rqId ` set (own_requests c db) \<Longrightarrow> receipt_of i (own_rows c db) = receipt_of i db"
  "i \<notin> rqId ` set (own_requests c db) \<Longrightarrow> receipt_of i (own_rows c db) = None"
  "t \<in> tsId ` set (own_sessions c db) \<Longrightarrow> trace_events_of t (own_rows c db) = trace_events_of t db"
proof -
  show "i \<in> rqId ` set (own_requests c db) \<Longrightarrow> attempts_of i (own_rows c db) = attempts_of i db"
    by (auto simp: attempts_of_def own_rows_def intro!: filter_cong)
  show "i \<in> rqId ` set (own_requests c db) \<Longrightarrow> receipt_of i (own_rows c db) = receipt_of i db"
    using table_find_filter_key [of "\<lambda>x. x \<in> rqId ` set (own_requests c db)" i rcRequestId]
    by (simp add: receipt_of_def own_rows_def)
  show "i \<notin> rqId ` set (own_requests c db) \<Longrightarrow> receipt_of i (own_rows c db) = None"
    by (auto simp: receipt_of_def own_rows_def table_find_none_iff)
  show "t \<in> tsId ` set (own_sessions c db) \<Longrightarrow> trace_events_of t (own_rows c db) = trace_events_of t db"
    by (auto simp: trace_events_of_def own_rows_def intro!: arg_cong [where f = "sort_key teSequence"] filter_cong)
qed

lemma request_route_own:
  assumes "db_keys db"
  shows "request_route auth i (own_rows (authCustomerId auth) db) = request_route auth i db"
proof -
  let ?c = "authCustomerId auth"
  have found: "table_find rqId i (tdRequests (own_rows ?c db))
    = (case table_find rqId i (tdRequests db) of None \<Rightarrow> None | Some q \<Rightarrow> if rqCustomerId q = ?c then Some q else None)"
    using own_request_find [OF assms] by (simp add: own_rows_def)
  show ?thesis
  proof (cases "table_find rqId i (tdRequests db)")
    case (Some q)
    then show ?thesis
      using found own_request_member [OF Some, of ?c] own_details(1,2) [of i ?c db]
      by (cases "rqCustomerId q = ?c") (simp_all add: request_route_def)
  qed (use found in \<open>simp add: request_route_def\<close>)
qed

lemma receipt_route_own:
  assumes "db_keys db"
  shows "receipt_route auth i (own_rows (authCustomerId auth) db) = receipt_route auth i db"
proof (cases "i \<in> rqId ` set (own_requests (authCustomerId auth) db)")
  case True
  have "table_find rqId i (tdRequests (own_rows (authCustomerId auth) db))
    = (case table_find rqId i (tdRequests db) of None \<Rightarrow> None
       | Some q \<Rightarrow> if rqCustomerId q = authCustomerId auth then Some q else None)"
    using own_request_find [OF assms] by (simp add: own_rows_def)
  moreover have "\<And>r. receipt_of i db = Some r \<Longrightarrow> rcRequestId r = i"
    unfolding receipt_of_def by (rule table_find_some_in(2))
  ultimately show ?thesis
    using own_details(2) [OF True] by (auto simp: receipt_route_def split: option.split)
next
  case False
  have "receipt_route auth i db = NotFound 404 ''Receipt not found''"
  proof (cases "receipt_of i db")
    case (Some r)
    then have "rcRequestId r = i" unfolding receipt_of_def by (rule table_find_some_in(2))
    moreover have "rqCustomerId q \<noteq> authCustomerId auth" if "table_find rqId i (tdRequests db) = Some q" for q
      using False own_request_member [OF that] by blast
    ultimately show ?thesis using Some by (auto simp: receipt_route_def split: option.split)
  qed (simp add: receipt_route_def)
  then show ?thesis using own_details(3) [OF False] by (simp add: receipt_route_def)
qed

lemma trace_route_own:
  assumes "db_keys db" and "suRole user \<noteq> ''ADMIN''"
  shows "trace_route now (Some user) i (own_rows (suId user) db) = trace_route now (Some user) i db"
proof -
  let ?c = "suId user"
  have found: "table_find tsId i (tdSessions (own_rows ?c db))
    = (case table_find tsId i (tdSessions db) of None \<Rightarrow> None | Some t \<Rightarrow> if tsCustomer t = ?c then Some t else None)"
    using table_find_filter [of tsId "tdSessions db" i "\<lambda>t. tsCustomer t = ?c"] assms(1)
    by (simp add: own_rows_def own_sessions_def db_keys_def)
  show ?thesis
  proof (cases "table_find tsId i (tdSessions db)")
    case (Some t)
    show ?thesis
    proof (cases "tsCustomer t = ?c")
      case True
      note t = table_find_some_in [OF Some]
      then have "i \<in> tsId ` set (own_sessions ?c db)" using True by (auto simp: own_sessions_def)
      moreover have "table_find rqId q (own_requests ?c db) = table_find rqId q (tdRequests db)" if "tsRequest t = Some q" for q
      proof (cases "table_find rqId q (tdRequests db)")
        case (Some r)
        note r = table_find_some_in [OF Some]
        have "rqCustomerId r = ?c" using assms(1) t(1) r that True unfolding db_keys_def by metis
        then show ?thesis using Some own_request_find [OF assms(1), of q ?c] by simp
      qed (simp add: own_request_find [OF assms(1)])
      ultimately show ?thesis
        using Some found True own_details(4) [of i ?c db] assms(2)
        by (auto simp: trace_route_def own_rows_def split: option.split intro!: option.case_cong)
          (cases "tsRequest t"; simp)+
    qed (use Some found assms(2) in \<open>simp add: trace_route_def\<close>)
  qed (use found in \<open>simp add: trace_route_def\<close>)
qed


definition read_request :: "string \<Rightarrow> string \<Rightarrow> receipt_request" where
  "read_request i c = \<lparr>rqId = i, rqCustomerId = c, rqApiKeyId = ''k'', rqRequestedSlug = ''m'', rqResolvedSlug = None,
     rqPrompt = 1, rqCompletion = 2, rqCostMicros = 3, rqFinish = None, rqStatus = ''SUCCEEDED''\<rparr>"

definition read_db :: "(string \<times> string) list \<Rightarrow> unit tenant_db" where
  "read_db rows = \<lparr>tdRequests = map (\<lambda>(i, c). read_request i c) rows, tdReceipts = [], tdAttempts = [],
     tdSessions = [], tdEvents = []\<rparr>"

definition read_auth :: auth_context where
  "read_auth = \<lparr>authCustomerId = ''c'', authApiKeyId = ''k'', authEmail = [], authPlanId = [], authPlanName = [],
     monthlyTokenQuota = 0, requestsPerMinute = 0, maxConcurrent = 0, allowedModelIds = [], billingMode = [],
     authPeriodStart = 0, authPeriodEnd = 0\<rparr>"


text \<open>The page of a request does tell a foreign request (the error page) from a missing one (404).\<close>

lemma request_page_tells:
  assumes "suRole user \<noteq> ''ADMIN''" and "table_find rqId i (tdRequests db) = Some q" and "rqCustomerId q \<noteq> suId user"
    and "db_keys db"
  shows "request_page user i db = NotFound 500 ''FORBIDDEN''"
    and "request_page user i (own_rows (suId user) db) = NotFound 404 []"
  using assms own_request_find [OF assms(4), of i "suId user"]
  by (simp_all add: request_page_def assertOwnership_def own_rows_def)

text \<open>The report of the control plane adds up the first 5000 events only: of ten thousand events of one token it shows half.\<close>

lemma usage_report_truncated:
  assumes "c \<noteq> []" and "beCustomer e = c" and "from_ms \<le> beCreatedAt e" and "beCreatedAt e < to_ms"
  shows "usage_report_of c from_ms to_ms (replicate n e)
    = Found (let k = int (min n 5000) in \<lparr>urCount = k, urPrompt = k * bePromptTokens e, urCompletion = k * beCompletionTokens e,
        urTotal = k * bePromptTokens e + k * beCompletionTokens e\<rparr>)"
proof -
  have "period_events c from_ms to_ms (replicate n e) = replicate n e"
    using assms by (simp add: period_events_def)
  moreover have "sort_key beCreatedAt (replicate n e) = replicate n e"
    by (rule sort_key_id_if_sorted) simp
  ultimately show ?thesis
    using assms(1) by (simp add: usage_report_of_def Let_def take_replicate sum_list_replicate min.commute)
qed

end
