(* ===== verification/Markdown.thy ===== *)
theory Markdown
  imports Rag
begin

text \<open>
  The chat's markdown (\<^verbatim>\<open>components/chat/markdownFormat.ts\<close>): the five rewritings that put missing line breaks
  into a model's text, the reader of blocks, and the reader of inline marks. Text is a list of UTF-16
  code units; the expressions are written out as scans.
\<close>

subsection \<open>Characters\<close>

definition md_blank :: "nat \<Rightarrow> bool" where
  "md_blank c \<longleftrightarrow> c = 32 \<or> c = 9"

definition md_digit :: "nat \<Rightarrow> bool" where
  "md_digit c \<longleftrightarrow> 48 \<le> c \<and> c \<le> 57"

text \<open>\<^verbatim>\<open>[\w.-]\<close>.\<close>

definition fence_word :: "nat \<Rightarrow> bool" where
  "fence_word c \<longleftrightarrow> md_digit c \<or> 65 \<le> c \<and> c \<le> 90 \<or> 97 \<le> c \<and> c \<le> 122 \<or> c = 95 \<or> c = 46 \<or> c = 45"

subsection \<open>Line breaks\<close>

text \<open>\<^verbatim>\<open>replace(/\r\n/g, "\n")\<close>.\<close>

fun unix_lines :: "utext \<Rightarrow> utext" where
  "unix_lines (a # b # s) = (if a = 13 \<and> b = 10 then 10 # unix_lines s else a # unix_lines (b # s))"
| "unix_lines s = s"

text \<open>
  The expressions that begin with a character and white space: \<^verbatim>\<open>at s\<close> is what follows the
  character, if the rest of the expression matches there: the text to keep and the text to go on with.
\<close>

definition heading_mark :: "utext \<Rightarrow> (utext \<times> utext) option" where
  "heading_mark s =
     (let marks = dropWhile md_blank s; hashes = takeWhile (\<lambda>c. c = 35) marks; tail = dropWhile (\<lambda>c. c = 35) marks
      in if takeWhile md_blank s \<noteq> [] \<and> hashes \<noteq> [] \<and> length hashes \<le> 3 \<and> takeWhile md_blank tail \<noteq> []
         then Some (hashes @ takeWhile md_blank tail, dropWhile md_blank tail) else None)"

definition bullet_ahead :: "utext \<Rightarrow> (utext \<times> utext) option" where
  "bullet_ahead s =
     (case dropWhile md_blank s of
        c # d # r \<Rightarrow> if takeWhile md_blank s \<noteq> [] \<and> (c = 45 \<or> c = 42) \<and> md_blank d then Some ([], c # d # r) else None
      | _ \<Rightarrow> None)"

definition strong_item :: "utext \<Rightarrow> (utext \<times> utext) option" where
  "strong_item s =
     (case dropWhile md_blank s of
        c # tail \<Rightarrow>
          (let stars = dropWhile md_blank tail
           in if takeWhile md_blank s \<noteq> [] \<and> c = 45 \<and> takeWhile md_blank tail \<noteq> [] \<and> take 2 stars = [42, 42]
              then Some (c # takeWhile md_blank tail @ [42, 42], drop 2 stars) else None)
      | [] \<Rightarrow> None)"

lemma heading_mark_shorter: "heading_mark s = Some (k, r) \<Longrightarrow> length r \<le> length s"
  by (auto simp: heading_mark_def Let_def split: if_splits intro!: order_trans [OF length_dropWhile_le])

lemma bullet_ahead_shorter: "bullet_ahead s = Some (k, r) \<Longrightarrow> length r \<le> length s"
proof -
  assume "bullet_ahead s = Some (k, r)"
  then have "r = dropWhile md_blank s" by (auto simp: bullet_ahead_def split: list.splits if_splits)
  then show ?thesis by (simp add: length_dropWhile_le)
qed

lemma strong_item_shorter: "strong_item s = Some (k, r) \<Longrightarrow> length r \<le> length s"
proof -
  assume some: "strong_item s = Some (k, r)"
  then obtain c tail where tail: "dropWhile md_blank s = c # tail" by (auto simp: strong_item_def split: list.splits)
  then have "r = drop 2 (dropWhile md_blank tail)" using some by (auto simp: strong_item_def Let_def split: if_splits)
  then have "length r \<le> length (dropWhile md_blank tail)" by simp
  also have "\<dots> \<le> length tail" by (rule length_dropWhile_le)
  also have "\<dots> \<le> length s" using length_dropWhile_le [of md_blank s] tail by simp
  finally show ?thesis .
qed

text \<open>\<^verbatim>\<open>replace(/([^\n])[ \t]+(#{1,3}[ \t]+)/g, "$1\n\n$2")\<close>.\<close>

function break_headings :: "utext \<Rightarrow> utext" where
  "break_headings [] = []"
| "break_headings (c # s) =
     (case heading_mark s of
        Some (keep, r) \<Rightarrow> if c \<noteq> 10 then c # 10 # 10 # keep @ break_headings r else c # break_headings s
      | None \<Rightarrow> c # break_headings s)"
  by pat_completeness auto
termination
  by (relation "measure length") (auto dest: heading_mark_shorter)

text \<open>\<^verbatim>\<open>replace(/([:\uFF1A\u0964.!?])[ \t]+(?=[-*][ \t])/g, "$1\n")\<close>.\<close>

definition sentence_end :: "nat \<Rightarrow> bool" where
  "sentence_end c \<longleftrightarrow> c \<in> {58, 0xFF1A, 0x0964, 46, 33, 63}"

function break_bullets :: "utext \<Rightarrow> utext" where
  "break_bullets [] = []"
| "break_bullets (c # s) =
     (case bullet_ahead s of
        Some (_, r) \<Rightarrow> if sentence_end c then c # 10 # break_bullets r else c # break_bullets s
      | None \<Rightarrow> c # break_bullets s)"
  by pat_completeness auto
termination
  by (relation "measure length") (auto dest: bullet_ahead_shorter)

text \<open>\<^verbatim>\<open>replace(/([^\n])[ \t]+(-[ \t]+\*\*)/g, "$1\n$2")\<close>.\<close>

function break_items :: "utext \<Rightarrow> utext" where
  "break_items [] = []"
| "break_items (c # s) =
     (case strong_item s of
        Some (keep, r) \<Rightarrow> if c \<noteq> 10 then c # 10 # keep @ break_items r else c # break_items s
      | None \<Rightarrow> c # break_items s)"
  by pat_completeness auto
termination
  by (relation "measure length") (auto dest: strong_item_shorter)

text \<open>\<^verbatim>\<open>replace(/\n{3,}/g, "\n\n")\<close>: \<^verbatim>\<open>n\<close> line breaks have just been kept.\<close>

fun squeeze_breaks :: "nat \<Rightarrow> utext \<Rightarrow> utext" where
  "squeeze_breaks n [] = []"
| "squeeze_breaks n (c # s) =
     (if c \<noteq> 10 then c # squeeze_breaks 0 s
      else if n < 2 then c # squeeze_breaks (Suc n) s else squeeze_breaks n s)"

definition normalizeChatMarkdown :: "utext \<Rightarrow> utext" where
  "normalizeChatMarkdown s =
     u_trim (squeeze_breaks 0 (break_items (break_bullets (break_headings (unix_lines s)))))"

subsection \<open>Blocks\<close>

datatype chat_block =
    Heading nat utext
  | ItemList bool "utext list"
  | CodeBlock utext utext
  | Paragraph utext

fun md_lines :: "utext \<Rightarrow> utext list" where
  "md_lines [] = [[]]"
| "md_lines (c # s) =
     (if c = 10 then [] # md_lines s
      else (case md_lines s of [] \<Rightarrow> [[c]] | l # ls \<Rightarrow> (c # l) # ls))"

fun md_join :: "utext \<Rightarrow> utext list \<Rightarrow> utext" where
  "md_join sep [] = []"
| "md_join sep [x] = x"
| "md_join sep (x # y # zs) = x @ sep @ md_join sep (y # zs)"

text \<open>\<^verbatim>\<open>.+$\<close> after the white space: something without a line terminator.\<close>

definition rest_of_line :: "utext \<Rightarrow> utext option" where
  "rest_of_line s =
     (let r = dropWhile md_blank s
      in if takeWhile md_blank s \<noteq> [] \<and> r \<noteq> [] \<and> list_all (\<lambda>c. \<not> line_terminator c) r then Some r else None)"

definition heading_line :: "utext \<Rightarrow> (nat \<times> utext) option" where
  "heading_line t =
     (let hashes = takeWhile (\<lambda>c. c = 35) t
      in if hashes = [] \<or> 3 < length hashes then None
         else map_option (\<lambda>r. (length hashes, r)) (rest_of_line (dropWhile (\<lambda>c. c = 35) t)))"

definition unordered_line :: "utext \<Rightarrow> utext option" where
  "unordered_line t = (case t of c # s \<Rightarrow> if c = 45 \<or> c = 42 then rest_of_line s else None | [] \<Rightarrow> None)"

definition ordered_line :: "utext \<Rightarrow> utext option" where
  "ordered_line t =
     (if takeWhile md_digit t = [] then None
      else (case dropWhile md_digit t of
              c # s \<Rightarrow> if c = 46 \<or> c = 41 then rest_of_line s else None
            | [] \<Rightarrow> None))"

text \<open>\<^verbatim>\<open>/^```([\w.-]*)\s*$/\<close>: the language of a fence.\<close>

definition fence_line :: "utext \<Rightarrow> utext option" where
  "fence_line t =
     (if take 3 t = [96, 96, 96] \<and> list_all u_space (dropWhile fence_word (drop 3 t))
      then Some (takeWhile fence_word (drop 3 t)) else None)"

text \<open>The variables of the loop.\<close>

record md_state =
  mdBlocks :: "chat_block list"
  mdParagraph :: "utext list"
  mdList :: "(bool \<times> utext list) option"
  mdFence :: "(utext \<times> utext list) option"

definition flushParagraph :: "md_state \<Rightarrow> md_state" where
  "flushParagraph s =
     (let t = u_trim (md_join [32] (mdParagraph s))
      in s\<lparr>mdParagraph := [], mdBlocks := mdBlocks s @ (if t \<noteq> [] then [Paragraph t] else [])\<rparr>)"

definition flushList :: "md_state \<Rightarrow> md_state" where
  "flushList s =
     s\<lparr>mdList := None,
       mdBlocks := mdBlocks s @ (case mdList s of Some (o', i # is') \<Rightarrow> [ItemList o' (i # is')] | _ \<Rightarrow> [])\<rparr>"

definition add_item :: "bool \<Rightarrow> utext \<Rightarrow> md_state \<Rightarrow> md_state" where
  "add_item ordered item s =
     (let s1 = flushParagraph s;
          s2 = (case mdList s1 of
                  Some (o', items) \<Rightarrow> if o' = ordered then s1 else (flushList s1)\<lparr>mdList := Some (ordered, [])\<rparr>
                | None \<Rightarrow> (flushList s1)\<lparr>mdList := Some (ordered, [])\<rparr>)
      in s2\<lparr>mdList := map_option (\<lambda>(o', items). (o', items @ [item])) (mdList s2)\<rparr>)"

definition md_text_line :: "utext \<Rightarrow> md_state \<Rightarrow> md_state" where
  "md_text_line line s =
     (let t = u_trim line
      in if t = [] then flushList (flushParagraph s)
         else
           (case fence_line t of
              Some lang \<Rightarrow> (flushList (flushParagraph s))\<lparr>mdFence := Some (lang, [])\<rparr>
            | None \<Rightarrow>
                (case heading_line t of
                   Some (level, r) \<Rightarrow>
                     (let s' = flushList (flushParagraph s)
                      in s'\<lparr>mdBlocks := mdBlocks s' @ [Heading (min 3 level) (u_trim r)]\<rparr>)
                 | None \<Rightarrow>
                     (case unordered_line t of
                        Some r \<Rightarrow> add_item False (u_trim r) s
                      | None \<Rightarrow>
                          (case ordered_line t of
                             Some r \<Rightarrow> add_item True (u_trim r) s
                           | None \<Rightarrow> (let s' = flushList s in s'\<lparr>mdParagraph := mdParagraph s' @ [t]\<rparr>))))))"

text \<open>Inside a fence the closing line is compared untrimmed.\<close>

definition md_line :: "utext \<Rightarrow> md_state \<Rightarrow> md_state" where
  "md_line line s =
     (case mdFence s of
        Some (lang, code) \<Rightarrow>
          if fence_line line \<noteq> None
          then s\<lparr>mdBlocks := mdBlocks s @ [CodeBlock lang (md_join [10] code)], mdFence := None\<rparr>
          else s\<lparr>mdFence := Some (lang, code @ [line])\<rparr>
      | None \<Rightarrow> md_text_line line s)"

definition md_end :: "md_state \<Rightarrow> md_state" where
  "md_end s =
     flushList (flushParagraph
       (case mdFence s of
          Some (lang, code) \<Rightarrow> s\<lparr>mdBlocks := mdBlocks s @ [CodeBlock lang (md_join [10] code)]\<rparr>
        | None \<Rightarrow> s))"

definition md_start :: md_state where
  "md_start = \<lparr>mdBlocks = [], mdParagraph = [], mdList = None, mdFence = None\<rparr>"

definition parseChatMarkdown :: "utext \<Rightarrow> chat_block list" where
  "parseChatMarkdown input = mdBlocks (md_end (fold md_line (md_lines (normalizeChatMarkdown input)) md_start))"

subsection \<open>Inline marks\<close>

datatype inline_part = PlainPart utext | StrongPart utext | CodePart utext

text \<open>The expression \<^verbatim>\<open>\*\*([^*]+)\*\*|`([^`]+)`\<close> at the beginning of a text: the part and what follows it.\<close>

definition inline_mark :: "utext \<Rightarrow> (inline_part \<times> utext) option" where
  "inline_mark s =
     (let strong = drop 2 s; inner = takeWhile (\<lambda>c. c \<noteq> 42) strong; after = dropWhile (\<lambda>c. c \<noteq> 42) strong;
          code = drop 1 s; inner' = takeWhile (\<lambda>c. c \<noteq> 96) code; after' = dropWhile (\<lambda>c. c \<noteq> 96) code
      in if take 2 s = [42, 42] \<and> inner \<noteq> [] \<and> take 2 after = [42, 42] then Some (StrongPart inner, drop 2 after)
         else if take 1 s = [96] \<and> inner' \<noteq> [] \<and> after' \<noteq> [] then Some (CodePart inner', drop 1 after')
         else None)"

definition plain_part :: "utext \<Rightarrow> inline_part list" where
  "plain_part t = (if t = [] then [] else [PlainPart t])"

lemma inline_mark_shorter: "inline_mark s = Some (p, r) \<Longrightarrow> length r < length s"
proof -
  assume some: "inline_mark s = Some (p, r)"
  have a: "length (drop 2 (dropWhile f (drop 2 s))) \<le> length s - 2" for f :: "nat \<Rightarrow> bool"
    using length_dropWhile_le [of f "drop 2 s"] by simp
  have b: "length (drop 1 (dropWhile f (drop 1 s))) \<le> length s - 1" for f :: "nat \<Rightarrow> bool"
    using length_dropWhile_le [of f "drop 1 s"] by simp
  have "s \<noteq> []" using some by (auto simp: inline_mark_def)
  then show ?thesis
    using some a [of "\<lambda>c. c \<noteq> 42"] b [of "\<lambda>c. c \<noteq> 96"]
    by (cases s) (auto simp: inline_mark_def Let_def split: if_splits)
qed

text \<open>\<^verbatim>\<open>pending\<close> is the text since the last mark.\<close>

function inline_parts :: "utext \<Rightarrow> utext \<Rightarrow> inline_part list" where
  "inline_parts pending [] = plain_part pending"
| "inline_parts pending (c # s) =
     (case inline_mark (c # s) of
        Some (p, r) \<Rightarrow> plain_part pending @ p # inline_parts [] r
      | None \<Rightarrow> inline_parts (pending @ [c]) s)"
  by pat_completeness auto
termination
  by (relation "measure (\<lambda>(_, s). length s)") (auto dest: inline_mark_shorter)

definition splitInline :: "utext \<Rightarrow> inline_part list" where
  "splitInline t = (let ps = inline_parts [] t in if ps \<noteq> [] then ps else [PlainPart t])"

end
