(* ===== verification/MarkdownProps.thy ===== *)
theory MarkdownProps
  imports Markdown
begin

text \<open>
  What the chat shows of an answer: the inline parts spell the text again, blocks are well formed, text without
  any mark is one paragraph, and the two places where the shown text is not what the
  model wrote.
\<close>

subsection \<open>Inline parts\<close>

fun part_text :: "inline_part \<Rightarrow> utext" where
  "part_text (PlainPart t) = t"
| "part_text (StrongPart t) = [42, 42] @ t @ [42, 42]"
| "part_text (CodePart t) = [96] @ t @ [96]"

lemma inline_mark_text:
  assumes "inline_mark s = Some (p, r)"
  shows "part_text p @ r = s"
proof -
  have two: "take 2 s = [42, 42] \<Longrightarrow> s = [42, 42] @ takeWhile f (drop 2 s) @ dropWhile f (drop 2 s)" for f :: "nat \<Rightarrow> bool"
    by (metis append_take_drop_id takeWhile_dropWhile_id)
  have one: "take 1 s = [96] \<Longrightarrow> s = [96] @ takeWhile f (drop 1 s) @ dropWhile f (drop 1 s)" for f :: "nat \<Rightarrow> bool"
    by (metis append_take_drop_id takeWhile_dropWhile_id)
  consider (strong) "take 2 s = [42, 42]" "p = StrongPart (takeWhile (\<lambda>c. c \<noteq> 42) (drop 2 s))"
      "take 2 (dropWhile (\<lambda>c. c \<noteq> 42) (drop 2 s)) = [42, 42]" "r = drop 2 (dropWhile (\<lambda>c. c \<noteq> 42) (drop 2 s))"
    | (code) "take 1 s = [96]" "p = CodePart (takeWhile (\<lambda>c. c \<noteq> 96) (drop 1 s))"
      "dropWhile (\<lambda>c. c \<noteq> 96) (drop 1 s) \<noteq> []" "r = drop 1 (dropWhile (\<lambda>c. c \<noteq> 96) (drop 1 s))"
    using assms by (auto simp: inline_mark_def Let_def split: if_splits)
  then show ?thesis
  proof cases
    case strong
    then have "dropWhile (\<lambda>c. c \<noteq> 42) (drop 2 s) = [42, 42] @ r" by (metis append_take_drop_id)
    then show ?thesis using two [of "\<lambda>c. c \<noteq> 42"] strong(1,2) by simp
  next
    case code
    then have "hd (dropWhile (\<lambda>c. c \<noteq> 96) (drop 1 s)) = 96" using hd_dropWhile by blast
    then have "dropWhile (\<lambda>c. c \<noteq> 96) (drop 1 s) = 96 # r" using code(3,4) by (cases "dropWhile (\<lambda>c. c \<noteq> 96) (drop 1 s)") auto
    then show ?thesis using one [of "\<lambda>c. c \<noteq> 96"] code(1,2) by simp
  qed
qed

lemma inline_parts_text: "concat (map part_text (inline_parts pending s)) = pending @ s"
proof (induction pending s rule: inline_parts.induct)
  case (2 pending c s)
  show ?case
  proof (cases "inline_mark (c # s)")
    case (Some pr)
    obtain p r where pr: "pr = (p, r)" by fastforce
    have "concat (map part_text (inline_parts [] r)) = [] @ r" by (rule 2(2) [OF Some pr [symmetric]])
    then show ?thesis using Some pr inline_mark_text [of "c # s" p r] by (simp add: plain_part_def)
  next
    case None
    then show ?thesis using 2(1) by simp
  qed
qed (simp add: plain_part_def)

text \<open>
  Inline marks lose nothing: the parts of a line, written with their marks, spell the line again, for
  every text, whatever stray stars and backticks it holds.
\<close>

theorem inline_parts_restore: "concat (map part_text (splitInline t)) = t"
  using inline_parts_text [of "[]" t] by (simp add: splitInline_def Let_def)

subsection \<open>Blocks\<close>

fun well_formed :: "chat_block \<Rightarrow> bool" where
  "well_formed (Heading n t) = (1 \<le> n \<and> n \<le> 3 \<and> t \<noteq> [])"
| "well_formed (ItemList o' is') = (is' \<noteq> [] \<and> list_all (\<lambda>t. t \<noteq> []) is')"
| "well_formed (CodeBlock l t) = list_all fence_word l"
| "well_formed (Paragraph t) = (t \<noteq> [])"

definition md_ok :: "md_state \<Rightarrow> bool" where
  "md_ok s \<longleftrightarrow> list_all well_formed (mdBlocks s)
     \<and> (case mdList s of Some (o', is') \<Rightarrow> list_all (\<lambda>t. t \<noteq> []) is' | None \<Rightarrow> True)
     \<and> (case mdFence s of Some (l, c) \<Rightarrow> list_all fence_word l | None \<Rightarrow> True)"

lemma flushParagraph_ok: "md_ok s \<Longrightarrow> md_ok (flushParagraph s)"
  by (simp add: md_ok_def flushParagraph_def Let_def)

lemma flushList_ok: "md_ok s \<Longrightarrow> md_ok (flushList s)"
  by (auto simp: md_ok_def flushList_def split: option.splits list.splits)

lemma add_item_ok: "md_ok s \<Longrightarrow> t \<noteq> [] \<Longrightarrow> md_ok (add_item o' t s)"
  using flushParagraph_ok [of s] flushList_ok [of "flushParagraph s"]
  by (auto simp: add_item_def Let_def md_ok_def split: option.splits)

lemma fence_line_word: "fence_line t = Some l \<Longrightarrow> list_all fence_word l"
  by (auto simp: fence_line_def list_all_iff split: if_splits dest: set_takeWhileD)

text \<open>A trimmed line ends with a character that is not white space, and so does the rest of it.\<close>

lemma rest_of_trimmed:
  assumes "rest_of_line s = Some r" and "t = u_trim u" and "suffix s t"
  shows "u_trim r \<noteq> []"
proof -
  have r: "r = dropWhile md_blank s" "r \<noteq> []" using assms(1) by (auto simp: rest_of_line_def Let_def split: if_splits)
  have "suffix r s" unfolding r(1) by (rule suffix_dropWhile)
  then have "last r = last t" using assms(3) r(2) by (metis last_appendR suffixE suffix_order.order_trans)
  moreover have "\<not> u_space (last t)"
  proof -
    have "t \<noteq> []" using assms(3) \<open>suffix r s\<close> r(2) by (metis suffix_bot.extremum_uniqueI suffix_order.order_trans)
    then have "dropWhile u_space (rev (dropWhile u_space u)) \<noteq> []" using assms(2) by (simp add: u_trim_def)
    then have "\<not> u_space (hd (dropWhile u_space (rev (dropWhile u_space u))))" by (rule hd_dropWhile)
    then show ?thesis using assms(2) \<open>t \<noteq> []\<close> by (simp add: u_trim_def last_rev)
  qed
  ultimately have "\<not> u_space (last r)" by simp
  then have "\<exists>c \<in> set r. \<not> u_space c" using r(2) last_in_set by blast
  then have "dropWhile u_space r \<noteq> []" by (simp add: dropWhile_eq_Nil_conv)
  then have "\<exists>c \<in> set (dropWhile u_space r). \<not> u_space c" using hd_dropWhile [of u_space r] hd_in_set by blast
  then show ?thesis by (simp add: u_trim_def dropWhile_eq_Nil_conv)
qed

lemma md_text_line_ok:
  assumes "md_ok s"
  shows "md_ok (md_text_line line s)"
proof -
  let ?t = "u_trim line"
  have flushed: "md_ok (flushList (flushParagraph s))" by (intro flushList_ok flushParagraph_ok assms)
  have head: "u_trim r \<noteq> [] \<and> 1 \<le> n \<and> n \<le> 3" if "heading_line ?t = Some (n, r)" for n r
  proof -
    have "rest_of_line (dropWhile (\<lambda>c. c = 35) ?t) = Some r" "1 \<le> n" "n \<le> 3"
      using that by (auto simp: heading_line_def Let_def Suc_le_eq split: if_splits)
    then show ?thesis using rest_of_trimmed [OF _ refl suffix_dropWhile] by blast
  qed
  have bullet: "u_trim r \<noteq> []" if h: "unordered_line ?t = Some r" for r
  proof -
    obtain c s' where t: "?t = c # s'" using h by (cases ?t) (auto simp: unordered_line_def)
    then have "rest_of_line s' = Some r" using h by (auto simp: unordered_line_def split: if_splits)
    then show ?thesis using t rest_of_trimmed [of s' r ?t line] by (simp add: suffix_ConsI)
  qed
  have number: "u_trim r \<noteq> []" if h: "ordered_line ?t = Some r" for r
  proof -
    have "dropWhile md_digit ?t \<noteq> []"
    proof
      assume "dropWhile md_digit ?t = []"
      then have "ordered_line ?t = None" unfolding ordered_line_def by (simp only: list.case if_cancel)
      then show False using h by simp
    qed
    then obtain c s' where "dropWhile md_digit ?t = c # s'" by (metis neq_Nil_conv)
    moreover from this have "rest_of_line s' = Some r" using h by (auto simp: ordered_line_def split: if_splits)
    ultimately have d: "dropWhile md_digit ?t = c # s'" "rest_of_line s' = Some r" by blast+
    then have "suffix s' ?t" by (metis suffix_ConsD suffix_dropWhile)
    then show ?thesis using rest_of_trimmed [OF d(2) refl] by blast
  qed
  have "md_ok ((flushList s)\<lparr>mdParagraph := p\<rparr>)" for p
    using flushList_ok [OF assms] by (simp add: md_ok_def)
  moreover have "md_ok ((flushList (flushParagraph s))\<lparr>mdFence := Some (l, [])\<rparr>)" if "fence_line ?t = Some l" for l
    using flushed fence_line_word [OF that] by (simp add: md_ok_def)
  moreover have "md_ok ((flushList (flushParagraph s))\<lparr>mdBlocks := mdBlocks (flushList (flushParagraph s)) @ [Heading (min 3 n) (u_trim r)]\<rparr>)"
    if "heading_line ?t = Some (n, r)" for n r
    using flushed head [OF that] by (simp add: md_ok_def)
  moreover have "md_ok (add_item False (u_trim r) s)" if "unordered_line ?t = Some r" for r
    by (rule add_item_ok [OF assms bullet [OF that]])
  moreover have "md_ok (add_item True (u_trim r) s)" if "ordered_line ?t = Some r" for r
    by (rule add_item_ok [OF assms number [OF that]])
  ultimately show ?thesis
    using flushed by (auto simp: md_text_line_def Let_def split: option.split)
qed

lemma md_line_ok: "md_ok s \<Longrightarrow> md_ok (md_line line s)"
  using md_text_line_ok [of s line]
  by (auto simp: md_line_def md_ok_def split: option.splits)

lemma md_end_ok: "md_ok s \<Longrightarrow> md_ok (md_end s)"
proof -
  assume ok: "md_ok s"
  have "md_ok (case mdFence s of Some (lang, code) \<Rightarrow> s\<lparr>mdBlocks := mdBlocks s @ [CodeBlock lang (md_join [10] code)]\<rparr> | None \<Rightarrow> s)"
    using ok by (auto simp: md_ok_def split: option.splits)
  then show ?thesis unfolding md_end_def by (intro flushList_ok flushParagraph_ok)
qed

text \<open>
  Whatever a model writes, every block the chat shows is well formed: headings have one to three marks
  and a text, lists have items and no item is empty, no paragraph is empty.
\<close>

lemma blocks_well_formed: "list_all well_formed (parseChatMarkdown input)"
proof -
  have "md_ok s \<Longrightarrow> md_ok (fold md_line ls s)" for ls s
    by (induction ls arbitrary: s) (simp_all add: md_line_ok)
  moreover have "md_ok md_start" by (simp add: md_ok_def md_start_def)
  ultimately have "md_ok (md_end (fold md_line (md_lines (normalizeChatMarkdown input)) md_start))"
    by (simp add: md_end_ok)
  then show ?thesis by (simp add: parseChatMarkdown_def md_ok_def)
qed

subsection \<open>Text that is shown differently\<close>

text \<open>
  The line breaks are put in before the fences are read, so they also change code: a comment at the end of a
  line of Python becomes a line of its own, after an empty one.
\<close>

lemma code_comment_moved:
  "parseChatMarkdown (lit ''```py'' @ [10] @ lit ''x = 1 # one'' @ [10] @ lit ''```'')
   = [CodeBlock (lit ''py'') (lit ''x = 1'' @ [10, 10] @ lit ''# one'')]"
  by (simp add: parseChatMarkdown_def normalizeChatMarkdown_def lit_def heading_mark_def bullet_ahead_def strong_item_def
      md_blank_def u_trim_def u_space_def md_start_def md_line_def md_text_line_def md_end_def fence_line_def
      fence_word_def md_digit_def flushParagraph_def flushList_def Let_def)

text \<open>
  An opening fence is read from the trimmed line and a closing one is not: an indented block never ends, and the
  rest of the answer is shown as code.
\<close>

lemma indented_fence_never_closes:
  "parseChatMarkdown (lit ''a'' @ [10] @ lit ''  ```'' @ [10] @ lit ''  b'' @ [10] @ lit ''  ```'' @ [10] @ lit ''c'')
   = [Paragraph (lit ''a''), CodeBlock [] (lit ''  b'' @ [10] @ lit ''  ```'' @ [10] @ lit ''c'')]"
  by (simp add: parseChatMarkdown_def normalizeChatMarkdown_def lit_def heading_mark_def bullet_ahead_def strong_item_def
      md_blank_def u_trim_def u_space_def md_start_def md_line_def md_text_line_def md_end_def fence_line_def heading_line_def
      unordered_line_def ordered_line_def fence_word_def md_digit_def flushParagraph_def flushList_def Let_def)

end
