(* ===== verification/TrustProps.thy ===== *)
theory TrustProps
  imports CanonicalProps Trust
begin

text \<open>
  What a signature commits to, what a stored receipt guarantees under any interleaving of
  the calls that issue receipts, and what the verification route checks instead.
\<close>

subsection \<open>Signatures\<close>

lemma signPayload_Inr:
  "signPayload cr sg p = Inr z \<longleftrightarrow>
     (\<exists>t. canonicalStringify p = Inr t \<and>
          z = \<lparr>sigKeyId = keyId sg, signature = ed_sign cr (privateKey sg) t,
               payloadHash = sha256 cr t, algorithm = SIGNING_ALGORITHM\<rparr>)"
  by (auto simp: signPayload_def hashCanonicalPayload_def split: sum.splits)

lemma verifyPayload_true:
  "verifyPayload cr sg p z = Inr True \<longleftrightarrow>
     algorithm z = SIGNING_ALGORITHM \<and> sigKeyId z = keyId sg \<and>
     (\<exists>t. canonicalStringify p = Inr t \<and> payloadHash z = sha256 cr t \<and>
          ed_verify cr (publicKey sg) t (from_base64 cr (signature z)) = Some True)"
  by (auto simp: verifyPayload_def hashCanonicalPayload_def split: sum.splits option.splits if_splits)

text \<open>
  C7. A signature made for one payload is accepted for another only if both have the same
  canonical value, or their two canonical texts are a collision of SHA-256.
\<close>

theorem signature_binds_value:
  assumes "signPayload cr sg p = Inr z" and "verifyPayload cr sg p' z = Inr True"
  shows "\<exists>t t'. canonicalStringify p = Inr t \<and> canonicalStringify p' = Inr t' \<and>
           (canon p = canon p' \<or> t \<noteq> t' \<and> sha256 cr t = sha256 cr t')"
proof -
  from assms obtain t t' where t: "canonicalStringify p = Inr t" "canonicalStringify p' = Inr t'"
    and "sha256 cr t = sha256 cr t'"
    unfolding signPayload_Inr verifyPayload_true by auto
  with canonical_text_determines [OF t] show ?thesis by blast
qed

definition demo_crypto :: "string crypto" where
  "demo_crypto = \<lparr>sha256 = (\<lambda>t. t), ed_sign = (\<lambda>k t. k @ t),
     ed_verify = (\<lambda>k t b. Some (b = k @ t)), from_base64 = (\<lambda>s. s)\<rparr>"

definition demo_signer :: signer where
  "demo_signer = \<lparr>privateKey = ''K'', publicKey = ''K'', keyId = ''K''\<rparr>"

theorem signature_binds_value_witness:
  "\<exists>t t'. canonicalStringify (JObj [(''a'', JNum 1)]) = Inr t \<and>
     canonicalStringify (JObj [(''b'', JUndef), (''a'', JNum 1)]) = Inr t' \<and>
     (canon (JObj [(''a'', JNum 1)]) = canon (JObj [(''b'', JUndef), (''a'', JNum 1)]) \<or>
      t \<noteq> t' \<and> sha256 demo_crypto t = sha256 demo_crypto t')"
proof -
  let ?p = "JObj [(''a'', JNum 1)]" and ?q = "JObj [(''b'', JUndef), (''a'', JNum 1)]"
  obtain z where z: "signPayload demo_crypto demo_signer ?p = Inr z"
    and "verifyPayload demo_crypto demo_signer ?q z = Inr True"
  proof -
    have "\<not> isl (signPayload demo_crypto demo_signer ?p)" by code_simp
    moreover have "verifyPayload demo_crypto demo_signer ?q (projr (signPayload demo_crypto demo_signer ?p)) = Inr True"
      by code_simp
    ultimately show thesis
      using that by (cases "signPayload demo_crypto demo_signer ?p") auto
  qed
  from signature_binds_value [OF this] show ?thesis .
qed

subsection \<open>The key files\<close>

text \<open>A private key whose public half is missing is replaced by a new pair.\<close>

lemma lost_public_key_replaces_private:
  assumes "privatePath fs = Content k" and "publicPath fs = NoEntry"
  shows "openSigner sha fresh fs =
     Inr (signer_of sha fresh, \<lparr>privatePath = Content (fst fresh), publicPath = Content (snd fresh)\<rparr>)"
  using assms by (simp add: openSigner_def read_keys_def)

lemma reopened_signer:
  assumes "openSigner sha fresh fs = Inr (sg, fs')"
  shows "openSigner sha fresh' fs' = Inr (sg, fs')"
  using assms
  by (auto simp: openSigner_def read_keys_def signer_of_def split: sum.splits option.splits file_read.splits)

subsection \<open>Replays\<close>

lemma observe_replays:
  "observe xs seen = map (\<lambda>i. xs ! i \<in> set seen \<union> set (take i xs)) [0..<length xs]"
proof (induction xs arbitrary: seen)
  case (Cons x xs)
  have "observe (x # xs) seen = (x \<in> set seen) # observe xs (if x \<in> set seen then seen else seen @ [x])"
    by (simp add: isReplay_def)
  also have "observe xs (if x \<in> set seen then seen else seen @ [x])
      = map (\<lambda>i. xs ! i \<in> insert x (set seen) \<union> set (take i xs)) [0..<length xs]"
    by (subst Cons.IH) auto
  finally show ?case
    by (auto simp: map_upt_Suc simp del: upt_Suc observe.simps)
qed simp

subsection \<open>The value of a receipt\<close>

definition receipt_value :: "(int \<Rightarrow> string) \<Rightarrow> receipt_request \<Rightarrow> string option \<Rightarrow> int \<Rightarrow> json" where
  "receipt_value isoTime q ev ms =
     JObj [(''apiKeyId'', JStr (rqApiKeyId q)),
           (''completionTokens'', JNum (rqCompletion q)),
           (''costMicros'', JStr (show_int (rqCostMicros q))),
           (''customerId'', JStr (rqCustomerId q)),
           (''finishReason'', json_opt (rqFinish q)),
           (''issuedAt'', JStr (isoTime ms)),
           (''promptTokens'', JNum (rqPrompt q)),
           (''requestId'', JStr (rqId q)),
           (''requestedModel'', JStr (rqRequestedSlug q)),
           (''resolvedModel'', json_opt (rqResolvedSlug q)),
           (''status'', JStr (rqStatus q)),
           (''usageEventId'', json_opt ev),
           (''version'', JNum 1)]"

lemma json_opt_canon [simp]: "canon (json_opt x) = Some (json_opt x)" "plain (json_opt x)" "tidy (json_opt x)"
  "serialize (json_opt x) = Inr (Some (json_text (json_opt x)))"
  by (simp_all add: json_opt_def split: option.splits)

lemma json_opt_stable [simp]: "stableStringify (json_opt x) = json_text (json_opt x)"
  by (simp add: json_opt_def split: option.splits)

lemma canon_receipt: "canon (receipt_payload isoTime q ev ms) = Some (receipt_value isoTime q ev ms)"
  by (simp add: receipt_payload_def receipt_value_def sort_fields_def List.map_filter_simps
      less_eq_char_def)

lemma receipt_value_tidy: "tidy (receipt_value isoTime q ev ms)"
  by (simp add: receipt_value_def less_eq_char_def)

lemma receipt_text:
  "canonicalStringify (receipt_payload isoTime q ev ms) = Inr (json_text (receipt_value isoTime q ev ms))"
proof -
  have "serialize (receipt_payload isoTime q ev ms)
      = Inr (Some (json_text (receipt_value isoTime q ev ms)))"
    by (simp add: receipt_payload_def receipt_value_def sort_fields_def less_eq_char_def)
  then show ?thesis by (simp add: canonicalStringify_def)
qed

definition locale_value :: "(int \<Rightarrow> string) \<Rightarrow> receipt_request \<Rightarrow> string option \<Rightarrow> int \<Rightarrow> json" where
  "locale_value isoTime q ev ms =
     JObj [(''apiKeyId'', JStr (rqApiKeyId q)),
           (''completionTokens'', JNum (rqCompletion q)),
           (''costMicros'', JStr (show_int (rqCostMicros q))),
           (''customerId'', JStr (rqCustomerId q)),
           (''finishReason'', json_opt (rqFinish q)),
           (''issuedAt'', JStr (isoTime ms)),
           (''promptTokens'', JNum (rqPrompt q)),
           (''requestedModel'', JStr (rqRequestedSlug q)),
           (''requestId'', JStr (rqId q)),
           (''resolvedModel'', json_opt (rqResolvedSlug q)),
           (''status'', JStr (rqStatus q)),
           (''usageEventId'', json_opt ev),
           (''version'', JNum 1)]"

lemma sort_entries_receipt:
  "sort_entries [(''apiKeyId'', a), (''completionTokens'', b), (''costMicros'', c), (''customerId'', d),
     (''finishReason'', e), (''issuedAt'', f), (''promptTokens'', g), (''requestId'', h),
     (''requestedModel'', i), (''resolvedModel'', j), (''status'', k), (''usageEventId'', l), (''version'', m)]
   = [(''apiKeyId'', a), (''completionTokens'', b), (''costMicros'', c), (''customerId'', d),
     (''finishReason'', e), (''issuedAt'', f), (''promptTokens'', g), (''requestedModel'', i),
     (''requestId'', h), (''resolvedModel'', j), (''status'', k), (''usageEventId'', l), (''version'', m)]"
  by (simp add: sort_entries_def js_sort_def localeCompare_def lower_char_def is_upper_def chr_code_def)

lemma stable_receipt:
  "stableStringify (receipt_value isoTime q ev ms) = json_text (locale_value isoTime q ev ms)"
  by (simp add: receipt_value_def locale_value_def set_field_def sort_entries_receipt)

lemma locale_value_plain: "plain (locale_value isoTime q ev ms)"
  by (simp add: locale_value_def)

lemma stable_receipt_differs:
  "stableStringify (receipt_value isoTime q ev ms) \<noteq> json_text (receipt_value isoTime q ev ms)"
proof
  assume "stableStringify (receipt_value isoTime q ev ms) = json_text (receipt_value isoTime q ev ms)"
  then have "locale_value isoTime q ev ms = receipt_value isoTime q ev ms"
    unfolding stable_receipt
    by (intro json_text_inj locale_value_plain tidy_plain(1) receipt_value_tidy)
  then show False by (simp add: locale_value_def receipt_value_def)
qed

subsection \<open>Receipts under interleaving\<close>

definition genuine :: "'b crypto \<Rightarrow> signer \<Rightarrow> (int \<Rightarrow> string) \<Rightarrow> usage_receipt \<Rightarrow> bool" where
  "genuine cr sg isoTime r \<longleftrightarrow> (\<exists>c. receipt_row cr sg isoTime c = Inr r)"

definition receipt_inv :: "'b crypto \<Rightarrow> signer \<Rightarrow> (int \<Rightarrow> string) \<Rightarrow> receipt_world \<Rightarrow> bool" where
  "receipt_inv cr sg isoTime w \<longleftrightarrow>
     distinct (map rcRequestId (receipts (rwDb w))) \<and>
     distinct (filter (\<lambda>e. e \<noteq> None) (map rcUsageEventId (receipts (rwDb w)))) \<and>
     (\<forall>r \<in> set (receipts (rwDb w)). genuine cr sg isoTime r) \<and>
     (\<forall>k \<in> set (signingKeys (rwDb w)). skKeyId k = keyId sg \<longrightarrow> skPublicKey k = publicKey sg) \<and>
     (keyId sg \<in> skKeyId ` set (signingKeys (rwDb w)) \<or>
        receipts (rwDb w) = [] \<and> (\<forall>c \<in> set (rwCalls w). rlPhase c \<noteq> KeyReady))"

definition no_receipts :: receipt_world where
  "no_receipts = \<lparr>rwDb = \<lparr>signingKeys = [], receipts = [], receiptLinks = []\<rparr>, rwCalls = []\<rparr>"

lemma ensure_frame [simp]:
  "receipts (ensureSigningKey sg dir now db) = receipts db"
  by (simp add: ensureSigningKey_def split: option.splits)

lemma ensure_keys:
  assumes "\<forall>k \<in> set (signingKeys db). skKeyId k = keyId sg \<longrightarrow> skPublicKey k = publicKey sg"
  shows "\<forall>k \<in> set (signingKeys (ensureSigningKey sg dir now db)). skKeyId k = keyId sg \<longrightarrow> skPublicKey k = publicKey sg"
    and "keyId sg \<in> skKeyId ` set (signingKeys (ensureSigningKey sg dir now db))"
proof -
  show "\<forall>k \<in> set (signingKeys (ensureSigningKey sg dir now db)). skKeyId k = keyId sg \<longrightarrow> skPublicKey k = publicKey sg"
    using assms by (auto simp: ensureSigningKey_def split: option.splits)
  show "keyId sg \<in> skKeyId ` set (signingKeys (ensureSigningKey sg dir now db))"
  proof (cases "table_find skKeyId (keyId sg) (signingKeys db)")
    case None
    then show ?thesis by (simp add: ensureSigningKey_def)
  next
    case (Some k)
    then have "k \<in> set (signingKeys db)" "skKeyId k = keyId sg" by (auto dest: table_find_some_in)
    with Some have "k\<lparr>skActive := True, skRevokedAt := None\<rparr> \<in> set (signingKeys (ensureSigningKey sg dir now db))"
      by (force simp: ensureSigningKey_def)
    from imageI [OF this, of skKeyId] \<open>skKeyId k = keyId sg\<close> show ?thesis by simp
  qed
qed

lemma receipt_create_Inr:
  "receipt_create r db = Inr db' \<longleftrightarrow>
     \<not> receipt_taken r db \<and>
     db' = db\<lparr>receipts := receipts db @ [r], receiptLinks := (rcRequestId r, length (receipts db)) # receiptLinks db\<rparr>"
  by (auto simp: receipt_create_def)

lemma receipt_inv_keys:
  assumes "receipt_inv cr sg isoTime w"
    and "receipts (rwDb w') = receipts (rwDb w)"
    and "\<forall>k \<in> set (signingKeys (rwDb w')). skKeyId k = keyId sg \<longrightarrow> skPublicKey k = publicKey sg"
    and "keyId sg \<in> skKeyId ` set (signingKeys (rwDb w'))"
  shows "receipt_inv cr sg isoTime w'"
  using assms by (simp add: receipt_inv_def)

lemma receipt_inv_calls:
  assumes "receipt_inv cr sg isoTime w"
    and "rwDb w' = rwDb w"
    and "\<forall>c \<in> set (rwCalls w'). rlPhase c = KeyReady \<longrightarrow> c \<in> set (rwCalls w)"
  shows "receipt_inv cr sg isoTime w'"
  using assms by (auto simp: receipt_inv_def)

lemma receipt_inv_write:
  assumes inv: "receipt_inv cr sg isoTime w" and row: "genuine cr sg isoTime r"
    and new: "receipt_create r (rwDb w) = Inr db" and key: "keyId sg \<in> skKeyId ` set (signingKeys (rwDb w))"
  shows "receipt_inv cr sg isoTime (w\<lparr>rwCalls := cs, rwDb := db\<rparr>)"
  using inv row new key
  by (auto simp: receipt_inv_def receipt_create_Inr receipt_taken_def)

lemma receipt_row_Inr:
  "receipt_row cr sg isoTime c = Inr r \<longleftrightarrow>
     r = (let t = json_text (receipt_value isoTime (rlRequest c) (rlEvent c) (rlIssuedAt c)) in
          \<lparr>rcRequestId = rqId (rlRequest c), rcUsageEventId = rlEvent c, rcCanonical = t,
           rcHash = sha256 cr t, rcSignature = ed_sign cr (privateKey sg) t,
           rcAlgorithm = SIGNING_ALGORITHM, rcKeyId = keyId sg, rcPrevious = rlPrevious c,
           rcIssuedAt = rlIssuedAt c\<rparr>)"
  by (auto simp: receipt_row_def signPayload_def hashCanonicalPayload_def receipt_text Let_def)

lemma receipt_inv_step:
  assumes inv: "receipt_inv cr sg isoTime w"
  shows "receipt_inv cr sg isoTime (receipt_step cr sg dir isoTime op w)"
proof (cases op)
  case (ReadPrevious q ev now)
  then show ?thesis
    using inv by (auto simp: receipt_step_def receipt_read_def split: sum.splits option.splits
        intro!: receipt_inv_calls [OF inv])
next
  case (EnsureKey i now)
  have "\<forall>k \<in> set (signingKeys (rwDb w)). skKeyId k = keyId sg \<longrightarrow> skPublicKey k = publicKey sg"
    using inv by (simp add: receipt_inv_def)
  from ensure_keys [OF this] EnsureKey show ?thesis
    using inv by (auto simp: receipt_step_def intro!: receipt_inv_keys [OF inv])
next
  case (WriteReceipt i)
  show ?thesis
  proof (cases "length (rwCalls w) \<le> i \<or> rlPhase (rwCalls w ! i) \<noteq> KeyReady")
    case True
    then show ?thesis using inv WriteReceipt by (auto simp: receipt_step_def)
  next
    case False
    then have key: "keyId sg \<in> skKeyId ` set (signingKeys (rwDb w))"
      using inv by (auto simp: receipt_inv_def)
    have phases: "\<forall>c \<in> set ((rwCalls w)[i := (rwCalls w ! i)\<lparr>rlPhase := Finished\<rparr>]).
        rlPhase c = KeyReady \<longrightarrow> c \<in> set (rwCalls w)"
      using set_update_subset_insert [of "rwCalls w" i] by fastforce
    obtain r where r: "receipt_row cr sg isoTime (rwCalls w ! i) = Inr r"
      using receipt_row_Inr by blast
    show ?thesis
    proof (cases "receipt_create r (rwDb w)")
      case (Inl e)
      then show ?thesis using False WriteReceipt phases r
        by (intro receipt_inv_calls [OF inv]) (simp_all add: receipt_step_def Let_def)
    next
      case (Inr db)
      have "genuine cr sg isoTime r" using r by (auto simp: genuine_def)
      from receipt_inv_write [OF inv this Inr key] show ?thesis
        using False WriteReceipt r Inr by (simp add: receipt_step_def Let_def)
    qed
  qed
next
  case (RevokeKey k now)
  define f :: "signing_key \<Rightarrow> signing_key" where "f = (\<lambda>r. if skKeyId r = k then r\<lparr>skActive := False, skRevokedAt := Some now\<rparr> else r)"
  have f: "skKeyId (f x) = skKeyId x" "skPublicKey (f x) = skPublicKey x" for x by (simp_all add: f_def)
  have "receipt_step cr sg dir isoTime op w
      = w\<lparr>rwDb := (rwDb w)\<lparr>signingKeys := map f (signingKeys (rwDb w))\<rparr>\<rparr>"
    by (simp add: RevokeKey receipt_step_def f_def)
  then show ?thesis using inv by (simp add: receipt_inv_def image_image f)
qed

lemma receipt_inv_init: "receipt_inv cr sg isoTime no_receipts"
  by (simp add: receipt_inv_def no_receipts_def)

interpretation receipts_sys: invariant_system
  "receipt_step cr sg dir isoTime" "receipt_inv cr sg isoTime" no_receipts
  for cr :: "'b crypto" and sg dir isoTime
  by unfold_locales (rule receipt_inv_init, rule receipt_inv_step)

lemma genuine_text:
  assumes "genuine cr sg isoTime r"
  shows "\<exists>q ev ms. rcCanonical r = json_text (receipt_value isoTime q ev ms) \<and>
     rcHash r = sha256 cr (rcCanonical r) \<and> rcSignature r = ed_sign cr (privateKey sg) (rcCanonical r) \<and>
     rcAlgorithm r = SIGNING_ALGORITHM \<and> rcKeyId r = keyId sg"
  using assms by (fastforce simp: genuine_def receipt_row_Inr Let_def)

lemma genuine_verifies:
  assumes "\<And>t. ed_verify cr (publicKey sg) t (from_base64 cr (ed_sign cr (privateKey sg) t)) = Some True"
    and "genuine cr sg isoTime r"
  shows "\<exists>v. parse_json (rcCanonical r) = Some v \<and>
     verifyPayload cr sg v \<lparr>sigKeyId = rcKeyId r, signature = rcSignature r,
        payloadHash = rcHash r, algorithm = rcAlgorithm r\<rparr> = Inr True"
proof -
  obtain q ev ms where r: "rcCanonical r = json_text (receipt_value isoTime q ev ms)"
    "rcHash r = sha256 cr (rcCanonical r)" "rcSignature r = ed_sign cr (privateKey sg) (rcCanonical r)"
    "rcAlgorithm r = SIGNING_ALGORITHM" "rcKeyId r = keyId sg"
    using genuine_text [OF assms(2)] by blast
  let ?v = "receipt_value isoTime q ev ms"
  have "parse_json (rcCanonical r) = Some ?v"
    unfolding r(1) by (intro parse_text tidy_plain(1) receipt_value_tidy)
  moreover have "canonicalStringify ?v = Inr (rcCanonical r)"
    unfolding r(1) by (intro stringify_tidy receipt_value_tidy)
  ultimately show ?thesis
    using assms(1) by (auto simp: verifyPayload_true r(2-5))
qed


definition demo_receipt_request :: receipt_request where
  "demo_receipt_request = \<lparr>rqId = ''r1'', rqCustomerId = ''c1'', rqApiKeyId = ''k1'',
     rqRequestedSlug = ''auto'', rqResolvedSlug = Some ''qwen'', rqPrompt = 3, rqCompletion = 5,
     rqCostMicros = 8, rqFinish = Some ''stop'', rqStatus = ''SUCCEEDED''\<rparr>"

definition demo_receipt_ops :: "receipt_op list" where
  "demo_receipt_ops = [ReadPrevious demo_receipt_request None 1, EnsureKey 0 1, WriteReceipt 0]"


subsection \<open>The chain of receipts\<close>

definition chained :: "usage_receipt list \<Rightarrow> bool" where
  "chained rs \<longleftrightarrow> (\<forall>i < length rs. rcPrevious (rs ! i) = (if i = 0 then None else Some (rcHash (rs ! (i - 1)))))"

lemma latest_increasing:
  "sorted_wrt (<) (map rcIssuedAt rs) \<Longrightarrow> latest rs = (if rs = [] then None else Some (last rs))"
  by (induction rs) auto

text \<open>Calls that do not overlap, at increasing times, form one chain.\<close>

lemma sequential_chain:
  assumes "issueUsageReceipt cr sg dir isoTime q ev now db = (Inr r, db')"
    and "chained (receipts db)" and "sorted_wrt (<) (map rcIssuedAt (receipts db))"
    and "\<forall>x \<in> set (receipts db). rcIssuedAt x < now"
  shows "chained (receipts db') \<and> sorted_wrt (<) (map rcIssuedAt (receipts db'))"
proof (cases "find (\<lambda>r. rcRequestId r = rqId q) (receipts db)")
  case (Some x)
  then show ?thesis using assms by (auto simp: issueUsageReceipt_def receipt_read_def)
next
  case None
  with assms(1) have "receipts db' = receipts db @ [r]"
    and r: "rcPrevious r = map_option rcHash (latest (receipts db))" "rcIssuedAt r = now"
    by (auto simp: issueUsageReceipt_def receipt_read_def receipt_row_Inr Let_def receipt_create_Inr
        split: sum.splits)
  then show ?thesis
    using assms(2-4)
    by (auto simp: chained_def nth_append latest_increasing last_conv_nth sorted_wrt_append less_Suc_eq)
qed

text \<open>
  Two calls that overlap take the same predecessor, so the chain forks.
\<close>

lemma concurrent_receipts_fork:
  assumes "rqId a \<noteq> rqId b"
  shows "map rcPrevious (receipts (rwDb (fold (receipt_step cr sg dir isoTime)
       [ReadPrevious a None 1, ReadPrevious b None 2, EnsureKey 0 1, EnsureKey 1 2,
        WriteReceipt 0, WriteReceipt 1] no_receipts))) = [None, None]"
  using assms
  by (simp add: receipt_step_def receipt_read_def no_receipts_def receipt_row_Inr Let_def
      receipt_row_def signPayload_def hashCanonicalPayload_def receipt_text receipt_create_def receipt_taken_def)

text \<open>The next receipt puts a revoked key back into service.\<close>

lemma receipt_revives_revoked_key:
  assumes "table_find skKeyId (keyId sg) (signingKeys db) = Some k"
  shows "\<exists>k'. table_find skKeyId (keyId sg) (signingKeys (ensureSigningKey sg dir now db)) = Some k' \<and>
     skActive k' \<and> skRevokedAt k' = None"
proof -
  have "table_find skKeyId (keyId sg) (map (\<lambda>k. if skKeyId k = keyId sg
      then k\<lparr>skActive := True, skRevokedAt := None\<rparr> else k) ks)
    = map_option (\<lambda>k. k\<lparr>skActive := True, skRevokedAt := None\<rparr>) (table_find skKeyId (keyId sg) ks)" for ks
    by (induction ks) (auto simp: table_find_def)
  from this [of "signingKeys db"] assms show ?thesis
    by (intro exI [of _ "k\<lparr>skActive := True, skRevokedAt := None\<rparr>"]) (simp add: ensureSigningKey_def)
qed

subsection \<open>The verification route\<close>

lemma js_trim_brace: "starts_with ''{'' (js_trim (CHR ''{'' # s))"
proof -
  have b: "\<not> is_space CHR ''{''" by (simp add: is_space_def chr_code_def)
  have "\<exists>ys. dropWhile is_space (xs @ [CHR ''{'']) = ys @ [CHR ''{'']" for xs
    by (induction xs) (auto simp: b)
  then obtain ys where "dropWhile is_space (rev s @ [CHR ''{'']) = ys @ [CHR ''{'']" by blast
  then show ?thesis by (simp add: js_trim_def trim_start_def trim_end_def b)
qed

lemma verified_text_receipt:
  "verified_text (json_text (receipt_value isoTime q ev ms)) = Some (stableStringify (receipt_value isoTime q ev ms))"
proof -
  have "parse_json (json_text (receipt_value isoTime q ev ms)) = Some (receipt_value isoTime q ev ms)"
    by (intro parse_text tidy_plain(1) receipt_value_tidy)
  moreover obtain s where "json_text (receipt_value isoTime q ev ms) = CHR ''{'' # s"
    by (simp add: receipt_value_def)
  ultimately show ?thesis using js_trim_brace by (simp add: verified_text_def)
qed

lemma genuine_other_text:
  assumes "genuine cr sg isoTime r"
  shows "\<exists>t. verified_text (rcCanonical r) = Some t \<and> t \<noteq> rcCanonical r"
  using genuine_text [OF assms] verified_text_receipt stable_receipt_differs by metis

text \<open>
  The public verification route never confirms a receipt. It sorts the keys of the payload
  again, by locale instead of by code unit, so \<^verbatim>\<open>requestedModel\<close> moves before \<^verbatim>\<open>requestId\<close> and the
  text it checks is not the text that was signed; whoever verifies only signed texts answers
  that the signature is invalid.
\<close>

theorem public_route_rejects_receipts:
  assumes "\<And>t. ed_verify cr (publicKey sg) t (from_base64 cr (url_to_standard (rcSignature r)))
      = Some (t = rcCanonical r)"
    and "r \<in> set (receipts (rwDb (fold (receipt_step cr sg dir isoTime) ops no_receipts)))"
    and "db = rwDb (fold (receipt_step cr sg dir isoTime) ops no_receipts)"
  shows "verifyReceipt cr db (Some (rcCanonical r)) (Some (rcSignature r)) (Some (rcKeyId r)) \<noteq> Verified True h a"
proof -
  let ?w = "fold (receipt_step cr sg dir isoTime) ops no_receipts"
  have inv: "receipt_inv cr sg isoTime ?w" by (rule receipts_sys.reachable_inv)
  then have g: "genuine cr sg isoTime r" using assms(2) by (simp add: receipt_inv_def)
  obtain t where t: "verified_text (rcCanonical r) = Some t" "t \<noteq> rcCanonical r"
    using genuine_other_text [OF g] by blast
  have s: "rcKeyId r = keyId sg" using genuine_text [OF g] by blast
  have "skPublicKey k = publicKey sg" if "table_find skKeyId (keyId sg) (signingKeys db) = Some k" for k
    using table_find_some_in [OF that] inv assms(3) by (simp add: receipt_inv_def)
  moreover have "ed_verify cr (publicKey sg) t (from_base64 cr (url_to_standard (rcSignature r))) = Some False"
    using assms(1) [of t] t(2) by simp
  ultimately show ?thesis
    using t(1) s by (auto simp: verifyReceipt_def present_text_def split: option.splits list.splits)
qed

definition demo_receipt_text :: string where
  "demo_receipt_text = json_text (receipt_value show_int demo_receipt_request None 1)"

definition strict_crypto :: "string crypto" where
  "strict_crypto = \<lparr>sha256 = (\<lambda>t. t), ed_sign = (\<lambda>k t. ''S''),
     ed_verify = (\<lambda>k t b. Some (t = demo_receipt_text)), from_base64 = (\<lambda>s. s)\<rparr>"

definition demo_row :: usage_receipt where
  "demo_row = \<lparr>rcRequestId = ''r1'', rcUsageEventId = None, rcCanonical = demo_receipt_text,
     rcHash = demo_receipt_text, rcSignature = ''S'', rcAlgorithm = SIGNING_ALGORITHM, rcKeyId = ''K'',
     rcPrevious = None, rcIssuedAt = 1\<rparr>"

lemma demo_run:
  "receipts (rwDb (fold (receipt_step strict_crypto demo_signer ''dir'' show_int) demo_receipt_ops no_receipts)) = [demo_row]"
  by (simp add: demo_receipt_ops_def no_receipts_def receipt_step_def receipt_read_def receipt_row_def
      signPayload_def hashCanonicalPayload_def receipt_text receipt_create_def receipt_taken_def Let_def
      demo_row_def demo_receipt_text_def strict_crypto_def demo_signer_def demo_receipt_request_def)

theorem public_route_rejects_receipts_witness:
  "verifyReceipt strict_crypto
     (rwDb (fold (receipt_step strict_crypto demo_signer ''dir'' show_int) demo_receipt_ops no_receipts))
     (Some demo_receipt_text) (Some ''S'') (Some ''K'') \<noteq> Verified True demo_receipt_text SIGNING_ALGORITHM"
proof -
  have "verifyReceipt strict_crypto
     (rwDb (fold (receipt_step strict_crypto demo_signer ''dir'' show_int) demo_receipt_ops no_receipts))
     (Some (rcCanonical demo_row)) (Some (rcSignature demo_row)) (Some (rcKeyId demo_row))
       \<noteq> Verified True demo_receipt_text SIGNING_ALGORITHM"
    by (rule public_route_rejects_receipts) (simp_all add: demo_run, simp add: strict_crypto_def demo_row_def)
  then show ?thesis by (simp add: demo_row_def)
qed

end
