(* ===== verification/CoreTraceProps.thy ===== *)
theory CoreTraceProps
  imports CoreTrace "HOL-Library.Multiset"
begin

text \<open>
  A capture belongs to one request and its events are numbered without repetition, whatever
  the interleaving; a capture that was cancelled at the wrong moment is completed all the same.
\<close>

definition owners :: "trace_world \<Rightarrow> string list" where
  "owners w = map reTrace (recorders w) @ map (fst \<circ> snd) (filter (snd \<circ> snd) (claims w))"

definition one_capture_each :: "trace_session list \<Rightarrow> bool" where
  "one_capture_each ss \<longleftrightarrow>
     (\<forall>s \<in> set ss. \<forall>s' \<in> set ss. tsRequest s = tsRequest s' \<and> tsRequest s \<noteq> None \<longrightarrow> s = s')"

definition sessions_ok :: "trace_session list \<Rightarrow> bool" where
  "sessions_ok ss \<longleftrightarrow> distinct (map tsId ss) \<and> one_capture_each ss \<and>
     (\<forall>s \<in> set ss. tsStatus s = TS_ARMED \<longrightarrow> tsRequest s = None)"

definition claimed_ids :: "trace_session list \<Rightarrow> string set" where
  "claimed_ids ss = tsId ` {s \<in> set ss. tsRequest s \<noteq> None}"

definition events_ok :: "trace_recorder list \<Rightarrow> trace_event list \<Rightarrow> bool" where
  "events_ok rs es \<longleftrightarrow> distinct (map (\<lambda>e. (teTrace e, teSequence e)) es) \<and>
     (\<forall>e \<in> set es. \<exists>r \<in> set rs. reTrace r = teTrace e \<and> 1 \<le> teSequence e \<and> teSequence e \<le> reSequence r)"

definition trace_inv :: "trace_world \<Rightarrow> bool" where
  "trace_inv w \<longleftrightarrow> sessions_ok (sessions w) \<and> distinct (owners w) \<and>
     set (owners w) \<subseteq> claimed_ids (sessions w) \<and> events_ok (recorders w) (traceEvents w) \<and>
     (\<forall>(i, st) \<in> set (closings w). i < length (recorders w) \<and> st \<noteq> TS_ARMED)"

lemma one_captureD:
  "one_capture_each ss \<Longrightarrow> s \<in> set ss \<Longrightarrow> s' \<in> set ss \<Longrightarrow> tsRequest s = tsRequest s' \<Longrightarrow>
     tsRequest s \<noteq> None \<Longrightarrow> s = s'"
  unfolding one_capture_each_def by blast

lemma trace_inv_init: "trace_inv trace_init"
  by (simp add: trace_inv_def trace_init_def sessions_ok_def one_capture_each_def owners_def events_ok_def)

subsection \<open>Updates of sessions\<close>

definition harmless :: "(trace_session \<Rightarrow> trace_session) \<Rightarrow> bool" where
  "harmless f \<longleftrightarrow> (\<forall>s. tsId (f s) = tsId s \<and> tsRequest (f s) = tsRequest s \<and>
     (tsStatus (f s) = TS_ARMED \<longrightarrow> tsStatus s = TS_ARMED))"

lemma harmless_map:
  assumes "harmless f"
  shows "sessions_ok ss \<Longrightarrow> sessions_ok (map f ss)" and "claimed_ids (map f ss) = claimed_ids ss"
proof -
  have f: "tsId (f s) = tsId s" "tsRequest (f s) = tsRequest s" for s
    using assms by (auto simp: harmless_def)
  have m: "map (tsId \<circ> f) ss = map tsId ss" by (simp add: f)
  show "sessions_ok (map f ss)" if ok: "sessions_ok ss"
    unfolding sessions_ok_def one_capture_each_def
  proof (intro conjI ballI impI)
    show "distinct (map tsId (map f ss))" using ok by (simp add: sessions_ok_def m)
  next
    fix a b
    assume ab: "a \<in> set (map f ss)" "b \<in> set (map f ss)"
      and eq: "tsRequest a = tsRequest b \<and> tsRequest a \<noteq> None"
    obtain x where x: "x \<in> set ss" "a = f x" using ab(1) by auto
    obtain y where y: "y \<in> set ss" "b = f y" using ab(2) by auto
    have "one_capture_each ss" using ok by (simp add: sessions_ok_def)
    then have "x = y" using eq x y f(2) one_captureD [of ss x y] by metis
    then show "a = b" using x y by simp
  next
    fix a assume "a \<in> set (map f ss)" "tsStatus a = TS_ARMED"
    then show "tsRequest a = None" using ok assms by (auto simp: f sessions_ok_def harmless_def)
  qed
  have "{s \<in> set (map f ss). tsRequest s \<noteq> None} = f ` {s \<in> set ss. tsRequest s \<noteq> None}"
    by (auto simp: f)
  then show "claimed_ids (map f ss) = claimed_ids ss"
    by (simp add: claimed_ids_def image_image f)
qed

lemma update_harmless:
  assumes "trace_inv w" and "harmless (\<lambda>s. if P s then f s else s)"
  shows "trace_inv (update_sessions P f w)"
  using assms(1) harmless_map [OF assms(2)]
  by (auto simp: trace_inv_def update_sessions_def owners_def)

lemma trace_inv_fields [simp]:
  "trace_inv (w\<lparr>armedByCustomer := m\<rparr>) = trace_inv w"
  "trace_inv (w\<lparr>cancelling := xs\<rparr>) = trace_inv w"
  by (simp_all add: trace_inv_def owners_def)

lemma sessions_ok_append:
  assumes "sessions_ok ss" and "tsId s \<notin> tsId ` set ss" and "tsRequest s = None"
  shows "sessions_ok (ss @ [s])"
proof -
  have "one_capture_each (ss @ [s])"
    using assms unfolding sessions_ok_def one_capture_each_def
    by (metis Un_iff empty_iff insert_iff list.set set_append)
  then show ?thesis using assms by (auto simp: sessions_ok_def)
qed

lemma claimed_append: "tsRequest s = None \<Longrightarrow> claimed_ids (ss @ [s]) = claimed_ids ss"
  by (auto simp: claimed_ids_def)

lemma create_inv: "t \<notin> tsId ` set (sessions w) \<Longrightarrow> trace_inv w \<Longrightarrow> trace_inv (create_session t c now w)"
  by (simp add: trace_inv_def create_session_def sessions_ok_append claimed_append owners_def)

lemma disarm_fields [simp]:
  "sessions (disarmCoreTrace c t w) = sessions w" "recorders (disarmCoreTrace c t w) = recorders w"
  "claims (disarmCoreTrace c t w) = claims w" "traceEvents (disarmCoreTrace c t w) = traceEvents w"
  "closings (disarmCoreTrace c t w) = closings w"
  by (simp_all add: disarmCoreTrace_def)

subsection \<open>Claims\<close>

lemma claim_rows:
  assumes ok: "sessions_ok ss" and new: "Some r \<notin> tsRequest ` set ss"
    and P: "\<And>s. P s \<Longrightarrow> tsId s = t \<and> tsStatus s = TS_ARMED"
    and f: "\<And>s. tsId (f s) = tsId s" "\<And>s. tsRequest (f s) = (if P s then Some r else tsRequest s)"
      "\<And>s. P s \<Longrightarrow> tsStatus (f s) \<noteq> TS_ARMED" "\<And>s. \<not> P s \<Longrightarrow> f s = s"
  shows "sessions_ok (map f ss)" and "claimed_ids ss \<subseteq> claimed_ids (map f ss)"
    and "\<exists>s \<in> set ss. P s \<Longrightarrow> t \<notin> claimed_ids ss \<and> t \<in> claimed_ids (map f ss)"
proof -
  have ids: "map (tsId \<circ> f) ss = map tsId ss" by (simp add: f)
  have armed: "P s \<Longrightarrow> s \<in> set ss \<Longrightarrow> tsRequest s = None" for s
    using P ok by (auto simp: sessions_ok_def)
  have same: "s = s'" if "tsId s = tsId s'" "s \<in> set ss" "s' \<in> set ss" for s s'
    using that ok by (auto simp: sessions_ok_def distinct_map inj_on_def)
  show "sessions_ok (map f ss)"
    unfolding sessions_ok_def one_capture_each_def
  proof (intro conjI ballI impI)
    show "distinct (map tsId (map f ss))" using ok by (simp add: sessions_ok_def ids)
  next
    fix a b
    assume ab: "a \<in> set (map f ss)" "b \<in> set (map f ss)"
      and eq: "tsRequest a = tsRequest b \<and> tsRequest a \<noteq> None"
    obtain x where x: "x \<in> set ss" "a = f x" using ab(1) by auto
    obtain y where y: "y \<in> set ss" "b = f y" using ab(2) by auto
    have "Some r \<noteq> tsRequest x" "Some r \<noteq> tsRequest y" using new x y by auto
    moreover have "P x \<Longrightarrow> P y \<Longrightarrow> x = y" using same [of x y] P [of x] P [of y] x y by simp
    moreover have "tsRequest x = tsRequest y \<Longrightarrow> tsRequest x \<noteq> None \<Longrightarrow> x = y"
      using one_captureD [of ss x y] ok x y by (simp add: sessions_ok_def)
    ultimately have "x = y" using eq x y f(2) [of x] f(2) [of y] by metis
    then show "a = b" using x y by simp
  next
    fix a assume "a \<in> set (map f ss)" "tsStatus a = TS_ARMED"
    then obtain x where x: "x \<in> set ss" "a = f x" "tsStatus (f x) = TS_ARMED" by auto
    then have "\<not> P x" using f(3) by blast
    with x f(4) ok show "tsRequest a = None" by (auto simp: sessions_ok_def)
  qed
  show "claimed_ids ss \<subseteq> claimed_ids (map f ss)"
  proof
    fix i assume "i \<in> claimed_ids ss"
    then obtain s where "s \<in> set ss" "tsRequest s \<noteq> None" "tsId s = i" by (auto simp: claimed_ids_def)
    then have "f s \<in> {s \<in> set (map f ss). tsRequest s \<noteq> None}" "tsId (f s) = i" by (simp_all add: f)
    then show "i \<in> claimed_ids (map f ss)" unfolding claimed_ids_def by (intro image_eqI) simp_all
  qed
  show "t \<notin> claimed_ids ss \<and> t \<in> claimed_ids (map f ss)" if ex: "\<exists>s \<in> set ss. P s"
  proof -
    obtain s where s: "s \<in> set ss" "P s" using ex by blast
    have "t \<notin> claimed_ids ss"
      using same s P [of s] armed [of s] by (fastforce simp: claimed_ids_def)
    moreover have "f s \<in> {s \<in> set (map f ss). tsRequest s \<noteq> None}" "tsId (f s) = t"
      using s P [of s] by (simp_all add: f)
    ultimately show ?thesis unfolding claimed_ids_def by (blast intro: image_eqI [OF sym])
  qed
qed

lemma claim_inv:
  assumes inv: "trace_inv w"
  shows "trace_inv (claim_update c r explicit now ok w)"
proof -
  have miss: "trace_inv (w\<lparr>claims := claims w @ [(c, t, False)]\<rparr>)" for t
    using inv by (simp add: trace_inv_def owners_def)
  have hit: "trace_inv (update_sessions (claimable c t now)
      (\<lambda>s. s\<lparr>tsStatus := TS_CAPTURING, tsRequest := Some r, tsStarted := Some now\<rparr>) w
        \<lparr>claims := claims w @ [(c, t, length (filter (claimable c t now) (sessions w)) = 1)]\<rparr>)"
    (is "trace_inv (_\<lparr>claims := claims w @ [(c, t, ?n = 1)]\<rparr>)")
    if new: "Some r \<notin> tsRequest ` set (sessions w)" for t
  proof -
    define f where "f = (\<lambda>s :: trace_session. if claimable c t now s
      then s\<lparr>tsStatus := TS_CAPTURING, tsRequest := Some r, tsStarted := Some now\<rparr> else s)"
    have ok: "sessions_ok (sessions w)" using inv by (simp add: trace_inv_def)
    have P: "claimable c t now s \<Longrightarrow> tsId s = t \<and> tsStatus s = TS_ARMED" for s by (simp add: claimable_def)
    note rows = claim_rows [of "sessions w" r "claimable c t now" t f, OF ok new P]
    have f: "sessions_ok (map f (sessions w))" "claimed_ids (sessions w) \<subseteq> claimed_ids (map f (sessions w))"
      "\<exists>s \<in> set (sessions w). claimable c t now s \<Longrightarrow>
         t \<notin> claimed_ids (sessions w) \<and> t \<in> claimed_ids (map f (sessions w))"
      by (rule rows; simp add: f_def)+
    have "?n = 1 \<Longrightarrow> \<exists>s \<in> set (sessions w). claimable c t now s"
      by (metis One_nat_def Zero_not_Suc filter_empty_conv list.size(3))
    with f(3) have "?n = 1 \<Longrightarrow> t \<notin> claimed_ids (sessions w) \<and> t \<in> claimed_ids (map f (sessions w))" by blast
    then show ?thesis
      using inv f(1,2) by (auto simp: trace_inv_def owners_def update_sessions_def f_def [symmetric])
  qed
  show ?thesis
    using inv miss hit by (auto simp: claim_update_def Let_def update_sessions_def split: option.split)
qed

lemma removed_claim:
  assumes "i < length (claims w)" and "claims w ! i = (c, t, hit)"
  shows "mset (owners (w\<lparr>claims := take i (claims w) @ drop (Suc i) (claims w)\<rparr>)) + (if hit then {#t#} else {#})
     = mset (owners w)"
proof -
  have "claims w = take i (claims w) @ (c, t, hit) # drop (Suc i) (claims w)"
    using id_take_nth_drop [OF assms(1)] assms(2) by simp
  from arg_cong [OF this, of "filter (snd \<circ> snd)"]
  have "filter (snd \<circ> snd) (claims w) = filter (snd \<circ> snd) (take i (claims w)) @
      (if hit then [(c, t, hit)] else []) @ filter (snd \<circ> snd) (drop (Suc i) (claims w))"
    by (simp only: filter_append filter.simps comp_apply snd_conv) (simp split: if_split)
  then show ?thesis by (simp add: owners_def)
qed

lemma finish_inv:
  assumes inv: "trace_inv w"
  shows "trace_inv (claim_finish i w)"
proof (cases "length (claims w) \<le> i")
  case False
  obtain c t hit where cl: "claims w ! i = (c, t, hit)" by (cases "claims w ! i")
  let ?w1 = "w\<lparr>claims := take i (claims w) @ drop (Suc i) (claims w)\<rparr>"
  define ow where "ow = owners ?w1"
  have ms: "mset ow + (if hit then {#t#} else {#}) = mset (owners w)"
    unfolding ow_def using removed_claim cl False by (metis not_le_imp_less)
  have own: "owners (claim_finish i w) = (if hit then map reTrace (recorders w) @ t # map (fst \<circ> snd) (filter (snd \<circ> snd) (claims ?w1)) else ow)"
    using False cl by (simp add: claim_finish_def Let_def owners_def ow_def)
  have "mset (owners (claim_finish i w)) = mset (owners w)"
    unfolding own using ms by (auto simp: ow_def owners_def)
  then have "distinct (owners (claim_finish i w))" "set (owners (claim_finish i w)) = set (owners w)"
    using inv by (metis mset_eq_imp_distinct_iff trace_inv_def, metis mset_eq_setD)
  moreover have "events_ok (recorders w) es \<Longrightarrow> events_ok (recorders w @ rs) es" for es rs
    by (fastforce simp: events_ok_def)
  ultimately show ?thesis
    using inv False cl by (auto simp: trace_inv_def claim_finish_def Let_def)
next
  case True
  then show ?thesis using inv by (simp add: claim_finish_def)
qed

subsection \<open>The recorder\<close>

lemma map_update_same: "f x = f (xs ! i) \<Longrightarrow> map f (xs[i := x]) = map f xs"
  by (cases "i < length xs") (auto simp: map_update list_update_same_conv list_update_beyond)

lemma update_mem:
  assumes "r0 \<in> set rs"
  shows "r0 \<in> set (rs[i := r]) \<or> r \<in> set (rs[i := r]) \<and> r0 = rs ! i"
proof -
  obtain k where k: "k < length rs" "rs ! k = r0" using assms by (metis in_set_conv_nth)
  then have "rs[i := r] ! k \<in> set (rs[i := r])" by (intro nth_mem) simp
  then show ?thesis using k by (cases "k = i") simp_all
qed

lemma events_update:
  assumes "events_ok rs es" and "reTrace r = reTrace (rs ! i)" and "reSequence (rs ! i) \<le> reSequence r"
  shows "events_ok (rs[i := r]) es"
proof -
  have "\<exists>r' \<in> set (rs[i := r]). reTrace r' = t \<and> 1 \<le> n \<and> n \<le> reSequence r'"
    if ex: "\<exists>r0 \<in> set rs. reTrace r0 = t \<and> 1 \<le> n \<and> n \<le> reSequence r0" for t n
  proof -
    obtain r0 where r0: "r0 \<in> set rs" "reTrace r0 = t" "1 \<le> n" "n \<le> reSequence r0" using ex by blast
    from update_mem [OF r0(1), of i r] show ?thesis
    proof
      assume "r0 \<in> set (rs[i := r])"
      then show ?thesis using r0 by blast
    next
      assume "r \<in> set (rs[i := r]) \<and> r0 = rs ! i"
      then show ?thesis using r0 assms(2,3) by (intro bexI [of _ r]) auto
    qed
  qed
  then show ?thesis using assms(1) unfolding events_ok_def by blast
qed

lemma recorders_inv:
  assumes inv: "trace_inv w"
    and same: "sessions w' = sessions w" "claims w' = claims w" "closings w' = closings w"
    and ids: "map reTrace (recorders w') = map reTrace (recorders w)"
    and ev: "events_ok (recorders w') (traceEvents w')"
  shows "trace_inv w'"
proof -
  have "length (recorders w') = length (recorders w)" using ids by (rule map_eq_imp_length_eq)
  moreover have "owners w' = owners w" using same ids by (simp add: owners_def)
  ultimately show ?thesis using inv same ev by (simp add: trace_inv_def)
qed

lemma event_inv:
  assumes inv: "trace_inv w"
  shows "trace_inv (record_event i phase kind ok w)"
proof (cases "length (recorders w) \<le> i \<or> reClosed (recorders w ! i)")
  case False
  let ?r = "recorders w ! i"
  let ?rs = "(recorders w)[i := ?r\<lparr>reSequence := reSequence ?r + 1\<rparr>]"
  have ids: "map reTrace ?rs = map reTrace (recorders w)" by (simp add: map_update_same)
  have ev: "events_ok ?rs (traceEvents w)"
    using inv by (intro events_update) (simp_all add: trace_inv_def)
  have "?r\<lparr>reSequence := reSequence ?r + 1\<rparr> \<in> set ?rs" using False by (simp add: set_update_memI)
  then have "events_ok ?rs (traceEvents w @ [e])"
    if "teTrace e = reTrace ?r" "teSequence e = reSequence ?r + 1"
      "\<not> (\<exists>e' \<in> set (traceEvents w). teTrace e' = teTrace e \<and> teSequence e' = teSequence e)" for e
    using that
  proof -
    assume e: "teTrace e = reTrace ?r" "teSequence e = reSequence ?r + 1"
      and new: "\<not> (\<exists>e' \<in> set (traceEvents w). teTrace e' = teTrace e \<and> teSequence e' = teSequence e)"
      and mem: "?r\<lparr>reSequence := reSequence ?r + 1\<rparr> \<in> set ?rs"
    have "\<exists>r \<in> set ?rs. reTrace r = teTrace e \<and> 1 \<le> teSequence e \<and> teSequence e \<le> reSequence r"
      by (rule bexI [OF _ mem]) (simp add: e)
    then show ?thesis using ev new unfolding events_ok_def by auto
  qed
  then show ?thesis
    using False ev ids by (intro recorders_inv [OF inv]) (auto simp: record_event_def Let_def)
qed (use inv in \<open>auto simp: record_event_def\<close>)

lemma record_event_length: "length (recorders (record_event i phase kind ok w)) = length (recorders w)"
  by (simp add: record_event_def Let_def)

lemma close_begin_inv:
  assumes "trace_inv w" and "st \<noteq> TS_ARMED"
  shows "trace_inv (close_begin i st ok w)"
proof -
  have "trace_inv v \<Longrightarrow> i < length (recorders v) \<Longrightarrow> trace_inv (v\<lparr>closings := closings v @ [(i, st)]\<rparr>)" for v
    using assms(2) unfolding trace_inv_def owners_def by auto
  then show ?thesis
    using assms(1) event_inv record_event_length by (simp add: close_begin_def Let_def)
qed

lemma close_end_inv:
  assumes inv: "trace_inv w"
  shows "trace_inv (close_end k now ok w)"
proof (cases "length (closings w) \<le> k")
  case False
  obtain i st where cl: "closings w ! k = (i, st)" by (cases "closings w ! k")
  then have mem: "(i, st) \<in> set (closings w)" using False by (metis nth_mem not_le_imp_less)
  let ?w1 = "w\<lparr>closings := take k (closings w) @ drop (Suc k) (closings w),
       recorders := (recorders w)[i := (recorders w ! i)\<lparr>reClosed := True\<rparr>]\<rparr>"
  have sub: "set (take k (closings w) @ drop (Suc k) (closings w)) \<subseteq> set (closings w)"
    by (auto dest: in_set_takeD in_set_dropD)
  have "map reTrace (recorders ?w1) = map reTrace (recorders w)" by (simp add: map_update_same)
  moreover have "events_ok (recorders ?w1) (traceEvents w)"
    using inv by (simp add: trace_inv_def events_update)
  ultimately have "trace_inv (w\<lparr>recorders := recorders ?w1\<rparr>)"
    by (intro recorders_inv [OF inv]) simp_all
  then have "trace_inv ?w1"
    using sub by (auto simp: trace_inv_def owners_def)
  moreover have "harmless (\<lambda>s. if tsId s = t then s\<lparr>tsStatus := st, tsCompleted := Some now\<rparr> else s)" for t
    using inv mem by (auto simp: harmless_def trace_inv_def)
  ultimately show ?thesis
    using False cl update_harmless [of ?w1] by (simp add: close_end_def Let_def)
qed (use inv in \<open>simp add: close_end_def\<close>)

subsection \<open>Reachable worlds\<close>

lemma fail_writes_harmless:
  "harmless (\<lambda>s. if P s then s\<lparr>tsStatus := TS_EXPIRED\<rparr> else s)"
  "harmless (\<lambda>s. if P s then s\<lparr>tsStatus := TS_CANCELLED\<rparr> else s)"
  by (simp_all add: harmless_def)

lemma trace_step_inv: "trace_step w w' \<Longrightarrow> trace_inv w \<Longrightarrow> trace_inv w'"
proof (induction rule: trace_step.induct)
  case (Hydrate w now)
  then show ?case
    by (simp add: hydrateArmedCoreTraces_def Let_def update_harmless fail_writes_harmless)
next
  case (CancelArmed w c)
  then show ?case by (simp add: cancel_armed_def update_harmless fail_writes_harmless)
next
  case (Create t w c now)
  then show ?case by (simp add: create_inv)
next
  case (Arm w t c now)
  then show ?case by (simp add: armRoute_def armCoreTrace_def)
next
  case (ArmFailed w t)
  then show ?case by (simp add: mark_cancelled_def update_harmless fail_writes_harmless)
next
  case (CancelCheck w t c)
  then show ?case by (simp add: cancel_check_def)
next
  case (Disarm w c t)
  then show ?case by (simp add: disarmCoreTrace_def)
next
  case (CancelWrite t w)
  then show ?case by (simp add: mark_cancelled_def update_harmless fail_writes_harmless)
next
  case (CloseBegin st w i ok)
  then show ?case by (auto intro: close_begin_inv)
qed (simp_all add: claim_inv finish_inv event_inv close_end_inv)

lemma trace_steps_inv: "trace_step\<^sup>*\<^sup>* w w' \<Longrightarrow> trace_inv w \<Longrightarrow> trace_inv w'"
  by (induction rule: rtranclp_induct) (auto intro: trace_step_inv)

lemma reachable_trace_inv: "trace_reachable w \<Longrightarrow> trace_inv w"
  unfolding trace_reachable_def by (rule trace_steps_inv [OF _ trace_inv_init])

lemma distinct_prefix: "distinct (xs @ ys) \<Longrightarrow> distinct xs"
  by simp

text \<open>
  C23. However arming, cancelling, restarting, claiming and recording interleave: a capture is
  recorded by at most one recorder, a request is captured by at most one capture, and the
  events of a capture carry different numbers, each counted by its recorder.
\<close>

theorem capture_belongs_to_one_request:
  assumes "trace_reachable w"
  shows "distinct (map reTrace (recorders w)) \<and>
     (\<forall>s \<in> set (sessions w). \<forall>s' \<in> set (sessions w).
        tsRequest s = tsRequest s' \<and> tsRequest s \<noteq> None \<longrightarrow> s = s') \<and>
     (\<forall>r \<in> set (recorders w). \<exists>s \<in> set (sessions w). tsId s = reTrace r \<and> tsRequest s \<noteq> None) \<and>
     distinct (map (\<lambda>e. (teTrace e, teSequence e)) (traceEvents w)) \<and>
     (\<forall>e \<in> set (traceEvents w). \<exists>r \<in> set (recorders w).
        reTrace r = teTrace e \<and> 1 \<le> teSequence e \<and> teSequence e \<le> reSequence r)"
proof -
  have inv: "trace_inv w" using assms by (rule reachable_trace_inv)
  have "reTrace r \<in> claimed_ids (sessions w)" if "r \<in> set (recorders w)" for r
    using inv that by (auto simp: trace_inv_def owners_def)
  then have "\<forall>r \<in> set (recorders w). \<exists>s \<in> set (sessions w). tsId s = reTrace r \<and> tsRequest s \<noteq> None"
    unfolding claimed_ids_def by fastforce
  moreover have "distinct (map reTrace (recorders w))"
    using inv distinct_prefix unfolding trace_inv_def owners_def by blast
  ultimately show ?thesis
    using inv unfolding trace_inv_def sessions_ok_def one_capture_each_def events_ok_def by blast
qed

text \<open>The run of a capture that is cancelled between its claim and its end.\<close>

definition raced_cancel :: trace_world where
  "raced_cancel =
     mark_cancelled ''t''
       (record_event 0 ''ingress'' ''request.received'' True
         (claim_finish 0
           (claim_update ''c'' ''r'' None 1 True
             (cancel_check ''t'' ''c'' (armCoreTrace ''c'' ''t'' (create_session ''t'' ''c'' 0 trace_init))))))"

lemma arm_route_armed:
  "find (\<lambda>s. tsId s = t \<and> tsCustomer s = c \<and> tsStatus s = TS_ARMED \<and> tsExpires s > now) (sessions w) \<noteq> None \<Longrightarrow>
     c \<noteq> [] \<Longrightarrow> snd (armRoute t c now w) = armCoreTrace c t w"
  by (auto simp: armRoute_def)

lemma raced_cancel_reachable: "trace_reachable raced_cancel"
proof -
  let ?w1 = "create_session ''t'' ''c'' 0 trace_init"
  let ?w2 = "armCoreTrace ''c'' ''t'' ?w1"
  let ?w3 = "cancel_check ''t'' ''c'' ?w2"
  let ?w4 = "claim_update ''c'' ''r'' None 1 True ?w3"
  let ?w5 = "claim_finish 0 ?w4"
  let ?w6 = "record_event 0 ''ingress'' ''request.received'' True ?w5"
  have "trace_step trace_init ?w1" by (rule trace_step.Create) (simp add: trace_init_def)
  moreover have "snd (armRoute ''t'' ''c'' 0 ?w1) = ?w2"
    by (rule arm_route_armed) (simp_all add: create_session_def trace_init_def TRACE_TTL_MS_def)
  then have "trace_step ?w1 ?w2" using trace_step.Arm [of ?w1 "''t''" "''c''" 0] by simp
  moreover have "trace_step ?w2 ?w3" "trace_step ?w3 ?w4" "trace_step ?w4 ?w5" "trace_step ?w5 ?w6"
    by (rule trace_step.CancelCheck trace_step.Claim trace_step.ClaimFinish trace_step.Event)+
  moreover have "''t'' \<in> set (cancelling ?w6)" by code_simp
  then have "trace_step ?w6 raced_cancel" unfolding raced_cancel_def by (rule trace_step.CancelWrite)
  ultimately show ?thesis
    unfolding trace_reachable_def by (meson converse_rtranclp_into_rtranclp rtranclp.rtrancl_refl)
qed

theorem capture_belongs_to_one_request_witness:
  "distinct (map reTrace (recorders raced_cancel)) \<and>
     distinct (map (\<lambda>e. (teTrace e, teSequence e)) (traceEvents raced_cancel)) \<and>
     length (recorders raced_cancel) = 1 \<and> length (traceEvents raced_cancel) = 1"
proof -
  have "length (recorders raced_cancel) = 1" "length (traceEvents raced_cancel) = 1"
    by code_simp+
  then show ?thesis using capture_belongs_to_one_request [OF raced_cancel_reachable] by blast
qed

text \<open>
  The cancellation is answered as done while the request goes on being recorded, and the
  end of the request turns the cancelled capture into a completed one.
\<close>

lemma cancelled_capture_completes:
  "trace_reachable raced_cancel \<and>
   map tsStatus (sessions raced_cancel) = [TS_CANCELLED] \<and>
   map tsStatus (sessions (close_end 0 5 True (close_begin 0 TS_COMPLETED True raced_cancel))) = [TS_COMPLETED] \<and>
   map teKind (traceEvents (close_begin 0 TS_COMPLETED True raced_cancel)) = [''request.received'', ''request.completed'']"
proof -
  have "map tsStatus (sessions raced_cancel) = [TS_CANCELLED]" by code_simp
  moreover have "map tsStatus (sessions (close_end 0 5 True (close_begin 0 TS_COMPLETED True raced_cancel))) = [TS_COMPLETED]"
    by code_simp
  moreover have "map teKind (traceEvents (close_begin 0 TS_COMPLETED True raced_cancel))
      = [''request.received'', ''request.completed'']" by code_simp
  ultimately show ?thesis using raced_cancel_reachable by simp
qed

text \<open>A claim that the database does not answer loses the capture: it stays armed, and no request takes it.\<close>

lemma failed_claim_disarms:
  "let w = claim_finish 0 (claim_update ''c'' ''r'' None 1 False
        (armCoreTrace ''c'' ''t'' (create_session ''t'' ''c'' 0 trace_init)))
   in map tsStatus (sessions w) = [TS_ARMED] \<and> armedByCustomer w ''c'' = None"
  by code_simp

end
