(* ===== verification/Spec2Isabelle.thy ===== *)
theory Spec2Isabelle
  imports ChatWireExamples RoutingProps EngineRegistry PaymentsProps ServiceLevels SpeechClientsProps DiarizationProps VoiceStatus HubRoutes Provisioning EngineRequests KnowledgeProps RedactionProps DownloadLiveness WeightsProps AccountKeys AnusandhanProps GeminiVoiceProps ModelAccess PoolActionsProps Reads MarkdownProps TrustProps CoreTraceProps VoiceProps
begin

text \<open>
  \<^bold>\<open>A verification development of ModelForge\<close>

  ModelForge is a self-hosted platform for language models. A gateway (\<^verbatim>\<open>apps/gateway\<close>, an Express server) offers
  an OpenAI-compatible API: it authenticates a customer by an API key, limits rate, concurrency and
  tokens, routes a request to a model under a policy, may ground it on the customer's documents, runs it on a pool of
  local \<^verbatim>\<open>llama-server\<close> processes or on a remote provider, meters it, bills it and signs a receipt. A web application
  (\<^verbatim>\<open>apps/web\<close>, Next.js) is the control plane: accounts, keys, knowledge bases, the chat page, invoices and the
  administration of models. Both share a database (\<^verbatim>\<open>packages/db\<close>) and the packages \<^verbatim>\<open>platform\<close>, \<^verbatim>\<open>engine\<close> and \<^verbatim>\<open>billing\<close>.

  \<^bold>\<open>How the code is modelled\<close>

  Every function of the code is a HOL function over explicit state; the theories are named after parts of the
  program, and \<^verbatim>\<open>X\<close> holds the definitions while \<^verbatim>\<open>XProps\<close> holds what is proved about them. Each theory names the files it
  translates.

  \<^item> Database tables are lists of records in insertion order with unique keys (\<^verbatim>\<open>table_find\<close>, \<^verbatim>\<open>table_insert\<close> in
    \<^verbatim>\<open>Prelude\<close>); a \<^verbatim>\<open>Map\<close> of the code is a list of pairs or a HOL map.
  \<^item> A thrown error is the left side of a sum (\<^verbatim>\<open>result\<close>); \<^verbatim>\<open>null\<close> and \<^verbatim>\<open>undefined\<close> are \<^verbatim>\<open>None\<close>, told apart
    where the code tells them apart.
  \<^item> JavaScript runs one piece of code at a time and switches at each \<^verbatim>\<open>await\<close>. Where interleaving matters the pieces
    between the awaits are steps, either of an inductive relation (\<^verbatim>\<open>CoreTrace.trace_step\<close>, \<^verbatim>\<open>VoiceSetupProps.voice_step\<close>) or of a
    step function folded over an arbitrary list of operations.
  \<^item> Integers are \<^verbatim>\<open>int\<close> (the code uses \<^verbatim>\<open>bigint\<close> and safe integers), fractional numbers are exact rationals where the code
    has doubles; \<^verbatim>\<open>NaN\<close> and infinities appear where the code can meet them (\<^verbatim>\<open>js_num\<close>, optional numbers).
  \<^item> Protocol and configuration text is a list of 8-bit characters; text of users is a list of UTF-16 code units
    (\<^verbatim>\<open>Rag.utext\<close>), as \<^verbatim>\<open>length\<close> and \<^verbatim>\<open>slice\<close> see it. Regular expressions are written out as scans, except those of the
    redaction, which have a backtracking matcher of their own.
  \<^item> What is not code of the repository is a parameter: cryptography, \<^verbatim>\<open>JSON.parse\<close> of foreign answers, Unicode tables,
    \<^verbatim>\<open>localeCompare\<close>, the clock, random ids, Redis, the Stripe package, the network, processes and the file system.
    What a property needs of a parameter is a hypothesis of it, and its witness instantiates it.

  \<^bold>\<open>Interfaces\<close>

  \<^verbatim>\<open>Prelude\<close> states the contract of a stateful component as locales: \<^verbatim>\<open>guarded_system\<close> (operations that keep an invariant when
  they are admissible), \<^verbatim>\<open>invariant_system\<close> (all are), \<^verbatim>\<open>idempotent_system\<close> (a recorded operation changes nothing when it is run
  again). They are interpreted on the components: \<^verbatim>\<open>ledger\<close> (\<^verbatim>\<open>QuotaInvariants\<close>), \<^verbatim>\<open>limiter\<close> (\<^verbatim>\<open>GatekeepingProps\<close>), \<^verbatim>\<open>accounts\<close>
  (\<^verbatim>\<open>AccountsProps\<close>), \<^verbatim>\<open>engine\<close> (\<^verbatim>\<open>ModelPoolInv\<close>), \<^verbatim>\<open>load_lock\<close> (\<^verbatim>\<open>EngineRequests\<close>), \<^verbatim>\<open>downloads\<close> and \<^verbatim>\<open>download_runs\<close>
  (\<^verbatim>\<open>DownloadProps\<close>, \<^verbatim>\<open>DownloadLiveness\<close>), \<^verbatim>\<open>admin\<close> and \<^verbatim>\<open>prices\<close> (\<^verbatim>\<open>ModelAdminProps\<close>, \<^verbatim>\<open>ModelPricing\<close>), \<^verbatim>\<open>knowledge\<close>
  (\<^verbatim>\<open>KnowledgeProps\<close>), \<^verbatim>\<open>slo\<close> (\<^verbatim>\<open>ServiceLevels\<close>), \<^verbatim>\<open>receipts_sys\<close> (\<^verbatim>\<open>TrustProps\<close>), \<^verbatim>\<open>payments\<close> (\<^verbatim>\<open>PaymentsProps\<close>) and
  \<^verbatim>\<open>stt_clients\<close> (\<^verbatim>\<open>SpeechClientsProps\<close>). Their facts carry the properties about arbitrary sequences of operations.

  \<^bold>\<open>Admission and quota\<close>

  \<^item> \<^verbatim>\<open>QuotaLedger\<close>, \<^verbatim>\<open>QuotaInvariants\<close>, \<^verbatim>\<open>QuotaUsage\<close>: the token ledger (\<^verbatim>\<open>lib/quotaLedger.ts\<close>, \<^verbatim>\<open>lib/usage.ts\<close>), with
    transactions that may conflict and be retried. Totals are the sums of the log, operations are idempotent, retries
    are equivalent to a serial run, a request is counted once, admission keeps the limit.
  \<^item> \<^verbatim>\<open>Gatekeeping\<close>, \<^verbatim>\<open>GatekeepingProps\<close>: the middlewares (\<^verbatim>\<open>middleware/\<close>). Slots never leak and are never exceeded.
  \<^item> \<^verbatim>\<open>Accounts\<close>, \<^verbatim>\<open>AccountsProps\<close>, \<^verbatim>\<open>AccountKeys\<close>: registration, sessions and keys of the web application; a key opens
    its owner's account only, and stays shut once revoked.

  \<^bold>\<open>From a request to an answer\<close>

  \<^item> \<^verbatim>\<open>Registry\<close>, \<^verbatim>\<open>Routing\<close>, \<^verbatim>\<open>RoutingProps\<close>: the model rows, the policy evaluator and the resolver
    (\<^verbatim>\<open>packages/platform/src/policy.ts\<close>, \<^verbatim>\<open>lib/policyRouter.ts\<close>); \<^verbatim>\<open>Redaction\<close>, \<^verbatim>\<open>RedactionProps\<close>: the redaction it applies
    (\<^verbatim>\<open>pii.ts\<close>).
  \<^item> \<^verbatim>\<open>Messages\<close>, \<^verbatim>\<open>Streaming\<close>, \<^verbatim>\<open>StreamingProps\<close>: the schema of \<^verbatim>\<open>packages/engine\<close>, the decoding of both backends and the
    consumption of a stream.
  \<^item> \<^verbatim>\<open>ModelPool\<close>, \<^verbatim>\<open>ModelPoolProps\<close>, \<^verbatim>\<open>ModelPoolInv\<close>, \<^verbatim>\<open>EngineRegistry\<close>, \<^verbatim>\<open>EngineRequests\<close>: the process pool
    (\<^verbatim>\<open>engine/llamaServer.ts\<close>), the facade (\<^verbatim>\<open>engine/index.ts\<close>), payloads, load lock and the wait for health.
  \<^item> \<^verbatim>\<open>Rag\<close>, \<^verbatim>\<open>RagProps\<close>, \<^verbatim>\<open>Retrieval\<close>, \<^verbatim>\<open>RetrievalProps\<close>, \<^verbatim>\<open>Knowledge\<close>, \<^verbatim>\<open>KnowledgeProps\<close>: passages, retrieval and the
    knowledge bases; tenants stay apart, failed and deleted documents are invisible.
  \<^item> \<^verbatim>\<open>ChatHandler\<close>, \<^verbatim>\<open>ChatProps\<close>, \<^verbatim>\<open>ChatExamples\<close>: the chat completion of \<^verbatim>\<open>routes/v1.ts\<close> as stages, each of which may throw; what
    it leaves in the ledger. \<^verbatim>\<open>ChatWire\<close>, \<^verbatim>\<open>ChatWireProps\<close>, \<^verbatim>\<open>ChatWireExamples\<close>: the events it writes and the reader of the
    browser (\<^verbatim>\<open>useChatStream.ts\<close>), end to end. \<^verbatim>\<open>Markdown\<close>, \<^verbatim>\<open>MarkdownProps\<close>: what the page shows of an answer.
  \<^item> \<^verbatim>\<open>CoreTrace\<close>, \<^verbatim>\<open>CoreTraceProps\<close>: diagnostic captures. \<^verbatim>\<open>Reads\<close>: what a customer can read of rows.

  \<^bold>\<open>Money and evidence\<close>

  \<^item> \<^verbatim>\<open>Billing\<close>, \<^verbatim>\<open>ServiceLevels\<close>, \<^verbatim>\<open>Payments\<close>, \<^verbatim>\<open>PaymentsProps\<close>: metering, invoices, credits and payment.
  \<^item> \<^verbatim>\<open>Canonical\<close>, \<^verbatim>\<open>CanonicalProps\<close>, \<^verbatim>\<open>Trust\<close>, \<^verbatim>\<open>TrustProps\<close>: canonical JSON with its round trip, signatures, receipts.

  \<^bold>\<open>Models\<close>

  \<^item> \<^verbatim>\<open>Credentials\<close>, \<^verbatim>\<open>ModelAdmin\<close>, \<^verbatim>\<open>ModelAdminProps\<close>, \<^verbatim>\<open>ModelPricing\<close>, \<^verbatim>\<open>ModelAccess\<close>: the administration of models, prices and
    provider keys, from the form to the request. \<^verbatim>\<open>PoolActions\<close>, \<^verbatim>\<open>PoolActionsProps\<close>: the infrastructure actions.
  \<^item> \<^verbatim>\<open>Downloads\<close>, \<^verbatim>\<open>DownloadProps\<close>, \<^verbatim>\<open>DownloadLiveness\<close>, \<^verbatim>\<open>HubCatalog\<close>, \<^verbatim>\<open>HubRoutes\<close>, \<^verbatim>\<open>Weights\<close>, \<^verbatim>\<open>WeightsProps\<close>: the
    download manager, the catalogue of the hub, the routes over both services, and the files of models.

  \<^bold>\<open>Voice\<close>

  \<^item> \<^verbatim>\<open>Voice\<close>, \<^verbatim>\<open>VoiceProps\<close>: transcripts and speakers. \<^verbatim>\<open>SpeechClients\<close>, \<^verbatim>\<open>SpeechClientsProps\<close>: the recognisers.
    \<^verbatim>\<open>Diarization\<close>, \<^verbatim>\<open>DiarizationProps\<close>: the local and the cloud diarization; a transcript survives any of their failures.
    \<^verbatim>\<open>VoiceSetup\<close>, \<^verbatim>\<open>VoiceSetupProps\<close>, \<^verbatim>\<open>VoiceStatus\<close>: installs, selection, readiness and retention.
    \<^verbatim>\<open>GeminiVoice\<close>, \<^verbatim>\<open>GeminiVoiceProps\<close>: the one-request pipeline.
  \<^item> \<^verbatim>\<open>Services\<close>, \<^verbatim>\<open>ServicesProps\<close>, \<^verbatim>\<open>ServicesExamples\<close>: voice uploads and graph queries with their bills. \<^verbatim>\<open>Anusandhan\<close>,
    \<^verbatim>\<open>AnusandhanProps\<close>: the API of one dedicated client.
  \<^item> \<^verbatim>\<open>Provisioning\<close>: the start of the gateway and the scripts that provision documents.

  \<^bold>\<open>Bounds\<close>

  No definition runs on fuel that a property could exhaust. Loops of the code are structural recursions or functions with a
  measure. Loops that wait for the world (polling a job, a file or a server) recurse over the list of what they observe,
  and \<^verbatim>\<open>None\<close> means that the list ended first; the theorems say how long a list is enough, from the waits of the code: 900
  looks for the cloud diarization, one per half second of the limit for a server. A download run ends within
  fifteen rounds (eight attempts, with a wait after each but the last). A Gemini run makes at most 64 requests. A transaction is tried at most three times, as in the code.

  \<^bold>\<open>Defects\<close>

  Where the code does not do what it means to, the model follows the code and a lemma exhibits it: for instance the
  second release after a commit (\<^verbatim>\<open>ChatExamples\<close>), the interleavings that break the memory budget (\<^verbatim>\<open>ModelPoolInv\<close>), receipts
  that the public route rejects (\<^verbatim>\<open>TrustProps\<close>), a download retried too early (\<^verbatim>\<open>DownloadProps\<close>), an early close that ends
  only one piece of a stream (\<^verbatim>\<open>SpeechClientsProps\<close>).

  \<^bold>\<open>Not modelled\<close>

  The React pages and components (they read rows, render them and submit forms to the modelled actions); the Rust
  inference engine and its gRPC client (another process; the default backend is the pool); the Python programs and the
  creation of processes; the wiring of Redis, BullMQ and Express; the audit log beyond the events the operations write; the
  validation of the environment by the zod package, except the switches; maintenance scripts, the seed and the tests. Of
  the chat handler, headers and trace payloads are left out. Times of creation and display columns that no operation reads are
  left out of the records.
\<close>

end
